(* ===== verification/Prelude.thy ===== *)
theory Prelude
  imports Main "HOL-Library.Sublist" "HOL-Library.Code_Target_Numeral"
begin

text \<open>
  What the components of the VeriIDE web front end share: the JavaScript string operations the
  source calls, plain objects and \<open>Map\<close>s as association lists in insertion order, \<open>Set\<close>s as
  repetition-free lists in insertion order, the interface locales of both containers, and the
  collections of rewrite rules the component theories use.

  Strings are lists of bytes (UTF-8 where a literal of the source is not ASCII). White space,
  upper and lower case are those of ASCII. An object is kept in insertion order; the front end uses
  no integer-like keys where the order of an object is observable.
\<close>

named_theorems js_eval \<open>definitions of the JavaScript library operations, for evaluation\<close>
named_theorems inv_intros \<open>an operation keeps an invariant\<close>

section \<open>Strings\<close>

definition js_is_ws :: "char \<Rightarrow> bool" where
  "js_is_ws c \<longleftrightarrow> c = CHR 0x20 \<or> c = CHR 0x09 \<or> c = CHR 0x0A \<or> c = CHR 0x0B \<or> c = CHR 0x0C \<or> c = CHR 0x0D"

text \<open>\<open>s.trim()\<close>\<close>

definition js_trim :: "string \<Rightarrow> string" where
  "js_trim s = rev (dropWhile js_is_ws (rev (dropWhile js_is_ws s)))"

text \<open>\<open>hay.includes(needle)\<close>\<close>

fun js_includes :: "string \<Rightarrow> string \<Rightarrow> bool" where
  "js_includes [] needle \<longleftrightarrow> needle = []"
| "js_includes (c # cs) needle \<longleftrightarrow> prefix needle (c # cs) \<or> js_includes cs needle"

definition js_in_range :: "char \<Rightarrow> char \<Rightarrow> char \<Rightarrow> bool" where
  "js_in_range lo hi c \<longleftrightarrow> (of_char lo :: nat) \<le> of_char c \<and> (of_char c :: nat) \<le> of_char hi"

definition js_lower_char :: "char \<Rightarrow> char" where
  "js_lower_char c = (if js_in_range CHR ''A'' CHR ''Z'' c then char_of (of_char c + 32 :: nat) else c)"

definition js_upper_char :: "char \<Rightarrow> char" where
  "js_upper_char c = (if js_in_range CHR ''a'' CHR ''z'' c then char_of (of_char c - 32 :: nat) else c)"

definition js_to_lower :: "string \<Rightarrow> string" where
  "js_to_lower s = map js_lower_char s"

definition js_to_upper :: "string \<Rightarrow> string" where
  "js_to_upper s = map js_upper_char s"

fun js_join :: "string \<Rightarrow> string list \<Rightarrow> string" where
  "js_join sep [] = []"
| "js_join sep [x] = x"
| "js_join sep (x # y # ys) = x @ sep @ js_join sep (y # ys)"

fun js_split :: "char \<Rightarrow> string \<Rightarrow> string list" where
  "js_split sep [] = [[]]"
| "js_split sep (c # cs) =
     (if c = sep then [] # js_split sep cs
      else (case js_split sep cs of [] \<Rightarrow> [[c]] | w # ws \<Rightarrow> (c # w) # ws))"

text \<open>A literal of the source that is not ASCII, by its UTF-8 bytes.\<close>

definition utf8 :: "nat list \<Rightarrow> string" where
  "utf8 bs = map char_of bs"

definition dash_text :: string where
  "dash_text = utf8 [226, 128, 148]"

definition middot :: string where
  "middot = utf8 [194, 183]"

definition is_digit :: "char \<Rightarrow> bool" where
  "is_digit c = js_in_range CHR ''0'' CHR ''9'' c"

definition is_ident_start :: "char \<Rightarrow> bool" where
  "is_ident_start c \<longleftrightarrow> js_in_range CHR ''A'' CHR ''Z'' c \<or> js_in_range CHR ''a'' CHR ''z'' c \<or> c = CHR ''_''"

definition is_ident_char :: "char \<Rightarrow> bool" where
  "is_ident_char c \<longleftrightarrow> is_ident_start c \<or> is_digit c"

definition digit_char :: "nat \<Rightarrow> char" where
  "digit_char d = char_of (48 + d)"

text \<open>\<open>String(n)\<close> of a non-negative integer.\<close>

fun show_nat :: "nat \<Rightarrow> string" where
  "show_nat n = (if n < 10 then [digit_char n] else show_nat (n div 10) @ [digit_char (n mod 10)])"

declare show_nat.simps [simp del]

definition show_int :: "int \<Rightarrow> string" where
  "show_int i = (if i < 0 then CHR ''-'' # show_nat (nat (- i)) else show_nat (nat i))"

declare js_is_ws_def [js_eval] js_trim_def [js_eval] js_in_range_def [js_eval]
  js_lower_char_def [js_eval] js_upper_char_def [js_eval] js_to_lower_def [js_eval]
  js_to_upper_def [js_eval] utf8_def [js_eval] dash_text_def [js_eval] middot_def [js_eval] is_digit_def [js_eval]
  is_ident_start_def [js_eval] is_ident_char_def [js_eval] digit_char_def [js_eval]
  show_nat.simps [js_eval] show_int_def [js_eval]

lemma js_includes_sublist: "js_includes hay needle \<longleftrightarrow> sublist needle hay"
  by (induction hay) (auto simp: sublist_Cons_right)

lemma js_trim_Nil [simp]: "js_trim [] = []"
  by (simp add: js_trim_def)

lemma dropWhile_hd: "dropWhile P xs = x # ys \<Longrightarrow> \<not> P x"
  by (induction xs) (auto split: if_splits)

lemma dropWhile_idem_front: "xs \<noteq> [] \<Longrightarrow> \<not> P (hd xs) \<Longrightarrow> dropWhile P xs = xs"
  by (cases xs) auto

lemma hd_dropWhile_rev:
  assumes "ys = rev (dropWhile P (rev xs))" and "ys \<noteq> []" and "xs \<noteq> []"
  shows "hd ys = hd xs"
proof -
  have "rev xs = takeWhile P (rev xs) @ dropWhile P (rev xs)"
    by simp
  then have "xs = ys @ rev (takeWhile P (rev xs))"
    using assms(1) by (metis rev_append rev_rev_ident)
  then show ?thesis
    using assms(2) by (metis hd_append2)
qed

lemma js_trim_idem [simp]: "js_trim (js_trim s) = js_trim s"
proof (cases "js_trim s")
  case (Cons c cs)
  define a where "a = dropWhile js_is_ws s"
  have trim: "js_trim s = rev (dropWhile js_is_ws (rev a))"
    by (simp add: js_trim_def a_def)
  have "a \<noteq> []"
    using trim Cons by auto
  moreover have "\<not> js_is_ws (hd a)"
    using calculation unfolding a_def by (rule hd_dropWhile)
  ultimately have "\<not> js_is_ws (hd (js_trim s))"
    using hd_dropWhile_rev [OF trim] Cons by simp
  then have front: "dropWhile js_is_ws (js_trim s) = js_trim s"
    using Cons by (intro dropWhile_idem_front) auto
  have "dropWhile js_is_ws (rev (js_trim s)) = rev (js_trim s)"
    by (simp add: trim dropWhile_idem)
  with front show ?thesis
    by (subst js_trim_def) simp
qed simp

lemma js_lower_char_idem: "js_lower_char (js_lower_char c) = js_lower_char c"
  by (auto simp: js_lower_char_def js_in_range_def)

lemma js_to_lower_idem [simp]: "js_to_lower (js_to_lower s) = js_to_lower s"
  by (simp add: js_to_lower_def js_lower_char_idem)

lemma js_includes_Nil [simp]: "js_includes s []"
  by (cases s) auto

lemma js_split_not_Nil [simp]: "js_split sep s \<noteq> []"
  by (cases s) (auto split: list.splits)

lemma js_join_Cons_char: "js_join sep ((c # w) # ws) = c # js_join sep (w # ws)"
  by (cases ws) auto

lemma js_join_split: "js_join [sep] (js_split sep s) = s"
proof (induction s)
  case (Cons c cs)
  obtain w ws where "js_split sep cs = w # ws"
    by (cases "js_split sep cs") auto
  with Cons show ?case
    by (auto simp: js_join_Cons_char)
qed simp

lemma js_split_no_sep: "sep \<notin> set w \<Longrightarrow> js_split sep w = [w]"
  by (induction w) auto

subsection \<open>Decimal numerals\<close>

lemma digit_char_inj: "a < 10 \<Longrightarrow> b < 10 \<Longrightarrow> digit_char a = digit_char b \<Longrightarrow> a = b"
  using arg_cong [of "digit_char a" "digit_char b" "of_char :: char \<Rightarrow> nat"]
  by (simp add: digit_char_def)

lemma show_nat_not_Nil [simp]: "show_nat n \<noteq> []"
  by (subst show_nat.simps) simp

lemma show_nat_length_ge2: "10 \<le> n \<Longrightarrow> 2 \<le> length (show_nat n)"
  by (subst show_nat.simps) (simp add: Suc_le_eq)

lemma show_nat_inj: "show_nat m = show_nat n \<Longrightarrow> m = n"
proof (induction m arbitrary: n rule: less_induct)
  case (less m)
  have step: "show_nat k = (if k < 10 then [digit_char k] else show_nat (k div 10) @ [digit_char (k mod 10)])" for k
    by (rule show_nat.simps)
  show ?case
  proof (cases "m < 10 \<or> n < 10")
    case True
    have "length (show_nat m) = length (show_nat n)"
      using less.prems by simp
    then have "m < 10 \<and> n < 10"
      using True step [of m] step [of n] show_nat_length_ge2 [of m] show_nat_length_ge2 [of n]
      by (auto split: if_splits)
    then show ?thesis
      using less.prems step [of m] step [of n] digit_char_inj by simp
  next
    case False
    then have "show_nat (m div 10) = show_nat (n div 10)" and "digit_char (m mod 10) = digit_char (n mod 10)"
      using less.prems step [of m] step [of n] by auto
    moreover have "m div 10 < m"
      using False by simp
    ultimately have "m div 10 = n div 10" and "m mod 10 = n mod 10"
      using less.IH digit_char_inj by auto
    then show ?thesis
      by (metis div_mult_mod_eq)
  qed
qed

lemma is_digit_digit_char: "d < 10 \<Longrightarrow> is_digit (digit_char d)"
  by (simp add: is_digit_def js_in_range_def digit_char_def)

lemma show_nat_digits: "c \<in> set (show_nat n) \<Longrightarrow> is_digit c"
proof (induction n rule: show_nat.induct)
  case (1 n)
  then show ?case
    using show_nat.simps [of n] by (auto simp: is_digit_digit_char split: if_splits)
qed

lemma dash_text_not_Nil [simp]: "dash_text \<noteq> []"
  by (simp add: dash_text_def utf8_def)

end
