(* ===== verification/Containers.thy ===== *)
theory Containers
  imports Prelude
begin

text \<open>
  JavaScript's plain objects and \<open>Map\<close>s (association lists in insertion order, a key at most once)
  and \<open>Set\<close>s (repetition-free lists in insertion order), behind the interface locales
  \<open>js_dict\<close>, \<open>js_ordered_dict\<close> and \<open>js_set\<close>. The lemmas about building a table or a set from
  the rows of a response are proved in the locales; the components use them through the
  interpretations \<open>obj\<close> and \<open>jset\<close>.
\<close>

section \<open>Interfaces\<close>

locale js_dict =
  fixes empty :: "'m"
    and get :: "'m \<Rightarrow> 'k \<Rightarrow> 'v option"
    and put :: "'k \<Rightarrow> 'v \<Rightarrow> 'm \<Rightarrow> 'm"
    and del :: "'k \<Rightarrow> 'm \<Rightarrow> 'm"
    and wf :: "'m \<Rightarrow> bool"
  assumes get_empty: "get empty k = None"
    and get_put: "wf m \<Longrightarrow> get (put k v m) j = (if j = k then Some v else get m j)"
    and get_del: "wf m \<Longrightarrow> get (del k m) j = (if j = k then None else get m j)"
    and wf_empty: "wf empty"
    and wf_put: "wf m \<Longrightarrow> wf (put k v m)"
    and wf_del: "wf m \<Longrightarrow> wf (del k m)"
begin

text \<open>A table filled row by row: the last row of a key wins, as in \<open>new Map(rows)\<close>.\<close>

lemma wf_put_all: "wf m \<Longrightarrow> wf (fold (\<lambda>r. put (key r) (val r)) rows m)"
  by (induction rows arbitrary: m) (auto simp: wf_put)

lemma get_put_all:
  "wf m \<Longrightarrow> get (fold (\<lambda>r. put (key r) (val r)) rows m) k =
     (case map_of (rev (map (\<lambda>r. (key r, val r)) rows)) k of Some v \<Rightarrow> Some v | None \<Rightarrow> get m k)"
proof (induction rows arbitrary: m)
  case (Cons r rows)
  then show ?case
    by (auto simp: wf_put get_put map_add_def split: option.splits)
qed simp

lemma get_build:
  "get (fold (\<lambda>r. put (key r) (val r)) rows empty) k = map_of (rev (map (\<lambda>r. (key r, val r)) rows)) k"
  by (simp add: get_put_all wf_empty get_empty split: option.splits)

lemma get_build_Some_in:
  assumes "get (fold (\<lambda>r. put (key r) (val r)) rows empty) k = Some v"
  shows "\<exists>r \<in> set rows. key r = k \<and> val r = v"
  using assms by (auto simp: get_build dest!: map_of_SomeD)

lemma get_build_None_iff:
  "get (fold (\<lambda>r. put (key r) (val r)) rows empty) k = None \<longleftrightarrow> k \<notin> key ` set rows"
  by (auto simp: get_build map_of_eq_None_iff image_iff)

lemma get_build_distinct:
  assumes "distinct (map key rows)" and "r \<in> set rows"
  shows "get (fold (\<lambda>r. put (key r) (val r)) rows empty) (key r) = Some (val r)"
proof -
  have "distinct (map fst (rev (map (\<lambda>r. (key r, val r)) rows)))"
    using assms(1) by (simp add: comp_def flip: rev_map)
  moreover have "(key r, val r) \<in> set (rev (map (\<lambda>r. (key r, val r)) rows))"
    using assms(2) by auto
  ultimately show ?thesis
    by (simp add: get_build)
qed

lemma get_build_iff:
  assumes "distinct (map key rows)"
  shows "get (fold (\<lambda>r. put (key r) (val r)) rows empty) k = Some v \<longleftrightarrow> (\<exists>r \<in> set rows. key r = k \<and> val r = v)"
  using get_build_Some_in get_build_distinct [OF assms] by blast

text \<open>A key that is put again and deleted.\<close>

lemma get_put_put: "wf m \<Longrightarrow> get (put k v (put k w m)) j = get (put k v m) j"
  by (simp add: get_put wf_put)

lemma get_del_put: "wf m \<Longrightarrow> get (del k (put k v m)) j = get (del k m) j"
  by (simp add: get_put get_del wf_put)

end

locale js_ordered_dict = js_dict empty get put del wf
  for empty :: "'m" and get :: "'m \<Rightarrow> 'k \<Rightarrow> 'v option" and put :: "'k \<Rightarrow> 'v \<Rightarrow> 'm \<Rightarrow> 'm"
    and del :: "'k \<Rightarrow> 'm \<Rightarrow> 'm" and wf :: "'m \<Rightarrow> bool" +
  fixes keys :: "'m \<Rightarrow> 'k list"
  assumes keys_empty: "keys empty = []"
    and keys_put: "wf m \<Longrightarrow> keys (put k v m) = (if k \<in> set (keys m) then keys m else keys m @ [k])"
    and keys_del: "wf m \<Longrightarrow> keys (del k m) = filter (\<lambda>j. j \<noteq> k) (keys m)"
    and keys_get: "wf m \<Longrightarrow> k \<in> set (keys m) \<longleftrightarrow> get m k \<noteq> None"
begin

lemma keys_distinct_put: "wf m \<Longrightarrow> distinct (keys m) \<Longrightarrow> distinct (keys (put k v m))"
  by (simp add: keys_put)

lemma keys_put_all:
  "wf m \<Longrightarrow> set (keys (fold (\<lambda>r. put (key r) (val r)) rows m)) = set (keys m) \<union> key ` set rows"
  by (induction rows arbitrary: m) (auto simp: keys_put wf_put)

end

locale js_set =
  fixes empty :: "'s"
    and has :: "'s \<Rightarrow> 'a \<Rightarrow> bool"
    and add :: "'a \<Rightarrow> 's \<Rightarrow> 's"
    and remove :: "'a \<Rightarrow> 's \<Rightarrow> 's"
    and elems :: "'s \<Rightarrow> 'a list"
    and wf :: "'s \<Rightarrow> bool"
  assumes elems_empty: "elems empty = []"
    and has_elems: "wf s \<Longrightarrow> has s x \<longleftrightarrow> x \<in> set (elems s)"
    and elems_add: "wf s \<Longrightarrow> elems (add x s) = (if has s x then elems s else elems s @ [x])"
    and elems_remove: "wf s \<Longrightarrow> elems (remove x s) = filter (\<lambda>y. y \<noteq> x) (elems s)"
    and elems_distinct: "wf s \<Longrightarrow> distinct (elems s)"
    and wf_empty: "wf empty"
    and wf_add: "wf s \<Longrightarrow> wf (add x s)"
    and wf_remove: "wf s \<Longrightarrow> wf (remove x s)"
begin

lemma has_add: "wf s \<Longrightarrow> has (add x s) y \<longleftrightarrow> y = x \<or> has s y"
  by (auto simp: has_elems wf_add elems_add)

lemma has_remove: "wf s \<Longrightarrow> has (remove x s) y \<longleftrightarrow> y \<noteq> x \<and> has s y"
  by (auto simp: has_elems wf_remove elems_remove)

lemma wf_add_all: "wf s \<Longrightarrow> wf (fold add xs s)"
  by (induction xs arbitrary: s) (auto simp: wf_add)

lemma has_add_all: "wf s \<Longrightarrow> has (fold add xs s) y \<longleftrightarrow> y \<in> set xs \<or> has s y"
  by (induction xs arbitrary: s) (auto simp: wf_add has_add)

lemma elems_build: "set (elems (fold add xs empty)) = set xs"
  using has_add_all [OF wf_empty] has_elems [OF wf_add_all [OF wf_empty]] has_elems [OF wf_empty]
  by (auto simp: elems_empty)

lemma elems_build_distinct: "distinct xs \<Longrightarrow> elems (fold add xs empty) = xs"
proof -
  have "distinct (elems s @ xs) \<Longrightarrow> wf s \<Longrightarrow> elems (fold add xs s) = elems s @ xs" for s
    by (induction xs arbitrary: s) (auto simp: elems_add has_elems wf_add)
  then show "distinct xs \<Longrightarrow> elems (fold add xs empty) = xs"
    by (simp add: wf_empty elems_empty)
qed

text \<open>Ticking an element twice restores the members.\<close>

lemma toggle_twice:
  assumes "wf s"
  defines "toggle \<equiv> \<lambda>x s. if has s x then remove x s else add x s"
  shows "has (toggle x (toggle x s)) y \<longleftrightarrow> has s y"
  using assms(1) by (auto simp: toggle_def has_add has_remove wf_add wf_remove)

end

section \<open>Plain objects and maps\<close>

type_synonym ('k, 'v) obj = "('k \<times> 'v) list"

definition obj_get :: "('k, 'v) obj \<Rightarrow> 'k \<Rightarrow> 'v option" where
  "obj_get o1 k = map_of o1 k"

fun obj_put :: "'k \<Rightarrow> 'v \<Rightarrow> ('k, 'v) obj \<Rightarrow> ('k, 'v) obj" where
  "obj_put k v [] = [(k, v)]"
| "obj_put k v ((j, w) # r) = (if j = k then (k, v) # r else (j, w) # obj_put k v r)"

definition obj_del :: "'k \<Rightarrow> ('k, 'v) obj \<Rightarrow> ('k, 'v) obj" where
  "obj_del k o1 = filter (\<lambda>p. fst p \<noteq> k) o1"

definition obj_keys :: "('k, 'v) obj \<Rightarrow> 'k list" where
  "obj_keys o1 = map fst o1"

definition obj_values :: "('k, 'v) obj \<Rightarrow> 'v list" where
  "obj_values o1 = map snd o1"

definition obj_wf :: "('k, 'v) obj \<Rightarrow> bool" where
  "obj_wf o1 \<longleftrightarrow> distinct (map fst o1)"

text \<open>\<open>Object.fromEntries\<close> and \<open>new Map\<close> of a list of rows.\<close>

definition obj_build :: "('r \<Rightarrow> 'k) \<Rightarrow> ('r \<Rightarrow> 'v) \<Rightarrow> 'r list \<Rightarrow> ('k, 'v) obj" where
  "obj_build key val rows = fold (\<lambda>r. obj_put (key r) (val r)) rows []"

lemma map_of_obj_put: "map_of (obj_put k v o1) = (map_of o1)(k \<mapsto> v)"
  by (induction k v o1 rule: obj_put.induct) (auto simp: fun_eq_iff)

lemma keys_obj_put:
  "map fst (obj_put k v o1) = (if k \<in> set (map fst o1) then map fst o1 else map fst o1 @ [k])"
  by (induction k v o1 rule: obj_put.induct) auto

lemma map_of_obj_del: "map_of (obj_del k o1) j = (if j = k then None else map_of o1 j)"
  by (induction o1) (auto simp: obj_del_def)

lemma keys_obj_del: "map fst (obj_del k o1) = filter (\<lambda>j. j \<noteq> k) (map fst o1)"
  by (induction o1) (auto simp: obj_del_def)

interpretation obj: js_ordered_dict "[]" obj_get obj_put obj_del obj_wf obj_keys
proof (unfold_locales, goal_cases)
  case 1
  show ?case by (simp add: obj_get_def)
next
  case (2 m k v j)
  show ?case by (simp add: obj_get_def map_of_obj_put)
next
  case (3 m k j)
  show ?case by (simp add: obj_get_def map_of_obj_del)
next
  case 4
  show ?case by (simp add: obj_wf_def)
next
  case (5 m k v)
  then show ?case by (simp add: obj_wf_def keys_obj_put)
next
  case (6 m k)
  then show ?case by (simp add: obj_wf_def keys_obj_del)
next
  case 7
  show ?case by (simp add: obj_keys_def)
next
  case (8 m k v)
  show ?case by (simp add: obj_keys_def keys_obj_put)
next
  case (9 m k)
  show ?case by (simp add: obj_keys_def keys_obj_del)
next
  case (10 m k)
  show ?case by (auto simp: obj_keys_def obj_get_def map_of_eq_None_iff)
qed

lemmas obj_build_get = obj.get_build [folded obj_build_def]
lemmas obj_build_in = obj.get_build_Some_in [folded obj_build_def]
lemmas obj_build_None_iff = obj.get_build_None_iff [folded obj_build_def]
lemmas obj_build_distinct = obj.get_build_distinct [folded obj_build_def]
lemmas obj_build_iff = obj.get_build_iff [folded obj_build_def]
lemmas obj_build_wf = obj.wf_put_all [OF obj.wf_empty, folded obj_build_def]

section \<open>Sets\<close>

type_synonym 'a jset = "'a list"

definition jset_has :: "'a jset \<Rightarrow> 'a \<Rightarrow> bool" where
  "jset_has s x \<longleftrightarrow> x \<in> set s"

definition jset_add :: "'a \<Rightarrow> 'a jset \<Rightarrow> 'a jset" where
  "jset_add x s = (if x \<in> set s then s else s @ [x])"

definition jset_remove :: "'a \<Rightarrow> 'a jset \<Rightarrow> 'a jset" where
  "jset_remove x s = filter (\<lambda>y. y \<noteq> x) s"

text \<open>\<open>new Set(xs)\<close>\<close>

definition jset_of :: "'a list \<Rightarrow> 'a jset" where
  "jset_of xs = fold jset_add xs []"

interpretation jset: js_set "[]" jset_has jset_add jset_remove "\<lambda>s. s" distinct
  by unfold_locales (auto simp: jset_has_def jset_add_def jset_remove_def)

lemmas jset_of_set = jset.elems_build [folded jset_of_def]
lemmas jset_of_distinct = jset.elems_build_distinct [folded jset_of_def]
lemmas jset_of_wf = jset.wf_add_all [OF jset.wf_empty, folded jset_of_def]

declare obj_get_def [js_eval] obj_del_def [js_eval] obj_keys_def [js_eval] obj_values_def [js_eval]
  obj_build_def [js_eval] jset_has_def [js_eval] jset_add_def [js_eval] jset_remove_def [js_eval]
  jset_of_def [js_eval]

end
