(* ===== verification/JsNumber.thy ===== *)
theory JsNumber
  imports Containers Complex_Main
begin

text \<open>
  JavaScript numbers as the front end reads and prints them. A finite number is the exact rational
  of its decimal notation: reading a numeral and printing it back are those of ECMAScript
  (\<open>Number(s)\<close>, \<open>parseInt(s, 10)\<close>, \<open>parseFloat(s)\<close>, \<open>String(x)\<close>, \<open>x.toFixed(f)\<close>,
  \<open>x.toPrecision(p)\<close>), without the rounding of a decimal to the nearest IEEE double and without
  the sign of zero. The main lemma is the round trip: \<open>Number(String(x))\<close> is \<open>x\<close> for
  every number with a finite decimal expansion.
\<close>

datatype jsnum = Num rat | NaN | Infinite bool

section \<open>Reading numerals\<close>

definition digit_val :: "char \<Rightarrow> nat" where
  "digit_val c = (of_char c :: nat) - 48"

definition digits_val :: "string \<Rightarrow> nat" where
  "digits_val ds = foldl (\<lambda>n c. 10 * n + digit_val c) 0 ds"

definition pow10 :: "int \<Rightarrow> rat" where
  "pow10 e = (if 0 \<le> e then 10 ^ nat e else 1 / 10 ^ nat (- e))"

definition span_digits :: "string \<Rightarrow> string \<times> string" where
  "span_digits s = (takeWhile is_digit s, dropWhile is_digit s)"

text \<open>The exponent part and what is left after it; a malformed exponent is not part of the numeral.\<close>

definition read_exponent :: "string \<Rightarrow> (int \<times> string) option" where
  "read_exponent s =
     (case s of [] \<Rightarrow> None
      | c # r \<Rightarrow>
          if c = CHR ''e'' \<or> c = CHR ''E'' then
            (let neg = (r \<noteq> [] \<and> hd r = CHR ''-'');
                 body = (if r \<noteq> [] \<and> (hd r = CHR ''-'' \<or> hd r = CHR ''+'') then tl r else r);
                 (ds, rest) = span_digits body
             in if ds = [] then None
                else Some (if neg then - int (digits_val ds) else int (digits_val ds), rest))
          else None)"

definition read_scaled :: "string \<Rightarrow> nat \<Rightarrow> string \<Rightarrow> rat \<times> string" where
  "read_scaled ds scale r =
     (case read_exponent r of
        None \<Rightarrow> (of_nat (digits_val ds) * pow10 (- int scale), r)
      | Some (e, rest) \<Rightarrow> (of_nat (digits_val ds) * pow10 (e - int scale), rest))"

text \<open>The longest unsigned decimal numeral a string starts with, and the rest.\<close>

definition read_unsigned :: "string \<Rightarrow> (rat \<times> string) option" where
  "read_unsigned s =
     (let (i, r) = span_digits s in
      if r \<noteq> [] \<and> hd r = CHR ''.'' then
        (let (f, r') = span_digits (tl r) in
         if i = [] \<and> f = [] then None else Some (read_scaled (i @ f) (length f) r'))
      else if i = [] then None
      else Some (read_scaled i 0 r))"

definition infinity_lit :: string where
  "infinity_lit = ''Infinity''"

definition read_signed :: "string \<Rightarrow> (jsnum \<times> string) option" where
  "read_signed s =
     (let neg = (s \<noteq> [] \<and> hd s = CHR ''-'');
          body = (if s \<noteq> [] \<and> (hd s = CHR ''-'' \<or> hd s = CHR ''+'') then tl s else s)
      in if prefix infinity_lit body then Some (Infinite neg, drop (length infinity_lit) body)
         else (case read_unsigned body of
                 None \<Rightarrow> None
               | Some (q, r) \<Rightarrow> Some (Num (if neg then - q else q), r)))"

fun radix_digit :: "nat \<Rightarrow> char \<Rightarrow> nat option" where
  "radix_digit b c =
     (let d = (if is_digit c then Some (digit_val c)
               else if js_in_range CHR ''a'' CHR ''z'' c then Some ((of_char c :: nat) - 87)
               else if js_in_range CHR ''A'' CHR ''Z'' c then Some ((of_char c :: nat) - 55)
               else None)
      in case d of Some v \<Rightarrow> if v < b then Some v else None | None \<Rightarrow> None)"

fun read_radix :: "nat \<Rightarrow> nat \<Rightarrow> string \<Rightarrow> nat option" where
  "read_radix b acc [] = Some acc"
| "read_radix b acc (c # cs) =
     (case radix_digit b c of None \<Rightarrow> None | Some d \<Rightarrow> read_radix b (b * acc + d) cs)"

definition radix_literal :: "string \<Rightarrow> jsnum" where
  "radix_literal s =
     (case s of
        z # k # d # ds \<Rightarrow>
          (let b = (if z \<noteq> CHR ''0'' then 0
                    else if k = CHR ''x'' \<or> k = CHR ''X'' then 16
                    else if k = CHR ''o'' \<or> k = CHR ''O'' then 8
                    else if k = CHR ''b'' \<or> k = CHR ''B'' then 2 else 0)
           in if b = 0 then NaN
              else (case read_radix b 0 (d # ds) of None \<Rightarrow> NaN | Some n \<Rightarrow> Num (of_nat n)))
      | _ \<Rightarrow> NaN)"

text \<open>\<open>Number(s)\<close>\<close>

definition js_number :: "string \<Rightarrow> jsnum" where
  "js_number s =
     (let t = js_trim s in
      if t = [] then Num 0
      else (case read_signed t of
              Some (v, r) \<Rightarrow> if r = [] then v else radix_literal t
            | None \<Rightarrow> radix_literal t))"

text \<open>\<open>parseInt(s, 10)\<close>\<close>

definition js_parse_int :: "string \<Rightarrow> jsnum" where
  "js_parse_int s =
     (let t = dropWhile js_is_ws s;
          neg = (t \<noteq> [] \<and> hd t = CHR ''-'');
          body = (if t \<noteq> [] \<and> (hd t = CHR ''-'' \<or> hd t = CHR ''+'') then tl t else t);
          ds = takeWhile is_digit body
      in if ds = [] then NaN
         else Num (if neg then - of_nat (digits_val ds) else of_nat (digits_val ds)))"

text \<open>\<open>parseFloat(s)\<close>\<close>

definition js_parse_float :: "string \<Rightarrow> jsnum" where
  "js_parse_float s =
     (case read_signed (dropWhile js_is_ws s) of Some (v, r) \<Rightarrow> v | None \<Rightarrow> NaN)"

definition js_is_finite :: "jsnum \<Rightarrow> bool" where
  "js_is_finite x \<longleftrightarrow> (case x of Num q \<Rightarrow> True | _ \<Rightarrow> False)"

text \<open>\<open>Number(s) || d\<close>: zero and NaN are falsy.\<close>

definition js_or_default :: "jsnum \<Rightarrow> rat \<Rightarrow> jsnum" where
  "js_or_default x d = (if x = NaN \<or> x = Num 0 then Num d else x)"

text \<open>Addition, comparison, \<open>Math.max\<close> and \<open>Math.min\<close> of numbers.\<close>

fun js_plus :: "jsnum \<Rightarrow> jsnum \<Rightarrow> jsnum" where
  "js_plus (Num a) (Num b) = Num (a + b)"
| "js_plus (Infinite a) (Infinite b) = (if a = b then Infinite a else NaN)"
| "js_plus (Infinite a) (Num b) = Infinite a"
| "js_plus (Num a) (Infinite b) = Infinite b"
| "js_plus x y = NaN"

fun js_less :: "jsnum \<Rightarrow> jsnum \<Rightarrow> bool" where
  "js_less (Num a) (Num b) \<longleftrightarrow> a < b"
| "js_less (Infinite a) (Infinite b) \<longleftrightarrow> a \<and> \<not> b"
| "js_less (Infinite a) (Num b) \<longleftrightarrow> a"
| "js_less (Num a) (Infinite b) \<longleftrightarrow> \<not> b"
| "js_less x y \<longleftrightarrow> False"

definition js_max :: "jsnum \<Rightarrow> jsnum \<Rightarrow> jsnum" where
  "js_max x y = (if x = NaN \<or> y = NaN then NaN else if js_less x y then y else x)"

definition js_min :: "jsnum \<Rightarrow> jsnum \<Rightarrow> jsnum" where
  "js_min x y = (if x = NaN \<or> y = NaN then NaN else if js_less y x then y else x)"

text \<open>\<open>a % b\<close> on integers: the sign of the dividend; \<open>NaN\<close> for a zero divisor is not needed.\<close>

definition js_rem :: "int \<Rightarrow> int \<Rightarrow> int" where
  "js_rem a b = (if a < 0 then - ((- a) mod \<bar>b\<bar>) else a mod \<bar>b\<bar>)"

section \<open>Printing\<close>

text \<open>
  Search for the number of decimals of a rational: the least \<open>j\<close> for which \<open>r * 10 ^ j\<close> is an
  integer. The finite doubles have at most 1074 binary digits after the point, so 1074 decimals
  are enough.
\<close>

definition max_scale :: int where
  "max_scale = 1074"

definition is_integral :: "rat \<Rightarrow> bool" where
  "is_integral r \<longleftrightarrow> of_int \<lfloor>r\<rfloor> = r"

function find_scale :: "int \<Rightarrow> nat \<Rightarrow> rat \<Rightarrow> nat" where
  "find_scale fuel j r =
     (if fuel \<le> 0 \<or> is_integral r then j else find_scale (fuel - 1) (j + 1) (r * 10))"
  by pat_completeness auto
termination
  by (relation "measure (\<lambda>(fuel, j, r). nat fuel)") auto

declare find_scale.simps [simp del]

text \<open>The trailing zeros of a positive integer.\<close>

fun strip_zeros :: "nat \<Rightarrow> nat \<Rightarrow> nat \<times> nat" where
  "strip_zeros n z = (if 0 < n \<and> n mod 10 = 0 then strip_zeros (n div 10) (z + 1) else (n, z))"

declare strip_zeros.simps [simp del]

text \<open>The decimal \<open>m * 10 ^ e\<close> of a positive number, \<open>m\<close> with no trailing zero.\<close>

definition to_decimal :: "rat \<Rightarrow> nat \<times> int" where
  "to_decimal r =
     (let j = find_scale max_scale 0 r;
          (m, z) = strip_zeros (nat \<lfloor>r * 10 ^ j\<rfloor>) 0
      in (m, int z - int j))"

definition zeros :: "nat \<Rightarrow> string" where
  "zeros n = replicate n (CHR ''0'')"

definition show_exponent :: "int \<Rightarrow> string" where
  "show_exponent e = CHR ''e'' # (if 0 \<le> e then CHR ''+'' else CHR ''-'') # show_nat (nat \<bar>e\<bar>)"

text \<open>\<open>Number::toString\<close> of the specification for \<open>m * 10 ^ e\<close>.\<close>

definition show_decimal :: "nat \<Rightarrow> int \<Rightarrow> string" where
  "show_decimal m e =
     (let ds = show_nat m; k = int (length ds); n = k + e in
      if k \<le> n \<and> n \<le> 21 then ds @ zeros (nat e)
      else if 0 < n \<and> n \<le> 21 then take (nat n) ds @ ''.'' @ drop (nat n) ds
      else if - 6 < n \<and> n \<le> 0 then ''0.'' @ zeros (nat (- n)) @ ds
      else if k = 1 then ds @ show_exponent (n - 1)
      else [hd ds] @ ''.'' @ tl ds @ show_exponent (n - 1))"

definition show_pos :: "rat \<Rightarrow> string" where
  "show_pos r = (let (m, e) = to_decimal r in show_decimal m e)"

text \<open>\<open>String(x)\<close>\<close>

definition show_rat :: "rat \<Rightarrow> string" where
  "show_rat r = (if r = 0 then ''0'' else if r < 0 then CHR ''-'' # show_pos (- r) else show_pos r)"

fun show_num :: "jsnum \<Rightarrow> string" where
  "show_num (Num r) = show_rat r"
| "show_num NaN = ''NaN''"
| "show_num (Infinite neg) = (if neg then CHR ''-'' # infinity_lit else infinity_lit)"

text \<open>\<open>x.toFixed(f)\<close>\<close>

definition fixed_digits :: "nat \<Rightarrow> nat \<Rightarrow> string" where
  "fixed_digits f n =
     (let ds = show_nat n; padded = zeros (Suc f - length ds) @ ds; k = length padded in
      if f = 0 then ds else take (k - f) padded @ ''.'' @ drop (k - f) padded)"

definition round_half_up :: "rat \<Rightarrow> int" where
  "round_half_up r = \<lfloor>r + 1 / 2\<rfloor>"

definition js_to_fixed :: "nat \<Rightarrow> rat \<Rightarrow> string" where
  "js_to_fixed f r =
     (if r < 0 then CHR ''-'' # fixed_digits f (nat (round_half_up (- r * 10 ^ f)))
      else fixed_digits f (nat (round_half_up (r * 10 ^ f))))"

text \<open>\<open>x.toPrecision(p)\<close>\<close>

function find_lead :: "int \<Rightarrow> nat \<Rightarrow> rat \<Rightarrow> nat" where
  "find_lead fuel j r = (if fuel \<le> 0 \<or> 1 \<le> r then j else find_lead (fuel - 1) (j + 1) (r * 10))"
  by pat_completeness auto
termination
  by (relation "measure (\<lambda>(fuel, j, r). nat fuel)") auto

declare find_lead.simps [simp del]

definition exponent10 :: "rat \<Rightarrow> int" where
  "exponent10 r =
     (if 1 \<le> r then int (length (show_nat (nat \<lfloor>r\<rfloor>))) - 1 else - int (find_lead max_scale 0 r))"

definition precision_digits :: "nat \<Rightarrow> rat \<Rightarrow> nat \<times> int" where
  "precision_digits p r =
     (let e = exponent10 r; n = nat (round_half_up (r * pow10 (int p - 1 - e)))
      in if n = 10 ^ p then (10 ^ (p - 1), e + 1) else (n, e))"

definition precision_pos :: "nat \<Rightarrow> rat \<Rightarrow> string" where
  "precision_pos p r =
     (let (ds, e) = (if r = 0 then (zeros p, 0) else map_prod show_nat id (precision_digits p r)) in
      if e < - 6 \<or> int p \<le> e then
        (if p = 1 then ds else [hd ds] @ ''.'' @ tl ds) @ show_exponent e
      else if e = int p - 1 then ds
      else if 0 \<le> e then take (nat (e + 1)) ds @ ''.'' @ drop (nat (e + 1)) ds
      else ''0.'' @ zeros (nat (- (e + 1))) @ ds)"

definition js_to_precision :: "nat \<Rightarrow> rat \<Rightarrow> string" where
  "js_to_precision p r = (if r < 0 then CHR ''-'' # precision_pos p (- r) else precision_pos p r)"

section \<open>Reading back what was printed\<close>

lemma pow10_powi: "pow10 e = 10 powi e"
  by (simp add: pow10_def power_int_def power_one_over inverse_eq_divide)

lemma pow10_add: "pow10 (a + b) = pow10 a * pow10 b"
  by (simp add: pow10_powi power_int_add)

lemma pow10_pos: "0 < pow10 e"
  by (simp add: pow10_def)

lemma pow10_nat: "pow10 (int n) = 10 ^ n"
  by (simp add: pow10_def)

lemma digit_val_digit_char: "d < 10 \<Longrightarrow> digit_val (digit_char d) = d"
  by (simp add: digit_val_def digit_char_def)

lemma digits_val_Nil [simp]: "digits_val [] = 0"
  by (simp add: digits_val_def)

lemma digits_val_snoc: "digits_val (ds @ [c]) = 10 * digits_val ds + digit_val c"
  by (simp add: digits_val_def)

lemma digits_val_append: "digits_val (xs @ ys) = digits_val xs * 10 ^ length ys + digits_val ys"
proof (induction ys rule: rev_induct)
  case (snoc y ys)
  have "digits_val (xs @ ys @ [y]) = 10 * digits_val (xs @ ys) + digit_val y"
    using digits_val_snoc [of "xs @ ys" y] by simp
  then show ?case
    by (simp add: snoc digits_val_snoc algebra_simps)
qed simp

lemma digits_val_show_nat: "digits_val (show_nat n) = n"
proof (induction n rule: show_nat.induct)
  case (1 n)
  have one: "digits_val [digit_char d] = d" if "d < 10" for d
    using digits_val_snoc [of "[]" "digit_char d"] digit_val_digit_char [OF that] by simp
  show ?case
  proof (cases "n < 10")
    case True
    then show ?thesis
      using one by (simp add: show_nat.simps [of n])
  next
    case False
    have "digits_val (show_nat n) = 10 * digits_val (show_nat (n div 10)) + digit_val (digit_char (n mod 10))"
      using False by (simp add: show_nat.simps [of n] digits_val_snoc)
    also have "\<dots> = 10 * (n div 10) + n mod 10"
      using False "1.IH" by (simp add: digit_val_digit_char)
    finally show ?thesis
      by simp
  qed
qed

lemma digit_zero: "is_digit (CHR ''0'')" and digit_val_zero: "digit_val (CHR ''0'') = 0"
  by (simp_all add: is_digit_def js_in_range_def digit_val_def)

lemma digits_val_zeros [simp]: "digits_val (zeros n) = 0"
proof (induction n)
  case (Suc n)
  have "zeros (Suc n) = zeros n @ [CHR ''0'']"
    by (simp add: zeros_def replicate_append_same)
  then show ?case
    by (simp add: digits_val_snoc Suc digit_val_zero)
qed (simp add: zeros_def)

lemma digits_val_zeros_append: "digits_val (zeros n @ ds) = digits_val ds"
  by (simp add: digits_val_append)

lemma length_zeros [simp]: "length (zeros n) = n"
  by (simp add: zeros_def)

lemma zeros_digits: "c \<in> set (zeros n) \<Longrightarrow> is_digit c"
  by (simp add: zeros_def digit_zero split: if_splits)

lemma span_digits_append:
  assumes "\<And>c. c \<in> set ds \<Longrightarrow> is_digit c" and "r = [] \<or> \<not> is_digit (hd r)"
  shows "span_digits (ds @ r) = (ds, r)"
proof -
  have "takeWhile is_digit r = []" "dropWhile is_digit r = r"
    using assms(2) by (cases r; simp)+
  then show ?thesis
    using assms(1) by (simp add: span_digits_def takeWhile_append2 dropWhile_append2)
qed

lemma not_digit_syms:
  "\<not> is_digit (CHR ''.'')" "\<not> is_digit (CHR ''e'')" "\<not> is_digit (CHR ''-'')" "\<not> is_digit (CHR ''+'')"
  "\<not> is_digit (CHR ''I'')"
  by (simp_all add: is_digit_def js_in_range_def)

lemma read_exponent_show: "read_exponent (show_exponent e) = Some (e, [])"
proof -
  have "span_digits (show_nat (nat \<bar>e\<bar>)) = (show_nat (nat \<bar>e\<bar>), [])"
    using span_digits_append [of "show_nat (nat \<bar>e\<bar>)" "[]"] show_nat_digits by simp
  then show ?thesis
    by (auto simp: read_exponent_def show_exponent_def digits_val_show_nat)
qed

lemma read_exponent_Nil: "read_exponent [] = None"
  by (simp add: read_exponent_def)

text \<open>A numeral of digits, an optional fraction and an optional exponent reads as its value.\<close>

definition exponent_part :: "string \<Rightarrow> int \<Rightarrow> bool" where
  "exponent_part t x \<longleftrightarrow> t = [] \<and> x = 0 \<or> t = show_exponent x"

lemma exponent_part_hd: "exponent_part t x \<Longrightarrow> t = [] \<or> hd t = CHR ''e''"
  by (auto simp: exponent_part_def show_exponent_def)

lemma read_scaled_exponent:
  "exponent_part t x \<Longrightarrow> read_scaled ds k t = (of_nat (digits_val ds) * pow10 (x - int k), [])"
  by (auto simp: read_scaled_def exponent_part_def read_exponent_show read_exponent_Nil)

lemma read_unsigned_int:
  assumes "ds \<noteq> []" and "\<And>c. c \<in> set ds \<Longrightarrow> is_digit c" and t: "exponent_part t x"
  shows "read_unsigned (ds @ t) = Some (of_nat (digits_val ds) * pow10 x, [])"
proof -
  have hd_t: "t = [] \<or> hd t = CHR ''e''"
    using t by (rule exponent_part_hd)
  then have "span_digits (ds @ t) = (ds, t)"
    using assms(2) not_digit_syms by (intro span_digits_append) auto
  then show ?thesis
    using assms(1) hd_t read_scaled_exponent [OF t, of ds 0] by (auto simp: read_unsigned_def)
qed

lemma read_unsigned_frac:
  assumes "ds \<noteq> []" and "\<And>c. c \<in> set ds \<Longrightarrow> is_digit c" and "\<And>c. c \<in> set fs \<Longrightarrow> is_digit c"
    and t: "exponent_part t x"
  shows "read_unsigned (ds @ CHR ''.'' # fs @ t) =
    Some (of_nat (digits_val (ds @ fs)) * pow10 (x - int (length fs)), [])"
proof -
  have hd_t: "t = [] \<or> hd t = CHR ''e''"
    using t by (rule exponent_part_hd)
  then have "span_digits (fs @ t) = (fs, t)"
    using assms(3) not_digit_syms by (intro span_digits_append) auto
  moreover have "span_digits (ds @ CHR ''.'' # fs @ t) = (ds, CHR ''.'' # fs @ t)"
    using assms(2) not_digit_syms by (intro span_digits_append) auto
  ultimately show ?thesis
    using assms(1) read_scaled_exponent [OF t] by (simp add: read_unsigned_def)
qed

lemma read_unsigned_show_decimal: "read_unsigned (show_decimal m e) = Some (of_nat m * pow10 e, [])"
proof -
  let ?ds = "show_nat m"
  define k where "k = int (length ?ds)"
  define n where "n = k + e"
  have k_pos: "1 \<le> k"
    by (simp add: k_def Suc_le_eq)
  note digs = show_nat_digits [of _ m]
  have tk: "c \<in> set (take j ?ds) \<Longrightarrow> is_digit c" "c \<in> set (drop j ?ds) \<Longrightarrow> is_digit c" for c j
    using digs by (auto dest: in_set_takeD in_set_dropD)
  have none: "exponent_part [] 0" and some: "exponent_part (show_exponent x) x" for x
    by (simp_all add: exponent_part_def)
  consider (a) "k \<le> n \<and> n \<le> 21" | (b) "0 < n \<and> n < k \<and> n \<le> 21" | (c) "- 6 < n \<and> n \<le> 0"
    | (d) "\<not> (k \<le> n \<and> n \<le> 21)" "\<not> (0 < n \<and> n \<le> 21)" "\<not> (- 6 < n \<and> n \<le> 0)"
    by linarith
  then show ?thesis
  proof cases
    case a
    then have "0 \<le> e" and "show_decimal m e = (?ds @ zeros (nat e)) @ []"
      by (simp_all add: show_decimal_def Let_def k_def n_def)
    moreover have "pow10 e = 10 ^ nat e"
      using \<open>0 \<le> e\<close> by (simp add: pow10_def)
    ultimately show ?thesis
      using read_unsigned_int [OF _ _ none, of "?ds @ zeros (nat e)"] digs zeros_digits
      by (auto simp: digits_val_append digits_val_show_nat pow10_nat [of 0, simplified])
  next
    case b
    have "show_decimal m e = take (nat n) ?ds @ CHR ''.'' # drop (nat n) ?ds @ []"
      and "take (nat n) ?ds \<noteq> []" and "int (length (drop (nat n) ?ds)) = - e"
      using b by (auto simp: show_decimal_def Let_def k_def n_def)
    moreover have "read_unsigned (take (nat n) ?ds @ CHR ''.'' # drop (nat n) ?ds @ []) =
      Some (of_nat (digits_val (take (nat n) ?ds @ drop (nat n) ?ds)) * pow10 (0 - int (length (drop (nat n) ?ds))), [])"
      using calculation(2) tk by (intro read_unsigned_frac [OF _ _ _ none]) auto
    ultimately show ?thesis
      by (simp add: digits_val_show_nat)
  next
    case c
    then have "show_decimal m e = ''0'' @ CHR ''.'' # (zeros (nat (- n)) @ ?ds) @ []"
      using k_pos by (auto simp: show_decimal_def Let_def k_def n_def)
    moreover have "int (length (zeros (nat (- n)) @ ?ds)) = - e"
      using c by (simp add: k_def n_def)
    moreover have "digits_val (''0'' @ zeros (nat (- n)) @ ?ds) = m"
      using digits_val_zeros_append [of "Suc (nat (- n))" ?ds] by (simp add: digits_val_show_nat zeros_def)
    moreover have "read_unsigned (''0'' @ CHR ''.'' # (zeros (nat (- n)) @ ?ds) @ []) =
      Some (of_nat (digits_val (''0'' @ zeros (nat (- n)) @ ?ds)) * pow10 (0 - int (length (zeros (nat (- n)) @ ?ds))), [])"
      using digs zeros_digits digit_zero by (intro read_unsigned_frac [OF _ _ _ none]) auto
    ultimately show ?thesis
      by (simp del: of_nat_add)
  next
    case d
    show ?thesis
    proof (cases "k = 1")
      case True
      then have "show_decimal m e = ?ds @ show_exponent e"
        using d by (auto simp: show_decimal_def Let_def k_def n_def)
      then show ?thesis
        using read_unsigned_int [OF _ _ some, of ?ds] digs by (simp add: digits_val_show_nat)
    next
      case False
      then have "show_decimal m e = [hd ?ds] @ CHR ''.'' # tl ?ds @ show_exponent (n - 1)"
        using d by (auto simp: show_decimal_def Let_def k_def n_def)
      moreover have "[hd ?ds] @ tl ?ds = ?ds" and "int (length (tl ?ds)) = k - 1"
        by (simp_all add: k_def Suc_le_eq of_nat_diff)
      moreover have "read_unsigned ([hd ?ds] @ CHR ''.'' # tl ?ds @ show_exponent (n - 1)) =
        Some (of_nat (digits_val ([hd ?ds] @ tl ?ds)) * pow10 ((n - 1) - int (length (tl ?ds))), [])"
        using digs list.set_sel(2) [of ?ds] by (intro read_unsigned_frac [OF _ _ _ some]) auto
      ultimately show ?thesis
        by (simp add: digits_val_show_nat n_def)
    qed
  qed
qed

subsection \<open>The decimal notation of a number\<close>

definition decimal_num :: "rat \<Rightarrow> bool" where
  "decimal_num r \<longleftrightarrow> is_integral (r * 10 ^ nat max_scale)"

lemma is_integral_Ints: "is_integral r \<longleftrightarrow> r \<in> \<int>"
  by (metis Ints_cases Ints_of_int floor_of_int is_integral_def)

lemma is_integral_of_int [simp]: "is_integral (of_int i)"
  by (simp add: is_integral_def)

lemma decimal_num_of_int: "decimal_num (of_int i)"
  unfolding decimal_num_def is_integral_Ints by (intro Ints_mult Ints_power) auto

lemma decimal_num_uminus: "decimal_num (- r) = decimal_num r"
  by (simp add: decimal_num_def is_integral_Ints minus_in_Ints_iff)

lemma find_scale_spec:
  "is_integral (r * 10 ^ nat fuel) \<Longrightarrow>
   j \<le> find_scale fuel j r \<and> is_integral (r * 10 ^ (find_scale fuel j r - j))"
proof (induction fuel j r rule: find_scale.induct)
  case (1 fuel j r)
  show ?case
  proof (cases "fuel \<le> 0 \<or> is_integral r")
    case True
    then show ?thesis
      using "1.prems" by (auto simp: find_scale.simps [of fuel j r])
  next
    case False
    then have step: "find_scale fuel j r = find_scale (fuel - 1) (j + 1) (r * 10)"
      by (simp add: find_scale.simps [of fuel j r])
    have "0 < fuel"
      using False by simp
    then have "nat fuel = Suc (nat (fuel - 1))"
      by arith
    then have "is_integral (r * 10 * 10 ^ nat (fuel - 1))"
      using "1.prems" by (simp add: mult.assoc)
    then have "j + 1 \<le> find_scale fuel j r \<and> is_integral (r * 10 * 10 ^ (find_scale fuel j r - (j + 1)))"
      using False "1.IH" unfolding step by simp
    moreover have "10 * (10 :: rat) ^ (find_scale fuel j r - (j + 1)) = 10 ^ (find_scale fuel j r - j)"
      if "j + 1 \<le> find_scale fuel j r"
      using that by (simp flip: power_Suc add: Suc_diff_le)
    ultimately show ?thesis
      by (auto simp: mult.assoc)
  qed
qed

lemma strip_zeros_spec:
  "strip_zeros n z = (m, w) \<Longrightarrow> z \<le> w \<and> m * 10 ^ (w - z) = n"
proof (induction n z arbitrary: m w rule: strip_zeros.induct)
  case (1 n z)
  show ?case
  proof (cases "0 < n \<and> n mod 10 = 0")
    case True
    then have "strip_zeros (n div 10) (z + 1) = (m, w)"
      using "1.prems" by (simp add: strip_zeros.simps [of n z])
    then have "z + 1 \<le> w \<and> m * 10 ^ (w - (z + 1)) = n div 10"
      using True "1.IH" by simp
    moreover have "(10 :: nat) ^ (w - z) = 10 * 10 ^ (w - (z + 1))" if "z + 1 \<le> w"
      using that by (simp flip: power_Suc add: Suc_diff_le)
    ultimately show ?thesis
      using True by auto
  next
    case False
    then show ?thesis
      using "1.prems" by (auto simp: strip_zeros.simps [of n z])
  qed
qed

lemma to_decimal_value:
  assumes "0 < r" and "decimal_num r" and "to_decimal r = (m, e)"
  shows "of_nat m * pow10 e = r"
proof -
  define j where "j = find_scale max_scale 0 r"
  have int: "is_integral (r * 10 ^ j)"
    using assms(2) find_scale_spec [of r max_scale 0] by (simp add: decimal_num_def j_def)
  obtain z where z: "strip_zeros (nat \<lfloor>r * 10 ^ j\<rfloor>) 0 = (m, z)" and e: "e = int z - int j"
    using assms(3) by (auto simp: to_decimal_def j_def Let_def split: prod.splits)
  have "of_nat m * 10 ^ z = (of_nat (nat \<lfloor>r * 10 ^ j\<rfloor>) :: rat)"
    using strip_zeros_spec [OF z] by (metis diff_zero of_nat_mult of_nat_numeral of_nat_power)
  also have "\<dots> = r * 10 ^ j"
    using int assms(1) by (simp add: is_integral_def)
  finally have "of_nat m * pow10 (int z) = r * pow10 (int j)"
    by (simp add: pow10_nat)
  then have "of_nat m * pow10 e * pow10 (int j) = r * pow10 (int j)"
    by (simp add: e mult.assoc flip: pow10_add)
  then show ?thesis
    using pow10_pos [of "int j"] by simp
qed

lemma read_unsigned_show_pos:
  "0 < r \<Longrightarrow> decimal_num r \<Longrightarrow> read_unsigned (show_pos r) = Some (r, [])"
  using to_decimal_value by (auto simp: show_pos_def read_unsigned_show_decimal split: prod.splits)

subsection \<open>Number(String(x))\<close>

lemma digit_not_ws: "is_digit c \<Longrightarrow> \<not> js_is_ws c"
  by (auto simp: js_is_ws_def is_digit_def js_in_range_def)

lemma js_trim_id:
  assumes "s \<noteq> []" and "\<not> js_is_ws (hd s)" and "\<not> js_is_ws (last s)"
  shows "js_trim s = s"
proof -
  have "dropWhile js_is_ws s = s" "dropWhile js_is_ws (rev s) = rev s"
    using assms by (auto intro!: dropWhile_idem_front simp: hd_rev)
  then show ?thesis
    by (simp add: js_trim_def)
qed

lemma show_nat_hd_last: "is_digit (hd (show_nat n))" "is_digit (last (show_nat n))"
  by (simp_all add: show_nat_digits [of _ n])

lemma show_decimal_hd: "is_digit (hd (show_decimal m e)) \<and> show_decimal m e \<noteq> []"
  using show_nat_hd_last(1) [of m] by (auto simp: show_decimal_def Let_def digit_zero)

lemma last_show_exponent: "is_digit (last (show_exponent e)) \<and> show_exponent e \<noteq> []"
  by (simp add: show_exponent_def show_nat_hd_last)

lemma last_zeros: "zeros n \<noteq> [] \<Longrightarrow> is_digit (last (zeros n))"
  by (simp add: zeros_def digit_zero)

lemma show_decimal_last: "is_digit (last (show_decimal m e))"
  using show_nat_hd_last(2) [of m] last_show_exponent last_zeros
  by (auto simp: show_decimal_def Let_def last_append)

lemma digit_not_sign:
  "is_digit c \<Longrightarrow> c \<noteq> CHR ''-'' \<and> c \<noteq> CHR ''+'' \<and> c \<noteq> CHR ''I''"
  using not_digit_syms by auto

lemma not_infinity: "s \<noteq> [] \<Longrightarrow> is_digit (hd s) \<Longrightarrow> \<not> prefix infinity_lit s"
  using digit_not_sign by (cases s) (auto simp: infinity_lit_def)

lemma show_pos_shape:
  "show_pos r \<noteq> [] \<and> is_digit (hd (show_pos r)) \<and> is_digit (last (show_pos r))"
  using show_decimal_hd show_decimal_last by (simp add: show_pos_def split: prod.splits)

lemma js_number_show_pos:
  assumes "0 < r" and "decimal_num r"
  shows "js_number (show_pos r) = Num r"
proof -
  have "js_trim (show_pos r) = show_pos r"
    using show_pos_shape [of r] digit_not_ws by (intro js_trim_id) auto
  moreover have "read_signed (show_pos r) = Some (Num r, [])"
    using show_pos_shape [of r] digit_not_sign not_infinity [of "show_pos r"] read_unsigned_show_pos [OF assms]
    by (auto simp: read_signed_def Let_def)
  ultimately show ?thesis
    using show_pos_shape [of r] by (simp add: js_number_def)
qed

lemma js_number_show_neg:
  assumes "0 < r" and "decimal_num r"
  shows "js_number (CHR ''-'' # show_pos r) = Num (- r)"
proof -
  have "js_trim (CHR ''-'' # show_pos r) = CHR ''-'' # show_pos r"
    using show_pos_shape [of r] digit_not_ws by (intro js_trim_id) (auto simp: js_is_ws_def)
  moreover have "read_signed (CHR ''-'' # show_pos r) = Some (Num (- r), [])"
    using show_pos_shape [of r] not_infinity [of "show_pos r"] read_unsigned_show_pos [OF assms]
    by (auto simp: read_signed_def Let_def)
  ultimately show ?thesis
    by (simp add: js_number_def)
qed

lemma js_number_zero: "js_number ''0'' = Num 0"
  by code_simp

theorem js_number_show_rat: "decimal_num r \<Longrightarrow> js_number (show_rat r) = Num r"
  using js_number_show_pos [of r] js_number_show_neg [of "- r"]
  by (auto simp: show_rat_def js_number_zero decimal_num_uminus)

lemma show_rat_not_blank: "js_trim (show_rat r) = show_rat r \<and> show_rat r \<noteq> []"
proof -
  have "js_trim (show_pos q) = show_pos q" "js_trim (CHR ''-'' # show_pos q) = CHR ''-'' # show_pos q" for q
    using show_pos_shape [of q] digit_not_ws by (intro js_trim_id; force simp: js_is_ws_def)+
  moreover have "js_trim ''0'' = ''0''"
    by code_simp
  ultimately show ?thesis
    using show_pos_shape by (simp add: show_rat_def)
qed

lemma show_rat_inj: "decimal_num q \<Longrightarrow> decimal_num r \<Longrightarrow> show_rat q = show_rat r \<Longrightarrow> q = r"
  using js_number_show_rat by (metis jsnum.inject(1))

lemma js_number_blank: "js_trim s = [] \<Longrightarrow> js_number s = Num 0"
  by (simp add: js_number_def)

section \<open>Natural numbers\<close>

lemma show_nat_length_le: "0 < k \<Longrightarrow> length (show_nat n) \<le> k \<longleftrightarrow> n < 10 ^ k"
proof (induction n arbitrary: k rule: show_nat.induct)
  case (1 n)
  obtain j where k: "k = Suc j"
    using "1.prems" by (cases k) auto
  show ?case
  proof (cases "n < 10")
    case True
    moreover have "(1 :: nat) \<le> 10 ^ j"
      by simp
    ultimately have "n < 10 ^ k"
      by (simp only: k power_Suc)
    then show ?thesis
      using True by (simp add: show_nat.simps [of n] k)
  next
    case False
    then have "length (show_nat n) \<le> k \<longleftrightarrow> length (show_nat (n div 10)) \<le> j"
      by (simp add: show_nat.simps [of n] k)
    also have "\<dots> \<longleftrightarrow> n < 10 ^ k"
      using False "1.IH" [of j] by (cases "j = 0") (auto simp: k div_less_iff_less_mult mult.commute)
    finally show ?thesis .
  qed
qed

lemma show_nat_length_mono: "m \<le> n \<Longrightarrow> length (show_nat m) \<le> length (show_nat n)"
  using show_nat_length_le [of "length (show_nat n)" m] show_nat_length_le [of "length (show_nat n)" n] by simp

lemma digit_char_0 [simp]: "digit_char 0 = CHR ''0''"
  by code_simp

lemma show_nat_times10: "0 < q \<Longrightarrow> show_nat (q * 10 ^ z) = show_nat q @ zeros z"
proof (induction z)
  case (Suc z)
  have "show_nat (q * 10 ^ Suc z) = show_nat (q * 10 ^ z) @ [digit_char 0]"
    using Suc.prems by (subst show_nat.simps) (simp add: mult.left_commute [of q 10])
  then show ?case
    using Suc by (simp add: zeros_def replicate_append_same)
qed (simp add: zeros_def)

lemma show_rat_of_nat:
  assumes "m < 10 ^ 21"
  shows "show_rat (of_nat m) = show_nat m"
proof (cases "m = 0")
  case True
  then show ?thesis
    by (simp add: show_rat_def show_nat.simps [of 0])
next
  case False
  obtain q z where qz: "strip_zeros m 0 = (q, z)"
    by (cases "strip_zeros m 0")
  then have m: "m = q * 10 ^ z"
    using strip_zeros_spec by fastforce
  have txt1: "show_nat m = show_nat q @ zeros z"
    using False m show_nat_times10 by auto
  have "find_scale max_scale 0 (of_nat m) = 0"
    using is_integral_of_int [of "int m"] by (simp add: find_scale.simps)
  then have "to_decimal (of_nat m) = (q, int z)"
    using qz by (simp add: to_decimal_def)
  moreover have "length (show_nat q) + z \<le> 21"
    using show_nat_length_le [of 21 m] assms by (simp add: txt1)
  ultimately show ?thesis
    using False by (simp add: show_rat_def show_pos_def show_decimal_def txt1 Let_def)
qed

lemma js_number_show_nat: "m < 10 ^ 21 \<Longrightarrow> js_number (show_nat m) = Num (of_nat m)"
  using js_number_show_rat [of "of_nat m"] decimal_num_of_int [of "int m"] by (simp add: show_rat_of_nat)

end
