(* ===== verification/GraphTypes.thy ===== *)
theory GraphTypes
  imports JsNumber
begin

text \<open>
  The protocol of the graph editor and its geometry (\<open>components/graph/types.ts\<close>, lines 1 to 574):
  the page document with its interface, constants, blocks and connections; the library entry that
  gives a block its pins; the point of every pin on the sheet; which two pins a wire may join; and
  the deletion of a selected element together with its wires. Coordinates are exact rationals.
\<close>

section \<open>Values\<close>

text \<open>The scalar values of the protocol: \<open>string | number | boolean | null\<close>.\<close>

datatype jsval = JStr string | JNum jsnum | JBool bool | JNull

text \<open>\<open>String(v)\<close>; \<open>None\<close> stands for \<open>undefined\<close>.\<close>

fun js_string :: "jsval \<Rightarrow> string" where
  "js_string (JStr s) = s"
| "js_string (JNum x) = show_num x"
| "js_string (JBool b) = (if b then ''true'' else ''false'')"
| "js_string JNull = ''null''"

definition js_string_opt :: "jsval option \<Rightarrow> string" where
  "js_string_opt v = (case v of None \<Rightarrow> ''undefined'' | Some w \<Rightarrow> js_string w)"

text \<open>\<open>a ?? b\<close>: the left side unless it is \<open>undefined\<close> or \<open>null\<close>.\<close>

definition js_nullish :: "jsval option \<Rightarrow> bool" where
  "js_nullish v \<longleftrightarrow> v = None \<or> v = Some JNull"

definition js_coalesce :: "jsval option \<Rightarrow> jsval option \<Rightarrow> jsval option" where
  "js_coalesce a b = (if js_nullish a then b else a)"

text \<open>\<open>s || d\<close> on an optional string: \<open>undefined\<close> and the empty string are falsy.\<close>

definition js_or_str :: "string option \<Rightarrow> string \<Rightarrow> string" where
  "js_or_str s d = (case s of None \<Rightarrow> d | Some w \<Rightarrow> if w = [] then d else w)"

section \<open>The page document\<close>

datatype scope = External | Intermediate | Local

record position =
  px :: rat
  py :: rat

record bind =
  bind_station :: "string option"
  bind_variable :: "string option"

record port =
  port_name :: string
  port_type :: string
  port_scope :: "scope option"
  port_bind :: "bind option"
  port_unit :: "string option"
  port_position :: "position option"

record interface_doc =
  if_input :: "port list"
  if_output :: "port list"
  if_in_out :: "port list"

record constant_node =
  const_id :: string
  const_type :: string
  const_value :: jsval
  const_position :: position

record block_node =
  block_id :: string
  block_type :: string
  block_library_id :: "string option"
  block_position :: position
  block_parameters :: "(string, jsval) obj option"

record endpoint =
  ep_block :: string
  ep_port :: string

record connection =
  conn_from :: endpoint
  conn_to :: endpoint

record page_meta =
  meta_id :: string
  meta_label :: "string option"
  meta_index :: "int option"
  meta_sheet :: "string option"

record page_doc =
  page_version :: string
  page_kind :: string
  page_name :: string
  page_page :: page_meta
  page_interface :: interface_doc
  page_constants :: "constant_node list"
  page_blocks :: "block_node list"
  page_connections :: "connection list"

record library_pin =
  pin_name :: string
  pin_type :: string
  pin_default :: jsval

record library_block =
  lib_id :: string
  lib_name :: string
  lib_type :: "string option"
  lib_category :: string
  lib_description :: string
  lib_block_kind :: "string option"
  lib_st_template :: "string option"
  lib_inputs :: "(string, jsval) obj list"
  lib_outputs :: "(string, jsval) obj list"

datatype severity = SevError | SevWarning | SevInfo

record finding =
  fd_severity :: severity
  fd_code :: string
  fd_message :: string
  fd_page :: string
  fd_block :: string
  fd_port :: string

record page_row =
  pr_id :: string
  pr_index :: int
  pr_label :: string
  pr_sheet :: string
  pr_name :: string
  pr_blocks :: int
  pr_constants :: int
  pr_connections :: int
  pr_ports :: "string list"

record cross_page_row =
  xp_name :: string
  xp_type :: string
  xp_scope :: string
  xp_direction :: string
  xp_pages :: "string list"

record check_report =
  rep_ok :: bool
  rep_errors :: "finding list"
  rep_warnings :: "finding list"
  rep_infos :: "finding list"
  rep_pages :: "page_row list"
  rep_cross_page :: "cross_page_row list"

record external_var_row =
  ev_name :: string
  ev_direction :: string
  ev_st_type :: string
  ev_unit :: "string option"
  ev_description :: "string option"
  ev_mapped :: "bool option"
  ev_enabled :: "bool option"

record system_var_row =
  sv_name :: string
  sv_st_type :: string
  sv_description :: string

definition INTERFACE :: string where
  "INTERFACE = ''__interface__''"

section \<open>Sheets and sizes\<close>

record sheet_size =
  sheet_w :: rat
  sheet_h :: rat
  sheet_label :: string

definition SHEETS :: "(string, sheet_size) obj" where
  "SHEETS =
    [(''A4'', \<lparr>sheet_w = 1169, sheet_h = 827, sheet_label = ''A4 '' @ utf8 [230, 168, 170, 229, 144, 145]\<rparr>),
     (''A3'', \<lparr>sheet_w = 1587, sheet_h = 1123, sheet_label = ''A3 '' @ utf8 [230, 168, 170, 229, 144, 145]\<rparr>),
     (''A2'', \<lparr>sheet_w = 2234, sheet_h = 1580, sheet_label = ''A2 '' @ utf8 [230, 168, 170, 229, 144, 145]\<rparr>)]"

definition SHEET_A3 :: sheet_size where
  "SHEET_A3 = \<lparr>sheet_w = 1587, sheet_h = 1123, sheet_label = ''A3 '' @ utf8 [230, 168, 170, 229, 144, 145]\<rparr>"

text \<open>\<open>SHEETS[page.page.sheet ?? "A3"] ?? SHEETS.A3\<close>\<close>

definition sheet_name_of :: "page_doc \<Rightarrow> string" where
  "sheet_name_of page = (case meta_sheet (page_page page) of None \<Rightarrow> ''A3'' | Some s \<Rightarrow> s)"

definition sheet_of :: "page_doc \<Rightarrow> sheet_size" where
  "sheet_of page = (case obj_get SHEETS (sheet_name_of page) of None \<Rightarrow> SHEET_A3 | Some s \<Rightarrow> s)"

definition NODE_W :: rat where "NODE_W = 168"
definition HEAD_H :: rat where "HEAD_H = 26"
definition ROW_H :: rat where "ROW_H = 22"
definition CONST_W :: rat where "CONST_W = 118"
definition CONST_H :: rat where "CONST_H = 34"
definition PORT_W :: rat where "PORT_W = 150"
definition PORT_H :: rat where "PORT_H = 26"
definition FRAME :: rat where "FRAME = 24"
definition PORT_GAP :: rat where "PORT_GAP = 14"

lemmas size_defs = NODE_W_def HEAD_H_def ROW_H_def CONST_W_def CONST_H_def PORT_W_def PORT_H_def
  FRAME_def PORT_GAP_def

datatype port_direction = Input | Output | In_out

definition iface_ports :: "interface_doc \<Rightarrow> port_direction \<Rightarrow> port list" where
  "iface_ports i d = (case d of Input \<Rightarrow> if_input i | Output \<Rightarrow> if_output i | In_out \<Rightarrow> if_in_out i)"

definition iface_update :: "port_direction \<Rightarrow> (port list \<Rightarrow> port list) \<Rightarrow> interface_doc \<Rightarrow> interface_doc" where
  "iface_update d f i =
     (case d of Input \<Rightarrow> i\<lparr>if_input := f (if_input i)\<rparr>
      | Output \<Rightarrow> i\<lparr>if_output := f (if_output i)\<rparr>
      | In_out \<Rightarrow> i\<lparr>if_in_out := f (if_in_out i)\<rparr>)"

definition defaultPortPosition :: "string \<Rightarrow> port_direction \<Rightarrow> nat \<Rightarrow> position" where
  "defaultPortPosition sheet direction index =
     (let y = FRAME + 96 + of_nat index * (PORT_H + PORT_GAP);
          width = (case obj_get SHEETS sheet of Some s \<Rightarrow> sheet_w s | None \<Rightarrow> sheet_w SHEET_A3)
      in if direction = Output then \<lparr>px = width - FRAME - 40 - PORT_W, py = y\<rparr>
         else (let offset = (if direction = In_out then 100 else 0)
               in \<lparr>px = FRAME + 40, py = y + offset\<rparr>))"

text \<open>Out of range the source reads \<open>undefined\<close>: \<open>None\<close>.\<close>

definition portAt :: "page_doc \<Rightarrow> port_direction \<Rightarrow> nat \<Rightarrow> port option" where
  "portAt page direction index =
     (let ps = iface_ports (page_interface page) direction
      in if index < length ps then Some (ps ! index) else None)"

definition placed_at :: "page_doc \<Rightarrow> port_direction \<Rightarrow> nat \<Rightarrow> port \<Rightarrow> position" where
  "placed_at page direction index port =
     (case port_position port of
        Some p \<Rightarrow> p
      | None \<Rightarrow> defaultPortPosition (sheet_name_of page) direction index)"

text \<open>\<open>None\<close>: reading a property of \<open>undefined\<close> raises a TypeError.\<close>

definition portPosition :: "page_doc \<Rightarrow> port_direction \<Rightarrow> nat \<Rightarrow> position option" where
  "portPosition page direction index =
     map_option (placed_at page direction index) (portAt page direction index)"

definition TYPE_COLORS :: "(string, string) obj" where
  "TYPE_COLORS =
    [(''BOOL'', ''#c586c0''),
     (''QBOOL'', ''#b5cea8''),
     (''BYTE'', ''#dcdcaa''),
     (''WORD'', ''#dcdcaa''),
     (''DWORD'', ''#dcdcaa''),
     (''SINT'', ''#569cd6''),
     (''INT'', ''#569cd6''),
     (''DINT'', ''#4fc1ff''),
     (''LINT'', ''#4fc1ff''),
     (''REAL'', ''#4ec9b0''),
     (''LREAL'', ''#3bc9b0''),
     (''QREAL'', ''#89d185''),
     (''QINT'', ''#9cdcfe''),
     (''QDINT'', ''#9cdcfe''),
     (''TIME'', ''#ce9178''),
     (''STRING'', ''#ce9178'')]"

definition typeColor :: "string \<Rightarrow> string" where
  "typeColor stType = (case obj_get TYPE_COLORS stType of None \<Rightarrow> ''#cccccc'' | Some c \<Rightarrow> c)"

section \<open>Pins\<close>

record pins =
  pins_inputs :: "library_pin list"
  pins_outputs :: "library_pin list"

definition lookup_block :: "block_node \<Rightarrow> (string, library_block) obj \<Rightarrow> library_block option" where
  "lookup_block block library =
     (case obj_get library (js_or_str (block_library_id block) (block_type block)) of
        Some d \<Rightarrow> Some d
      | None \<Rightarrow> obj_get library (block_type block))"

definition pin_of_row :: "(string, jsval) obj \<Rightarrow> library_pin" where
  "pin_of_row r =
     \<lparr>pin_name = js_string_opt (obj_get r ''name''),
      pin_type = js_string_opt
        (js_coalesce (obj_get r ''data_type'') (js_coalesce (obj_get r ''type'') (Some (JStr ''REAL'')))),
      pin_default = (case obj_get r ''default_value'' of None \<Rightarrow> JNull | Some v \<Rightarrow> v)\<rparr>"

definition pinsOf :: "block_node \<Rightarrow> (string, library_block) obj \<Rightarrow> pins" where
  "pinsOf block library =
     (case lookup_block block library of
        None \<Rightarrow> \<lparr>pins_inputs = [], pins_outputs = []\<rparr>
      | Some def \<Rightarrow> \<lparr>pins_inputs = map pin_of_row (lib_inputs def),
                     pins_outputs = map pin_of_row (lib_outputs def)\<rparr>)"

definition blockHeight :: "pins \<Rightarrow> rat" where
  "blockHeight pins =
     HEAD_H + of_nat (max 1 (max (length (pins_inputs pins)) (length (pins_outputs pins)))) * ROW_H + 8"

datatype node_kind = KBlock | KConstant | KPort

datatype pin_direction = PinIn | PinOut

record pin_point =
  pp_block :: string
  pp_port :: string
  pp_x :: rat
  pp_y :: rat
  pp_kind :: node_kind
  pp_type :: string
  pp_direction :: pin_direction

definition map_index :: "(nat \<Rightarrow> 'a \<Rightarrow> 'b) \<Rightarrow> 'a list \<Rightarrow> 'b list" where
  "map_index f xs = map (\<lambda>(i, x). f i x) (enumerate 0 xs)"

definition block_pin_points :: "(string, library_block) obj \<Rightarrow> block_node \<Rightarrow> pin_point list" where
  "block_pin_points library block =
     (let pins = pinsOf block library;
          height = blockHeight pins;
          at_row = (\<lambda>i. py (block_position block) + HEAD_H + of_nat i * ROW_H + ROW_H / 2)
      in map_index (\<lambda>i pin.
           \<lparr>pp_block = block_id block, pp_port = pin_name pin, pp_x = px (block_position block),
            pp_y = at_row i, pp_kind = KBlock, pp_type = pin_type pin, pp_direction = PinIn\<rparr>)
           (pins_inputs pins)
         @ map_index (\<lambda>i pin.
           \<lparr>pp_block = block_id block, pp_port = pin_name pin, pp_x = px (block_position block) + NODE_W,
            pp_y = at_row i, pp_kind = KBlock, pp_type = pin_type pin, pp_direction = PinOut\<rparr>)
           (pins_outputs pins)
         @ (if pins_inputs pins = [] \<and> pins_outputs pins = [] then
              [\<lparr>pp_block = block_id block, pp_port = ''IN'', pp_x = px (block_position block),
                pp_y = py (block_position block) + height / 2, pp_kind = KBlock, pp_type = ''REAL'',
                pp_direction = PinIn\<rparr>]
            else []))"

definition constant_pin_point :: "constant_node \<Rightarrow> pin_point" where
  "constant_pin_point c =
     \<lparr>pp_block = const_id c, pp_port = ''OUT'', pp_x = px (const_position c) + CONST_W,
      pp_y = py (const_position c) + CONST_H / 2, pp_kind = KConstant, pp_type = const_type c,
      pp_direction = PinOut\<rparr>"

definition port_pin_points :: "page_doc \<Rightarrow> port_direction \<Rightarrow> nat \<Rightarrow> port \<Rightarrow> pin_point list" where
  "port_pin_points page direction index port =
     (let pos = placed_at page direction index port in
      (if direction \<noteq> Output then
         [\<lparr>pp_block = INTERFACE, pp_port = port_name port, pp_x = px pos + PORT_W, pp_y = py pos + PORT_H / 2,
           pp_kind = KPort, pp_type = port_type port, pp_direction = PinOut\<rparr>] else [])
      @ (if direction \<noteq> Input then
         [\<lparr>pp_block = INTERFACE, pp_port = port_name port, pp_x = px pos, pp_y = py pos + PORT_H / 2,
           pp_kind = KPort, pp_type = port_type port, pp_direction = PinIn\<rparr>] else []))"

definition pinMap :: "page_doc \<Rightarrow> (string, library_block) obj \<Rightarrow> pin_point list" where
  "pinMap page library =
     concat (map (block_pin_points library) (page_blocks page))
     @ map constant_pin_point (page_constants page)
     @ concat (map (\<lambda>direction. concat (map_index (port_pin_points page direction)
          (iface_ports (page_interface page) direction))) [Input, Output, In_out])"

definition pinKey :: "string \<Rightarrow> string \<Rightarrow> string" where
  "pinKey block port = block @ ''.'' @ port"

definition pp_key :: "pin_point \<Rightarrow> string" where
  "pp_key p = pinKey (pp_block p) (pp_port p)"

definition connectable :: "pin_point \<Rightarrow> pin_point \<Rightarrow> bool" where
  "connectable a b \<longleftrightarrow>
     \<not> (pp_block a = pp_block b \<and> pp_port a = pp_port b) \<and> pp_key a \<noteq> pp_key b
     \<and> pp_direction a \<noteq> pp_direction b"

definition otherSide :: "pin_point \<Rightarrow> pin_point \<Rightarrow> pin_point \<times> pin_point" where
  "otherSide a b = (if pp_direction a = PinOut then (a, b) else (b, a))"

definition portPath :: "position \<Rightarrow> position \<Rightarrow> string" where
  "portPath p q =
     (let dx = max 40 (\<bar>px q - px p\<bar> / 2)
      in ''M '' @ show_rat (px p) @ '' '' @ show_rat (py p)
         @ '' C '' @ show_rat (px p + dx) @ '' '' @ show_rat (py p)
         @ '', '' @ show_rat (px q - dx) @ '' '' @ show_rat (py q)
         @ '', '' @ show_rat (px q) @ '' '' @ show_rat (py q))"

definition emptyPage :: "string \<Rightarrow> string \<Rightarrow> int \<Rightarrow> string \<Rightarrow> page_doc" where
  "emptyPage id1 name index sheet =
     \<lparr>page_version = ''1.1'', page_kind = ''FC'', page_name = name,
      page_page = \<lparr>meta_id = id1, meta_label = Some id1, meta_index = Some index, meta_sheet = Some sheet\<rparr>,
      page_interface = \<lparr>if_input = [], if_output = [], if_in_out = []\<rparr>,
      page_constants = [], page_blocks = [], page_connections = []\<rparr>"

section \<open>Selection and deletion\<close>

datatype selection =
    SelBlock string
  | SelConstant string
  | SelPort port_direction string
  | SelWire nat

definition sameEndpoint :: "endpoint \<Rightarrow> endpoint \<Rightarrow> bool" where
  "sameEndpoint a b \<longleftrightarrow> ep_block a = ep_block b \<and> ep_port a = ep_port b"

fun endpoint_gone :: "selection \<Rightarrow> endpoint \<Rightarrow> bool" where
  "endpoint_gone (SelBlock i) e \<longleftrightarrow> ep_block e = i"
| "endpoint_gone (SelConstant i) e \<longleftrightarrow> ep_block e = i"
| "endpoint_gone (SelWire n) e \<longleftrightarrow> False"
| "endpoint_gone (SelPort d n) e \<longleftrightarrow> ep_block e = INTERFACE \<and> ep_port e = n"

definition drop_port :: "selection \<Rightarrow> page_doc \<Rightarrow> port_direction \<Rightarrow> port list" where
  "drop_port sel page direction =
     (case sel of
        SelPort d n \<Rightarrow> if d = direction
          then filter (\<lambda>p. port_name p \<noteq> n) (iface_ports (page_interface page) direction)
          else iface_ports (page_interface page) direction
      | _ \<Rightarrow> iface_ports (page_interface page) direction)"

definition filter_index :: "(nat \<Rightarrow> bool) \<Rightarrow> 'a list \<Rightarrow> 'a list" where
  "filter_index P xs = map snd (filter (\<lambda>(i, x). P i) (enumerate 0 xs))"

definition deleteSelection :: "page_doc \<Rightarrow> selection option \<Rightarrow> page_doc" where
  "deleteSelection page sel0 =
     (case sel0 of None \<Rightarrow> page
      | Some sel \<Rightarrow>
          page\<lparr>page_blocks := (case sel of SelBlock i \<Rightarrow> filter (\<lambda>b. block_id b \<noteq> i) (page_blocks page)
                               | _ \<Rightarrow> page_blocks page),
               page_constants := (case sel of SelConstant i \<Rightarrow> filter (\<lambda>c. const_id c \<noteq> i) (page_constants page)
                                  | _ \<Rightarrow> page_constants page),
               page_interface := \<lparr>if_input = drop_port sel page Input, if_output = drop_port sel page Output,
                                  if_in_out = drop_port sel page In_out\<rparr>,
               page_connections := (case sel of
                   SelWire n \<Rightarrow> filter_index (\<lambda>i. i \<noteq> n) (page_connections page)
                 | _ \<Rightarrow> filter (\<lambda>c. \<not> endpoint_gone sel (conn_from c) \<and> \<not> endpoint_gone sel (conn_to c))
                          (page_connections page))\<rparr>)"

definition wiresOn :: "page_doc \<Rightarrow> endpoint \<Rightarrow> nat" where
  "wiresOn page e =
     length (filter (\<lambda>c. sameEndpoint (conn_from c) e \<or> sameEndpoint (conn_to c) e) (page_connections page))"

definition driverOn :: "page_doc \<Rightarrow> endpoint \<Rightarrow> bool" where
  "driverOn page input \<longleftrightarrow> (\<exists>c \<in> set (page_connections page). sameEndpoint (conn_to c) input)"

definition sameConnection :: "connection \<Rightarrow> endpoint \<Rightarrow> endpoint \<Rightarrow> bool" where
  "sameConnection a f t \<longleftrightarrow> sameEndpoint (conn_from a) f \<and> sameEndpoint (conn_to a) t"

end
