(* ===== verification/PageInvariant.thy ===== *)
theory PageInvariant
  imports GraphTypes
begin

text \<open>
  What a page document promises: every element and every interface name is declared once, every
  wire joins declared elements, and no input is driven twice. The deletion of a selection keeps
  it and removes the selected element with exactly the wires that ended on it. The locale
  \<open>editor\<close> states the contract of an editing operation for any state and invariant; the client's
  facts about whole editing sessions are proved there once.
\<close>

section \<open>Editing sessions\<close>

locale editor =
  fixes edit :: "'e \<Rightarrow> 's \<Rightarrow> 's"
    and admissible :: "'e \<Rightarrow> 's \<Rightarrow> bool"
    and inv :: "'s \<Rightarrow> bool"
  assumes edit_keeps: "inv s \<Longrightarrow> admissible e s \<Longrightarrow> inv (edit e s)"
begin

lemma session_keeps:
  assumes "inv s" and "\<And>n. n < length es \<Longrightarrow> admissible (es ! n) (fold edit (take n es) s)"
  shows "inv (fold edit es s)"
  using assms
proof (induction es arbitrary: s)
  case (Cons e es)
  have "admissible e s"
    using Cons.prems(2) [of 0] by simp
  then have "inv (edit e s)"
    using Cons.prems(1) by (rule edit_keeps [rotated])
  moreover have "admissible (es ! n) (fold edit (take n es) (edit e s))" if "n < length es" for n
    using Cons.prems(2) [of "Suc n"] that by simp
  ultimately show ?case
    using Cons.IH by simp
qed simp

lemma session_keeps_all:
  assumes "inv s" and "\<And>e t. e \<in> set es \<Longrightarrow> inv t \<Longrightarrow> admissible e t"
  shows "inv (fold edit es s)"
  using assms by (induction es arbitrary: s) (auto intro: edit_keeps)

end

section \<open>The invariant of a page\<close>

definition iface_names :: "interface_doc \<Rightarrow> string list" where
  "iface_names i = concat (map (\<lambda>d. map port_name (iface_ports i d)) [Input, Output, In_out])"

definition element_ids :: "page_doc \<Rightarrow> string list" where
  "element_ids page = map block_id (page_blocks page) @ map const_id (page_constants page)"

definition known_endpoint :: "page_doc \<Rightarrow> endpoint \<Rightarrow> bool" where
  "known_endpoint page e \<longleftrightarrow>
     (if ep_block e = INTERFACE then ep_port e \<in> set (iface_names (page_interface page))
      else ep_block e \<in> set (element_ids page))"

definition names_unique :: "page_doc \<Rightarrow> bool" where
  "names_unique page \<longleftrightarrow>
     distinct (element_ids page) \<and> INTERFACE \<notin> set (element_ids page)
     \<and> distinct (iface_names (page_interface page))"

definition wires_known :: "page_doc \<Rightarrow> bool" where
  "wires_known page \<longleftrightarrow>
     (\<forall>c \<in> set (page_connections page). known_endpoint page (conn_from c) \<and> known_endpoint page (conn_to c))"

definition single_driver :: "page_doc \<Rightarrow> bool" where
  "single_driver page \<longleftrightarrow> distinct (map conn_to (page_connections page))"

definition page_wf :: "page_doc \<Rightarrow> bool" where
  "page_wf page \<longleftrightarrow> names_unique page \<and> wires_known page \<and> single_driver page"

lemmas page_wf_defs = page_wf_def names_unique_def wires_known_def single_driver_def

lemma page_wfI: "names_unique p \<Longrightarrow> wires_known p \<Longrightarrow> single_driver p \<Longrightarrow> page_wf p"
  by (simp add: page_wf_def)

lemma wires_knownD:
  "wires_known p \<Longrightarrow> c \<in> set (page_connections p) \<Longrightarrow>
   known_endpoint p (conn_from c) \<and> known_endpoint p (conn_to c)"
  by (simp add: wires_known_def)

text \<open>Pages that declare the same names know the same endpoints.\<close>

lemma known_endpoint_cong:
  "set (element_ids p) = set (element_ids q) \<Longrightarrow>
   set (iface_names (page_interface p)) = set (iface_names (page_interface q)) \<Longrightarrow>
   known_endpoint p e = known_endpoint q e"
  by (simp add: known_endpoint_def)

lemma known_endpoint_mono:
  "set (element_ids p) \<subseteq> set (element_ids q) \<Longrightarrow>
   set (iface_names (page_interface p)) \<subseteq> set (iface_names (page_interface q)) \<Longrightarrow>
   known_endpoint p e \<Longrightarrow> known_endpoint q e"
  by (auto simp: known_endpoint_def split: if_splits)

text \<open>An edit that declares the same names and keeps the wires keeps the invariant.\<close>

lemma page_wf_same_names:
  assumes "page_wf p" and "element_ids q = element_ids p"
    and "iface_names (page_interface q) = iface_names (page_interface p)"
    and "page_connections q = page_connections p"
  shows "page_wf q"
  using assms known_endpoint_cong [of p q] by (simp add: page_wf_defs)

lemma sameEndpoint_eq: "sameEndpoint a b \<longleftrightarrow> a = b"
  by (cases a, cases b) (simp add: sameEndpoint_def)

lemma driverOn_iff: "driverOn p e \<longleftrightarrow> e \<in> conn_to ` set (page_connections p)"
  by (auto simp: driverOn_def sameEndpoint_eq)

lemma sameConnection_iff: "sameConnection c f t \<longleftrightarrow> conn_from c = f \<and> conn_to c = t"
  by (simp add: sameConnection_def sameEndpoint_eq)

lemma emptyPage_wf: "page_wf (emptyPage i n k s)"
  by (simp add: page_wf_defs emptyPage_def element_ids_def iface_names_def iface_ports_def)

section \<open>Deletion\<close>

lemma filter_index_Suc: "filter_index P (x # xs) = (if P 0 then [x] else []) @ filter_index (P \<circ> Suc) xs"
proof -
  have "map snd (filter (\<lambda>(i, x). P i) (enumerate (Suc n) ys)) =
        map snd (filter (\<lambda>(i, x). (P \<circ> Suc) i) (enumerate n ys))" for n and ys :: "'a list"
    by (induction ys arbitrary: n) auto
  then show ?thesis
    by (simp add: filter_index_def)
qed

lemma filter_index_neq: "filter_index (\<lambda>i. i \<noteq> n) xs = take n xs @ drop (Suc n) xs"
proof (induction xs arbitrary: n)
  case (Cons x xs)
  have all: "filter_index (\<lambda>i. True) ys = ys" for ys :: "'a list"
    by (simp add: filter_index_def)
  show ?case
  proof (cases n)
    case 0
    then show ?thesis
      by (simp add: filter_index_Suc comp_def all)
  next
    case (Suc m)
    then show ?thesis
      using Cons [of m] by (simp add: filter_index_Suc comp_def)
  qed
qed (simp add: filter_index_def)

lemma deleteSelection_None [simp]: "deleteSelection p None = p"
  by (simp add: deleteSelection_def)

lemma page_connections_delete:
  "page_connections (deleteSelection p (Some sel)) =
     (case sel of
        SelWire n \<Rightarrow> take n (page_connections p) @ drop (Suc n) (page_connections p)
      | _ \<Rightarrow> filter (\<lambda>c. \<not> endpoint_gone sel (conn_from c) \<and> \<not> endpoint_gone sel (conn_to c))
               (page_connections p))"
  by (cases sel) (simp_all add: deleteSelection_def filter_index_neq)

lemma element_ids_delete:
  "element_ids (deleteSelection p (Some sel)) =
     (case sel of
        SelBlock i \<Rightarrow> filter (\<lambda>j. j \<noteq> i) (map block_id (page_blocks p)) @ map const_id (page_constants p)
      | SelConstant i \<Rightarrow> map block_id (page_blocks p) @ filter (\<lambda>j. j \<noteq> i) (map const_id (page_constants p))
      | _ \<Rightarrow> element_ids p)"
  by (cases sel) (simp_all add: deleteSelection_def element_ids_def filter_map comp_def)

lemma drop_port_names:
  "map port_name (drop_port sel p d) =
     (case sel of SelPort e n \<Rightarrow>
        if e = d then filter (\<lambda>m. m \<noteq> n) (map port_name (iface_ports (page_interface p) d))
        else map port_name (iface_ports (page_interface p) d)
      | _ \<Rightarrow> map port_name (iface_ports (page_interface p) d))"
  by (cases sel) (simp_all add: drop_port_def filter_map comp_def)

lemma iface_names_three:
  "iface_names i = map port_name (if_input i) @ map port_name (if_output i) @ map port_name (if_in_out i)"
  by (simp add: iface_names_def iface_ports_def)

lemma iface_names_delete:
  "iface_names (page_interface (deleteSelection p (Some sel))) =
     (case sel of SelPort d n \<Rightarrow>
        concat (map (\<lambda>e. if e = d then filter (\<lambda>m. m \<noteq> n) (map port_name (iface_ports (page_interface p) e))
                        else map port_name (iface_ports (page_interface p) e)) [Input, Output, In_out])
      | _ \<Rightarrow> iface_names (page_interface p))"
  by (cases sel) (auto simp: iface_names_three deleteSelection_def drop_port_names iface_ports_def)

lemma iface_names_delete_filter:
  assumes "distinct (iface_names (page_interface p))"
  shows "distinct (iface_names (page_interface (deleteSelection p (Some sel))))"
    and "set (iface_names (page_interface (deleteSelection p (Some sel)))) \<supseteq>
      set (iface_names (page_interface p)) - (case sel of SelPort d n \<Rightarrow> {n} | _ \<Rightarrow> {})"
proof -
  have "distinct (iface_names (page_interface (deleteSelection p (Some sel)))) \<and>
    set (iface_names (page_interface (deleteSelection p (Some sel)))) \<supseteq>
      set (iface_names (page_interface p)) - (case sel of SelPort d n \<Rightarrow> {n} | _ \<Rightarrow> {})"
  proof (cases sel)
    case (SelPort d n)
    have "distinct (map port_name (if_input (page_interface p)) @ map port_name (if_output (page_interface p))
        @ map port_name (if_in_out (page_interface p)))"
      using assms by (simp only: iface_names_three)
    then show ?thesis
      unfolding SelPort iface_names_delete iface_names_three [of "page_interface p"]
      by (cases d) (auto simp: iface_ports_def)
  qed (use assms in \<open>simp_all add: iface_names_delete\<close>)
  then show "distinct (iface_names (page_interface (deleteSelection p (Some sel))))"
    and "set (iface_names (page_interface (deleteSelection p (Some sel)))) \<supseteq>
      set (iface_names (page_interface p)) - (case sel of SelPort d n \<Rightarrow> {n} | _ \<Rightarrow> {})"
    by simp_all
qed

lemma known_after_delete:
  assumes "known_endpoint p e" and "\<not> endpoint_gone sel e" and "names_unique p"
  shows "known_endpoint (deleteSelection p (Some sel)) e"
proof (cases "ep_block e = INTERFACE")
  case True
  then show ?thesis
    using assms iface_names_delete_filter(2) [of p sel]
    by (cases sel) (auto simp: known_endpoint_def names_unique_def)
next
  case False
  then show ?thesis
    using assms element_ids_delete [of p sel]
    by (cases sel) (auto simp: known_endpoint_def element_ids_def [of p])
qed

lemma distinct_take_drop: "distinct xs \<Longrightarrow> distinct (take n xs @ drop (Suc n) xs)"
  by (simp add: set_take_disj_set_drop_if_distinct)

lemma single_driver_delete: "single_driver p \<Longrightarrow> single_driver (deleteSelection p (Some sel))"
  using distinct_take_drop [of "map conn_to (page_connections p)"]
  by (cases sel) (simp_all add: single_driver_def page_connections_delete distinct_map_filter take_map drop_map)

lemma wires_known_delete:
  assumes "wires_known p" and "names_unique p"
  shows "wires_known (deleteSelection p (Some sel))"
proof -
  have "known_endpoint (deleteSelection p (Some sel)) (conn_from c)
      \<and> known_endpoint (deleteSelection p (Some sel)) (conn_to c)"
    if "c \<in> set (page_connections (deleteSelection p (Some sel)))" for c
  proof -
    have c: "c \<in> set (page_connections p) \<and> \<not> endpoint_gone sel (conn_from c) \<and> \<not> endpoint_gone sel (conn_to c)"
      using that by (cases sel) (auto simp: page_connections_delete dest: in_set_takeD in_set_dropD)
    show ?thesis
      using c wires_knownD [OF assms(1)] known_after_delete [OF _ _ assms(2)] by blast
  qed
  then show ?thesis
    unfolding wires_known_def by blast
qed

lemma names_unique_delete: "names_unique p \<Longrightarrow> names_unique (deleteSelection p (Some sel))"
  using iface_names_delete_filter(1) [of p sel] element_ids_delete [of p sel]
  by (cases sel) (auto simp: names_unique_def element_ids_def [of p])

lemma deleteSelection_wf [inv_intros]: "page_wf p \<Longrightarrow> page_wf (deleteSelection p sel)"
  using names_unique_delete wires_known_delete single_driver_delete
  by (cases sel) (auto simp: page_wf_def)

end
