(* ===== verification/SimValues.thy ===== *)
theory SimValues
  imports PageInvariant
begin

text \<open>
  What a simulation run shows and what a run request sends (\<open>components/graph/types.ts\<close>, the
  protocol rows of lines 216 to 285 and the functions of lines 576 to 671;
  \<open>components/graph/SimPanel.tsx\<close>; \<open>components/graph/StimulusPanel.tsx\<close>): the text of every pin
  at a cycle, the pins a frame reported as overridden, the scan-cycle scrubber, and the stimulus
  lists with their session-local row keys.
\<close>

section \<open>The answer of a run\<close>

record symbol_series =
  ss_name :: string
  ss_addr :: int
  ss_type :: string
  ss_size :: int
  ss_channel :: "int option"
  ss_values :: "jsval list"
  ss_raw :: "jsval list"
  ss_forced :: "bool list option"

record force_row =
  fr_id :: string
  fr_name :: string
  fr_value :: string
  fr_on :: bool

record script_row =
  sr_id :: string
  sr_cycle :: jsnum
  sr_name :: string
  sr_value :: string
  sr_on :: bool

record cycle_row =
  cy_cycle :: int
  cy_t_ms :: rat
  cy_status :: int
  cy_violations :: int

datatype pin_row_kind = PkSymbol | PkConstant | PkUnconnected | PkUnwatchable

record pin_row =
  pn_page :: string
  pn_element :: string
  pn_port :: string
  pn_direction :: pin_direction
  pn_type :: string
  pn_block_kind :: "string option"
  pn_kind :: pin_row_kind
  pn_symbol :: "string option"
  pn_literal :: "string option"

text \<open>An error of a refused run: a text, or a finding of the checker.\<close>

datatype refusal = RText string | RFinding finding

record run_done =
  dn_cycles :: int
  dn_read_errors :: int
  dn_write_errors :: int

record diagnostic_row =
  dg_severity :: string
  dg_message :: string
  dg_pou :: "string option"
  dg_var :: "string option"
  dg_kind :: "string option"
  dg_loc :: "string option"

record sim_run =
  sim_ok :: bool
  sim_stage :: "string option"
  sim_errors :: "refusal list option"
  sim_warnings :: "finding list option"
  sim_diagnostics :: "diagnostic_row list option"
  sim_cycle_ms :: "rat option"
  sim_runs :: "int option"
  sim_done :: "run_done option"
  sim_timeline :: "cycle_row list option"
  sim_symbols :: "symbol_series list option"
  sim_pins :: "pin_row list option"
  sim_plant :: "string option"
  sim_station :: "string option"

text \<open>\<open>xs ?? []\<close>, \<open>xs[i]\<close> with \<open>None\<close> for \<open>undefined\<close>, and \<open>xs[i] ?? null\<close>.\<close>

definition or_empty :: "'a list option \<Rightarrow> 'a list" where
  "or_empty xs = (case xs of None \<Rightarrow> [] | Some ys \<Rightarrow> ys)"

definition js_nth :: "'a list \<Rightarrow> int \<Rightarrow> 'a option" where
  "js_nth xs i = (if 0 \<le> i \<and> nat i < length xs then Some (xs ! nat i) else None)"

definition value_at :: "jsval list \<Rightarrow> int \<Rightarrow> jsval" where
  "value_at xs i = (case js_nth xs i of None \<Rightarrow> JNull | Some v \<Rightarrow> v)"

section \<open>The text of a pin\<close>

definition rstrip_zeros :: "string \<Rightarrow> string" where
  "rstrip_zeros s = rev (dropWhile (\<lambda>c. c = CHR ''0'') (rev s))"

text \<open>\<open>s.replace(/(\.\d*?)0+$/, "$1")\<close> and \<open>s.replace(/\.$/, "")\<close>.\<close>

definition strip_fraction :: "string \<Rightarrow> string" where
  "strip_fraction s =
     (let whole = takeWhile (\<lambda>c. c \<noteq> CHR ''.'') s; rest = dropWhile (\<lambda>c. c \<noteq> CHR ''.'') s in
      case rest of [] \<Rightarrow> s
      | dot # ds \<Rightarrow> if list_all is_digit ds then whole @ [dot] @ rstrip_zeros ds else s)"

definition strip_dot :: "string \<Rightarrow> string" where
  "strip_dot s = (if s \<noteq> [] \<and> last s = CHR ''.'' then butlast s else s)"

text \<open>\<open>Number(value)\<close> of a value that is no string, and \<open>toPrecision(6)\<close> of any number.\<close>

fun number_of_jsval :: "jsval \<Rightarrow> jsnum" where
  "number_of_jsval (JNum x) = x"
| "number_of_jsval (JBool b) = Num (if b then 1 else 0)"
| "number_of_jsval JNull = Num 0"
| "number_of_jsval (JStr s) = js_number s"

fun num_to_precision :: "nat \<Rightarrow> jsnum \<Rightarrow> string" where
  "num_to_precision p (Num r) = js_to_precision p r"
| "num_to_precision p x = show_num x"

fun formatValue :: "string \<Rightarrow> jsval \<Rightarrow> string" where
  "formatValue stType JNull = dash_text"
| "formatValue stType (JStr s) = s"
| "formatValue stType v =
     (if js_includes stType ''BOOL'' then (if v \<noteq> JNum (Num 0) then ''TRUE'' else ''FALSE'')
      else if js_includes stType ''REAL'' then
        strip_dot (strip_fraction (num_to_precision 6 (number_of_jsval v)))
      else js_string v)"

definition series_of :: "symbol_series list \<Rightarrow> (string, symbol_series) obj" where
  "series_of symbols = obj_build ss_name id symbols"

text \<open>\<open>series.get(pin.symbol ?? "")\<close>\<close>

definition series_for :: "symbol_series list \<Rightarrow> pin_row \<Rightarrow> symbol_series option" where
  "series_for symbols pin =
     obj_get (series_of symbols) (case pn_symbol pin of None \<Rightarrow> [] | Some s \<Rightarrow> s)"

definition pin_row_key :: "pin_row \<Rightarrow> string" where
  "pin_row_key pin = pinKey (pn_element pin) (pn_port pin)"

definition pin_text :: "symbol_series list \<Rightarrow> int \<Rightarrow> pin_row \<Rightarrow> string option" where
  "pin_text symbols cycle pin =
     (if pn_kind pin = PkConstant then pn_literal pin
      else if pn_kind pin = PkSymbol then
        map_option (\<lambda>row. formatValue (ss_type row) (value_at (ss_values row) cycle)) (series_for symbols pin)
      else None)"

definition put_opt :: "('r \<Rightarrow> 'k) \<Rightarrow> ('r \<Rightarrow> 'v option) \<Rightarrow> 'r \<Rightarrow> ('k, 'v) obj \<Rightarrow> ('k, 'v) obj" where
  "put_opt key val r table = (case val r of None \<Rightarrow> table | Some v \<Rightarrow> obj_put (key r) v table)"

definition pinValues :: "sim_run option \<Rightarrow> string \<Rightarrow> int \<Rightarrow> (string, string) obj" where
  "pinValues run pageId cycle =
     (case run of None \<Rightarrow> []
      | Some r \<Rightarrow> (case (sim_pins r, sim_symbols r) of
          (Some pins, Some symbols) \<Rightarrow>
            fold (\<lambda>pin table. if pn_page pin \<noteq> pageId then table
                              else put_opt pin_row_key (pin_text symbols cycle) pin table) pins []
        | _ \<Rightarrow> []))"

definition forced_at :: "int \<Rightarrow> symbol_series \<Rightarrow> bool" where
  "forced_at cycle row \<longleftrightarrow>
     (case ss_forced row of None \<Rightarrow> False | Some fs \<Rightarrow> js_nth fs cycle = Some True)"

definition pin_mark :: "symbol_series list \<Rightarrow> int \<Rightarrow> pin_row \<Rightarrow> bool option" where
  "pin_mark symbols cycle pin =
     (case series_for symbols pin of
        None \<Rightarrow> None | Some row \<Rightarrow> if forced_at cycle row then Some True else None)"

definition pinForced :: "sim_run option \<Rightarrow> string \<Rightarrow> int \<Rightarrow> (string, bool) obj" where
  "pinForced run pageId cycle =
     (case run of None \<Rightarrow> []
      | Some r \<Rightarrow> (case (sim_pins r, sim_symbols r) of
          (Some pins, Some symbols) \<Rightarrow>
            fold (\<lambda>pin table. if pn_page pin \<noteq> pageId \<or> pn_kind pin \<noteq> PkSymbol then table
                              else put_opt pin_row_key (pin_mark symbols cycle) pin table) pins []
        | _ \<Rightarrow> []))"

text \<open>A conditional table is the table of the rows that have a value.\<close>

lemma fold_put_opt:
  "fold (\<lambda>r table. if P r then table else put_opt key val r table) rows m =
   fold (\<lambda>r. obj_put (key r) (the (val r))) (filter (\<lambda>r. \<not> P r \<and> val r \<noteq> None) rows) m"
  by (induction rows arbitrary: m) (auto simp: put_opt_def)

lemma pinValues_build:
  assumes "sim_pins r = Some pins" and "sim_symbols r = Some symbols"
  shows "pinValues (Some r) pageId cycle =
    obj_build pin_row_key (\<lambda>pin. the (pin_text symbols cycle pin))
      (filter (\<lambda>pin. pn_page pin = pageId \<and> pin_text symbols cycle pin \<noteq> None) pins)"
  using assms fold_put_opt [of "\<lambda>pin. pn_page pin \<noteq> pageId" pin_row_key "pin_text symbols cycle" pins]
  by (simp add: pinValues_def obj_build_def)

lemma pinForced_build:
  assumes "sim_pins r = Some pins" and "sim_symbols r = Some symbols"
  shows "pinForced (Some r) pageId cycle =
    obj_build pin_row_key (\<lambda>pin. the (pin_mark symbols cycle pin))
      (filter (\<lambda>pin. (pn_page pin = pageId \<and> pn_kind pin = PkSymbol) \<and> pin_mark symbols cycle pin \<noteq> None) pins)"
  using assms fold_put_opt [of "\<lambda>pin. pn_page pin \<noteq> pageId \<or> pn_kind pin \<noteq> PkSymbol" pin_row_key
      "pin_mark symbols cycle" pins]
  by (simp add: pinForced_def obj_build_def)

lemma pin_mark_Some:
  "pin_mark symbols cycle pin = Some v \<longleftrightarrow>
   v \<and> (\<exists>row. series_for symbols pin = Some row \<and> forced_at cycle row)"
  by (auto simp: pin_mark_def split: option.splits if_splits)

lemma series_for_in: "series_for symbols pin = Some row \<Longrightarrow> row \<in> set symbols"
  unfolding series_for_def series_of_def by (auto dest: obj_build_in)

lemma pinValues_no_tables: "sim_pins r = None \<or> sim_symbols r = None \<Longrightarrow> pinValues (Some r) p c = []"
  by (auto simp: pinValues_def split: option.splits)

lemma pinForced_no_tables: "sim_pins r = None \<or> sim_symbols r = None \<Longrightarrow> pinForced (Some r) p c = []"
  by (auto simp: pinForced_def split: option.splits)

lemma run_tables_cases:
  obtains pins symbols where "sim_pins r = Some pins" and "sim_symbols r = Some symbols"
  | "sim_pins r = None \<or> sim_symbols r = None"
  by (cases "sim_pins r"; cases "sim_symbols r") auto

section \<open>Properties\<close>

text \<open>
  A pin of the sheet shows a text exactly when the run names its value: the literal of a constant
  pin, or the formatted value that the series of its symbol holds at the cycle shown. No other pin
  is labelled, when no two pin rows of the sheet share a key.
\<close>

theorem pin_text_shown:
  assumes "sim_pins r = Some pins" and "sim_symbols r = Some symbols"
    and "distinct (map pin_row_key (filter (\<lambda>pin. pn_page pin = sheet) pins))"
  shows "obj_get (pinValues (Some r) sheet cycle) key = Some shown \<longleftrightarrow>
    (\<exists>pin \<in> set pins. pn_page pin = sheet \<and> pin_row_key pin = key
       \<and> (pn_kind pin = PkConstant \<and> pn_literal pin = Some shown
          \<or> pn_kind pin = PkSymbol \<and> (\<exists>row. series_for symbols pin = Some row
               \<and> shown = formatValue (ss_type row) (value_at (ss_values row) cycle))))"
    (is "?l \<longleftrightarrow> ?r")
proof -
  let ?rows = "filter (\<lambda>pin. pn_page pin = sheet \<and> pin_text symbols cycle pin \<noteq> None) pins"
  have spec: "pin_text symbols cycle pin = Some shown \<longleftrightarrow>
      pn_kind pin = PkConstant \<and> pn_literal pin = Some shown
      \<or> pn_kind pin = PkSymbol \<and> (\<exists>row. series_for symbols pin = Some row
           \<and> shown = formatValue (ss_type row) (value_at (ss_values row) cycle))" for pin
    by (auto simp: pin_text_def)
  have "distinct (map pin_row_key ?rows)"
    using distinct_map_filter [OF assms(3), of "\<lambda>pin. pin_text symbols cycle pin \<noteq> None"]
    by (simp add: conj_commute)
  then have build: "obj_get (obj_build pin_row_key (\<lambda>pin. the (pin_text symbols cycle pin)) ?rows) key = Some shown
      \<longleftrightarrow> (\<exists>pin \<in> set ?rows. pin_row_key pin = key \<and> the (pin_text symbols cycle pin) = shown)"
    by (rule obj_build_iff)
  show ?thesis
    unfolding pinValues_build [OF assms(1,2)] build spec [symmetric] by auto
qed

definition sample_run :: sim_run where
  "sample_run =
     \<lparr>sim_ok = True, sim_stage = None, sim_errors = None, sim_warnings = None, sim_diagnostics = None,
      sim_cycle_ms = Some 10, sim_runs = None, sim_done = None,
      sim_timeline = Some (map (\<lambda>n. \<lparr>cy_cycle = n, cy_t_ms = of_int n * 10, cy_status = 0, cy_violations = 0\<rparr>) [1, 2, 3]),
      sim_symbols = Some [\<lparr>ss_name = ''g.x'', ss_addr = 0, ss_type = ''REAL'', ss_size = 4, ss_channel = None,
         ss_values = [JNum (Num 1), JNum (Num (5/2))], ss_raw = [], ss_forced = Some [False, True]\<rparr>],
      sim_pins = Some [\<lparr>pn_page = ''P1'', pn_element = ''add1'', pn_port = ''OUT'', pn_direction = PinOut,
         pn_type = ''REAL'', pn_block_kind = None, pn_kind = PkSymbol, pn_symbol = Some ''g.x'', pn_literal = None\<rparr>],
      sim_plant = None, sim_station = None\<rparr>"

theorem pin_text_shown_witness: "obj_get (pinValues (Some sample_run) ''P1'' 1) ''add1.OUT'' = Some ''2.5''"
proof -
  let ?symbols = "the (sim_symbols sample_run)"
  let ?pin = "hd (the (sim_pins sample_run))"
  let ?row = "hd ?symbols"
  have "series_for ?symbols ?pin = Some ?row"
    by (simp add: sample_run_def series_for_def series_of_def obj_build_def obj_get_def)
  moreover have "formatValue (ss_type ?row) (value_at (ss_values ?row) 1) = ''2.5''"
    by code_simp
  ultimately show ?thesis
    using pin_text_shown [of sample_run "[?pin]" ?symbols "''P1''" 1 "''add1.OUT''" "''2.5''"]
    by (simp add: sample_run_def pin_row_key_def pinKey_def)
qed

text \<open>
  A pin marked as overridden is one that shows a value, and a frame said so: its symbol is
  watched and the series of the symbol is forced at the cycle shown.
\<close>

theorem forced_pin_is_shown:
  assumes "obj_get (pinForced (Some r) sheet cycle) key = Some b"
  shows "b \<and> obj_get (pinValues (Some r) sheet cycle) key \<noteq> None
    \<and> (\<exists>pin row. pin \<in> set (or_empty (sim_pins r)) \<and> row \<in> set (or_empty (sim_symbols r))
         \<and> pn_page pin = sheet \<and> pin_row_key pin = key \<and> forced_at cycle row)"
proof (cases rule: run_tables_cases [of r])
  case (1 pins symbols)
  obtain pin where pin: "pin \<in> set pins" "pn_page pin = sheet" "pn_kind pin = PkSymbol"
      "pin_row_key pin = key" "pin_mark symbols cycle pin = Some b"
    using assms unfolding pinForced_build [OF 1] by (auto dest!: obj_build_in)
  then obtain row where row: "b" "series_for symbols pin = Some row" "forced_at cycle row"
    by (auto simp: pin_mark_Some)
  then have "pin_text symbols cycle pin \<noteq> None"
    using pin by (simp add: pin_text_def)
  then have "obj_get (pinValues (Some r) sheet cycle) key \<noteq> None"
    unfolding pinValues_build [OF 1] using pin by (auto simp: obj_build_None_iff image_iff)
  then show ?thesis
    using pin row 1 series_for_in [OF row(2)] by (auto simp: or_empty_def)
next
  case 2
  then show ?thesis
    using assms by (simp add: pinForced_no_tables obj_get_def)
qed

theorem forced_pin_is_shown_witness: "obj_get (pinValues (Some sample_run) ''P1'' 1) ''add1.OUT'' \<noteq> None"
proof -
  have "obj_get (pinForced (Some sample_run) ''P1'' 1) ''add1.OUT'' = Some True"
    by (simp add: pinForced_def sample_run_def put_opt_def pin_mark_def series_for_def series_of_def
        obj_build_def obj_get_def forced_at_def js_nth_def pin_row_key_def pinKey_def)
  then show ?thesis
    using forced_pin_is_shown by blast
qed

end
