(* ===== verification/SimPanels.thy ===== *)
theory SimPanels
  imports SimValues
begin

text \<open>
  The panels of a simulation: the scan-cycle scrubber and the table of symbols
  (\<open>components/graph/SimPanel.tsx\<close>), and the stimulus lists with their session-local row keys
  (\<open>components/graph/StimulusPanel.tsx\<close> and lines 631 to 671 of \<open>components/graph/types.ts\<close>). A view
  is the record of what the component displays and which of its buttons are enabled.
\<close>

section \<open>The scrubber\<close>

definition sim_count :: "sim_run \<Rightarrow> int" where
  "sim_count run = int (length (or_empty (sim_timeline run)))"

text \<open>The replay timer and the four step buttons; the argument of \<open>onCycle\<close> is the result.\<close>

definition replay_runs :: "bool \<Rightarrow> sim_run \<Rightarrow> bool" where
  "replay_runs playing run \<longleftrightarrow> playing \<and> \<not> sim_count run < 2"

definition replay_tick :: "sim_run \<Rightarrow> int \<Rightarrow> int" where
  "replay_tick run cycle = js_rem (cycle + 1) (sim_count run)"

definition timeline_step :: "sim_run \<Rightarrow> int \<Rightarrow> int" where
  "timeline_step run index = max 0 (min (sim_count run - 1) index)"

datatype scrub = ToFirst | ToPrevious | ToNext | ToLast | Tick

definition scrub_cycle :: "sim_run \<Rightarrow> scrub \<Rightarrow> int \<Rightarrow> int" where
  "scrub_cycle run b cycle =
     (case b of
        ToFirst \<Rightarrow> timeline_step run 0
      | ToPrevious \<Rightarrow> timeline_step run (cycle - 1)
      | ToNext \<Rightarrow> timeline_step run (cycle + 1)
      | ToLast \<Rightarrow> timeline_step run (sim_count run - 1)
      | Tick \<Rightarrow> replay_tick run cycle)"

definition scrub_enabled :: "sim_run \<Rightarrow> scrub \<Rightarrow> int \<Rightarrow> bool" where
  "scrub_enabled run b cycle =
     (case b of
        ToFirst \<Rightarrow> cycle \<noteq> 0
      | ToPrevious \<Rightarrow> cycle \<noteq> 0
      | ToNext \<Rightarrow> \<not> cycle \<ge> sim_count run - 1
      | ToLast \<Rightarrow> \<not> cycle \<ge> sim_count run - 1
      | Tick \<Rightarrow> replay_runs True run)"

record timeline_view =
  tv_slider :: int
  tv_cycle :: string
  tv_time :: string
  tv_violation :: string
  tv_violated :: bool
  tv_status :: string
  tv_stale :: bool
  tv_symbols :: string

definition timeline_row :: "sim_run \<Rightarrow> int \<Rightarrow> cycle_row option" where
  "timeline_row run cycle = js_nth (or_empty (sim_timeline run)) (min cycle (sim_count run - 1))"

text \<open>\<open>None\<close>: the component renders nothing.\<close>

definition timeline_view :: "(string \<Rightarrow> string) \<Rightarrow> sim_run \<Rightarrow> int \<Rightarrow> bool \<Rightarrow> timeline_view option" where
  "timeline_view t run cycle stale =
     (if sim_count run = 0 then None
      else let row = timeline_row run cycle;
               violations = (case row of None \<Rightarrow> 0 | Some r \<Rightarrow> cy_violations r);
               runs = (case sim_runs run of None \<Rightarrow> 1 | Some n \<Rightarrow> n) in
        Some \<lparr>tv_slider = min (cycle + 1) (sim_count run),
              tv_cycle = t ''sim.cycle'' @ '' '' @ show_int (cycle + 1) @ ''/'' @ show_int (sim_count run),
              tv_time = ''t = '' @ show_rat (case row of None \<Rightarrow> 0 | Some r \<Rightarrow> cy_t_ms r) @ '' ms'',
              tv_violation = t ''sim.violation'' @ '' '' @ show_int violations,
              tv_violated = (violations > 0),
              tv_status = t ''sim.status'' @ '' '' @ show_int (case row of None \<Rightarrow> 0 | Some r \<Rightarrow> cy_status r),
              tv_stale = stale,
              tv_symbols = show_nat (length (or_empty (sim_symbols run))) @ '' '' @ t ''sim.symbol''
                @ '' '' @ middot @ '' ''
                @ (if runs > 1 then show_int runs @ '' '' @ t ''sim.runsMerged'' else t ''sim.singleRun'')\<rparr>)"

lemma timeline_step_range: "0 < sim_count run \<Longrightarrow> 0 \<le> timeline_step run i \<and> timeline_step run i < sim_count run"
  by (auto simp: timeline_step_def)

lemma replay_tick_range:
  "0 < sim_count run \<Longrightarrow> 0 \<le> cycle \<Longrightarrow> 0 \<le> replay_tick run cycle \<and> replay_tick run cycle < sim_count run"
  by (simp add: replay_tick_def js_rem_def)

text \<open>The scrubber is an editor of the cycle index.\<close>

definition cycle_in_run :: "sim_run \<Rightarrow> int \<Rightarrow> bool" where
  "cycle_in_run run cycle \<longleftrightarrow> 0 \<le> cycle \<and> cycle < sim_count run"

interpretation scrubber: editor "scrub_cycle run" "scrub_enabled run" "cycle_in_run run" for run
  by unfold_locales
    (auto simp: cycle_in_run_def scrub_cycle_def timeline_step_def replay_tick_def js_rem_def split: scrub.splits)

lemma scrub_moves:
  assumes "cycle_in_run run cycle" and "scrub_enabled run b cycle"
  shows "scrub_cycle run b cycle \<noteq> cycle"
proof (cases b)
  case Tick
  have "(cycle + 1) mod sim_count run \<noteq> cycle"
  proof (cases "cycle + 1 < sim_count run")
    case True
    then show ?thesis
      using assms by (simp add: cycle_in_run_def)
  next
    case False
    then have "cycle + 1 = sim_count run" and "sim_count run \<ge> 2"
      using assms Tick by (auto simp: cycle_in_run_def scrub_enabled_def replay_runs_def)
    then show ?thesis
      by simp
  qed
  with Tick assms show ?thesis
    by (simp add: scrub_cycle_def replay_tick_def js_rem_def cycle_in_run_def)
qed (use assms in \<open>auto simp: cycle_in_run_def scrub_cycle_def scrub_enabled_def timeline_step_def\<close>)

section \<open>The table of symbols\<close>

fun refusal_text :: "refusal \<Rightarrow> string" where
  "refusal_text (RText s) = s"
| "refusal_text (RFinding f) = fd_message f"

definition refusalErrors :: "sim_run \<Rightarrow> string list" where
  "refusalErrors run = map refusal_text (or_empty (sim_errors run))"

definition forcedCount :: "sim_run \<Rightarrow> int \<Rightarrow> nat" where
  "forcedCount run cycle = length (filter (forced_at cycle) (or_empty (sim_symbols run)))"

definition pinsFor :: "sim_run option \<Rightarrow> string \<Rightarrow> pin_row list" where
  "pinsFor run symbol =
     (case run of None \<Rightarrow> [] | Some r \<Rightarrow> filter (\<lambda>pin. pn_symbol pin = Some symbol) (or_empty (sim_pins r)))"

definition pin_label :: "pin_row \<Rightarrow> string" where
  "pin_label pin = (if pn_element pin = INTERFACE then pn_port pin else pn_element pin @ ''.'' @ pn_port pin)"

record jump_target =
  jt_page :: string
  jt_block :: string
  jt_port :: string

record symbol_view =
  sy_name :: string
  sy_type :: string
  sy_addr :: string
  sy_channel :: string
  sy_forced :: bool
  sy_value :: string
  sy_pins :: "(string \<times> jump_target) list"
  sy_seed :: "string \<times> string"

definition symbol_view :: "sim_run \<Rightarrow> int \<Rightarrow> symbol_series \<Rightarrow> symbol_view" where
  "symbol_view run cycle row =
     (let shown = pinsFor (Some run) (ss_name row);
          index = min cycle (int (length (ss_values row)) - 1);
          v = value_at (ss_values row) index;
          isForced = forced_at index row in
      \<lparr>sy_name = ss_name row,
       sy_type = ss_type row,
       sy_addr = show_int (ss_addr row),
       sy_channel = (case ss_channel row of None \<Rightarrow> dash_text | Some c \<Rightarrow> show_int c),
       sy_forced = isForced,
       sy_value = (if isForced then ''F '' else []) @ (if v = JNull then dash_text else js_string v),
       sy_pins = map (\<lambda>pin. (pin_label pin,
           \<lparr>jt_page = pn_page pin, jt_block = pn_element pin, jt_port = pn_port pin\<rparr>)) shown,
       sy_seed = (ss_name row, if v = JNull then [] else js_string v)\<rparr>)"

text \<open>The body of the panel: a refused run, a run that was made, or the invitation to make one.\<close>

datatype sim_body =
    Refused string "string list" "string list" "string list"
  | Symbols "symbol_view list"
  | NotSimulated
  | NoBody

definition diagnostic_text :: "diagnostic_row \<Rightarrow> string" where
  "diagnostic_text row =
     (case dg_loc row of None \<Rightarrow> [] | Some l \<Rightarrow> if l = [] then [] else l @ '' '') @ dg_message row"

definition sim_panel_body :: "(string \<Rightarrow> string) \<Rightarrow> sim_run option \<Rightarrow> string option \<Rightarrow> bool \<Rightarrow> int \<Rightarrow> sim_body" where
  "sim_panel_body t run error busy cycle =
     (case run of
        None \<Rightarrow> if error \<in> {None, Some []} \<and> \<not> busy then NotSimulated else NoBody
      | Some r \<Rightarrow>
          if sim_ok r then Symbols (map (symbol_view r cycle) (or_empty (sim_symbols r)))
          else Refused (t ''sim.rejected'' @ (case sim_stage r of None \<Rightarrow> t ''sim.unknownStage'' | Some s \<Rightarrow> s))
                 (refusalErrors r) (map diagnostic_text (or_empty (sim_diagnostics r)))
                 (map fd_message (or_empty (sim_warnings r))))"

definition sim_panel_header :: "(string \<Rightarrow> string) \<Rightarrow> sim_run option \<Rightarrow> int \<Rightarrow> string list" where
  "sim_panel_header t run cycle =
     (case run of None \<Rightarrow> []
      | Some r \<Rightarrow> if \<not> sim_ok r then [] else
          (case sim_done r of None \<Rightarrow> [] | Some d \<Rightarrow>
             [show_int (dn_cycles d) @ '' '' @ t ''sim.cycle'' @ '' '' @ middot @ '' ''
              @ (case sim_cycle_ms r of None \<Rightarrow> [] | Some ms \<Rightarrow> show_rat ms) @ '' ms '' @ middot @ '' ''
              @ t ''sim.readError'' @ '' '' @ show_int (dn_read_errors d) @ '' '' @ middot @ '' ''
              @ t ''sim.writeError'' @ '' '' @ show_int (dn_write_errors d)])
          @ (case sim_plant r of None \<Rightarrow> [] | Some p \<Rightarrow> [t ''sim.plantTable'' @ '' '' @ p])
          @ (case sim_station r of None \<Rightarrow> [] | Some s \<Rightarrow> [t ''sim.station'' @ '' '' @ s])
          @ [if forcedCount r cycle \<noteq> 0 then show_nat (forcedCount r cycle) @ '' '' @ t ''sim.forcedValues''
             else t ''sim.noForced''])"

section \<open>Properties\<close>

text \<open>
  The replay shows every scan cycle in order and starts over: after \<open>n\<close> ticks from the first
  cycle the scrubber stands on cycle \<open>n\<close> modulo the number of cycles.
\<close>

theorem replay_in_order:
  assumes "0 < sim_count run"
  shows "(replay_tick run ^^ n) 0 = int n mod sim_count run"
proof (induction n)
  case (Suc n)
  have "(replay_tick run ^^ Suc n) 0 = replay_tick run (int n mod sim_count run)"
    by (simp add: Suc.IH)
  also have "\<dots> = (int n mod sim_count run + 1) mod sim_count run"
    using assms pos_mod_sign [OF assms, of "int n"] unfolding replay_tick_def js_rem_def
    by (subst if_not_P) (linarith, simp)
  finally show ?case
    by (simp add: mod_simps add.commute)
qed simp

theorem replay_in_order_witness: "(replay_tick sample_run ^^ 7) 0 = 1"
  using replay_in_order [of sample_run 7] by (simp add: sample_run_def sim_count_def or_empty_def)

text \<open>
  Whatever enabled buttons and ticks of the scrubber follow one another, the cycle shown stays
  a cycle of the run, so that the row of the timeline is always there.
\<close>

theorem scrubber_in_range:
  assumes "cycle_in_run run cycle"
    and "\<And>n. n < length bs \<Longrightarrow> scrub_enabled run (bs ! n) (fold (scrub_cycle run) (take n bs) cycle)"
  shows "cycle_in_run run (fold (scrub_cycle run) bs cycle)
    \<and> timeline_row run (fold (scrub_cycle run) bs cycle) \<noteq> None"
proof -
  have "cycle_in_run run (fold (scrub_cycle run) bs cycle)"
    using assms by (rule scrubber.session_keeps)
  then show ?thesis
    by (auto simp: cycle_in_run_def timeline_row_def js_nth_def sim_count_def)
qed

theorem scrubber_in_range_witness: "timeline_row sample_run (fold (scrub_cycle sample_run) [ToNext, ToLast] 0) \<noteq> None"
proof -
  have "scrub_enabled sample_run ([ToNext, ToLast] ! n) (fold (scrub_cycle sample_run) (take n [ToNext, ToLast]) 0)"
    if "n < length [ToNext, ToLast]" for n
    using that by (cases n) (auto simp: scrub_enabled_def scrub_cycle_def timeline_step_def sim_count_def
        sample_run_def or_empty_def)
  then show ?thesis
    using scrubber_in_range [of sample_run 0 "[ToNext, ToLast]"]
    by (simp add: cycle_in_run_def sim_count_def sample_run_def or_empty_def)
qed

end
