(* ===== verification/Stimulus.thy ===== *)
theory Stimulus
  imports SimPanels
begin

text \<open>
  The stimulus of a run: the force list and the test script with their session-local row keys, the
  edits of \<open>components/graph/StimulusPanel.tsx\<close>, and the request body of lines 631 to 671 of
  \<open>components/graph/types.ts\<close>. The module variable \<open>stimulusSequence\<close> is a field of the state.
\<close>

section \<open>The request\<close>

definition usable :: "bool \<Rightarrow> string \<Rightarrow> string \<Rightarrow> bool" where
  "usable on name value \<longleftrightarrow> on \<and> js_trim name \<noteq> [] \<and> js_trim value \<noteq> []"

record sent_force =
  sf_name :: string
  sf_value :: string

record sent_script =
  sc_cycle :: jsnum
  sc_name :: string
  sc_value :: string

record stimulus_payload =
  pl_forces :: "sent_force list"
  pl_script :: "sent_script list"

definition force_usable :: "force_row \<Rightarrow> bool" where
  "force_usable row = usable (fr_on row) (fr_name row) (fr_value row)"

definition script_usable :: "script_row \<Rightarrow> bool" where
  "script_usable row = usable (sr_on row) (sr_name row) (sr_value row)"

definition stimulusPayload :: "force_row list \<Rightarrow> script_row list \<Rightarrow> stimulus_payload" where
  "stimulusPayload forces script =
     \<lparr>pl_forces = map (\<lambda>row. \<lparr>sf_name = js_trim (fr_name row), sf_value = js_trim (fr_value row)\<rparr>)
        (filter force_usable forces),
      pl_script = map (\<lambda>row. \<lparr>sc_cycle = sr_cycle row, sc_name = js_trim (sr_name row),
                               sc_value = js_trim (sr_value row)\<rparr>)
        (filter script_usable script)\<rparr>"

record run_body =
  rb_station :: "string option"
  rb_cycles :: jsnum
  rb_stimulus :: stimulus_payload

definition or_null :: "string \<Rightarrow> string option" where
  "or_null s = (if s = [] then None else Some s)"

definition simRunBody :: "string \<Rightarrow> jsnum \<Rightarrow> force_row list \<Rightarrow> script_row list \<Rightarrow> run_body" where
  "simRunBody station cycles forces script =
     \<lparr>rb_station = or_null station, rb_cycles = cycles, rb_stimulus = stimulusPayload forces script\<rparr>"

section \<open>The lists\<close>

record stimulus =
  st_forces :: "force_row list"
  st_script :: "script_row list"
  st_sequence :: nat

datatype row_prefix = PForce | PScript

definition prefix_text :: "row_prefix \<Rightarrow> string" where
  "prefix_text p = (case p of PForce \<Rightarrow> ''force'' | PScript \<Rightarrow> ''script'')"

definition newStimulusId :: "row_prefix \<Rightarrow> nat \<Rightarrow> string \<times> nat" where
  "newStimulusId p sequence = (prefix_text p @ show_nat (sequence + 1), sequence + 1)"

definition makeForceRow :: "string \<Rightarrow> string \<Rightarrow> nat \<Rightarrow> force_row \<times> nat" where
  "makeForceRow name value sequence =
     (let (i, sequence') = newStimulusId PForce sequence
      in (\<lparr>fr_id = i, fr_name = name, fr_value = value, fr_on = True\<rparr>, sequence'))"

definition makeScriptRow :: "string \<Rightarrow> jsnum \<Rightarrow> string \<Rightarrow> nat \<Rightarrow> script_row \<times> nat" where
  "makeScriptRow name cycle value sequence =
     (let (i, sequence') = newStimulusId PScript sequence
      in (\<lparr>sr_id = i, sr_cycle = js_max (Num 1) cycle, sr_name = name, sr_value = value, sr_on = True\<rparr>,
          sequence'))"

text \<open>The cells of a row hand up a patch of one field.\<close>

datatype force_patch = ForceOn bool | ForceName string | ForceValue string

datatype script_patch = ScriptOn bool | ScriptName string | ScriptValue string | ScriptCycle string

fun patch_force :: "force_patch \<Rightarrow> force_row \<Rightarrow> force_row" where
  "patch_force (ForceOn b) row = row\<lparr>fr_on := b\<rparr>"
| "patch_force (ForceName n) row = row\<lparr>fr_name := n\<rparr>"
| "patch_force (ForceValue v) row = row\<lparr>fr_value := v\<rparr>"

fun patch_script :: "script_patch \<Rightarrow> script_row \<Rightarrow> script_row" where
  "patch_script (ScriptOn b) row = row\<lparr>sr_on := b\<rparr>"
| "patch_script (ScriptName n) row = row\<lparr>sr_name := n\<rparr>"
| "patch_script (ScriptValue v) row = row\<lparr>sr_value := v\<rparr>"
| "patch_script (ScriptCycle v) row = row\<lparr>sr_cycle := js_or_default (js_number v) 1\<rparr>"

datatype stimulus_edit =
    PatchForce string force_patch
  | PatchScript string script_patch
  | AddForce string string
  | AddRecord string
  | RemoveForce string
  | RemoveRecord string

definition stimulus_step :: "stimulus_edit \<Rightarrow> stimulus \<Rightarrow> stimulus" where
  "stimulus_step e s =
     (case e of
        PatchForce i p \<Rightarrow>
          s\<lparr>st_forces := map (\<lambda>row. if fr_id row = i then patch_force p row else row) (st_forces s)\<rparr>
      | PatchScript i p \<Rightarrow>
          s\<lparr>st_script := map (\<lambda>row. if sr_id row = i then patch_script p row else row) (st_script s)\<rparr>
      | AddForce name value \<Rightarrow>
          (let (row, n) = makeForceRow name value (st_sequence s)
           in s\<lparr>st_forces := st_forces s @ [row], st_sequence := n\<rparr>)
      | AddRecord name \<Rightarrow>
          (let last_cycle = (if st_script s = [] then Num 0 else sr_cycle (last (st_script s)));
               (row, n) = makeScriptRow name (js_plus last_cycle (Num 1)) [] (st_sequence s)
           in s\<lparr>st_script := st_script s @ [row], st_sequence := n\<rparr>)
      | RemoveForce i \<Rightarrow> s\<lparr>st_forces := filter (\<lambda>row. fr_id row \<noteq> i) (st_forces s)\<rparr>
      | RemoveRecord i \<Rightarrow> s\<lparr>st_script := filter (\<lambda>row. sr_id row \<noteq> i) (st_script s)\<rparr>)"

text \<open>The symbol the two buttons of the panel add a row for.\<close>

definition preset_name :: "string \<Rightarrow> symbol_series list \<Rightarrow> string" where
  "preset_name preset symbols =
     (if preset \<noteq> [] then preset else case map ss_name symbols of [] \<Rightarrow> [] | n # ns \<Rightarrow> n)"

definition rows_on :: "stimulus \<Rightarrow> nat \<times> nat" where
  "rows_on s = (length (filter fr_on (st_forces s)), length (filter sr_on (st_script s)))"

definition beyond_run :: "jsnum \<Rightarrow> script_row \<Rightarrow> bool" where
  "beyond_run cycles row = js_less cycles (sr_cycle row)"

section \<open>Row keys\<close>

text \<open>A key is fresh as long as every key of its kind was handed out before.\<close>

definition keys_issued :: "row_prefix \<Rightarrow> nat \<Rightarrow> string set" where
  "keys_issued p n = (\<lambda>k. prefix_text p @ show_nat k) ` {1..n}"

definition stimulus_wf :: "stimulus \<Rightarrow> bool" where
  "stimulus_wf s \<longleftrightarrow>
     distinct (map fr_id (st_forces s)) \<and> set (map fr_id (st_forces s)) \<subseteq> keys_issued PForce (st_sequence s)
     \<and> distinct (map sr_id (st_script s)) \<and> set (map sr_id (st_script s)) \<subseteq> keys_issued PScript (st_sequence s)"

lemma keys_issued_mono: "m \<le> n \<Longrightarrow> keys_issued p m \<subseteq> keys_issued p n"
  by (auto simp: keys_issued_def)

lemma new_key_fresh: "fst (newStimulusId p n) \<notin> keys_issued p n"
  by (auto simp: newStimulusId_def keys_issued_def dest: show_nat_inj)

lemma new_key_issued: "fst (newStimulusId p n) \<in> keys_issued p (snd (newStimulusId p n))"
  by (auto simp: newStimulusId_def keys_issued_def)

lemma patch_force_id [simp]: "fr_id (patch_force p row) = fr_id row"
  by (cases p) auto

lemma patch_script_id [simp]: "sr_id (patch_script p row) = sr_id row"
  by (cases p) auto

lemma map_id_patch_force:
  "map fr_id (map (\<lambda>row. if fr_id row = i then patch_force p row else row) rows) = map fr_id rows"
  by (induction rows) auto

lemma map_id_patch_script:
  "map sr_id (map (\<lambda>row. if sr_id row = i then patch_script p row else row) rows) = map sr_id rows"
  by (induction rows) auto

lemma makeForceRow_id: "fr_id (fst (makeForceRow n v k)) = fst (newStimulusId PForce k)"
  and makeForceRow_seq: "snd (makeForceRow n v k) = Suc k"
  by (auto simp: makeForceRow_def newStimulusId_def)

lemma makeScriptRow_id: "sr_id (fst (makeScriptRow n c v k)) = fst (newStimulusId PScript k)"
  and makeScriptRow_seq: "snd (makeScriptRow n c v k) = Suc k"
  by (auto simp: makeScriptRow_def newStimulusId_def)

lemma issue_key:
  assumes "distinct ids" and "set ids \<subseteq> keys_issued p n"
  shows "distinct (ids @ [fst (newStimulusId p n)])
    \<and> set (ids @ [fst (newStimulusId p n)]) \<subseteq> keys_issued p (Suc n)"
  using assms new_key_fresh [of p n] new_key_issued [of p n] keys_issued_mono [of n "Suc n" p]
  by (auto simp: newStimulusId_def)

lemma stimulus_step_keeps: "stimulus_wf s \<Longrightarrow> stimulus_wf (stimulus_step e s)"
proof (cases e)
  case (PatchForce i p)
  assume "stimulus_wf s"
  then show ?thesis
    by (simp add: PatchForce stimulus_wf_def stimulus_step_def map_id_patch_force del: map_map set_map)
next
  case (PatchScript i p)
  assume "stimulus_wf s"
  then show ?thesis
    by (simp add: PatchScript stimulus_wf_def stimulus_step_def map_id_patch_script del: map_map set_map)
next
  case (AddForce name v)
  assume "stimulus_wf s"
  then show ?thesis
    using issue_key [of "map fr_id (st_forces s)" PForce "st_sequence s"]
      keys_issued_mono [of "st_sequence s" "Suc (st_sequence s)" PScript]
    by (auto simp: AddForce stimulus_wf_def stimulus_step_def makeForceRow_id makeForceRow_seq split_beta Let_def)
next
  case (AddRecord name)
  assume "stimulus_wf s"
  then show ?thesis
    using issue_key [of "map sr_id (st_script s)" PScript "st_sequence s"]
      keys_issued_mono [of "st_sequence s" "Suc (st_sequence s)" PForce]
    by (auto simp: AddRecord stimulus_wf_def stimulus_step_def makeScriptRow_id makeScriptRow_seq split_beta Let_def)
qed (auto simp: stimulus_wf_def stimulus_step_def distinct_map_filter)

interpretation stimulus: editor stimulus_step "\<lambda>e s. True" stimulus_wf
  by unfold_locales (rule stimulus_step_keeps)

lemma usable_cycle: "sr_cycle (patch_script (ScriptCycle v) row) \<notin> {Num 0, NaN}"
  by (simp add: js_or_default_def)

section \<open>Properties\<close>

text \<open>
  C25: in every sequence of edits of the stimulus panel, rows removed and added again included, no two
  rows of a list ever share the key that patches and removals address them by.
\<close>

theorem stimulus_keys_unique:
  assumes "s = fold stimulus_step edits \<lparr>st_forces = [], st_script = [], st_sequence = n\<rparr>"
  shows "distinct (map fr_id (st_forces s)) \<and> distinct (map sr_id (st_script s))"
proof -
  have "stimulus_wf \<lparr>st_forces = [], st_script = [], st_sequence = n\<rparr>"
    by (simp add: stimulus_wf_def)
  then have "stimulus_wf s"
    unfolding assms by (rule stimulus.session_keeps_all) simp
  then show ?thesis
    by (simp add: stimulus_wf_def)
qed

theorem stimulus_keys_unique_witness:
  "distinct (map fr_id (st_forces (fold stimulus_step [AddForce ''a'' [], RemoveForce ''force1'', AddForce ''b'' []]
     \<lparr>st_forces = [], st_script = [], st_sequence = 0\<rparr>)))"
  using stimulus_keys_unique [OF refl] by blast

text \<open>
  A run request carries a force, and a script record, for exactly the rows that are switched on
  and name a symbol and a value, trimmed; a row that is set aside or half filled in is not sent, and
  the forces keep the order of the list.
\<close>

theorem payload_sends_usable:
  "(f \<in> set (pl_forces (stimulusPayload forces script)) \<longleftrightarrow>
      (\<exists>row \<in> set forces. fr_on row \<and> sf_name f = js_trim (fr_name row) \<and> sf_value f = js_trim (fr_value row)
         \<and> sf_name f \<noteq> [] \<and> sf_value f \<noteq> []))
    \<and> pl_forces (stimulusPayload (forces @ rest) script) =
        pl_forces (stimulusPayload forces script) @ pl_forces (stimulusPayload rest script)
    \<and> (g \<in> set (pl_script (stimulusPayload forces script)) \<longleftrightarrow>
      (\<exists>row \<in> set script. sr_on row \<and> sc_cycle g = sr_cycle row \<and> sc_name g = js_trim (sr_name row)
         \<and> sc_value g = js_trim (sr_value row) \<and> sc_name g \<noteq> [] \<and> sc_value g \<noteq> []))"
  by (cases f; cases g) (auto simp: stimulusPayload_def force_usable_def script_usable_def usable_def)

end
