(* ===== verification/GraphEdit.thy ===== *)
theory GraphEdit
  imports PageInvariant
begin

text \<open>
  The edits of a page document: the elements a drop, a button or a palette row creates
  (\<open>dropBlock\<close>, \<open>addConstant\<close>, \<open>addPort\<close> with \<open>uniqueId\<close> and \<open>stTypeOf\<close> of
  \<open>pages/GraphEditorPage.tsx\<close>), the fields of \<open>components/graph/Inspector.tsx\<close>, and the wires and
  moves of \<open>components/graph/Sheet.tsx\<close>. Each is a function from page to page, as the source passes
  to \<open>onPage\<close>; \<open>page_step\<close> collects them, and the locale \<open>editor\<close> is interpreted on it.
\<close>

section \<open>Names\<close>

definition strip_keyword :: "string \<Rightarrow> string \<Rightarrow> string option" where
  "strip_keyword kw s = (if prefix kw s then Some (drop (length kw) s) else None)"

text \<open>\<open>\s+([A-Za-z_][A-Za-z0-9_]*)\<close> at the start of a text.\<close>

definition ident_after :: "string \<Rightarrow> string option" where
  "ident_after s =
     (let r = dropWhile js_is_ws s in
      if r \<noteq> s \<and> r \<noteq> [] \<and> is_ident_start (hd r) then Some (takeWhile is_ident_char r) else None)"

definition pou_here :: "string \<Rightarrow> string option" where
  "pou_here s =
     (case Option.bind (strip_keyword ''FUNCTION_BLOCK'' s) ident_after of
        Some i \<Rightarrow> Some i | None \<Rightarrow> Option.bind (strip_keyword ''FUNCTION'' s) ident_after)"

text \<open>\<open>/(?:FUNCTION_BLOCK|FUNCTION)\s+([A-Za-z_][A-Za-z0-9_]*)/.exec(text)\<close>\<close>

fun find_pou :: "string \<Rightarrow> string option" where
  "find_pou [] = None"
| "find_pou (c # cs) = (case pou_here (c # cs) of Some i \<Rightarrow> Some i | None \<Rightarrow> find_pou cs)"

definition stTypeOf :: "library_block \<Rightarrow> string" where
  "stTypeOf block =
     (case find_pou (case lib_st_template block of None \<Rightarrow> [] | Some t \<Rightarrow> t) of
        Some i \<Rightarrow> i | None \<Rightarrow> lib_name block)"

definition id_stem_char :: "char \<Rightarrow> bool" where
  "id_stem_char c \<longleftrightarrow> js_in_range CHR ''a'' CHR ''z'' c \<or> is_digit c \<or> c = CHR ''_''"

definition id_stem :: "string \<Rightarrow> string" where
  "id_stem stem = filter id_stem_char (js_to_lower stem)"

text \<open>The counting loop of \<open>uniqueId\<close>; it ends because each numeral is another name.\<close>

function find_free :: "string list \<Rightarrow> string \<Rightarrow> nat \<Rightarrow> string" where
  "find_free taken base index =
     (let candidate = base @ show_nat index
      in if candidate \<notin> set taken then candidate else find_free taken base (index + 1))"
  by pat_completeness auto

lemma finite_taken_numerals: "finite {k. (n::nat) \<le> k \<and> base @ show_nat k \<in> set taken}"
proof -
  have "inj (\<lambda>k. base @ show_nat k)"
    by (rule injI) (auto dest: show_nat_inj)
  then have "finite ((\<lambda>k. base @ show_nat k) -` set taken)"
    by (rule finite_vimageI [rotated]) simp
  then show ?thesis
    by (rule rev_finite_subset) auto
qed

termination find_free
proof (relation "measure (\<lambda>(taken, base, n). card {k. n \<le> k \<and> base @ show_nat k \<in> set taken})", goal_cases)
  case (2 taken base n x)
  have "{k. n + 1 \<le> k \<and> base @ show_nat k \<in> set taken} \<subset> {k. n \<le> k \<and> base @ show_nat k \<in> set taken}"
    using 2 by (auto simp: psubset_eq set_eq_iff intro!: exI [of _ n])
  then show ?case
    by (simp add: psubset_card_mono finite_taken_numerals)
qed simp

declare find_free.simps [simp del]

definition uniqueId :: "string list \<Rightarrow> string \<Rightarrow> string" where
  "uniqueId taken stem = find_free taken (id_stem stem) 1"

lemma find_free_fresh: "find_free taken base n \<notin> set taken"
  by (induction taken base n rule: find_free.induct) (subst find_free.simps, auto simp: Let_def)

lemma find_free_numeral:
  "\<exists>k \<ge> n. find_free taken base n = base @ show_nat k
     \<and> (\<forall>j. n \<le> j \<and> j < k \<longrightarrow> base @ show_nat j \<in> set taken)"
proof (induction taken base n rule: find_free.induct)
  case (1 taken base n)
  show ?case
  proof (cases "base @ show_nat n \<in> set taken")
    case False
    then show ?thesis
      by (subst find_free.simps) (auto simp: Let_def)
  next
    case True
    then obtain k where k: "k \<ge> n + 1" "find_free taken base (n + 1) = base @ show_nat k"
        "\<forall>j. n + 1 \<le> j \<and> j < k \<longrightarrow> base @ show_nat j \<in> set taken"
      using 1 by auto
    then have "\<forall>j. n \<le> j \<and> j < k \<longrightarrow> base @ show_nat j \<in> set taken"
      using True by (metis Suc_eq_plus1 le_antisym not_less_eq_eq)
    then show ?thesis
      using k True by (subst find_free.simps) (auto simp: Let_def intro: exI [of _ k])
  qed
qed

lemma uniqueId_fresh: "uniqueId taken stem \<notin> set taken"
  by (simp add: uniqueId_def find_free_fresh)

lemma uniqueId_not_interface: "uniqueId taken stem \<noteq> INTERFACE"
proof
  assume "uniqueId taken stem = INTERFACE"
  then obtain k where "id_stem stem @ show_nat k = INTERFACE"
    using find_free_numeral [of 1 taken "id_stem stem"] unfolding uniqueId_def by metis
  then have "last (show_nat k) = CHR ''_''"
    by (metis INTERFACE_def last.simps last_appendR list.distinct(1) show_nat_not_Nil)
  moreover have "is_digit (last (show_nat k))"
    by (rule show_nat_digits [OF last_in_set]) simp
  ultimately show False
    by (simp add: is_digit_def js_in_range_def)
qed

section \<open>New elements\<close>

definition place_block :: "library_block \<Rightarrow> position \<Rightarrow> page_doc \<Rightarrow> page_doc \<times> string" where
  "place_block def pos current =
     (let ty = stTypeOf def;
          block = \<lparr>block_id = uniqueId (map block_id (page_blocks current) @ map const_id (page_constants current)) ty,
                   block_type = ty, block_library_id = Some (lib_id def), block_position = pos,
                   block_parameters = Some []\<rparr>
      in (current\<lparr>page_blocks := page_blocks current @ [block]\<rparr>, block_id block))"

definition add_constant :: "page_doc \<Rightarrow> page_doc \<times> string" where
  "add_constant current =
     (let i = uniqueId (map block_id (page_blocks current) @ map const_id (page_constants current)) ''K'';
          y = 140 + of_nat (length (page_constants current)) * 60
      in (current\<lparr>page_constants := page_constants current
            @ [\<lparr>const_id = i, const_type = ''REAL'', const_value = JNum (Num 0), const_position = \<lparr>px = 320, py = y\<rparr>\<rparr>]\<rparr>, i))"

record port_seed =
  seed_name :: "string option"
  seed_type :: "string option"
  seed_scope :: "scope option"
  seed_bind :: "bind option"
  seed_unit :: "string option"

definition empty_seed :: port_seed where
  "empty_seed = \<lparr>seed_name = None, seed_type = None, seed_scope = None, seed_bind = None, seed_unit = None\<rparr>"

definition opt_or :: "'a option \<Rightarrow> 'a \<Rightarrow> 'a" where
  "opt_or x d = (case x of None \<Rightarrow> d | Some v \<Rightarrow> v)"

definition seeded_name :: "port_seed \<Rightarrow> page_doc \<Rightarrow> string" where
  "seeded_name seed current =
     (let name = opt_or (seed_name seed) [] in
      if name = [] then uniqueId (iface_names (page_interface current)) ''VAR'' else name)"

definition add_port :: "port_direction \<Rightarrow> port_seed \<Rightarrow> page_doc \<Rightarrow> page_doc \<times> string" where
  "add_port direction seed current =
     (let name = seeded_name seed current;
          sheet = sheet_of current;
          index = of_nat (length (iface_ports (page_interface current) direction));
          pos = (if direction = Output then \<lparr>px = sheet_w sheet - 24 - 40 - 150, py = 120 + index * 40\<rparr>
                 else \<lparr>px = 64, py = 120 + index * 40\<rparr>);
          port = \<lparr>port_name = name, port_type = opt_or (seed_type seed) ''REAL'',
                  port_scope = Some (opt_or (seed_scope seed) External), port_bind = seed_bind seed,
                  port_unit = Some (opt_or (seed_unit seed) []), port_position = Some pos\<rparr>
      in (current\<lparr>page_interface := iface_update direction (\<lambda>ps. ps @ [port]) (page_interface current)\<rparr>, name))"

section \<open>The inspector\<close>

definition patchBlock :: "string \<Rightarrow> (block_node \<Rightarrow> block_node) \<Rightarrow> page_doc \<Rightarrow> page_doc" where
  "patchBlock i f current =
     current\<lparr>page_blocks := map (\<lambda>b. if block_id b = i then f b else b) (page_blocks current)\<rparr>"

definition patchConstant :: "string \<Rightarrow> (constant_node \<Rightarrow> constant_node) \<Rightarrow> page_doc \<Rightarrow> page_doc" where
  "patchConstant i f current =
     current\<lparr>page_constants := map (\<lambda>c. if const_id c = i then f c else c) (page_constants current)\<rparr>"

definition patchPort :: "port_direction \<Rightarrow> string \<Rightarrow> (port \<Rightarrow> port) \<Rightarrow> page_doc \<Rightarrow> page_doc" where
  "patchPort direction name f current =
     current\<lparr>page_interface :=
       iface_update direction (map (\<lambda>p. if port_name p = name then f p else p)) (page_interface current)\<rparr>"

text \<open>The name fields of a block and of a constant rename the element only.\<close>

definition rename_block :: "string \<Rightarrow> string \<Rightarrow> page_doc \<Rightarrow> page_doc" where
  "rename_block old new = patchBlock old (\<lambda>b. b\<lparr>block_id := new\<rparr>)"

definition rename_constant :: "string \<Rightarrow> string \<Rightarrow> page_doc \<Rightarrow> page_doc" where
  "rename_constant old new = patchConstant old (\<lambda>c. c\<lparr>const_id := new\<rparr>)"

text \<open>The name field of a port takes its connections along.\<close>

definition rename_endpoint :: "string \<Rightarrow> string \<Rightarrow> endpoint \<Rightarrow> endpoint" where
  "rename_endpoint old new e = (if ep_block e = INTERFACE \<and> ep_port e = old then e\<lparr>ep_port := new\<rparr> else e)"

definition rename_port :: "port_direction \<Rightarrow> string \<Rightarrow> string \<Rightarrow> page_doc \<Rightarrow> page_doc" where
  "rename_port direction old typed current =
     (let name = js_trim typed in
      if name = [] \<or> name = old then current
      else (patchPort direction old (\<lambda>p. p\<lparr>port_name := name\<rparr>) current)
        \<lparr>page_connections := map (\<lambda>c. \<lparr>conn_from = rename_endpoint old name (conn_from c),
                                         conn_to = rename_endpoint old name (conn_to c)\<rparr>)
           (page_connections current)\<rparr>)"

text \<open>What a value field reads: a boolean, a number, or the text itself.\<close>

definition parse_value :: "string \<Rightarrow> jsval" where
  "parse_value raw =
     (if raw = ''true'' \<or> raw = ''false'' then JBool (raw = ''true'')
      else case js_number raw of NaN \<Rightarrow> JStr raw | x \<Rightarrow> JNum x)"

definition params_of :: "block_node \<Rightarrow> (string, jsval) obj" where
  "params_of block = opt_or (block_parameters block) []"

definition param_renamed :: "string \<Rightarrow> jsval \<Rightarrow> string \<Rightarrow> (string, jsval) obj \<Rightarrow> (string, jsval) obj" where
  "param_renamed key v typed ps = obj_put typed v (if typed \<noteq> key then obj_del key ps else ps)"

datatype param_edit =
    ParamKey string jsval string
  | ParamValue string string
  | ParamRemove string
  | ParamAdd

definition edit_params :: "param_edit \<Rightarrow> (string, jsval) obj \<Rightarrow> (string, jsval) obj" where
  "edit_params e ps =
     (case e of
        ParamKey key v typed \<Rightarrow> param_renamed key v typed ps
      | ParamValue key raw \<Rightarrow> obj_put key (parse_value raw) ps
      | ParamRemove key \<Rightarrow> obj_del key ps
      | ParamAdd \<Rightarrow> obj_put ''P'' (JNum (Num 0)) ps)"

datatype port_patch = PortType string | PortUnit string | PortScope scope | PortBind string string

definition patch_port_field :: "port_patch \<Rightarrow> port \<Rightarrow> port" where
  "patch_port_field e p =
     (case e of
        PortType ty \<Rightarrow> p\<lparr>port_type := ty\<rparr>
      | PortUnit u \<Rightarrow> p\<lparr>port_unit := Some u\<rparr>
      | PortScope s \<Rightarrow> p\<lparr>port_scope := Some s\<rparr>
      | PortBind station variable \<Rightarrow>
          p\<lparr>port_bind := if variable = [] then None
              else Some \<lparr>bind_station = Some station, bind_variable = Some variable\<rparr>\<rparr>)"

section \<open>Wires and moves\<close>

definition pin_endpoint :: "pin_point \<Rightarrow> endpoint" where
  "pin_endpoint p = \<lparr>ep_block = pp_block p, ep_port = pp_port p\<rparr>"

definition commitDraft :: "pin_point \<Rightarrow> pin_point \<Rightarrow> page_doc \<Rightarrow> page_doc" where
  "commitDraft start target doc =
     (let (f, t) = otherSide start target; source = pin_endpoint f; sink = pin_endpoint t in
      if \<exists>c \<in> set (page_connections doc). sameConnection c source sink then doc
      else let kept = (if driverOn doc sink
                       then filter (\<lambda>c. \<not> sameConnection c (conn_from c) sink) (page_connections doc)
                       else page_connections doc)
           in doc\<lparr>page_connections := kept @ [\<lparr>conn_from = source, conn_to = sink\<rparr>]\<rparr>)"

definition move_port :: "port_direction \<Rightarrow> nat \<Rightarrow> position \<Rightarrow> page_doc \<Rightarrow> page_doc" where
  "move_port direction index pos doc =
     doc\<lparr>page_interface := iface_update direction
       (map_index (\<lambda>i p. if i = index then p\<lparr>port_position := Some pos\<rparr> else p)) (page_interface doc)\<rparr>"

definition move_constant :: "string \<Rightarrow> position \<Rightarrow> page_doc \<Rightarrow> page_doc" where
  "move_constant i pos = patchConstant i (\<lambda>c. c\<lparr>const_position := pos\<rparr>)"

definition move_block :: "string \<Rightarrow> position \<Rightarrow> page_doc \<Rightarrow> page_doc" where
  "move_block i pos = patchBlock i (\<lambda>b. b\<lparr>block_position := pos\<rparr>)"

section \<open>All edits\<close>

datatype page_edit =
    PlaceBlock library_block position
  | AddConstant
  | AddPort port_direction port_seed
  | RenameBlock string string
  | RenameConstant string string
  | RenamePort port_direction string string
  | EditParam string param_edit
  | ConstantType string string
  | ConstantValue string string
  | EditPort port_direction string port_patch
  | Connect pin_point pin_point
  | MovePort port_direction nat position
  | MoveConstant string position
  | MoveBlock string position
  | Remove "selection option"

definition page_step :: "page_edit \<Rightarrow> page_doc \<Rightarrow> page_doc" where
  "page_step e p =
     (case e of
        PlaceBlock def pos \<Rightarrow> fst (place_block def pos p)
      | AddConstant \<Rightarrow> fst (add_constant p)
      | AddPort d seed \<Rightarrow> fst (add_port d seed p)
      | RenameBlock i j \<Rightarrow> rename_block i j p
      | RenameConstant i j \<Rightarrow> rename_constant i j p
      | RenamePort d n m \<Rightarrow> rename_port d n m p
      | EditParam i pe \<Rightarrow> patchBlock i (\<lambda>b. b\<lparr>block_parameters := Some (edit_params pe (params_of b))\<rparr>) p
      | ConstantType i ty \<Rightarrow> patchConstant i (\<lambda>c. c\<lparr>const_type := ty\<rparr>) p
      | ConstantValue i raw \<Rightarrow> patchConstant i (\<lambda>c. c\<lparr>const_value := parse_value raw\<rparr>) p
      | EditPort d n pe \<Rightarrow> patchPort d n (patch_port_field pe) p
      | Connect a b \<Rightarrow> commitDraft a b p
      | MovePort d i pos \<Rightarrow> move_port d i pos p
      | MoveConstant i pos \<Rightarrow> move_constant i pos p
      | MoveBlock i pos \<Rightarrow> move_block i pos p
      | Remove sel \<Rightarrow> deleteSelection p sel)"

end
