(* ===== verification/PageEdits.thy ===== *)
theory PageEdits
  imports GraphEdit
begin

text \<open>
  Editing a page keeps it well-formed. For every edit of \<open>GraphEdit\<close> a lemma says what it does to
  the declared names and the wires; the locale \<open>editor\<close> is interpreted on \<open>page_step\<close> with the
  guards of the user interface as admissibility, and the properties of editing sessions follow.
\<close>

section \<open>Pins are declared\<close>

lemma in_map_index: "x \<in> set (map_index f xs) \<Longrightarrow> \<exists>i. \<exists>y \<in> set xs. x = f i y"
  by (auto simp: map_index_def in_set_enumerate_eq) (metis nth_mem)

lemma map_index_field:
  assumes "\<And>i x. g (f i x) = h x"
  shows "map g (map_index f xs) = map h xs"
proof -
  have "map g (map (\<lambda>(i, x). f i x) (enumerate n xs)) = map h xs" for n
    by (induction xs arbitrary: n) (auto simp: assms)
  then show ?thesis
    by (simp add: map_index_def)
qed

lemma block_pin_block: "q \<in> set (block_pin_points library b) \<Longrightarrow> pp_block q = block_id b"
  by (auto simp: block_pin_points_def Let_def dest!: in_map_index split: if_splits)

lemma port_pin_port: "q \<in> set (port_pin_points page d i p) \<Longrightarrow> pp_block q = INTERFACE \<and> pp_port q = port_name p"
  by (auto simp: port_pin_points_def Let_def split: if_splits)

lemma in_pinMap_cases:
  assumes "q \<in> set (pinMap page library)"
  obtains (of_block) b where "b \<in> set (page_blocks page)" "q \<in> set (block_pin_points library b)"
  | (of_constant) c where "c \<in> set (page_constants page)" "q = constant_pin_point c"
  | (of_port) d i p where "p \<in> set (iface_ports (page_interface page) d)" "q \<in> set (port_pin_points page d i p)"
proof -
  have "(\<exists>b \<in> set (page_blocks page). q \<in> set (block_pin_points library b))
      \<or> (\<exists>c \<in> set (page_constants page). q = constant_pin_point c)
      \<or> (\<exists>d. \<exists>ps \<in> set (map_index (port_pin_points page d) (iface_ports (page_interface page) d)). q \<in> set ps)"
    using assms by (auto simp: pinMap_def)
  then show ?thesis
    using that by (auto dest!: in_map_index)
qed

lemma in_iface_names: "p \<in> set (iface_ports i d) \<Longrightarrow> port_name p \<in> set (iface_names i)"
  by (cases d) (auto simp: iface_names_three iface_ports_def)

lemma declared_element:
  assumes "names_unique p"
  shows "b \<in> set (page_blocks p) \<Longrightarrow> block_id b \<noteq> INTERFACE \<and> block_id b \<in> set (element_ids p)"
    and "c \<in> set (page_constants p) \<Longrightarrow> const_id c \<noteq> INTERFACE \<and> const_id c \<in> set (element_ids p)"
  using assms by (metis Un_iff element_ids_def imageI list.set_map names_unique_def set_append)+

lemma pin_known:
  assumes "q \<in> set (pinMap page library)" and "names_unique page"
  shows "known_endpoint page (pin_endpoint q)"
  using assms(1)
proof (cases rule: in_pinMap_cases)
  case (of_block b)
  then show ?thesis
    using declared_element(1) [OF assms(2), of b] by (simp add: known_endpoint_def pin_endpoint_def block_pin_block)
next
  case (of_constant c)
  then show ?thesis
    using declared_element(2) [OF assms(2), of c]
    by (simp add: known_endpoint_def pin_endpoint_def constant_pin_point_def)
next
  case (of_port d i p)
  then show ?thesis
    by (simp add: known_endpoint_def pin_endpoint_def port_pin_port in_iface_names)
qed

section \<open>Names and wires of an edited page\<close>

lemma iface_names_update:
  "iface_names (iface_update d f i) =
     concat (map (\<lambda>e. map port_name (if e = d then f (iface_ports i e) else iface_ports i e)) [Input, Output, In_out])"
  by (cases d) (simp_all add: iface_names_three iface_update_def iface_ports_def)

lemma iface_names_update_same:
  assumes "map port_name (f (iface_ports i d)) = map port_name (iface_ports i d)"
  shows "iface_names (iface_update d f i) = iface_names i"
  using assms by (cases d) (simp_all add: iface_names_three iface_update_def iface_ports_def)

lemma map_field_patch:
  assumes "\<And>x. g (f x) = g x"
  shows "map g (map (\<lambda>x. if P x then f x else x) xs) = map g xs"
  by (simp add: assms)

lemma page_connections_edit [simp]:
  "page_connections (patchBlock i f p) = page_connections p"
  "page_connections (patchConstant i g p) = page_connections p"
  "page_connections (patchPort d n h p) = page_connections p"
  "page_connections (move_port d k pos p) = page_connections p"
  by (simp_all add: patchBlock_def patchConstant_def patchPort_def move_port_def)

lemma patchBlock_wf:
  assumes "page_wf p" and "\<And>b. block_id (f b) = block_id b"
  shows "page_wf (patchBlock i f p)"
  by (rule page_wf_same_names [OF assms(1)])
    (simp_all add: patchBlock_def element_ids_def map_field_patch [where g = block_id and f = f, OF assms(2)] del: map_map)

lemma patchConstant_wf:
  assumes "page_wf p" and "\<And>c. const_id (f c) = const_id c"
  shows "page_wf (patchConstant i f p)"
  by (rule page_wf_same_names [OF assms(1)])
    (simp_all add: patchConstant_def element_ids_def map_field_patch [where g = const_id and f = f, OF assms(2)] del: map_map)

lemma patchPort_wf:
  assumes "page_wf p" and "\<And>q. port_name (f q) = port_name q"
  shows "page_wf (patchPort d n f p)"
  by (rule page_wf_same_names [OF assms(1)])
    (simp_all add: patchPort_def element_ids_def iface_names_update_same map_field_patch [where g = port_name and f = f, OF assms(2)] del: map_map)

lemma move_port_wf [inv_intros]: "page_wf p \<Longrightarrow> page_wf (move_port d k pos p)"
  by (rule page_wf_same_names)
    (simp_all add: move_port_def element_ids_def iface_names_update_same map_index_field [where h = port_name])

lemma port_name_patch [simp]: "port_name (patch_port_field e q) = port_name q"
  by (cases e) (simp_all add: patch_port_field_def)

text \<open>An edit that only adds declarations.\<close>

lemma page_wf_more_names:
  assumes "page_wf p" and "names_unique q"
    and "set (element_ids p) \<subseteq> set (element_ids q)"
    and "set (iface_names (page_interface p)) \<subseteq> set (iface_names (page_interface q))"
    and "page_connections q = page_connections p"
  shows "page_wf q"
  using assms known_endpoint_mono [OF assms(3,4)] by (auto simp: page_wf_def wires_known_def single_driver_def)

lemma place_block_wf [inv_intros]: "page_wf p \<Longrightarrow> page_wf (fst (place_block def pos p))"
  by (rule page_wf_more_names)
    (use uniqueId_fresh [of "map block_id (page_blocks p) @ map const_id (page_constants p)" "stTypeOf def"]
        uniqueId_not_interface [symmetric] in
      \<open>auto simp: place_block_def Let_def page_wf_def names_unique_def element_ids_def\<close>)

lemma add_constant_wf [inv_intros]: "page_wf p \<Longrightarrow> page_wf (fst (add_constant p))"
  by (rule page_wf_more_names)
    (use uniqueId_fresh [of "map block_id (page_blocks p) @ map const_id (page_constants p)" "''K''"]
        uniqueId_not_interface [symmetric] in
      \<open>auto simp: add_constant_def Let_def page_wf_def names_unique_def element_ids_def\<close>)

lemma iface_names_add:
  "set (iface_names (iface_update d (\<lambda>ps. ps @ [q]) i)) = insert (port_name q) (set (iface_names i))"
  by (cases d) (auto simp: iface_names_three iface_update_def)

lemma iface_names_add_distinct:
  "port_name q \<notin> set (iface_names i) \<Longrightarrow> distinct (iface_names i) \<Longrightarrow>
   distinct (iface_names (iface_update d (\<lambda>ps. ps @ [q]) i))"
  by (cases d) (auto simp: iface_names_three iface_update_def)

text \<open>A row of the palette brings its name along; without one the page chooses a free name.\<close>

definition name_free :: "port_seed \<Rightarrow> page_doc \<Rightarrow> bool" where
  "name_free seed p \<longleftrightarrow> opt_or (seed_name seed) [] \<notin> set (iface_names (page_interface p)) - {[]}"

lemma seeded_name_fresh: "name_free seed p \<Longrightarrow> seeded_name seed p \<notin> set (iface_names (page_interface p))"
  by (auto simp: name_free_def seeded_name_def uniqueId_fresh Let_def)

lemma add_port_shape:
  "\<exists>q. port_name q = seeded_name seed p
     \<and> fst (add_port d seed p) = p\<lparr>page_interface := iface_update d (\<lambda>ps. ps @ [q]) (page_interface p)\<rparr>"
  by (simp add: add_port_def Let_def) (metis port.select_convs(1))

lemma add_port_wf [inv_intros]:
  assumes "page_wf p" and "name_free seed p"
  shows "page_wf (fst (add_port d seed p))"
proof -
  obtain q where q: "port_name q = seeded_name seed p"
      "fst (add_port d seed p) = p\<lparr>page_interface := iface_update d (\<lambda>ps. ps @ [q]) (page_interface p)\<rparr>"
    using add_port_shape by blast
  show ?thesis
    unfolding q(2)
    by (rule page_wf_more_names [OF assms(1)])
      (use assms seeded_name_fresh [OF assms(2)] q(1) in
        \<open>auto simp: iface_names_add iface_names_add_distinct element_ids_def page_wf_def names_unique_def\<close>)
qed

section \<open>Wires\<close>

lemma sameConnection_eq: "sameConnection c f t \<longleftrightarrow> c = \<lparr>conn_from = f, conn_to = t\<rparr>"
  by (cases c) (simp add: sameConnection_iff)

lemma commitDraft_connections:
  "page_connections (commitDraft a b p) =
     (let (f, t) = otherSide a b; c = \<lparr>conn_from = pin_endpoint f, conn_to = pin_endpoint t\<rparr> in
      if c \<in> set (page_connections p) then page_connections p
      else filter (\<lambda>d. conn_to d \<noteq> pin_endpoint t) (page_connections p) @ [c])"
proof -
  have eq: "(\<exists>c \<in> set (page_connections p). sameConnection c f t) \<longleftrightarrow>
      \<lparr>conn_from = f, conn_to = t\<rparr> \<in> set (page_connections p)" for f t
    by (simp only: sameConnection_eq) simp
  have kept: "(if driverOn p t then filter (\<lambda>c. \<not> sameConnection c (conn_from c) t) (page_connections p)
      else page_connections p) = filter (\<lambda>d. conn_to d \<noteq> t) (page_connections p)" for t
  proof (cases "driverOn p t")
    case True
    then show ?thesis
      by (simp add: sameConnection_iff)
  next
    case False
    then have "\<And>d. d \<in> set (page_connections p) \<Longrightarrow> conn_to d \<noteq> t"
      by (auto simp: driverOn_iff)
    with False show ?thesis
      by (simp add: filter_id_conv)
  qed
  obtain f t where ft: "otherSide a b = (f, t)"
    by (cases "otherSide a b") simp
  show ?thesis
    by (simp only: commitDraft_def ft Let_def case_prod_conv kept eq if_distrib [of page_connections])
      (rule if_cong [OF refl refl], simp)
qed

lemma commitDraft_rest [simp]:
  "page_interface (commitDraft a b p) = page_interface p" "element_ids (commitDraft a b p) = element_ids p"
  by (auto simp: commitDraft_def Let_def split_beta element_ids_def)

lemma commitDraft_wf [inv_intros]:
  assumes "page_wf p" and "a \<in> set (pinMap p library)" and "b \<in> set (pinMap p library)"
  shows "page_wf (commitDraft a b p)"
proof -
  obtain f t where ft: "otherSide a b = (f, t)" and mem: "f \<in> set (pinMap p library)" "t \<in> set (pinMap p library)"
    using assms(2,3) by (cases "pp_direction a = PinOut") (auto simp: otherSide_def)
  have known: "known_endpoint p (pin_endpoint f)" "known_endpoint p (pin_endpoint t)"
    using mem pin_known assms(1) by (auto simp: page_wf_def)
  have same: "known_endpoint (commitDraft a b p) e = known_endpoint p e" for e
    by (rule known_endpoint_cong) simp_all
  have "wires_known (commitDraft a b p)"
    using assms(1) known by (auto simp: wires_known_def same commitDraft_connections ft page_wf_def Let_def)
  moreover have "single_driver (commitDraft a b p)"
    using assms(1) by (auto simp: single_driver_def commitDraft_connections ft page_wf_def Let_def distinct_map_filter)
  ultimately show ?thesis
    using assms(1) by (simp add: page_wf_def names_unique_def)
qed

section \<open>Renaming\<close>

lemma map_replace:
  "(\<And>x. g (f x) = new) \<Longrightarrow>
   map g (map (\<lambda>x. if g x = old then f x else x) xs) = map (\<lambda>y. if y = old then new else y) (map g xs)"
  by (induction xs) auto

lemma distinct_replace: "distinct ys \<Longrightarrow> new \<notin> set ys \<Longrightarrow> distinct (map (\<lambda>y. if y = old then new else y) ys)"
  by (auto simp: distinct_map inj_on_def)

lemma distinct_map_replace:
  "distinct (map g xs) \<Longrightarrow> new \<notin> set (map g xs) \<Longrightarrow> (\<And>x. g (f x) = new) \<Longrightarrow>
   distinct (map g (map (\<lambda>x. if g x = old then f x else x) xs))"
  by (simp only: map_replace) (rule distinct_replace)

lemma set_map_replace:
  "(\<And>x. g (f x) = new) \<Longrightarrow>
   set (map g (map (\<lambda>x. if g x = old then f x else x) xs)) =
     (set (map g xs) - {old}) \<union> (if old \<in> set (map g xs) then {new} else {})"
  by (simp only: map_replace) auto

lemma unwired_known:
  assumes "known_endpoint p e" and "ep_block e \<noteq> old"
    and "set (element_ids p) - {old} \<subseteq> set (element_ids q)"
    and "page_interface q = page_interface p"
  shows "known_endpoint q e"
  using assms by (auto simp: known_endpoint_def split: if_splits)

definition unwired :: "page_doc \<Rightarrow> string \<Rightarrow> bool" where
  "unwired p i \<longleftrightarrow> list_all (\<lambda>c. ep_block (conn_from c) \<noteq> i \<and> ep_block (conn_to c) \<noteq> i) (page_connections p)"

lemma rename_unwired_wf:
  assumes "page_wf p" and "unwired p old" and "names_unique q"
    and "set (element_ids p) - {old} \<subseteq> set (element_ids q)"
    and "page_interface q = page_interface p" and "page_connections q = page_connections p"
  shows "page_wf q"
proof -
  have "wires_known q"
    using assms unwired_known [OF _ _ assms(4,5)]
    by (auto simp: page_wf_def wires_known_def unwired_def list_all_iff)
  then show ?thesis
    using assms by (simp add: page_wf_def single_driver_def)
qed

lemma rename_block_wf [inv_intros]:
  assumes "page_wf p" and "new \<notin> set (element_ids p)" and "new \<noteq> INTERFACE" and "unwired p old"
  shows "page_wf (rename_block old new p)"
proof (rule rename_unwired_wf [OF assms(1,4)])
  let ?f = "\<lambda>b. b\<lparr>block_id := new\<rparr>"
  have "set (map block_id (map (\<lambda>b. if block_id b = old then ?f b else b) (page_blocks p))) =
      (set (map block_id (page_blocks p)) - {old}) \<union> (if old \<in> set (map block_id (page_blocks p)) then {new} else {})"
    by (rule set_map_replace) simp
  moreover have "distinct (map block_id (map (\<lambda>b. if block_id b = old then ?f b else b) (page_blocks p)))"
    by (rule distinct_map_replace) (use assms(1,2) in \<open>auto simp: page_wf_def names_unique_def element_ids_def\<close>)
  ultimately show "names_unique (rename_block old new p)"
    and "set (element_ids p) - {old} \<subseteq> set (element_ids (rename_block old new p))"
    using assms(1-3)
    by (auto simp: page_wf_def names_unique_def element_ids_def rename_block_def patchBlock_def simp del: map_map split: if_splits)
qed (simp_all add: rename_block_def patchBlock_def)

lemma rename_constant_wf [inv_intros]:
  assumes "page_wf p" and "new \<notin> set (element_ids p)" and "new \<noteq> INTERFACE" and "unwired p old"
  shows "page_wf (rename_constant old new p)"
proof (rule rename_unwired_wf [OF assms(1,4)])
  let ?f = "\<lambda>c. c\<lparr>const_id := new\<rparr>"
  have "set (map const_id (map (\<lambda>c. if const_id c = old then ?f c else c) (page_constants p))) =
      (set (map const_id (page_constants p)) - {old}) \<union> (if old \<in> set (map const_id (page_constants p)) then {new} else {})"
    by (rule set_map_replace) simp
  moreover have "distinct (map const_id (map (\<lambda>c. if const_id c = old then ?f c else c) (page_constants p)))"
    by (rule distinct_map_replace) (use assms(1,2) in \<open>auto simp: page_wf_def names_unique_def element_ids_def\<close>)
  ultimately show "names_unique (rename_constant old new p)"
    and "set (element_ids p) - {old} \<subseteq> set (element_ids (rename_constant old new p))"
    using assms(1-3)
    by (auto simp: page_wf_def names_unique_def element_ids_def rename_constant_def patchConstant_def simp del: map_map split: if_splits)
qed (simp_all add: rename_constant_def patchConstant_def)

text \<open>A port keeps its wires.\<close>

lemma rename_endpoint_inj:
  assumes "rename_endpoint old new a = rename_endpoint old new b"
    and "ep_block a = INTERFACE \<Longrightarrow> ep_port a \<noteq> new" and "ep_block b = INTERFACE \<Longrightarrow> ep_port b \<noteq> new"
  shows "a = b"
  using assms by (cases a; cases b) (auto simp: rename_endpoint_def split: if_splits)

lemma rename_endpoint_known:
  assumes "known_endpoint p e" and "element_ids q = element_ids p"
    and "set (iface_names (page_interface q)) = (set (iface_names (page_interface p)) - {old}) \<union> {new}"
  shows "known_endpoint q (rename_endpoint old new e)"
  using assms by (auto simp: known_endpoint_def rename_endpoint_def split: if_splits)

lemma iface_names_field:
  "iface_names (i\<lparr>if_input := ps\<rparr>) = map port_name ps @ map port_name (if_output i) @ map port_name (if_in_out i)"
  "iface_names (i\<lparr>if_output := ps\<rparr>) = map port_name (if_input i) @ map port_name ps @ map port_name (if_in_out i)"
  "iface_names (i\<lparr>if_in_out := ps\<rparr>) = map port_name (if_input i) @ map port_name (if_output i) @ map port_name ps"
  by (simp_all add: iface_names_three)

lemma iface_names_rename:
  fixes i :: interface_doc
  assumes "distinct (iface_names i)" and "new \<notin> set (iface_names i)"
    and "old \<in> set (map port_name (iface_ports i d))"
  defines "j \<equiv> iface_update d (map (\<lambda>q. if port_name q = old then q\<lparr>port_name := new\<rparr> else q)) i"
  shows "distinct (iface_names j) \<and> set (iface_names j) = (set (iface_names i) - {old}) \<union> {new}"
proof -
  let ?f = "map (\<lambda>q. if port_name q = old then q\<lparr>port_name := new\<rparr> else q)"
  let ?r = "map (\<lambda>y. if y = old then new else y)"
  have r: "map port_name (?f ps) = ?r (map port_name ps)" for ps
    by (rule map_replace) simp
  have same: "?r ys = ys" if "old \<notin> set ys" for ys
    using that by (induction ys) auto
  have "iface_names j = ?r (iface_names i)"
  proof (cases d)
    case Input
    have "j = i\<lparr>if_input := ?f (if_input i)\<rparr>"
      by (simp add: j_def Input iface_update_def)
    then have "iface_names j = ?r (map port_name (if_input i)) @ map port_name (if_output i) @ map port_name (if_in_out i)"
      by (simp only: iface_names_field r)
    moreover have "old \<notin> set (map port_name (if_output i))" "old \<notin> set (map port_name (if_in_out i))"
      using assms(1,3) by (auto simp: iface_names_three Input iface_ports_def)
    ultimately show ?thesis
      by (simp only: iface_names_three map_append same not_False_eq_True)
  next
    case Output
    have "j = i\<lparr>if_output := ?f (if_output i)\<rparr>"
      by (simp add: j_def Output iface_update_def)
    then have "iface_names j = map port_name (if_input i) @ ?r (map port_name (if_output i)) @ map port_name (if_in_out i)"
      by (simp only: iface_names_field r)
    moreover have "old \<notin> set (map port_name (if_input i))" "old \<notin> set (map port_name (if_in_out i))"
      using assms(1,3) by (auto simp: iface_names_three Output iface_ports_def)
    ultimately show ?thesis
      by (simp only: iface_names_three map_append same not_False_eq_True)
  next
    case In_out
    have "j = i\<lparr>if_in_out := ?f (if_in_out i)\<rparr>"
      by (simp add: j_def In_out iface_update_def)
    then have "iface_names j = map port_name (if_input i) @ map port_name (if_output i) @ ?r (map port_name (if_in_out i))"
      by (simp only: iface_names_field r)
    moreover have "old \<notin> set (map port_name (if_input i))" "old \<notin> set (map port_name (if_output i))"
      using assms(1,3) by (auto simp: iface_names_three In_out iface_ports_def)
    ultimately show ?thesis
      by (simp only: iface_names_three map_append same not_False_eq_True)
  qed
  moreover have "old \<in> set (iface_names i)"
    using assms(3) by (auto simp: in_iface_names)
  ultimately show ?thesis
    using assms(1,2) distinct_replace [of "iface_names i" new old] by auto
qed

lemma rename_port_wf [inv_intros]:
  assumes "page_wf p" and "js_trim typed \<notin> set (iface_names (page_interface p))"
    and "old \<in> set (map port_name (iface_ports (page_interface p) d))"
  shows "page_wf (rename_port d old typed p)"
proof (cases "js_trim typed = [] \<or> js_trim typed = old")
  case True
  then show ?thesis
    using assms(1) by (simp add: rename_port_def)
next
  case False
  let ?new = "js_trim typed"
  let ?q = "rename_port d old typed p"
  have conns: "page_connections ?q = map (\<lambda>c. \<lparr>conn_from = rename_endpoint old ?new (conn_from c),
      conn_to = rename_endpoint old ?new (conn_to c)\<rparr>) (page_connections p)"
    and iface: "page_interface ?q = iface_update d
      (map (\<lambda>q. if port_name q = old then q\<lparr>port_name := ?new\<rparr> else q)) (page_interface p)"
    and ids: "element_ids ?q = element_ids p"
    using False by (simp_all add: rename_port_def patchPort_def element_ids_def Let_def)
  have names: "distinct (iface_names (page_interface ?q))
      \<and> set (iface_names (page_interface ?q)) = (set (iface_names (page_interface p)) - {old}) \<union> {?new}"
    unfolding iface by (rule iface_names_rename) (use assms in \<open>auto simp: page_wf_def names_unique_def\<close>)
  have known: "known_endpoint p (conn_from c)" "known_endpoint p (conn_to c)" if "c \<in> set (page_connections p)" for c
    using assms(1) that by (auto simp: page_wf_def wires_known_def)
  have inj: "inj_on (rename_endpoint old ?new) (set (map conn_to (page_connections p)))"
  proof (rule inj_onI)
    fix a b
    assume ab: "a \<in> set (map conn_to (page_connections p))" "b \<in> set (map conn_to (page_connections p))"
      and eq: "rename_endpoint old ?new a = rename_endpoint old ?new b"
    have fresh: "ep_port e \<noteq> ?new" if "known_endpoint p e" and "ep_block e = INTERFACE" for e
      using that assms(2) by (auto simp: known_endpoint_def)
    show "a = b"
      by (rule rename_endpoint_inj [OF eq]) (use ab known fresh in auto)
  qed
  show ?thesis
  proof (rule page_wfI)
    show "names_unique ?q"
      using assms(1) names by (simp add: page_wf_def names_unique_def ids)
    have "known_endpoint ?q (rename_endpoint old ?new e)" if "known_endpoint p e" for e
      using that ids names by (intro rename_endpoint_known) auto
    then show "wires_known ?q"
      using known by (auto simp: wires_known_def conns)
    have "map conn_to (page_connections ?q) = map (rename_endpoint old ?new) (map conn_to (page_connections p))"
      by (simp add: conns)
    then show "single_driver ?q"
      using inj assms(1) by (simp only: single_driver_def page_wf_def distinct_map inj_on_id)
  qed
qed

section \<open>Renames that break a page\<close>

text \<open>
  Renaming a wired block or constant in the inspector leaves its wires on the old name, so that the
  page is no longer well-formed; only the name of a port takes its wires along.
\<close>

lemma renamed_ids:
  "element_ids (rename_block old new p) = map (\<lambda>y. if y = old then new else y) (map block_id (page_blocks p)) @ map const_id (page_constants p)"
  "element_ids (rename_constant old new p) = map block_id (page_blocks p) @ map (\<lambda>y. if y = old then new else y) (map const_id (page_constants p))"
  unfolding rename_block_def patchBlock_def rename_constant_def patchConstant_def element_ids_def
  by (simp_all del: map_map add: map_replace [where g = block_id and f = "\<lambda>b. b\<lparr>block_id := new\<rparr>" and new = new]
      map_replace [where g = const_id and f = "\<lambda>c. c\<lparr>const_id := new\<rparr>" and new = new])

lemma rename_wires_same:
  "page_connections (rename_block old new p) = page_connections p"
  "page_connections (rename_constant old new p) = page_connections p"
  by (simp_all add: rename_block_def rename_constant_def)

lemma replaced_twice:
  assumes "a \<in> set xs" and "b \<in> set xs" and "a \<noteq> b"
  shows "\<not> distinct (map (\<lambda>y. if y = a then b else y) xs)"
proof
  assume "distinct (map (\<lambda>y. if y = a then b else y) xs)"
  then have "inj_on (\<lambda>y. if y = a then b else y) (set xs)"
    by (simp add: distinct_map)
  from inj_onD [OF this, of a b] show False
    using assms by simp
qed

lemma replaced_name:
  assumes "distinct (xs @ ys)" and "old \<in> set xs" and "new \<noteq> old"
    and "distinct (map (\<lambda>y. if y = old then new else y) xs @ ys)"
  shows "new \<notin> set (xs @ ys)" and "old \<notin> set (map (\<lambda>y. if y = old then new else y) xs @ ys)"
    and "new \<in> set (map (\<lambda>y. if y = old then new else y) xs @ ys)"
proof -
  let ?r = "map (\<lambda>y. if y = old then new else y) xs"
  have mem: "new \<in> set ?r"
    using assms(2) by force
  have "distinct ?r" and "set ?r \<inter> set ys = {}"
    using assms(4) by (simp_all only: distinct_append)
  then have "new \<notin> set xs" and "new \<notin> set ys"
    using replaced_twice [OF assms(2)] assms(3) mem by blast+
  then show "new \<notin> set (xs @ ys)"
    by simp
  show "old \<notin> set (?r @ ys)"
    using assms(1-3) by auto
  show "new \<in> set (?r @ ys)"
    using mem by simp
qed

lemma distinct_swap: "distinct (xs @ ys) \<Longrightarrow> distinct (ys @ xs)"
  by auto

lemma renamed_unique:
  assumes "names_unique p" and "names_unique q" and "new \<noteq> old"
    and "q = rename_block old new p \<and> old \<in> set (map block_id (page_blocks p))
      \<or> q = rename_constant old new p \<and> old \<in> set (map const_id (page_constants p))"
  shows "new \<notin> set (element_ids p) \<and> new \<noteq> INTERFACE \<and> old \<notin> set (element_ids q)"
proof -
  define bs where "bs = map block_id (page_blocks p)"
  define cs where "cs = map const_id (page_constants p)"
  have p: "element_ids p = bs @ cs" and d: "distinct (bs @ cs)"
    using assms(1) by (simp_all add: element_ids_def bs_def cs_def names_unique_def)
  have dq: "distinct (element_ids q)" and iq: "INTERFACE \<notin> set (element_ids q)"
    using assms(2) by (simp_all add: names_unique_def)
  from assms(4) show ?thesis
  proof (elim disjE conjE)
    assume "q = rename_block old new p" and old: "old \<in> set (map block_id (page_blocks p))"
    then have e: "element_ids q = map (\<lambda>y. if y = old then new else y) bs @ cs"
      by (simp only: renamed_ids bs_def cs_def)
    note r = replaced_name [OF d old [folded bs_def] assms(3) dq [unfolded e]]
    show ?thesis
      using r(1,2) r(3) iq unfolding e p by blast
  next
    assume "q = rename_constant old new p" and old: "old \<in> set (map const_id (page_constants p))"
    then have e: "element_ids q = bs @ map (\<lambda>y. if y = old then new else y) cs"
      by (simp only: renamed_ids bs_def cs_def)
    note r = replaced_name [OF distinct_swap [OF d] old [folded cs_def] assms(3) distinct_swap [OF dq [unfolded e]]]
    show ?thesis
      using r(1,2) r(3) iq unfolding e p set_append by blast
  qed
qed

lemma wired_rename:
  assumes "page_connections q = page_connections p" and "old \<notin> set (element_ids q)" and "old \<noteq> INTERFACE" and "wires_known q"
  shows "unwired p old"
  using assms by (fastforce simp: unwired_def list_all_iff wires_known_def known_endpoint_def)

lemma renamed_port_names:
  assumes "distinct (iface_names i)" and "new \<in> set (iface_names i)" and "new \<noteq> old" and "old \<in> set (map port_name (iface_ports i d))"
  shows "\<not> distinct (iface_names (iface_update d (map (\<lambda>q. if port_name q = old then q\<lparr>port_name := new\<rparr> else q)) i))"
proof -
  let ?f = "map (\<lambda>q. if port_name q = old then q\<lparr>port_name := new\<rparr> else q)"
  let ?r = "map (\<lambda>y. if y = old then new else y)"
  have r: "map port_name (?f ps) = ?r (map port_name ps)" for ps
    by (rule map_replace) simp
  have twice: "\<not> distinct (?r ns)" if "old \<in> set ns" and "new \<in> set ns" for ns
    using replaced_twice [OF that] assms(3) by blast
  have mem: "new \<in> set (?r ns)" if "old \<in> set ns" for ns
    using that by force
  show ?thesis
    using assms(2,4) twice mem
    by (cases d) (fastforce simp: iface_names_three iface_update_def iface_ports_def r simp del: map_map)+
qed

section \<open>Sessions\<close>

text \<open>
  What the interface offers: a palette row adds only a name that is not on the sheet, a wire is drawn between
  pins of the sheet that may be joined, and the inspector renames the element it found on the page. The name
  fields take any name.
\<close>

definition edit_offered :: "(string, library_block) obj \<Rightarrow> page_edit \<Rightarrow> page_doc \<Rightarrow> bool" where
  "edit_offered library e p =
     (case e of
        AddPort d seed \<Rightarrow> name_free seed p
      | Connect a b \<Rightarrow> a \<in> set (pinMap p library) \<and> b \<in> set (pinMap p library) \<and> connectable a b
      | RenamePort d old typed \<Rightarrow> old \<in> set (map port_name (iface_ports (page_interface p) d))
      | RenameBlock old new \<Rightarrow> old \<in> set (map block_id (page_blocks p))
      | RenameConstant old new \<Rightarrow> old \<in> set (map const_id (page_constants p))
      | _ \<Rightarrow> True)"

text \<open>
  The renames that do no harm: a name that stays, a free name of a block or a constant without wires, and a free
  name of a port.
\<close>

definition harmless :: "page_edit \<Rightarrow> page_doc \<Rightarrow> bool" where
  "harmless e p =
     (case e of
        RenamePort d old typed \<Rightarrow> js_trim typed = [] \<or> js_trim typed = old \<or> js_trim typed \<notin> set (iface_names (page_interface p))
      | RenameBlock old new \<Rightarrow> new = old \<or> new \<notin> set (element_ids p) \<and> new \<noteq> INTERFACE \<and> unwired p old
      | RenameConstant old new \<Rightarrow> new = old \<or> new \<notin> set (element_ids p) \<and> new \<noteq> INTERFACE \<and> unwired p old
      | _ \<Rightarrow> True)"

lemma rename_same: "page_wf p \<Longrightarrow> page_wf (rename_block i i p)" "page_wf p \<Longrightarrow> page_wf (rename_constant i i p)"
  by (rule page_wf_same_names; simp add: renamed_ids rename_wires_same element_ids_def map_idI rename_block_def patchBlock_def
      rename_constant_def patchConstant_def)+

lemma rename_port_same: "js_trim typed \<in> {[], old} \<Longrightarrow> rename_port d old typed p = p"
  by (auto simp: rename_port_def Let_def)

lemma page_step_keeps:
  assumes "page_wf p" and "edit_offered library e p" and "harmless e p"
  shows "page_wf (page_step e p)"
proof (cases e)
  case (RenamePort d old typed)
  then show ?thesis
    using assms rename_port_wf [of p typed old d] rename_port_same [of typed old d p]
    by (auto simp: page_step_def edit_offered_def harmless_def)
next
  case (RenameBlock old new)
  then show ?thesis
    using assms rename_block_wf [of p new old] rename_same(1) [of p old] by (auto simp: page_step_def harmless_def)
next
  case (RenameConstant old new)
  then show ?thesis
    using assms rename_constant_wf [of p new old] rename_same(2) [of p old] by (auto simp: page_step_def harmless_def)
qed (use assms in \<open>auto simp: page_step_def edit_offered_def move_constant_def move_block_def
    intro!: inv_intros patchBlock_wf patchConstant_wf patchPort_wf\<close>)

lemma broken_by_rename:
  assumes "page_wf p" and "edit_offered library e p" and "page_wf (page_step e p)"
  shows "harmless e p"
proof (rule ccontr)
  assume harm: "\<not> harmless e p"
  have old_known: "i \<noteq> INTERFACE" if "i \<in> set (element_ids p)" for i
    using that assms(1) by (auto simp: page_wf_def names_unique_def)
  consider (of_block) old new where "e = RenameBlock old new" | (of_constant) old new where "e = RenameConstant old new"
    | (of_port) d old typed where "e = RenamePort d old typed"
    using harm by (cases e) (auto simp: harmless_def)
  then show False
  proof cases
    case of_block
    then have old: "old \<in> set (map block_id (page_blocks p))" and ne: "new \<noteq> old"
      using assms(2) harm by (auto simp: edit_offered_def harmless_def)
    have q: "page_wf (rename_block old new p)"
      using assms(3) by (simp add: of_block page_step_def)
    then have "new \<notin> set (element_ids p) \<and> new \<noteq> INTERFACE \<and> old \<notin> set (element_ids (rename_block old new p))"
      using assms(1) q old ne by (intro renamed_unique) (auto simp: page_wf_def)
    then show ?thesis
      using wired_rename [OF rename_wires_same(1)] q harm old old_known
      by (auto simp: of_block harmless_def page_wf_def element_ids_def)
  next
    case of_constant
    then have old: "old \<in> set (map const_id (page_constants p))" and ne: "new \<noteq> old"
      using assms(2) harm by (auto simp: edit_offered_def harmless_def)
    have q: "page_wf (rename_constant old new p)"
      using assms(3) by (simp add: of_constant page_step_def)
    have "new \<notin> set (element_ids p) \<and> new \<noteq> INTERFACE \<and> old \<notin> set (element_ids (rename_constant old new p))"
      using assms(1) q old ne by (intro renamed_unique) (auto simp: page_wf_def)
    then show ?thesis
      using wired_rename [OF rename_wires_same(2)] q harm old old_known
      by (auto simp: of_constant harmless_def page_wf_def element_ids_def)
  next
    case of_port
    define new where "new = js_trim typed"
    have old: "old \<in> set (map port_name (iface_ports (page_interface p) d))" and new: "new \<noteq> []" "new \<noteq> old" "new \<in> set (iface_names (page_interface p))"
      using assms(2) harm by (auto simp: of_port edit_offered_def harmless_def new_def)
    have "page_interface (page_step e p)
        = iface_update d (map (\<lambda>q. if port_name q = old then q\<lparr>port_name := new\<rparr> else q)) (page_interface p)"
      using new unfolding new_def by (simp add: of_port page_step_def rename_port_def patchPort_def Let_def)
    moreover have "distinct (iface_names (page_interface p))" and "distinct (iface_names (page_interface (page_step e p)))"
      using assms(1,3) by (simp_all add: page_wf_def names_unique_def)
    ultimately show ?thesis
      using renamed_port_names [OF _ new(3,2) old] by simp
  qed
qed

interpretation page: editor page_step "\<lambda>e p. edit_offered library e p \<and> harmless e p" page_wf for library
  by unfold_locales (auto intro: page_step_keeps)

section \<open>Properties\<close>

text \<open>
  C2: in a session of edits the editor offers on a well-formed page (names declared once, every wire between
  declared elements, no input driven twice) the page is well-formed after every edit if and only if no rename of the
  session does harm. The name fields have no guard; a rename does no harm exactly when the name stays, when a block or
  a constant without wires gets a name that is free and not the reserved one, or when a port gets an empty or a free
  name. All other edits, and so every session without renames, keep the page well-formed.
\<close>

theorem page_session_wf:
  assumes "page_wf p"
    and "\<And>n. n < length es \<Longrightarrow> edit_offered library (es ! n) (fold page_step (take n es) p)"
  shows "(\<forall>n\<le>length es. page_wf (fold page_step (take n es) p))
    \<longleftrightarrow> (\<forall>n<length es. harmless (es ! n) (fold page_step (take n es) p))"
proof (intro iffI allI impI)
  fix n
  assume wf: "\<forall>n\<le>length es. page_wf (fold page_step (take n es) p)" and n: "n < length es"
  have "fold page_step (take (Suc n) es) p = page_step (es ! n) (fold page_step (take n es) p)"
    using n by (simp add: take_Suc_conv_app_nth)
  then have "page_wf (page_step (es ! n) (fold page_step (take n es) p))"
    using wf n by (metis Suc_leI)
  then show "harmless (es ! n) (fold page_step (take n es) p)"
    using wf n by (intro broken_by_rename [OF _ assms(2)]) simp_all
next
  fix n
  assume ok: "\<forall>n<length es. harmless (es ! n) (fold page_step (take n es) p)" and n: "n \<le> length es"
  show "page_wf (fold page_step (take n es) p)"
    by (rule page.session_keeps [OF assms(1), of _ library]) (use ok n assms(2) in \<open>simp add: min_absorb1\<close>)
qed

definition sample_edits :: "page_edit list" where
  "sample_edits = [AddConstant, AddPort Input empty_seed, Remove (Some (SelConstant ''k1''))]"

theorem page_session_wf_witness: "page_wf (fold page_step sample_edits (emptyPage ''P1'' ''MAIN'' 0 ''A3''))"
proof -
  let ?p = "emptyPage ''P1'' ''MAIN'' 0 ''A3''"
  have "(\<forall>n\<le>length sample_edits. page_wf (fold page_step (take n sample_edits) ?p))
      \<longleftrightarrow> (\<forall>n<length sample_edits. harmless (sample_edits ! n) (fold page_step (take n sample_edits) ?p))"
  proof (rule page_session_wf [where library = "[]"])
    fix n
    assume "n < length sample_edits"
    then have "n \<in> {0, 1, 2}"
      by (auto simp: sample_edits_def)
    then show "edit_offered [] (sample_edits ! n) (fold page_step (take n sample_edits) ?p)"
      by (auto simp: sample_edits_def edit_offered_def name_free_def opt_or_def empty_seed_def)
  qed (rule emptyPage_wf)
  moreover have "harmless (sample_edits ! n) q" if "n < length sample_edits" for n q
    using that by (auto simp: sample_edits_def harmless_def less_Suc_eq numeral_3_eq_3)
  ultimately show ?thesis
    by (metis order_refl take_all)
qed

text \<open>
  C24: \<open>uniqueId\<close> returns: a name that is not taken and is not the reserved interface name, and it is
  the first free numeral behind the stem, all smaller ones being taken.
\<close>

theorem uniqueId_first_free:
  "uniqueId taken stem \<notin> set taken \<and> uniqueId taken stem \<noteq> INTERFACE
   \<and> (\<exists>k \<ge> 1. uniqueId taken stem = id_stem stem @ show_nat k
        \<and> (\<forall>j \<in> {1..<k}. id_stem stem @ show_nat j \<in> set taken))"
proof -
  obtain k where "k \<ge> 1" "uniqueId taken stem = id_stem stem @ show_nat k"
      "\<forall>j. 1 \<le> j \<and> j < k \<longrightarrow> id_stem stem @ show_nat j \<in> set taken"
    using find_free_numeral [of 1 taken "id_stem stem"] unfolding uniqueId_def by metis
  then show ?thesis
    using uniqueId_fresh [of taken stem] uniqueId_not_interface [of taken stem]
    by (intro conjI exI [of _ k]) auto
qed

theorem uniqueId_first_free_witness:
  "uniqueId [''add1'', ''add2''] ''ADD'' \<notin> set [''add1'', ''add2''] \<and> uniqueId [''add1'', ''add2''] ''ADD'' = ''add3''"
proof -
  have "uniqueId [''add1'', ''add2''] ''ADD'' = ''add3''"
    by code_simp
  then show ?thesis
    using uniqueId_first_free [of "[''add1'', ''add2'']" "''ADD''"] by blast
qed

text \<open>
  C9: drawing a wire between two pins that may be joined always runs it from the output to the input pin, whichever was
  grabbed first. A wire that is there already leaves the page as it is; otherwise every wire that ends on the input is
  taken away, the new one is added last, and nothing else of the page changes. So on a page on which no input is driven
  twice the input has this source afterwards and no other.
\<close>

theorem wire_drawn:
  assumes "connectable a b"
  shows "\<exists>f t. {f, t} = {a, b} \<and> pp_direction f = PinOut \<and> pp_direction t = PinIn
    \<and> commitDraft a b p = commitDraft b a p
    \<and> commitDraft a b p =
        (if \<lparr>conn_from = pin_endpoint f, conn_to = pin_endpoint t\<rparr> \<in> set (page_connections p) then p
         else p\<lparr>page_connections := filter (\<lambda>c. conn_to c \<noteq> pin_endpoint t) (page_connections p)
                @ [\<lparr>conn_from = pin_endpoint f, conn_to = pin_endpoint t\<rparr>]\<rparr>)
    \<and> (single_driver p \<longrightarrow> filter (\<lambda>c. conn_to c = pin_endpoint t) (page_connections (commitDraft a b p)) =
        [\<lparr>conn_from = pin_endpoint f, conn_to = pin_endpoint t\<rparr>])"
proof -
  obtain f t where ft: "otherSide a b = (f, t)" "otherSide b a = (f, t)"
    and pins: "{f, t} = {a, b}" "pp_direction f = PinOut" "pp_direction t = PinIn"
    using assms by (cases "pp_direction a"; cases "pp_direction b") (auto simp: connectable_def otherSide_def)
  have sym: "commitDraft a b p = commitDraft b a p"
    by (simp add: commitDraft_def ft)
  let ?c = "\<lparr>conn_from = pin_endpoint f, conn_to = pin_endpoint t\<rparr>"
  let ?old = "page_connections p"
  have wires: "page_connections (commitDraft a b p) = (if ?c \<in> set ?old then ?old else filter (\<lambda>c. conn_to c \<noteq> pin_endpoint t) ?old @ [?c])"
    by (simp add: commitDraft_connections ft Let_def)
  have rest: "commitDraft a b p = p\<lparr>page_connections := page_connections (commitDraft a b p)\<rparr>"
    by (simp add: commitDraft_def ft Let_def)
  have "filter (\<lambda>c. conn_to c = pin_endpoint t) ?old = [?c]" if mem: "?c \<in> set ?old" and one: "single_driver p"
  proof -
    obtain xs ys where split: "?old = xs @ ?c # ys"
      using split_list [OF mem] by blast
    have "pin_endpoint t \<notin> conn_to ` set (xs @ ys)"
      using one by (auto simp: single_driver_def split)
    then have "filter (\<lambda>c. conn_to c = pin_endpoint t) xs = []" "filter (\<lambda>c. conn_to c = pin_endpoint t) ys = []"
      unfolding filter_empty_conv by (metis Un_iff image_eqI set_append)+
    then show ?thesis
      by (simp add: split)
  qed
  then have "single_driver p \<longrightarrow> filter (\<lambda>c. conn_to c = pin_endpoint t) (page_connections (commitDraft a b p)) = [?c]"
    by (auto simp: wires filter_empty_conv)
  moreover have "commitDraft a b p = (if ?c \<in> set ?old then p
      else p\<lparr>page_connections := filter (\<lambda>c. conn_to c \<noteq> pin_endpoint t) ?old @ [?c]\<rparr>)"
    by (subst rest) (simp add: wires)
  ultimately show ?thesis
    using pins sym by blast
qed

definition wired_page :: page_doc where
  "wired_page = (emptyPage ''P1'' ''MAIN'' 0 ''A3'')
     \<lparr>page_constants := [\<lparr>const_id = ''k1'', const_type = ''REAL'', const_value = JNum (Num 0),
                           const_position = \<lparr>px = 320, py = 140\<rparr>\<rparr>],
      page_interface := \<lparr>if_input = [], if_output = [\<lparr>port_name = ''y'', port_type = ''REAL'', port_scope = Some Local,
        port_bind = None, port_unit = None, port_position = None\<rparr>], if_in_out = []\<rparr>,
      page_connections := [\<lparr>conn_from = \<lparr>ep_block = ''k1'', ep_port = ''OUT''\<rparr>,
                             conn_to = \<lparr>ep_block = INTERFACE, ep_port = ''y''\<rparr>\<rparr>]\<rparr>"

lemma wired_page_wf: "page_wf wired_page"
  by (simp add: wired_page_def emptyPage_def page_wf_defs element_ids_def iface_names_three known_endpoint_def
      INTERFACE_def)

theorem wire_drawn_witness:
  "\<exists>f t. {f, t} = set (pinMap wired_page []) \<and> pp_direction f = PinOut"
proof -
  have pins: "pinMap wired_page [] = [constant_pin_point (hd (page_constants wired_page)),
      \<lparr>pp_block = INTERFACE, pp_port = ''y'', pp_x = 1373, pp_y = 133, pp_kind = KPort, pp_type = ''REAL'',
       pp_direction = PinIn\<rparr>]"
    by (simp add: wired_page_def emptyPage_def pinMap_def iface_ports_def map_index_def port_pin_points_def
        placed_at_def defaultPortPosition_def sheet_name_of_def SHEETS_def obj_get_def size_defs)
  have "connectable (pinMap wired_page [] ! 0) (pinMap wired_page [] ! 1)"
    unfolding pins
    by (simp add: connectable_def constant_pin_point_def wired_page_def INTERFACE_def pp_key_def pinKey_def)
  then obtain f t where "{f, t} = {pinMap wired_page [] ! 0, pinMap wired_page [] ! 1}" "pp_direction f = PinOut"
    using wire_drawn [of "pinMap wired_page [] ! 0" "pinMap wired_page [] ! 1" wired_page] by blast
  then show ?thesis
    unfolding pins by (intro exI [of _ f] exI [of _ t]) simp
qed

text \<open>
  C10: deleting a block or a constant of a well-formed page takes exactly that element and the wires that end on it:
  the element is no longer declared, every other element and the interface stay, and a wire of the page stays if and
  only if neither of its ends is on the deleted element, all in the same order. The page stays well-formed.
\<close>

theorem delete_takes_its_wires:
  assumes "page_wf p" and "q = deleteSelection p (Some sel)"
    and "sel = SelBlock i \<and> i \<in> set (map block_id (page_blocks p)) \<or> sel = SelConstant i \<and> i \<in> set (map const_id (page_constants p))"
  shows "page_connections q = filter (\<lambda>c. ep_block (conn_from c) \<noteq> i \<and> ep_block (conn_to c) \<noteq> i) (page_connections p)
    \<and> page_blocks q = filter (\<lambda>b. block_id b \<noteq> i) (page_blocks p)
    \<and> page_constants q = filter (\<lambda>c. const_id c \<noteq> i) (page_constants p)
    \<and> i \<notin> set (element_ids q) \<and> page_interface q = page_interface p \<and> page_page q = page_page p \<and> page_wf q"
proof -
  have "distinct (map block_id (page_blocks p) @ map const_id (page_constants p))"
    using assms(1) by (simp add: page_wf_def names_unique_def element_ids_def)
  then have other: "sel = SelBlock i \<Longrightarrow> filter (\<lambda>c. const_id c \<noteq> i) (page_constants p) = page_constants p"
    "sel = SelConstant i \<Longrightarrow> filter (\<lambda>b. block_id b \<noteq> i) (page_blocks p) = page_blocks p"
    using assms(3) by (auto simp: filter_id_conv)
  have blocks: "page_blocks q = filter (\<lambda>b. block_id b \<noteq> i) (page_blocks p)"
    and constants: "page_constants q = filter (\<lambda>c. const_id c \<noteq> i) (page_constants p)"
    using assms(3) other by (auto simp: assms(2) deleteSelection_def)
  moreover have "page_connections q = filter (\<lambda>c. ep_block (conn_from c) \<noteq> i \<and> ep_block (conn_to c) \<noteq> i) (page_connections p)"
    using assms(3) by (auto simp: assms(2) page_connections_delete)
  moreover have "page_interface q = page_interface p" and "page_page q = page_page p"
    using assms(3) by (auto simp: assms(2) deleteSelection_def drop_port_def iface_ports_def)
  moreover have "page_wf q"
    unfolding assms(2) using assms(1) by (rule deleteSelection_wf)
  moreover have "i \<notin> set (element_ids q)"
    by (auto simp: element_ids_def blocks constants)
  ultimately show ?thesis
    by simp
qed

theorem delete_takes_its_wires_witness: "page_connections (deleteSelection wired_page (Some (SelConstant ''k1''))) = []"
  using delete_takes_its_wires [OF wired_page_wf refl, of "SelConstant ''k1''" "''k1''"]
  by (simp add: wired_page_def emptyPage_def)

text \<open>The rename of a wired constant, as the inspector offers it.\<close>

theorem rename_loses_wires:
  "edit_offered [] (RenameConstant ''k1'' ''k2'') wired_page \<and> \<not> page_wf (page_step (RenameConstant ''k1'' ''k2'') wired_page)"
proof
  show offered: "edit_offered [] (RenameConstant ''k1'' ''k2'') wired_page"
    by (simp add: edit_offered_def wired_page_def)
  have "\<not> harmless (RenameConstant ''k1'' ''k2'') wired_page"
    by (simp add: harmless_def unwired_def wired_page_def)
  then show "\<not> page_wf (page_step (RenameConstant ''k1'' ''k2'') wired_page)"
    using broken_by_rename [OF wired_page_wf offered] by blast
qed

end
