(* ===== verification/SheetGesture.thy ===== *)
theory SheetGesture
  imports PageEdits
begin

text \<open>
  The drawing sheet (\<open>components/graph/Sheet.tsx\<close>): the gestures that drag an element or draw a
  wire as a state machine over the page document, and what the sheet displays. A pointer event is
  given by its point on the sheet (\<open>toSheet\<close>); \<open>Math.hypot\<close> is compared by squares, so that the hit
  test stays exact.
\<close>

section \<open>Geometry and marks\<close>

definition GRID :: rat where "GRID = 10"
definition HIT_RADIUS :: rat where "HIT_RADIUS = 16"
definition ZONE_STEP :: rat where "ZONE_STEP = 200"

definition grid :: "rat \<Rightarrow> rat" where
  "grid v = of_int (round_half_up (v / GRID)) * GRID"

record client_rect =
  cr_left :: rat
  cr_top :: rat

definition toSheet :: "client_rect option \<Rightarrow> rat \<Rightarrow> rat \<Rightarrow> rat \<Rightarrow> position" where
  "toSheet rect zoom clientX clientY =
     (case rect of None \<Rightarrow> \<lparr>px = 0, py = 0\<rparr>
      | Some r \<Rightarrow> \<lparr>px = (clientX - cr_left r) / zoom, py = (clientY - cr_top r) / zoom\<rparr>)"

definition find_severity :: "severity \<Rightarrow> finding list \<Rightarrow> finding option" where
  "find_severity s fs = find (\<lambda>f. fd_severity f = s) fs"

definition worstFinding :: "finding list option \<Rightarrow> finding option" where
  "worstFinding findings =
     (case findings of None \<Rightarrow> None
      | Some fs \<Rightarrow> if fs = [] then None
          else (case find_severity SevError fs of Some f \<Rightarrow> Some f | None \<Rightarrow> find_severity SevWarning fs))"

definition markColor :: "finding list option \<Rightarrow> string option" where
  "markColor findings =
     map_option (\<lambda>worst. if fd_severity worst = SevError then ''#f14c4c'' else ''#cca700'') (worstFinding findings)"

type_synonym mark_table = "(string, finding list) obj"

section \<open>Gestures\<close>

datatype drag_kind = DragBlock | DragConstant | DragPort

record drag_item =
  di_kind :: drag_kind
  di_id :: string
  di_direction :: "port_direction option"
  di_index :: "nat option"
  di_width :: rat
  di_height :: rat

record drag_state =
  dr_item :: drag_item
  dr_grab :: position
  dr_origin :: position

record draft_state =
  df_from :: pin_point
  df_cur :: position
  df_target :: "pin_point option"

record sheet_state =
  sh_page :: page_doc
  sh_selected :: "selection option"
  sh_drag :: "drag_state option"
  sh_draft :: "draft_state option"

definition item_selection :: "drag_item \<Rightarrow> selection" where
  "item_selection item =
     (case di_kind item of
        DragBlock \<Rightarrow> SelBlock (di_id item)
      | DragConstant \<Rightarrow> SelConstant (di_id item)
      | DragPort \<Rightarrow> SelPort (opt_or (di_direction item) Input) (di_id item))"

definition grabElement :: "position \<Rightarrow> drag_item \<Rightarrow> position \<Rightarrow> sheet_state \<Rightarrow> sheet_state" where
  "grabElement pos item origin s =
     s\<lparr>sh_drag := Some \<lparr>dr_item = item, dr_grab = pos, dr_origin = origin\<rparr>,
       sh_selected := Some (item_selection item)\<rparr>"

definition grabPin :: "pin_point \<Rightarrow> sheet_state \<Rightarrow> sheet_state" where
  "grabPin pin s =
     s\<lparr>sh_selected := None,
       sh_draft := Some \<lparr>df_from = pin, df_cur = \<lparr>px = pp_x pin, py = pp_y pin\<rparr>, df_target = None\<rparr>\<rparr>"

text \<open>\<open>Math.min(Math.max(grid(v), FRAME + GRID), size - FRAME - GRID - extent)\<close>\<close>

definition clamp_to_field :: "rat \<Rightarrow> rat \<Rightarrow> rat \<Rightarrow> rat" where
  "clamp_to_field field extent v = min (max (grid v) (FRAME + GRID)) (field - FRAME - GRID - extent)"

definition moved_position :: "sheet_size \<Rightarrow> position \<Rightarrow> drag_state \<Rightarrow> position" where
  "moved_position sheet pos current =
     (let item = dr_item current;
          width = (if di_kind item = DragPort then PORT_W else di_width item);
          height = (if di_kind item = DragPort then PORT_H else di_height item)
      in \<lparr>px = clamp_to_field (sheet_w sheet) width (px (dr_origin current) + (px pos - px (dr_grab current))),
          py = clamp_to_field (sheet_h sheet) height (py (dr_origin current) + (py pos - py (dr_grab current)))\<rparr>)"

definition move_edit :: "sheet_size \<Rightarrow> position \<Rightarrow> drag_state \<Rightarrow> page_edit" where
  "move_edit sheet pos current =
     (let next = moved_position sheet pos current; item = dr_item current in
      case (di_kind item, di_direction item, di_index item) of
        (DragPort, Some direction, Some index) \<Rightarrow> MovePort direction index next
      | (DragConstant, _, _) \<Rightarrow> MoveConstant (di_id item) next
      | _ \<Rightarrow> MoveBlock (di_id item) next)"

definition moveElement :: "position \<Rightarrow> drag_state \<Rightarrow> sheet_state \<Rightarrow> sheet_state" where
  "moveElement pos current s =
     s\<lparr>sh_page := page_step (move_edit (sheet_of (sh_page s)) pos current) (sh_page s)\<rparr>"

text \<open>The hit test: the running target with the square of the running radius.\<close>

definition distance2 :: "position \<Rightarrow> pin_point \<Rightarrow> rat" where
  "distance2 pos pin = (pp_x pin - px pos) * (pp_x pin - px pos) + (pp_y pin - py pos) * (pp_y pin - py pos)"

definition hit_step :: "pin_point \<Rightarrow> position \<Rightarrow> pin_point \<Rightarrow> pin_point option \<times> rat \<Rightarrow> pin_point option \<times> rat" where
  "hit_step start pos pin acc =
     (if connectable start pin \<and> distance2 pos pin < snd acc then (Some pin, distance2 pos pin) else acc)"

definition hit_target :: "pin_point \<Rightarrow> position \<Rightarrow> pin_point list \<Rightarrow> pin_point option" where
  "hit_target start pos pins = fst (fold (hit_step start pos) pins (None, HIT_RADIUS * HIT_RADIUS))"

definition moveDraft :: "(string, library_block) obj \<Rightarrow> position \<Rightarrow> draft_state \<Rightarrow> sheet_state \<Rightarrow> sheet_state" where
  "moveDraft library pos current s =
     s\<lparr>sh_draft := Some (current\<lparr>df_cur := pos,
         df_target := hit_target (df_from current) pos (pinMap (sh_page s) library)\<rparr>)\<rparr>"

definition handleMove :: "(string, library_block) obj \<Rightarrow> position \<Rightarrow> sheet_state \<Rightarrow> sheet_state" where
  "handleMove library pos s =
     (case sh_draft s of Some draft \<Rightarrow> moveDraft library pos draft s
      | None \<Rightarrow> (case sh_drag s of Some drag \<Rightarrow> moveElement pos drag s | None \<Rightarrow> s))"

definition handleUp :: "sheet_state \<Rightarrow> sheet_state" where
  "handleUp s =
     (let committed = (case sh_draft s of
          Some draft \<Rightarrow> (case df_target draft of
              Some target \<Rightarrow> page_step (Connect (df_from draft) target) (sh_page s)
            | None \<Rightarrow> sh_page s)
        | None \<Rightarrow> sh_page s)
      in s\<lparr>sh_page := committed, sh_draft := None, sh_drag := None\<rparr>)"

definition handleDown :: "sheet_state \<Rightarrow> sheet_state" where
  "handleDown s = s\<lparr>sh_selected := None, sh_draft := None, sh_drag := None\<rparr>"

definition pickWire :: "nat \<Rightarrow> sheet_state \<Rightarrow> sheet_state" where
  "pickWire index s = s\<lparr>sh_selected := Some (SelWire index)\<rparr>"

text \<open>Where a block dragged from the palette lands; \<open>None\<close> is a payload of another origin.\<close>

definition handleDrop :: "position \<Rightarrow> 'payload option \<Rightarrow> ('payload \<times> position) option" where
  "handleDrop pos payload = map_option (\<lambda>p. (p, \<lparr>px = grid (px pos), py = grid (py pos)\<rparr>)) payload"

datatype sheet_event =
    GrabElement position drag_item position
  | GrabPin pin_point
  | Move position
  | Up
  | Down
  | PickWire nat

definition sheet_step :: "(string, library_block) obj \<Rightarrow> sheet_event \<Rightarrow> sheet_state \<Rightarrow> sheet_state" where
  "sheet_step library e s =
     (case e of
        GrabElement pos item origin \<Rightarrow> grabElement pos item origin s
      | GrabPin pin \<Rightarrow> grabPin pin s
      | Move pos \<Rightarrow> handleMove library pos s
      | Up \<Rightarrow> handleUp s
      | Down \<Rightarrow> handleDown s
      | PickWire index \<Rightarrow> pickWire index s)"

section \<open>The hit test finds the nearest pin\<close>

definition hit_inv :: "pin_point \<Rightarrow> position \<Rightarrow> pin_point set \<Rightarrow> rat \<Rightarrow> pin_point option \<times> rat \<Rightarrow> bool" where
  "hit_inv start pos ps r acc \<longleftrightarrow>
     snd acc \<le> r \<and> (\<forall>q \<in> ps. connectable start q \<longrightarrow> snd acc \<le> distance2 pos q)
     \<and> (case fst acc of None \<Rightarrow> snd acc = r
        | Some p \<Rightarrow> p \<in> ps \<and> connectable start p \<and> snd acc = distance2 pos p \<and> snd acc < r)"

lemma hit_step_inv:
  assumes "hit_inv start pos ps r acc"
  shows "hit_inv start pos (insert x ps) r (hit_step start pos x acc)"
proof (cases "connectable start x \<and> distance2 pos x < snd acc")
  case True
  have "distance2 pos x < r"
    using True assms by (auto simp: hit_inv_def)
  moreover have "\<forall>q \<in> ps. connectable start q \<longrightarrow> distance2 pos x \<le> distance2 pos q"
    using True assms unfolding hit_inv_def by (meson le_less_trans less_imp_le order.strict_trans2)
  ultimately show ?thesis
    using True by (simp add: hit_inv_def hit_step_def)
next
  case False
  then have "hit_step start pos x acc = acc" and "connectable start x \<longrightarrow> snd acc \<le> distance2 pos x"
    by (auto simp: hit_step_def)
  then show ?thesis
    using assms by (auto simp: hit_inv_def split: option.splits)
qed

lemma hit_fold: "hit_inv start pos (set pins) r (fold (hit_step start pos) pins (None, r))"
proof (induction pins rule: rev_induct)
  case (snoc x xs)
  then show ?case
    using hit_step_inv [of start pos "set xs"] by simp
qed (simp add: hit_inv_def)

lemma hit_target_None:
  "hit_target start pos pins = None \<Longrightarrow> q \<in> set pins \<Longrightarrow> connectable start q \<Longrightarrow>
   HIT_RADIUS * HIT_RADIUS \<le> distance2 pos q"
  using hit_fold [of start pos pins "HIT_RADIUS * HIT_RADIUS"] by (auto simp: hit_target_def hit_inv_def)

lemma hit_target_Some:
  "hit_target start pos pins = Some p \<Longrightarrow>
   p \<in> set pins \<and> connectable start p \<and> distance2 pos p < HIT_RADIUS * HIT_RADIUS"
  using hit_fold [of start pos pins "HIT_RADIUS * HIT_RADIUS"] by (auto simp: hit_target_def hit_inv_def)

lemma hit_target_nearest:
  "hit_target start pos pins = Some p \<Longrightarrow> q \<in> set pins \<Longrightarrow> connectable start q \<Longrightarrow>
   distance2 pos p \<le> distance2 pos q"
  using hit_fold [of start pos pins "HIT_RADIUS * HIT_RADIUS"] by (auto simp: hit_target_def hit_inv_def)

section \<open>The invariant of the sheet\<close>

definition draft_ok :: "(string, library_block) obj \<Rightarrow> page_doc \<Rightarrow> draft_state \<Rightarrow> bool" where
  "draft_ok library page d \<longleftrightarrow>
     df_from d \<in> set (pinMap page library)
     \<and> (case df_target d of None \<Rightarrow> True
        | Some q \<Rightarrow> q \<in> set (pinMap page library) \<and> connectable (df_from d) q)"

definition sheet_inv :: "(string, library_block) obj \<Rightarrow> sheet_state \<Rightarrow> bool" where
  "sheet_inv library s \<longleftrightarrow>
     page_wf (sh_page s) \<and> (case sh_draft s of None \<Rightarrow> True | Some d \<Rightarrow> draft_ok library (sh_page s) d)"

definition event_offered :: "(string, library_block) obj \<Rightarrow> sheet_event \<Rightarrow> sheet_state \<Rightarrow> bool" where
  "event_offered library e s =
     (case e of GrabPin pin \<Rightarrow> pin \<in> set (pinMap (sh_page s) library) | _ \<Rightarrow> True)"

lemma move_edit_offered: "edit_offered library (move_edit sheet pos current) p" "harmless (move_edit sheet pos current) p"
  by (auto simp: move_edit_def edit_offered_def harmless_def Let_def split: drag_kind.splits option.splits)

lemma sheet_step_keeps:
  assumes "sheet_inv library s" and "event_offered library e s"
  shows "sheet_inv library (sheet_step library e s)"
proof (cases e)
  case (GrabElement pos item origin)
  then show ?thesis
    using assms by (auto simp: sheet_inv_def sheet_step_def grabElement_def split: option.splits)
next
  case (GrabPin pin)
  then show ?thesis
    using assms by (simp add: sheet_inv_def sheet_step_def grabPin_def event_offered_def draft_ok_def)
next
  case (Move pos)
  show ?thesis
  proof (cases "sh_draft s")
    case None
    then show ?thesis
      using assms(1) page_step_keeps [OF _ move_edit_offered]
      by (auto simp: Move sheet_inv_def sheet_step_def handleMove_def moveElement_def split: option.splits)
  next
    case (Some d)
    then show ?thesis
      using assms(1) hit_target_Some [of "df_from d" pos "pinMap (sh_page s) library"]
      by (auto simp: Move sheet_inv_def sheet_step_def handleMove_def moveDraft_def draft_ok_def split: option.splits)
  qed
next
  case Up
  have "page_wf (page_step (Connect (df_from d) q) (sh_page s))"
    if "sh_draft s = Some d" and "df_target d = Some q" for d q
    by (rule page_step_keeps [where library = library])
      (use assms(1) that in \<open>auto simp: sheet_inv_def draft_ok_def edit_offered_def harmless_def\<close>)
  then show ?thesis
    using assms(1) by (auto simp: Up sheet_inv_def sheet_step_def handleUp_def Let_def split: option.splits)
qed (use assms in \<open>auto simp: sheet_inv_def sheet_step_def handleDown_def pickWire_def split: option.splits\<close>)

interpretation sheet: editor "sheet_step library" "event_offered library" "sheet_inv library" for library
  by unfold_locales (rule sheet_step_keeps)

section \<open>Properties\<close>

text \<open>
  C3: whatever is grabbed, dragged, wired, released or clicked on the sheet of a well-formed page, the
  page stays well-formed, and a wire being drawn always hangs on a pin of the page.
\<close>

theorem sheet_session_wf:
  assumes "page_wf (sh_page s)" and "sh_draft s = None"
    and "\<And>n. n < length es \<Longrightarrow> event_offered library (es ! n) (fold (sheet_step library) (take n es) s)"
  shows "page_wf (sh_page (fold (sheet_step library) es s))
    \<and> (case sh_draft (fold (sheet_step library) es s) of None \<Rightarrow> True
       | Some d \<Rightarrow> df_from d \<in> set (pinMap (sh_page (fold (sheet_step library) es s)) library))"
proof -
  have "sheet_inv library (fold (sheet_step library) es s)"
    by (rule sheet.session_keeps [OF _ assms(3)]) (use assms in \<open>simp_all add: sheet_inv_def\<close>)
  then show ?thesis
    by (auto simp: sheet_inv_def draft_ok_def split: option.splits)
qed

definition wired_sheet :: sheet_state where
  "wired_sheet = \<lparr>sh_page = wired_page, sh_selected = None, sh_drag = None, sh_draft = None\<rparr>"

theorem sheet_session_wf_witness:
  "page_wf (sh_page (fold (sheet_step []) [GrabPin (constant_pin_point (hd (page_constants wired_page))),
     Move \<lparr>px = 1370, py = 130\<rparr>, Up] wired_sheet))"
proof -
  let ?es = "[GrabPin (constant_pin_point (hd (page_constants wired_page))), Move \<lparr>px = 1370, py = 130\<rparr>, Up]"
  have "event_offered [] (?es ! n) (fold (sheet_step []) (take n ?es) wired_sheet)" if "n < length ?es" for n
  proof -
    have "n = 0 \<or> n = 1 \<or> n = 2"
      using that by auto
    then show ?thesis
      by (auto simp: event_offered_def wired_sheet_def pinMap_def wired_page_def emptyPage_def)
  qed
  then show ?thesis
    using sheet_session_wf [of wired_sheet ?es "[]"] wired_page_wf by (simp add: wired_sheet_def)
qed

text \<open>
  While a wire is drawn, the target is the nearest pin that may be joined to its start, strictly
  within 16 units of the pointer; there is no target exactly when there is no such pin.
\<close>

theorem hit_target_spec:
  "(hit_target start pos pins = None \<longleftrightarrow>
      (\<forall>q \<in> set pins. connectable start q \<longrightarrow> 16 * 16 \<le> distance2 pos q))
   \<and> (hit_target start pos pins = Some p \<longrightarrow>
      p \<in> set pins \<and> connectable start p \<and> distance2 pos p < 16 * 16
      \<and> (\<forall>q \<in> set pins. connectable start q \<longrightarrow> distance2 pos p \<le> distance2 pos q))"
proof (intro conjI iffI impI)
  assume none: "hit_target start pos pins = None"
  show "\<forall>q \<in> set pins. connectable start q \<longrightarrow> 16 * 16 \<le> distance2 pos q"
    using hit_target_None [OF none] by (simp add: HIT_RADIUS_def)
next
  assume far: "\<forall>q \<in> set pins. connectable start q \<longrightarrow> 16 * 16 \<le> distance2 pos q"
  show "hit_target start pos pins = None"
  proof (cases "hit_target start pos pins")
    case (Some p)
    then have "p \<in> set pins \<and> connectable start p \<and> distance2 pos p < 16 * 16"
      using hit_target_Some [OF Some] by (simp add: HIT_RADIUS_def)
    then show ?thesis
      using far by force
  qed
next
  assume some: "hit_target start pos pins = Some p"
  show "p \<in> set pins" and "connectable start p" and "distance2 pos p < 16 * 16"
    and "\<forall>q \<in> set pins. connectable start q \<longrightarrow> distance2 pos p \<le> distance2 pos q"
    using hit_target_Some [OF some] hit_target_nearest [OF some] by (auto simp: HIT_RADIUS_def)
qed

definition two_pins :: "pin_point list" where
  "two_pins = map (\<lambda>(n, x). \<lparr>pp_block = ''add1'', pp_port = n, pp_x = x, pp_y = 0, pp_kind = KBlock,
                             pp_type = ''REAL'', pp_direction = PinIn\<rparr>) [(''A'', 0), (''B'', 10)]"

theorem hit_target_spec_witness:
  "hit_target (constant_pin_point (hd (page_constants wired_page))) \<lparr>px = 8, py = 0\<rparr> two_pins = Some (two_pins ! 1)"
proof -
  let ?start = "constant_pin_point (hd (page_constants wired_page))"
  have c: "connectable ?start (two_pins ! 1)"
    by (simp add: connectable_def constant_pin_point_def wired_page_def two_pins_def pp_key_def pinKey_def)
  have "hit_target ?start \<lparr>px = 8, py = 0\<rparr> two_pins \<noteq> None"
    using hit_target_spec [of ?start "\<lparr>px = 8, py = 0\<rparr>" two_pins] c by (auto simp: two_pins_def distance2_def)
  then obtain p where p: "hit_target ?start \<lparr>px = 8, py = 0\<rparr> two_pins = Some p"
    by blast
  then have "p \<in> set two_pins" and "distance2 \<lparr>px = 8, py = 0\<rparr> p \<le> distance2 \<lparr>px = 8, py = 0\<rparr> (two_pins ! 1)"
    using hit_target_spec [of ?start "\<lparr>px = 8, py = 0\<rparr>" two_pins p] c by (auto simp: two_pins_def)
  then show ?thesis
    using p by (auto simp: two_pins_def distance2_def)
qed

text \<open>
  An element that is dragged stays inside the frame of the sheet, ten units off the border on every
  side, whenever the sheet has room for it at all.
\<close>

theorem dragged_inside_frame:
  assumes "2 * (FRAME + GRID) + width \<le> sheet_w sheet" and "2 * (FRAME + GRID) + height \<le> sheet_h sheet"
    and "width = (if di_kind (dr_item d) = DragPort then PORT_W else di_width (dr_item d))"
    and "height = (if di_kind (dr_item d) = DragPort then PORT_H else di_height (dr_item d))"
  shows "FRAME + GRID \<le> px (moved_position sheet pos d)
    \<and> px (moved_position sheet pos d) + width \<le> sheet_w sheet - (FRAME + GRID)
    \<and> FRAME + GRID \<le> py (moved_position sheet pos d)
    \<and> py (moved_position sheet pos d) + height \<le> sheet_h sheet - (FRAME + GRID)"
proof -
  have clamp: "FRAME + GRID \<le> clamp_to_field field extent v
      \<and> clamp_to_field field extent v + extent \<le> field - (FRAME + GRID)"
    if "2 * (FRAME + GRID) + extent \<le> field" for field extent v
    using that unfolding clamp_to_field_def min_def max_def by (auto simp: FRAME_def GRID_def)
  show ?thesis
    using clamp [OF assms(1)] clamp [OF assms(2)] by (simp add: moved_position_def Let_def flip: assms(3,4))
qed

theorem dragged_inside_frame_witness:
  "px (moved_position SHEET_A3 \<lparr>px = 5000, py = 0\<rparr>
     \<lparr>dr_item = \<lparr>di_kind = DragBlock, di_id = ''add1'', di_direction = None, di_index = None, di_width = 168, di_height = 78\<rparr>,
      dr_grab = \<lparr>px = 0, py = 0\<rparr>, dr_origin = \<lparr>px = 300, py = 200\<rparr>\<rparr>) + 168 \<le> 1553"
  using dragged_inside_frame [of 168 SHEET_A3 78
      "\<lparr>dr_item = \<lparr>di_kind = DragBlock, di_id = ''add1'', di_direction = None, di_index = None, di_width = 168, di_height = 78\<rparr>,
       dr_grab = \<lparr>px = 0, py = 0\<rparr>, dr_origin = \<lparr>px = 300, py = 200\<rparr>\<rparr>" "\<lparr>px = 5000, py = 0\<rparr>"]
  by (simp add: FRAME_def GRID_def SHEET_A3_def)

end
