(* ===== verification/SheetView.thy ===== *)
theory SheetView
  imports SheetGesture SimValues
begin

text \<open>
  What \<open>components/graph/Sheet.tsx\<close> displays for a page, a table of findings and the values of a
  run: the drawing frame with its zones, the wires between the pins the page declares, the port,
  constant and block symbols with their accents, and the value texts. Colours are those of the
  source; pixel offsets inside a symbol are left out.
\<close>

section \<open>The drawing frame\<close>

record frame_view =
  fv_columns :: "(string \<times> rat) list"
  fv_rows :: "(string \<times> rat) list"
  fv_title :: string
  fv_page_line :: string
  fv_counts_line :: string
  fv_sheet_line :: string

definition zone_count :: "rat \<Rightarrow> nat" where
  "zone_count inner = nat (max 1 \<lfloor>inner / ZONE_STEP\<rfloor>)"

definition zone_centre :: "rat \<Rightarrow> nat \<Rightarrow> rat" where
  "zone_centre inner index = FRAME + (inner / of_nat (zone_count inner)) * (of_nat index - 1 / 2)"

definition zone_letter :: "nat \<Rightarrow> string" where
  "zone_letter index = (if index - 1 < 8 then [''ABCDEFGH'' ! (index - 1)] else [])"

definition drawing_frame :: "(string \<Rightarrow> string) \<Rightarrow> page_doc \<Rightarrow> frame_view" where
  "drawing_frame t page =
     (let sheet = sheet_of page;
          innerW = sheet_w sheet - 2 * FRAME;
          innerH = sheet_h sheet - 2 * FRAME;
          meta = page_page page;
          iface = page_interface page
      in \<lparr>fv_columns = map (\<lambda>i. (show_nat i, zone_centre innerW i)) [1..<Suc (zone_count innerW)],
          fv_rows = map (\<lambda>i. (zone_letter i, zone_centre innerH i)) [1..<Suc (zone_count innerH)],
          fv_title = page_name page,
          fv_page_line = t ''sheet.page'' @ '' '' @ js_or_str (meta_label meta) (meta_id meta) @ '' '' @ middot @ '' ''
            @ t ''sheet.pageN'' @ '' '' @ show_int (opt_or (meta_index meta) 0 + 1) @ '' '' @ t ''sheet.pageN2'',
          fv_counts_line = show_nat (length (page_blocks page)) @ '' '' @ t ''sheet.blocks'' @ '' '' @ middot @ '' ''
            @ show_nat (length (page_connections page)) @ '' '' @ t ''sheet.wires'' @ '' '' @ middot @ '' ''
            @ show_nat (length (if_input iface) + length (if_output iface) + length (if_in_out iface))
            @ '' '' @ t ''sheet.variables'',
          fv_sheet_line = sheet_name_of page @ '' '' @ t ''sheet.landscape''\<rparr>)"

section \<open>Pins\<close>

text \<open>\<open>index.set(pinKey(pin), pin)\<close> for every pin in turn.\<close>

definition pinAt :: "page_doc \<Rightarrow> (string, library_block) obj \<Rightarrow> (string, pin_point) obj" where
  "pinAt page library = obj_build pp_key id (pinMap page library)"

record pin_dot =
  pd_fill :: string
  pd_ring :: "string option"
  pd_title :: "string option"

definition pinDot :: "mark_table \<Rightarrow> pin_point \<Rightarrow> pin_dot" where
  "pinDot marks pin =
     (let findings = obj_get marks (pp_block pin @ ''.'' @ pp_port pin) in
      \<lparr>pd_fill = typeColor (pp_type pin),
       pd_ring = markColor findings,
       pd_title = map_option (\<lambda>worst. fd_code worst @ '': '' @ fd_message worst) (worstFinding findings)\<rparr>)"

record pin_value =
  pv_text :: string
  pv_fill :: string
  pv_bold :: bool
  pv_anchor_end :: bool
  pv_x :: rat

definition pinValue :: "(string, string) obj \<Rightarrow> (string, bool) obj \<Rightarrow> pin_point \<Rightarrow> pin_value option" where
  "pinValue values forced pin =
     (case obj_get values (pp_key pin) of
        None \<Rightarrow> None
      | Some shown \<Rightarrow> if shown = [] then None
          else let is_forced = (obj_get forced (pp_key pin) = Some True); inward = (pp_direction pin = PinIn) in
            Some \<lparr>pv_text = (if is_forced then ''F '' @ shown else shown),
                  pv_fill = (if is_forced then ''#ff7a45'' else ''#3ddc97''),
                  pv_bold = is_forced,
                  pv_anchor_end = inward,
                  pv_x = pp_x pin + (if inward then - 6 else 6)\<rparr>)"

section \<open>Wires\<close>

record wire_view =
  wv_index :: nat
  wv_path :: string
  wv_selected :: bool
  wv_stroke :: string

definition pin_position :: "pin_point \<Rightarrow> position" where
  "pin_position p = \<lparr>px = pp_x p, py = pp_y p\<rparr>"

definition end_key :: "endpoint \<Rightarrow> string" where
  "end_key e = pinKey (ep_block e) (ep_port e)"

text \<open>A wire of which an end has no pin is not drawn.\<close>

definition wire_view_of ::
    "(string, pin_point) obj \<Rightarrow> selection option \<Rightarrow> nat \<Rightarrow> connection \<Rightarrow> wire_view option" where
  "wire_view_of pins selected index conn =
     (case (obj_get pins (end_key (conn_from conn)), obj_get pins (end_key (conn_to conn))) of
        (Some f, Some t) \<Rightarrow>
          let isSelected = (selected = Some (SelWire index)) in
          Some \<lparr>wv_index = index, wv_path = portPath (pin_position f) (pin_position t), wv_selected = isSelected,
                wv_stroke = (if isSelected then ''#007acc'' else typeColor (pp_type f))\<rparr>
      | _ \<Rightarrow> None)"

definition wire_views :: "page_doc \<Rightarrow> (string, library_block) obj \<Rightarrow> selection option \<Rightarrow> wire_view list" where
  "wire_views page library selected =
     List.map_filter id (map_index (wire_view_of (pinAt page library) selected) (page_connections page))"

record draft_view =
  dv_path :: string
  dv_stroke :: string
  dv_solid :: bool

definition draft_view_of :: "draft_state \<Rightarrow> draft_view" where
  "draft_view_of d =
     \<lparr>dv_path = portPath (pin_position (df_from d))
        (case df_target d of Some q \<Rightarrow> pin_position q | None \<Rightarrow> df_cur d),
      dv_stroke = (case df_target d of Some q \<Rightarrow> typeColor (pp_type q) | None \<Rightarrow> ''#8f8f8f''),
      dv_solid = (df_target d \<noteq> None)\<rparr>"

section \<open>Symbols\<close>

record port_view =
  ov_position :: position
  ov_selected :: bool
  ov_stroke :: string
  ov_dashed :: bool
  ov_name :: string
  ov_type :: string
  ov_bound :: "string option"
  ov_grab :: drag_item

definition port_view_of ::
    "page_doc \<Rightarrow> mark_table \<Rightarrow> selection option \<Rightarrow> port_direction \<Rightarrow> nat \<Rightarrow> port \<Rightarrow> port_view" where
  "port_view_of page marks selected direction index port =
     (let isSelected = (selected = Some (SelPort direction (port_name port)));
          ring = markColor (obj_get marks (INTERFACE @ ''.'' @ port_name port));
          sc = opt_or (port_scope port) External;
          accent = opt_or ring (case sc of Intermediate \<Rightarrow> ''#cca700'' | Local \<Rightarrow> ''#8f8f8f'' | External \<Rightarrow> ''#007acc'')
      in \<lparr>ov_position = placed_at page direction index port,
          ov_selected = isSelected,
          ov_stroke = (if isSelected then ''#007acc'' else accent),
          ov_dashed = (sc = Intermediate),
          ov_name = port_name port,
          ov_type = port_type port,
          ov_bound = (case Option.bind (port_bind port) bind_variable of
              None \<Rightarrow> None | Some v \<Rightarrow> if v = [] then None else Some v),
          ov_grab = \<lparr>di_kind = DragPort, di_id = port_name port, di_direction = Some direction,
                     di_index = Some index, di_width = PORT_W, di_height = PORT_H\<rparr>\<rparr>)"

definition port_views :: "page_doc \<Rightarrow> mark_table \<Rightarrow> selection option \<Rightarrow> port_view list" where
  "port_views page marks selected =
     concat (map (\<lambda>d. map_index (port_view_of page marks selected d) (iface_ports (page_interface page) d))
       [Input, Output, In_out])"

record node_view =
  nv_position :: position
  nv_selected :: bool
  nv_stroke :: string
  nv_name :: string
  nv_type :: string
  nv_inputs :: "(string \<times> string) list"
  nv_outputs :: "(string \<times> string) list"
  nv_note :: "string option"
  nv_params :: "string option"
  nv_grab :: drag_item

definition constant_view_of :: "mark_table \<Rightarrow> selection option \<Rightarrow> constant_node \<Rightarrow> node_view" where
  "constant_view_of marks selected c =
     (let isSelected = (selected = Some (SelConstant (const_id c)));
          ring = markColor (obj_get marks (const_id c @ ''.OUT''))
      in \<lparr>nv_position = const_position c,
          nv_selected = isSelected,
          nv_stroke = (if isSelected then ''#007acc'' else opt_or ring (typeColor (const_type c))),
          nv_name = js_string (const_value c),
          nv_type = const_type c,
          nv_inputs = [], nv_outputs = [], nv_note = None, nv_params = None,
          nv_grab = \<lparr>di_kind = DragConstant, di_id = const_id c, di_direction = None, di_index = None,
                     di_width = CONST_W, di_height = CONST_H\<rparr>\<rparr>)"

definition pin_name_view :: "mark_table \<Rightarrow> block_node \<Rightarrow> library_pin \<Rightarrow> string \<times> string" where
  "pin_name_view marks block pin =
     (pin_name pin, opt_or (markColor (obj_get marks (block_id block @ ''.'' @ pin_name pin))) ''#cfcfcf'')"

definition block_view_of ::
    "(string \<Rightarrow> string) \<Rightarrow> (string, library_block) obj \<Rightarrow> mark_table \<Rightarrow> selection option \<Rightarrow> block_node \<Rightarrow> node_view" where
  "block_view_of t library marks selected block =
     (let def = lookup_block block library;
          table = pinsOf block library;
          height = blockHeight table;
          isSelected = (selected = Some (SelBlock (block_id block)));
          accent = markColor (Some (concat (map (\<lambda>pin.
            opt_or (obj_get marks (block_id block @ ''.'' @ pin_name pin)) []) (pins_inputs table @ pins_outputs table))));
          params = params_of block
      in \<lparr>nv_position = block_position block,
          nv_selected = isSelected,
          nv_stroke = (if isSelected then ''#007acc'' else opt_or accent ''#585b70''),
          nv_name = block_id block,
          nv_type = (case def of Some d \<Rightarrow> lib_name d | None \<Rightarrow> block_type block),
          nv_inputs = map (pin_name_view marks block) (pins_inputs table),
          nv_outputs = map (pin_name_view marks block) (pins_outputs table),
          nv_note = (if pins_inputs table = [] \<and> pins_outputs table = [] then Some (t ''sheet.noPinDef'') else None),
          nv_params = (if params \<noteq> [] then Some (js_join '' '' (map (\<lambda>(k, v). k @ ''='' @ js_string v) params)) else None),
          nv_grab = \<lparr>di_kind = DragBlock, di_id = block_id block, di_direction = None, di_index = None,
                     di_width = NODE_W, di_height = height\<rparr>\<rparr>)"

section \<open>Properties\<close>

lemma pin_mark_the: "pin_mark symbols cycle pin \<noteq> None \<Longrightarrow> the (pin_mark symbols cycle pin)"
  by (auto simp: pin_mark_def split: option.splits if_splits)

lemma pinForced_iff:
  assumes "sim_pins r = Some pins" and "sim_symbols r = Some symbols"
  shows "obj_get (pinForced (Some r) sheet cycle) key = Some True \<longleftrightarrow>
    (\<exists>pin \<in> set pins. pn_page pin = sheet \<and> pn_kind pin = PkSymbol \<and> pin_row_key pin = key
       \<and> (\<exists>row. series_for symbols pin = Some row \<and> forced_at cycle row))" (is "?l \<longleftrightarrow> ?r")
proof
  assume ?l
  then show ?r
    unfolding pinForced_build [OF assms] by (auto dest!: obj_build_in simp: pin_mark_Some)
next
  assume ?r
  then have "obj_get (pinForced (Some r) sheet cycle) key \<noteq> None"
    unfolding pinForced_build [OF assms] by (auto simp: obj_build_None_iff image_iff pin_mark_Some)
  then obtain b where b: "obj_get (pinForced (Some r) sheet cycle) key = Some b"
    by blast
  then have b
    unfolding pinForced_build [OF assms] using pin_mark_the by (fastforce dest!: obj_build_in)
  with b show ?l
    by simp
qed

text \<open>
  On the sheet of a run a value is drawn with the \<open>F\<close> prefix, in bold and in the colour of an
  override exactly when a frame of the run reported the symbol of the pin as forced at the cycle
  shown; a computed value is drawn as the plain text of the value table.
\<close>

theorem forced_value_marked:
  assumes "sim_pins r = Some pins" and "sim_symbols r = Some symbols"
    and "pinValue (pinValues (Some r) sheet cycle) (pinForced (Some r) sheet cycle) p = Some v"
  shows "(pv_bold v \<longleftrightarrow> (\<exists>pin \<in> set pins. pn_page pin = sheet \<and> pn_kind pin = PkSymbol
        \<and> pin_row_key pin = pp_key p \<and> (\<exists>row. series_for symbols pin = Some row \<and> forced_at cycle row)))
    \<and> (\<exists>shown. obj_get (pinValues (Some r) sheet cycle) (pp_key p) = Some shown
        \<and> pv_text v = (if pv_bold v then ''F '' @ shown else shown))
    \<and> (pv_fill v = ''#ff7a45'' \<longleftrightarrow> pv_bold v)"
  using assms(3) pinForced_iff [OF assms(1,2), of sheet cycle "pp_key p"]
  by (auto simp: pinValue_def Let_def split: option.splits if_splits)

definition sample_pin :: pin_point where
  "sample_pin = \<lparr>pp_block = ''add1'', pp_port = ''OUT'', pp_x = 0, pp_y = 0, pp_kind = KBlock, pp_type = ''REAL'',
     pp_direction = PinOut\<rparr>"

theorem forced_value_marked_witness:
  "map_option pv_text (pinValue (pinValues (Some sample_run) ''P1'' 1) (pinForced (Some sample_run) ''P1'' 1) sample_pin)
     = Some ''F 2.5''"
proof -
  have "\<not> Option.is_none (pinValue (pinValues (Some sample_run) ''P1'' 1) (pinForced (Some sample_run) ''P1'' 1) sample_pin)"
    by code_simp
  then obtain v where v: "pinValue (pinValues (Some sample_run) ''P1'' 1) (pinForced (Some sample_run) ''P1'' 1) sample_pin = Some v"
    by (auto simp: Option.is_none_def)
  moreover have "obj_get (pinValues (Some sample_run) ''P1'' 1) (pp_key sample_pin) = Some ''2.5''"
    by code_simp
  moreover have "pv_bold v"
    using forced_value_marked [OF _ _ v, of "the (sim_pins sample_run)" "the (sim_symbols sample_run)"]
    by (simp add: sample_run_def sample_pin_def series_for_def series_of_def obj_build_def obj_get_def forced_at_def
        js_nth_def pin_row_key_def pp_key_def pinKey_def)
  ultimately show ?thesis
    using forced_value_marked [OF _ _ v, of "the (sim_pins sample_run)" "the (sim_symbols sample_run)"]
    by (simp add: sample_run_def)
qed

text \<open>In a table the last row of a key counts.\<close>

lemma obj_build_last:
  assumes "\<And>q. q \<in> set post \<Longrightarrow> key q \<noteq> key x"
  shows "obj_get (obj_build key val (pre @ x # post)) (key x) = Some (val x)"
proof -
  have "key x \<notin> key ` set post"
    using assms by (metis imageE)
  then have "map_of (rev (map (\<lambda>r. (key r, val r)) post)) (key x) = None"
    by (simp add: map_of_eq_None_iff image_image)
  then show ?thesis
    by (simp add: obj_build_get map_add_def)
qed

lemma pinKey_interface: "pinKey INTERFACE a = pinKey INTERFACE b \<longleftrightarrow> a = b"
  by (simp add: pinKey_def)

lemma map_index_append:
  "map_index f (xs @ ys) = map_index f xs @ map_index (\<lambda>i. f (i + length xs)) ys"
proof -
  have "map (\<lambda>(i, x). f i x) (enumerate (n + m) ys) = map (\<lambda>(i, x). f (i + m) x) (enumerate n ys)" for n m ys
    by (induction ys arbitrary: n) (auto simp flip: add_Suc)
  from this [of 0 "length xs" ys] show ?thesis
    by (simp add: map_index_def enumerate_append_eq)
qed

text \<open>
  The sheet looks its wires up by block and port name, and an in-out variable has an input and an
  output pin of one name: the lookup always answers the input pin, at the left edge of the symbol, so
  that a wire which leaves the variable is drawn from the end where wires enter it.
\<close>

theorem inout_wire_end:
  assumes "p \<in> set (if_in_out (page_interface page))"
    and "distinct (map port_name (if_in_out (page_interface page)))"
  shows "\<exists>q. obj_get (pinAt page library) (pinKey INTERFACE (port_name p)) = Some q
    \<and> pp_direction q = PinIn \<and> pp_block q = INTERFACE \<and> pp_port q = port_name p"
proof -
  obtain xs ys where split: "if_in_out (page_interface page) = xs @ p # ys"
    using split_list [OF assms(1)] by blast
  let ?f = "port_pin_points page In_out"
  let ?in = "\<lparr>pp_block = INTERFACE, pp_port = port_name p, pp_x = px (placed_at page In_out (length xs) p),
     pp_y = py (placed_at page In_out (length xs) p) + PORT_H / 2, pp_kind = KPort, pp_type = port_type p,
     pp_direction = PinIn\<rparr>"
  obtain before where "?f (length xs) p = before @ [?in]"
    by (simp add: port_pin_points_def Let_def)
  then have "\<exists>pre. pinMap page library = pre @ [?in] @ concat (map_index (\<lambda>i. ?f (i + Suc (length xs))) ys)"
    by (simp add: pinMap_def iface_ports_def split map_index_append [of ?f xs "p # ys"]
        map_index_append [of _ "[p]" ys, simplified]) (simp add: map_index_def)
  then obtain pre where pins: "pinMap page library = pre @ [?in] @ concat (map_index (\<lambda>i. ?f (i + Suc (length xs))) ys)"
    by blast
  have "pp_key q \<noteq> pinKey INTERFACE (port_name p)" if later: "q \<in> set (concat (map_index (\<lambda>i. ?f (i + Suc (length xs))) ys))" for q
  proof -
    obtain i r where "r \<in> set ys" and "q \<in> set (?f i r)"
      using later by (auto dest!: in_map_index)
    moreover have "port_name r \<noteq> port_name p"
      using assms(2) imageI [OF \<open>r \<in> set ys\<close>, of port_name] by (auto simp: split)
    ultimately show ?thesis
      using port_pin_port [of q page In_out i r] by (simp add: pp_key_def pinKey_interface)
  qed
  then have "obj_get (obj_build pp_key id (pinMap page library)) (pp_key ?in) = Some (id ?in)"
    unfolding pins append_Cons append_Nil by (intro obj_build_last) (simp add: pp_key_def)
  then show ?thesis
    by (intro exI [of _ ?in]) (simp add: pinAt_def pp_key_def)
qed

definition inout_page :: page_doc where
  "inout_page = (emptyPage ''P1'' ''MAIN'' 0 ''A3'')
     \<lparr>page_interface := \<lparr>if_input = [], if_output = [], if_in_out = [\<lparr>port_name = ''x'', port_type = ''REAL'',
        port_scope = Some Local, port_bind = None, port_unit = None, port_position = None\<rparr>]\<rparr>\<rparr>"

theorem inout_wire_end_witness:
  "\<exists>q. obj_get (pinAt inout_page []) ''__interface__.x'' = Some q \<and> pp_direction q = PinIn"
  using inout_wire_end [of "hd (if_in_out (page_interface inout_page))" inout_page "[]"]
  by (auto simp: inout_page_def emptyPage_def INTERFACE_def pinKey_def)

end
