(* ===== verification/Analysis.thy ===== *)
theory Analysis
  imports SimValues
begin

text \<open>
  The compiler's measurements: \<open>AnalysisReport\<close> of \<open>components/graph/types.ts\<close> (lines 132 to 183) and
  the cards of \<open>components/graph/AnalysisPanel.tsx\<close>. A template literal prints \<open>undefined\<close> for a field
  that is not there, unless the source names a dash for it.
\<close>

section \<open>The report\<close>

record wcet_report =
  wc_total_cycles :: rat
  wc_total_ns :: rat
  wc_cycle_limit :: "rat option"
  wc_station_cycle_ms :: "rat option"
  wc_used_percent :: "rat option"
  wc_fits_cycle :: "bool option"
  wc_within_limit :: "bool option"

record segment_row =
  sg_bytes :: nat
  sg_count :: nat
  sg_start :: nat

record memory_report =
  me_linear_memory_bytes :: nat
  me_by_kind :: "(string, segment_row) obj"
  me_io_channels :: nat
  me_symbols :: nat
  me_global_slots :: nat
  me_fb_fields :: nat
  me_code_bytes :: nat

record sync_report =
  sy_page_size :: nat
  sy_tracked_pages :: nat
  sy_page_limit :: nat
  sy_mandatory_page_count :: nat
  sy_bytes_per_cycle :: nat
  sy_snapshot_header_bytes :: nat
  sy_worst_case_bytes :: nat
  sy_within_page_limit :: bool
  sy_note :: "string option"

record stack_report =
  sk_stack_depth :: nat
  sk_recursive_calls :: bool
  sk_loops_bounded :: bool

record analysis_report =
  an_ok :: bool
  an_stage :: "string option"
  an_exit_code :: "int option"
  an_errors :: "finding list option"
  an_diagnostics :: "diagnostic_row list option"
  an_image_bytes :: "nat option"
  an_analysis :: "stack_report option"
  an_wcet :: "wcet_report option"
  an_memory :: "memory_report option"
  an_sync_region :: "sync_report option"
  an_sections :: "(string, nat) obj option"
  an_station :: "(string \<times> rat) option"

section \<open>Numbers as text\<close>

definition kib :: string where
  "kib = '' KiB (''"

definition bytes :: "nat option \<Rightarrow> string" where
  "bytes v =
     (case v of None \<Rightarrow> dash_text
      | Some n \<Rightarrow> if 1024 \<le> n then js_to_fixed 2 (of_nat n / 1024) @ kib @ show_nat n @ '')''
                 else show_nat n @ '' B'')"

definition hex_digit :: "nat \<Rightarrow> char" where
  "hex_digit d = (if d < 10 then digit_char d else char_of (87 + d))"

text \<open>\<open>n.toString(16)\<close>\<close>

fun show_hex :: "nat \<Rightarrow> string" where
  "show_hex n = (if n < 16 then [hex_digit n] else show_hex (n div 16) @ [hex_digit (n mod 16)])"

declare show_hex.simps [simp del]

definition or_dash :: "('a \<Rightarrow> string) \<Rightarrow> 'a option \<Rightarrow> string" where
  "or_dash f x = (case x of None \<Rightarrow> dash_text | Some v \<Rightarrow> f v)"

definition or_undefined :: "('a \<Rightarrow> string) \<Rightarrow> 'a option \<Rightarrow> string" where
  "or_undefined f x = (case x of None \<Rightarrow> ''undefined'' | Some v \<Rightarrow> f v)"

definition full_comma :: string where
  "full_comma = utf8 [239, 188, 140]"

definition paren_open :: string where
  "paren_open = utf8 [239, 188, 136]"

definition paren_close :: string where
  "paren_close = utf8 [239, 188, 137]"

definition full_stop :: string where
  "full_stop = utf8 [227, 128, 130]"

section \<open>The cards\<close>

record card_row =
  cr_label :: string
  cr_value :: string
  cr_warn :: bool

record card =
  ca_title :: string
  ca_hint :: string
  ca_rows :: "card_row list"

definition plain_row :: "string \<Rightarrow> string \<Rightarrow> card_row" where
  "plain_row l v = \<lparr>cr_label = l, cr_value = v, cr_warn = False\<rparr>"

definition wcet_card :: "(string \<Rightarrow> string) \<Rightarrow> analysis_report \<Rightarrow> card" where
  "wcet_card t report =
     (let w = an_wcet report; a = an_analysis report in
      \<lparr>ca_title = t ''analysis.wcet'',
       ca_hint = t ''analysis.artifact'' @ '' '' @ or_undefined show_nat (an_image_bytes report) @ '' '' @ t ''analysis.bytes'',
       ca_rows =
         [plain_row (t ''analysis.instructionCycles'') (or_dash (show_rat \<circ> wc_total_cycles) w),
          plain_row (t ''analysis.time'')
            (or_dash (show_rat \<circ> wc_total_ns) w @ '' ns'' @ paren_open
             @ js_to_fixed 6 ((case w of None \<Rightarrow> 0 | Some v \<Rightarrow> wc_total_ns v) / 1000000) @ '' ms'' @ paren_close),
          \<lparr>cr_label = t ''analysis.cycleBudget'' @ '' '' @ or_dash show_rat (Option.bind w wc_station_cycle_ms)
             @ '' '' @ t ''analysis.cycleBudget2'',
           cr_value = (case Option.bind w wc_used_percent of None \<Rightarrow> ''0'' | Some p \<Rightarrow> show_rat p) @ '' %'',
           cr_warn = (Option.bind w wc_fits_cycle = Some False)\<rparr>,
          \<lparr>cr_label = t ''analysis.cycleLimit'',
           cr_value = or_dash show_rat (Option.bind w wc_cycle_limit)
             @ (if Option.bind w wc_within_limit = Some False then '' '' @ t ''analysis.exceeded'' else []),
           cr_warn = (Option.bind w wc_within_limit = Some False)\<rparr>,
          plain_row (t ''analysis.stackDepth'') (or_dash (show_nat \<circ> sk_stack_depth) a),
          \<lparr>cr_label = t ''analysis.recursive'',
           cr_value = (if map_option sk_recursive_calls a = Some True then t ''analysis.yes'' else t ''analysis.no''),
           cr_warn = (map_option sk_recursive_calls a = Some True)\<rparr>,
          \<lparr>cr_label = t ''analysis.boundedLoop'',
           cr_value = (if map_option sk_loops_bounded a = Some True then t ''common.yes'' else t ''common.no''),
           cr_warn = (map_option sk_loops_bounded a \<noteq> Some True)\<rparr>]\<rparr>)"

definition memory_card :: "(string \<Rightarrow> string) \<Rightarrow> analysis_report \<Rightarrow> card" where
  "memory_card t report =
     (let m = an_memory report in
      \<lparr>ca_title = t ''analysis.memoryUsage'',
       ca_hint = t ''analysis.code'' @ '' '' @ or_undefined (show_nat \<circ> me_code_bytes) m @ '' '' @ t ''analysis.bytes'',
       ca_rows =
         [plain_row (t ''analysis.linearMemory'') (bytes (map_option me_linear_memory_bytes m))]
         @ map (\<lambda>(kind, row). plain_row ('' '' @ kind @ '' '' @ t ''analysis.section'')
             (bytes (Some (sg_bytes row)) @ full_comma @ show_nat (sg_count row) @ '' '' @ t ''analysis.section2''
              @ full_comma @ t ''analysis.baseAddr'' @ '' 0x'' @ show_hex (sg_start row)))
             (case m of None \<Rightarrow> [] | Some v \<Rightarrow> me_by_kind v)
         @ [plain_row (t ''analysis.symbolCount'') (or_dash (show_nat \<circ> me_symbols) m),
            plain_row (t ''analysis.globalVars'')
              (or_undefined (show_nat \<circ> me_global_slots) m @ '' / '' @ or_undefined (show_nat \<circ> me_fb_fields) m),
            plain_row (t ''analysis.ioMapping'') (or_dash (show_nat \<circ> me_io_channels) m)]\<rparr>)"

definition sync_card :: "(string \<Rightarrow> string) \<Rightarrow> analysis_report \<Rightarrow> card" where
  "sync_card t report =
     (let y = an_sync_region report in
      \<lparr>ca_title = t ''analysis.hotstandby'',
       ca_hint = t ''analysis.page'' @ '' '' @ or_undefined (show_nat \<circ> sy_page_size) y @ '' B'',
       ca_rows =
         [plain_row (t ''analysis.syncPages'') (or_dash (show_nat \<circ> sy_mandatory_page_count) y @ '' '' @ t ''analysis.page''),
          plain_row (t ''analysis.syncDataSize'') (bytes (map_option sy_bytes_per_cycle y)),
          plain_row (t ''analysis.snapshotHeader'') (bytes (map_option sy_snapshot_header_bytes y)),
          \<lparr>cr_label = t ''analysis.worstSnapshot'', cr_value = bytes (map_option sy_worst_case_bytes y),
           cr_warn = (map_option sy_within_page_limit y = Some False)\<rparr>,
          plain_row (t ''analysis.tracePageLimit'' @ '' '' @ or_undefined (show_nat \<circ> sy_page_limit) y)
            (or_undefined (show_nat \<circ> sy_tracked_pages) y @ '' '' @ t ''analysis.used'')]\<rparr>)"

section \<open>The panel\<close>

definition join_truthy :: "string option list \<Rightarrow> string" where
  "join_truthy xs = js_join ('' '' @ middot @ '' '') (filter (\<lambda>s. s \<noteq> []) (List.map_filter id xs))"

record refusal_view =
  rf_reason :: string
  rf_errors :: "(string \<times> string) list"
  rf_diagnostics :: "(string \<times> string) list"

definition located :: "finding \<Rightarrow> string" where
  "located f =
     (if fd_block f \<noteq> [] \<and> fd_block f \<noteq> INTERFACE then '' '' @ middot @ '' '' @ fd_block f else [])
     @ (if fd_port f \<noteq> [] then '' '' @ middot @ '' '' @ fd_port f else [])"

definition analysis_refusal :: "(string \<Rightarrow> string) \<Rightarrow> analysis_report \<Rightarrow> refusal_view" where
  "analysis_refusal t report =
     \<lparr>rf_reason = (if an_stage report = Some ''checker'' then t ''analysis.checkerStillErrors''
        else t ''analysis.compilerRejected''
          @ (case an_exit_code report of None \<Rightarrow> []
             | Some c \<Rightarrow> paren_open @ t ''analysis.exitCode'' @ '' '' @ show_int c @ paren_close) @ full_stop),
      rf_errors = map (\<lambda>f. (fd_message f, fd_page f @ located f)) (or_empty (an_errors report)),
      rf_diagnostics = map (\<lambda>d. (dg_message d, join_truthy [dg_pou d, dg_var d, dg_kind d, dg_loc d]))
        (or_empty (an_diagnostics report))\<rparr>"

record analysis_panel =
  ap_run_enabled :: bool
  ap_check_first :: bool
  ap_station :: "string option"
  ap_changed :: bool
  ap_refused :: "refusal_view option"
  ap_cards :: "card list"
  ap_sections :: string
  ap_empty :: bool

definition analysis_panel ::
    "(string \<Rightarrow> string) \<Rightarrow> analysis_report option \<Rightarrow> string option \<Rightarrow> bool \<Rightarrow> bool \<Rightarrow> bool \<Rightarrow> analysis_panel" where
  "analysis_panel t report error busy stale blocked =
     \<lparr>ap_run_enabled = (\<not> (busy \<or> blocked)),
      ap_check_first = (blocked \<and> report = None),
      ap_station = map_option (\<lambda>(i, ms). t ''sim.station'' @ '' '' @ i @ '' '' @ middot @ '' '' @ t ''sim.cycle''
        @ '' '' @ show_rat ms @ '' ms'') (Option.bind report an_station),
      ap_changed = (stale \<and> map_option an_ok report = Some True),
      ap_refused = (case report of None \<Rightarrow> None
        | Some r \<Rightarrow> if an_ok r then None else Some (analysis_refusal t r)),
      ap_cards = (case report of None \<Rightarrow> []
        | Some r \<Rightarrow> if an_ok r then [wcet_card t r, memory_card t r, sync_card t r] else []),
      ap_sections = (case report of None \<Rightarrow> []
        | Some r \<Rightarrow> if an_ok r then js_join ''  '' (map (\<lambda>(n, l). n @ ''='' @ show_nat l)
            (case an_sections r of None \<Rightarrow> [] | Some ss \<Rightarrow> ss)) else []),
      ap_empty = (report = None \<and> \<not> busy \<and> error \<in> {None, Some []})\<rparr>"

section \<open>Properties\<close>



text \<open>A number of bytes can always be read back: the exact count is in every text.\<close>

lemma prefix_until_space:
  assumes "CHR '' '' \<notin> set xs" and "CHR '' '' \<notin> set ys" and "xs @ CHR '' '' # us = ys @ CHR '' '' # vs"
  shows "xs = ys \<and> us = vs"
  using assms
proof (induction xs arbitrary: ys)
  case Nil
  then show ?case
    by (cases ys) auto
next
  case (Cons x xs)
  then obtain y ys' where ys: "ys = y # ys'"
    by (cases ys) auto
  then show ?case
    using Cons.IH [of ys'] Cons.prems by auto
qed

lemma digit_not_space: "CHR '' '' \<notin> set (show_nat n)"
  using show_nat_digits [of "CHR '' ''" n] by (auto simp: is_digit_def js_in_range_def)

lemma fixed_not_space: "0 \<le> r \<Longrightarrow> CHR '' '' \<notin> set (js_to_fixed f r)"
proof -
  assume "0 \<le> r"
  have "CHR '' '' \<notin> set (fixed_digits f n)" for n
    using digit_not_space [of n]
    by (auto simp: fixed_digits_def Let_def zeros_def dest: in_set_takeD in_set_dropD)
  with \<open>0 \<le> r\<close> show ?thesis
    by (simp add: js_to_fixed_def)
qed

text \<open>
  Two sizes that differ are never shown alike: the text of the panel determines the number of bytes,
  although sizes from one KiB on are rounded to two decimals.
\<close>

theorem bytes_injective: "bytes (Some m) = bytes (Some n) \<longleftrightarrow> m = n"
proof
  assume eq: "bytes (Some m) = bytes (Some n)"
  have frac: "CHR '' '' \<notin> set (js_to_fixed 2 (of_nat k / 1024))" for k :: nat
    by (rule fixed_not_space) simp
  show "m = n"
  proof (cases "1024 \<le> m"; cases "1024 \<le> n")
    assume "1024 \<le> m" "1024 \<le> n"
    then have "js_to_fixed 2 (of_nat m / 1024) @ CHR '' '' # (''KiB ('' @ show_nat m @ '')'')
        = js_to_fixed 2 (of_nat n / 1024) @ CHR '' '' # (''KiB ('' @ show_nat n @ '')'')"
      using eq by (simp add: bytes_def kib_def)
    then have "''KiB ('' @ show_nat m @ '')'' = ''KiB ('' @ show_nat n @ '')''"
      using prefix_until_space [OF frac frac] by blast
    then show ?thesis
      by (auto dest: show_nat_inj)
  next
    assume "1024 \<le> m" "\<not> 1024 \<le> n"
    then show ?thesis
      using prefix_until_space [OF frac digit_not_space, of m "''KiB ('' @ show_nat m @ '')''" n "''B''"] eq
      by (simp add: bytes_def kib_def)
  next
    assume "\<not> 1024 \<le> m" "1024 \<le> n"
    then show ?thesis
      using prefix_until_space [OF digit_not_space frac, of m "''B''" n "''KiB ('' @ show_nat n @ '')''"] eq
      by (simp add: bytes_def kib_def)
  next
    assume "\<not> 1024 \<le> m" "\<not> 1024 \<le> n"
    then show ?thesis
      using eq by (auto simp: bytes_def dest: show_nat_inj)
  qed
qed simp

end
