(* ===== verification/JsDouble.thy ===== *)
theory JsDouble
  imports JsNumber "HOL-Library.Log_Nat"
begin

text \<open>
  The rounding of an exact number to the nearest IEEE double, ties to even, for arithmetic in which the source takes
  care of the error of floating point. A sum, a difference, a product or a quotient of doubles is the rounding of the
  exact result. Numbers are in the normal range; there is no overflow and no signed zero.
\<close>

text \<open>The exponent of a positive number: the power of two it lies above.\<close>

definition binade :: "rat \<Rightarrow> int" where
  "binade x = (let (a, b) = quotient_of x; e = bitlen a - bitlen b in if 2 powi e \<le> x then e else e - 1)"

definition ties_even :: "rat \<Rightarrow> int" where
  "ties_even y = (let f = \<lfloor>y\<rfloor>; d = y - of_int f in if d < 1 / 2 \<or> d = 1 / 2 \<and> even f then f else f + 1)"

definition double_of :: "rat \<Rightarrow> rat" where
  "double_of x = (if x = 0 then 0 else let u = 2 powi (binade \<bar>x\<bar> - 52) in of_int (ties_even (x / u)) * u)"

lemma ties_even_error: "\<bar>of_int (ties_even y) - y\<bar> \<le> 1 / 2"
proof -
  define d where "d = y - of_int \<lfloor>y\<rfloor>"
  have y: "y = of_int \<lfloor>y\<rfloor> + d" and "0 \<le> d" and "d < 1"
    unfolding d_def by linarith+
  moreover have "ties_even y = (if d < 1 / 2 \<or> d = 1 / 2 \<and> even \<lfloor>y\<rfloor> then \<lfloor>y\<rfloor> else \<lfloor>y\<rfloor> + 1)"
    by (simp add: ties_even_def d_def Let_def)
  ultimately show ?thesis
    by (auto simp: abs_le_iff)
qed

lemma binade_below:
  assumes "0 < x"
  shows "2 powi binade x \<le> x"
proof -
  obtain a b where ab: "quotient_of x = (a, b)"
    by (metis prod.exhaust)
  then have x: "x = of_int a / of_int b" and b: "0 < b"
    using quotient_of_div quotient_of_denom_pos by blast+
  then have a: "0 < a"
    using assms by (simp add: zero_less_divide_iff)
  define m where "m = nat (bitlen a - 1)"
  define n where "n = nat (bitlen b)"
  have la: "bitlen a = int m + 1" and lb: "bitlen b = int n"
    using a bitlen_nonneg [of b] bitlen_eq_zero_iff [of a] bitlen_nonneg [of a] by (simp_all add: m_def n_def)
  have "2 ^ m \<le> a" and "b < 2 ^ n"
    using bitlen_bounds [OF a] bitlen_bounds [OF b] by (simp_all add: m_def n_def)
  then have "(2 :: rat) ^ m \<le> of_int a" and "of_int b \<le> (2 :: rat) ^ n"
    by (metis of_int_le_iff of_int_numeral of_int_power, metis less_imp_le of_int_le_iff of_int_numeral of_int_power)
  moreover have "(0 :: rat) < of_int b"
    using b by simp
  ultimately have "(2 :: rat) ^ m / 2 ^ n \<le> of_int a / of_int b"
    using a by (intro frac_le) simp_all
  then have "2 powi (bitlen a - bitlen b - 1) \<le> x"
    by (simp add: x la lb power_int_diff)
  then show ?thesis
    by (auto simp: binade_def ab Let_def)
qed

lemma double_error: "\<bar>double_of x - x\<bar> \<le> \<bar>x\<bar> / 2 ^ 53"
proof (cases "x = 0")
  case False
  define u :: rat where "u = 2 powi (binade \<bar>x\<bar> - 52)"
  have u: "0 < u"
    by (simp add: u_def)
  have "\<bar>of_int (ties_even (x / u)) * u - x\<bar> = \<bar>of_int (ties_even (x / u)) - x / u\<bar> * u"
    using u by (metis abs_mult abs_of_pos left_diff_distrib less_numeral_extra(3) nonzero_divide_eq_eq)
  also have "\<dots> \<le> 1 / 2 * u"
    using ties_even_error [of "x / u"] u by (intro mult_right_mono) simp_all
  also have "\<dots> = 2 powi binade \<bar>x\<bar> / 2 ^ 53"
    by (simp add: u_def power_int_diff)
  also have "\<dots> \<le> \<bar>x\<bar> / 2 ^ 53"
    using binade_below [of "\<bar>x\<bar>"] False by (intro divide_right_mono) simp_all
  finally show ?thesis
    using False by (simp add: double_of_def u_def Let_def)
qed (simp add: double_of_def)

text \<open>The relative error of one rounding.\<close>

definition double_eps :: rat where
  "double_eps = 1 / 2 ^ 53"

lemma double_eps: "0 < double_eps" "double_eps < 1 / 1000000"
  by (simp_all add: double_eps_def)

lemma double_near: "\<bar>x\<bar> \<le> b \<Longrightarrow> \<bar>double_of x - x\<bar> \<le> b * double_eps"
  using double_error [of x] by (auto simp: double_eps_def field_simps intro: order_trans)

text \<open>\<open>Math.round\<close> finds the whole number behind a small error.\<close>

lemma round_near: "\<bar>x - of_int k\<bar> < 1 / 2 \<Longrightarrow> round_half_up x = k"
  unfolding round_half_up_def floor_eq_iff abs_less_iff by (auto simp: field_simps)

end
