(* ===== verification/GraphSession.thy ===== *)
theory GraphSession
  imports PageEdits SimPanels Stimulus Analysis JsDouble
begin

text \<open>
  The editing session of \<open>pages/GraphEditorPage.tsx\<close>: the page on screen with its debounced save
  (the refs \<open>dirty\<close> and \<open>rev\<close>, the effect on \<open>page\<close> and its 350 ms timer), the checker, the
  analysis and the simulation with their stale flags, and the handlers that change the selection. A
  request is an event of its own and its answer another, so that edits may come between; the
  answers of the backend are arguments (\<open>Inl\<close> the message of the error that \<open>call\<close> throws). Every way to another
  page goes through such a pair: the page is asked for, and shown when it arrives.

  An effect on \<open>page\<close> runs again when the page object is a new one: every edit builds a new object
  except a wire that is drawn a second time. Two ghost fields record what was sent: the last page
  document that the backend holds or was sent, and the revision that the shown analysis and the
  shown run were asked for.
\<close>

section \<open>State\<close>

text \<open>
  A page that was asked for: whether an error is told, and what is selected and centred once the page is there. A jump
  first asks for the page it leads to, and keeps the page that was on screen then.
\<close>

record page_fetch =
  pf_page :: string
  pf_told :: bool
  pf_jump :: "(selection \<times> position option) option"

record page_lookup =
  lk_target :: jump_target
  lk_shown :: string

datatype panel_tab = TabCheck | TabSt | TabAnalysis | TabSim | TabStim

record session =
  se_pages :: "page_row list"
  se_page_id :: string
  se_page :: "page_doc option"
  se_selected :: "selection option"
  se_dirty :: bool
  se_rev :: nat
  se_timer :: "(page_doc \<times> nat) option"
  se_sent :: "page_doc option"
  se_inflight :: "nat list"
  se_fetches :: "page_fetch list"
  se_lookups :: "page_lookup list"
  se_report :: "check_report option"
  se_cross :: "cross_page_row list"
  se_st_text :: string
  se_st_error :: "string option"
  se_analysis :: "analysis_report option"
  se_analysis_error :: "string option"
  se_analysis_busy :: bool
  se_analysis_stale :: bool
  se_analysis_timer :: bool
  se_sim :: "sim_run option"
  se_sim_rev :: nat
  se_sim_error :: "string option"
  se_sim_busy :: bool
  se_sim_stale :: bool
  se_cycle :: int
  se_panel :: panel_tab
  se_busy :: bool
  se_station :: string
  se_sim_cycles :: jsnum
  se_stimulus :: stimulus
  se_zoom :: rat
  se_focus :: "position option"
  se_toasts :: "string list"

text \<open>What the page shows before anything was loaded.\<close>

definition initial_session :: session where
  "initial_session =
     \<lparr>se_pages = [], se_page_id = [], se_page = None, se_selected = None, se_dirty = False, se_rev = 0,
      se_timer = None, se_sent = None, se_inflight = [], se_fetches = [], se_lookups = [], se_report = None, se_cross = [], se_st_text = [], se_st_error = None,
      se_analysis = None, se_analysis_error = None, se_analysis_busy = False, se_analysis_stale = False,
      se_analysis_timer = False, se_sim = None, se_sim_rev = 0, se_sim_error = None, se_sim_busy = False,
      se_sim_stale = False, se_cycle = 0, se_panel = TabCheck, se_busy = False, se_station = [], se_sim_cycles = Num 20,
      se_stimulus = \<lparr>st_forces = [], st_script = [], st_sequence = 0\<rparr>, se_zoom = double_of (31 / 50),
      se_focus = None, se_toasts = []\<rparr>"

definition fail :: "string \<Rightarrow> session \<Rightarrow> session" where
  "fail message s = s\<lparr>se_toasts := se_toasts s @ [message]\<rparr>"

section \<open>The page and its debounced save\<close>

text \<open>
  The two effects on a new page object: each clears its timer and sets it again. The first one runs as well when \<open>fail\<close>
  is a new function, which it is after a change of the language.
\<close>

definition save_effect :: "session \<Rightarrow> session" where
  "save_effect s =
     s\<lparr>se_timer := (case se_page s of Some doc \<Rightarrow> if se_dirty s then Some (doc, se_rev s) else None | None \<Rightarrow> None)\<rparr>"

definition page_effects :: "session \<Rightarrow> session" where
  "page_effects s = (save_effect s)\<lparr>se_analysis_timer := (se_analysis_stale s \<and> se_page s \<noteq> None)\<rparr>"

lemmas page_effects_defs = page_effects_def save_effect_def

text \<open>The effect on \<open>analysisStale\<close> alone, when the page object stays: it runs when the flag changed.\<close>

definition stale_effect :: "bool \<Rightarrow> session \<Rightarrow> session" where
  "stale_effect before s =
     (if before = se_analysis_stale s then s
      else s\<lparr>se_analysis_timer := (se_analysis_stale s \<and> se_page s \<noteq> None)\<rparr>)"

definition new_object :: "page_edit \<Rightarrow> page_doc \<Rightarrow> bool" where
  "new_object e p =
     (case e of
        Connect a b \<Rightarrow> (let (f, t) = otherSide a b in
          \<not> (\<exists>c \<in> set (page_connections p). sameConnection c (pin_endpoint f) (pin_endpoint t)))
      | _ \<Rightarrow> True)"

definition patch :: "page_edit \<Rightarrow> session \<Rightarrow> session" where
  "patch e s =
     (let s1 = s\<lparr>se_dirty := True, se_rev := se_rev s + 1, se_analysis_stale := True, se_sim_stale := True\<rparr>
      in case se_page s of
           None \<Rightarrow> stale_effect (se_analysis_stale s) s1
         | Some current \<Rightarrow>
             if new_object e current then page_effects (s1\<lparr>se_page := Some (page_step e current)\<rparr>)
             else stale_effect (se_analysis_stale s) s1)"

text \<open>The timer hands its document to a \<open>PUT\<close>; the answer carries the rows of the page list.\<close>

definition save_fires :: "session \<Rightarrow> session" where
  "save_fires s =
     (case se_timer s of None \<Rightarrow> s
      | Some (doc, target) \<Rightarrow>
          s\<lparr>se_timer := None, se_sent := Some doc, se_inflight := target # se_inflight s\<rparr>)"

definition save_answered :: "nat \<Rightarrow> string + string + page_row list \<Rightarrow> session \<Rightarrow> session" where
  "save_answered target answer s =
     (case answer of
        Inl message \<Rightarrow> fail message s
      | Inr rest \<Rightarrow>
          (let s1 = (if se_rev s = target then s\<lparr>se_dirty := False\<rparr> else s)
           in case rest of Inl message \<Rightarrow> fail message s1 | Inr rows \<Rightarrow> s1\<lparr>se_pages := rows\<rparr>))"

definition fetch_page :: "page_fetch \<Rightarrow> session \<Rightarrow> session" where
  "fetch_page f s = s\<lparr>se_fetches := se_fetches s @ [f]\<rparr>"

text \<open>What \<open>loadPage\<close> does with the page it received.\<close>

definition loadPage :: "string \<Rightarrow> page_doc \<Rightarrow> session \<Rightarrow> session" where
  "loadPage i doc s = page_effects (s\<lparr>se_page := Some doc, se_page_id := i, se_selected := None, se_sent := Some doc\<rparr>)"

definition focus_at :: "position option \<Rightarrow> session \<Rightarrow> session" where
  "focus_at pos s = (case pos of None \<Rightarrow> s | Some p \<Rightarrow> s\<lparr>se_focus := Some p\<rparr>)"

definition select_jump :: "(selection \<times> position option) option \<Rightarrow> session \<Rightarrow> session" where
  "select_jump target s =
     (case target of None \<Rightarrow> s | Some (sel, pos) \<Rightarrow> focus_at pos (s\<lparr>se_selected := Some sel\<rparr>))"

definition page_answered :: "nat \<Rightarrow> string + page_doc \<Rightarrow> session \<Rightarrow> session" where
  "page_answered n answer s =
     (if n < length (se_fetches s) then
        (let f = se_fetches s ! n; s1 = s\<lparr>se_fetches := take n (se_fetches s) @ drop (Suc n) (se_fetches s)\<rparr> in
         case answer of
           Inl message \<Rightarrow> if pf_told f then fail message s1 else s1
         | Inr doc \<Rightarrow> select_jump (pf_jump f) (loadPage (pf_page f) doc s1))
      else s)"

text \<open>A click on a page tab; an error of the request is not caught.\<close>

definition select_tab :: "string \<Rightarrow> session \<Rightarrow> session" where
  "select_tab i s = fetch_page \<lparr>pf_page = i, pf_told = False, pf_jump = None\<rparr> (s\<lparr>se_dirty := False\<rparr>)"

text \<open>A click whose answer comes before anything else happens.\<close>

definition tab_loaded :: "string \<Rightarrow> page_doc \<Rightarrow> session \<Rightarrow> session" where
  "tab_loaded i doc s = page_answered (length (se_fetches s)) (Inr doc) (select_tab i s)"

lemma tab_loaded_eq: "tab_loaded i doc s = loadPage i doc (s\<lparr>se_dirty := False\<rparr>)"
  by (cases s) (simp add: tab_loaded_def page_answered_def select_tab_def fetch_page_def select_jump_def Let_def)

lemmas tab_loaded_defs = tab_loaded_eq loadPage_def page_effects_defs

section \<open>Jumps\<close>

definition declares_port :: "page_doc \<Rightarrow> string \<Rightarrow> port_direction \<Rightarrow> bool" where
  "declares_port page name d \<longleftrightarrow> list_ex (\<lambda>p. port_name p = name) (iface_ports (page_interface page) d)"

definition portDirectionOnPage :: "session \<Rightarrow> string \<Rightarrow> port_direction option" where
  "portDirectionOnPage s name =
     (case se_page s of None \<Rightarrow> None | Some page \<Rightarrow> find (declares_port page name) [Input, In_out, Output])"

definition port_named :: "page_doc \<Rightarrow> port_direction \<Rightarrow> string \<Rightarrow> port option" where
  "port_named page d name = find (\<lambda>p. port_name p = name) (iface_ports (page_interface page) d)"

definition focusPort :: "string \<Rightarrow> session \<Rightarrow> session" where
  "focusPort name s =
     (case (portDirectionOnPage s name, se_page s) of
        (Some d, Some page) \<Rightarrow>
          focus_at (Option.bind (port_named page d name) port_position) (s\<lparr>se_selected := Some (SelPort d name)\<rparr>)
      | _ \<Rightarrow> s)"

text \<open>The element of a document that a jump selects, with the point it centres.\<close>

definition jump_selection :: "page_doc \<Rightarrow> string \<Rightarrow> string \<Rightarrow> (selection \<times> position option) option" where
  "jump_selection doc block port =
     (if block = INTERFACE then
        (case find (declares_port doc port) [Input, Output, In_out] of
           None \<Rightarrow> None
         | Some d \<Rightarrow> Some (SelPort d port, Option.bind (port_named doc d port) port_position))
      else if list_ex (\<lambda>c. const_id c = block) (page_constants doc) then
        Some (SelConstant block,
          map_option const_position (find (\<lambda>c. const_id c = block) (page_constants doc)))
      else (case find (\<lambda>b. block_id b = block) (page_blocks doc) of
          None \<Rightarrow> None
        | Some b \<Rightarrow> Some (SelBlock (block_id b), Some (block_position b))))"

text \<open>
  A jump to another page asks for its document twice, once to look the element up and once to show it. An error ends
  the handler and is not caught.
\<close>

definition jumpTo :: "jump_target \<Rightarrow> session \<Rightarrow> session" where
  "jumpTo target s =
     (if jt_page target = [] then s
      else case (if jt_page target = se_page_id s then se_page s else None) of
          Some page \<Rightarrow> select_jump (jump_selection page (jt_block target) (jt_port target)) s
        | None \<Rightarrow> s\<lparr>se_lookups := se_lookups s @ [\<lparr>lk_target = target, lk_shown = se_page_id s\<rparr>]\<rparr>)"

definition lookup_answered :: "nat \<Rightarrow> string + page_doc \<Rightarrow> session \<Rightarrow> session" where
  "lookup_answered n answer s =
     (if n < length (se_lookups s) then
        (let target = lk_target (se_lookups s ! n); shown = lk_shown (se_lookups s ! n);
             s1 = s\<lparr>se_lookups := take n (se_lookups s) @ drop (Suc n) (se_lookups s)\<rparr> in
         case answer of
           Inl message \<Rightarrow> s1
         | Inr doc \<Rightarrow>
             (let found = jump_selection doc (jt_block target) (jt_port target) in
              if jt_page target \<noteq> shown then
                fetch_page \<lparr>pf_page = jt_page target, pf_told = False, pf_jump = found\<rparr> (s1\<lparr>se_dirty := False\<rparr>)
              else select_jump found s1))
      else s)"

section \<open>Pages\<close>

text \<open>The label a new page is asked for; \<open>None\<close> is a prompt that was cancelled.\<close>

definition new_page_label :: "session \<Rightarrow> string option \<Rightarrow> string" where
  "new_page_label s typed = opt_or typed (''PAGE'' @ show_nat (length (se_pages s) + 1))"

text \<open>The rows that are read after a page was created, with the name of that page.\<close>

definition page_created :: "string + (string \<times> page_row list) \<Rightarrow> session \<Rightarrow> session" where
  "page_created answer s =
     (case answer of
        Inl m \<Rightarrow> fail m s
      | Inr (i, rows) \<Rightarrow> fetch_page \<lparr>pf_page = i, pf_told = True, pf_jump = None\<rparr> (s\<lparr>se_pages := rows, se_dirty := False\<rparr>))"

text \<open>The page that is deleted, when the dialog was answered with yes, with the page on screen at that moment.\<close>

definition closePage :: "bool \<Rightarrow> string \<Rightarrow> session \<Rightarrow> (string \<times> string) option" where
  "closePage confirmed i s = (if confirmed then Some (i, se_page_id s) else None)"

text \<open>
  The rows that are read after a page was deleted; \<open>shown\<close> is the page that was on screen when it was closed. Behind
  its own tab comes the first of the rows that are left.
\<close>

definition page_closed :: "string \<Rightarrow> string \<Rightarrow> string + page_row list \<Rightarrow> session \<Rightarrow> session" where
  "page_closed i shown answer s =
     (case answer of
        Inl m \<Rightarrow> fail m s
      | Inr rows \<Rightarrow>
          (let s1 = s\<lparr>se_pages := rows, se_dirty := False\<rparr> in
           if i = shown then
             fetch_page \<lparr>pf_page = (case rows of [] \<Rightarrow> [] | r # rs \<Rightarrow> pr_id r), pf_told = True, pf_jump = None\<rparr> s1
           else s1))"

text \<open>A rename stores the backend's own document with the new label.\<close>

definition relabelled :: "string \<Rightarrow> page_doc \<Rightarrow> page_doc" where
  "relabelled label doc = doc\<lparr>page_page := (page_page doc)\<lparr>meta_label := Some label\<rparr>\<rparr>"

definition rename_stored :: "string + unit \<Rightarrow> session \<Rightarrow> session" where
  "rename_stored answer s = (case answer of Inl m \<Rightarrow> fail m s | Inr u \<Rightarrow> s\<lparr>se_dirty := False\<rparr>)"

definition rename_listed :: "string \<Rightarrow> string \<Rightarrow> string + page_row list \<Rightarrow> session \<Rightarrow> session" where
  "rename_listed i shown answer s =
     (case answer of
        Inl m \<Rightarrow> fail m s
      | Inr rows \<Rightarrow>
          (let s1 = s\<lparr>se_pages := rows\<rparr> in
           if i = shown then fetch_page \<lparr>pf_page = i, pf_told = True, pf_jump = None\<rparr> s1 else s1))"

section \<open>Analysis, checker and simulation\<close>

definition analysis_starts :: "session \<Rightarrow> session" where
  "analysis_starts s = s\<lparr>se_analysis_busy := True, se_analysis_error := None\<rparr>"

definition analysis_timer_fires :: "session \<Rightarrow> session" where
  "analysis_timer_fires s =
     (if se_analysis_timer s then analysis_starts (s\<lparr>se_analysis_timer := False\<rparr>) else s)"

definition analysis_answered :: "bool \<Rightarrow> string + analysis_report \<Rightarrow> session \<Rightarrow> session" where
  "analysis_answered switchPanel answer s =
     (case answer of
        Inl message \<Rightarrow> s\<lparr>se_analysis_error := Some message, se_analysis_busy := False\<rparr>
      | Inr report \<Rightarrow>
          stale_effect (se_analysis_stale s) (s\<lparr>se_analysis := Some report, se_analysis_stale := False,
            se_panel := (if switchPanel then TabAnalysis else se_panel s), se_analysis_busy := False\<rparr>))"

definition sim_starts :: "session \<Rightarrow> session" where
  "sim_starts s = s\<lparr>se_sim_busy := True, se_sim_error := None\<rparr>"

definition sim_request :: "session \<Rightarrow> run_body" where
  "sim_request s =
     simRunBody (se_station s) (se_sim_cycles s) (st_forces (se_stimulus s)) (st_script (se_stimulus s))"

text \<open>The station of an analysis or a check request.\<close>

definition station_request :: "session \<Rightarrow> string option" where
  "station_request s = or_null (se_station s)"

text \<open>\<open>asked\<close> is the revision at which the run was asked for.\<close>

definition sim_answered :: "nat \<Rightarrow> string + sim_run \<Rightarrow> session \<Rightarrow> session" where
  "sim_answered asked answer s =
     (case answer of
        Inl message \<Rightarrow> s\<lparr>se_sim_error := Some message, se_sim := None, se_sim_busy := False\<rparr>
      | Inr run \<Rightarrow>
          s\<lparr>se_sim := Some run, se_sim_rev := asked, se_cycle := 0, se_sim_stale := False, se_panel := TabSim,
            se_sim_busy := False\<rparr>)"

definition check_starts :: "session \<Rightarrow> session" where
  "check_starts s = s\<lparr>se_busy := True\<rparr>"

text \<open>The report, then the structured text, then the analysis of a clean chart.\<close>

definition check_answered ::
    "string + check_report \<Rightarrow> string + string \<Rightarrow> string + analysis_report \<Rightarrow> session \<Rightarrow> session" where
  "check_answered answer st measured s =
     (case answer of
        Inl message \<Rightarrow> (fail message s)\<lparr>se_busy := False\<rparr>
      | Inr report \<Rightarrow>
          (let s1 = s\<lparr>se_report := Some report, se_cross := rep_cross_page report, se_pages := rep_pages report,
                      se_panel := TabCheck, se_st_error := None\<rparr>;
               s2 = (case st of Inl message \<Rightarrow> s1\<lparr>se_st_error := Some message\<rparr> | Inr shown \<Rightarrow> s1\<lparr>se_st_text := shown\<rparr>);
               s3 = (if rep_ok report then analysis_answered False measured (analysis_starts s2) else s2)
           in s3\<lparr>se_busy := False\<rparr>))"

definition set_cycle :: "int \<Rightarrow> session \<Rightarrow> session" where
  "set_cycle i s = s\<lparr>se_cycle := i\<rparr>"

definition set_panel :: "panel_tab \<Rightarrow> session \<Rightarrow> session" where
  "set_panel tab s = s\<lparr>se_panel := tab\<rparr>"

text \<open>The scan count field of the toolbar.\<close>

definition set_sim_cycles :: "string \<Rightarrow> session \<Rightarrow> session" where
  "set_sim_cycles typed s = s\<lparr>se_sim_cycles := js_or_default (js_number typed) 1\<rparr>"

definition edit_stimulus :: "stimulus_edit \<Rightarrow> session \<Rightarrow> session" where
  "edit_stimulus e s = s\<lparr>se_stimulus := stimulus_step e (se_stimulus s)\<rparr>"

text \<open>The force button of a symbol: a new row seeded with the value shown, and the stimulus tab.\<close>

definition force_symbol :: "string \<Rightarrow> string \<Rightarrow> session \<Rightarrow> session" where
  "force_symbol name seed s = set_panel TabStim (edit_stimulus (AddForce name seed) s)"

text \<open>The buttons of the zoom, in the arithmetic of doubles: each step is rounded to a whole percent.\<close>

definition whole_percent :: "rat \<Rightarrow> rat" where
  "whole_percent z = double_of (of_int (round_half_up (double_of (z * 100))) / 100)"

definition zoom_out :: "session \<Rightarrow> session" where
  "zoom_out s = s\<lparr>se_zoom := max (double_of (3 / 10)) (whole_percent (double_of (se_zoom s - double_of (1 / 10))))\<rparr>"

definition zoom_in :: "session \<Rightarrow> session" where
  "zoom_in s = s\<lparr>se_zoom := min (double_of (8 / 5)) (whole_percent (double_of (se_zoom s + double_of (1 / 10))))\<rparr>"

section \<open>What the session displays\<close>

definition sheet_id :: "session \<Rightarrow> string" where
  "sheet_id s = (case se_page s of None \<Rightarrow> [] | Some p \<Rightarrow> meta_id (page_page p))"

definition shown_values :: "session \<Rightarrow> (string, string) obj" where
  "shown_values s = (if se_sim_stale s then [] else pinValues (se_sim s) (sheet_id s) (se_cycle s))"

definition shown_forced :: "session \<Rightarrow> (string, bool) obj" where
  "shown_forced s = (if se_sim_stale s then [] else pinForced (se_sim s) (sheet_id s) (se_cycle s))"

definition marks_of :: "check_report option \<Rightarrow> page_doc option \<Rightarrow> (string, finding list) obj" where
  "marks_of report page =
     (case (report, page) of
        (Some r, Some p) \<Rightarrow>
          fold (\<lambda>f table.
              if fd_page f \<noteq> [] \<and> fd_page f \<noteq> meta_id (page_page p) then table
              else if fd_block f = [] then table
              else let key = fd_block f @ ''.'' @ fd_port f in
                obj_put key (opt_or (obj_get table key) [] @ [f]) table)
            (rep_errors r @ rep_warnings r @ rep_infos r) []
      | _ \<Rightarrow> [])"

section \<open>Handlers of the toolbar and the keyboard\<close>

definition removeSelection :: "session \<Rightarrow> session" where
  "removeSelection s =
     (if se_page s = None \<or> se_selected s = None then s
      else (patch (Remove (se_selected s)) s)\<lparr>se_selected := None\<rparr>)"

datatype key_target = TInput | TSelect | TTextarea | TOther

definition on_key :: "string \<Rightarrow> key_target \<Rightarrow> session \<Rightarrow> session" where
  "on_key key target s =
     (if key = ''Delete'' \<or> key = ''Backspace'' then
        (if target \<noteq> TOther then s
         else if se_selected s \<noteq> None \<and> se_page s \<noteq> None then removeSelection s else s)
      else s)"

text \<open>
  The name of a created element reaches the selection through a variable that the updater of
  \<open>setPage\<close> assigns. React runs an updater during the call only when nothing else is queued for the
  component (\<open>eager\<close>), and at the next render otherwise.
\<close>

definition created_name :: "bool \<Rightarrow> string \<Rightarrow> string" where
  "created_name eager name = (if eager then name else [])"

text \<open>The library entry of a dropped payload: by library id, or else by type.\<close>

definition drop_definition :: "(string, library_block) obj \<Rightarrow> string \<times> string \<Rightarrow> library_block option" where
  "drop_definition library payload =
     (case obj_get library (fst payload) of Some d \<Rightarrow> Some d | None \<Rightarrow> obj_get library (snd payload))"

definition dropBlock ::
    "bool \<Rightarrow> (string, library_block) obj \<Rightarrow> string \<times> string \<Rightarrow> position \<Rightarrow> session \<Rightarrow> session" where
  "dropBlock eager library payload pos s =
     (case (se_page s, drop_definition library payload) of
        (Some current, Some d) \<Rightarrow>
          (patch (PlaceBlock d pos) s)\<lparr>se_selected :=
             Some (SelBlock (created_name eager (snd (place_block d pos current))))\<rparr>
      | _ \<Rightarrow> s)"

definition addConstant :: "bool \<Rightarrow> session \<Rightarrow> session" where
  "addConstant eager s =
     (case se_page s of
        Some current \<Rightarrow>
          (patch AddConstant s)\<lparr>se_selected := Some (SelConstant (created_name eager (snd (add_constant current))))\<rparr>
      | None \<Rightarrow> s)"

definition addPort :: "bool \<Rightarrow> port_direction \<Rightarrow> port_seed \<Rightarrow> session \<Rightarrow> session" where
  "addPort eager direction seed s =
     (case se_page s of
        Some current \<Rightarrow>
          (let seeded = opt_or (seed_name seed) [];
               name = (if seeded = [] then created_name eager (snd (add_port direction seed current)) else seeded)
           in (patch (AddPort direction seed) s)\<lparr>se_selected := Some (SelPort direction name)\<rparr>)
      | None \<Rightarrow> s)"

end
