(* ===== verification/SessionInvariant.thy ===== *)
theory SessionInvariant
  imports GraphSession
begin

text \<open>
  What the editing session of \<open>GraphSession\<close> keeps: the page on screen is either what was last sent to or
  received from the backend or what the pending timer will send, whatever is edited, asked for and answered in
  whatever order. The locale \<open>editor\<close> is interpreted on the events of the session. The properties that follow state
  both what the session guarantees and where it does not keep its promise: a page that arrives after an edit, a change
  of the language after the unsaved mark was cleared, and an answer that comes after the next edit.
\<close>

section \<open>Events\<close>

text \<open>
  \<open>PageLoaded\<close> is the first page of a load of the whole editor; \<open>FailChanges\<close> is a change of the language, which makes
  \<open>fail\<close> another function.
\<close>

datatype session_event =
    Edit page_edit
  | DropBlock bool "(string, library_block) obj" "string \<times> string" position
  | NewConstant bool
  | NewPort bool port_direction port_seed
  | RemoveSelected
  | KeyPressed string key_target
  | Select "selection option"
  | SaveFires
  | SaveAnswered nat "string + string + page_row list"
  | FailChanges
  | SelectTab string
  | PageAnswered nat "string + page_doc"
  | Jump jump_target
  | LookupAnswered nat "string + page_doc"
  | PageCreated "string + (string \<times> page_row list)"
  | PageClosed string string "string + page_row list"
  | RenameStored "string + unit"
  | RenameListed string string "string + page_row list"
  | PageLoaded string page_doc
  | FocusPort string
  | AnalysisTimer
  | AnalysisStarts
  | AnalysisAnswered bool "string + analysis_report"
  | SimStarts
  | SimAnswered nat "string + sim_run"
  | CheckStarts
  | CheckAnswered "string + check_report" "string + string" "string + analysis_report"
  | SetStation string
  | SetCycle int
  | SetSimCycles string
  | Stimulate stimulus_edit
  | ForceSymbol string string
  | SetPanel panel_tab
  | ZoomIn
  | ZoomOut

definition session_step :: "session_event \<Rightarrow> session \<Rightarrow> session" where
  "session_step e s =
     (case e of
        Edit pe \<Rightarrow> patch pe s
      | DropBlock eager library payload pos \<Rightarrow> dropBlock eager library payload pos s
      | NewConstant eager \<Rightarrow> addConstant eager s
      | NewPort eager d seed \<Rightarrow> addPort eager d seed s
      | RemoveSelected \<Rightarrow> removeSelection s
      | KeyPressed key target \<Rightarrow> on_key key target s
      | Select sel \<Rightarrow> s\<lparr>se_selected := sel\<rparr>
      | SaveFires \<Rightarrow> save_fires s
      | SaveAnswered n a \<Rightarrow> save_answered n a s
      | FailChanges \<Rightarrow> save_effect s
      | SelectTab i \<Rightarrow> select_tab i s
      | PageAnswered n a \<Rightarrow> page_answered n a s
      | Jump target \<Rightarrow> jumpTo target s
      | LookupAnswered n a \<Rightarrow> lookup_answered n a s
      | PageCreated a \<Rightarrow> page_created a s
      | PageClosed i shown a \<Rightarrow> page_closed i shown a s
      | RenameStored a \<Rightarrow> rename_stored a s
      | RenameListed i shown a \<Rightarrow> rename_listed i shown a s
      | PageLoaded i doc \<Rightarrow> loadPage i doc s
      | FocusPort name \<Rightarrow> focusPort name s
      | AnalysisTimer \<Rightarrow> analysis_timer_fires s
      | AnalysisStarts \<Rightarrow> analysis_starts s
      | AnalysisAnswered b a \<Rightarrow> analysis_answered b a s
      | SimStarts \<Rightarrow> sim_starts s
      | SimAnswered n a \<Rightarrow> sim_answered n a s
      | CheckStarts \<Rightarrow> check_starts s
      | CheckAnswered r t a \<Rightarrow> check_answered r t a s
      | SetStation i \<Rightarrow> s\<lparr>se_station := i\<rparr>
      | SetCycle i \<Rightarrow> set_cycle i s
      | SetSimCycles typed \<Rightarrow> set_sim_cycles typed s
      | Stimulate se \<Rightarrow> edit_stimulus se s
      | ForceSymbol name seed \<Rightarrow> force_symbol name seed s
      | SetPanel tab \<Rightarrow> set_panel tab s
      | ZoomIn \<Rightarrow> zoom_in s
      | ZoomOut \<Rightarrow> zoom_out s)"

section \<open>The save invariant\<close>

text \<open>The fields that the debounced save is about.\<close>

record save_view =
  vw_page :: "page_doc option"
  vw_dirty :: bool
  vw_rev :: nat
  vw_timer :: "(page_doc \<times> nat) option"
  vw_sent :: "page_doc option"

definition save_view :: "session \<Rightarrow> save_view" where
  "save_view s = \<lparr>vw_page = se_page s, vw_dirty = se_dirty s, vw_rev = se_rev s, vw_timer = se_timer s, vw_sent = se_sent s\<rparr>"

definition save_inv :: "save_view \<Rightarrow> bool" where
  "save_inv v \<longleftrightarrow>
     (case vw_timer v of None \<Rightarrow> vw_page v = vw_sent v | Some (doc, n) \<Rightarrow> vw_page v = Some doc)"

text \<open>Whether a change of the language would keep the timer.\<close>

definition session_calm :: "session_event \<Rightarrow> session \<Rightarrow> bool" where
  "session_calm e s \<longleftrightarrow> e \<noteq> FailChanges \<or> se_timer s = None \<or> se_dirty s"

lemma stale_effect_view [simp]: "save_view (stale_effect b s) = save_view s"
  by (simp add: stale_effect_def save_view_def)

lemma fail_view [simp]: "save_view (fail m s) = save_view s"
  by (simp add: fail_def save_view_def)

lemma field_views [simp]:
  "save_view (s\<lparr>se_selected := a\<rparr>) = save_view s" "save_view (s\<lparr>se_pages := b\<rparr>) = save_view s"
  "save_view (s\<lparr>se_fetches := c\<rparr>) = save_view s" "save_view (s\<lparr>se_lookups := d\<rparr>) = save_view s"
  "save_view (s\<lparr>se_focus := f\<rparr>) = save_view s" "save_view (s\<lparr>se_busy := g\<rparr>) = save_view s"
  "save_view (s\<lparr>se_station := h\<rparr>) = save_view s" "save_view (fetch_page j s) = save_view s"
  by (simp_all add: save_view_def fetch_page_def)

lemma select_jump_view [simp]: "save_view (select_jump target s) = save_view s"
  by (simp add: select_jump_def focus_at_def split: option.split prod.split)

lemma jump_view [simp]: "save_view (jumpTo target s) = save_view s" "save_view (focusPort name s) = save_view s"
  by (simp_all add: jumpTo_def focusPort_def focus_at_def split: option.split)

lemma analysis_view [simp]:
  "save_view (analysis_starts s) = save_view s"
  "save_view (analysis_timer_fires s) = save_view s"
  "save_view (analysis_answered b a s) = save_view s"
  by (simp_all add: analysis_starts_def analysis_timer_fires_def analysis_answered_def stale_effect_def save_view_def
      split: sum.splits)

lemma check_view [simp]: "save_view (check_answered r t a s) = save_view s"
proof (cases r)
  case (Inr report)
  show ?thesis
    by (cases t; cases "rep_ok report") (simp_all add: Inr check_answered_def Let_def, simp_all add: save_view_def)
qed (simp add: check_answered_def)

lemma other_view [simp]:
  "save_view (sim_starts s) = save_view s" "save_view (sim_answered n b s) = save_view s"
  "save_view (check_starts s) = save_view s" "save_view (set_cycle i s) = save_view s"
  "save_view (set_panel tab s) = save_view s" "save_view (zoom_in s) = save_view s"
  "save_view (zoom_out s) = save_view s" "save_view (set_sim_cycles typed s) = save_view s"
  "save_view (edit_stimulus se s) = save_view s" "save_view (force_symbol name seed s) = save_view s"
  by (simp_all add: sim_starts_def sim_answered_def check_starts_def set_cycle_def set_panel_def zoom_in_def
      zoom_out_def set_sim_cycles_def edit_stimulus_def force_symbol_def save_view_def split: sum.splits)

text \<open>The unsaved mark alone is no part of the invariant.\<close>

lemma save_inv_dirty [simp]: "save_inv (save_view (s\<lparr>se_dirty := d\<rparr>)) = save_inv (save_view s)"
  by (simp add: save_inv_def save_view_def split: option.split)

lemma patch_view:
  "save_view (patch e s) =
     (case se_page s of
        None \<Rightarrow> (save_view s)\<lparr>vw_dirty := True, vw_rev := se_rev s + 1\<rparr>
      | Some p \<Rightarrow>
          if new_object e p then
            (save_view s)\<lparr>vw_dirty := True, vw_rev := se_rev s + 1, vw_page := Some (page_step e p),
              vw_timer := Some (page_step e p, se_rev s + 1)\<rparr>
          else (save_view s)\<lparr>vw_dirty := True, vw_rev := se_rev s + 1\<rparr>)"
  by (auto simp: patch_def Let_def page_effects_defs stale_effect_def save_view_def split: option.splits)

lemma same_object_step: "\<not> new_object e p \<Longrightarrow> page_step e p = p"
  by (auto simp: new_object_def page_step_def commitDraft_def Let_def split_beta split: page_edit.splits)

named_theorems save_intros \<open>an operation of the session keeps the page sent or scheduled\<close>

lemma save_inv_patch [save_intros]: "save_inv (save_view s) \<Longrightarrow> save_inv (save_view (patch e s))"
  unfolding patch_view by (auto simp: save_inv_def save_view_def split: option.splits)

lemma save_inv_load [save_intros]: "save_inv (save_view (loadPage i doc s))"
  by (simp add: save_inv_def save_view_def loadPage_def page_effects_defs)

lemma save_inv_fires [save_intros]: "save_inv (save_view s) \<Longrightarrow> save_inv (save_view (save_fires s))"
  by (auto simp: save_inv_def save_view_def save_fires_def split: option.splits)

lemma save_inv_answered [save_intros]: "save_inv (save_view s) \<Longrightarrow> save_inv (save_view (save_answered n a s))"
  by (auto simp: save_answered_def Let_def split: sum.split)

lemma save_inv_calm [save_intros]:
  "save_inv (save_view s) \<Longrightarrow> session_calm FailChanges s \<Longrightarrow> save_inv (save_view (save_effect s))"
  by (auto simp: save_inv_def save_view_def save_effect_def session_calm_def split: option.splits)

lemma save_inv_pages [save_intros]:
  assumes "save_inv (save_view s)"
  shows "save_inv (save_view (select_tab i s))" "save_inv (save_view (page_answered n a s))"
    "save_inv (save_view (lookup_answered n a s))" "save_inv (save_view (page_created b s))"
    "save_inv (save_view (page_closed i shown c s))" "save_inv (save_view (rename_stored d s))"
    "save_inv (save_view (rename_listed i shown c s))"
  using assms
  by (auto simp: select_tab_def page_answered_def lookup_answered_def page_created_def page_closed_def rename_stored_def
      rename_listed_def Let_def save_inv_load split: sum.split)

lemma save_inv_edits [save_intros]:
  assumes "save_inv (save_view s)"
  shows "save_inv (save_view (removeSelection s))" "save_inv (save_view (on_key key target s))"
    "save_inv (save_view (dropBlock eager library payload pos s))" "save_inv (save_view (addConstant eager s))"
    "save_inv (save_view (addPort eager d seed s))"
  using assms
  by (auto simp: removeSelection_def on_key_def dropBlock_def addConstant_def addPort_def Let_def save_inv_patch split: option.split)

lemma session_step_keeps:
  "save_inv (save_view s) \<Longrightarrow> session_calm e s \<Longrightarrow> save_inv (save_view (session_step e s))"
  by (cases e) (simp_all add: session_step_def save_intros)

interpretation session: editor session_step session_calm "\<lambda>s. save_inv (save_view s)"
  by unfold_locales (rule session_step_keeps)

lemma initial_save_inv: "save_inv (save_view initial_session)"
  by (simp add: initial_session_def save_view_def save_inv_def)

section \<open>The marks of the checker\<close>

definition marks_finding :: "page_doc \<Rightarrow> finding \<Rightarrow> bool" where
  "marks_finding p f \<longleftrightarrow> (fd_page f = [] \<or> fd_page f = meta_id (page_page p)) \<and> fd_block f \<noteq> []"

lemma marks_fold:
  fixes key :: "finding \<Rightarrow> string"
  assumes "obj_wf table"
  shows "obj_get (fold (\<lambda>f t. if P f then obj_put (key f) (opt_or (obj_get t (key f)) [] @ [f]) t else t) fs table) k =
    (let more = filter (\<lambda>f. P f \<and> key f = k) fs in
     if more = [] then obj_get table k else Some (opt_or (obj_get table k) [] @ more))"
  using assms
proof (induction fs arbitrary: table)
  case (Cons f fs)
  show ?case
    by (auto simp: Cons.IH [OF obj.wf_put [OF Cons.prems]] Cons.IH [OF Cons.prems] obj.get_put [OF Cons.prems]
        Let_def opt_or_def)
qed simp

section \<open>Properties\<close>

text \<open>
  C1: in every run of the editor, with edits of any kind, saves, changes of page, jumps and answers in any order, the
  page on screen is never forgotten: either it is the document that was last sent to or received from the backend, or
  the save timer is pending and holds exactly this document, so that firing the timer sends it. The one exception is
  a change of the language after a change of page has cleared the unsaved mark while an edit still waits for the
  timer; the runs that are meant have no such moment. Nothing is said of a page that another one has replaced on the
  screen, nor of a request that fails, which is told and not repeated.
\<close>

theorem page_sent_or_scheduled:
  assumes "\<And>n. n < length es \<Longrightarrow> es ! n = FailChanges \<Longrightarrow>
      se_timer (fold session_step (take n es) initial_session) = None \<or> se_dirty (fold session_step (take n es) initial_session)"
    and "s = fold session_step es initial_session" and "se_page s = Some p"
  shows "(se_timer s = None \<and> se_sent s = Some p \<or> (\<exists>n. se_timer s = Some (p, n))) \<and> se_sent (save_fires s) = Some p"
proof -
  have "save_inv (save_view s)"
    unfolding assms(2) by (rule session.session_keeps [OF initial_save_inv]) (use assms(1) in \<open>auto simp: session_calm_def\<close>)
  then show ?thesis
    using assms(3) by (auto simp: save_inv_def save_view_def save_fires_def split: option.splits)
qed

theorem page_sent_or_scheduled_witness:
  "se_sent (save_fires (fold session_step [SelectTab ''P1'', PageAnswered 0 (Inr wired_page), Edit AddConstant, FailChanges, SelectTab ''P2'']
     initial_session)) = Some (page_step AddConstant wired_page)"
proof -
  let ?es = "[SelectTab ''P1'', PageAnswered 0 (Inr wired_page), Edit AddConstant, FailChanges, SelectTab ''P2'']"
  have loaded: "fold session_step [SelectTab ''P1'', PageAnswered 0 (Inr wired_page)] initial_session = tab_loaded ''P1'' wired_page initial_session"
    by (simp add: session_step_def tab_loaded_def initial_session_def)
  have edited: "se_dirty (fold session_step [SelectTab ''P1'', PageAnswered 0 (Inr wired_page), Edit AddConstant] initial_session)"
    by (simp add: session_step_def patch_def Let_def page_effects_defs stale_effect_def split: option.split)
  have calm: "se_timer (fold session_step (take n ?es) initial_session) = None \<or> se_dirty (fold session_step (take n ?es) initial_session)"
    if "n < length ?es" and "?es ! n = FailChanges" for n
  proof -
    have "n = 3"
      using that by (auto simp: less_Suc_eq numeral_3_eq_3)
    then show ?thesis
      using edited by simp
  qed
  have "se_page (fold session_step ?es initial_session) = Some (page_step AddConstant wired_page)"
    using loaded by (simp add: session_step_def patch_def new_object_def tab_loaded_defs select_tab_def fetch_page_def Let_def)
  then show ?thesis
    using page_sent_or_scheduled [OF calm refl] by blast
qed

text \<open>
  The exception: an edit, a click on another tab, and a change of the language before the timer fires and the other
  page arrives. The edited page is still on screen, but the timer is gone and the backend was not sent the edit.
\<close>

theorem language_forgets_edit:
  assumes "se_page s = Some p" and "new_object e p" and "se_sent s = Some p" and "page_step e p \<noteq> p"
    and "s' = fold session_step [Edit e, SelectTab i, FailChanges] s"
  shows "se_page s' = Some (page_step e p) \<and> se_timer s' = None \<and> se_sent (save_fires s') \<noteq> se_page s'"
  using assms
  by (simp add: session_step_def patch_def Let_def page_effects_defs select_tab_def fetch_page_def save_fires_def)

text \<open>
  Another page that arrives before the save timer of an edit has fired loses the edit, whether its tab was clicked
  before the edit or after it: the edited document is not sent by any later firing of the timer.
\<close>

theorem late_page_loses_edit:
  assumes "se_page s = Some p" and "new_object e p" and "page_step e p \<noteq> doc" and "se_sent s \<noteq> Some (page_step e p)"
    and "es = [Edit e, SelectTab i] \<or> es = [SelectTab i, Edit e]"
    and "s' = session_step (PageAnswered (length (se_fetches s)) (Inr doc)) (fold session_step es s)"
  shows "se_page (fold session_step es s) = Some (page_step e p) \<and> se_sent (fold session_step es s) \<noteq> Some (page_step e p)
    \<and> se_page s' = Some doc \<and> se_sent (save_fires s') = Some doc"
  using assms(5,6) assms(1-4)
  by (elim disjE)
    (simp_all add: session_step_def patch_def Let_def page_effects_defs select_tab_def page_answered_def fetch_page_def
      select_jump_def loadPage_def save_fires_def)

text \<open>
  An edit that is made while a run is under way does not retire that run: its answer clears the
  stale flag, and the sheet then shows the values of a chart that is older than the one on screen.
\<close>

theorem late_run_shown:
  assumes "asked = se_rev s" and "s' = sim_answered asked (Inr run) (patch e (sim_starts s))"
  shows "se_sim_rev s' < se_rev s' \<and> shown_values s' = pinValues (Some run) (sheet_id s') 0 \<and> se_sim s' = Some run"
proof -
  have "se_rev (patch e (sim_starts s)) = Suc (se_rev s)"
    by (simp add: patch_def sim_starts_def Let_def stale_effect_def page_effects_defs split: option.splits)
  then show ?thesis
    using assms by (simp add: sim_answered_def shown_values_def sheet_id_def)
qed

theorem late_run_shown_witness:
  "se_sim_rev (sim_answered 0 (Inr sample_run) (patch AddConstant (sim_starts initial_session)))
     < se_rev (sim_answered 0 (Inr sample_run) (patch AddConstant (sim_starts initial_session)))"
  using late_run_shown [OF _ refl, of 0 initial_session sample_run AddConstant] by (simp add: initial_session_def)




text \<open>
  The marks of a pin are exactly the findings of the report that name it, errors before warnings
  before notes and each in the order of the report; findings of another sheet and findings without
  an element mark nothing.
\<close>

theorem marks_are_findings:
  "obj_get (marks_of (Some r) (Some p)) key =
     (let fs = filter (\<lambda>f. (fd_page f = [] \<or> fd_page f = meta_id (page_page p)) \<and> fd_block f \<noteq> []
                     \<and> fd_block f @ ''.'' @ fd_port f = key) (rep_errors r @ rep_warnings r @ rep_infos r)
      in if fs = [] then None else Some fs)"
proof -
  have step: "(if fd_page f \<noteq> [] \<and> fd_page f \<noteq> meta_id (page_page p) then table
      else if fd_block f = [] then table
      else let key = fd_block f @ ''.'' @ fd_port f in obj_put key (opt_or (obj_get table key) [] @ [f]) table) =
     (if marks_finding p f then obj_put (fd_block f @ ''.'' @ fd_port f)
        (opt_or (obj_get table (fd_block f @ ''.'' @ fd_port f)) [] @ [f]) table else table)" for f table
    by (auto simp: marks_finding_def Let_def)
  show ?thesis
    unfolding marks_of_def option.case case_prod_conv step
    by (subst marks_fold [where P = "marks_finding p" and key = "\<lambda>f. fd_block f @ ''.'' @ fd_port f"])
      (simp_all add: obj_wf_def obj_get_def opt_or_def Let_def marks_finding_def conj_assoc)
qed

text \<open>
  The element a drop creates is selected afterwards only when React ran the updater of the page
  during the call; otherwise the selection carries an empty name that no element has.
\<close>

theorem created_block_selected:
  assumes "se_page s = Some p" and "[] \<notin> set (element_ids p)" and "drop_definition library payload = Some def"
  shows "(\<exists>q i. se_page (dropBlock eager library payload pos s) = Some q
      \<and> se_selected (dropBlock eager library payload pos s) = Some (SelBlock i) \<and> i \<in> set (element_ids q)) \<longleftrightarrow> eager"
proof -
  let ?i = "snd (place_block def pos p)"
  let ?q = "fst (place_block def pos p)"
  have q: "se_page (dropBlock eager library payload pos s) = Some ?q"
    and sel: "se_selected (dropBlock eager library payload pos s) = Some (SelBlock (created_name eager ?i))"
    using assms(1,3) by (simp_all add: dropBlock_def patch_def new_object_def page_effects_defs page_step_def Let_def)
  obtain k where "?i = id_stem (stTypeOf def) @ show_nat k"
    using find_free_numeral [of 1 "map block_id (page_blocks p) @ map const_id (page_constants p)" "id_stem (stTypeOf def)"]
    unfolding place_block_def Let_def uniqueId_def snd_conv block_node.select_convs by blast
  then have "?i \<noteq> []"
    by simp
  moreover have "set (element_ids ?q) = insert ?i (set (element_ids p))"
    by (auto simp: place_block_def Let_def element_ids_def)
  ultimately show ?thesis
    using assms(2) unfolding q sel by (auto simp: created_name_def)
qed

definition add_block :: library_block where
  "add_block = \<lparr>lib_id = ''ADD'', lib_name = ''ADD'', lib_type = None, lib_category = ''math'', lib_description = [],
     lib_block_kind = None, lib_st_template = None, lib_inputs = [], lib_outputs = []\<rparr>"

theorem created_block_selected_witness:
  "\<exists>q i. se_page (dropBlock True [(''ADD'', add_block)] (''ADD'', ''ADD'') \<lparr>px = 0, py = 0\<rparr>
        (tab_loaded ''P1'' wired_page initial_session)) = Some q \<and> i \<in> set (element_ids q)"
proof -
  have "[] \<notin> set (element_ids wired_page)"
    by (simp add: wired_page_def emptyPage_def element_ids_def)
  then show ?thesis
    using created_block_selected [of "tab_loaded ''P1'' wired_page initial_session" wired_page
        "[(''ADD'', add_block)]" "(''ADD'', ''ADD'')" add_block True]
    by (simp add: tab_loaded_defs drop_definition_def obj_get_def) blast
qed

end
