(* ===== verification/GraphNavigate.thy ===== *)
theory GraphNavigate
  imports SessionInvariant
begin

text \<open>
  Finding one's way through the sheets (\<open>pages/GraphEditorPage.tsx\<close>, \<open>components/graph/PageTabs.tsx\<close>
  and \<open>components/graph/CheckerPanel.tsx\<close>): the page tabs, the list of findings, and what a jump to the element a
  finding or a cross-page variable names selects.
\<close>

section \<open>Page tabs\<close>

record tab_view =
  tb_id :: string
  tb_active :: bool
  tb_number :: string
  tb_label :: string
  tb_sheet :: string
  tb_unsaved :: bool
  tb_closable :: bool

definition tab_view_of :: "session \<Rightarrow> page_row \<Rightarrow> tab_view" where
  "tab_view_of s row =
     (let on = (pr_id row = se_page_id s) in
      \<lparr>tb_id = pr_id row, tb_active = on, tb_number = show_int (pr_index row + 1), tb_label = pr_label row,
       tb_sheet = pr_sheet row, tb_unsaved = (on \<and> se_dirty s), tb_closable = (1 < length (se_pages s))\<rparr>)"

record cross_view =
  cv_name :: string
  cv_jumps :: "(string \<times> string) list"

definition page_label :: "page_row list \<Rightarrow> string \<Rightarrow> string" where
  "page_label rows i = (case obj_get (obj_build pr_id id rows) i of None \<Rightarrow> i | Some r \<Rightarrow> pr_label r)"

definition cross_view_of :: "session \<Rightarrow> cross_page_row \<Rightarrow> cross_view" where
  "cross_view_of s row =
     \<lparr>cv_name = xp_name row,
      cv_jumps = map (\<lambda>i. (i, page_label (se_pages s) i)) (filter (\<lambda>i. i \<noteq> se_page_id s) (xp_pages row))\<rparr>"

section \<open>The list of findings\<close>

type_synonym severity_filter = "(severity, bool) obj"

definition all_severities :: severity_filter where
  "all_severities = [(SevError, True), (SevWarning, True), (SevInfo, True)]"

definition rows :: "finding list \<Rightarrow> severity_filter \<Rightarrow> finding list" where
  "rows findings filt = filter (\<lambda>f. obj_get filt (fd_severity f) \<noteq> Some False) findings"

definition toggle_severity :: "severity \<Rightarrow> severity_filter \<Rightarrow> severity_filter" where
  "toggle_severity v filt = obj_put v (obj_get filt v = Some False) filt"

record finding_view =
  fw_target :: jump_target
  fw_enabled :: bool
  fw_message :: string
  fw_place :: string
  fw_code :: string

definition finding_view_of :: "(string \<Rightarrow> string) \<Rightarrow> finding \<Rightarrow> finding_view" where
  "finding_view_of t f =
     \<lparr>fw_target = \<lparr>jt_page = fd_page f, jt_block = fd_block f, jt_port = fd_port f\<rparr>,
      fw_enabled = (fd_page f \<noteq> []),
      fw_message = fd_message f,
      fw_place = (if fd_page f = [] then t ''checker.unlocated'' else fd_page f) @ located f,
      fw_code = fd_code f\<rparr>"

text \<open>\<open>None\<close>: a severity without findings has no group.\<close>

definition finding_group :: "(string \<Rightarrow> string) \<Rightarrow> string \<Rightarrow> finding list \<Rightarrow> severity_filter \<Rightarrow> (string \<times> finding_view list) option" where
  "finding_group t title findings filt =
     (if findings = [] then None
      else Some (title @ '' '' @ middot @ '' '' @ show_nat (length findings),
                 map (finding_view_of t) (rows findings filt)))"

definition tab_badge :: "(string \<Rightarrow> string) \<Rightarrow> session \<Rightarrow> panel_tab \<Rightarrow> string option" where
  "tab_badge t s tab =
     (case tab of
        TabCheck \<Rightarrow> map_option (\<lambda>r. if rep_errors r \<noteq> [] then show_nat (length (rep_errors r)) @ '' '' @ t ''checker.fail''
          else t ''checker.pass'') (se_report s)
      | TabSt \<Rightarrow> None
      | TabAnalysis \<Rightarrow> map_option (\<lambda>a. if \<not> an_ok a then t ''checker.rejected''
          else if se_analysis_stale s then t ''checker.modified'' else t ''checker.measured'') (se_analysis s)
      | TabSim \<Rightarrow> map_option (\<lambda>r. if sim_ok r
          then show_int (case sim_done r of None \<Rightarrow> 0 | Some d \<Rightarrow> dn_cycles d) @ '' '' @ t ''sim.cycle''
          else t ''checker.rejected'' @ middot @ opt_or (sim_stage r) []) (se_sim s)
      | TabStim \<Rightarrow> if st_forces (se_stimulus s) \<noteq> [] \<or> st_script (se_stimulus s) \<noteq> []
          then Some (show_nat (fst (rows_on (se_stimulus s)) + snd (rows_on (se_stimulus s)))) else None)"

definition st_shown :: "(string \<Rightarrow> string) \<Rightarrow> session \<Rightarrow> string" where
  "st_shown t s =
     (case se_st_error s of
        Some m \<Rightarrow> if m \<noteq> [] then m else if se_st_text s = [] then t ''checker.noContent'' else se_st_text s
      | None \<Rightarrow> if se_st_text s = [] then t ''checker.noContent'' else se_st_text s)"

section \<open>Properties\<close>

definition resolves :: "page_doc \<Rightarrow> selection \<Rightarrow> bool" where
  "resolves page sel \<longleftrightarrow>
     (case sel of
        SelBlock i \<Rightarrow> i \<in> set (map block_id (page_blocks page))
      | SelConstant i \<Rightarrow> i \<in> set (map const_id (page_constants page))
      | SelPort d n \<Rightarrow> n \<in> set (map port_name (iface_ports (page_interface page) d))
      | SelWire n \<Rightarrow> n < length (page_connections page))"

lemma declares_port_iff: "declares_port page n d \<longleftrightarrow> n \<in> set (map port_name (iface_ports (page_interface page) d))"
  by (auto simp: declares_port_def list_ex_iff)

lemma find_not_None: "x \<in> set xs \<Longrightarrow> P x \<Longrightarrow> find P xs \<noteq> None"
  by (auto simp: find_None_iff)

text \<open>Where a selection points at, for the elements a jump selects.\<close>

definition points_at :: "selection \<Rightarrow> endpoint \<Rightarrow> bool" where
  "points_at sel e \<longleftrightarrow>
     (case sel of
        SelBlock i \<Rightarrow> ep_block e = i
      | SelConstant i \<Rightarrow> ep_block e = i
      | SelPort d n \<Rightarrow> ep_block e = INTERFACE \<and> ep_port e = n
      | SelWire n \<Rightarrow> False)"

lemma jump_selection_known:
  assumes "known_endpoint doc e"
  obtains sel pos where "jump_selection doc (ep_block e) (ep_port e) = Some (sel, pos)"
    and "resolves doc sel" and "points_at sel e"
proof (cases "ep_block e = INTERFACE")
  case True
  have "\<exists>d. ep_port e \<in> set (map port_name (iface_ports (page_interface doc) d))"
    using assms True by (auto simp: known_endpoint_def iface_names_def)
  then obtain d where "declares_port doc (ep_port e) d"
    by (auto simp: declares_port_iff)
  then have "find (declares_port doc (ep_port e)) [Input, Output, In_out] \<noteq> None"
    by (intro find_not_None [of d]) (cases d; simp)
  then obtain d where d: "find (declares_port doc (ep_port e)) [Input, Output, In_out] = Some d"
    by blast
  then have "declares_port doc (ep_port e) d"
    unfolding find_Some_iff by blast
  then show ?thesis
    using that [of "SelPort d (ep_port e)" "Option.bind (port_named doc d (ep_port e)) port_position"] True d
    by (simp add: jump_selection_def resolves_def points_at_def declares_port_iff)
next
  case False
  show ?thesis
  proof (cases "list_ex (\<lambda>c. const_id c = ep_block e) (page_constants doc)")
    case True
    then have "ep_block e \<in> set (map const_id (page_constants doc))"
      by (metis (mono_tags, lifting) imageI list.set_map list_ex_iff)
    then show ?thesis
      using True False that [of "SelConstant (ep_block e)"]
      by (simp add: jump_selection_def resolves_def points_at_def)
  next
    case not_constant: False
    then have declared: "ep_block e \<in> set (map block_id (page_blocks doc))"
      using assms False by (auto simp: known_endpoint_def element_ids_def list_ex_iff)
    then have "find (\<lambda>b. block_id b = ep_block e) (page_blocks doc) \<noteq> None"
      by (auto simp: find_None_iff)
    then obtain b where b: "find (\<lambda>b. block_id b = ep_block e) (page_blocks doc) = Some b"
      by blast
    then have "b \<in> set (page_blocks doc)" and "block_id b = ep_block e"
      by (auto simp: find_Some_iff)
    then show ?thesis
      using that [of "SelBlock (block_id b)" "Some (block_position b)"] False not_constant b declared
      by (simp add: jump_selection_def resolves_def points_at_def)
  qed
qed

text \<open>
  A jump to an element of another sheet shows that sheet and selects the element: the selection
  exists on the page that is then on screen and is the element the finding or the cross-page
  variable named. Other requests that are under way stay so.
\<close>

theorem jump_shows_target:
  assumes "jt_page target \<noteq> []" and "jt_page target \<noteq> se_page_id s"
    and "known_endpoint doc \<lparr>ep_block = jt_block target, ep_port = jt_port target\<rparr>"
    and "s' = fold session_step [Jump target, LookupAnswered (length (se_lookups s)) (Inr doc), PageAnswered (length (se_fetches s)) (Inr doc)] s"
  shows "se_page s' = Some doc \<and> se_page_id s' = jt_page target
    \<and> (\<exists>sel. se_selected s' = Some sel \<and> resolves doc sel
         \<and> points_at sel \<lparr>ep_block = jt_block target, ep_port = jt_port target\<rparr>)
    \<and> se_fetches s' = se_fetches s \<and> se_lookups s' = se_lookups s"
proof -
  obtain sel pos where sel: "jump_selection doc (jt_block target) (jt_port target) = Some (sel, pos)"
      "resolves doc sel" "points_at sel \<lparr>ep_block = jt_block target, ep_port = jt_port target\<rparr>"
    using jump_selection_known [OF assms(3)] by auto
  have focus: "se_page (focus_at pos u) = se_page u" "se_page_id (focus_at pos u) = se_page_id u"
    "se_selected (focus_at pos u) = se_selected u" "se_fetches (focus_at pos u) = se_fetches u" "se_lookups (focus_at pos u) = se_lookups u" for u
    by (cases pos; simp add: focus_at_def)+
  show ?thesis
    using assms(1,2) sel
    by (simp add: assms(4) session_step_def jumpTo_def lookup_answered_def page_answered_def fetch_page_def select_jump_def loadPage_def
        page_effects_defs focus Let_def)
qed

theorem jump_shows_target_witness:
  "\<exists>sel. se_selected (fold session_step [Jump \<lparr>jt_page = ''P1'', jt_block = ''k1'', jt_port = ''OUT''\<rparr>, LookupAnswered 0 (Inr wired_page),
     PageAnswered 0 (Inr wired_page)] initial_session) = Some sel \<and> resolves wired_page sel"
proof -
  have "known_endpoint wired_page \<lparr>ep_block = ''k1'', ep_port = ''OUT''\<rparr>"
    by (simp add: known_endpoint_def wired_page_def element_ids_def INTERFACE_def)
  then show ?thesis
    using jump_shows_target [OF _ _ _ refl,
        of "\<lparr>jt_page = ''P1'', jt_block = ''k1'', jt_port = ''OUT''\<rparr>" initial_session wired_page]
    by (auto simp: initial_session_def)
qed

end
