(* ===== verification/JsSort.thy ===== *)
theory JsSort
  imports Prelude "HOL-Library.Multiset"
begin

text \<open>
  \<open>Array.prototype.sort\<close> with a comparison function, and the index and slice operations of arrays.
\<close>

section \<open>Sorting\<close>

text \<open>\<open>rows.sort(cmp)\<close>: stable, for a comparison that is a total preorder.\<close>

fun insert_sorted :: "('a \<Rightarrow> 'a \<Rightarrow> int) \<Rightarrow> 'a \<Rightarrow> 'a list \<Rightarrow> 'a list" where
  "insert_sorted cmp x [] = [x]"
| "insert_sorted cmp x (y # ys) = (if cmp x y \<le> 0 then x # y # ys else y # insert_sorted cmp x ys)"

definition js_sort :: "('a \<Rightarrow> 'a \<Rightarrow> int) \<Rightarrow> 'a list \<Rightarrow> 'a list" where
  "js_sort cmp xs = foldr (insert_sorted cmp) xs []"

lemma mset_insert_sorted: "mset (insert_sorted cmp x ys) = add_mset x (mset ys)"
  by (induction ys) auto

lemma mset_js_sort: "mset (js_sort cmp xs) = mset xs"
  by (induction xs) (auto simp: js_sort_def mset_insert_sorted)

lemma set_js_sort: "set (js_sort cmp xs) = set xs"
  by (metis mset_js_sort set_mset_mset)

lemma sorted_insert:
  assumes "\<And>a b. le a b \<or> le b a" and "\<And>a b c. le a b \<Longrightarrow> le b c \<Longrightarrow> le a c"
    and "\<And>a b. cmp a b \<le> 0 \<longleftrightarrow> le a b" and "sorted_wrt le ys"
  shows "sorted_wrt le (insert_sorted cmp x ys)"
  using assms(4)
proof (induction ys)
  case (Cons y ys)
  have elems: "set (insert_sorted cmp x ys) = insert x (set ys)"
    by (metis mset_insert_sorted set_mset_add_mset_insert set_mset_mset)
  show ?case
  proof (cases "le x y")
    case True
    then show ?thesis
      using Cons.prems assms(2) by (auto simp: assms(3))
  next
    case False
    then have "le y x"
      using assms(1) by blast
    then show ?thesis
      using False Cons elems by (auto simp: assms(3))
  qed
qed simp

lemma sorted_js_sort:
  assumes "\<And>a b. le a b \<or> le b a" and "\<And>a b c. le a b \<Longrightarrow> le b c \<Longrightarrow> le a c"
    and "\<And>a b. cmp a b \<le> 0 \<longleftrightarrow> le a b"
  shows "sorted_wrt le (js_sort cmp xs)"
  by (induction xs) (simp_all add: js_sort_def sorted_insert [of le cmp, OF assms])

section \<open>Index and slice\<close>

text \<open>\<open>xs.indexOf(x)\<close>\<close>

fun js_index_of :: "'a list \<Rightarrow> 'a \<Rightarrow> int" where
  "js_index_of [] x = - 1"
| "js_index_of (y # ys) x = (if y = x then 0 else let i = js_index_of ys x in if i < 0 then i else i + 1)"

text \<open>\<open>xs.slice(from, to)\<close>: a negative bound counts from the end.\<close>

definition slice_bound :: "'a list \<Rightarrow> int \<Rightarrow> nat" where
  "slice_bound xs i = (if i < 0 then nat (int (length xs) + i) else min (nat i) (length xs))"

definition js_slice :: "'a list \<Rightarrow> int \<Rightarrow> int \<Rightarrow> 'a list" where
  "js_slice xs i j = take (slice_bound xs j - slice_bound xs i) (drop (slice_bound xs i) xs)"

lemma js_index_of_in: "x \<in> set xs \<Longrightarrow> 0 \<le> js_index_of xs x \<and> nat (js_index_of xs x) < length xs
    \<and> xs ! nat (js_index_of xs x) = x"
  by (induction xs) (auto simp: Let_def nat_add_distrib)

lemma js_index_of_notin: "x \<notin> set xs \<Longrightarrow> js_index_of xs x = - 1"
  by (induction xs) (auto simp: Let_def)

lemma set_js_slice:
  assumes "0 \<le> i" and "i \<le> j" and "nat j < length xs"
  shows "set (js_slice xs i (j + 1)) = {xs ! k | k. nat i \<le> k \<and> k \<le> nat j}"
proof -
  have b: "slice_bound xs i = nat i" "slice_bound xs (j + 1) = Suc (nat j)"
    using assms by (auto simp: slice_bound_def)
  have "set (js_slice xs i (j + 1)) = {drop (nat i) xs ! k | k. k < Suc (nat j) - nat i}"
  proof -
    have len: "length (take (Suc (nat j) - nat i) (drop (nat i) xs)) = Suc (nat j) - nat i"
      using assms by simp
    show ?thesis
      unfolding js_slice_def b set_conv_nth len by (intro Collect_cong) (metis nth_take)
  qed
  also have "\<dots> = {xs ! k | k. nat i \<le> k \<and> k \<le> nat j}"
  proof (rule set_eqI, rule iffI)
    fix x
    assume "x \<in> {drop (nat i) xs ! k | k. k < Suc (nat j) - nat i}"
    then obtain k where "x = xs ! (nat i + k)" "k < Suc (nat j) - nat i"
      using assms by auto
    then show "x \<in> {xs ! k | k. nat i \<le> k \<and> k \<le> nat j}"
      by (intro CollectI exI [of _ "nat i + k"]) auto
  next
    fix x
    assume "x \<in> {xs ! k | k. nat i \<le> k \<and> k \<le> nat j}"
    then obtain k where k: "x = xs ! k" "nat i \<le> k" "k \<le> nat j"
      by blast
    then show "x \<in> {drop (nat i) xs ! k | k. k < Suc (nat j) - nat i}"
      using assms by (intro CollectI exI [of _ "k - nat i"]) auto
  qed
  finally show ?thesis .
qed

end
