(* ===== verification/GraphPalette.thy ===== *)
theory GraphPalette
  imports GraphNavigate JsSort
begin

text \<open>
  The palette of \<open>pages/GraphEditorPage.tsx\<close>: the library and the tables of the initial load, the search
  over the blocks, and the groups of variables with the pins each row offers. \<open>localeCompare\<close> is a
  parameter (\<open>cmp\<close>): the collation belongs to the runtime.
\<close>

section \<open>The initial load\<close>

definition typed_block :: "library_block \<Rightarrow> library_block" where
  "typed_block b = b\<lparr>lib_type := Some (stTypeOf b)\<rparr>"

definition index_library :: "library_block list \<Rightarrow> (string, library_block) obj" where
  "index_library blocks =
     fold (\<lambda>b index. let d = typed_block b in
       obj_put (lib_name d) d (obj_put (stTypeOf d) d (obj_put (lib_id d) d index))) blocks []"

definition by_category_and_name :: "(string \<Rightarrow> string \<Rightarrow> int) \<Rightarrow> library_block \<Rightarrow> library_block \<Rightarrow> int" where
  "by_category_and_name cmp a b =
     (let c = cmp (lib_category a) (lib_category b) in if c \<noteq> 0 then c else cmp (lib_name a) (lib_name b))"

definition sorted_palette :: "(string \<Rightarrow> string \<Rightarrow> int) \<Rightarrow> library_block list \<Rightarrow> library_block list" where
  "sorted_palette cmp blocks = js_sort (by_category_and_name cmp) blocks"

text \<open>\<open>setStation((current) => current || ids[0] || "")\<close>\<close>

definition initial_station :: "string \<Rightarrow> string list \<Rightarrow> string" where
  "initial_station current ids = (if current \<noteq> [] then current else case ids of [] \<Rightarrow> [] | i # is \<Rightarrow> i)"

section \<open>Search\<close>

definition palette_text :: "library_block \<Rightarrow> string" where
  "palette_text b = js_join '' '' [lib_name b, lib_id b, lib_category b, lib_description b]"

definition filteredPalette :: "string \<Rightarrow> library_block list \<Rightarrow> library_block list" where
  "filteredPalette filt palette =
     filter (\<lambda>b. filt = [] \<or> js_includes (js_to_lower (palette_text b)) (js_to_lower filt)) palette"

section \<open>The groups of variables\<close>

record palette_action =
  ac_label :: string
  ac_direction :: port_direction
  ac_title :: string

record palette_row =
  rw_key :: string
  rw_name :: string
  rw_type :: string
  rw_title :: string
  rw_badge :: "string option"
  rw_seed :: port_seed
  rw_actions :: "palette_action list"

record palette_group =
  pg_title :: string
  pg_note :: "string option"
  pg_create :: "(string \<times> port_seed \<times> string) option"
  pg_empty :: string
  pg_rows :: "palette_row list"

definition pagePorts :: "page_doc option \<Rightarrow> (port \<times> port_direction) list" where
  "pagePorts page =
     (case page of None \<Rightarrow> []
      | Some p \<Rightarrow> concat (map (\<lambda>d. map (\<lambda>q. (q, d)) (iface_ports (page_interface p) d)) [Input, In_out, Output]))"

definition read_action :: "(string \<Rightarrow> string) \<Rightarrow> palette_action" where
  "read_action t = \<lparr>ac_label = ''IN'', ac_direction = Input, ac_title = t ''graph.readHere''\<rparr>"

definition write_action :: "(string \<Rightarrow> string) \<Rightarrow> palette_action" where
  "write_action t = \<lparr>ac_label = ''OUT'', ac_direction = Output, ac_title = t ''graph.writeHere''\<rparr>"

definition pins_for :: "(port \<times> port_direction) list \<Rightarrow> string \<Rightarrow> palette_action list \<Rightarrow> palette_action list" where
  "pins_for ports name actions =
     (if jset_has (jset_of (map (port_name \<circ> fst) ports)) name then [] else actions)"

definition sep_dot :: string where
  "sep_dot = '' '' @ middot @ '' ''"

definition point_row ::
    "(string \<Rightarrow> string) \<Rightarrow> string \<Rightarrow> (port \<times> port_direction) list \<Rightarrow> string \<Rightarrow> external_var_row \<Rightarrow> palette_row" where
  "point_row t station ports direction row =
     \<lparr>rw_key = ev_name row, rw_name = ev_name row, rw_type = ev_st_type row,
      rw_title = ev_name row @ sep_dot @ js_or_str (ev_description row) (t ''graph.noPointName'')
        @ (if ev_mapped row = Some True then [] else sep_dot @ t ''graph.noChannel''),
      rw_badge = None,
      rw_seed = \<lparr>seed_name = Some (ev_name row), seed_type = Some (ev_st_type row), seed_scope = Some External,
                 seed_bind = Some \<lparr>bind_station = Some station, bind_variable = Some (ev_name row)\<rparr>,
                 seed_unit = Some (opt_or (ev_unit row) [])\<rparr>,
      rw_actions = pins_for ports (ev_name row) [if direction = ''input'' then read_action t else write_action t]\<rparr>"

definition points ::
    "(string \<Rightarrow> string) \<Rightarrow> string \<Rightarrow> (port \<times> port_direction) list \<Rightarrow> external_var_row list \<Rightarrow> string \<Rightarrow> palette_row list" where
  "points t station ports external direction =
     map (point_row t station ports direction)
       (filter (\<lambda>row. ev_direction row = direction \<and> ev_enabled row \<noteq> Some False) external)"

record middle_var =
  mv_name :: string
  mv_type :: string
  mv_pages :: "string list"

text \<open>The intermediate variables: those of the cross-page table, then those of this page.\<close>

definition intermediate_vars :: "cross_page_row list \<Rightarrow> (port \<times> port_direction) list \<Rightarrow> (string, middle_var) obj" where
  "intermediate_vars crossPage ports =
     (let table = fold (\<lambda>row m. obj_put (xp_name row)
            \<lparr>mv_name = xp_name row, mv_type = xp_type row, mv_pages = xp_pages row\<rparr> m)
          (filter (\<lambda>row. xp_scope row = ''intermediate'') crossPage) []
      in fold (\<lambda>p m. obj_put (port_name p)
            \<lparr>mv_name = port_name p, mv_type = port_type p,
             mv_pages = (case obj_get m (port_name p) of None \<Rightarrow> [] | Some v \<Rightarrow> mv_pages v)\<rparr> m)
          (filter (\<lambda>p. port_scope p = Some Intermediate) (map fst ports)) table)"

definition scope_seed :: "string \<Rightarrow> string \<Rightarrow> scope \<Rightarrow> port_seed" where
  "scope_seed name ty sc =
     \<lparr>seed_name = Some name, seed_type = Some ty, seed_scope = Some sc, seed_bind = None, seed_unit = None\<rparr>"

definition new_seed :: "scope \<Rightarrow> port_seed" where
  "new_seed sc = empty_seed\<lparr>seed_scope := Some sc\<rparr>"

definition enumeration_comma :: string where
  "enumeration_comma = utf8 [227, 128, 129]"

definition middle_row :: "(string \<Rightarrow> string) \<Rightarrow> (port \<times> port_direction) list \<Rightarrow> middle_var \<Rightarrow> palette_row" where
  "middle_row t ports v =
     (let joined = js_join enumeration_comma (mv_pages v) in
      \<lparr>rw_key = mv_name v, rw_name = mv_name v, rw_type = mv_type v,
       rw_title = mv_name v @ sep_dot @ t ''graph.connectPage'' @ '' '' @ (if joined = [] then t ''graph.thisPage'' else joined),
       rw_badge = None, rw_seed = scope_seed (mv_name v) (mv_type v) Intermediate,
       rw_actions = pins_for ports (mv_name v) [read_action t, write_action t]\<rparr>)"

definition local_row :: "(string \<Rightarrow> string) \<Rightarrow> port \<Rightarrow> palette_row" where
  "local_row t p =
     \<lparr>rw_key = ''local'' @ port_name p, rw_name = port_name p, rw_type = port_type p,
      rw_title = port_name p @ sep_dot @ t ''graph.privateHint'', rw_badge = None,
      rw_seed = scope_seed (port_name p) (port_type p) Local, rw_actions = []\<rparr>"

definition system_row :: "(string \<Rightarrow> string) \<Rightarrow> (port \<times> port_direction) list \<Rightarrow> system_var_row \<Rightarrow> palette_row" where
  "system_row t ports row =
     \<lparr>rw_key = sv_name row, rw_name = sv_name row, rw_type = sv_st_type row,
      rw_title = sv_name row @ sep_dot @ sv_description row, rw_badge = Some (t ''graph.readonly''),
      rw_seed = scope_seed (sv_name row) (sv_st_type row) External,
      rw_actions = pins_for ports (sv_name row) [read_action t]\<rparr>"

definition by_name :: "(string \<Rightarrow> string \<Rightarrow> int) \<Rightarrow> palette_row \<Rightarrow> palette_row \<Rightarrow> int" where
  "by_name cmp a b = cmp (rw_name a) (rw_name b)"

definition groups ::
    "(string \<Rightarrow> string) \<Rightarrow> (string \<Rightarrow> string \<Rightarrow> int) \<Rightarrow> string \<Rightarrow> page_doc option \<Rightarrow> external_var_row list \<Rightarrow>
     cross_page_row list \<Rightarrow> system_var_row list \<Rightarrow> palette_group list" where
  "groups t cmp station page external crossPage systemVars =
     (let ports = pagePorts page in
      [\<lparr>pg_title = t ''graph.inputVars'',
        pg_note = (if list_ex (\<lambda>row. ev_direction row = ''input'' \<and> ev_enabled row = Some False) external
          then Some (t ''graph.inputVarsNote'') else None),
        pg_create = None, pg_empty = t ''graph.noInputVars'', pg_rows = points t station ports external ''input''\<rparr>,
       \<lparr>pg_title = t ''graph.outputVars'', pg_note = None, pg_create = None, pg_empty = t ''graph.noOutputVars'',
        pg_rows = points t station ports external ''output''\<rparr>,
       \<lparr>pg_title = t ''graph.middleVars'', pg_note = None,
        pg_create = Some (t ''graph.newMiddle'', new_seed Intermediate, t ''graph.newMiddleHint''),
        pg_empty = t ''graph.noMiddleVars'',
        pg_rows = js_sort (by_name cmp) (map (middle_row t ports) (obj_values (intermediate_vars crossPage ports)))\<rparr>,
       \<lparr>pg_title = t ''graph.privateVars'', pg_note = None,
        pg_create = Some (t ''graph.newPrivate'', new_seed Local, t ''graph.newPrivateHint''),
        pg_empty = t ''graph.noPrivateVars'',
        pg_rows = js_sort (by_name cmp) (map (local_row t) (filter (\<lambda>p. port_scope p = Some Local) (map fst ports)))\<rparr>,
       \<lparr>pg_title = t ''graph.systemVars'', pg_note = Some (t ''graph.systemVarsNote''), pg_create = None,
        pg_empty = t ''graph.noSystemVars'', pg_rows = map (system_row t ports) systemVars\<rparr>])"

definition shown_rows :: "string \<Rightarrow> palette_group \<Rightarrow> palette_row list" where
  "shown_rows filt g =
     filter (\<lambda>row. filt = [] \<or> js_includes (js_to_lower (rw_name row @ '' '' @ rw_title row)) (js_to_lower filt)) (pg_rows g)"

section \<open>Properties\<close>

text \<open>A collation: what \<open>localeCompare\<close> promises of the sign of its answers.\<close>

definition collation :: "(string \<Rightarrow> string \<Rightarrow> int) \<Rightarrow> bool" where
  "collation cmp \<longleftrightarrow> (\<forall>a b. cmp a b \<le> 0 \<longleftrightarrow> 0 \<le> cmp b a) \<and> (\<forall>a b c. cmp a b \<le> 0 \<longrightarrow> cmp b c \<le> 0 \<longrightarrow> cmp a c \<le> 0)"

lemma collation_zero: "collation cmp \<Longrightarrow> cmp a b = 0 \<longleftrightarrow> cmp a b \<le> 0 \<and> cmp b a \<le> 0"
  unfolding collation_def by (metis order_antisym order_refl)

lemma collation_trans: "collation cmp \<Longrightarrow> cmp a b \<le> 0 \<Longrightarrow> cmp b c \<le> 0 \<Longrightarrow> cmp a c \<le> 0"
  unfolding collation_def by blast

lemma collation_total: "collation cmp \<Longrightarrow> cmp a b \<le> 0 \<or> cmp b a \<le> 0"
  unfolding collation_def by (metis linear)

lemma by_category_le:
  "by_category_and_name cmp a b \<le> 0 \<longleftrightarrow>
     cmp (lib_category a) (lib_category b) \<le> 0
     \<and> (cmp (lib_category a) (lib_category b) = 0 \<longrightarrow> cmp (lib_name a) (lib_name b) \<le> 0)"
  by (auto simp: by_category_and_name_def Let_def)

text \<open>
  The palette lists every library block exactly as often as the backend sent it, by category and
  within a category by name, in the order of the collation.
\<close>

theorem palette_sorted:
  assumes "collation cmp"
  shows "mset (sorted_palette cmp blocks) = mset blocks
    \<and> sorted_wrt (\<lambda>a b. by_category_and_name cmp a b \<le> 0) (sorted_palette cmp blocks)"
proof
  let ?le = "\<lambda>a b. by_category_and_name cmp a b \<le> 0"
  have total: "?le a b \<or> ?le b a" for a b
    unfolding by_category_le collation_zero [OF assms]
    using collation_total [OF assms] by blast
  have trans: "?le a c" if "?le a b" "?le b c" for a b c
    using that unfolding by_category_le collation_zero [OF assms]
    using collation_trans [OF assms] by meson
  show "sorted_wrt ?le (sorted_palette cmp blocks)"
    unfolding sorted_palette_def by (rule sorted_js_sort [OF total trans refl])
  show "mset (sorted_palette cmp blocks) = mset blocks"
    by (simp add: sorted_palette_def mset_js_sort)
qed

definition by_length :: "string \<Rightarrow> string \<Rightarrow> int" where
  "by_length a b = int (length a) - int (length b)"

theorem palette_sorted_witness:
  "mset (map lib_name (sorted_palette by_length [add_block\<lparr>lib_category := ''Logic''\<rparr>, add_block])) = {#''ADD'', ''ADD''#}"
proof -
  have "collation by_length"
    by (auto simp: collation_def by_length_def)
  then have "mset (sorted_palette by_length [add_block\<lparr>lib_category := ''Logic''\<rparr>, add_block])
      = mset [add_block\<lparr>lib_category := ''Logic''\<rparr>, add_block]"
    using palette_sorted by blast
  then show ?thesis
    by (simp add: add_block_def)
qed

text \<open>The rows of all groups seed a port of their own name and filter their pins.\<close>

definition row_ok :: "(port \<times> port_direction) list \<Rightarrow> palette_row \<Rightarrow> bool" where
  "row_ok ports row \<longleftrightarrow>
     (\<exists>acts. rw_actions row = pins_for ports (rw_name row) acts) \<and> seed_name (rw_seed row) = Some (rw_name row)"

lemma row_ok_rows:
  "row_ok ports (point_row t station ports d r)" "row_ok ports (middle_row t ports v)"
  "row_ok ports (local_row t p)" "row_ok ports (system_row t ports y)"
proof -
  show "row_ok ports (point_row t station ports d r)" "row_ok ports (middle_row t ports v)"
    "row_ok ports (system_row t ports y)"
    by (auto simp: row_ok_def point_row_def middle_row_def system_row_def scope_seed_def Let_def)
  have "[] = pins_for ports (port_name p) []"
    by (simp add: pins_for_def)
  then show "row_ok ports (local_row t p)"
    by (auto simp: row_ok_def local_row_def scope_seed_def)
qed

lemma groups_row_ok:
  assumes "g \<in> set (groups t cmp station page external crossPage systemVars)" and "row \<in> set (pg_rows g)"
  shows "row_ok (pagePorts page) row"
  using assms by (auto simp: groups_def Let_def points_def set_js_sort row_ok_rows)

lemma on_sheet_iff:
  "jset_has (jset_of (map (port_name \<circ> fst) (pagePorts (Some p)))) n \<longleftrightarrow> n \<in> set (iface_names (page_interface p))"
  by (auto simp: jset_has_def jset_of_set pagePorts_def iface_names_three iface_ports_def)

text \<open>
  Whatever the palette offers can be dropped: the variable of a row with an action is not declared on
  the sheet yet, so that adding its port is an edit the page allows and keeps it well-formed.
\<close>

theorem palette_offers_new_ports:
  assumes "g \<in> set (groups t cmp station (Some p) external crossPage systemVars)" and "row \<in> set (pg_rows g)"
    and "a \<in> set (rw_actions row)" and "page_wf p"
  shows "edit_offered library (AddPort (ac_direction a) (rw_seed row)) p
    \<and> page_wf (page_step (AddPort (ac_direction a) (rw_seed row)) p)"
proof -
  obtain acts where acts: "rw_actions row = pins_for (pagePorts (Some p)) (rw_name row) acts"
      "seed_name (rw_seed row) = Some (rw_name row)"
    using groups_row_ok [OF assms(1,2)] by (auto simp: row_ok_def)
  then have "rw_name row \<notin> set (iface_names (page_interface p))"
    using assms(3) unfolding pins_for_def on_sheet_iff by (auto split: if_splits)
  then have offered: "edit_offered library (AddPort (ac_direction a) (rw_seed row)) p"
    by (simp add: edit_offered_def name_free_def acts(2) opt_or_def)
  then show ?thesis
    using page_step_keeps [OF assms(4) offered] by (simp add: harmless_def)
qed

definition sample_point :: external_var_row where
  "sample_point = \<lparr>ev_name = ''AI_1'', ev_direction = ''input'', ev_st_type = ''REAL'', ev_unit = None,
     ev_description = None, ev_mapped = Some True, ev_enabled = None\<rparr>"

theorem palette_offers_new_ports_witness:
  "page_wf (page_step (AddPort Input (rw_seed (point_row (\<lambda>k. k) ''S1'' (pagePorts (Some wired_page)) ''input'' sample_point)))
     wired_page)"
proof -
  let ?g = "hd (groups (\<lambda>k. k) by_length ''S1'' (Some wired_page) [sample_point] [] [])"
  let ?row = "point_row (\<lambda>k. k) ''S1'' (pagePorts (Some wired_page)) ''input'' sample_point"
  have "?g \<in> set (groups (\<lambda>k. k) by_length ''S1'' (Some wired_page) [sample_point] [] [])"
    by (simp add: groups_def Let_def)
  moreover have "?row \<in> set (pg_rows ?g)"
    by (simp add: groups_def Let_def points_def sample_point_def)
  moreover have "read_action (\<lambda>k. k) \<in> set (rw_actions ?row)"
    unfolding point_row_def pins_for_def on_sheet_iff palette_row.select_convs
    by (simp add: sample_point_def iface_names_three wired_page_def)
  ultimately have "page_wf (page_step (AddPort (ac_direction (read_action (\<lambda>k. k))) (rw_seed ?row)) wired_page)"
    using palette_offers_new_ports [OF _ _ _ wired_page_wf] by blast
  then show ?thesis
    by (simp add: read_action_def)
qed

text \<open>
  The rows of the two station groups are the enabled points of their direction, in the order of the
  channels and none left out, and each offers at most the one pin its hardware allows.
\<close>

theorem points_keep_direction:
  "map rw_name (points t station ports external direction) =
     map ev_name (filter (\<lambda>row. ev_direction row = direction \<and> ev_enabled row \<noteq> Some False) external)
   \<and> (row \<in> set (points t station ports external ''input'') \<longrightarrow> set (map ac_direction (rw_actions row)) \<subseteq> {Input})
   \<and> (row \<in> set (points t station ports external ''output'') \<longrightarrow> set (map ac_direction (rw_actions row)) \<subseteq> {Output})"
  by (auto simp: points_def point_row_def pins_for_def read_action_def write_action_def comp_def split: if_splits)

theorem points_keep_direction_witness:
  "set (map ac_direction (rw_actions (point_row (\<lambda>k. k) ''S1'' [] ''input'' sample_point))) \<subseteq> {Input}"
proof -
  have "point_row (\<lambda>k. k) ''S1'' [] ''input'' sample_point \<in> set (points (\<lambda>k. k) ''S1'' [] [sample_point] ''input'')"
    by (simp add: points_def sample_point_def)
  then show ?thesis
    using points_keep_direction by blast
qed

end
