(* ===== verification/DeviceTypes.thy ===== *)
theory DeviceTypes
  imports GraphTypes
begin

text \<open>
  The data of the device configuration view (\<open>components/device/types.ts\<close>), the properties form of a
  point (\<open>components/device/BindingProperties.tsx\<close>) and the parameters of a station
  (\<open>components/device/StationBar.tsx\<close>). Numbers of the backend are finite; a number the user types may
  be \<open>NaN\<close> or infinite, and the payload of a binding keeps it as it is sent.
\<close>

section \<open>Data\<close>

record channel_info =
  ch_channel :: int
  ch_var_name :: "string option"
  ch_bound :: bool
  ch_name :: string
  ch_signal_type :: string
  ch_enabled :: bool

record module_view =
  mo_id :: string
  mo_kind :: string
  mo_first_channel :: int
  mo_channel_count :: int
  mo_last_channel :: int
  mo_label :: string
  mo_channels :: "channel_info list"

record station_row =
  sn_id :: string
  sn_label :: string
  sn_device_type :: string
  sn_cycle_ms :: rat
  sn_comm_interface :: string
  sn_comm_address :: string
  sn_modules :: int
  sn_variables :: int
  sn_mapped :: int
  sn_errors :: int
  sn_warnings :: int

record point_row =
  po_name :: string
  po_direction :: string
  po_st_type :: string
  po_io_kind :: string
  po_description :: string
  po_enabled :: bool
  po_mapped :: bool
  po_channel :: "int option"
  po_module_id :: "string option"
  po_point_name :: string
  po_unit :: string
  po_has_quality :: bool
  po_scale :: rat
  po_bias :: rat
  po_safety_min :: "rat option"
  po_safety_max :: "rat option"
  po_fault_hold :: string
  po_preset_value :: "rat option"
  po_signal_type :: string

record issue =
  is_code :: string
  is_severity :: string
  is_message :: string
  is_var_name :: "string option"
  is_channel :: "int option"

record binding =
  bd_var_name :: string
  bd_channel :: int
  bd_scale :: jsnum
  bd_bias :: jsnum
  bd_safety_min :: "jsnum option"
  bd_safety_max :: "jsnum option"
  bd_point_name :: string
  bd_unit :: string
  bd_has_quality :: bool
  bd_fault_hold :: string
  bd_preset_value :: "jsnum option"
  bd_signal_type :: string

text \<open>The tables of labels; the values that are not ASCII are given by their UTF-8 bytes.\<close>

definition unconfigured_label :: string where
  "unconfigured_label = utf8 [230, 156, 170, 233, 133, 141, 231, 189, 174]"

definition HOLD_LABELS :: "(string, string) obj" where
  "HOLD_LABELS =
    [([], unconfigured_label),
     (''last_value'', utf8 [228, 191, 157, 230, 140, 129, 228, 184, 138, 229, 145, 168, 230, 156, 159, 229, 128, 188]),
     (''preset'', utf8 [233, 162, 132, 232, 174, 190, 229, 128, 188])]"

definition SIGNAL_TYPES :: "string list" where
  "SIGNAL_TYPES = [[], ''voltage'', ''current'', ''4-20mA'', ''0-5V'']"

definition SIGNAL_TYPE_LABELS :: "(string, string) obj" where
  "SIGNAL_TYPE_LABELS =
    [([], unconfigured_label),
     (''voltage'', utf8 [231, 148, 181, 229, 142, 139]),
     (''current'', utf8 [231, 148, 181, 230, 181, 129]),
     (''4-20mA'', ''4-20mA''), (''0-5V'', ''0-5V'')]"

definition DEVICE_TYPES :: "string list" where
  "DEVICE_TYPES = [''DCU'', ''RPS'', ''ESFAS'', ''SIM'']"

definition COMM_INTERFACES :: "string list" where
  "COMM_INTERFACES = [''backplane'', ''modbus_tcp'', ''profibus_dp'', ''iec61850'', ''none'']"

text \<open>\<open>table[key] ?? default\<close>\<close>

definition table_or :: "(string, string) obj \<Rightarrow> string \<Rightarrow> string \<Rightarrow> string" where
  "table_or table key d = (case obj_get table key of None \<Rightarrow> d | Some v \<Rightarrow> v)"

definition KIND_COLOR :: "(string, string) obj" where
  "KIND_COLOR =
    [(''AI'', ''rgb(var(--ide-hue-teal))''),
     (''AO'', ''rgb(var(--ide-hue-yellow))''),
     (''DI'', ''rgb(var(--ide-hue-blue))''),
     (''DO'', ''rgb(var(--ide-hue-purple))'')]"

definition IO_KIND_LABEL :: "(string, string) obj" where
  "IO_KIND_LABEL =
    [(''AI'', utf8 [230, 168, 161, 230, 139, 159, 233, 135, 143, 232, 190, 147, 229, 133, 165]),
     (''AO'', utf8 [230, 168, 161, 230, 139, 159, 233, 135, 143, 232, 190, 147, 229, 135, 186]),
     (''DI'', utf8 [229, 188, 128, 229, 133, 179, 233, 135, 143, 232, 190, 147, 229, 133, 165]),
     (''DO'', utf8 [229, 188, 128, 229, 133, 179, 233, 135, 143, 232, 190, 147, 229, 135, 186])]"

definition ISSUE_LABEL :: "(string, string) obj" where
  "ISSUE_LABEL =
    [(''invalid_name'', utf8 [230, 160, 135, 232, 175, 134, 231, 172, 166, 228, 184, 141, 229, 144, 136, 230, 179, 149]),
     (''unknown_var'', utf8 [229, 143, 152, 233, 135, 143, 230, 156, 170, 229, 163, 176, 230, 152, 142]),
     (''channel_out_of_range'', utf8 [233, 128, 154, 233, 129, 147, 232, 182, 138, 231, 149, 140]),
     (''no_hardware'', utf8 [233, 128, 154, 233, 129, 147, 230, 151, 160, 231, 161, 172, 228, 187, 182]),
     (''non_finite_cal'', utf8 [233, 135, 143, 231, 168, 139, 47, 229, 129, 143, 231, 189, 174, 233, 157, 158, 230, 156, 137, 233, 153, 144, 229, 128, 188]),
     (''bad_safety_limit'', utf8 [229, 185, 133, 229, 128, 188, 233, 153, 144, 229, 136, 182, 229, 128, 146, 231, 189, 174]),
     (''bad_hold_mode'', utf8 [229, 188, 130, 229, 184, 184, 228, 191, 157, 230, 140, 129, 230, 150, 185, 229, 188, 143, 233, 157, 158, 230, 179, 149]),
     (''preset_missing'', utf8 [231, 188, 186, 229, 176, 145, 233, 162, 132, 232, 174, 190, 229, 128, 188]),
     (''quality_not_in_artifact'', utf8 [232, 180, 168, 233, 135, 143, 228, 189, 141, 228, 184, 141, 232, 144, 189, 229, 136, 182, 229, 147, 129]),
     (''hold_not_in_artifact'', utf8 [229, 188, 130, 229, 184, 184, 228, 191, 157, 230, 140, 129, 228, 184, 141, 232, 144, 189, 229, 136, 182, 229, 147, 129]),
     (''duplicate_channel'', utf8 [233, 128, 154, 233, 129, 147, 233, 135, 141, 229, 164, 141, 231, 187, 145, 229, 174, 154]),
     (''kind_mismatch'', utf8 [230, 168, 161, 229, 157, 151, 231, 177, 187, 229, 158, 139, 228, 184, 141, 231, 172, 166]),
     (''unmapped_variable'', utf8 [231, 130, 185, 228, 189, 141, 230, 156, 170, 230, 152, 160, 229, 176, 132, 233, 128, 154, 233, 129, 147]),
     (''duplicate_point'', utf8 [231, 130, 185, 229, 144, 141, 231, 167, 176, 233, 135, 141, 229, 164, 141])]"

definition SEVERITY_LABEL :: "(string, string) obj" where
  "SEVERITY_LABEL =
    [(''error'', utf8 [233, 148, 153, 232, 175, 175]),
     (''warning'', utf8 [230, 143, 144, 233, 134, 146])]"

definition issueTitle :: "issue \<Rightarrow> string" where
  "issueTitle i = table_or ISSUE_LABEL (is_code i) (is_code i)"

definition severityLabel :: "string \<Rightarrow> string" where
  "severityLabel s = table_or SEVERITY_LABEL s s"

section \<open>The properties form\<close>

record form_state =
  fm_scale :: string
  fm_bias :: string
  fm_safetyMin :: string
  fm_safetyMax :: string
  fm_pointName :: string
  fm_unit :: string
  fm_hasQuality :: bool
  fm_faultHold :: string
  fm_presetValue :: string
  fm_signalType :: string

definition EMPTY_FORM :: form_state where
  "EMPTY_FORM = \<lparr>fm_scale = ''1'', fm_bias = ''0'', fm_safetyMin = [], fm_safetyMax = [], fm_pointName = [],
     fm_unit = [], fm_hasQuality = False, fm_faultHold = [], fm_presetValue = [], fm_signalType = []\<rparr>"

definition limit_text :: "rat option \<Rightarrow> string" where
  "limit_text x = (case x of None \<Rightarrow> [] | Some r \<Rightarrow> show_rat r)"

definition fromRow :: "point_row \<Rightarrow> form_state" where
  "fromRow row =
     \<lparr>fm_scale = show_rat (po_scale row), fm_bias = show_rat (po_bias row),
      fm_safetyMin = limit_text (po_safety_min row), fm_safetyMax = limit_text (po_safety_max row),
      fm_pointName = po_point_name row, fm_unit = po_unit row, fm_hasQuality = po_has_quality row,
      fm_faultHold = po_fault_hold row, fm_presetValue = limit_text (po_preset_value row),
      fm_signalType = po_signal_type row\<rparr>"

definition toNumberOrNull :: "string \<Rightarrow> jsnum option" where
  "toNumberOrNull v =
     (if js_trim v = [] then None
      else let parsed = js_number v in if js_is_finite parsed then Some parsed else None)"

text \<open>\<open>row ? fromRow(row) : EMPTY\<close>, on every change of the selected row.\<close>

definition form_for :: "point_row option \<Rightarrow> form_state" where
  "form_for row = (case row of None \<Rightarrow> EMPTY_FORM | Some r \<Rightarrow> fromRow r)"

definition form_payload :: "point_row \<Rightarrow> form_state \<Rightarrow> binding" where
  "form_payload row form =
     \<lparr>bd_var_name = po_name row, bd_channel = (case po_channel row of None \<Rightarrow> 0 | Some c \<Rightarrow> c),
      bd_scale = js_number (fm_scale form), bd_bias = js_number (fm_bias form),
      bd_safety_min = toNumberOrNull (fm_safetyMin form), bd_safety_max = toNumberOrNull (fm_safetyMax form),
      bd_point_name = fm_pointName form, bd_unit = fm_unit form, bd_has_quality = fm_hasQuality form,
      bd_fault_hold = fm_faultHold form, bd_preset_value = toNumberOrNull (fm_presetValue form),
      bd_signal_type = fm_signalType form\<rparr>"

definition related_issues :: "point_row option \<Rightarrow> issue list \<Rightarrow> issue list" where
  "related_issues row issues =
     (case row of None \<Rightarrow> [] | Some r \<Rightarrow> filter (\<lambda>i. is_var_name i = Some (po_name r)) issues)"

definition preset_enabled :: "form_state \<Rightarrow> bool" where
  "preset_enabled form \<longleftrightarrow> fm_faultHold form = ''preset''"

datatype form_edit =
    EditScale string
  | EditBias string
  | EditSafetyMin string
  | EditSafetyMax string
  | EditPointName string
  | EditUnit string
  | EditHasQuality bool
  | EditFaultHold string
  | EditPreset string
  | EditSignalType string

text \<open>The handlers of the fields; the preset can only be typed while the hold mode is \<open>preset\<close>.\<close>

fun edit_form :: "form_edit \<Rightarrow> form_state \<Rightarrow> form_state" where
  "edit_form (EditScale v) form = form\<lparr>fm_scale := v\<rparr>"
| "edit_form (EditBias v) form = form\<lparr>fm_bias := v\<rparr>"
| "edit_form (EditSafetyMin v) form = form\<lparr>fm_safetyMin := v\<rparr>"
| "edit_form (EditSafetyMax v) form = form\<lparr>fm_safetyMax := v\<rparr>"
| "edit_form (EditPointName v) form = form\<lparr>fm_pointName := v\<rparr>"
| "edit_form (EditUnit v) form = form\<lparr>fm_unit := v\<rparr>"
| "edit_form (EditHasQuality v) form = form\<lparr>fm_hasQuality := v\<rparr>"
| "edit_form (EditFaultHold v) form = form\<lparr>fm_faultHold := v\<rparr>"
| "edit_form (EditPreset v) form = (if preset_enabled form then form\<lparr>fm_presetValue := v\<rparr> else form)"
| "edit_form (EditSignalType v) form = form\<lparr>fm_signalType := v\<rparr>"

definition wide_colon :: string where
  "wide_colon = utf8 [239, 188, 154]"

definition issue_text :: "issue \<Rightarrow> string" where
  "issue_text i = issueTitle i @ wide_colon @ is_message i"

text \<open>A line of the list of issues: its text and whether it is drawn as an error.\<close>

definition issue_line :: "issue \<Rightarrow> string \<times> bool" where
  "issue_line i = (severityLabel (is_severity i) @ '' '' @ issue_text i, is_severity i = ''error'')"

record binding_view =
  bv_name :: string
  bv_chip :: string
  bv_color :: string
  bv_about :: string
  bv_signal_options :: "(string \<times> string) list"
  bv_hold_options :: "(string \<times> string) list"
  bv_related :: "(string \<times> bool) list"

definition binding_view_of :: "point_row \<Rightarrow> issue list \<Rightarrow> binding_view" where
  "binding_view_of row issues =
     \<lparr>bv_name = po_name row,
      bv_chip = (case po_module_id row of None \<Rightarrow> dash_text | Some m \<Rightarrow> m) @ '' '' @ po_io_kind row,
      bv_color = table_or KIND_COLOR (po_io_kind row) ''rgb(var(--ide-text-dim))'',
      bv_about = table_or IO_KIND_LABEL (po_io_kind row) [] @ '' '' @ middot @ '' CH''
        @ (case po_channel row of None \<Rightarrow> dash_text | Some c \<Rightarrow> show_int c) @ '' '' @ middot @ '' '' @ po_st_type row,
      bv_signal_options = map (\<lambda>s. (s, table_or SIGNAL_TYPE_LABELS s s)) SIGNAL_TYPES,
      bv_hold_options = HOLD_LABELS,
      bv_related = map (\<lambda>i. (issue_text i, is_severity i = ''error'')) (related_issues (Some row) issues)\<rparr>"

text \<open>The panel: the form of the row or the hint to select one, and the lines of the check.\<close>

definition binding_panel :: "(string \<Rightarrow> string) \<Rightarrow> point_row option \<Rightarrow> issue list \<Rightarrow> (string + binding_view) \<times> (string \<times> bool) list" where
  "binding_panel t row issues =
     ((case row of None \<Rightarrow> Inl (t ''binding.selectPoint'') | Some r \<Rightarrow> Inr (binding_view_of r issues)),
      (if issues = [] then [(t ''binding.allPassed'', False)] else map issue_line issues))"

text \<open>
  \<open>payloadFor(row, {})\<close> of the page: the fields of the row, and channel 0 for a row that has no channel
  (\<open>row.channel ?? 0\<close>).
\<close>

definition row_payload :: "point_row \<Rightarrow> binding" where
  "row_payload row =
     \<lparr>bd_var_name = po_name row, bd_channel = (case po_channel row of None \<Rightarrow> 0 | Some c \<Rightarrow> c),
      bd_scale = Num (po_scale row), bd_bias = Num (po_bias row),
      bd_safety_min = map_option Num (po_safety_min row), bd_safety_max = map_option Num (po_safety_max row),
      bd_point_name = po_point_name row, bd_unit = po_unit row, bd_has_quality = po_has_quality row,
      bd_fault_hold = po_fault_hold row, bd_preset_value = map_option Num (po_preset_value row),
      bd_signal_type = po_signal_type row\<rparr>"

section \<open>Station parameters\<close>

record station_draft =
  sd_id :: string
  sd_label :: string
  sd_device_type :: string
  sd_cycle_ms :: jsnum
  sd_comm_interface :: string
  sd_comm_address :: string

definition BLANK :: station_draft where
  "BLANK = \<lparr>sd_id = [], sd_label = [], sd_device_type = ''DCU'', sd_cycle_ms = Num 100,
     sd_comm_interface = ''backplane'', sd_comm_address = []\<rparr>"

definition toDraft :: "station_row \<Rightarrow> station_draft" where
  "toDraft s = \<lparr>sd_id = sn_id s, sd_label = sn_label s, sd_device_type = sn_device_type s,
     sd_cycle_ms = Num (sn_cycle_ms s), sd_comm_interface = sn_comm_interface s, sd_comm_address = sn_comm_address s\<rparr>"

record station_bar =
  sb_creating :: bool
  sb_new :: station_draft
  sb_draft :: station_draft

definition bar_for :: "station_row option \<Rightarrow> station_bar \<Rightarrow> station_bar" where
  "bar_for current bar = bar\<lparr>sb_draft := (case current of None \<Rightarrow> BLANK | Some s \<Rightarrow> toDraft s)\<rparr>"

text \<open>The second component is the draft handed to \<open>onCreate\<close>.\<close>

definition submitCreate :: "station_bar \<Rightarrow> station_bar \<times> station_draft option" where
  "submitCreate bar =
     (if sd_id (sb_new bar) = [] then (bar, None)
      else (bar\<lparr>sb_new := BLANK, sb_creating := False\<rparr>, Some (sb_new bar)))"

definition cancel_create :: "station_bar \<Rightarrow> station_bar" where
  "cancel_create bar = bar\<lparr>sb_creating := False, sb_new := BLANK\<rparr>"

text \<open>The fields of the bar: the new station while one is being created, and the parameters of the selected one.\<close>

datatype bar_edit =
    StartCreating
  | NewId string
  | NewLabel string
  | DraftLabel string
  | DraftType string
  | DraftCycle string
  | DraftInterface string
  | DraftAddress string

fun edit_bar :: "bar_edit \<Rightarrow> station_bar \<Rightarrow> station_bar" where
  "edit_bar StartCreating bar = bar\<lparr>sb_creating := True\<rparr>"
| "edit_bar (NewId v) bar = bar\<lparr>sb_new := (sb_new bar)\<lparr>sd_id := v\<rparr>\<rparr>"
| "edit_bar (NewLabel v) bar = bar\<lparr>sb_new := (sb_new bar)\<lparr>sd_label := v\<rparr>\<rparr>"
| "edit_bar (DraftLabel v) bar = bar\<lparr>sb_draft := (sb_draft bar)\<lparr>sd_label := v\<rparr>\<rparr>"
| "edit_bar (DraftType v) bar = bar\<lparr>sb_draft := (sb_draft bar)\<lparr>sd_device_type := v\<rparr>\<rparr>"
| "edit_bar (DraftCycle v) bar = bar\<lparr>sb_draft := (sb_draft bar)\<lparr>sd_cycle_ms := js_number v\<rparr>\<rparr>"
| "edit_bar (DraftInterface v) bar = bar\<lparr>sb_draft := (sb_draft bar)\<lparr>sd_comm_interface := v\<rparr>\<rparr>"
| "edit_bar (DraftAddress v) bar = bar\<lparr>sb_draft := (sb_draft bar)\<lparr>sd_comm_address := v\<rparr>\<rparr>"

text \<open>
  \<open>JSON.stringify(draft) !== JSON.stringify(toDraft(current))\<close>: the fields are printed in one order,
  and a number that is not finite is printed as \<open>null\<close>.
\<close>

definition json_num :: "jsnum \<Rightarrow> rat option" where
  "json_num x = (case x of Num r \<Rightarrow> Some r | _ \<Rightarrow> None)"

definition draft_json :: "station_draft \<Rightarrow> (string list \<times> rat option)" where
  "draft_json d = ([sd_id d, sd_label d, sd_device_type d, sd_comm_interface d, sd_comm_address d], json_num (sd_cycle_ms d))"

definition draft_changed :: "station_row option \<Rightarrow> station_bar \<Rightarrow> bool" where
  "draft_changed current bar \<longleftrightarrow>
     (case current of None \<Rightarrow> False | Some s \<Rightarrow> draft_json (sb_draft bar) \<noteq> draft_json (toDraft s))"

record station_tab =
  sx_id :: string
  sx_active :: bool
  sx_label :: string
  sx_cycle :: string
  sx_errors :: "int option"
  sx_warnings :: "int option"

definition station_tab_of :: "string \<Rightarrow> station_row \<Rightarrow> station_tab" where
  "station_tab_of selectedId s =
     \<lparr>sx_id = sn_id s, sx_active = (sn_id s = selectedId), sx_label = sn_label s,
      sx_cycle = show_rat (sn_cycle_ms s) @ ''ms'',
      sx_errors = (if sn_errors s > 0 then Some (sn_errors s) else None),
      sx_warnings = (if sn_errors s = 0 \<and> sn_warnings s > 0 then Some (sn_warnings s) else None)\<rparr>"

definition remove_enabled :: "station_row list \<Rightarrow> bool" where
  "remove_enabled stations \<longleftrightarrow> \<not> length stations \<le> 1"

definition current_station :: "station_row list \<Rightarrow> string \<Rightarrow> station_row option" where
  "current_station stations selectedId = List.find (\<lambda>s. sn_id s = selectedId) stations"

record bar_view =
  br_tabs :: "station_tab list"
  br_creating :: "(string \<times> string) option"
  br_remove :: "(bool \<times> string) option"
  br_params :: "station_draft option"
  br_save :: bool
  br_counts :: string

definition bar_view_of :: "(string \<Rightarrow> string) \<Rightarrow> station_row list \<Rightarrow> string \<Rightarrow> station_bar \<Rightarrow> bar_view" where
  "bar_view_of t stations selectedId bar =
     (let current = current_station stations selectedId in
      \<lparr>br_tabs = map (station_tab_of selectedId) stations,
       br_creating = (if sb_creating bar then Some (sd_id (sb_new bar), sd_label (sb_new bar)) else None),
       br_remove = map_option (\<lambda>s. (remove_enabled stations,
          t (if remove_enabled stations then ''station.deleteThis'' else ''station.keepOne''))) current,
       br_params = map_option (\<lambda>s. sb_draft bar) current,
       br_save = draft_changed current bar,
       br_counts = (case current of None \<Rightarrow> []
          | Some s \<Rightarrow> t ''station.modules'' @ '' '' @ show_int (sn_modules s) @ '' '' @ middot @ '' ''
              @ t ''station.points'' @ '' '' @ show_int (sn_variables s))\<rparr>)"

section \<open>Properties\<close>

definition row_decimal :: "point_row \<Rightarrow> bool" where
  "row_decimal row \<longleftrightarrow>
     decimal_num (po_scale row) \<and> decimal_num (po_bias row)
     \<and> pred_option decimal_num (po_safety_min row) \<and> pred_option decimal_num (po_safety_max row)
     \<and> pred_option decimal_num (po_preset_value row)"

lemma toNumberOrNull_limit: "pred_option decimal_num x \<Longrightarrow> toNumberOrNull (limit_text x) = map_option Num x"
  by (cases x)
    (simp_all add: toNumberOrNull_def limit_text_def js_number_show_rat show_rat_not_blank js_is_finite_def)

text \<open>
  C26: a point that is opened in the properties form and saved without a change is sent back field by field as it
  is stored: every number survives its way through the text field, whenever it is one that a double can hold (at
  most 1074 decimals), absent limits and an absent preset stay absent, and so do the name, the tag name, the unit,
  the quality, the hold mode and the signal type. Only the channel may change: a point that has none is sent with
  channel 0, which is the first channel of the station.
\<close>

theorem form_roundtrip:
  assumes "row_decimal row" and "b = form_payload row (form_for (Some row))"
  shows "(bd_scale b, bd_bias b) = (Num (po_scale row), Num (po_bias row))
    \<and> (bd_safety_min b, bd_safety_max b, bd_preset_value b)
        = (map_option Num (po_safety_min row), map_option Num (po_safety_max row), map_option Num (po_preset_value row))
    \<and> (bd_var_name b, bd_point_name b, bd_unit b) = (po_name row, po_point_name row, po_unit row)
    \<and> (bd_has_quality b, bd_fault_hold b, bd_signal_type b) = (po_has_quality row, po_fault_hold row, po_signal_type row)
    \<and> bd_channel b = (case po_channel row of Some c \<Rightarrow> c | None \<Rightarrow> 0)"
  using assms
  by (auto simp: row_decimal_def form_payload_def form_for_def fromRow_def js_number_show_rat toNumberOrNull_limit
      split: option.split)

definition sample_row :: point_row where
  "sample_row = \<lparr>po_name = ''AI1_CH0'', po_direction = ''input'', po_st_type = ''REAL'', po_io_kind = ''AI'',
     po_description = [], po_enabled = True, po_mapped = True, po_channel = Some 0, po_module_id = Some ''AI1'',
     po_point_name = ''PV-001'', po_unit = ''bar'', po_has_quality = True, po_scale = 1 / 2, po_bias = - 3,
     po_safety_min = None, po_safety_max = Some 100, po_fault_hold = [], po_preset_value = None, po_signal_type = []\<rparr>"

lemma decimal_half: "decimal_num (1 / 2)"
proof -
  have "(1 / 2 :: rat) * 10 ^ Suc n = of_int (5 * 10 ^ n)" for n
    by simp
  moreover have "nat max_scale = Suc 1073"
    by (simp add: max_scale_def)
  ultimately show ?thesis
    unfolding decimal_num_def by (metis is_integral_of_int)
qed

lemma sample_row_decimal: "row_decimal sample_row"
  using decimal_num_of_int [of "- 3"] decimal_num_of_int [of 100] decimal_half
  by (simp add: row_decimal_def sample_row_def)

lemma unmapped_row_decimal: "row_decimal (sample_row\<lparr>po_channel := None\<rparr>)"
  using sample_row_decimal by (simp add: row_decimal_def)

theorem form_roundtrip_witness:
  "bd_bias (form_payload sample_row (form_for (Some sample_row))) = Num (- 3)
   \<and> bd_channel (form_payload (sample_row\<lparr>po_channel := None\<rparr>) (form_for (Some (sample_row\<lparr>po_channel := None\<rparr>)))) = 0"
  using form_roundtrip [OF sample_row_decimal refl] form_roundtrip [OF unmapped_row_decimal refl] by (simp add: sample_row_def)

text \<open>
  A scale or a bias that is left blank is saved as zero, although a blank limit means that there is
  none: the form sends the number 0 for a field that holds only white space.
\<close>

theorem blank_scale_is_zero:
  assumes "js_trim (fm_scale form) = []" and "js_trim (fm_safetyMin form) = []"
  shows "bd_scale (form_payload row form) = Num 0 \<and> bd_safety_min (form_payload row form) = None"
  using assms by (simp add: form_payload_def js_number_blank toNumberOrNull_def)

theorem blank_scale_is_zero_witness:
  "bd_scale (form_payload sample_row (EMPTY_FORM\<lparr>fm_scale := '' ''\<rparr>)) = Num 0"
proof -
  have "js_trim '' '' = []"
    by code_simp
  then show ?thesis
    using blank_scale_is_zero [of "EMPTY_FORM\<lparr>fm_scale := '' ''\<rparr>" sample_row] by (simp add: EMPTY_FORM_def)
qed

text \<open>
  Selecting a station leaves its save button off until a parameter differs: the drafts compare
  unchanged exactly when every field of the draft equals the stored one, with a cycle that is not a
  finite number counted as a change.
\<close>

theorem draft_changed_iff:
  "(draft_changed (Some s) bar \<longleftrightarrow> sb_draft bar \<noteq> toDraft s) \<and> \<not> draft_changed (Some s) (bar_for (Some s) bar)"
proof
  have "json_num x = json_num (Num r) \<longleftrightarrow> x = Num r" for x r
    by (cases x) (simp_all add: json_num_def)
  then show "draft_changed (Some s) bar \<longleftrightarrow> sb_draft bar \<noteq> toDraft s"
    by (cases "sb_draft bar") (auto simp: draft_changed_def draft_json_def toDraft_def)
  show "\<not> draft_changed (Some s) (bar_for (Some s) bar)"
    by (simp add: draft_changed_def bar_for_def)
qed

end
