(* ===== verification/PointBoard.thy ===== *)
theory PointBoard
  imports DeviceTypes JsSort
begin

text \<open>
  The card view of the device points (\<open>components/device/PointBoard.tsx\<close>): the lanes of channel cards, the
  multi-selection with its long press, range and batch commands, the inline editor of a name or a
  unit, and the batch edits with the payload of a binding (\<open>payloadFor\<close> of \<open>pages/DevicePage.tsx\<close>).
\<close>

section \<open>Patches of a binding\<close>

datatype patch_field =
    SetPointName string
  | SetUnit string
  | SetSafetyMin "jsnum option"
  | SetSafetyMax "jsnum option"
  | SetSignalType string
  | SetFaultHold string
  | SetPreset "jsnum option"

fun apply_field :: "patch_field \<Rightarrow> binding \<Rightarrow> binding" where
  "apply_field (SetPointName s) b = b\<lparr>bd_point_name := s\<rparr>"
| "apply_field (SetUnit s) b = b\<lparr>bd_unit := s\<rparr>"
| "apply_field (SetSafetyMin x) b = b\<lparr>bd_safety_min := x\<rparr>"
| "apply_field (SetSafetyMax x) b = b\<lparr>bd_safety_max := x\<rparr>"
| "apply_field (SetSignalType s) b = b\<lparr>bd_signal_type := s\<rparr>"
| "apply_field (SetFaultHold s) b = b\<lparr>bd_fault_hold := s\<rparr>"
| "apply_field (SetPreset x) b = b\<lparr>bd_preset_value := x\<rparr>"

text \<open>The binding always goes back whole: the stored row with the patch laid over it.\<close>

definition payloadFor :: "point_row \<Rightarrow> patch_field list \<Rightarrow> binding" where
  "payloadFor row patch = fold apply_field patch (row_payload row)"

record batch_edit =
  be_name :: string
  be_patch :: "patch_field list"

section \<open>Texts\<close>

definition minus_infinity :: string where
  "minus_infinity = utf8 [226, 136, 146, 226, 136, 158]"

definition plus_infinity :: string where
  "plus_infinity = ''+'' @ utf8 [226, 136, 158]"

definition ellipsis :: string where
  "ellipsis = utf8 [226, 128, 166]"

definition en_dash :: string where
  "en_dash = utf8 [226, 128, 147]"

definition rangeOf :: "point_row \<Rightarrow> string" where
  "rangeOf row =
     (if po_safety_min row = None \<and> po_safety_max row = None then []
      else (case po_safety_min row of None \<Rightarrow> minus_infinity | Some r \<Rightarrow> show_rat r)
        @ '' '' @ ellipsis @ '' ''
        @ (case po_safety_max row of None \<Rightarrow> plus_infinity | Some r \<Rightarrow> show_rat r))"

definition numberOrNull :: "string option \<Rightarrow> jsnum option" where
  "numberOrNull v =
     (let shown = js_trim (case v of None \<Rightarrow> [] | Some s \<Rightarrow> s) in
      if shown = [] then None
      else let parsed = js_number shown in if js_is_finite parsed then Some parsed else None)"

section \<open>Lanes\<close>

datatype cell = PointCell point_row int | EmptyCell int

record lane =
  la_id :: string
  la_kind :: string
  la_label :: string
  la_range :: string
  la_cells :: "cell list"

type_synonym point_table = "(string, point_row) obj"

definition channel_row :: "point_table \<Rightarrow> channel_info \<Rightarrow> point_row option" where
  "channel_row byName c =
     (case ch_var_name c of None \<Rightarrow> None | Some v \<Rightarrow> if v = [] then None else obj_get byName v)"

definition channel_cell :: "point_table \<Rightarrow> channel_info \<Rightarrow> cell" where
  "channel_cell byName c =
     (case channel_row byName c of Some row \<Rightarrow> PointCell row (ch_channel c) | None \<Rightarrow> EmptyCell (ch_channel c))"

definition by_first_channel :: "module_view \<Rightarrow> module_view \<Rightarrow> int" where
  "by_first_channel a b = mo_first_channel a - mo_first_channel b"

definition module_lane :: "point_table \<Rightarrow> module_view \<Rightarrow> lane" where
  "module_lane byName m =
     \<lparr>la_id = mo_id m, la_kind = mo_kind m, la_label = table_or IO_KIND_LABEL (mo_kind m) (mo_label m),
      la_range = ''CH'' @ show_int (mo_first_channel m) @ en_dash @ show_int (mo_last_channel m),
      la_cells = map (channel_cell byName) (mo_channels m)\<rparr>"

definition covered :: "point_table \<Rightarrow> module_view list \<Rightarrow> string list" where
  "covered byName modules =
     map po_name (List.map_filter (channel_row byName) (concat (map mo_channels modules)))"

definition orphans :: "point_table \<Rightarrow> module_view list \<Rightarrow> point_row list" where
  "orphans byName modules = filter (\<lambda>r. po_name r \<notin> set (covered byName modules)) (obj_values byName)"

definition orphan_lane :: "(string \<Rightarrow> string) \<Rightarrow> point_row list \<Rightarrow> lane" where
  "orphan_lane t rows =
     \<lparr>la_id = t ''pointBoard.noChannel'', la_kind = po_io_kind (hd rows), la_label = t ''pointBoard.noChannelDesc'',
      la_range = show_nat (length rows) @ '' '' @ t ''pointBoard.point'',
      la_cells = map (\<lambda>r. PointCell r (case po_channel r of None \<Rightarrow> - 1 | Some c \<Rightarrow> c)) rows\<rparr>"

definition lanes :: "(string \<Rightarrow> string) \<Rightarrow> module_view list \<Rightarrow> point_table \<Rightarrow> lane list" where
  "lanes t modules byName =
     (let built = map (module_lane byName) (js_sort by_first_channel modules);
          left_over = orphans byName modules
      in if left_over = [] then built else built @ [orphan_lane t left_over])"

definition cell_names :: "cell list \<Rightarrow> string list" where
  "cell_names cells = List.map_filter (\<lambda>c. case c of PointCell r ch \<Rightarrow> Some (po_name r) | EmptyCell ch \<Rightarrow> None) cells"

definition board_order :: "lane list \<Rightarrow> string list" where
  "board_order ls = concat (map (cell_names \<circ> la_cells) ls)"

definition live_count :: "lane \<Rightarrow> nat" where
  "live_count l = length (filter (\<lambda>c. case c of PointCell r ch \<Rightarrow> po_enabled r | EmptyCell ch \<Rightarrow> False) (la_cells l))"

section \<open>Selection\<close>

datatype edit_field = FieldPointName | FieldUnit

definition field_value :: "edit_field \<Rightarrow> point_row \<Rightarrow> string" where
  "field_value f row = (case f of FieldPointName \<Rightarrow> po_point_name row | FieldUnit \<Rightarrow> po_unit row)"

record board =
  pb_selected :: "string jset"
  pb_mode :: bool
  pb_timer :: "string option"
  pb_fired :: bool
  pb_editing :: "(string \<times> edit_field) option"
  pb_draft :: string

definition leave_selection :: "board \<Rightarrow> board" where
  "leave_selection b = b\<lparr>pb_mode := False, pb_selected := []\<rparr>"

definition startEdit :: "point_row \<Rightarrow> edit_field \<Rightarrow> board \<Rightarrow> board" where
  "startEdit row f b = b\<lparr>pb_editing := Some (po_name row, f), pb_draft := field_value f row\<rparr>"

text \<open>The second component is the patch handed to \<open>onEdit\<close>.\<close>

definition commit :: "point_row \<Rightarrow> edit_field \<Rightarrow> board \<Rightarrow> board \<times> patch_field option" where
  "commit row f b =
     (let next = js_trim (pb_draft b); b1 = b\<lparr>pb_editing := None\<rparr> in
      if next = field_value f row then (b1, None)
      else (b1, Some (case f of FieldPointName \<Rightarrow> SetPointName next | FieldUnit \<Rightarrow> SetUnit next)))"

definition pressStart :: "string \<Rightarrow> board \<Rightarrow> board" where
  "pressStart name b = b\<lparr>pb_fired := False, pb_timer := Some name\<rparr>"

definition hold_fires :: "board \<Rightarrow> board" where
  "hold_fires b =
     (case pb_timer b of None \<Rightarrow> b
      | Some name \<Rightarrow> b\<lparr>pb_timer := None, pb_fired := True, pb_mode := True,
          pb_selected := (if pb_selected b \<noteq> [] then jset_add name (pb_selected b) else [name])\<rparr>)"

definition pressEnd :: "board \<Rightarrow> board" where
  "pressEnd b = b\<lparr>pb_timer := None\<rparr>"

text \<open>What \<open>pickCard\<close> returns: \<open>true\<close>, \<open>false\<close>, or \<open>undefined\<close> after a long press.\<close>

datatype picked = Picked | NotPicked | Swallowed

definition range_names :: "string list \<Rightarrow> string jset \<Rightarrow> string \<Rightarrow> string list" where
  "range_names order selected name =
     (let to1 = js_index_of order name;
          from1 = (if selected = [] \<or> last selected = [] then to1 else js_index_of order (last selected))
      in if from1 \<le> to1 then js_slice order from1 (to1 + 1) else js_slice order to1 (from1 + 1))"

definition toggle_name :: "string \<Rightarrow> string jset \<Rightarrow> string jset" where
  "toggle_name name s = (if jset_has s name then jset_remove name s else jset_add name s)"

definition pickCard :: "string list \<Rightarrow> string \<Rightarrow> bool \<Rightarrow> board \<Rightarrow> board \<times> picked" where
  "pickCard order name shift b =
     (if pb_fired b then (b\<lparr>pb_fired := False\<rparr>, Swallowed)
      else if \<not> pb_mode b then (b, NotPicked)
      else if shift then
        (b\<lparr>pb_selected := fold jset_add (range_names order (pb_selected b) name) (pb_selected b)\<rparr>, Picked)
      else (b\<lparr>pb_selected := toggle_name name (pb_selected b)\<rparr>, Picked))"

text \<open>A click and the Enter or space key on a card; the second component is the channel selected.\<close>

definition card_click :: "string list \<Rightarrow> string \<Rightarrow> int \<Rightarrow> bool \<Rightarrow> board \<Rightarrow> board \<times> int option" where
  "card_click order name channel shift b =
     (let (b1, r) = pickCard order name shift b in
      if r = Picked then (b1, None) else (b1, if channel \<ge> 0 then Some channel else None))"

definition card_key :: "string \<Rightarrow> string list \<Rightarrow> string \<Rightarrow> int \<Rightarrow> bool \<Rightarrow> board \<Rightarrow> board \<times> int option" where
  "card_key key order name channel shift b =
     (if key \<noteq> ''Enter'' \<and> key \<noteq> '' '' then (b, None)
      else let (b1, r) = pickCard order name shift b in
        if r = Picked then (b1, None) else (b1, Some channel))"

definition select_lane :: "lane \<Rightarrow> board \<Rightarrow> board" where
  "select_lane l b = b\<lparr>pb_mode := True, pb_selected := fold jset_add (cell_names (la_cells l)) (pb_selected b)\<rparr>"

definition all_on :: "string list \<Rightarrow> board \<Rightarrow> bool" where
  "all_on order b \<longleftrightarrow> 0 < length order \<and> length (pb_selected b) = length order"

definition toggle_all :: "string list \<Rightarrow> board \<Rightarrow> board" where
  "toggle_all order b = b\<lparr>pb_selected := jset_of (if all_on order b then [] else order)\<rparr>"

definition invert_selection :: "string list \<Rightarrow> board \<Rightarrow> board" where
  "invert_selection order b = b\<lparr>pb_selected := jset_of (filter (\<lambda>n. \<not> jset_has (pb_selected b) n) order)\<rparr>"

text \<open>The keyboard: Escape leaves the selection, Ctrl+A takes every point.\<close>

definition board_key :: "string list \<Rightarrow> bool \<Rightarrow> string \<Rightarrow> bool \<Rightarrow> board \<Rightarrow> board" where
  "board_key order in_field key ctrl b =
     (if in_field then b
      else let b1 = (if key = ''Escape'' then leave_selection b else b) in
        if pb_mode b \<and> ctrl \<and> js_to_lower key = ''a'' then b1\<lparr>pb_selected := jset_of order\<rparr> else b1)"

text \<open>The gestures of the board, and what each asks of the page.\<close>

datatype board_event =
    EnterSelection
  | LeaveSelection
  | JoinSelection string
  | Press string
  | HoldFires
  | Release
  | Click string int bool
  | CardKey string string int bool
  | SelectLane lane
  | ToggleAll
  | InvertSelection
  | WindowKey bool string bool
  | StartEdit point_row edit_field
  | TypeDraft string
  | CommitEdit point_row edit_field
  | CancelEdit

datatype board_request = NoRequest | WantChannel int | WantEdit point_row patch_field

fun board_step :: "string list \<Rightarrow> board_event \<Rightarrow> board \<Rightarrow> board \<times> board_request" where
  "board_step order EnterSelection b = (b\<lparr>pb_mode := True\<rparr>, NoRequest)"
| "board_step order LeaveSelection b = (leave_selection b, NoRequest)"
| "board_step order (JoinSelection name) b = (b\<lparr>pb_selected := jset_add name (pb_selected b)\<rparr>, NoRequest)"
| "board_step order (Press name) b = (pressStart name b, NoRequest)"
| "board_step order HoldFires b = (hold_fires b, NoRequest)"
| "board_step order Release b = (pressEnd b, NoRequest)"
| "board_step order (Click name channel shift) b =
     (let (b1, c) = card_click order name channel shift b
      in (b1, case c of None \<Rightarrow> NoRequest | Some ch \<Rightarrow> WantChannel ch))"
| "board_step order (CardKey key name channel shift) b =
     (let (b1, c) = card_key key order name channel shift b
      in (b1, case c of None \<Rightarrow> NoRequest | Some ch \<Rightarrow> WantChannel ch))"
| "board_step order (SelectLane l) b = (select_lane l b, NoRequest)"
| "board_step order ToggleAll b = (toggle_all order b, NoRequest)"
| "board_step order InvertSelection b = (invert_selection order b, NoRequest)"
| "board_step order (WindowKey in_field key ctrl) b = (board_key order in_field key ctrl b, NoRequest)"
| "board_step order (StartEdit row f) b = (startEdit row f b, NoRequest)"
| "board_step order (TypeDraft s) b = (b\<lparr>pb_draft := s\<rparr>, NoRequest)"
| "board_step order (CommitEdit row f) b =
     (let (b1, c) = commit row f b in (b1, case c of None \<Rightarrow> NoRequest | Some x \<Rightarrow> WantEdit row x))"
| "board_step order CancelEdit b = (b\<lparr>pb_editing := None\<rparr>, NoRequest)"

section \<open>Batch edits\<close>

definition menu_targets :: "string list \<Rightarrow> board \<Rightarrow> string list" where
  "menu_targets order b = filter (jset_has (pb_selected b)) order"

datatype batch_action = BatchEnable | BatchDisable | BatchDelete

text \<open>What the entry of a context menu does; the entries that open a small form are named after it.\<close>

datatype menu_action =
    MenuNone
  | MenuToggle string bool
  | MenuEdit point_row edit_field
  | MenuDelete string
  | MenuCreate string int
  | MenuJoin string
  | MenuBatch "string list" batch_action
  | MenuRename
  | MenuUnit
  | MenuRange
  | MenuSignalType
  | MenuFaultHold
  | MenuLeave

type_synonym menu_entry = "string \<times> menu_action"

definition separator :: menu_entry where
  "separator = ([], MenuNone)"

definition join_entries :: "(string \<Rightarrow> string) \<Rightarrow> point_row option \<Rightarrow> board \<Rightarrow> menu_entry list" where
  "join_entries t row b =
     (case row of None \<Rightarrow> []
      | Some r \<Rightarrow> if jset_has (pb_selected b) (po_name r) then []
          else [(t ''pointBoard.addToSelection'' @ '' '' @ po_name r @ '' '' @ t ''pointBoard.addToSelection2'', MenuJoin (po_name r)),
                separator])"

definition group_menu :: "(string \<Rightarrow> string) \<Rightarrow> string list \<Rightarrow> point_row option \<Rightarrow> board \<Rightarrow> menu_entry list" where
  "group_menu t targets row b =
     [(t ''pointBoard.applyToSelected'' @ '' '' @ show_nat (length targets) @ '' '' @ t ''pointBoard.applyToSelected2'', MenuNone)]
     @ join_entries t row b
     @ [(t ''pointBoard.batchEnable'', MenuBatch targets BatchEnable),
        (t ''pointBoard.batchDisable'', MenuBatch targets BatchDisable),
        separator,
        (t ''pointBoard.batchRename'', MenuRename),
        (t ''pointBoard.batchUnit'', MenuUnit),
        (t ''pointBoard.batchRange'', MenuRange),
        (t ''pointBoard.batchSignalType'', MenuSignalType),
        (t ''pointBoard.batchFaultHold'', MenuFaultHold),
        separator,
        (t ''pointBoard.batchDelete'', MenuBatch targets BatchDelete),
        (t ''pointBoard.deselect'', MenuLeave)]"

text \<open>With a live selection the menu describes the group; otherwise the card or the free channel.\<close>

definition openMenu :: "(string \<Rightarrow> string) \<Rightarrow> string list \<Rightarrow> point_row option \<Rightarrow> string \<Rightarrow> int \<Rightarrow> board \<Rightarrow> menu_entry list" where
  "openMenu t order row moduleId channel b =
     (let targets = menu_targets order b in
      if pb_mode b \<and> 0 < length targets then group_menu t targets row b
      else (case row of
          Some r \<Rightarrow>
            [(if po_enabled r then t ''pointBoard.clickDisable'' else t ''pointBoard.clickEnable'', MenuToggle (po_name r) (\<not> po_enabled r)),
             (t ''pointBoard.editName'', MenuEdit r FieldPointName),
             (t ''common.delete'', MenuDelete (po_name r))]
        | None \<Rightarrow> [(t ''pointBoard.createPoint'', MenuCreate moduleId channel)]))"

definition batch_edits :: "string list \<Rightarrow> (nat \<Rightarrow> patch_field list) \<Rightarrow> batch_edit list" where
  "batch_edits targets build = map_index (\<lambda>i name. \<lparr>be_name = name, be_patch = build i\<rparr>) targets"

text \<open>\<open>s.padStart(width, "0")\<close>\<close>

definition pad_start :: "nat \<Rightarrow> string \<Rightarrow> string" where
  "pad_start width s = zeros (width - length s) @ s"

definition rename_width :: "jsnum \<Rightarrow> nat \<Rightarrow> nat" where
  "rename_width start n = max 2 (length (show_num (js_plus start (Num (of_nat n - 1)))))"

definition renamed :: "string \<Rightarrow> jsnum \<Rightarrow> nat \<Rightarrow> nat \<Rightarrow> string" where
  "renamed prefix1 start n index =
     prefix1 @ pad_start (rename_width start n) (show_num (js_plus start (Num (of_nat index))))"

definition batch_rename :: "string list \<Rightarrow> string \<Rightarrow> string \<Rightarrow> batch_edit list" where
  "batch_rename targets typed_prefix typed_start =
     (let prefix1 = js_trim typed_prefix; start = js_or_default (js_number typed_start) 1 in
      if prefix1 = [] then []
      else batch_edits targets (\<lambda>i. [SetPointName (renamed prefix1 start (length targets) i)]))"

definition batch_unit :: "string list \<Rightarrow> string \<Rightarrow> batch_edit list" where
  "batch_unit targets typed = batch_edits targets (\<lambda>i. [SetUnit (js_trim typed)])"

definition batch_range :: "string list \<Rightarrow> string option \<Rightarrow> string option \<Rightarrow> batch_edit list" where
  "batch_range targets low high =
     batch_edits targets (\<lambda>i. [SetSafetyMin (numberOrNull low), SetSafetyMax (numberOrNull high)])"

definition batch_signal_type :: "string list \<Rightarrow> string \<Rightarrow> batch_edit list" where
  "batch_signal_type targets v = batch_edits targets (\<lambda>i. [SetSignalType v])"

definition batch_fault_hold :: "string list \<Rightarrow> string \<Rightarrow> string option \<Rightarrow> batch_edit list" where
  "batch_fault_hold targets hold preset =
     batch_edits targets (\<lambda>i. [SetFaultHold hold, SetPreset (if hold = ''preset'' then numberOrNull preset else None)])"

section \<open>What is shown\<close>

record card_view =
  cv_name :: string
  cv_title :: string
  cv_picked :: bool
  cv_marked :: bool
  cv_on :: bool
  cv_box :: bool
  cv_error :: "string option"
  cv_editor :: "(edit_field \<times> string) option"
  cv_tag :: string
  cv_unit :: string
  cv_chips :: "string list"

datatype shown_cell = FreeCard int string | PointCard card_view

text \<open>\<open>text || fallback\<close>\<close>

definition or_text :: "string \<Rightarrow> string \<Rightarrow> string" where
  "or_text s d = (if s = [] then d else s)"

definition hold_text :: "point_row \<Rightarrow> string" where
  "hold_text row = (if po_fault_hold row = [] then [] else table_or HOLD_LABELS (po_fault_hold row) (po_fault_hold row))"

definition chips :: "(string \<Rightarrow> string) \<Rightarrow> point_row \<Rightarrow> string list" where
  "chips t row =
     [or_text (rangeOf row) (t ''pointBoard.noScale'')]
     @ (if po_has_quality row then [t ''pointBoard.qualityBadge''] else [])
     @ (if hold_text row = [] then [] else [t ''pointBoard.faultBadge'' @ hold_text row])
     @ [po_st_type row]"

definition show_card :: "(string \<Rightarrow> string) \<Rightarrow> (string, string) obj \<Rightarrow> string option \<Rightarrow> board \<Rightarrow> point_row \<Rightarrow> card_view" where
  "show_card t errorByVar selectedVar b row =
     \<lparr>cv_name = po_name row,
      cv_title = po_name row @ '' '' @ middot @ '' '' @ table_or IO_KIND_LABEL (po_io_kind row) [],
      cv_picked = jset_has (pb_selected b) (po_name row),
      cv_marked = (jset_has (pb_selected b) (po_name row) \<or> selectedVar = Some (po_name row)),
      cv_on = po_enabled row, cv_box = pb_mode b,
      cv_error = (case obj_get errorByVar (po_name row) of None \<Rightarrow> None | Some e \<Rightarrow> if e = [] then None else Some e),
      cv_editor = (case pb_editing b of None \<Rightarrow> None
         | Some (name, f) \<Rightarrow> if name = po_name row then Some (f, pb_draft b) else None),
      cv_tag = or_text (po_point_name row) (t ''pointBoard.fillName''),
      cv_unit = or_text (po_unit row) (t ''pointBoard.unitPlaceholder''),
      cv_chips = chips t row\<rparr>"

definition show_cell :: "(string \<Rightarrow> string) \<Rightarrow> (string, string) obj \<Rightarrow> string option \<Rightarrow> board \<Rightarrow> cell \<Rightarrow> shown_cell" where
  "show_cell t errorByVar selectedVar b c =
     (case c of PointCell row ch \<Rightarrow> PointCard (show_card t errorByVar selectedVar b row)
      | EmptyCell ch \<Rightarrow> FreeCard ch (''CH'' @ show_int ch @ '' '' @ t ''pointBoard.idleLabel''))"

record lane_view =
  lv_kind :: string
  lv_color :: string
  lv_id :: string
  lv_label :: string
  lv_range :: string
  lv_live :: string
  lv_select_all :: bool
  lv_cards :: "shown_cell list"

definition show_lane :: "(string \<Rightarrow> string) \<Rightarrow> (string, string) obj \<Rightarrow> string option \<Rightarrow> board \<Rightarrow> lane \<Rightarrow> lane_view" where
  "show_lane t errorByVar selectedVar b l =
     \<lparr>lv_kind = or_text (la_kind l) dash_text, lv_color = table_or KIND_COLOR (la_kind l) ''rgb(var(--ide-text-dim))'',
      lv_id = la_id l, lv_label = la_label l, lv_range = la_range l,
      lv_live = t ''extVar.enabled'' @ '' '' @ show_nat (live_count l) @ ''/'' @ show_nat (length (la_cells l)),
      lv_select_all = (cell_names (la_cells l) \<noteq> []),
      lv_cards = map (show_cell t errorByVar selectedVar b) (la_cells l)\<rparr>"

record batch_bar =
  bb_text :: string
  bb_all :: string
  bb_enabled :: bool

definition show_bar :: "(string \<Rightarrow> string) \<Rightarrow> string list \<Rightarrow> board \<Rightarrow> batch_bar option" where
  "show_bar t order b =
     (if pb_mode b then
        Some \<lparr>bb_text = t ''pointBoard.selected'' @ '' '' @ show_nat (length (pb_selected b)) @ '' '' @ t ''pointBoard.point'',
          bb_all = t (if all_on order b then ''pointBoard.deselectAll'' else ''pointBoard.selectAllBtn''),
          bb_enabled = (pb_selected b \<noteq> [])\<rparr>
      else None)"

definition show_board :: "(string \<Rightarrow> string) \<Rightarrow> lane list \<Rightarrow> (string, string) obj \<Rightarrow> string option \<Rightarrow> board
    \<Rightarrow> string option \<times> lane_view list \<times> batch_bar option" where
  "show_board t ls errorByVar selectedVar b =
     (if ls = [] then Some (t ''pointBoard.notConfigured'') else None,
      map (show_lane t errorByVar selectedVar b) ls, show_bar t (board_order ls) b)"

section \<open>Properties\<close>

definition keyed :: "point_table \<Rightarrow> bool" where
  "keyed byName \<longleftrightarrow> obj_wf byName \<and> (\<forall>(k, r)\<in>set byName. po_name r = k)"

lemma keyed_get: "keyed byName \<Longrightarrow> obj_get byName k = Some r \<longleftrightarrow> (k, r) \<in> set byName"
  by (auto simp: keyed_def obj_wf_def obj_get_def)

lemma keyed_names: "keyed byName \<Longrightarrow> set (map po_name (obj_values byName)) = set (obj_keys byName)"
  by (force simp: keyed_def obj_values_def obj_keys_def)

lemma set_cell_names_channels:
  "set (cell_names (map (channel_cell byName) cs)) = po_name ` {r. \<exists>c\<in>set cs. channel_row byName c = Some r}"
  by (induction cs)
    (auto simp: cell_names_def List.map_filter_simps channel_cell_def split: option.splits)

lemma set_covered:
  "set (covered byName modules) = po_name ` {r. \<exists>m\<in>set modules. \<exists>c\<in>set (mo_channels m). channel_row byName c = Some r}"
  unfolding covered_def by (force simp: List.map_filter_def)

lemma set_module_lanes:
  "set (board_order (map (module_lane byName) ms)) = po_name ` {r. \<exists>m\<in>set ms. \<exists>c\<in>set (mo_channels m). channel_row byName c = Some r}"
  unfolding board_order_def by (auto simp: module_lane_def set_cell_names_channels)

lemma orphan_lane_names: "cell_names (la_cells (orphan_lane t rows)) = map po_name rows"
  by (simp add: cell_names_def orphan_lane_def List.map_filter_def comp_def)

lemma board_order_snoc: "board_order (ls @ [l]) = board_order ls @ cell_names (la_cells l)"
  by (simp add: board_order_def)

lemma set_board_order:
  "set (board_order (lanes t modules byName)) = set (covered byName modules) \<union> set (map po_name (orphans byName modules))"
  unfolding lanes_def Let_def
  by (simp add: board_order_snoc orphan_lane_names set_module_lanes set_js_sort set_covered del: map_map)

lemma channel_row_key: "keyed byName \<Longrightarrow> channel_row byName c = Some r \<Longrightarrow> po_name r \<in> set (obj_keys byName)"
  by (force simp: channel_row_def obj_keys_def obj_get_def keyed_def dest!: map_of_SomeD split: option.splits if_splits)

lemma board_order_keys:
  assumes "keyed byName"
  shows "set (board_order (lanes t modules byName)) = set (obj_keys byName)"
proof -
  have "set (covered byName modules) \<subseteq> set (obj_keys byName)"
    unfolding set_covered by (blast intro: channel_row_key [OF assms])
  moreover have "set (map po_name (orphans byName modules))
      = set (map po_name (obj_values byName)) - set (covered byName modules)"
    unfolding orphans_def by auto
  ultimately show ?thesis
    unfolding set_board_order keyed_names [OF assms, symmetric] by blast
qed

lemma set_fold_jset_add: "set (fold jset_add xs s) = set xs \<union> set s"
  by (induction xs arbitrary: s) (auto simp: jset_add_def)

lemma js_index_of_nth: "distinct xs \<Longrightarrow> i < length xs \<Longrightarrow> js_index_of xs (xs ! i) = int i"
  using js_index_of_in [of "xs ! i" xs] by (metis nat_eq_iff nth_eq_iff_index_eq nth_mem)

lemma set_range_names:
  assumes "distinct order" and "i < length order" and "j < length order"
  shows "set (range_names order (picks @ [order ! i]) (order ! j)) =
    (if order ! i = [] then {order ! j} else {order ! k | k. min i j \<le> k \<and> k \<le> max i j})"
  using assms set_js_slice [of "int i" "int j" order] set_js_slice [of "int j" "int i" order]
    set_js_slice [of "int j" "int j" order]
  by (auto simp: range_names_def Let_def js_index_of_nth min_def max_def)

text \<open>
  A shift-click in the selection mode adds the cards between the last picked one and the clicked one,
  both included and in either direction, and drops nothing that was picked before.
\<close>

theorem shift_click_picks_range:
  assumes "pb_mode b" and "\<not> pb_fired b" and "pb_selected b = picks @ [order ! i]" and "order ! i \<noteq> []"
    and "distinct order" and "i < length order" and "j < length order"
  shows "snd (pickCard order (order ! j) True b) = Picked
    \<and> set (pb_selected (fst (pickCard order (order ! j) True b))) =
        set (pb_selected b) \<union> {order ! k | k. min i j \<le> k \<and> k \<le> max i j}"
  using assms by (auto simp: pickCard_def set_fold_jset_add set_range_names)

definition empty_board :: board where
  "empty_board = \<lparr>pb_selected = [], pb_mode = False, pb_timer = None, pb_fired = False, pb_editing = None, pb_draft = []\<rparr>"

theorem shift_click_picks_range_witness:
  "''B'' \<in> set (pb_selected (fst (pickCard [''A'', ''B'', ''C''] ''A'' True (empty_board\<lparr>pb_mode := True, pb_selected := [''C'']\<rparr>))))"
proof -
  have "set (pb_selected (fst (pickCard [''A'', ''B'', ''C''] ([''A'', ''B'', ''C''] ! 0) True
      (empty_board\<lparr>pb_mode := True, pb_selected := [''C'']\<rparr>))))
    = set [''C''] \<union> {[''A'', ''B'', ''C''] ! k | k. min 2 0 \<le> k \<and> k \<le> max 2 (0 :: nat)}"
    using shift_click_picks_range [of "empty_board\<lparr>pb_mode := True, pb_selected := [''C'']\<rparr>" "[]" "[''A'', ''B'', ''C'']" 2 0]
    by (simp add: empty_board_def)
  then show ?thesis
    by (auto intro!: exI [of _ "1 :: nat"])
qed

text \<open>
  Inverting the selection picks exactly the cards of the board that were not picked, and inverting twice
  picks the cards that were picked before, without any point that has left the board.
\<close>

theorem invert_selection_twice:
  "set (pb_selected (invert_selection order b)) = set order - set (pb_selected b)
   \<and> set (pb_selected (invert_selection order (invert_selection order b))) = set order \<inter> set (pb_selected b)"
  by (auto simp: invert_selection_def jset_of_set jset_has_def)

text \<open>
  The click that ends a long press is swallowed by the selection but not by the card: after the hold
  has picked the point, releasing the pointer also selects the channel and so opens another point in the
  properties panel.
\<close>

theorem long_press_also_selects:
  assumes "0 \<le> channel" and "b' = pressEnd (hold_fires (pressStart name b))"
  shows "name \<in> set (pb_selected b') \<and> pb_mode b'
    \<and> card_click order name channel False b' = (b'\<lparr>pb_fired := False\<rparr>, Some channel)"
  using assms
  by (simp add: pressEnd_def hold_fires_def pressStart_def card_click_def pickCard_def jset_add_def)

theorem long_press_also_selects_witness:
  "snd (card_click [''A''] ''A'' 3 False (pressEnd (hold_fires (pressStart ''A'' empty_board)))) = Some 3"
  using long_press_also_selects [of 3 "pressEnd (hold_fires (pressStart ''A'' empty_board))" "''A''" empty_board "[''A'']"]
  by simp

section \<open>Batch renaming\<close>

lemma rename_number:
  assumes "k + n < 10 ^ 21" and "i < n"
  shows "show_num (js_plus (Num (of_nat k)) (Num (of_nat i))) = show_nat (k + i)"
  using show_rat_of_nat [of "k + i"] assms by simp

lemma renamed_text:
  assumes "k + n < 10 ^ 21" and "i < n"
  shows "renamed prefix1 (Num (of_nat k)) n i =
    prefix1 @ zeros (max 2 (length (show_nat (k + n - 1))) - length (show_nat (k + i))) @ show_nat (k + i)"
proof -
  have "(of_nat n - 1 :: rat) = of_nat (n - 1)"
    using assms(2) by (simp add: of_nat_diff)
  then have "rename_width (Num (of_nat k)) n = max 2 (length (show_nat (k + n - 1)))"
    using rename_number [OF assms(1), of "n - 1"] assms(2) by (simp add: rename_width_def)
  then show ?thesis
    using rename_number [OF assms] by (simp add: renamed_def pad_start_def)
qed

lemma renamed_length:
  assumes "k + n < 10 ^ 21" and "i < n"
  shows "length (renamed prefix1 (Num (of_nat k)) n i) = length prefix1 + max 2 (length (show_nat (k + n - 1)))"
proof -
  have "length (show_nat (k + i)) \<le> length (show_nat (k + n - 1))"
    using assms(2) by (intro show_nat_length_mono) simp
  then show ?thesis
    unfolding renamed_text [OF assms] by simp
qed

lemma renamed_inj:
  assumes "k + n < 10 ^ 21"
  shows "inj_on (renamed prefix1 (Num (of_nat k)) n) {..<n}"
proof (rule inj_onI)
  fix i j
  assume "i \<in> {..<n}" and "j \<in> {..<n}"
    and "renamed prefix1 (Num (of_nat k)) n i = renamed prefix1 (Num (of_nat k)) n j"
  then have "zeros (max 2 (length (show_nat (k + n - 1))) - length (show_nat (k + i))) @ show_nat (k + i)
      = zeros (max 2 (length (show_nat (k + n - 1))) - length (show_nat (k + j))) @ show_nat (k + j)"
    by (simp add: renamed_text [OF assms])
  then have "digits_val (show_nat (k + i)) = digits_val (show_nat (k + j))"
    by (metis digits_val_zeros_append)
  then show "i = j"
    by (simp add: digits_val_show_nat)
qed

lemma map_index_upt: "map_index f xs = map (\<lambda>i. f i (xs ! i)) [0..<length xs]"
  by (rule nth_equalityI) (simp_all add: map_index_def nth_enumerate_eq)

lemma batch_rename_edits:
  assumes "js_trim typed_prefix \<noteq> []" and "0 < k" and "k + length targets < 10 ^ 21"
  shows "batch_rename targets typed_prefix (show_nat k) =
    map (\<lambda>i. \<lparr>be_name = targets ! i,
             be_patch = [SetPointName (renamed (js_trim typed_prefix) (Num (of_nat k)) (length targets) i)]\<rparr>)
      [0..<length targets]"
proof -
  have "js_or_default (js_number (show_nat k)) 1 = Num (of_nat k)"
    using assms(2,3) js_number_show_nat [of k] by (simp add: js_or_default_def)
  then show ?thesis
    using assms(1) by (simp add: batch_rename_def batch_edits_def map_index_upt)
qed

lemma renamed_distinct:
  "k + n < 10 ^ 21 \<Longrightarrow> distinct (map (renamed prefix1 (Num (of_nat k)) n) [0..<n])"
  using renamed_inj by (simp add: distinct_map atLeast_upt)

end
