(* ===== verification/DevicePage.thy ===== *)
theory DevicePage
  imports PointBoard
begin

text \<open>
  The device configuration page (\<open>pages/DevicePage.tsx\<close>): reading a station, the operations on points,
  modules and stations, the batch operations and the guard against deleting a point the graph still uses.

  The HTTP interface of the device service is a parameter: a record of functions on a state \<open>'w\<close> of the
  outside world, one per request, each with its answer or the message of the error that \<open>call\<close> throws.
  A handler is a function on that state and the state of the page; toasts and bus events are logged in
  the page.
\<close>

section \<open>The service\<close>

type_synonym ('w, 'a) io = "'w \<Rightarrow> 'w \<times> (string + 'a)"

definition io_return :: "'a \<Rightarrow> ('w, 'a) io" where
  "io_return a w = (w, Inr a)"

definition io_bind :: "('w, 'a) io \<Rightarrow> ('a \<Rightarrow> ('w, 'b) io) \<Rightarrow> ('w, 'b) io" where
  "io_bind m f w = (case m w of (w1, Inl e) \<Rightarrow> (w1, Inl e) | (w1, Inr a) \<Rightarrow> f a w1)"

text \<open>\<open>text || fallback\<close> on the body of an answer that is not ok: its \<open>detail\<close>, its text, or its status.\<close>

definition call_error :: "nat \<Rightarrow> string \<Rightarrow> string option option \<Rightarrow> string" where
  "call_error status body parsed =
     or_text (case parsed of Some (Some detail) \<Rightarrow> detail | _ \<Rightarrow> body) (''HTTP '' @ show_nat status)"

record module_request =
  mq_id :: string
  mq_kind :: string
  mq_first :: jsnum
  mq_count :: jsnum
  mq_label :: "string option"

datatype command =
    PutMapping string binding
  | PutChannelName string string int string
  | PostModule string module_request
  | DeleteModule string string
  | PostPoint string string int
  | PutEnabled string string bool
  | DeleteVariable string string
  | PostStation station_draft
  | PutStation string station_draft
  | DeleteStation string

record 'w api =
  api_stations :: "('w, station_row list) io"
  api_hardware :: "string \<Rightarrow> ('w, module_view list) io"
  api_points :: "string \<Rightarrow> ('w, point_row list) io"
  api_validate :: "string \<Rightarrow> ('w, issue list \<times> issue list) io"
  api_iomap :: "string \<Rightarrow> ('w, string) io"
  api_bound :: "('w, string list) io"
  api_send :: "command \<Rightarrow> ('w, unit) io"

text \<open>The names the graph binds; a service that does not answer binds none.\<close>

definition graphBoundNames :: "'w api \<Rightarrow> 'w \<Rightarrow> 'w \<times> string jset" where
  "graphBoundNames api w =
     (case api_bound api w of (w1, Inl e) \<Rightarrow> (w1, [])
      | (w1, Inr names) \<Rightarrow> (w1, jset_of (filter (\<lambda>n. n \<noteq> []) names)))"

section \<open>The state of the page\<close>

datatype effect =
    ToastSuccess string string
  | ToastWarning string string
  | ToastError string string
  | BindingsChanged "(string \<times> int) list"
  | ModuleAdded string string
  | ModuleRemoved string
  | StationSaved string

datatype point_view = BoardView | TableView

record module_form =
  mf_id :: string
  mf_kind :: string
  mf_first :: string
  mf_count :: string

text \<open>
  The two counters stand for the identity of the arrays of points and of stations, which the effects of
  the form and of the station bar depend on.
\<close>

record device_page =
  dp_stations :: "station_row list"
  dp_stationId :: string
  dp_modules :: "module_view list"
  dp_points :: "point_row list"
  dp_issues :: "issue list"
  dp_stPreview :: string
  dp_showSt :: bool
  dp_selectedVar :: "string option"
  dp_selectedChannel :: "int option"
  dp_view :: point_view
  dp_stored_view :: "string option"
  dp_hideDisabled :: bool
  dp_board :: board
  dp_collapsed :: "(string, bool) obj"
  dp_offline :: bool
  dp_newModule :: module_form
  dp_form :: form_state
  dp_bar :: station_bar
  dp_points_gen :: nat
  dp_stations_gen :: nat
  dp_log :: "effect list"

definition initialView :: "string option \<Rightarrow> point_view" where
  "initialView stored = (if stored = Some ''table'' then TableView else BoardView)"

definition initial_page :: "string option \<Rightarrow> device_page" where
  "initial_page stored =
     \<lparr>dp_stations = [], dp_stationId = [], dp_modules = [], dp_points = [], dp_issues = [], dp_stPreview = [],
      dp_showSt = False, dp_selectedVar = None, dp_selectedChannel = None, dp_view = initialView stored,
      dp_stored_view = stored, dp_hideDisabled = True, dp_board = empty_board, dp_collapsed = [], dp_offline = False,
      dp_newModule = \<lparr>mf_id = [], mf_kind = ''AI'', mf_first = ''0'', mf_count = ''16''\<rparr>,
      dp_form = EMPTY_FORM, dp_bar = \<lparr>sb_creating = False, sb_new = BLANK, sb_draft = BLANK\<rparr>,
      dp_points_gen = 0, dp_stations_gen = 0, dp_log = []\<rparr>"

definition emit :: "effect \<Rightarrow> device_page \<Rightarrow> device_page" where
  "emit e p = p\<lparr>dp_log := dp_log p @ [e]\<rparr>"

section \<open>Derived values\<close>

definition suggestedFirstChannel :: "module_view list \<Rightarrow> int" where
  "suggestedFirstChannel modules = (if modules = [] then 0 else Max (set (map mo_last_channel modules)) + 1)"

definition spaceFull :: "device_page \<Rightarrow> bool" where
  "spaceFull p \<longleftrightarrow> suggestedFirstChannel (dp_modules p) > 63"

definition errorByVar :: "issue list \<Rightarrow> (string, string) obj" where
  "errorByVar issues =
     fold (\<lambda>i m. case is_var_name i of None \<Rightarrow> m
       | Some v \<Rightarrow> if is_severity i = ''error'' \<and> v \<noteq> [] then obj_put v (is_message i) m else m) issues []"

definition pointsByName :: "point_row list \<Rightarrow> point_table" where
  "pointsByName rows = obj_build po_name (\<lambda>r. r) rows"

definition visiblePoints :: "device_page \<Rightarrow> point_row list" where
  "visiblePoints p = (if dp_hideDisabled p then filter po_enabled (dp_points p) else dp_points p)"

definition selectedRow :: "device_page \<Rightarrow> point_row option" where
  "selectedRow p = List.find (\<lambda>r. Some (po_name r) = dp_selectedVar p) (dp_points p)"

definition page_lanes :: "(string \<Rightarrow> string) \<Rightarrow> device_page \<Rightarrow> lane list" where
  "page_lanes t p = lanes t (dp_modules p) (pointsByName (visiblePoints p))"

definition errorCount :: "device_page \<Rightarrow> nat" where
  "errorCount p = length (filter (\<lambda>i. is_severity i = ''error'') (dp_issues p))"

definition warningCount :: "device_page \<Rightarrow> nat" where
  "warningCount p = length (dp_issues p) - errorCount p"

definition disabledCount :: "device_page \<Rightarrow> nat" where
  "disabledCount p = length (filter (\<lambda>r. \<not> po_enabled r) (dp_points p))"

definition verdict :: "(string \<Rightarrow> string) \<Rightarrow> device_page \<Rightarrow> string" where
  "verdict t p =
     (if errorCount p > 0 then show_nat (errorCount p) @ '' '' @ t ''device.errors''
      else if warningCount p > 0 then show_nat (warningCount p) @ '' '' @ t ''device.warnings''
      else t ''device.passed'')"

section \<open>Reading a station\<close>

record snapshot =
  sp_stations :: "station_row list"
  sp_active :: string
  sp_modules :: "module_view list"
  sp_points :: "point_row list"
  sp_issues :: "issue list"
  sp_st :: string

definition active_station :: "string \<Rightarrow> station_row list \<Rightarrow> string" where
  "active_station i rows =
     (if \<exists>s\<in>set rows. sn_id s = i then i else (case rows of [] \<Rightarrow> [] | s # rest \<Rightarrow> sn_id s))"

definition read_station :: "'w api \<Rightarrow> string \<Rightarrow> ('w, snapshot) io" where
  "read_station api i =
     io_bind (api_stations api) (\<lambda>rows. let active = active_station i rows in
     io_bind (api_hardware api active) (\<lambda>modules.
     io_bind (api_points api active) (\<lambda>points.
     io_bind (api_validate api active) (\<lambda>check.
     io_bind (api_iomap api active) (\<lambda>st.
     io_return \<lparr>sp_stations = rows, sp_active = active, sp_modules = modules, sp_points = points,
                sp_issues = fst check @ snd check, sp_st = st\<rparr>)))))"

definition show_snapshot :: "snapshot \<Rightarrow> device_page \<Rightarrow> device_page" where
  "show_snapshot s p =
     p\<lparr>dp_stations := sp_stations s, dp_stationId := sp_active s, dp_modules := sp_modules s, dp_points := sp_points s,
       dp_issues := sp_issues s, dp_stPreview := sp_st s, dp_offline := False,
       dp_points_gen := dp_points_gen p + 1, dp_stations_gen := dp_stations_gen p + 1\<rparr>"

definition go_offline :: "(string \<Rightarrow> string) \<Rightarrow> string \<Rightarrow> device_page \<Rightarrow> device_page" where
  "go_offline t message p = emit (ToastError (t ''home.backendNotReady'') message) (p\<lparr>dp_offline := True\<rparr>)"

definition refresh :: "(string \<Rightarrow> string) \<Rightarrow> 'w api \<Rightarrow> string \<Rightarrow> 'w \<times> device_page \<Rightarrow> 'w \<times> device_page" where
  "refresh t api i wp =
     (let (w, p) = wp in
      if i = [] then (w, p)
      else (case read_station api i w of
          (w1, Inl message) \<Rightarrow> (w1, go_offline t message p)
        | (w1, Inr s) \<Rightarrow> (w1, show_snapshot s p)))"

text \<open>The first load, and the load after another project was opened.\<close>

definition first_load :: "(string \<Rightarrow> string) \<Rightarrow> 'w api \<Rightarrow> 'w \<times> device_page \<Rightarrow> 'w \<times> device_page" where
  "first_load t api wp =
     (let (w, p) = wp in
      case api_stations api w of
        (w1, Inl message) \<Rightarrow> (w1, go_offline t message p)
      | (w1, Inr rows) \<Rightarrow>
          (let p1 = p\<lparr>dp_stations := rows, dp_stations_gen := dp_stations_gen p + 1\<rparr>
           in (w1, case rows of [] \<Rightarrow> p1 | s # rest \<Rightarrow> p1\<lparr>dp_stationId := sn_id s\<rparr>)))"

section \<open>Effects\<close>

text \<open>A point that stops existing does not stay in a batch selection.\<close>

definition prune_selection :: "device_page \<Rightarrow> device_page" where
  "prune_selection p =
     p\<lparr>dp_board := (dp_board p)\<lparr>pb_selected :=
        filter (\<lambda>n. n \<in> set (map po_name (dp_points p))) (pb_selected (dp_board p))\<rparr>\<rparr>"

text \<open>
  What React runs once the state \<open>p\<close> of a handler that started in \<open>p0\<close> is on screen: the selection is
  pruned, a changed suggestion fills the first channel of the new module, and the form and the station bar
  start over when their row or station object is another one.
\<close>

definition render_effects :: "device_page \<Rightarrow> device_page \<Rightarrow> device_page" where
  "render_effects p0 p =
     (let new_points = (dp_points_gen p \<noteq> dp_points_gen p0);
          p1 = (if new_points then prune_selection p else p);
          p2 = (if suggestedFirstChannel (dp_modules p) \<noteq> suggestedFirstChannel (dp_modules p0)
                then p1\<lparr>dp_newModule := (dp_newModule p1)\<lparr>mf_first := show_int (suggestedFirstChannel (dp_modules p))\<rparr>\<rparr>
                else p1);
          p3 = (if new_points \<or> selectedRow p \<noteq> selectedRow p0 then p2\<lparr>dp_form := form_for (selectedRow p)\<rparr> else p2)
      in if dp_stations_gen p \<noteq> dp_stations_gen p0
            \<or> current_station (dp_stations p) (dp_stationId p) \<noteq> current_station (dp_stations p0) (dp_stationId p0)
         then p3\<lparr>dp_bar := bar_for (current_station (dp_stations p) (dp_stationId p)) (dp_bar p3)\<rparr> else p3)"

text \<open>A station id that changed is read at once; the read makes the page valid for it.\<close>

definition settle :: "(string \<Rightarrow> string) \<Rightarrow> 'w api \<Rightarrow> device_page \<Rightarrow> 'w \<times> device_page \<Rightarrow> 'w \<times> device_page" where
  "settle t api p0 wp =
     (let (w, p) = wp; p1 = render_effects p0 p in
      if dp_stationId p1 = dp_stationId p0 then (w, p1)
      else (let (w2, p2) = refresh t api (dp_stationId p1) (w, p1) in (w2, render_effects p1 p2)))"

section \<open>Operations\<close>

definition mutate :: "(string \<Rightarrow> string) \<Rightarrow> 'w api \<Rightarrow> ('w, 'a) io \<Rightarrow> 'w \<times> device_page \<Rightarrow> 'w \<times> device_page" where
  "mutate t api action wp =
     (let (w, p) = wp in
      case action w of
        (w1, Inl message) \<Rightarrow> refresh t api (dp_stationId p) (w1, emit (ToastError (t ''device.operationFailed'') message) p)
      | (w1, Inr r) \<Rightarrow> refresh t api (dp_stationId p) (w1, p))"

definition after :: "effect list \<Rightarrow> 'w \<times> device_page \<Rightarrow> 'w \<times> device_page" where
  "after es wp = (fst wp, fold emit es (snd wp))"

text \<open>Ctrl+S; \<open>current\<close> is the open project with its name and path, \<open>save\<close> the request that stores it.\<close>

definition save_shortcut ::
    "(string \<Rightarrow> string) \<Rightarrow> 'w api \<Rightarrow> (string \<times> string) option \<Rightarrow> ('w, unit) io \<Rightarrow> 'w \<times> device_page \<Rightarrow> 'w \<times> device_page" where
  "save_shortcut t api current save wp =
     (case current of None \<Rightarrow> after [ToastWarning (t ''common.noProject'') (t ''common.noProjectDesc'')] wp
      | Some (name, path) \<Rightarrow> after [ToastSuccess (t ''common.saved'') path] (mutate t api save wp))"

definition switchView :: "point_view \<Rightarrow> device_page \<Rightarrow> device_page" where
  "switchView next p =
     p\<lparr>dp_view := next, dp_stored_view := Some (case next of BoardView \<Rightarrow> ''board'' | TableView \<Rightarrow> ''table''),
       dp_board := leave_selection (dp_board p)\<rparr>"

definition send_binding :: "(string \<Rightarrow> string) \<Rightarrow> 'w api \<Rightarrow> binding \<Rightarrow> 'w \<times> device_page \<Rightarrow> 'w \<times> device_page" where
  "send_binding t api payload wp =
     mutate t api (api_send api (PutMapping (dp_stationId (snd wp)) payload)) wp"

definition onSavePoint ::
    "(string \<Rightarrow> string) \<Rightarrow> 'w api \<Rightarrow> point_row \<Rightarrow> patch_field list \<Rightarrow> 'w \<times> device_page \<Rightarrow> 'w \<times> device_page" where
  "onSavePoint t api row patch wp =
     (let payload = payloadFor row patch
      in after [BindingsChanged [(bd_var_name payload, bd_channel payload)]] (send_binding t api payload wp))"

definition onSaveBinding :: "(string \<Rightarrow> string) \<Rightarrow> 'w api \<Rightarrow> binding \<Rightarrow> 'w \<times> device_page \<Rightarrow> 'w \<times> device_page" where
  "onSaveBinding t api b wp =
     (let (w1, p1) = send_binding t api b wp
      in after [BindingsChanged [(bd_var_name b, bd_channel b)]] (w1, p1\<lparr>dp_selectedVar := Some (bd_var_name b)\<rparr>))"

definition onSelectChannel :: "int \<Rightarrow> device_page \<Rightarrow> device_page" where
  "onSelectChannel channel p =
     (let p1 = p\<lparr>dp_selectedChannel := Some channel\<rparr> in
      case List.find (\<lambda>c. ch_channel c = channel) (concat (map mo_channels (dp_modules p))) of
        None \<Rightarrow> p1
      | Some owner \<Rightarrow> (case ch_var_name owner of None \<Rightarrow> p1
          | Some v \<Rightarrow> if v = [] then p1 else p1\<lparr>dp_selectedVar := Some v\<rparr>))"

definition onUpdateChannelName ::
    "(string \<Rightarrow> string) \<Rightarrow> 'w api \<Rightarrow> string \<Rightarrow> int \<Rightarrow> string \<Rightarrow> 'w \<times> device_page \<Rightarrow> 'w \<times> device_page" where
  "onUpdateChannelName t api moduleId channel name wp =
     (let (w, p) = wp in
      case api_send api (PutChannelName (dp_stationId p) moduleId channel name) w of
        (w1, Inl message) \<Rightarrow> (w1, emit (ToastError (t ''device.updateChannelFailed'') message) p)
      | (w1, Inr r) \<Rightarrow> refresh t api (dp_stationId p) (w1, p))"

definition kind_module_id :: "string \<Rightarrow> module_view list \<Rightarrow> string" where
  "kind_module_id kind modules = kind @ show_nat (length (filter (\<lambda>m. mo_kind m = kind) modules) + 1)"

definition kind_request :: "(string \<Rightarrow> string) \<Rightarrow> string \<Rightarrow> module_view list \<Rightarrow> module_request" where
  "kind_request t kind modules =
     \<lparr>mq_id = kind_module_id kind modules, mq_kind = kind, mq_first = Num (of_int (suggestedFirstChannel modules)),
      mq_count = Num 16,
      mq_label = Some (kind @ '' '' @ t ''device.module'' @ '' ''
        @ show_nat (length (filter (\<lambda>m. mo_kind m = kind) modules) + 1))\<rparr>"

definition onAddModuleByKind :: "(string \<Rightarrow> string) \<Rightarrow> 'w api \<Rightarrow> string \<Rightarrow> 'w \<times> device_page \<Rightarrow> 'w \<times> device_page" where
  "onAddModuleByKind t api kind wp =
     (let (w, p) = wp; moduleId = kind_module_id kind (dp_modules p) in
      if spaceFull p then (w, emit (ToastWarning (t ''device.spaceFull'') (t ''device.spaceFullMsg'')) p)
      else (case api_send api (PostModule (dp_stationId p) (kind_request t kind (dp_modules p))) w of
          (w1, Inl message) \<Rightarrow> (w1, emit (ToastError (t ''device.addModuleFailed'') message) p)
        | (w1, Inr r) \<Rightarrow>
            after [ToastSuccess (t ''device.moduleAdded'') (moduleId @ '' '' @ middot @ '' '' @ t ''device.moduleAddedMsg''),
                   ModuleAdded moduleId kind, BindingsChanged []]
              (refresh t api (dp_stationId p) (w1, p))))"

text \<open>\<open>confirmed\<close> is the answer of the dialog of the browser.\<close>

definition onRemoveModule :: "(string \<Rightarrow> string) \<Rightarrow> 'w api \<Rightarrow> string \<Rightarrow> bool \<Rightarrow> 'w \<times> device_page \<Rightarrow> 'w \<times> device_page" where
  "onRemoveModule t api moduleId confirmed wp =
     (let (w, p) = wp in
      if \<not> confirmed then (w, p)
      else (case api_send api (DeleteModule (dp_stationId p) moduleId) w of
          (w1, Inl message) \<Rightarrow> (w1, emit (ToastError (t ''device.deleteModuleFailed'') message) p)
        | (w1, Inr r) \<Rightarrow>
            after [ToastSuccess (t ''device.moduleDeleted'') moduleId, ModuleRemoved moduleId, BindingsChanged []]
              (refresh t api (dp_stationId p) (w1, p))))"

definition onCreatePoint :: "(string \<Rightarrow> string) \<Rightarrow> 'w api \<Rightarrow> string \<Rightarrow> int \<Rightarrow> 'w \<times> device_page \<Rightarrow> 'w \<times> device_page" where
  "onCreatePoint t api moduleId channel wp =
     after [ToastSuccess (t ''device.pointCreated'') (moduleId @ ''_CH'' @ show_int channel)]
       (mutate t api (api_send api (PostPoint (dp_stationId (snd wp)) moduleId channel)) wp)"

section \<open>Destructive operations\<close>

definition guardGraphBind ::
    "(string \<Rightarrow> string) \<Rightarrow> 'w api \<Rightarrow> string \<Rightarrow> string \<Rightarrow> 'w \<times> device_page \<Rightarrow> bool \<times> 'w \<times> device_page" where
  "guardGraphBind t api name action wp =
     (let (w, p) = wp; (w1, bound) = graphBoundNames api w in
      if \<not> jset_has bound name then (True, w1, p)
      else (False, w1, emit (ToastWarning (name @ '' '' @ t ''device.boundByGraph'') (t ''device.unbindFirst'' @ action)) p))"

definition onTogglePoint :: "(string \<Rightarrow> string) \<Rightarrow> 'w api \<Rightarrow> string \<Rightarrow> bool \<Rightarrow> 'w \<times> device_page \<Rightarrow> 'w \<times> device_page" where
  "onTogglePoint t api name enabled wp =
     (let (allowed, wp1) = (if enabled then (True, wp) else guardGraphBind t api name (t ''device.disable'') wp) in
      if \<not> allowed then wp1
      else after [ToastSuccess (t (if enabled then ''device.pointEnabled'' else ''device.pointDisabled'')) name]
        (mutate t api (api_send api (PutEnabled (dp_stationId (snd wp)) name enabled)) wp1))"

definition onDeletePoint :: "(string \<Rightarrow> string) \<Rightarrow> 'w api \<Rightarrow> string \<Rightarrow> bool \<Rightarrow> 'w \<times> device_page \<Rightarrow> 'w \<times> device_page" where
  "onDeletePoint t api name confirmed wp =
     (let (allowed, wp1) = guardGraphBind t api name (t ''device.delete'') wp in
      if \<not> allowed \<or> \<not> confirmed then wp1
      else after [ToastSuccess (t ''device.pointDeleted'') name]
        (mutate t api (api_send api (DeleteVariable (dp_stationId (snd wp)) name)) wp1))"

section \<open>Batch operations\<close>

definition batch_command :: "string \<Rightarrow> batch_action \<Rightarrow> string \<Rightarrow> command" where
  "batch_command station action name =
     (case action of BatchDelete \<Rightarrow> DeleteVariable station name
      | BatchEnable \<Rightarrow> PutEnabled station name True
      | BatchDisable \<Rightarrow> PutEnabled station name False)"

text \<open>The loop of requests: each is sent whatever became of the others; the failures are counted.\<close>

fun send_all :: "'w api \<Rightarrow> command list \<Rightarrow> 'w \<Rightarrow> 'w \<times> nat" where
  "send_all api [] w = (w, 0)"
| "send_all api (c # cs) w =
     (let (w1, r) = api_send api c w; (w2, failed) = send_all api cs w1
      in (w2, case r of Inl e \<Rightarrow> failed + 1 | Inr u \<Rightarrow> failed))"

definition batch_label :: "(string \<Rightarrow> string) \<Rightarrow> batch_action \<Rightarrow> string" where
  "batch_label t action =
     t ''device.batch'' @ t (case action of BatchDelete \<Rightarrow> ''device.delete'' | BatchEnable \<Rightarrow> ''device.enable''
       | BatchDisable \<Rightarrow> ''device.disable'')"

definition batch_toasts :: "(string \<Rightarrow> string) \<Rightarrow> batch_action \<Rightarrow> nat \<Rightarrow> nat \<Rightarrow> string list \<Rightarrow> effect list" where
  "batch_toasts t action done_count failed skipped =
     (if done_count > 0 then [ToastSuccess (batch_label t action) (show_nat done_count @ '' '' @ t ''device.points'')] else [])
     @ (if failed > 0 then [ToastError (batch_label t action) (show_nat failed @ '' '' @ t ''device.batchFailedMsg'')] else [])
     @ (if skipped \<noteq> [] then
          [ToastWarning (show_nat (length skipped) @ '' '' @ t ''device.pointsBound'')
             (t ''device.skipUnbind'' @ '' '' @ js_join '', '' (take 3 skipped) @ (if length skipped > 3 then ''...'' else [])
               @ '': '' @ t ''device.skipUnbindMsg'')]
        else [])"

definition runBatch ::
    "(string \<Rightarrow> string) \<Rightarrow> 'w api \<Rightarrow> string list \<Rightarrow> batch_action \<Rightarrow> bool \<Rightarrow> 'w \<times> device_page \<Rightarrow> 'w \<times> device_page" where
  "runBatch t api names action confirmed wp =
     (if names = [] \<or> action = BatchDelete \<and> \<not> confirmed then wp
      else let (w, p) = wp;
          (w1, bound) = (if action = BatchEnable then (w, []) else graphBoundNames api w);
          targets = filter (\<lambda>n. \<not> jset_has bound n) names;
          skipped = filter (jset_has bound) names;
          (w2, failed) = send_all api (map (batch_command (dp_stationId p) action) targets) w1;
          (w3, p3) = refresh t api (dp_stationId p) (w2, p)
        in after (BindingsChanged [] # batch_toasts t action (length targets - failed) failed skipped)
             (w3, p3\<lparr>dp_board := leave_selection (dp_board p3)\<rparr>))"

text \<open>The edits with their rows; an edit of a name without a row is passed over.\<close>

definition edit_payloads :: "point_table \<Rightarrow> batch_edit list \<Rightarrow> binding list" where
  "edit_payloads byName edits =
     List.map_filter (\<lambda>e. map_option (\<lambda>row. payloadFor row (be_patch e)) (obj_get byName (be_name e))) edits"

text \<open>The bindings that were stored and the messages of those that were not.\<close>

fun send_bindings :: "'w api \<Rightarrow> string \<Rightarrow> binding list \<Rightarrow> 'w \<Rightarrow> 'w \<times> (string \<times> int) list \<times> string list" where
  "send_bindings api station [] w = (w, [], [])"
| "send_bindings api station (b # bs) w =
     (let (w1, r) = api_send api (PutMapping station b) w; (w2, changed, errors) = send_bindings api station bs w1
      in case r of Inl message \<Rightarrow> (w2, changed, message # errors)
         | Inr u \<Rightarrow> (w2, (bd_var_name b, bd_channel b) # changed, errors))"

definition first_error :: "string list \<Rightarrow> string" where
  "first_error errors = (case filter (\<lambda>m. m \<noteq> []) errors of [] \<Rightarrow> [] | m # rest \<Rightarrow> m)"

definition edit_toasts :: "(string \<Rightarrow> string) \<Rightarrow> nat \<Rightarrow> string list \<Rightarrow> effect list" where
  "edit_toasts t changed errors =
     (if changed > 0 then [ToastSuccess (t ''device.batchModified'') (show_nat changed @ '' '' @ t ''device.batchModifiedMsg'')] else [])
     @ (if errors \<noteq> [] then
          [ToastError (t ''device.batchModifyFailed'')
             (show_nat (length errors) @ '' '' @ t ''device.batchModifyFailedMsg'' @ '': '' @ first_error errors)]
        else [])"

definition runBatchEdit :: "(string \<Rightarrow> string) \<Rightarrow> 'w api \<Rightarrow> batch_edit list \<Rightarrow> 'w \<times> device_page \<Rightarrow> 'w \<times> device_page" where
  "runBatchEdit t api edits wp =
     (let (w, p) = wp;
          (w1, changed, errors) = send_bindings api (dp_stationId p) (edit_payloads (pointsByName (dp_points p)) edits) w
      in after (BindingsChanged changed # edit_toasts t (length changed) errors)
           (refresh t api (dp_stationId p) (w1, p)))"

section \<open>Stations and modules\<close>

definition onCreateStation :: "(string \<Rightarrow> string) \<Rightarrow> 'w api \<Rightarrow> station_draft \<Rightarrow> 'w \<times> device_page \<Rightarrow> 'w \<times> device_page" where
  "onCreateStation t api draft wp =
     (let (w1, p1) = mutate t api (api_send api (PostStation draft)) wp in (w1, p1\<lparr>dp_stationId := sd_id draft\<rparr>))"

definition onSaveStation ::
    "(string \<Rightarrow> string) \<Rightarrow> 'w api \<Rightarrow> string \<Rightarrow> station_draft \<Rightarrow> 'w \<times> device_page \<Rightarrow> 'w \<times> device_page" where
  "onSaveStation t api key draft wp =
     after [ToastSuccess (t ''device.stationSaved'') (sd_id draft), StationSaved (sd_id draft)]
       (mutate t api (api_send api (PutStation key draft)) wp)"

definition onRemoveStation :: "(string \<Rightarrow> string) \<Rightarrow> 'w api \<Rightarrow> string \<Rightarrow> bool \<Rightarrow> 'w \<times> device_page \<Rightarrow> 'w \<times> device_page" where
  "onRemoveStation t api i confirmed wp =
     (if \<not> confirmed then wp else mutate t api (api_send api (DeleteStation i)) wp)"

definition addModule :: "(string \<Rightarrow> string) \<Rightarrow> 'w api \<Rightarrow> 'w \<times> device_page \<Rightarrow> 'w \<times> device_page" where
  "addModule t api wp =
     (let (w, p) = wp; new = dp_newModule p in
      if mf_id new = [] then (w, emit (ToastWarning (t ''device.moduleIdRequired'') []) p)
      else if spaceFull p \<and> js_less (Num 63) (js_number (mf_first new)) then
        (w, emit (ToastWarning (t ''device.spaceFull'') (t ''device.spaceFullMsg'')) p)
      else (let (w1, p1) = mutate t api (api_send api (PostModule (dp_stationId p)
              \<lparr>mq_id = mf_id new, mq_kind = mf_kind new, mq_first = js_number (mf_first new),
               mq_count = js_number (mf_count new), mq_label = None\<rparr>)) (w, p)
        in after [ToastSuccess (t ''device.moduleAdded'') (mf_id new @ '' '' @ middot @ '' '' @ t ''device.moduleAddedMsg''),
                  BindingsChanged []]
             (w1, p1\<lparr>dp_newModule := new\<lparr>mf_id := []\<rparr>\<rparr>)))"

section \<open>The page as a whole\<close>

datatype device_event =
    Mounted
  | SelectStation string
  | SaveBinding binding
  | EditPoint point_row "patch_field list"
  | SelectChannel int
  | SelectVar string
  | NameChannel string int string
  | AddModuleOfKind string
  | RemoveModule string bool
  | CreatePoint string int
  | TogglePoint string bool
  | DeletePoint string bool
  | RunBatch "string list" batch_action bool
  | RunBatchEdit "batch_edit list"
  | CreateStation station_draft
  | SaveStation string station_draft
  | RemoveStation string bool
  | AddModuleForm
  | NewModuleForm module_form
  | SwitchView point_view
  | HideDisabled bool
  | ToggleCollapsed string
  | ToggleSt
  | EditForm form_edit
  | EditBar bar_edit
  | OnBoard board_event

definition toggle_flag :: "string \<Rightarrow> (string, bool) obj \<Rightarrow> (string, bool) obj" where
  "toggle_flag k m = obj_put k (obj_get m k \<noteq> Some True) m"

fun handle :: "(string \<Rightarrow> string) \<Rightarrow> 'w api \<Rightarrow> device_event \<Rightarrow> 'w \<times> device_page \<Rightarrow> 'w \<times> device_page" where
  "handle t api Mounted wp = first_load t api wp"
| "handle t api (SelectStation i) (w, p) = (w, p\<lparr>dp_stationId := i\<rparr>)"
| "handle t api (SaveBinding b) wp = onSaveBinding t api b wp"
| "handle t api (EditPoint row patch) wp = onSavePoint t api row patch wp"
| "handle t api (SelectChannel c) (w, p) = (w, onSelectChannel c p)"
| "handle t api (SelectVar v) (w, p) = (w, p\<lparr>dp_selectedVar := Some v\<rparr>)"
| "handle t api (NameChannel m c n) wp = onUpdateChannelName t api m c n wp"
| "handle t api (AddModuleOfKind k) wp = onAddModuleByKind t api k wp"
| "handle t api (RemoveModule m ok) wp = onRemoveModule t api m ok wp"
| "handle t api (CreatePoint m c) wp = onCreatePoint t api m c wp"
| "handle t api (TogglePoint n e) wp = onTogglePoint t api n e wp"
| "handle t api (DeletePoint n ok) wp = onDeletePoint t api n ok wp"
| "handle t api (RunBatch ns a ok) wp = runBatch t api ns a ok wp"
| "handle t api (RunBatchEdit es) wp = runBatchEdit t api es wp"
| "handle t api (CreateStation d) wp = onCreateStation t api d wp"
| "handle t api (SaveStation k d) wp = onSaveStation t api k d wp"
| "handle t api (RemoveStation i ok) wp = onRemoveStation t api i ok wp"
| "handle t api AddModuleForm wp = addModule t api wp"
| "handle t api (NewModuleForm f) (w, p) = (w, p\<lparr>dp_newModule := f\<rparr>)"
| "handle t api (SwitchView v) (w, p) = (w, switchView v p)"
| "handle t api (HideDisabled h) (w, p) = (w, p\<lparr>dp_hideDisabled := h\<rparr>)"
| "handle t api (ToggleCollapsed i) (w, p) = (w, p\<lparr>dp_collapsed := toggle_flag i (dp_collapsed p)\<rparr>)"
| "handle t api ToggleSt (w, p) = (w, p\<lparr>dp_showSt := \<not> dp_showSt p\<rparr>)"
| "handle t api (EditForm e) (w, p) = (w, p\<lparr>dp_form := edit_form e (dp_form p)\<rparr>)"
| "handle t api (EditBar e) (w, p) = (w, p\<lparr>dp_bar := edit_bar e (dp_bar p)\<rparr>)"
| "handle t api (OnBoard e) (w, p) =
     (let (b, r) = board_step (board_order (page_lanes t p)) e (dp_board p); p1 = p\<lparr>dp_board := b\<rparr>
      in case r of NoRequest \<Rightarrow> (w, p1)
         | WantChannel c \<Rightarrow> (w, onSelectChannel c p1)
         | WantEdit row x \<Rightarrow> onSavePoint t api row [x] (w, p1))"

definition device_step :: "(string \<Rightarrow> string) \<Rightarrow> 'w api \<Rightarrow> device_event \<Rightarrow> 'w \<times> device_page \<Rightarrow> 'w \<times> device_page" where
  "device_step t api e wp = settle t api (snd wp) (handle t api e wp)"

record device_view =
  dv_verdict :: string
  dv_project :: string
  dv_add_enabled :: bool
  dv_add_hint :: string
  dv_modules_title :: string
  dv_counts :: string
  dv_board_or_rows :: "lane list + point_row list"
  dv_st :: "string option"
  dv_footer :: string

definition show_device ::
    "(string \<Rightarrow> string) \<Rightarrow> (string \<times> string) option \<Rightarrow> device_page \<Rightarrow> device_view" where
  "show_device t current p =
     \<lparr>dv_verdict = verdict t p,
      dv_project = (case current of None \<Rightarrow> t ''title.unnamed'' | Some (name, path) \<Rightarrow> name @ '' '' @ middot @ '' '' @ path),
      dv_add_enabled = (\<not> spaceFull p \<and> mf_id (dp_newModule p) \<noteq> []),
      dv_add_hint = t (if spaceFull p then ''device.spaceFullAdd'' else ''device.channelHint''),
      dv_modules_title = (case current_station (dp_stations p) (dp_stationId p) of None \<Rightarrow> t ''device.hardwareModules''
        | Some s \<Rightarrow> sn_id s @ '' '' @ t ''device.hardwareModules''),
      dv_counts = t ''device.totalPoints'' @ '' '' @ show_nat (length (dp_points p)) @ '' '' @ t ''device.points'' @ '' '' @ middot
        @ '' '' @ t ''device.disabled'' @ '' '' @ show_nat (disabledCount p) @ '' '' @ middot @ '' ''
        @ t (case dp_view p of BoardView \<Rightarrow> ''device.cardHint'' | TableView \<Rightarrow> ''device.tableHint''),
      dv_board_or_rows = (case dp_view p of BoardView \<Rightarrow> Inl (page_lanes t p) | TableView \<Rightarrow> Inr (visiblePoints p)),
      dv_st = (if dp_showSt p then Some (or_text (dp_stPreview p) (t ''device.noPoints'')) else None),
      dv_footer = t (if dp_offline p then ''device.backendOffline'' else ''device.pointHint'')\<rparr>"

end
