(* ===== verification/DeviceLaws.thy ===== *)
theory DeviceLaws
  imports DevicePage
begin

text \<open>
  The laws of the device page: what a read of the station does to the page, which requests the operations
  send, what the board shows, and what becomes of failures.
\<close>

section \<open>The requests that are sent\<close>

text \<open>The service with a log of the commands it received.\<close>

definition quiet :: "('w, 'a) io \<Rightarrow> ('w \<times> 'l, 'a) io" where
  "quiet m wl = (let (w1, r) = m (fst wl) in ((w1, snd wl), r))"

definition logged :: "'w api \<Rightarrow> ('w \<times> command list) api" where
  "logged api =
     \<lparr>api_stations = quiet (api_stations api), api_hardware = (\<lambda>i. quiet (api_hardware api i)),
      api_points = (\<lambda>i. quiet (api_points api i)), api_validate = (\<lambda>i. quiet (api_validate api i)),
      api_iomap = (\<lambda>i. quiet (api_iomap api i)), api_bound = quiet (api_bound api),
      api_send = (\<lambda>c wl. let (w1, r) = api_send api c (fst wl) in ((w1, snd wl @ [c]), r))\<rparr>"

definition silent :: "('w \<times> 'l, 'a) io \<Rightarrow> bool" where
  "silent m \<longleftrightarrow> (\<forall>wl. snd (fst (m wl)) = snd wl)"

lemma silent_quiet [intro, simp]: "silent (quiet m)"
  by (simp add: silent_def quiet_def Let_def split: prod.split)

lemma silent_return [intro, simp]: "silent (io_return a)"
  by (simp add: silent_def io_return_def)

lemma silent_bind [intro]:
  assumes "silent m" and "\<And>a. silent (f a)"
  shows "silent (io_bind m f)"
  unfolding silent_def
proof
  fix wl
  obtain w1 l1 r where m: "m wl = ((w1, l1), r)"
    by (metis prod.exhaust)
  have "snd (fst (m wl)) = snd wl"
    using assms(1) unfolding silent_def by blast
  then have l1: "l1 = snd wl"
    by (simp add: m)
  have "snd (fst (f a (w1, l1))) = l1" for a
    using assms(2) [of a] unfolding silent_def by simp
  then show "snd (fst (io_bind m f wl)) = snd wl"
    unfolding io_bind_def m by (cases r) (simp_all add: l1)
qed

lemma logged_simps [simp]:
  "silent (api_stations (logged api))" "silent (api_hardware (logged api) i)" "silent (api_points (logged api) i)"
  "silent (api_validate (logged api) i)" "silent (api_iomap (logged api) i)" "silent (api_bound (logged api))"
  by (simp_all add: logged_def)

lemma silent_read: "silent (read_station (logged api) i)"
  unfolding read_station_def Let_def by (intro silent_bind logged_simps silent_return)

lemma refresh_sends_nothing [simp]: "snd (fst (refresh t (logged api) i wp)) = snd (fst wp)"
proof (cases wp)
  case (Pair w p)
  have "snd (fst (read_station (logged api) i w)) = snd w"
    using silent_read [of api i] unfolding silent_def by blast
  then show ?thesis
    by (auto simp: Pair refresh_def split: prod.split sum.split)
qed

lemma after_fst [simp]: "fst (after es wp) = fst wp" and after_snd [simp]: "snd (after es wp) = fold emit es (snd wp)"
  by (simp_all add: after_def)

lemma log_emit: "dp_log (fold emit es p) = dp_log p @ es"
  by (induction es arbitrary: p) (simp_all add: emit_def)

lemma logged_send: "snd (fst (api_send (logged api) c wl)) = snd wl @ [c]"
  by (simp add: logged_def Let_def split: prod.split)

lemma mutate_sends: "snd (fst (mutate t (logged api) (api_send (logged api) c) wp)) = snd (fst wp) @ [c]"
proof (cases wp)
  case (Pair w p)
  obtain w1 r where "api_send (logged api) c w = (w1, r)"
    by (metis prod.exhaust)
  then show ?thesis
    using logged_send [of api c w] by (cases r) (simp_all add: Pair mutate_def)
qed

lemma send_all_logged: "snd (fst (send_all (logged api) cs wl)) = snd wl @ cs"
proof (induction cs arbitrary: wl)
  case (Cons c cs)
  obtain w1 r where "api_send (logged api) c wl = (w1, r)"
    by (metis prod.exhaust)
  then show ?case
    using logged_send [of api c wl] Cons.IH [of w1]
    by (cases "send_all (logged api) cs w1") (simp add: Let_def)
qed simp

lemma send_all_count: "snd (send_all api cs w) \<le> length cs"
  by (induction cs arbitrary: w) (auto simp: Let_def split: prod.split sum.split, (metis le_SucI snd_conv)+)

lemma bound_logged:
  "graphBoundNames (logged api) (w, l) =
     ((fst (api_bound api w), l), case snd (api_bound api w) of Inl e \<Rightarrow> [] | Inr names \<Rightarrow> jset_of (filter (\<lambda>n. n \<noteq> []) names))"
  by (auto simp: graphBoundNames_def logged_def quiet_def Let_def split: prod.split sum.split)

section \<open>Reading a station\<close>

lemma io_bind_Inr: "io_bind m f w = (w1, Inr b) \<longleftrightarrow> (\<exists>w2 a. m w = (w2, Inr a) \<and> f a w2 = (w1, Inr b))"
  by (auto simp: io_bind_def split: prod.split sum.split)

lemma read_active: "read_station api i w = (w1, Inr s) \<Longrightarrow> sp_active s = active_station i (sp_stations s)"
  unfolding read_station_def Let_def by (auto simp: io_bind_Inr io_return_def)

text \<open>The message of an answer that is an error.\<close>

definition answer_error :: "string + 'a \<Rightarrow> string list" where
  "answer_error r = (case r of Inl message \<Rightarrow> [message] | Inr a \<Rightarrow> [])"

lemma active_station_first:
  "active_station i rows = (if i \<in> sn_id ` set rows then i else if rows = [] then [] else sn_id (hd rows))"
  by (cases rows) (auto simp: active_station_def)

text \<open>
  C11: a read of the station replaces everything the page shows of it at once, or nothing. When one of the five
  answers is an error, the page says it is offline, shows the message of the first error, and keeps all it had;
  when none is, the stations, the modules, the points, the issues (errors before warnings) and the preview become
  the answers and the page is online. The selected station is then the one that was asked for if it is in the new
  list, otherwise the first of the list, and none (the empty id) when the list is empty. The other four requests
  are about that station. The page asks for a station other than the empty id only.
\<close>

theorem refresh_all_or_nothing:
  assumes "i \<noteq> []" and "api_stations api w = (w1, r1)" and "rows = (case r1 of Inl message \<Rightarrow> [] | Inr rows \<Rightarrow> rows)"
    and "a = (if i \<in> sn_id ` set rows then i else if rows = [] then [] else sn_id (hd rows))"
    and "api_hardware api a w1 = (w2, r2)" and "api_points api a w2 = (w3, r3)"
    and "api_validate api a w3 = (w4, r4)" and "api_iomap api a w4 = (w5, r5)"
  shows "snd (refresh t api i (w, p)) =
     (case answer_error r1 @ answer_error r2 @ answer_error r3 @ answer_error r4 @ answer_error r5 of
        message # rest \<Rightarrow> p\<lparr>dp_offline := True, dp_log := dp_log p @ [ToastError (t ''home.backendNotReady'') message]\<rparr>
      | [] \<Rightarrow> p\<lparr>dp_stations := rows, dp_stationId := a, dp_modules := projr r2, dp_points := projr r3,
             dp_issues := fst (projr r4) @ snd (projr r4), dp_stPreview := projr r5, dp_offline := False,
             dp_points_gen := dp_points_gen p + 1, dp_stations_gen := dp_stations_gen p + 1\<rparr>)"
proof -
  have a: "active_station i rows = a"
    by (simp only: active_station_first assms(4))
  show ?thesis
    using assms(1-3,5-) a
    by (cases r1; cases r2; cases r3; cases r4; cases r5)
      (simp_all add: refresh_def read_station_def io_bind_def io_return_def answer_error_def show_snapshot_def
        go_offline_def emit_def Let_def)
qed

section \<open>Destructive operations\<close>

text \<open>
  C13: deleting a point sends its one request exactly when the graph does not bind the name, and when the
  graph service gives no answer: a name that is bound is then deleted as well, although the page means to
  reject a destructive action on a point that a pin of the graph still uses.
\<close>

theorem delete_point_sends:
  "snd (fst (onDeletePoint t (logged api) name True ((w, []), p))) =
     (case snd (api_bound api w) of
        Inl e \<Rightarrow> [DeleteVariable (dp_stationId p) name]
      | Inr names \<Rightarrow> if name \<in> set names \<and> name \<noteq> [] then [] else [DeleteVariable (dp_stationId p) name])"
  using mutate_sends [of t api "DeleteVariable (dp_stationId p) name"]
  by (cases "snd (api_bound api w)")
    (auto simp: onDeletePoint_def guardGraphBind_def bound_logged jset_has_def jset_of_set Let_def)

text \<open>
  C12: a batch action sends one request per point in the order of the selection, and none for a point the graph
  binds. To enable is no danger to the graph, so that action asks nobody and leaves no point out; and when the
  graph service gives no answer no point counts as bound, so that bound points are deleted or disabled as well
  (the empty name is never a bound one). The requests go on after a failed one, and the figures that are reported
  for the points done, failed and left out add up to the number of points. An empty selection, and a batch
  deletion that is not confirmed, do nothing.
\<close>

theorem batch_spares_bound:
  assumes "bound = (if action = BatchEnable then {} else case snd (api_bound api w) of Inl e \<Rightarrow> {} | Inr ns \<Rightarrow> set ns - {[]})"
    and "r = runBatch t (logged api) names action confirmed ((w, []), p)"
  shows "if names = [] \<or> action = BatchDelete \<and> \<not> confirmed then r = ((w, []), p)
    else snd (fst r) = map (batch_command (dp_stationId p) action) (filter (\<lambda>n. n \<notin> bound) names)
      \<and> (\<exists>done_count failed skipped. done_count + failed + length skipped = length names
          \<and> skipped = filter (\<lambda>n. n \<in> bound) names
          \<and> (\<exists>l. dp_log (snd r) = l @ BindingsChanged [] # batch_toasts t action done_count failed skipped))"
proof (cases "names = [] \<or> action = BatchDelete \<and> \<not> confirmed")
  case False
  define targets where "targets = filter (\<lambda>n. n \<notin> bound) names"
  define skipped where "skipped = filter (\<lambda>n. n \<in> bound) names"
  let ?cs = "map (batch_command (dp_stationId p) action) targets"
  obtain u bs where asked: "(if action = BatchEnable then ((w, []), []) else graphBoundNames (logged api) (w, [])) = ((u, []), bs)"
    and bs: "set bs = bound"
    by (cases "action = BatchEnable"; cases "snd (api_bound api w)") (auto simp: bound_logged jset_of_set assms(1))
  have flt: "filter (\<lambda>n. \<not> jset_has bs n) names = targets" "filter (jset_has bs) names = skipped"
    unfolding targets_def skipped_def bs [symmetric] by (simp_all add: jset_has_def [abs_def])
  obtain w2 failed where sent: "send_all (logged api) ?cs (u, []) = (w2, failed)"
    by (metis prod.exhaust)
  obtain w3 p3 where re: "refresh t (logged api) (dp_stationId p) (w2, p) = (w3, p3)"
    by (metis prod.exhaust)
  have r: "r = after (BindingsChanged [] # batch_toasts t action (length targets - failed) failed skipped)
      (w3, p3\<lparr>dp_board := leave_selection (dp_board p3)\<rparr>)"
    unfolding assms(2) runBatch_def using False sent re
    by (simp only: if_False Let_def prod.case asked flt)
  have "snd w3 = ?cs"
    using refresh_sends_nothing [of t api "dp_stationId p" "(w2, p)"] send_all_logged [of api ?cs "(u, [])"]
    by (simp add: re sent)
  moreover have "failed \<le> length targets"
    using send_all_count [of "logged api" ?cs "(u, [])"] by (simp add: sent)
  then have "(length targets - failed) + failed + length skipped = length names"
    using sum_length_filter_compl [of "\<lambda>n. n \<notin> bound" names] by (simp add: targets_def skipped_def)
  moreover have "dp_log (snd r) = dp_log p3 @ BindingsChanged [] # batch_toasts t action (length targets - failed) failed skipped"
    unfolding r after_snd log_emit by simp
  ultimately show ?thesis
    using False unfolding r targets_def [symmetric] skipped_def [symmetric] by (auto intro!: exI)
qed (use assms(2) in \<open>simp add: runBatch_def\<close>)

text \<open>
  An operation that the service refuses is reported twice: the error is shown, and then the success all
  the same, because \<open>mutate\<close> has swallowed the error when the page goes on.
\<close>

theorem success_after_failure:
  assumes "snd (api_bound api w) = Inr []" and "snd (api_send api (DeleteVariable (dp_stationId p) name) (fst (api_bound api w))) = Inl m"
    and "p1 = snd (onDeletePoint t api name True (w, p))"
  shows "\<exists>l. dp_log p1 = dp_log p @ ToastError (t ''device.operationFailed'') m # l @ [ToastSuccess (t ''device.pointDeleted'') name]"
proof -
  let ?c = "DeleteVariable (dp_stationId p) name"
  obtain w1 where b: "api_bound api w = (w1, Inr [])"
    using assms(1) by (metis prod.collapse)
  then obtain w2 where s: "api_send api ?c w1 = (w2, Inl m)"
    using assms(2) by (metis fst_conv prod.collapse)
  have g: "guardGraphBind t api name (t ''device.delete'') (w, p) = (True, w1, p)"
    by (simp add: guardGraphBind_def graphBoundNames_def b jset_of_def jset_has_def)
  define q where "q = emit (ToastError (t ''device.operationFailed'') m) p"
  have p1: "p1 = fold emit [ToastSuccess (t ''device.pointDeleted'') name] (snd (refresh t api (dp_stationId p) (w2, q)))"
    by (simp add: assms(3) onDeletePoint_def g mutate_def s q_def Let_def)
  have "\<exists>l. dp_log (snd (refresh t api (dp_stationId p) (w2, q))) = dp_log q @ l"
    by (auto simp: refresh_def show_snapshot_def go_offline_def emit_def split: prod.split sum.split)
  then show ?thesis
    unfolding p1 log_emit by (auto simp: q_def emit_def)
qed

section \<open>Batch edits\<close>

lemma send_bindings_logged: "snd (fst (send_bindings (logged api) station bs wl)) = snd wl @ map (PutMapping station) bs"
proof (induction bs arbitrary: wl)
  case (Cons b bs)
  obtain w1 r where "api_send (logged api) (PutMapping station b) wl = (w1, r)"
    by (metis prod.exhaust)
  then show ?case
    using logged_send [of api "PutMapping station b" wl] Cons.IH [of w1]
    by (cases "send_bindings (logged api) station bs w1"; cases r) (simp_all add: Let_def split: prod.split)
qed simp

lemma batch_edit_sends:
  "snd (fst (runBatchEdit t (logged api) edits ((w, l), p))) =
     l @ map (PutMapping (dp_stationId p)) (edit_payloads (pointsByName (dp_points p)) edits)"
  using send_bindings_logged [of api "dp_stationId p" "edit_payloads (pointsByName (dp_points p)) edits" "(w, l)"]
  by (cases "send_bindings (logged api) (dp_stationId p) (edit_payloads (pointsByName (dp_points p)) edits) (w, l)")
    (simp add: runBatchEdit_def Let_def)

lemma payload_rename: "payloadFor row [SetPointName s] = (row_payload row)\<lparr>bd_point_name := s\<rparr>"
  by (simp add: payloadFor_def)

lemma map_filter_map: "List.map_filter f (map g xs) = List.map_filter (f \<circ> g) xs"
  by (induction xs) (auto simp: List.map_filter_simps split: option.split)

lemma map_filter_total: "(\<And>x. x \<in> set xs \<Longrightarrow> f x = Some (g x)) \<Longrightarrow> List.map_filter f xs = map g xs"
  by (induction xs) (auto simp: List.map_filter_simps)

text \<open>
  A batch rename of picked points sends, in the order of the board, one binding per point: the fields of
  the row with nothing but the tag name changed (and channel 0 for a point without one). The tag names are the prefix and a running number;
  they are all different and all of one length, so that they sort in the order of the board.
\<close>

theorem batch_rename_sends:
  assumes "js_trim typed_prefix \<noteq> []" and "0 < k" and "k + length targets < 10 ^ 21"
    and "\<And>n. n \<in> set targets \<Longrightarrow> obj_get (pointsByName (dp_points p)) n \<noteq> None"
    and "sent = snd (fst (runBatchEdit t (logged api) (batch_rename targets typed_prefix (show_nat k)) ((w, []), p)))"
  shows "\<exists>tags. length tags = length targets \<and> distinct tags
    \<and> (\<exists>len. \<forall>s\<in>set tags. length s = len \<and> prefix (js_trim typed_prefix) s)
    \<and> sent = map (\<lambda>(n, s). PutMapping (dp_stationId p)
          ((row_payload (the (obj_get (pointsByName (dp_points p)) n)))\<lparr>bd_point_name := s\<rparr>)) (zip targets tags)"
proof (intro exI conjI)
  let ?n = "length targets"
  let ?tag = "renamed (js_trim typed_prefix) (Num (of_nat k)) ?n"
  show "length (map ?tag [0..<?n]) = ?n"
    by simp
  show "distinct (map ?tag [0..<?n])"
    using renamed_distinct [OF assms(3)] .
  show "\<forall>s\<in>set (map ?tag [0..<?n]). length s = length (js_trim typed_prefix) + max 2 (length (show_nat (k + ?n - 1)))
      \<and> prefix (js_trim typed_prefix) s"
    using renamed_length [OF assms(3)] by (auto simp: renamed_def)
  have "edit_payloads (pointsByName (dp_points p)) (batch_rename targets typed_prefix (show_nat k)) =
      map (\<lambda>i. (row_payload (the (obj_get (pointsByName (dp_points p)) (targets ! i))))\<lparr>bd_point_name := ?tag i\<rparr>) [0..<?n]"
    unfolding batch_rename_edits [OF assms(1-3)] edit_payloads_def map_filter_map
    by (intro map_filter_total)
      (use assms(4) in \<open>auto simp: payload_rename dest!: nth_mem intro!: exI [of _ "the (obj_get _ _)"]\<close>)
  moreover have "zip targets (map ?tag [0..<?n]) = map (\<lambda>i. (targets ! i, ?tag i)) [0..<?n]"
    by (rule nth_equalityI) simp_all
  ultimately show "sent = map (\<lambda>(n, s). PutMapping (dp_stationId p)
      ((row_payload (the (obj_get (pointsByName (dp_points p)) n)))\<lparr>bd_point_name := s\<rparr>)) (zip targets (map ?tag [0..<?n]))"
    unfolding assms(5) batch_edit_sends by (simp add: comp_def)
qed

section \<open>Modules\<close>

lemma last_below_suggested: "m \<in> set modules \<Longrightarrow> mo_last_channel m < suggestedFirstChannel modules"
  by (auto simp: suggestedFirstChannel_def zle_add1_eq_le intro!: Max_ge)

text \<open>
  The module that a click on a kind adds starts behind every channel of the station, so that it takes no
  channel of another module, and within the channels 0 to 63; but its fixed sixteen channels reach past
  channel 63 as soon as some module ends behind channel 47.
\<close>

theorem kind_module_channels:
  assumes "\<not> spaceFull p"
  shows "\<exists>first. mq_first (kind_request t kind (dp_modules p)) = Num (of_int first) \<and> first \<le> 63
    \<and> (\<forall>m\<in>set (dp_modules p). mo_last_channel m < first)
    \<and> (63 < first + 15 \<longleftrightarrow> (\<exists>m\<in>set (dp_modules p). 47 < mo_last_channel m))"
proof (intro exI conjI ballI)
  let ?first = "suggestedFirstChannel (dp_modules p)"
  show "mq_first (kind_request t kind (dp_modules p)) = Num (of_int ?first)"
    by (simp add: kind_request_def)
  show "?first \<le> 63"
    using assms by (simp add: spaceFull_def)
  show "mo_last_channel m < ?first" if "m \<in> set (dp_modules p)" for m
    using last_below_suggested [OF that] .
  show "63 < ?first + 15 \<longleftrightarrow> (\<exists>m\<in>set (dp_modules p). 47 < mo_last_channel m)"
    by (cases "dp_modules p = []") (auto simp: suggestedFirstChannel_def Max_gr_iff)
qed

definition kind_ids :: "string \<Rightarrow> module_view list \<Rightarrow> string list" where
  "kind_ids kind modules = map mo_id (filter (\<lambda>m. mo_kind m = kind) modules)"

lemma filter_single: "distinct xs \<Longrightarrow> x \<in> set xs \<Longrightarrow> filter (\<lambda>y. y = x) xs = [x]"
  by (induction xs) (auto simp: filter_empty_conv)

text \<open>
  Modules of a kind are numbered by their count. Adding them one after the other gives ids that are new;
  after one but the last has been removed, the next module is given the id the last one already has.
\<close>

theorem kind_id_collides:
  assumes "kind_ids kind modules = map (\<lambda>i. kind @ show_nat i) [1..<n + 1]" and "1 \<le> k" and "k < n"
    and "left_over = filter (\<lambda>m. mo_id m \<noteq> kind @ show_nat k) modules"
  shows "kind_module_id kind modules \<notin> set (kind_ids kind modules)
    \<and> kind_module_id kind left_over \<in> set (kind_ids kind left_over)"
proof
  have len: "length (filter (\<lambda>m. mo_kind m = kind) modules) = n"
    using assms(1) by (metis diff_add_inverse2 kind_ids_def length_map length_upt)
  then show "kind_module_id kind modules \<notin> set (kind_ids kind modules)"
    unfolding assms(1) by (auto simp: kind_module_id_def dest: show_nat_inj)
  have ids: "kind_ids kind left_over = filter (\<lambda>x. x \<noteq> kind @ show_nat k) (kind_ids kind modules)"
    unfolding assms(4) kind_ids_def by (simp add: filter_map comp_def) (metis (no_types, lifting) filter_filter conj_commute)
  also have "\<dots> = map (\<lambda>i. kind @ show_nat i) (filter (\<lambda>i. i \<noteq> k) [1..<n + 1])"
    unfolding assms(1) filter_map comp_def
    by (intro arg_cong [of _ _ "map _"] filter_cong) (auto dest: show_nat_inj)
  finally have l: "kind_ids kind left_over = map (\<lambda>i. kind @ show_nat i) (filter (\<lambda>i. i \<noteq> k) [1..<n + 1])" .
  have "length (filter (\<lambda>i. i \<noteq> k) [1..<n + 1]) + length (filter (\<lambda>i. i = k) [1..<n + 1]) = n"
    using sum_length_filter_compl [of "\<lambda>i. i \<noteq> k" "[1..<n + 1]"] by simp
  moreover have "filter (\<lambda>i. i = k) [1..<n + 1] = [k]"
    using assms(2,3) by (intro filter_single) simp_all
  ultimately have "length (kind_ids kind left_over) + 1 = n"
    unfolding l by (simp del: upt_Suc)
  then have "kind_module_id kind left_over = kind @ show_nat n"
    by (simp add: kind_module_id_def kind_ids_def)
  then show "kind_module_id kind left_over \<in> set (kind_ids kind left_over)"
    using assms(2,3) by (auto simp: l)
qed

section \<open>The board of the page\<close>

lemma keyed_pointsByName: "keyed (pointsByName rows)"
proof -
  have "obj_wf (pointsByName rows)"
    by (simp add: pointsByName_def obj_build_wf)
  moreover have "po_name r = k" if "obj_get (pointsByName rows) k = Some r" for k r
    using obj_build_in [of po_name "\<lambda>r. r" rows k r] that by (auto simp: pointsByName_def)
  ultimately show ?thesis
    by (auto simp: keyed_def obj_get_def obj_wf_def)
qed

lemma pointsByName_keys: "set (obj_keys (pointsByName rows)) = po_name ` set rows"
proof -
  have "obj_get (pointsByName rows) k = None \<longleftrightarrow> k \<notin> po_name ` set rows" for k
    using obj_build_None_iff [of po_name "\<lambda>r. r" rows k] by (auto simp: pointsByName_def)
  then show ?thesis
    by (auto simp: obj_keys_def obj_get_def map_of_eq_None_iff)
qed

text \<open>
  Nothing that is configured is invisible: the cards of the board are exactly the points that are not
  filtered out, those without a channel of the station in a lane of their own.
\<close>

theorem board_shows_points: "set (board_order (page_lanes t p)) = po_name ` set (visiblePoints p)"
  unfolding page_lanes_def by (simp add: board_order_keys [OF keyed_pointsByName] pointsByName_keys)

text \<open>
  While disabled points are hidden, which is the state the page starts in, the channel of a disabled
  point is drawn as a free one and offers to create a point on it, although its point still exists.
\<close>

theorem hidden_point_channel_free:
  assumes "dp_hideDisabled p" and "row \<in> set (dp_points p)" and "\<not> po_enabled row" and "distinct (map po_name (dp_points p))"
    and "m \<in> set (dp_modules p)" and "c \<in> set (mo_channels m)" and "ch_var_name c = Some (po_name row)"
  shows "\<exists>l\<in>set (page_lanes t p). la_id l = mo_id m \<and> EmptyCell (ch_channel c) \<in> set (la_cells l)
    \<and> openMenu t (board_order (page_lanes t p)) None (la_id l) (ch_channel c) empty_board
        = [(t ''pointBoard.createPoint'', MenuCreate (mo_id m) (ch_channel c))]"
proof -
  let ?table = "pointsByName (visiblePoints p)"
  have "po_name row \<notin> po_name ` set (visiblePoints p)"
    using assms(1-4) by (auto simp: visiblePoints_def distinct_map inj_on_def)
  then have "obj_get ?table (po_name row) = None"
    using obj_build_None_iff [of po_name "\<lambda>r. r" "visiblePoints p" "po_name row"] by (auto simp: pointsByName_def)
  then have "channel_cell ?table c = EmptyCell (ch_channel c)"
    by (simp add: channel_cell_def channel_row_def assms(7))
  then have "EmptyCell (ch_channel c) \<in> set (la_cells (module_lane ?table m))"
    using assms(6) by (auto simp: module_lane_def image_iff intro!: bexI [of _ c])
  moreover have "module_lane ?table m \<in> set (page_lanes t p)"
    using assms(5) by (simp add: page_lanes_def lanes_def Let_def set_js_sort)
  ultimately show ?thesis
    by (intro bexI [of _ "module_lane ?table m"]) (simp_all add: module_lane_def openMenu_def empty_board_def)
qed

section \<open>The form and the station\<close>

lemma render_keeps:
  "dp_points_gen (render_effects p0 p) = dp_points_gen p" "dp_stationId (render_effects p0 p) = dp_stationId p"
  "dp_points (render_effects p0 p) = dp_points p" "dp_selectedVar (render_effects p0 p) = dp_selectedVar p"
  "selectedRow (render_effects p0 p) = selectedRow p"
  by (simp_all add: render_effects_def prune_selection_def selectedRow_def Let_def)

lemma render_form:
  "dp_form (render_effects p0 p) =
     (if dp_points_gen p \<noteq> dp_points_gen p0 \<or> selectedRow p \<noteq> selectedRow p0 then form_for (selectedRow p) else dp_form p)"
  by (simp add: render_effects_def prune_selection_def Let_def)

lemma refresh_form:
  "dp_points_gen (snd (refresh t api i (w, p))) = dp_points_gen p
     \<Longrightarrow> dp_form (snd (refresh t api i (w, p))) = dp_form p
       \<and> selectedRow (snd (refresh t api i (w, p))) = selectedRow p"
  by (auto simp: refresh_def show_snapshot_def go_offline_def emit_def selectedRow_def split: prod.split sum.split if_splits)

text \<open>
  The properties form always shows the point as it was last read: an operation that ends in a read of
  the points, whichever it was and whatever point it was about, starts the form over, and what was typed
  there and not saved is gone.
\<close>

theorem read_resets_form:
  assumes "r = device_step t api e (w, p)" and "dp_points_gen (snd r) \<noteq> dp_points_gen p"
  shows "dp_form (snd r) = form_for (selectedRow (snd r))"
proof -
  obtain w1 p1 where h: "handle t api e (w, p) = (w1, p1)"
    by (metis prod.exhaust)
  define q where "q = render_effects p p1"
  show ?thesis
  proof (cases "dp_stationId q = dp_stationId p")
    case True
    then have "snd r = q"
      by (simp add: assms(1) device_step_def settle_def h q_def)
    then show ?thesis
      using assms(2) by (simp add: q_def render_keeps render_form)
  next
    case False
    obtain w2 p2 where re: "refresh t api (dp_stationId q) (w1, q) = (w2, p2)"
      by (metis prod.exhaust)
    have r: "snd r = render_effects q p2"
      using False re by (simp add: assms(1) device_step_def settle_def h q_def Let_def)
    show ?thesis
    proof (cases "dp_points_gen p2 = dp_points_gen q")
      case same: True
      then have "dp_form p2 = dp_form q" and "selectedRow p2 = selectedRow q"
        using refresh_form [of t api "dp_stationId q" w1 q] by (simp_all add: re)
      moreover have "dp_points_gen p1 \<noteq> dp_points_gen p"
        using assms(2) same by (simp add: r q_def render_keeps)
      ultimately show ?thesis
        using same by (simp add: r render_keeps render_form) (simp add: q_def render_keeps render_form)
    qed (simp add: r render_keeps render_form)
  qed
qed

section \<open>Late answers\<close>

text \<open>
  Reads under way: choosing a station starts a read of it, and so does every answer that changes the
  station on screen. Answers arrive in the order of the requests.
\<close>

record race =
  ra_page :: device_page
  ra_flight :: "string list"

definition pick_station :: "string \<Rightarrow> race \<Rightarrow> race" where
  "pick_station i r =
     (if dp_stationId (ra_page r) = i then r
      else \<lparr>ra_page = (ra_page r)\<lparr>dp_stationId := i\<rparr>, ra_flight = ra_flight r @ [i]\<rparr>)"

definition answer_arrives :: "(string \<Rightarrow> snapshot) \<Rightarrow> race \<Rightarrow> race" where
  "answer_arrives answers r =
     (case ra_flight r of [] \<Rightarrow> r
      | i # rest \<Rightarrow>
          (let p = show_snapshot (answers i) (ra_page r)
           in \<lparr>ra_page = render_effects (ra_page r) p,
               ra_flight = rest @ (if dp_stationId p = dp_stationId (ra_page r) then [] else [dp_stationId p])\<rparr>))"

lemma race_turn:
  assumes "sp_active (answers a) = a" and "a \<noteq> b" and "dp_stationId (ra_page r) = b" and "ra_flight r = [a, b]"
  shows "dp_stationId (ra_page (answer_arrives answers r)) = a \<and> ra_flight (answer_arrives answers r) = [b, a]"
  using assms by (simp add: answer_arrives_def render_keeps show_snapshot_def)

text \<open>
  Two stations that are picked in quick succession chase each other for ever: the answer for the first
  one switches the page back to it and so starts another read, and likewise the second. The page never
  comes to rest on the station that was picked last.
\<close>

theorem late_answers_never_settle:
  assumes "a \<noteq> b" and "sp_active (answers a) = a" and "sp_active (answers b) = b"
    and "dp_stationId (ra_page r) \<noteq> a" and "ra_flight r = []"
    and "s = (answer_arrives answers ^^ n) (pick_station b (pick_station a r))"
  shows "dp_stationId (ra_page s) = (if even n then b else a) \<and> ra_flight s \<noteq> []"
proof -
  have "dp_stationId (ra_page ((answer_arrives answers ^^ n) (pick_station b (pick_station a r)))) = (if even n then b else a)
      \<and> ra_flight ((answer_arrives answers ^^ n) (pick_station b (pick_station a r))) = (if even n then [a, b] else [b, a])"
  proof (induction n)
    case 0
    then show ?case
      using assms(1,4,5) by (simp add: pick_station_def)
  next
    case (Suc n)
    then show ?case
      using race_turn [of answers a b] race_turn [of answers b a] assms(1-3) by (cases "even n") simp_all
  qed
  then show ?thesis
    by (simp add: assms(6))
qed

section \<open>Concrete runs\<close>

text \<open>A service with one station and one point, which refuses some commands.\<close>

definition sample_station :: station_row where
  "sample_station = \<lparr>sn_id = ''S1'', sn_label = [], sn_device_type = ''DCU'', sn_cycle_ms = 100,
     sn_comm_interface = ''backplane'', sn_comm_address = [], sn_modules = 0, sn_variables = 1, sn_mapped = 0,
     sn_errors = 0, sn_warnings = 0\<rparr>"

definition still_service :: "string list \<Rightarrow> (command \<Rightarrow> bool) \<Rightarrow> unit api" where
  "still_service bound refuses =
     \<lparr>api_stations = io_return [sample_station], api_hardware = (\<lambda>i. io_return []), api_points = (\<lambda>i. io_return [sample_row]),
      api_validate = (\<lambda>i. io_return ([], [])), api_iomap = (\<lambda>i. io_return []), api_bound = io_return bound,
      api_send = (\<lambda>c w. (w, if refuses c then Inl ''refused'' else Inr ()))\<rparr>"

definition sample_module :: "string \<Rightarrow> int \<Rightarrow> string \<Rightarrow> module_view" where
  "sample_module i first var =
     \<lparr>mo_id = i, mo_kind = ''AI'', mo_first_channel = first, mo_channel_count = 16, mo_last_channel = first + 15,
      mo_label = [], mo_channels = [\<lparr>ch_channel = first, ch_var_name = Some var, ch_bound = True, ch_name = [],
        ch_signal_type = [], ch_enabled = False\<rparr>]\<rparr>"

definition sample_page :: device_page where
  "sample_page = (initial_page None)\<lparr>dp_stationId := ''S1'', dp_points := [sample_row\<lparr>po_enabled := False\<rparr>],
     dp_modules := [sample_module ''AI1'' 0 ''AI1_CH0'']\<rparr>"

theorem refresh_all_or_nothing_witness:
  "snd (refresh (\<lambda>k. k) (still_service [] (\<lambda>c. True)) ''S2'' ((), sample_page)) =
     sample_page\<lparr>dp_stations := [sample_station], dp_stationId := ''S1'', dp_modules := [], dp_points := [sample_row],
       dp_issues := [], dp_stPreview := [], dp_offline := False,
       dp_points_gen := dp_points_gen sample_page + 1, dp_stations_gen := dp_stations_gen sample_page + 1\<rparr>"
proof -
  define api where "api = still_service [] (\<lambda>c. True)"
  have answers: "api_stations api () = ((), Inr [sample_station])" "api_hardware api i () = ((), Inr [])"
    "api_points api i () = ((), Inr [sample_row])" "api_validate api i () = ((), Inr ([], []))" "api_iomap api i () = ((), Inr [])" for i
    by (simp_all add: api_def still_service_def io_return_def)
  have "[sample_station] = (case Inr [sample_station] of Inl (message :: string) \<Rightarrow> [] | Inr rows \<Rightarrow> rows)"
    and "''S1'' = (if ''S2'' \<in> sn_id ` set [sample_station] then ''S2'' else if [sample_station] = [] then [] else sn_id (hd [sample_station]))"
    by (simp_all add: sample_station_def)
  from refresh_all_or_nothing [OF _ answers(1) this answers(2-5), of "\<lambda>k. k" sample_page]
  show ?thesis
    by (simp only: api_def [symmetric] answer_error_def sum.case list.case append_Nil list.distinct not_False_eq_True simp_thms sum.sel fst_conv snd_conv)
qed

theorem batch_spares_bound_witness:
  "snd (fst (runBatch (\<lambda>k. k) (logged (still_service [''B''] (\<lambda>c. False))) [''A'', ''B''] BatchDelete True (((), []), sample_page)))
    = [DeleteVariable ''S1'' ''A'']"
  using batch_spares_bound [OF refl refl, where names = "[''A'', ''B'']" and action = BatchDelete and confirmed = True and p = sample_page and t = "\<lambda>k. k"
      and api = "still_service [''B''] (\<lambda>c. False)" and w = "()"]
  by (simp add: still_service_def io_return_def batch_command_def sample_page_def)

theorem success_after_failure_witness:
  "\<exists>l. dp_log (snd (onDeletePoint (\<lambda>k. k) (still_service [] (\<lambda>c. True)) ''A'' True ((), sample_page))) =
     ToastError ''device.operationFailed'' ''refused'' # l @ [ToastSuccess ''device.pointDeleted'' ''A'']"
  using success_after_failure [OF _ _ refl, of "still_service [] (\<lambda>c. True)" "()" sample_page "''A''" "''refused''" "\<lambda>k. k"]
  by (simp add: still_service_def io_return_def sample_page_def initial_page_def)

theorem batch_rename_sends_witness:
  "length (snd (fst (runBatchEdit (\<lambda>k. k) (logged (still_service [] (\<lambda>c. False)))
     (batch_rename [''AI1_CH0''] ''PV-'' (show_nat 9)) (((), []), sample_page)))) = 1"
proof -
  have "js_trim ''PV-'' \<noteq> []"
    by code_simp
  moreover have "obj_get (pointsByName (dp_points sample_page)) ''AI1_CH0'' \<noteq> None"
    by (simp add: sample_page_def pointsByName_def obj_build_def obj_get_def sample_row_def)
  ultimately show ?thesis
    using batch_rename_sends [OF _ _ _ _ refl, of "''PV-''" 9 "[''AI1_CH0'']" sample_page "\<lambda>k. k" "still_service [] (\<lambda>c. False)" "()"]
    by auto
qed

theorem kind_module_channels_witness:
  "\<exists>first. mq_first (kind_request (\<lambda>k. k) ''AI'' (dp_modules sample_page)) = Num (of_int first) \<and> 15 < first \<and> first \<le> 63"
  using kind_module_channels [of sample_page "\<lambda>k. k" "''AI''"]
  by (auto simp: sample_page_def sample_module_def spaceFull_def suggestedFirstChannel_def)

theorem kind_id_collides_witness:
  "kind_module_id ''AI'' [sample_module ''AI2'' 16 ''x''] = ''AI2''
   \<and> kind_module_id ''AI'' [sample_module ''AI2'' 16 ''x''] \<in> set (kind_ids ''AI'' [sample_module ''AI2'' 16 ''x''])"
proof -
  have n: "show_nat 1 = ''1''" "show_nat 2 = ''2''"
    by code_simp+
  have "[1..<2 + 1] = [1, 2 :: nat]"
    by code_simp
  then show ?thesis
    using kind_id_collides [OF _ _ _ refl, of "''AI''" "[sample_module ''AI1'' 0 ''y'', sample_module ''AI2'' 16 ''x'']" 2 1]
    by (simp add: sample_module_def kind_ids_def kind_module_id_def n numeral_2_eq_2 [symmetric])
qed

theorem hidden_point_channel_free_witness:
  "\<exists>l\<in>set (page_lanes (\<lambda>k. k) sample_page). la_id l = ''AI1'' \<and> EmptyCell 0 \<in> set (la_cells l)"
  using hidden_point_channel_free [of sample_page "sample_row\<lparr>po_enabled := False\<rparr>" "sample_module ''AI1'' 0 ''AI1_CH0''"
      "hd (mo_channels (sample_module ''AI1'' 0 ''AI1_CH0''))" "\<lambda>k. k"]
  by (auto simp: sample_page_def initial_page_def sample_row_def sample_module_def)

theorem read_resets_form_witness:
  "dp_form (snd (device_step (\<lambda>k. k) (still_service [] (\<lambda>c. False)) (TogglePoint ''AI1_CH0'' True)
     ((), sample_page\<lparr>dp_form := EMPTY_FORM\<lparr>fm_unit := ''bar''\<rparr>\<rparr>))) = EMPTY_FORM"
proof -
  let ?r = "device_step (\<lambda>k. k) (still_service [] (\<lambda>c. False)) (TogglePoint ''AI1_CH0'' True)
     ((), sample_page\<lparr>dp_form := EMPTY_FORM\<lparr>fm_unit := ''bar''\<rparr>\<rparr>)"
  have "dp_points_gen (snd ?r) \<noteq> 0 \<and> selectedRow (snd ?r) = None"
    by (simp add: device_step_def settle_def onTogglePoint_def mutate_def refresh_def read_station_def io_bind_def io_return_def
        still_service_def show_snapshot_def active_station_def sample_station_def sample_page_def initial_page_def Let_def
        render_keeps emit_def selectedRow_def after_def)
  then show ?thesis
    using read_resets_form [OF refl, of "\<lambda>k. k" "still_service [] (\<lambda>c. False)" "TogglePoint ''AI1_CH0'' True" "()"
        "sample_page\<lparr>dp_form := EMPTY_FORM\<lparr>fm_unit := ''bar''\<rparr>\<rparr>"]
    by (simp add: form_for_def sample_page_def initial_page_def)
qed

theorem late_answers_never_settle_witness:
  "ra_flight ((answer_arrives (\<lambda>i. \<lparr>sp_stations = [], sp_active = i, sp_modules = [], sp_points = [], sp_issues = [], sp_st = []\<rparr>) ^^ 9)
     (pick_station ''S3'' (pick_station ''S2'' \<lparr>ra_page = sample_page, ra_flight = []\<rparr>))) \<noteq> []"
  using late_answers_never_settle [OF _ _ _ _ _ refl, of "''S2''" "''S3''"
      "\<lambda>i. \<lparr>sp_stations = [], sp_active = i, sp_modules = [], sp_points = [], sp_issues = [], sp_st = []\<rparr>"
      "\<lparr>ra_page = sample_page, ra_flight = []\<rparr>" 9]
  by (simp add: sample_page_def)

end
