(* ===== verification/ContextMenu.thy ===== *)
theory ContextMenu
  imports Containers
begin

text \<open>
  The context menu (\<open>components/ContextMenu.tsx\<close>): its place in the window, the entry whose form is open with
  the values typed there, and what a choice hands back. The type of the actions is a parameter.
\<close>

record menu_field =
  mf_key :: string
  mf_label :: string
  mf_placeholder :: "string option"
  mf_options :: "(string \<times> string) list option"
  mf_value :: "string option"

record 'a ctx_item =
  ci_label :: string
  ci_click :: "'a option"
  ci_disabled :: bool
  ci_separator :: bool
  ci_fields :: "menu_field list option"
  ci_submit :: "((string, string) obj \<Rightarrow> 'a) option"

definition ctx_command :: "string \<Rightarrow> 'a \<Rightarrow> 'a ctx_item" where
  "ctx_command label a =
     \<lparr>ci_label = label, ci_click = Some a, ci_disabled = False, ci_separator = False, ci_fields = None, ci_submit = None\<rparr>"

definition ctx_line :: "'a ctx_item" where
  "ctx_line =
     \<lparr>ci_label = [], ci_click = None, ci_disabled = False, ci_separator = True, ci_fields = None, ci_submit = None\<rparr>"

definition initialValues :: "menu_field list \<Rightarrow> (string, string) obj" where
  "initialValues fs = obj_build mf_key (\<lambda>f. case mf_value f of None \<Rightarrow> [] | Some v \<Rightarrow> v) fs"

record ctx_menu =
  cm_openForm :: "nat option"
  cm_values :: "(string, string) obj"

definition fresh_menu :: ctx_menu where
  "fresh_menu = \<lparr>cm_openForm = None, cm_values = []\<rparr>"

section \<open>Place\<close>

text \<open>The corner of the menu in a window of the given size.\<close>

definition menu_corner :: "int \<Rightarrow> int \<Rightarrow> nat \<Rightarrow> int \<Rightarrow> int \<Rightarrow> int \<times> int" where
  "menu_corner innerWidth innerHeight items x y =
     (min x (innerWidth - 224), max 8 (min y (innerHeight - int items * 32 - 10)))"

lemma menu_corner_inside:
  assumes "menu_corner w h n x y = (a, b)" and "224 \<le> w" and "int n * 32 + 18 \<le> h" and "0 \<le> x"
  shows "0 \<le> a \<and> a + 224 \<le> w \<and> 8 \<le> b \<and> b + int n * 32 + 10 \<le> h"
  using assms by (auto simp: menu_corner_def)

section \<open>Events\<close>

datatype ctx_event =
    ClickEntry nat
  | TypeField string string
  | SubmitForm nat
  | CollapseForm
  | MouseOutside
  | EscapeKey

text \<open>The new state, the action that runs, and whether the menu is closed.\<close>

definition submit_item :: "'a ctx_item \<Rightarrow> ctx_menu \<Rightarrow> ctx_menu \<times> 'a option \<times> bool" where
  "submit_item item m = (m, map_option (\<lambda>f. f (cm_values m)) (ci_submit item), True)"

definition ctx_step :: "'a ctx_item list \<Rightarrow> ctx_event \<Rightarrow> ctx_menu \<Rightarrow> ctx_menu \<times> 'a option \<times> bool" where
  "ctx_step items e m =
     (case e of
        MouseOutside \<Rightarrow> (m, None, True)
      | EscapeKey \<Rightarrow> (m, None, True)
      | CollapseForm \<Rightarrow> (m\<lparr>cm_openForm := None\<rparr>, None, False)
      | TypeField k v \<Rightarrow> (m\<lparr>cm_values := obj_put k v (cm_values m)\<rparr>, None, False)
      | SubmitForm i \<Rightarrow> (if i < length items \<and> cm_openForm m = Some i then submit_item (items ! i) m else (m, None, False))
      | ClickEntry i \<Rightarrow>
          (if length items \<le> i \<or> ci_separator (items ! i) then (m, None, False)
           else (case ci_fields (items ! i) of
               Some fs \<Rightarrow>
                 if cm_openForm m = Some i then (m, None, False)
                 else (m\<lparr>cm_openForm := Some i, cm_values := initialValues fs\<rparr>, None, False)
             | None \<Rightarrow> if ci_disabled (items ! i) then (m, None, False) else (m, ci_click (items ! i), True))))"

fun ctx_run :: "'a ctx_item list \<Rightarrow> ctx_event list \<Rightarrow> ctx_menu \<Rightarrow> ctx_menu" where
  "ctx_run items [] m = m"
| "ctx_run items (e # es) m = ctx_run items es (fst (ctx_step items e m))"

lemma typed_values:
  "ctx_run items (map (\<lambda>(k, v). TypeField k v) typed) m =
     m\<lparr>cm_values := fold (\<lambda>(k, v). obj_put k v) typed (cm_values m)\<rparr>"
  by (induction typed arbitrary: m) (auto simp: ctx_step_def)

text \<open>
  What a form of the menu hands back is the default of each of its fields with what was typed there laid
  over it; nothing is left of another form that was open before.
\<close>

lemma form_hands_back:
  assumes "i < length items" and "\<not> ci_separator (items ! i)" and "ci_fields (items ! i) = Some fs"
    and "ci_submit (items ! i) = Some f" and "cm_openForm m \<noteq> Some i"
    and "m1 = ctx_run items (ClickEntry i # map (\<lambda>(k, v). TypeField k v) typed) m"
  shows "ctx_step items (SubmitForm i) m1 = (m1, Some (f (fold (\<lambda>(k, v). obj_put k v) typed (initialValues fs))), True)"
  using assms by (simp add: typed_values) (simp add: ctx_step_def submit_item_def)

end
