(* ===== verification/Simulation.thy ===== *)
theory Simulation
  imports Prelude
begin

text \<open>
  The contract between a component that is driven by operations, each with a visible result, and the
  specification it implements: one step agrees through an abstraction function, hence so do all runs.
\<close>

section \<open>Runs\<close>

fun run_steps :: "('e \<Rightarrow> 's \<Rightarrow> 's \<times> 'o) \<Rightarrow> 'e list \<Rightarrow> 's \<Rightarrow> 's \<times> 'o list" where
  "run_steps step [] s = (s, [])"
| "run_steps step (e # es) s =
     (let (s1, r) = step e s; (s2, rs) = run_steps step es s1 in (s2, r # rs))"

lemma run_steps_Cons:
  "run_steps step (e # es) s =
     (fst (run_steps step es (fst (step e s))), snd (step e s) # snd (run_steps step es (fst (step e s))))"
  by (simp add: split_beta)

lemma run_steps_append:
  "run_steps step (es @ fs) s =
     (fst (run_steps step fs (fst (run_steps step es s))),
      snd (run_steps step es s) @ snd (run_steps step fs (fst (run_steps step es s))))"
  by (induction es arbitrary: s) (simp_all add: split_beta)

lemma length_run_steps: "length (snd (run_steps step es s)) = length es"
  by (induction es arbitrary: s) (simp_all add: split_beta)

section \<open>Refinement\<close>

locale simulation =
  fixes cstep :: "'e \<Rightarrow> 'c \<Rightarrow> 'c \<times> 'o" and astep :: "'e \<Rightarrow> 'a \<Rightarrow> 'a \<times> 'o"
    and abst :: "'c \<Rightarrow> 'a" and inv :: "'c \<Rightarrow> bool"
  assumes step_inv: "inv c \<Longrightarrow> inv (fst (cstep e c))"
    and step_abst: "inv c \<Longrightarrow> abst (fst (cstep e c)) = fst (astep e (abst c))"
    and step_result: "inv c \<Longrightarrow> snd (cstep e c) = snd (astep e (abst c))"
begin

lemma run_inv: "inv c \<Longrightarrow> inv (fst (run_steps cstep es c))"
  by (induction es arbitrary: c) (simp_all add: split_beta step_inv)

lemma run_abst: "inv c \<Longrightarrow> abst (fst (run_steps cstep es c)) = fst (run_steps astep es (abst c))"
  by (induction es arbitrary: c) (simp_all add: split_beta step_inv step_abst)

lemma run_results: "inv c \<Longrightarrow> snd (run_steps cstep es c) = snd (run_steps astep es (abst c))"
  by (induction es arbitrary: c) (simp_all add: split_beta step_inv step_abst step_result)

end

end
