(* ===== verification/DeviceTree.thy ===== *)
theory DeviceTree
  imports DevicePage ContextMenu Simulation
begin

text \<open>
  The two other views of the points of a station: the tree of modules and channels
  (\<open>components/device/HardwareTree.tsx\<close>) and the table (\<open>components/device/ExternalVarTable.tsx\<close>). Both call
  the handlers of the page: the events they send are those of \<open>DevicePage\<close>.
\<close>

section \<open>The tree\<close>

record tree_target =
  tt_x :: int
  tt_y :: int
  tt_module :: "string option"
  tt_channel :: "int option"

record hw_tree =
  ht_editing :: "(string \<times> int) option"
  ht_editValue :: string
  ht_menu :: "tree_target option"

definition fresh_tree :: hw_tree where
  "fresh_tree = \<lparr>ht_editing = None, ht_editValue = [], ht_menu = None\<rparr>"

definition point_count :: "module_view list \<Rightarrow> nat" where
  "point_count modules = sum_list (map (\<lambda>m. length (filter ch_bound (mo_channels m))) modules)"

definition channel_count :: "module_view list \<Rightarrow> int" where
  "channel_count modules = sum_list (map mo_channel_count modules)"

definition start_naming :: "string \<Rightarrow> int \<Rightarrow> string \<Rightarrow> hw_tree \<Rightarrow> hw_tree" where
  "start_naming m c name tree = tree\<lparr>ht_editing := Some (m, c), ht_editValue := name\<rparr>"

definition commit_name :: "hw_tree \<Rightarrow> hw_tree \<times> device_event option" where
  "commit_name tree =
     (case ht_editing tree of
        None \<Rightarrow> (tree, None)
      | Some (m, c) \<Rightarrow> (tree\<lparr>ht_editing := None, ht_editValue := []\<rparr>, Some (NameChannel m c (ht_editValue tree))))"

definition cancel_name :: "hw_tree \<Rightarrow> hw_tree" where
  "cancel_name tree = tree\<lparr>ht_editing := None, ht_editValue := []\<rparr>"

text \<open>What an entry of the menu does: an event of the page, or the start of an edit in the tree.\<close>

datatype tree_action = TellPage device_event | StartNaming string int string

definition find_channel :: "module_view list \<Rightarrow> string \<Rightarrow> int \<Rightarrow> channel_info option" where
  "find_channel modules i c =
     (case List.find (\<lambda>m. mo_id m = i) modules of
        None \<Rightarrow> None | Some m \<Rightarrow> List.find (\<lambda>ch. ch_channel ch = c) (mo_channels m))"

text \<open>The dialog that asks before a deletion is answered by \<open>ok\<close>.\<close>

definition tree_menu :: "(string \<Rightarrow> string) \<Rightarrow> module_view list \<Rightarrow> bool \<Rightarrow> tree_target \<Rightarrow> tree_action ctx_item list" where
  "tree_menu t modules ok target =
     (case (if tt_module target = Some [] then None else tt_module target, tt_channel target) of
        (Some m, Some c) \<Rightarrow>
          (let ch = find_channel modules m c in
           (case Option.bind ch ch_var_name of
              None \<Rightarrow>
                [ctx_command (t ''hwTree.createPoint'' @ '' '' @ show_int c @ '' '' @ t ''hwTree.createPoint2'')
                   (TellPage (CreatePoint m c))]
            | Some v \<Rightarrow>
                (let enabled = (case ch of None \<Rightarrow> True | Some x \<Rightarrow> ch_enabled x) in
                 [ctx_command (t (if enabled then ''hwTree.disablePoint'' else ''hwTree.enablePoint'') @ '' '' @ v)
                    (TellPage (TogglePoint v (\<not> enabled))),
                  ctx_command (t ''hwTree.deletePoint'' @ '' '' @ v) (TellPage (DeletePoint v ok))]))
           @ [ctx_line,
              ctx_command (t ''hwTree.renameChannel'')
                (StartNaming m c (case ch of None \<Rightarrow> [] | Some x \<Rightarrow> ch_name x))])
      | (Some m, None) \<Rightarrow> [ctx_command (t ''hwTree.deleteModule'' @ '' '' @ m) (TellPage (RemoveModule m ok))]
      | (None, c) \<Rightarrow>
          map (\<lambda>k. ctx_command (t (''hwTree.add'' @ k)) (TellPage (AddModuleOfKind k))) [''AI'', ''AO'', ''DI'', ''DO''])"

datatype tree_event =
    PressModule string
  | PressChannel string int
  | PressCheckbox channel_info
  | OpenTreeMenu tree_target
  | ChooseTreeEntry nat bool
  | CloseTreeMenu
  | EditChannelName string int string
  | TypeChannelName string
  | NameKey string
  | LeaveName

definition run_tree_action :: "tree_action option \<Rightarrow> hw_tree \<Rightarrow> hw_tree \<times> device_event option" where
  "run_tree_action a tree =
     (case a of None \<Rightarrow> (tree, None)
      | Some (TellPage e) \<Rightarrow> (tree, Some e)
      | Some (StartNaming m c n) \<Rightarrow> (start_naming m c n tree, None))"

definition tree_step :: "(string \<Rightarrow> string) \<Rightarrow> module_view list \<Rightarrow> tree_event \<Rightarrow> hw_tree \<Rightarrow> hw_tree \<times> device_event option" where
  "tree_step t modules e tree =
     (case e of
        PressModule m \<Rightarrow> (tree, Some (ToggleCollapsed m))
      | PressChannel m c \<Rightarrow> (tree, if ht_editing tree = Some (m, c) then None else Some (SelectChannel c))
      | PressCheckbox ch \<Rightarrow>
          (tree, case ch_var_name ch of None \<Rightarrow> None
             | Some owner \<Rightarrow> if owner = [] then None else Some (TogglePoint owner (\<not> ch_enabled ch)))
      | OpenTreeMenu target \<Rightarrow> (tree\<lparr>ht_menu := Some target\<rparr>, None)
      | CloseTreeMenu \<Rightarrow> (tree\<lparr>ht_menu := None\<rparr>, None)
      | ChooseTreeEntry i ok \<Rightarrow>
          (case ht_menu tree of
             None \<Rightarrow> (tree, None)
           | Some target \<Rightarrow>
               (let (m, a, closes) = ctx_step (tree_menu t modules ok target) (ClickEntry i) fresh_menu
                in run_tree_action a (if closes then tree\<lparr>ht_menu := None\<rparr> else tree)))
      | EditChannelName m c n \<Rightarrow> (start_naming m c n tree, None)
      | TypeChannelName s \<Rightarrow> (tree\<lparr>ht_editValue := s\<rparr>, None)
      | NameKey k \<Rightarrow> (if k = ''Enter'' then commit_name tree else if k = ''Escape'' then (cancel_name tree, None) else (tree, None))
      | LeaveName \<Rightarrow> commit_name tree)"

record channel_line =
  cl_text :: string
  cl_checked :: bool
  cl_hint :: string
  cl_bound :: bool
  cl_editing :: bool
  cl_name :: string
  cl_owner :: string
  cl_selected :: bool
  cl_dimmed :: bool

definition show_channel ::
    "(string \<Rightarrow> string) \<Rightarrow> hw_tree \<Rightarrow> int option \<Rightarrow> string \<Rightarrow> channel_info \<Rightarrow> channel_line" where
  "show_channel t tree selected m ch =
     \<lparr>cl_text = ''CH'' @ show_int (ch_channel ch),
      cl_checked = (ch_enabled ch \<and> (case ch_var_name ch of None \<Rightarrow> False | Some o1 \<Rightarrow> o1 \<noteq> [])),
      cl_hint = (case ch_var_name ch of None \<Rightarrow> t ''hwTree.noPointYet''
        | Some o1 \<Rightarrow> if o1 = [] then t ''hwTree.noPointYet''
            else t (if ch_enabled ch then ''hwTree.disableChannel'' else ''hwTree.enableChannel'')),
      cl_bound = ch_bound ch,
      cl_editing = (ht_editing tree = Some (m, ch_channel ch)),
      cl_name = (if ht_editing tree = Some (m, ch_channel ch) then ht_editValue tree
        else if ch_name ch \<noteq> [] then ch_name ch else t ''hwTree.unnamed''),
      cl_owner = (case ch_var_name ch of None \<Rightarrow> t ''hwTree.noPoints'' | Some o1 \<Rightarrow> if o1 = [] then t ''hwTree.noPoints'' else o1),
      cl_selected = (selected = Some (ch_channel ch)), cl_dimmed = (\<not> ch_enabled ch)\<rparr>"

record module_line =
  ml_id :: string
  ml_title :: string
  ml_range :: string
  ml_points :: string
  ml_lines :: "channel_line list option"

definition show_module ::
    "(string \<Rightarrow> string) \<Rightarrow> (string, bool) obj \<Rightarrow> hw_tree \<Rightarrow> int option \<Rightarrow> module_view \<Rightarrow> module_line" where
  "show_module t collapsed tree selected m =
     \<lparr>ml_id = mo_id m,
      ml_title = table_or IO_KIND_LABEL (mo_kind m) (mo_kind m) @ '': '' @ t ''device.directionHint'',
      ml_range = mo_kind m @ '' '' @ show_int (mo_first_channel m) @ en_dash @ show_int (mo_last_channel m),
      ml_points = show_nat (length (filter ch_bound (mo_channels m))) @ ''/'' @ show_int (mo_channel_count m) @ '' '' @ t ''hwTree.points'',
      ml_lines = (if obj_get collapsed (mo_id m) = Some True then None
        else Some (map (show_channel t tree selected (mo_id m)) (mo_channels m)))\<rparr>"

definition tree_header :: "(string \<Rightarrow> string) \<Rightarrow> module_view list \<Rightarrow> string" where
  "tree_header t modules =
     show_nat (length modules) @ '' '' @ t ''hwTree.modules'' @ '' '' @ middot @ '' '' @ show_nat (point_count modules)
     @ ''/'' @ show_int (channel_count modules) @ '' '' @ t ''hwTree.channelsWithPoints''"

section \<open>The table\<close>

record point_table_state =
  xt_editing :: "(string \<times> edit_field) option"
  xt_draft :: string

definition table_range :: "point_row \<Rightarrow> string" where
  "table_range row =
     (if po_safety_min row = None \<and> po_safety_max row = None then dash_text
      else let fmt = (\<lambda>v. case v of None \<Rightarrow> minus_infinity | Some r \<Rightarrow> show_rat r)
        in fmt (po_safety_min row) @ '' '' @ ellipsis @ '' '' @ fmt (po_safety_max row))"

definition table_patch :: "edit_field \<Rightarrow> string \<Rightarrow> patch_field" where
  "table_patch f s = (case f of FieldPointName \<Rightarrow> SetPointName s | FieldUnit \<Rightarrow> SetUnit s)"

datatype table_event =
    PressRow string
  | PressEnabled point_row
  | PressDelete string bool
  | EditCell point_row edit_field
  | TypeCell string
  | CellKey point_row edit_field string
  | LeaveCell point_row edit_field

definition commit_cell :: "point_row \<Rightarrow> edit_field \<Rightarrow> point_table_state \<Rightarrow> point_table_state \<times> device_event option" where
  "commit_cell row f s = (s\<lparr>xt_editing := None\<rparr>, Some (EditPoint row [table_patch f (js_trim (xt_draft s))]))"

definition table_step :: "table_event \<Rightarrow> point_table_state \<Rightarrow> point_table_state \<times> device_event option" where
  "table_step e s =
     (case e of
        PressRow n \<Rightarrow> (s, Some (SelectVar n))
      | PressEnabled row \<Rightarrow> (s, Some (TogglePoint (po_name row) (\<not> po_enabled row)))
      | PressDelete n ok \<Rightarrow> (s, Some (DeletePoint n ok))
      | EditCell row f \<Rightarrow>
          (s\<lparr>xt_editing := Some (po_name row, f), xt_draft := (case f of FieldPointName \<Rightarrow> po_point_name row | FieldUnit \<Rightarrow> po_unit row)\<rparr>, None)
      | TypeCell v \<Rightarrow> (s\<lparr>xt_draft := v\<rparr>, None)
      | CellKey row f k \<Rightarrow>
          (if k = ''Enter'' then commit_cell row f s else if k = ''Escape'' then (s\<lparr>xt_editing := None\<rparr>, None) else (s, None))
      | LeaveCell row f \<Rightarrow> commit_cell row f s)"

text \<open>The twelve cells of a row, as they are read.\<close>

definition table_row :: "(string \<Rightarrow> string) \<Rightarrow> (string, string) obj \<Rightarrow> point_table_state \<Rightarrow> point_row \<Rightarrow> string list" where
  "table_row t messages s row =
     (let cell = (\<lambda>f shown. if xt_editing s = Some (po_name row, f) then xt_draft s else or_text shown dash_text)
      in [if po_enabled row then t ''extVar.disablePoint'' else t ''extVar.enablePoint'',
          po_name row @ (case obj_get messages (po_name row) of None \<Rightarrow> [] | Some e \<Rightarrow> if e = [] then [] else '' '' @ e),
          (case po_module_id row of None \<Rightarrow> po_io_kind row | Some m \<Rightarrow> m),
          (if po_mapped row then ''CH'' @ (case po_channel row of None \<Rightarrow> ''null'' | Some c \<Rightarrow> show_int c) else t ''extVar.emptyChannel''),
          t (if po_direction row = ''input'' then ''extVar.input'' else ''extVar.output'') @ '' '' @ po_st_type row
            @ (if po_has_quality row then ''+Q'' else []),
          cell FieldPointName (po_point_name row),
          cell FieldUnit (po_unit row),
          show_rat (po_scale row) @ '' / '' @ show_rat (po_bias row),
          t (if po_has_quality row then ''extVar.yes'' else ''extVar.no''),
          table_range row,
          table_or HOLD_LABELS (po_fault_hold row) (t ''extVar.notConfigured'')
            @ (if po_fault_hold row = ''preset''
               then ''= '' @ (case po_preset_value row of None \<Rightarrow> [] | Some r \<Rightarrow> show_rat r) else [])
            @ (if po_enabled row then [] else t ''extVar.disabled''),
          t ''common.delete''])"

definition table_columns :: "(string \<Rightarrow> string) \<Rightarrow> string list" where
  "table_columns t =
     map t [''extVar.enabled'', ''extVar.pointName'', ''extVar.module'', ''extVar.channel'', ''extVar.directionType'',
       ''extVar.pointNameCol'', ''extVar.unit'', ''extVar.scaleBias'', ''extVar.quality'', ''extVar.range'',
       ''extVar.faultHold'', ''extVar.actions'']"

section \<open>Laws\<close>

definition names_channel :: "device_event option \<Rightarrow> bool" where
  "names_channel r \<longleftrightarrow> (case r of Some (NameChannel m c n) \<Rightarrow> True | _ \<Rightarrow> False)"

text \<open>Events that may start an edit: a double click, and the choice of a menu entry.\<close>

definition starts_edit :: "tree_event \<Rightarrow> bool" where
  "starts_edit e \<longleftrightarrow> (case e of EditChannelName m c n \<Rightarrow> True | ChooseTreeEntry i ok \<Rightarrow> True | _ \<Rightarrow> False)"

definition edit_open :: "hw_tree \<Rightarrow> nat" where
  "edit_open tree = (if ht_editing tree = None then 0 else 1)"

lemma tree_menu_clicks:
  "x \<in> set (tree_menu t modules ok target) \<Longrightarrow> ci_click x = Some (TellPage e) \<Longrightarrow> \<not> names_channel (Some e)"
  by (auto simp: tree_menu_def names_channel_def ctx_command_def ctx_line_def Let_def split: option.splits if_splits)

lemma chosen_entry:
  "ctx_step items (ClickEntry i) m = (m1, Some a, closes) \<Longrightarrow> \<exists>x\<in>set items. ci_click x = Some a"
  by (auto simp: ctx_step_def split: if_splits option.splits)

lemma tree_step_edits:
  "(if names_channel (snd (tree_step t modules e tree)) then 1 else 0) + edit_open (fst (tree_step t modules e tree))
     \<le> edit_open tree + (if starts_edit e then 1 else 0)"
proof (cases e)
  case (ChooseTreeEntry i ok)
  show ?thesis
  proof (cases "ht_menu tree")
    case (Some target)
    obtain m a closes where step: "ctx_step (tree_menu t modules ok target) (ClickEntry i) fresh_menu = (m, a, closes)"
      by (metis prod.exhaust)
    have "\<not> names_channel (Some e1)" if "a = Some (TellPage e1)" for e1
      using chosen_entry [of _ i fresh_menu m "TellPage e1" closes] step that tree_menu_clicks by metis
    then show ?thesis
      by (auto simp: ChooseTreeEntry tree_step_def Some step run_tree_action_def start_naming_def edit_open_def starts_edit_def
          names_channel_def split: option.splits tree_action.splits device_event.splits)
  qed (simp add: ChooseTreeEntry tree_step_def names_channel_def)
qed (auto simp: tree_step_def commit_name_def cancel_name_def start_naming_def edit_open_def starts_edit_def names_channel_def
    split: option.splits)

text \<open>
  The tree asks for at most one new channel name per edit, whatever is pressed, typed and left in which
  order; a cancelled edit sends nothing.
\<close>

theorem one_name_per_edit:
  "length (filter names_channel (snd (run_steps (tree_step t modules) es fresh_tree))) \<le> length (filter starts_edit es)"
proof -
  have "length (filter names_channel (snd (run_steps (tree_step t modules) es tree)))
      + edit_open (fst (run_steps (tree_step t modules) es tree)) \<le> edit_open tree + length (filter starts_edit es)" for tree
  proof (induction es arbitrary: tree)
    case (Cons e es)
    show ?case
      using tree_step_edits [of t modules e tree] Cons.IH [of "fst (tree_step t modules e tree)"]
      by (simp add: run_steps_Cons del: run_steps.simps split: if_splits)
  qed simp
  from this [of fresh_tree] show ?thesis
    by (simp add: edit_open_def fresh_tree_def)
qed

text \<open>What the menu of a channel with a point offers.\<close>

lemma tree_menu_of_point:
  assumes "m \<noteq> []" and "find_channel modules m c = Some ch" and "ch_var_name ch = Some v"
  shows "map ci_click (tree_menu t modules ok \<lparr>tt_x = x, tt_y = y, tt_module = Some m, tt_channel = Some c\<rparr>) =
    [Some (TellPage (TogglePoint v (\<not> ch_enabled ch))), Some (TellPage (DeletePoint v ok)), None,
     Some (StartNaming m c (ch_name ch))]"
  using assms by (simp add: tree_menu_def ctx_command_def ctx_line_def Let_def)

text \<open>A cell of the table sends the payload of the row with the one field of the cell changed.\<close>

lemma cell_payload:
  "snd (commit_cell row FieldUnit s) = Some (EditPoint row [SetUnit (js_trim (xt_draft s))])
   \<and> payloadFor row [SetUnit u] = (row_payload row)\<lparr>bd_unit := u\<rparr>"
  by (simp add: commit_cell_def table_patch_def payloadFor_def)

end
