(* ===== verification/BlockText.thy ===== *)
theory BlockText
  imports GraphTypes
begin

text \<open>
  The algorithm blocks of the library and the texts the block editor makes of them
  (\<open>components/library/BlockEditor.tsx\<close>, lines 6 to 178 and 887 to 936): the escaping of names, the symbol
  as SVG, the removal of tags from typed names and the skeleton of the source.
\<close>

section \<open>Blocks\<close>

record block_port =
  bp_name :: string
  bp_direction :: string
  bp_data_type :: string
  bp_description :: string
  bp_default :: jsval

record block_parameter =
  pm_name :: string
  pm_data_type :: string
  pm_default :: jsval
  pm_min :: jsval
  pm_max :: jsval
  pm_description :: string

record algorithm_block =
  ab_id :: string
  ab_name :: string
  ab_category :: string
  ab_version :: string
  ab_description :: string
  ab_author :: string
  ab_block_kind :: string
  ab_time_based :: bool
  ab_inputs :: "block_port list"
  ab_outputs :: "block_port list"
  ab_parameters :: "block_parameter list"
  ab_st_template :: string
  ab_icon_svg :: string
  ab_tags :: "string list"
  ab_updated_at :: "string option"

definition DATA_TYPES :: "string list" where
  "DATA_TYPES = [''BOOL'', ''INT'', ''DINT'', ''REAL'', ''LREAL'', ''STRING'']"

definition CATEGORIES :: "string list" where
  "CATEGORIES = [''math'', ''control'', ''logic'', ''filter'', ''converter'', ''custom'']"

section \<open>Escaping\<close>

text \<open>\<open>s.replace(/c/g, r)\<close> for a single character.\<close>

definition replace_char :: "char \<Rightarrow> string \<Rightarrow> string \<Rightarrow> string" where
  "replace_char c r s = concat (map (\<lambda>x. if x = c then r else [x]) s)"

definition escapeXml :: "string \<Rightarrow> string" where
  "escapeXml s =
     replace_char (CHR 0x22) ''&quot;'' (replace_char (CHR ''>'') ''&gt;''
       (replace_char (CHR ''<'') ''&lt;'' (replace_char (CHR ''&'') ''&amp;'' s)))"

text \<open>\<open>s.replace(/<[^>]*>/g, "")\<close>: a tag runs from a \<open><\<close> to the first \<open>></\<close> after it.\<close>

function strip_tags :: "string \<Rightarrow> string" where
  "strip_tags [] = []"
| "strip_tags (c # cs) =
     (if c = CHR ''<'' \<and> CHR ''>'' \<in> set cs then strip_tags (tl (dropWhile (\<lambda>x. x \<noteq> CHR ''>'') cs))
      else c # strip_tags cs)"
  by pat_completeness auto
termination
proof (relation "measure length", goal_cases)
  case (2 c cs)
  have "length (tl (dropWhile (\<lambda>x. x \<noteq> CHR ''>'') cs)) \<le> length cs"
    using length_dropWhile_le [of "\<lambda>x. x \<noteq> CHR ''>''" cs] by simp
  then show ?case
    by (simp only: in_measure list.size less_Suc_eq_le add_0_right add_Suc_right)
qed simp_all

definition sanitize :: "string \<Rightarrow> string" where
  "sanitize s = js_trim (strip_tags s)"

section \<open>The symbol\<close>

definition line_feed :: string where
  "line_feed = [CHR 0x0A]"

definition quoted :: "string \<Rightarrow> string" where
  "quoted s = CHR 0x22 # s @ [CHR 0x22]"

text \<open>\<open>name="value"\<close> with a number.\<close>

definition attr_nat :: "string \<Rightarrow> nat \<Rightarrow> string" where
  "attr_nat name n = name @ ''='' @ quoted (show_nat n)"

definition attr :: "string \<Rightarrow> string \<Rightarrow> string" where
  "attr name v = name @ ''='' @ quoted v"

definition svg_text :: "nat \<Rightarrow> nat \<Rightarrow> string \<Rightarrow> nat \<Rightarrow> string \<Rightarrow> string \<Rightarrow> string" where
  "svg_text x y fill font tail body =
     ''<text '' @ attr_nat ''x'' x @ '' '' @ attr_nat ''y'' y @ '' '' @ attr ''fill'' fill @ '' '' @ attr_nat ''font-size'' font @ '' ''
     @ attr ''font-family'' ''monospace'' @ tail @ ''>'' @ body @ ''</text>''"

definition svg_line :: "nat \<Rightarrow> nat \<Rightarrow> nat \<Rightarrow> string" where
  "svg_line x1 x2 y =
     ''<line '' @ attr_nat ''x1'' x1 @ '' '' @ attr_nat ''y1'' y @ '' '' @ attr_nat ''x2'' x2 @ '' '' @ attr_nat ''y2'' y @ '' ''
     @ attr ''stroke'' ''#9ca3af'' @ '' '' @ attr ''stroke-width'' ''1.5'' @ ''/>''"

definition template_indent :: string where
  "template_indent = line_feed @ replicate 9 (CHR '' '')"

definition anchor :: "string \<Rightarrow> string" where
  "anchor where_at = '' '' @ attr ''text-anchor'' where_at"

definition svg_input :: "nat \<Rightarrow> block_port \<Rightarrow> string" where
  "svg_input i p =
     svg_line 0 12 (20 + i * 28) @ template_indent
     @ svg_text 16 (24 + i * 28) ''#60a5fa'' 10 [] (escapeXml (bp_name p)) @ template_indent
     @ svg_text 16 (36 + i * 28) ''#6b7280'' 8 [] (escapeXml (bp_data_type p))"

definition svg_output :: "nat \<Rightarrow> nat \<Rightarrow> block_port \<Rightarrow> string" where
  "svg_output width i p =
     svg_line (width - 12) width (20 + i * 28) @ template_indent
     @ svg_text (width - 16) (24 + i * 28) ''#34d399'' 10 (anchor ''end'') (escapeXml (bp_name p)) @ template_indent
     @ svg_text (width - 16) (36 + i * 28) ''#6b7280'' 8 (anchor ''end'') (escapeXml (bp_data_type p))"

definition svg_param :: "nat \<Rightarrow> nat \<Rightarrow> nat \<Rightarrow> block_parameter \<Rightarrow> string" where
  "svg_param width height i p =
     svg_text (width div 2) (height + 16 + i * 20) ''#fb923c'' 9 (anchor ''middle'')
       (escapeXml (pm_name p) @ '' : '' @ escapeXml (pm_data_type p))"

definition symbol_height :: "block_port list \<Rightarrow> block_port list \<Rightarrow> nat" where
  "symbol_height inputs outputs = max 80 (max (max (length inputs) (length outputs)) 1 * 28 + 24)"

definition total_height :: "block_port list \<Rightarrow> block_port list \<Rightarrow> block_parameter list \<Rightarrow> nat" where
  "total_height inputs outputs parameters =
     (if length parameters > 0 then symbol_height inputs outputs + length parameters * 20 else symbol_height inputs outputs)"

definition generateSymbolSvg ::
    "string \<Rightarrow> block_port list \<Rightarrow> block_port list \<Rightarrow> block_parameter list \<Rightarrow> string" where
  "generateSymbolSvg name inputs outputs parameters =
     (let height = symbol_height inputs outputs; width = 160; total_h = total_height inputs outputs parameters;
          indent = line_feed @ replicate 4 (CHR '' '')
      in ''<svg '' @ attr ''xmlns'' ''http://www.w3.org/2000/svg'' @ '' ''
         @ attr ''viewBox'' (''-4 -4 '' @ show_nat (width + 8) @ '' '' @ show_nat (total_h + 8)) @ '' ''
         @ attr_nat ''width'' (width + 8) @ '' '' @ attr_nat ''height'' (total_h + 8) @ ''>'' @ indent
         @ ''<rect '' @ attr_nat ''x'' 8 @ '' '' @ attr_nat ''y'' 4 @ '' '' @ attr_nat ''width'' (width - 16) @ '' ''
         @ attr_nat ''height'' (height - 8) @ '' '' @ attr_nat ''rx'' 3 @ '' '' @ attr ''fill'' ''#1e293b'' @ '' ''
         @ attr ''stroke'' ''#475569'' @ '' '' @ attr ''stroke-width'' ''1.5'' @ ''/>'' @ indent
         @ svg_text (width div 2) (height - 10) ''#e2e8f0'' 12 ('' '' @ attr ''font-weight'' ''bold'' @ anchor ''middle'') (escapeXml name)
         @ indent @ js_join line_feed (map_index svg_input inputs)
         @ indent @ js_join line_feed (map_index (svg_output width) outputs)
         @ indent @ js_join line_feed (map_index (svg_param width height) parameters)
         @ line_feed @ ''  </svg>'')"

section \<open>The skeleton of the source\<close>

text \<open>\<open>sanitize(s) || fallback\<close>\<close>

definition safe_name :: "string \<Rightarrow> string \<Rightarrow> string" where
  "safe_name s fallback = (if sanitize s = [] then fallback else sanitize s)"

definition port_decl :: "block_port \<Rightarrow> string" where
  "port_decl p = ''    '' @ safe_name (bp_name p) ''port'' @ '' : '' @ safe_name (bp_data_type p) ''REAL'' @ '';''"

definition param_decl :: "block_parameter \<Rightarrow> string" where
  "param_decl p =
     ''    '' @ safe_name (pm_name p) ''param'' @ '' : '' @ safe_name (pm_data_type p) ''REAL'' @ '' := ''
     @ (if pm_default p = JNull then ''0'' else js_string (pm_default p)) @ '';''"

definition decl_block :: "string \<Rightarrow> string list \<Rightarrow> string list" where
  "decl_block keyword decls = (if decls = [] then [] else [keyword] @ decls @ [''END_VAR''])"

definition skeleton ::
    "string \<Rightarrow> string \<Rightarrow> block_port list \<Rightarrow> block_port list \<Rightarrow> block_parameter list \<Rightarrow> string" where
  "skeleton blockName blockKind inputs outputs parameters =
     (let keyword = (if blockKind = ''FUN'' then ''FUNCTION'' else ''FUNCTION_BLOCK'');
          endKeyword = (if blockKind = ''FUN'' then ''END_FUNCTION'' else ''END_FUNCTION_BLOCK'')
      in js_join line_feed
        ([keyword @ '' '' @ safe_name blockName ''UnnamedBlock'']
         @ decl_block ''VAR_INPUT'' (map port_decl inputs)
         @ decl_block ''VAR_OUTPUT'' (map port_decl outputs)
         @ decl_block ''VAR'' (map param_decl parameters)
         @ [[], endKeyword]))"

section \<open>What the browser shows\<close>

text \<open>
  The text content of a piece of markup, read from left to right the way a browser reads it: a tag is skipped, a
  character reference is one character, all else stands for itself. A reference is read where its characters
  stand side by side, so a tag in the middle of one leaves \<open>&\<close> and the letters. The program writes no comment
  and no attribute value with a \<open>>\<close> in it, and no other references.
\<close>

text \<open>The named character references the program writes; HTML reads them without the semicolon too.\<close>

definition char_ref :: "string \<Rightarrow> (char \<times> nat) option" where
  "char_ref s =
     (let with_end = (\<lambda>c n. Some (c, if prefix '';'' (drop n s) then Suc n else n)) in
      if prefix ''amp'' s then with_end (CHR ''&'') 3
      else if prefix ''lt'' s then with_end (CHR ''<'') 2
      else if prefix ''gt'' s then with_end (CHR ''>'') 2
      else if prefix ''quot'' s then with_end (CHR 0x22) 4
      else None)"

text \<open>A \<open><\<close> opens a tag when a letter, a slash, an exclamation mark or a question mark stands behind it.\<close>

fun opens_tag :: "string \<Rightarrow> bool" where
  "opens_tag [] = False"
| "opens_tag (c # s) \<longleftrightarrow> js_in_range CHR ''a'' CHR ''z'' c \<or> js_in_range CHR ''A'' CHR ''Z'' c \<or> c \<in> set ''/!?''"

function shown_text :: "string \<Rightarrow> string" where
  "shown_text [] = []"
| "shown_text (c # cs) =
     (if c = CHR ''<'' \<and> opens_tag cs then shown_text (drop 1 (dropWhile (\<lambda>x. x \<noteq> CHR ''>'') cs))
      else if c = CHR ''&'' then
        (case char_ref cs of Some (d, n) \<Rightarrow> d # shown_text (drop n cs) | None \<Rightarrow> c # shown_text cs)
      else c # shown_text cs)"
  by pat_completeness auto
termination
proof (relation "measure length", goal_cases)
  case (2 c cs)
  have "length (drop 1 (dropWhile (\<lambda>x. x \<noteq> CHR ''>'') cs)) \<le> length cs"
    using length_dropWhile_le [of "\<lambda>x. x \<noteq> CHR ''>''" cs] by simp
  then show ?case
    by (simp only: in_measure list.size less_Suc_eq_le add_0_right add_Suc_right)
qed auto

text \<open>What a symbol should show of a port and of a parameter.\<close>

definition port_text :: "block_port \<Rightarrow> string" where
  "port_text p = template_indent @ bp_name p @ template_indent @ bp_data_type p"

definition param_text :: "block_parameter \<Rightarrow> string" where
  "param_text p = pm_name p @ '' : '' @ pm_data_type p"

section \<open>Properties\<close>

definition escape_char :: "char \<Rightarrow> string" where
  "escape_char c =
     (if c = CHR ''&'' then ''&amp;'' else if c = CHR ''<'' then ''&lt;'' else if c = CHR ''>'' then ''&gt;''
      else if c = CHR 0x22 then ''&quot;'' else [c])"

lemma replace_char_simps [simp]:
  "replace_char c r [] = []" "replace_char c r (x # s) = (if x = c then r else [x]) @ replace_char c r s"
  "replace_char c r (s @ u) = replace_char c r s @ replace_char c r u"
  by (simp_all add: replace_char_def)

text \<open>The four passes do what one pass over the characters does: a later pass leaves the entities of the earlier ones alone.\<close>

lemma escapeXml_char: "escapeXml s = concat (map escape_char s)"
  by (induction s) (simp_all add: escapeXml_def escape_char_def)

declare shown_text.simps [simp del]

lemma shown_Nil [simp]: "shown_text [] = []"
  by (simp add: shown_text.simps)

lemma shown_char [simp]: "c \<notin> {CHR ''<'', CHR ''&''} \<Longrightarrow> shown_text (c # s) = c # shown_text s"
  by (simp add: shown_text.simps)

lemma shown_tag:
  assumes "opens_tag u" and "CHR ''>'' \<notin> set u"
  shows "shown_text (CHR ''<'' # u @ CHR ''>'' # s) = shown_text s"
proof -
  have "dropWhile (\<lambda>x. x \<noteq> CHR ''>'') (u @ CHR ''>'' # s) = CHR ''>'' # s"
    using assms(2) by (subst dropWhile_append2) auto
  moreover have "opens_tag (u @ v)" for v
    using assms(1) by (cases u) auto
  ultimately show ?thesis
    by (simp add: shown_text.simps)
qed

lemma shown_plain: "CHR ''<'' \<notin> set u \<Longrightarrow> CHR ''&'' \<notin> set u \<Longrightarrow> shown_text (u @ s) = u @ shown_text s"
  by (induction u) auto

lemma shown_entity [simp]:
  "shown_text (CHR ''&'' # CHR ''a'' # CHR ''m'' # CHR ''p'' # CHR '';'' # s) = CHR ''&'' # shown_text s"
  "shown_text (CHR ''&'' # CHR ''l'' # CHR ''t'' # CHR '';'' # s) = CHR ''<'' # shown_text s"
  "shown_text (CHR ''&'' # CHR ''g'' # CHR ''t'' # CHR '';'' # s) = CHR ''>'' # shown_text s"
  "shown_text (CHR ''&'' # CHR ''q'' # CHR ''u'' # CHR ''o'' # CHR ''t'' # CHR '';'' # s) = CHR 0x22 # shown_text s"
  by (simp_all add: shown_text.simps(2) [of "CHR ''&''"] char_ref_def)

lemma shown_escaped: "shown_text (escapeXml u @ s) = u @ shown_text s"
  by (induction u) (simp_all add: escapeXml_char escape_char_def)

lemma attr_nat_plain: "CHR ''>'' \<notin> set name \<Longrightarrow> CHR ''>'' \<notin> set (attr_nat name n)"
  using show_nat_digits [of "CHR ''>''" n] by (auto simp: attr_nat_def quoted_def is_digit_def js_in_range_def)

lemma attr_plain: "CHR ''>'' \<notin> set name \<Longrightarrow> CHR ''>'' \<notin> set v \<Longrightarrow> CHR ''>'' \<notin> set (attr name v)"
  by (auto simp: attr_def quoted_def)

lemma shown_svg_line: "shown_text (svg_line x1 x2 y @ s) = shown_text s"
proof -
  define u where "u = ''line '' @ attr_nat ''x1'' x1 @ '' '' @ attr_nat ''y1'' y @ '' '' @ attr_nat ''x2'' x2 @ '' ''
     @ attr_nat ''y2'' y @ '' '' @ attr ''stroke'' ''#9ca3af'' @ '' '' @ attr ''stroke-width'' ''1.5'' @ ''/''"
  have "opens_tag u" and "CHR ''>'' \<notin> set u"
    by (simp_all add: u_def attr_nat_plain attr_plain js_in_range_def)
  from shown_tag [OF this, of s] show ?thesis
    by (simp add: svg_line_def u_def)
qed

lemma shown_svg_text:
  assumes "CHR ''>'' \<notin> set fill" and "CHR ''>'' \<notin> set tail" and "\<And>s. shown_text (body @ s) = t @ shown_text s"
  shows "shown_text (svg_text x y fill font tail body @ s) = t @ shown_text s"
proof -
  define u where "u = ''text '' @ attr_nat ''x'' x @ '' '' @ attr_nat ''y'' y @ '' '' @ attr ''fill'' fill @ '' ''
     @ attr_nat ''font-size'' font @ '' '' @ attr ''font-family'' ''monospace'' @ tail"
  have "opens_tag u" and "CHR ''>'' \<notin> set u"
    using assms by (simp_all add: u_def attr_nat_plain attr_plain js_in_range_def)
  note opened = shown_tag [OF this, of "body @ ''</text>'' @ s"]
  have "svg_text x y fill font tail body @ s = CHR ''<'' # u @ CHR ''>'' # body @ ''</text>'' @ s"
    by (simp add: svg_text_def u_def)
  moreover have "shown_text (''</text>'' @ s) = shown_text s"
    using shown_tag [of "''/text''" s] by simp
  ultimately show ?thesis
    using opened assms(3) by simp
qed

lemma shown_text_indent: "shown_text (template_indent @ s) = template_indent @ shown_text s"
  by (rule shown_plain) (simp_all add: template_indent_def line_feed_def)

lemma anchor_plain: "CHR ''>'' \<notin> set w \<Longrightarrow> CHR ''>'' \<notin> set (anchor w)"
  by (simp add: anchor_def attr_plain)

lemma shown_svg_input: "shown_text (svg_input i p @ s) = port_text p @ shown_text s"
  by (simp add: svg_input_def port_text_def shown_svg_line shown_text_indent shown_svg_text [OF _ _ shown_escaped])

lemma shown_svg_output: "shown_text (svg_output w i p @ s) = port_text p @ shown_text s"
  by (simp add: svg_output_def port_text_def shown_svg_line shown_text_indent anchor_plain shown_svg_text [OF _ _ shown_escaped])

lemma shown_svg_param: "shown_text (svg_param w h i p @ s) = param_text p @ shown_text s"
proof -
  have body: "shown_text ((escapeXml (pm_name p) @ '' : '' @ escapeXml (pm_data_type p)) @ r) = param_text p @ shown_text r" for r
    by (simp add: param_text_def shown_escaped)
  show ?thesis
    unfolding svg_param_def by (rule shown_svg_text [OF _ _ body]) (simp_all add: anchor_plain)
qed

lemma shown_joined:
  assumes "\<And>i p s. shown_text (draw i p @ s) = t p @ shown_text s"
  shows "shown_text (js_join line_feed (map_index draw ps) @ s) = js_join line_feed (map t ps) @ shown_text s"
proof -
  have "shown_text (js_join line_feed (map (\<lambda>(i, p). draw i p) (enumerate n ps)) @ s)
      = js_join line_feed (map t ps) @ shown_text s" for n s
    by (induction ps arbitrary: n rule: induct_list012) (simp_all add: assms line_feed_def)
  then show ?thesis
    by (simp add: map_index_def)
qed

text \<open>
  C27: whatever was typed as the name of a block, of a port, of a parameter or as a type, the symbol that is drawn
  shows it as text, character for character and in the order of the block: no name opens a tag, ends one or is
  read as a reference to another character. This is the whole text content of the generated SVG; all else in it
  is the white space of the template.
\<close>

theorem symbol_shows_names:
  "shown_text (generateSymbolSvg name inputs outputs parameters) =
     (let indent = line_feed @ replicate 4 (CHR '' '') in
      indent @ indent @ name
      @ indent @ js_join line_feed (map port_text inputs)
      @ indent @ js_join line_feed (map port_text outputs)
      @ indent @ js_join line_feed (map param_text parameters)
      @ line_feed @ ''  '')"
proof -
  define h where "h = symbol_height inputs outputs"
  define total where "total = total_height inputs outputs parameters"
  define indent where "indent = line_feed @ replicate 4 (CHR '' '')"
  define u where "u = ''svg '' @ attr ''xmlns'' ''http://www.w3.org/2000/svg'' @ '' ''
     @ attr ''viewBox'' (''-4 -4 '' @ show_nat (160 + 8) @ '' '' @ show_nat (total + 8)) @ '' ''
     @ attr_nat ''width'' (160 + 8) @ '' '' @ attr_nat ''height'' (total + 8)"
  define v where "v = ''rect '' @ attr_nat ''x'' 8 @ '' '' @ attr_nat ''y'' 4 @ '' '' @ attr_nat ''width'' (160 - 16) @ '' ''
     @ attr_nat ''height'' (h - 8) @ '' '' @ attr_nat ''rx'' 3 @ '' '' @ attr ''fill'' ''#1e293b'' @ '' ''
     @ attr ''stroke'' ''#475569'' @ '' '' @ attr ''stroke-width'' ''1.5'' @ ''/''"
  define body where "body = svg_text (160 div 2) (h - 10) ''#e2e8f0'' 12 ('' '' @ attr ''font-weight'' ''bold'' @ anchor ''middle'')
       (escapeXml name)
     @ indent @ js_join line_feed (map_index svg_input inputs)
     @ indent @ js_join line_feed (map_index (svg_output 160) outputs)
     @ indent @ js_join line_feed (map_index (svg_param 160 h) parameters)
     @ line_feed @ ''  </svg>''"
  have gap: "shown_text (indent @ s) = indent @ shown_text s" for s
    by (rule shown_plain) (simp_all add: indent_def line_feed_def)
  have "CHR ''>'' \<notin> set (show_nat n)" for n
    using show_nat_digits [of "CHR ''>''" n] by (auto simp: is_digit_def js_in_range_def)
  then have "opens_tag u" "CHR ''>'' \<notin> set u" "opens_tag v" "CHR ''>'' \<notin> set v"
    by (simp_all add: u_def v_def attr_nat_plain attr_plain js_in_range_def)
  note opened = shown_tag [OF this(1,2)] shown_tag [OF this(3,4)]
  have "generateSymbolSvg name inputs outputs parameters
      = CHR ''<'' # u @ CHR ''>'' # indent @ CHR ''<'' # v @ CHR ''>'' # indent @ body"
    by (simp add: generateSymbolSvg_def Let_def u_def v_def body_def indent_def h_def total_def)
  moreover have "shown_text (line_feed @ ''  </svg>'') = line_feed @ ''  ''"
    using shown_tag [of "''/svg''" "[]"] by (simp add: line_feed_def)
  moreover have "shown_text body = name
      @ indent @ js_join line_feed (map port_text inputs)
      @ indent @ js_join line_feed (map port_text outputs)
      @ indent @ js_join line_feed (map param_text parameters)
      @ line_feed @ ''  ''"
    unfolding body_def
    by (simp add: shown_svg_text [OF _ _ shown_escaped] anchor_plain attr_plain gap
        shown_joined [where t = port_text] shown_joined [where t = param_text]
        shown_svg_input shown_svg_output shown_svg_param calculation(2))
  ultimately show ?thesis
    by (simp only: opened gap Let_def indent_def [symmetric])
qed
lemma strip_tags_subset: "set (strip_tags s) \<subseteq> set s"
proof (induction s rule: strip_tags.induct)
  case (2 c cs)
  let ?rest = "dropWhile (\<lambda>x. x \<noteq> CHR ''>'') cs"
  have "set (tl u) \<subseteq> set u" for u :: string
    by (cases u) auto
  then have "set (tl ?rest) \<subseteq> set ?rest" .
  also have "\<dots> \<subseteq> set cs"
    by (rule subsetI) (rule set_dropWhileD)
  finally have rest: "set (tl ?rest) \<subseteq> set cs" .
  show ?case
  proof (cases "c = CHR ''<'' \<and> CHR ''>'' \<in> set cs")
    case True
    then have "strip_tags (c # cs) = strip_tags (tl ?rest)"
      by (simp only: strip_tags.simps simp_thms if_True)
    then show ?thesis
      using "2.IH"(1) [OF True] rest by auto
  next
    case False
    then have "strip_tags (c # cs) = c # strip_tags cs"
      by (simp only: strip_tags.simps if_False)
    then show ?thesis
      using "2.IH"(2) [OF False] by auto
  qed
qed simp

lemma strip_tags_no_gt: "CHR ''>'' \<notin> set s \<Longrightarrow> strip_tags s = s"
  by (induction s) auto

text \<open>No tag is left: behind a \<open><\<close> that remains there is no \<open>></\<close> any more.\<close>

lemma strip_tags_clean: "strip_tags s = pre @ CHR ''<'' # post \<Longrightarrow> CHR ''>'' \<notin> set post"
proof (induction s arbitrary: pre rule: strip_tags.induct)
  case (2 c cs)
  show ?case
  proof (cases "c = CHR ''<'' \<and> CHR ''>'' \<in> set cs")
    case True
    then show ?thesis
      using 2 by simp
  next
    case False
    then have "strip_tags (c # cs) = c # strip_tags cs"
      by (simp only: strip_tags.simps if_False)
    then have e: "c # strip_tags cs = pre @ CHR ''<'' # post"
      using "2.prems" by simp
    show ?thesis
    proof (cases pre)
      case Nil
      then show ?thesis
        using e False strip_tags_subset [of cs] by auto
    next
      case (Cons d pre')
      then show ?thesis
        using e "2.IH"(2) [OF False] by simp
    qed
  qed
qed simp

lemma strip_tags_idem: "strip_tags (strip_tags s) = strip_tags s"
proof -
  have "strip_tags u = u" if "\<And>pre post. u = pre @ CHR ''<'' # post \<Longrightarrow> CHR ''>'' \<notin> set post" for u
    using that
  proof (induction u)
    case (Cons c cs)
    have "\<not> (c = CHR ''<'' \<and> CHR ''>'' \<in> set cs)"
      using Cons.prems [of "[]" cs] by auto
    moreover have "strip_tags cs = cs"
      by (rule Cons.IH) (metis Cons.prems append_Cons)
    ultimately show ?case
      by (simp only: strip_tags.simps if_False)
  qed simp
  then show ?thesis
    using strip_tags_clean by blast
qed

end
