(* ===== verification/BlockHistory.thy ===== *)
theory BlockHistory
  imports BlockText Simulation
begin

text \<open>
  The block editor (\<open>components/library/BlockEditor.tsx\<close>, lines 180 to 542 and 590 to 765): the fields with
  their handlers, the undo history with its bound and its debounce timer, saving and closing. The history
  is shown to refine a zipper of a bounded past, a present and a future.
\<close>

section \<open>The history\<close>

record 's history =
  hi_snapshots :: "'s list"
  hi_index :: int

definition empty_history :: "'s history" where
  "empty_history = \<lparr>hi_snapshots = [], hi_index = - 1\<rparr>"

definition history_limit :: nat where
  "history_limit = 80"

definition push_snapshot :: "'s \<Rightarrow> 's history \<Rightarrow> 's history" where
  "push_snapshot snap h =
     (let pushed = take (nat (hi_index h + 1)) (hi_snapshots h) @ [snap] in
      if length pushed > history_limit then h\<lparr>hi_snapshots := tl pushed\<rparr>
      else \<lparr>hi_snapshots = pushed, hi_index = int (length pushed) - 1\<rparr>)"

text \<open>The second component is the snapshot that is restored.\<close>

definition undo :: "'s history \<Rightarrow> 's history \<times> 's option" where
  "undo h =
     (if hi_index h > 0
      then (h\<lparr>hi_index := hi_index h - 1\<rparr>, Some (hi_snapshots h ! nat (hi_index h - 1)))
      else (h, None))"

definition redo :: "'s history \<Rightarrow> 's history \<times> 's option" where
  "redo h =
     (if hi_index h < int (length (hi_snapshots h)) - 1
      then (h\<lparr>hi_index := hi_index h + 1\<rparr>, Some (hi_snapshots h ! nat (hi_index h + 1)))
      else (h, None))"

datatype 's history_op = Push 's | Undo | Redo

fun history_step :: "'s history_op \<Rightarrow> 's history \<Rightarrow> 's history \<times> 's option" where
  "history_step (Push s) h = (push_snapshot s h, None)"
| "history_step Undo h = undo h"
| "history_step Redo h = redo h"

section \<open>The specification: a zipper with a bounded past\<close>

record 's zipper =
  zp_past :: "'s list"
  zp_now :: 's
  zp_future :: "'s list"

fun zipper_step :: "'s history_op \<Rightarrow> 's zipper \<Rightarrow> 's zipper \<times> 's option" where
  "zipper_step (Push s) z =
     (let past = zp_past z @ [zp_now z]
      in (\<lparr>zp_past = drop (length past - (history_limit - 1)) past, zp_now = s, zp_future = []\<rparr>, None))"
| "zipper_step Undo z =
     (if zp_past z = [] then (z, None)
      else (\<lparr>zp_past = butlast (zp_past z), zp_now = last (zp_past z), zp_future = zp_now z # zp_future z\<rparr>,
            Some (last (zp_past z))))"
| "zipper_step Redo z =
     (case zp_future z of [] \<Rightarrow> (z, None)
      | s # rest \<Rightarrow> (\<lparr>zp_past = zp_past z @ [zp_now z], zp_now = s, zp_future = rest\<rparr>, Some s))"

definition zipper_of :: "'s history \<Rightarrow> 's zipper" where
  "zipper_of h =
     \<lparr>zp_past = take (nat (hi_index h)) (hi_snapshots h), zp_now = hi_snapshots h ! nat (hi_index h),
      zp_future = drop (nat (hi_index h) + 1) (hi_snapshots h)\<rparr>"

definition history_wf :: "'s history \<Rightarrow> bool" where
  "history_wf h \<longleftrightarrow> 0 \<le> hi_index h \<and> nat (hi_index h) < length (hi_snapshots h) \<and> length (hi_snapshots h) \<le> history_limit"

lemma push_wf: "history_wf h \<Longrightarrow> history_wf (push_snapshot s h)"
  by (auto simp: history_wf_def push_snapshot_def Let_def history_limit_def nat_add_distrib min_def)

lemma step_wf: "history_wf h \<Longrightarrow> history_wf (fst (history_step x h))"
proof (cases x)
  case (Push s)
  then show "history_wf h \<Longrightarrow> ?thesis"
    by (simp add: push_wf)
qed (auto simp: undo_def redo_def history_wf_def)

lemma push_refines:
  assumes "history_wf h"
  shows "zipper_of (push_snapshot s h) = fst (zipper_step (Push s) (zipper_of h))"
proof -
  obtain k where k: "hi_index h = int k" "k < length (hi_snapshots h)" "length (hi_snapshots h) \<le> history_limit"
    using assms unfolding history_wf_def by (metis nat_0_le)
  have cut: "take (Suc k) (hi_snapshots h) = take k (hi_snapshots h) @ [hi_snapshots h ! k]"
    using k(2) by (rule take_Suc_conv_app_nth)
  have idx: "nat (hi_index h + 1) = Suc k"
    by (simp add: k(1))
  show ?thesis
  proof (cases "Suc k < history_limit")
    case True
    then have "push_snapshot s h = \<lparr>hi_snapshots = take (Suc k) (hi_snapshots h) @ [s], hi_index = int (Suc k)\<rparr>"
      using k(2) by (simp add: push_snapshot_def idx Let_def)
    then show ?thesis
      using True k(2) by (simp add: zipper_of_def k(1) cut nth_append Let_def min_def del: of_nat_Suc)
  next
    case False
    then have last_k: "Suc k = length (hi_snapshots h)" "Suc k = history_limit"
      using k(2,3) by simp_all
    then have "push_snapshot s h = h\<lparr>hi_snapshots := tl (hi_snapshots h @ [s])\<rparr>"
      by (simp add: push_snapshot_def idx Let_def)
    moreover have "hi_snapshots h \<noteq> []"
      using k(2) by auto
    moreover have "length (tl (hi_snapshots h)) = k" and "length (hi_snapshots h) = Suc k"
      using last_k(1) by simp_all
    moreover have "take (Suc k) (hi_snapshots h) = hi_snapshots h"
      using last_k(1) by simp
    ultimately show ?thesis
      using cut by (simp add: zipper_of_def k(1) nth_append Let_def drop_Suc flip: last_k(2))
  qed
qed

lemma step_refines:
  assumes "history_wf h"
  shows "(zipper_of (fst (history_step x h)), snd (history_step x h)) = zipper_step x (zipper_of h)"
proof (cases x)
  case (Push s)
  then show ?thesis
    using push_refines [OF assms, of s] by (simp add: Let_def)
next
  case Undo
  obtain k where k: "hi_index h = int k" "k < length (hi_snapshots h)"
    using assms unfolding history_wf_def by (metis nat_0_le)
  show ?thesis
  proof (cases k)
    case 0
    then show ?thesis
      by (simp add: Undo undo_def zipper_of_def k(1))
  next
    case (Suc j)
    have "drop (Suc j) (hi_snapshots h) = hi_snapshots h ! Suc j # drop (Suc (Suc j)) (hi_snapshots h)"
      using k(2) Suc Cons_nth_drop_Suc by metis
    moreover have "take (Suc j) (hi_snapshots h) = take j (hi_snapshots h) @ [hi_snapshots h ! j]"
      using k(2) Suc by (intro take_Suc_conv_app_nth) simp
    ultimately show ?thesis
      using k(2) by (auto simp: Undo undo_def zipper_of_def k(1) Suc nat_add_distrib)
  qed
next
  case Redo
  obtain k where k: "hi_index h = int k" "k < length (hi_snapshots h)"
    using assms unfolding history_wf_def by (metis nat_0_le)
  show ?thesis
  proof (cases "Suc k < length (hi_snapshots h)")
    case True
    have "drop (Suc k) (hi_snapshots h) = hi_snapshots h ! Suc k # drop (Suc (Suc k)) (hi_snapshots h)"
      using True Cons_nth_drop_Suc by metis
    moreover have "take (Suc k) (hi_snapshots h) = take k (hi_snapshots h) @ [hi_snapshots h ! k]"
      using k(2) by (intro take_Suc_conv_app_nth)
    ultimately show ?thesis
      using True by (simp add: Redo redo_def zipper_of_def k(1) nat_add_distrib)
  next
    case False
    then show ?thesis
      using k by (simp add: Redo redo_def zipper_of_def)
  qed
qed

interpretation history: simulation history_step zipper_step zipper_of history_wf
  using step_refines by unfold_locales (auto simp: step_wf simp flip: step_refines)

text \<open>
  C4: undo and redo behave as a zipper of the states of the block: whatever edits, undos and redos follow the
  opening of the editor, each undo and redo restores exactly the state the zipper does, an edit drops the
  states that were undone, and the past holds the last 79 states.
\<close>

theorem history_refines_zipper:
  "snd (run_steps history_step xs (push_snapshot s empty_history)) =
     snd (run_steps zipper_step xs \<lparr>zp_past = [], zp_now = s, zp_future = []\<rparr>)
   \<and> zipper_of (fst (run_steps history_step xs (push_snapshot s empty_history))) =
     fst (run_steps zipper_step xs \<lparr>zp_past = [], zp_now = s, zp_future = []\<rparr>)
   \<and> length (hi_snapshots (fst (run_steps history_step xs (push_snapshot s empty_history)))) \<le> history_limit"
proof -
  have start: "push_snapshot s empty_history = \<lparr>hi_snapshots = [s], hi_index = 0\<rparr>"
    by (simp add: push_snapshot_def empty_history_def history_limit_def)
  then have wf: "history_wf (push_snapshot s empty_history)"
    and z: "zipper_of (push_snapshot s empty_history) = \<lparr>zp_past = [], zp_now = s, zp_future = []\<rparr>"
    by (simp_all add: history_wf_def history_limit_def zipper_of_def)
  show ?thesis
    using history.run_results [OF wf, of xs] history.run_abst [OF wf, of xs] history.run_inv [OF wf, of xs]
    by (simp add: z history_wf_def)
qed

section \<open>The editor\<close>

record editor_fields =
  ef_name :: string
  ef_category :: string
  ef_version :: string
  ef_description :: string
  ef_author :: string
  ef_blockKind :: string
  ef_timeBased :: bool
  ef_inputs :: "block_port list"
  ef_outputs :: "block_port list"
  ef_parameters :: "block_parameter list"
  ef_stTemplate :: string
  ef_iconSvg :: string
  ef_tagsText :: string

definition fields_of :: "algorithm_block \<Rightarrow> editor_fields" where
  "fields_of b =
     \<lparr>ef_name = ab_name b, ef_category = ab_category b, ef_version = ab_version b, ef_description = ab_description b,
      ef_author = ab_author b, ef_blockKind = ab_block_kind b, ef_timeBased = ab_time_based b, ef_inputs = ab_inputs b,
      ef_outputs = ab_outputs b, ef_parameters = ab_parameters b, ef_stTemplate = ab_st_template b,
      ef_iconSvg = ab_icon_svg b, ef_tagsText = js_join '', '' (ab_tags b)\<rparr>"

record block_editor =
  be_block :: algorithm_block
  be_fields :: editor_fields
  be_history :: "editor_fields history"
  be_timer :: bool
  be_dirty :: bool
  be_saving :: bool

definition open_editor :: "algorithm_block \<Rightarrow> block_editor" where
  "open_editor b =
     \<lparr>be_block = b, be_fields = fields_of b, be_history = push_snapshot (fields_of b) empty_history, be_timer = False,
      be_dirty = False, be_saving = False\<rparr>"

datatype field_edit =
    EditName string
  | EditCategory string
  | EditVersion string
  | EditBlockKind string
  | EditDescription string
  | EditAuthor string
  | EditTags string
  | EditInputs "block_port list"
  | EditOutputs "block_port list"
  | EditParameters "block_parameter list"
  | EditCustomSvg string
  | ResetSvg
  | EditSource string

fun edit_field :: "field_edit \<Rightarrow> editor_fields \<Rightarrow> editor_fields" where
  "edit_field (EditName v) f = f\<lparr>ef_name := strip_tags v\<rparr>"
| "edit_field (EditCategory v) f = f\<lparr>ef_category := v\<rparr>"
| "edit_field (EditVersion v) f = f\<lparr>ef_version := v\<rparr>"
| "edit_field (EditBlockKind v) f = f\<lparr>ef_blockKind := v, ef_timeBased := (v = ''FB'')\<rparr>"
| "edit_field (EditDescription v) f = f\<lparr>ef_description := v\<rparr>"
| "edit_field (EditAuthor v) f = f\<lparr>ef_author := v\<rparr>"
| "edit_field (EditTags v) f = f\<lparr>ef_tagsText := v\<rparr>"
| "edit_field (EditInputs v) f = f\<lparr>ef_inputs := v\<rparr>"
| "edit_field (EditOutputs v) f = f\<lparr>ef_outputs := v\<rparr>"
| "edit_field (EditParameters v) f = f\<lparr>ef_parameters := v\<rparr>"
| "edit_field (EditCustomSvg v) f = f\<lparr>ef_iconSvg := v\<rparr>"
| "edit_field ResetSvg f = f\<lparr>ef_iconSvg := []\<rparr>"
| "edit_field (EditSource v) f = f\<lparr>ef_stTemplate := v\<rparr>"

text \<open>
  How a handler records its edit: with the timer of half a second, at once with the new value handed over, or
  at once without it. In the last case the snapshot is that of the last rendering, the fields before the edit.
\<close>

datatype recording = Debounced | WithValue | WithoutValue

fun recording_of :: "field_edit \<Rightarrow> recording" where
  "recording_of (EditCategory v) = WithoutValue"
| "recording_of (EditBlockKind v) = WithoutValue"
| "recording_of ResetSvg = WithoutValue"
| "recording_of (EditInputs v) = WithValue"
| "recording_of (EditOutputs v) = WithValue"
| "recording_of (EditParameters v) = WithValue"
| "recording_of e = Debounced"

definition edit_block :: "field_edit \<Rightarrow> block_editor \<Rightarrow> block_editor" where
  "edit_block e ed =
     (let before = be_fields ed; ed1 = ed\<lparr>be_fields := edit_field e before, be_dirty := True\<rparr> in
      case recording_of e of
        Debounced \<Rightarrow> ed1\<lparr>be_timer := True\<rparr>
      | WithValue \<Rightarrow> ed1\<lparr>be_history := push_snapshot (edit_field e before) (be_history ed)\<rparr>
      | WithoutValue \<Rightarrow> ed1\<lparr>be_history := push_snapshot before (be_history ed)\<rparr>)"

definition debounce_fires :: "block_editor \<Rightarrow> block_editor" where
  "debounce_fires ed =
     (if be_timer ed then ed\<lparr>be_timer := False, be_history := push_snapshot (be_fields ed) (be_history ed)\<rparr> else ed)"

definition restore :: "editor_fields history \<times> editor_fields option \<Rightarrow> block_editor \<Rightarrow> block_editor" where
  "restore r ed =
     (case snd r of None \<Rightarrow> ed\<lparr>be_history := fst r\<rparr>
      | Some s \<Rightarrow> ed\<lparr>be_history := fst r, be_fields := s, be_dirty := True\<rparr>)"

definition undo_block :: "block_editor \<Rightarrow> block_editor" where
  "undo_block ed = restore (undo (be_history ed)) ed"

definition redo_block :: "block_editor \<Rightarrow> block_editor" where
  "redo_block ed = restore (redo (be_history ed)) ed"

text \<open>The source section writes the skeleton into an empty template as soon as it is shown.\<close>

definition mount_source :: "block_editor \<Rightarrow> block_editor" where
  "mount_source ed =
     (let f = be_fields ed in
      if ef_stTemplate f = []
      then edit_block (EditSource (skeleton (ef_name f) (ef_blockKind f) (ef_inputs f) (ef_outputs f) (ef_parameters f))) ed
      else ed)"

text \<open>Another block, or a newer state of the same one, is handed to the editor.\<close>

definition load_block :: "algorithm_block \<Rightarrow> block_editor \<Rightarrow> block_editor" where
  "load_block b ed =
     (if ab_id b = ab_id (be_block ed) \<and> ab_updated_at b = ab_updated_at (be_block ed) then ed\<lparr>be_block := b\<rparr>
      else ed\<lparr>be_block := b, be_fields := fields_of b, be_dirty := False\<rparr>)"

definition parse_tags :: "string \<Rightarrow> string list" where
  "parse_tags s = filter (\<lambda>x. x \<noteq> []) (map js_trim (js_split (CHR '','') s))"

definition symbol_of :: "editor_fields \<Rightarrow> string" where
  "symbol_of f = generateSymbolSvg (ef_name f) (ef_inputs f) (ef_outputs f) (ef_parameters f)"

text \<open>The block that is handed to \<open>onSave\<close>.\<close>

definition saved_block :: "algorithm_block \<Rightarrow> editor_fields \<Rightarrow> algorithm_block" where
  "saved_block b f =
     b\<lparr>ab_name := ef_name f, ab_category := ef_category f, ab_version := ef_version f, ab_description := ef_description f,
       ab_author := ef_author f, ab_block_kind := ef_blockKind f, ab_time_based := ef_timeBased f, ab_inputs := ef_inputs f,
       ab_outputs := ef_outputs f, ab_parameters := ef_parameters f, ab_st_template := ef_stTemplate f,
       ab_icon_svg := (if ef_iconSvg f = [] then symbol_of f else ef_iconSvg f), ab_tags := parse_tags (ef_tagsText f)\<rparr>"

definition save_starts :: "block_editor \<Rightarrow> block_editor \<times> algorithm_block" where
  "save_starts ed = (ed\<lparr>be_saving := True\<rparr>, saved_block (be_block ed) (be_fields ed))"

definition block_save_answered :: "string + unit \<Rightarrow> block_editor \<Rightarrow> block_editor" where
  "block_save_answered answer ed =
     (case answer of Inl e \<Rightarrow> ed\<lparr>be_saving := False\<rparr> | Inr u \<Rightarrow> ed\<lparr>be_saving := False, be_dirty := False\<rparr>)"

text \<open>Whether closing goes ahead; \<open>confirmed\<close> is the answer of the dialog that a dirty editor shows.\<close>

definition close_allowed :: "bool \<Rightarrow> block_editor \<Rightarrow> bool" where
  "close_allowed confirmed ed \<longleftrightarrow> \<not> be_dirty ed \<or> confirmed"

text \<open>The symbol on screen: the custom one, or the generated one of the fields.\<close>

definition shown_symbol :: "editor_fields \<Rightarrow> string" where
  "shown_symbol f = (if ef_iconSvg f = [] then symbol_of f else ef_iconSvg f)"

text \<open>The keyboard of the editor; \<open>KeySave\<close> is a save that is asked for.\<close>

datatype editor_key = KeySave | KeyUndo | KeyRedo | KeyNone

definition editor_key_of :: "bool \<Rightarrow> string \<Rightarrow> bool \<Rightarrow> editor_key" where
  "editor_key_of ctrl key shift =
     (if \<not> ctrl then KeyNone
      else if key = ''s'' then KeySave
      else if key = ''z'' \<and> \<not> shift then KeyUndo
      else if key = ''y'' \<or> key = ''z'' \<and> shift then KeyRedo else KeyNone)"

section \<open>The tables of ports\<close>

definition new_port :: "string \<Rightarrow> string \<Rightarrow> block_port list \<Rightarrow> block_port list" where
  "new_port stem direction ports =
     ports @ [\<lparr>bp_name = stem @ show_nat (length ports), bp_direction = direction, bp_data_type = ''REAL'',
               bp_description = [], bp_default = JNull\<rparr>]"

definition new_parameter :: "block_parameter list \<Rightarrow> block_parameter list" where
  "new_parameter ps =
     ps @ [\<lparr>pm_name = ''P'' @ show_nat (length ps), pm_data_type = ''REAL'', pm_default = JNum (Num 0), pm_min = JNull,
            pm_max = JNull, pm_description = []\<rparr>]"

datatype port_cell = CellName string | CellType string | CellDescription string | CellDefault string

fun edit_cell :: "port_cell \<Rightarrow> block_port \<Rightarrow> block_port" where
  "edit_cell (CellName v) p = p\<lparr>bp_name := strip_tags v\<rparr>"
| "edit_cell (CellType v) p = p\<lparr>bp_data_type := v\<rparr>"
| "edit_cell (CellDescription v) p = p\<lparr>bp_description := v\<rparr>"
| "edit_cell (CellDefault v) p =
     p\<lparr>bp_default := (if js_is_finite (js_number v) then JNum (js_number v) else JStr v)\<rparr>"

definition edit_port :: "nat \<Rightarrow> port_cell \<Rightarrow> block_port list \<Rightarrow> block_port list" where
  "edit_port idx c ports = map_index (\<lambda>i p. if i = idx then edit_cell c p else p) ports"

definition remove_port :: "nat \<Rightarrow> block_port list \<Rightarrow> block_port list" where
  "remove_port idx ports = filter_index (\<lambda>i. i \<noteq> idx) ports"

text \<open>The parameters are shown as ports, and read back with the bounds and the description of their index.\<close>

definition param_ports :: "block_parameter list \<Rightarrow> block_port list" where
  "param_ports ps =
     map (\<lambda>p. \<lparr>bp_name = pm_name p, bp_direction = ''param'', bp_data_type = pm_data_type p,
       bp_description = pm_description p, bp_default = pm_default p\<rparr>) ps"

definition params_back :: "block_parameter list \<Rightarrow> block_port list \<Rightarrow> block_parameter list" where
  "params_back old ports =
     map_index (\<lambda>i p.
       \<lparr>pm_name = bp_name p, pm_data_type = bp_data_type p, pm_default = bp_default p,
        pm_min = (if i < length old then pm_min (old ! i) else JNull),
        pm_max = (if i < length old then pm_max (old ! i) else JNull),
        pm_description = (if i < length old then pm_description (old ! i) else bp_description p)\<rparr>) ports"

end
