(* ===== verification/BlockLaws.thy ===== *)
theory BlockLaws
  imports BlockHistory
begin

text \<open>
  The laws of the block editor: what undo and redo do to the edits of each kind, what saving changes, and
  what the tables of ports do to the rows.
\<close>

section \<open>Undo and redo of the edits\<close>

text \<open>What happens to an open editor.\<close>

datatype block_event =
    Edited field_edit
  | TimerRings
  | Undone
  | Redone
  | Reloaded algorithm_block
  | SaveBegun
  | SaveEnded "string + unit"

fun block_event_step :: "block_event \<Rightarrow> block_editor \<Rightarrow> block_editor" where
  "block_event_step (Edited e) ed = edit_block e ed"
| "block_event_step TimerRings ed = debounce_fires ed"
| "block_event_step Undone ed = undo_block ed"
| "block_event_step Redone ed = redo_block ed"
| "block_event_step (Reloaded b) ed = load_block b ed"
| "block_event_step SaveBegun ed = fst (save_starts ed)"
| "block_event_step (SaveEnded r) ed = block_save_answered r ed"

text \<open>The state the history stands at.\<close>

definition recorded :: "block_editor \<Rightarrow> editor_fields" where
  "recorded ed = hi_snapshots (be_history ed) ! nat (hi_index (be_history ed))"

lemma undo_refines: "history_wf h \<Longrightarrow> zipper_of (fst (undo h)) = fst (zipper_step Undo (zipper_of h))
    \<and> snd (undo h) = snd (zipper_step Undo (zipper_of h)) \<and> history_wf (fst (undo h))"
  using step_refines [of h Undo] step_wf [of h Undo] by (metis fst_conv history_step.simps(2) snd_conv)

lemma redo_refines: "history_wf h \<Longrightarrow> zipper_of (fst (redo h)) = fst (zipper_step Redo (zipper_of h))
    \<and> snd (redo h) = snd (zipper_step Redo (zipper_of h)) \<and> history_wf (fst (redo h))"
  using step_refines [of h Redo] step_wf [of h Redo] by (metis fst_conv history_step.simps(3) snd_conv)

lemma push_undo_redo:
  assumes "history_wf h"
  shows "snd (undo (push_snapshot s h)) = Some (zp_now (zipper_of h))
    \<and> snd (redo (fst (undo (push_snapshot s h)))) = Some s"
proof -
  define past where "past = zp_past (zipper_of h) @ [zp_now (zipper_of h)]"
  define kept where "kept = drop (length past - (history_limit - 1)) past"
  have kept: "kept \<noteq> []" "last kept = zp_now (zipper_of h)"
    unfolding kept_def by (simp_all add: past_def history_limit_def last_drop)
  have z: "zipper_of (push_snapshot s h) = \<lparr>zp_past = kept, zp_now = s, zp_future = []\<rparr>"
    using push_refines [OF assms, of s] by (simp add: kept_def past_def Let_def)
  have wf: "history_wf (push_snapshot s h)"
    using assms by (rule push_wf)
  then show ?thesis
    using undo_refines [OF wf] redo_refines [of "fst (undo (push_snapshot s h))"] kept by (simp add: z)
qed

lemma event_wf: "history_wf (be_history ed) \<Longrightarrow> history_wf (be_history (block_event_step e ed))"
proof (cases e)
  case (Edited x)
  assume "history_wf (be_history ed)"
  then show ?thesis
    by (cases "recording_of x") (simp_all add: Edited edit_block_def push_wf Let_def)
qed (auto simp: undo_block_def redo_block_def restore_def debounce_fires_def push_wf load_block_def save_starts_def
    block_save_answered_def undo_refines redo_refines split: option.split sum.split)

lemma run_wf: "history_wf (be_history ed) \<Longrightarrow> history_wf (be_history (fold block_event_step es ed))"
  by (induction es arbitrary: ed) (simp_all add: event_wf)

lemma open_wf: "history_wf (be_history (open_editor b))"
  by (simp add: open_editor_def push_snapshot_def empty_history_def history_wf_def history_limit_def)

text \<open>
  C17: at any moment of an editor, an edit that hands its value to the history (of the ports or the parameters)
  comes back when it is undone and then redone. A change of the category or the kind, and a reset of the symbol,
  does not: the history is given the fields before the change, so that undo takes the change away and redo cannot
  bring it back. In both cases the undo goes to the state that the history stood at before the edit, which are
  the fields before the edit unless these were not recorded yet: text typed within the last half second, the
  category, kind or symbol of such a change, or a block that was reloaded goes with the edit. The redo follows the
  undo at once, without the timer of typed text ringing in between.
\<close>

theorem redo_after_undo:
  assumes "ed = fold block_event_step es (open_editor b)" and "recording_of e \<noteq> Debounced"
  shows "be_fields (undo_block (edit_block e ed)) = recorded ed
    \<and> be_fields (redo_block (undo_block (edit_block e ed))) =
        (if recording_of e = WithValue then be_fields (edit_block e ed) else be_fields ed)"
proof -
  have wf: "history_wf (be_history ed)"
    unfolding assms(1) by (rule run_wf [OF open_wf])
  have now: "zp_now (zipper_of (be_history ed)) = recorded ed"
    by (simp add: zipper_of_def recorded_def)
  define s where "s = (if recording_of e = WithValue then edit_field e (be_fields ed) else be_fields ed)"
  have h: "be_history (edit_block e ed) = push_snapshot s (be_history ed)"
    using assms(2) by (cases "recording_of e") (simp_all add: edit_block_def s_def Let_def)
  have f: "be_fields (edit_block e ed) = edit_field e (be_fields ed)"
    by (cases "recording_of e") (simp_all add: edit_block_def Let_def)
  have u: "be_fields (undo_block (edit_block e ed)) = recorded ed"
    and hu: "be_history (undo_block (edit_block e ed)) = fst (undo (push_snapshot s (be_history ed)))"
    using push_undo_redo [OF wf, of s] by (simp_all add: undo_block_def restore_def h now)
  moreover have "be_fields (redo_block (undo_block (edit_block e ed))) = s"
    using push_undo_redo [OF wf, of s] by (simp add: redo_block_def restore_def hu)
  ultimately show ?thesis
    by (simp add: s_def f)
qed

text \<open>The history stands at the fields on screen when a block is opened, after an edit with its value, and after a ring of the timer.\<close>

lemma recorded_now:
  "recorded (open_editor b) = fields_of b"
  "history_wf (be_history ed) \<Longrightarrow> recording_of e = WithValue \<Longrightarrow> recorded (edit_block e ed) = be_fields (edit_block e ed)"
  "history_wf (be_history ed) \<Longrightarrow> be_timer ed \<Longrightarrow> recorded (debounce_fires ed) = be_fields (debounce_fires ed)"
proof -
  have now: "recorded x = zp_now (zipper_of (be_history x))" for x
    by (simp add: zipper_of_def recorded_def)
  have push: "zp_now (zipper_of (push_snapshot s h)) = s" if "history_wf h" for s and h :: "editor_fields history"
    using push_refines [OF that, of s] by (simp add: Let_def)
  show "recorded (open_editor b) = fields_of b"
    by (simp add: recorded_def open_editor_def push_snapshot_def empty_history_def history_limit_def)
  show "history_wf (be_history ed) \<Longrightarrow> recording_of e = WithValue \<Longrightarrow> recorded (edit_block e ed) = be_fields (edit_block e ed)"
    by (simp add: now edit_block_def push Let_def)
  show "history_wf (be_history ed) \<Longrightarrow> be_timer ed \<Longrightarrow> recorded (debounce_fires ed) = be_fields (debounce_fires ed)"
    by (simp add: now debounce_fires_def push)
qed

lemma set_push: "set (hi_snapshots (push_snapshot s h)) \<subseteq> insert s (set (hi_snapshots h))"
  by (auto simp: push_snapshot_def Let_def dest!: in_set_takeD list.set_sel(2)
      [rotated, of _ "take (nat (hi_index h + 1)) (hi_snapshots h) @ [s]"])

text \<open>
  An undo within half a second of typing loses the typed text and the redo with it: the undo replaces the
  fields before they were recorded, and the timer that is still running then records the restored state and
  drops everything that was undone.
\<close>

theorem undo_while_typing:
  assumes "be_timer ed" and "history_wf (be_history ed)" and "0 < hi_index (be_history ed)"
    and "be_fields ed \<notin> set (hi_snapshots (be_history ed))" and "ed' = debounce_fires (undo_block ed)"
  shows "be_fields ed' \<noteq> be_fields ed \<and> be_fields ed \<notin> set (hi_snapshots (be_history ed')) \<and> redo_block ed' = ed'"
proof -
  obtain k where k: "hi_index (be_history ed) = int (Suc k)" "Suc k < length (hi_snapshots (be_history ed))"
    using assms(2,3) unfolding history_wf_def by (metis Suc_pred nat_0_le zero_less_nat_eq less_le_not_le)
  define s where "s = hi_snapshots (be_history ed) ! k"
  have u: "undo (be_history ed) = ((be_history ed)\<lparr>hi_index := int k\<rparr>, Some s)"
    using k by (simp add: undo_def s_def)
  then have e: "ed' = ed\<lparr>be_history := push_snapshot s ((be_history ed)\<lparr>hi_index := int k\<rparr>), be_fields := s,
      be_dirty := True, be_timer := False\<rparr>"
    using assms(1) by (simp add: assms(5) undo_block_def restore_def debounce_fires_def)
  have "s \<in> set (hi_snapshots (be_history ed))"
    using k(2) by (simp add: s_def)
  moreover from this have "be_fields ed \<notin> set (hi_snapshots (be_history ed'))"
    using set_push [of s "(be_history ed)\<lparr>hi_index := int k\<rparr>"] assms(4) by (auto simp: e)
  moreover have "\<not> hi_index (be_history ed') < int (length (hi_snapshots (be_history ed'))) - 1"
    using k assms(2) nat_int [of "Suc k"] by (auto simp: e push_snapshot_def Let_def history_wf_def history_limit_def)
  ultimately show ?thesis
    using assms(4) by (auto simp: e redo_block_def redo_def restore_def)
qed

section \<open>Saving\<close>

lemma js_split_word: "sep \<notin> set w \<Longrightarrow> js_split sep (w @ sep # s) = w # js_split sep s"
  by (induction w) auto

lemma js_trim_space: "js_trim (CHR '' '' # s) = js_trim s"
  by (simp add: js_trim_def js_is_ws_def)

definition tag_ok :: "string \<Rightarrow> bool" where
  "tag_ok x \<longleftrightarrow> x \<noteq> [] \<and> js_trim x = x \<and> CHR '','' \<notin> set x"

lemma split_tags:
  "\<forall>x\<in>set xs. tag_ok x \<Longrightarrow> xs \<noteq> [] \<Longrightarrow> map js_trim (js_split (CHR '','') (js_join '', '' xs)) = xs"
proof (induction xs rule: induct_list012)
  case (2 x)
  then show ?case
    by (simp add: tag_ok_def js_split_no_sep)
next
  case (3 x y zs)
  have "js_split (CHR '','') (CHR '' '' # u) = (case js_split (CHR '','') u of [] \<Rightarrow> [[CHR '' '']] | w # ws \<Rightarrow> (CHR '' '' # w) # ws)"
    for u
    by simp
  moreover obtain w ws where "js_split (CHR '','') (js_join '', '' (y # zs)) = w # ws"
    using js_split_not_Nil by (metis neq_Nil_conv)
  ultimately have "map js_trim (js_split (CHR '','') (CHR '' '' # js_join '', '' (y # zs)))
      = map js_trim (js_split (CHR '','') (js_join '', '' (y # zs)))"
    by (simp add: js_trim_space)
  moreover have "js_split (CHR '','') (js_join '', '' (x # y # zs)) = x # js_split (CHR '','') (CHR '' '' # js_join '', '' (y # zs))"
    using 3(3) js_split_word [of "CHR '',''" x "CHR '' '' # js_join '', '' (y # zs)"] by (simp add: tag_ok_def)
  ultimately show ?case
    using 3 by (simp add: tag_ok_def)
qed simp

lemma tags_roundtrip: "\<forall>x\<in>set xs. tag_ok x \<Longrightarrow> parse_tags (js_join '', '' xs) = xs"
proof (cases "xs = []")
  case False
  assume ok: "\<forall>x\<in>set xs. tag_ok x"
  then show ?thesis
    using split_tags [OF ok False] by (simp add: parse_tags_def filter_id_conv tag_ok_def)
qed (simp add: parse_tags_def)

lemma js_split_pieces: "x \<in> set (js_split sep s) \<Longrightarrow> sep \<notin> set x"
proof (induction s arbitrary: x)
  case (Cons c s)
  then show ?case
    using js_split_not_Nil [of sep s] by (cases "js_split sep s") (auto split: if_splits)
qed simp

lemma js_trim_subset: "set (js_trim s) \<subseteq> set s"
  by (auto simp: js_trim_def dest!: set_dropWhileD)

lemma parsed_tags_ok: "x \<in> set (parse_tags s) \<Longrightarrow> tag_ok x"
  using js_trim_subset by (auto simp: parse_tags_def tag_ok_def dest!: js_split_pieces)

lemma symbol_not_empty: "symbol_of f \<noteq> []"
  by (simp add: symbol_of_def generateSymbolSvg_def Let_def)

text \<open>
  C22: opening a block and saving it without an edit gives the block back with every field as it was, but for the
  symbol and the tags: an empty symbol is replaced by the one that is generated from the ports, and the tags are
  what the text of the tag field, the tags with commas between them, reads as. These are the same tags exactly
  when every tag is non-empty, without white space at its ends and without a comma; otherwise an empty tag is
  lost, white space is trimmed off and a tag with a comma comes back as several.
\<close>

theorem save_roundtrip:
  "snd (save_starts (open_editor b)) =
     b\<lparr>ab_icon_svg := shown_symbol (fields_of b), ab_tags := parse_tags (js_join '', '' (ab_tags b))\<rparr>
   \<and> (parse_tags (js_join '', '' (ab_tags b)) = ab_tags b \<longleftrightarrow> (\<forall>x\<in>set (ab_tags b). tag_ok x))"
proof
  show "snd (save_starts (open_editor b)) =
     b\<lparr>ab_icon_svg := shown_symbol (fields_of b), ab_tags := parse_tags (js_join '', '' (ab_tags b))\<rparr>"
    by (simp add: save_starts_def open_editor_def saved_block_def fields_of_def shown_symbol_def)
  show "parse_tags (js_join '', '' (ab_tags b)) = ab_tags b \<longleftrightarrow> (\<forall>x\<in>set (ab_tags b). tag_ok x)"
    using tags_roundtrip parsed_tags_ok by metis
qed

text \<open>
  The symbol that follows the ports does so only until the block is saved: the save stores the generated
  symbol as a custom one, and from then on new ports no longer change what is drawn.
\<close>

theorem saved_symbol_frozen:
  assumes "ef_iconSvg f = []" and "g = fields_of (saved_block b f)"
  shows "shown_symbol (edit_field (EditInputs ports) f) = symbol_of (f\<lparr>ef_inputs := ports\<rparr>)
    \<and> shown_symbol (edit_field (EditInputs ports) g) = symbol_of f"
  using assms symbol_not_empty [of f] by (simp add: shown_symbol_def fields_of_def saved_block_def)

section \<open>The tables of ports\<close>

lemma map_index_nth: "i < length xs \<Longrightarrow> map_index f xs ! i = f i (xs ! i)"
  by (simp add: map_index_def nth_enumerate_eq)

lemma length_map_index: "length (map_index f xs) = length xs"
  by (simp add: map_index_def)

lemma filter_enumerate:
  "map snd (filter (\<lambda>(i, x). i \<noteq> n + k) (enumerate n xs)) = take k xs @ drop (Suc k) xs"
proof (induction xs arbitrary: n k)
  case (Cons x xs)
  show ?case
  proof (cases k)
    case 0
    have "filter (\<lambda>(i, x). i \<noteq> n) (enumerate (Suc n) xs) = enumerate (Suc n) xs"
      by (auto simp: filter_id_conv in_set_enumerate_eq)
    then show ?thesis
      by (simp add: 0)
  next
    case (Suc j)
    then show ?thesis
      using Cons.IH [of "Suc n" j] by simp
  qed
qed simp

lemma remove_port_nth: "remove_port k xs = take k xs @ drop (Suc k) xs"
  using filter_enumerate [of 0 k xs] by (simp add: remove_port_def filter_index_def)

text \<open>
  A row of the parameter table that is removed leaves its bounds and its description behind: they pass to
  the row that takes its place, and so on to the end of the table, while names, types and defaults move up.
\<close>

theorem removed_parameter_shifts:
  assumes "k < length ps" and "qs = params_back ps (remove_port k (param_ports ps))"
  shows "length qs = length ps - 1
    \<and> (\<forall>j<length qs. qs ! j = (if j < k then ps ! j
          else (ps ! Suc j)\<lparr>pm_min := pm_min (ps ! j), pm_max := pm_max (ps ! j), pm_description := pm_description (ps ! j)\<rparr>))"
proof (intro conjI allI impI)
  let ?rows = "take k (param_ports ps) @ drop (Suc k) (param_ports ps)"
  have len: "length (param_ports ps) = length ps"
    by (simp add: param_ports_def)
  then show l: "length qs = length ps - 1"
    using assms(1) by (simp add: assms(2) params_back_def length_map_index remove_port_nth)
  fix j
  assume j: "j < length qs"
  then have row: "?rows ! j = param_ports ps ! (if j < k then j else Suc j)"
    using assms(1) len by (auto simp: nth_append l)
  have "j < length ?rows"
    using j assms(1) len by (simp add: l)
  then show "qs ! j = (if j < k then ps ! j
      else (ps ! Suc j)\<lparr>pm_min := pm_min (ps ! j), pm_max := pm_max (ps ! j), pm_description := pm_description (ps ! j)\<rparr>)"
    unfolding assms(2) params_back_def remove_port_nth
    using j row assms(1) by (simp add: map_index_nth l) (simp add: param_ports_def)
qed

section \<open>Concrete runs\<close>

definition sample_block :: algorithm_block where
  "sample_block = \<lparr>ab_id = ''ADD'', ab_name = ''ADD'', ab_category = ''math'', ab_version = ''1'', ab_description = [],
     ab_author = [], ab_block_kind = ''FUN'', ab_time_based = False, ab_inputs = [], ab_outputs = [],
     ab_parameters = [\<lparr>pm_name = ''A'', pm_data_type = ''REAL'', pm_default = JNull, pm_min = JNum (Num 1), pm_max = JNull, pm_description = []\<rparr>,
       \<lparr>pm_name = ''B'', pm_data_type = ''REAL'', pm_default = JNull, pm_min = JNull, pm_max = JNull, pm_description = []\<rparr>],
     ab_st_template = [], ab_icon_svg = [], ab_tags = [''sum'', ''basic''], ab_updated_at = None\<rparr>"

theorem redo_after_undo_witness:
  "ef_category (be_fields (redo_block (undo_block (edit_block (EditCategory ''logic'') (open_editor sample_block))))) = ''math''"
  using redo_after_undo [OF refl, of "EditCategory ''logic''" "[]" sample_block]
  by (simp add: open_editor_def fields_of_def sample_block_def)

theorem undo_while_typing_witness:
  "redo_block (debounce_fires (undo_block (edit_block (EditName ''x'') (edit_block (EditInputs []) (open_editor sample_block)))))
   = debounce_fires (undo_block (edit_block (EditName ''x'') (edit_block (EditInputs []) (open_editor sample_block))))"
  using undo_while_typing [OF _ _ _ _ refl, of "edit_block (EditName ''x'') (edit_block (EditInputs []) (open_editor sample_block))"]
  by (simp add: edit_block_def open_editor_def push_snapshot_def empty_history_def history_wf_def history_limit_def
      fields_of_def sample_block_def Let_def)

theorem save_roundtrip_witness:
  "ab_tags (snd (save_starts (open_editor sample_block))) = [''sum'', ''basic'']
   \<and> ab_tags (snd (save_starts (open_editor (sample_block\<lparr>ab_tags := [''a,b'']\<rparr>)))) = [''a'', ''b'']"
proof -
  have "\<forall>x\<in>set (ab_tags sample_block). tag_ok x" and "parse_tags (js_join '', '' [''a,b'']) = [''a'', ''b'']"
    by code_simp+
  then show ?thesis
    using save_roundtrip [of sample_block] save_roundtrip [of "sample_block\<lparr>ab_tags := [''a,b'']\<rparr>"]
    by (simp add: sample_block_def)
qed

theorem saved_symbol_frozen_witness:
  "shown_symbol (edit_field (EditInputs []) (fields_of (saved_block sample_block (fields_of sample_block)))) = symbol_of (fields_of sample_block)"
  using saved_symbol_frozen [OF _ refl, of "fields_of sample_block" "[]" sample_block] by (simp add: fields_of_def sample_block_def)

theorem removed_parameter_shifts_witness:
  "map pm_min (params_back (ab_parameters sample_block) (remove_port 0 (param_ports (ab_parameters sample_block)))) = [JNum (Num 1)]"
  using removed_parameter_shifts [OF _ refl, of 0 "ab_parameters sample_block"]
  by (auto simp: sample_block_def length_Suc_conv)

end
