(* ===== verification/BlockSim.thy ===== *)
theory BlockSim
  imports BlockText SimValues "HOL-Library.Word"
begin

text \<open>
  The simulation of one block (\<open>components/library/BlockEditor.tsx\<close>, lines 1038 to 1600): the symbols of the
  ports, the grid of preset inputs with the stimulus that is built from it, the truth table, and the runs.
\<close>

section \<open>Names of the symbols\<close>

text \<open>\<open>name.trim().replace(/[^A-Za-z0-9_]/g, "_")\<close>, with a \<open>P\<close> in front when it is empty or starts with a digit.\<close>

definition cleaned_name :: "string \<Rightarrow> string" where
  "cleaned_name name =
     (let c = map (\<lambda>x. if is_ident_char x then x else CHR ''_'') (js_trim name)
      in if c = [] \<or> is_digit (hd c) then ''P'' @ c else c)"

function free_suffix :: "string list \<Rightarrow> string \<Rightarrow> nat \<Rightarrow> string" where
  "free_suffix taken base n =
     (let candidate = base @ ''_'' @ show_nat n
      in if candidate \<notin> set taken then candidate else free_suffix taken base (n + 1))"
  by pat_completeness auto

lemma finite_taken_suffixes: "finite {k. (n::nat) \<le> k \<and> base @ ''_'' @ show_nat k \<in> set taken}"
proof -
  have "inj (\<lambda>k. base @ ''_'' @ show_nat k)"
    by (rule injI) (auto dest: show_nat_inj)
  then have "finite ((\<lambda>k. base @ ''_'' @ show_nat k) -` set taken)"
    by (rule finite_vimageI [rotated]) simp
  then show ?thesis
    by (rule rev_finite_subset) auto
qed

termination free_suffix
proof (relation "measure (\<lambda>(taken, base, n). card {k. n \<le> k \<and> base @ ''_'' @ show_nat k \<in> set taken})", goal_cases)
  case (2 taken base n x)
  have "{k. n + 1 \<le> k \<and> base @ ''_'' @ show_nat k \<in> set taken} \<subset> {k. n \<le> k \<and> base @ ''_'' @ show_nat k \<in> set taken}"
    using 2 by (auto simp: psubset_eq set_eq_iff intro!: exI [of _ n])
  then show ?case
    using psubset_card_mono [OF finite_taken_suffixes] by simp
qed simp

declare free_suffix.simps [simp del]

text \<open>The symbol of a port; the taken names are returned with it.\<close>

definition portSymbol :: "string \<Rightarrow> string list \<Rightarrow> string \<times> string list" where
  "portSymbol name taken =
     (let base = cleaned_name name; s = (if base \<notin> set taken then base else free_suffix taken base 2)
      in (s, jset_add s taken))"

record port_column =
  pc_port :: string
  pc_symbol :: string
  pc_type :: string

fun name_ports :: "block_port list \<Rightarrow> string list \<Rightarrow> port_column list \<times> string list" where
  "name_ports [] taken = ([], taken)"
| "name_ports (p # ps) taken =
     (let (s, taken1) = portSymbol (bp_name p) taken; (cols, taken2) = name_ports ps taken1
      in (\<lparr>pc_port = bp_name p, pc_symbol = s, pc_type = bp_data_type p\<rparr> # cols, taken2))"

definition port_map :: "string \<Rightarrow> block_port list \<Rightarrow> block_port list \<Rightarrow> port_column list \<times> port_column list" where
  "port_map block_kind inputs outputs =
     (let (ins, taken) = name_ports inputs []
      in (ins, if block_kind = ''FB''
               then map (\<lambda>p. \<lparr>pc_port = bp_name p, pc_symbol = ''B1#'' @ bp_name p, pc_type = bp_data_type p\<rparr>) outputs
               else fst (name_ports outputs taken)))"

definition is_bool_type :: "string \<Rightarrow> bool" where
  "is_bool_type ty \<longleftrightarrow> js_includes ty ''BOOL''"

definition boolInputs :: "port_column list \<Rightarrow> port_column list" where
  "boolInputs ins = filter (\<lambda>p. is_bool_type (pc_type p)) ins"

definition fixedInputs :: "port_column list \<Rightarrow> port_column list" where
  "fixedInputs ins = filter (\<lambda>p. \<not> is_bool_type (pc_type p)) ins"

section \<open>The grid\<close>

type_synonym grid = "(nat, (string, string) obj) obj"

definition boolToken :: "string \<Rightarrow> string" where
  "boolToken v = (if v = ''1'' \<or> js_to_upper v = ''TRUE'' then ''TRUE'' else ''FALSE'')"

definition defaultCell :: "block_port \<Rightarrow> string" where
  "defaultCell p =
     (if bp_default p = JNull then (if bp_data_type p = ''BOOL'' then ''FALSE'' else ''0'') else js_string (bp_default p))"

definition grid_cell :: "grid \<Rightarrow> nat \<Rightarrow> string \<Rightarrow> string option" where
  "grid_cell g c port = (case obj_get g c of None \<Rightarrow> None | Some row \<Rightarrow> obj_get row port)"

definition grid_row :: "block_port list \<Rightarrow> grid \<Rightarrow> nat \<Rightarrow> (string, string) obj" where
  "grid_row inputs prev c =
     fold (\<lambda>p row. obj_put (bp_name p) (case grid_cell prev c (bp_name p) of None \<Rightarrow> defaultCell p | Some v \<Rightarrow> v) row) inputs []"

definition buildGrid :: "block_port list \<Rightarrow> nat \<Rightarrow> grid \<Rightarrow> grid" where
  "buildGrid inputs n prev = map (\<lambda>c. (c, grid_row inputs prev c)) [1..<n + 1]"

definition set_cell :: "nat \<Rightarrow> string \<Rightarrow> string \<Rightarrow> grid \<Rightarrow> grid" where
  "set_cell c port v g = obj_put c (obj_put port v (case obj_get g c of None \<Rightarrow> [] | Some row \<Rightarrow> row)) g"

section \<open>The stimulus of a run\<close>

record sim_force =
  bf_name :: string
  bf_value :: string

record sim_record =
  br_cycle :: nat
  br_name :: string
  br_value :: string

definition tokenFor :: "port_column \<Rightarrow> string option \<Rightarrow> string" where
  "tokenFor p raw =
     (if is_bool_type (pc_type p) then boolToken (case raw of None \<Rightarrow> ''FALSE'' | Some v \<Rightarrow> v)
      else (case raw of None \<Rightarrow> ''0'' | Some v \<Rightarrow> v))"

definition token_at :: "grid \<Rightarrow> port_column \<Rightarrow> nat \<Rightarrow> string" where
  "token_at g p c = tokenFor p (grid_cell g c (pc_port p))"

text \<open>The records of an input that varies: one at each cycle whose token is another than the one before.\<close>

fun change_records :: "grid \<Rightarrow> port_column \<Rightarrow> string \<Rightarrow> nat list \<Rightarrow> sim_record list" where
  "change_records g p prev [] = []"
| "change_records g p prev (c # cs) =
     (let cur = token_at g p c in
      if cur \<noteq> prev then \<lparr>br_cycle = c, br_name = pc_symbol p, br_value = cur\<rparr> # change_records g p cur cs
      else change_records g p prev cs)"

definition is_constant :: "grid \<Rightarrow> nat \<Rightarrow> port_column \<Rightarrow> bool" where
  "is_constant g lastc p \<longleftrightarrow> (\<forall>c\<in>set [2..<lastc + 1]. token_at g p c = token_at g p 1)"

definition port_records :: "grid \<Rightarrow> nat \<Rightarrow> port_column \<Rightarrow> sim_record list" where
  "port_records g lastc p =
     \<lparr>br_cycle = 1, br_name = pc_symbol p, br_value = token_at g p 1\<rparr> # change_records g p (token_at g p 1) [2..<lastc + 1]"

definition buildStimulus :: "port_column list \<Rightarrow> grid \<Rightarrow> nat \<Rightarrow> sim_force list \<times> sim_record list" where
  "buildStimulus ins g lastc =
     (map (\<lambda>p. \<lparr>bf_name = pc_symbol p, bf_value = token_at g p 1\<rparr>) (filter (is_constant g lastc) ins),
      concat (map (port_records g lastc) (filter (\<lambda>p. \<not> is_constant g lastc p) ins)))"

definition SCRIPT_MAX :: nat where
  "SCRIPT_MAX = 64"

section \<open>The truth table\<close>

text \<open>The value of input \<open>j\<close> of \<open>n\<close> in a row: \<open>row & (1 << (n - 1 - j))\<close>; the shift counts modulo 32.\<close>

definition truth_bit :: "nat \<Rightarrow> nat \<Rightarrow> nat \<Rightarrow> string" where
  "truth_bit n row j = (if bit row ((n - 1 - j) mod 32) then ''TRUE'' else ''FALSE'')"

definition truth_step ::
    "nat \<Rightarrow> nat \<Rightarrow> nat \<times> port_column \<Rightarrow> sim_record list \<times> (string, string) obj \<Rightarrow> sim_record list \<times> (string, string) obj" where
  "truth_step n row jp acc =
     (let (j, p) = jp; (script, held) = acc; v = truth_bit n row j in
      if obj_get held (pc_symbol p) \<noteq> Some v
      then (script @ [\<lparr>br_cycle = row + 1, br_name = pc_symbol p, br_value = v\<rparr>], obj_put (pc_symbol p) v held)
      else (script, held))"

definition truth_row ::
    "port_column list \<Rightarrow> nat \<Rightarrow> sim_record list \<times> (string, string) obj \<Rightarrow> sim_record list \<times> (string, string) obj" where
  "truth_row bools row acc = fold (truth_step (length bools) row) (enumerate 0 bools) acc"

text \<open>The number of combinations is \<open>1 << n\<close> on 32 bits.\<close>

definition combos :: "nat \<Rightarrow> int" where
  "combos n = sint (push_bit (n mod 32) (1 :: 32 word))"

definition truth_script :: "port_column list \<Rightarrow> sim_record list" where
  "truth_script bools = fst (fold (truth_row bools) [0..<nat (combos (length bools))] ([], []))"

definition truth_forces :: "port_column list \<Rightarrow> (string, string) obj \<Rightarrow> sim_force list" where
  "truth_forces fixed values =
     map (\<lambda>p. \<lparr>bf_name = pc_symbol p, bf_value = (case obj_get values (pc_port p) of None \<Rightarrow> ''0'' | Some v \<Rightarrow> v)\<rparr>) fixed"

section \<open>The tab\<close>

datatype sim_mode = CycleMode | TruthMode

record block_run =
  bl_ok :: bool
  bl_stage :: "string option"
  bl_errors :: "string list option"
  bl_cycles :: "jsnum option"
  bl_symbols :: "symbol_series list option"
  bl_ports :: "(port_column list \<times> port_column list) option"
  bl_program :: "string option"

record sim_tab =
  tb_mode :: sim_mode
  tb_cycles :: jsnum
  tb_run :: "block_run option"
  tb_running :: bool
  tb_grid :: grid
  tb_step :: jsnum
  tb_values :: "(string, string) obj"

record sim_block =
  sb_id :: string
  sb_kind :: string
  sb_inputs :: "block_port list"
  sb_outputs :: "block_port list"

record run_request =
  rq_block :: string
  rq_cycles :: jsnum
  rq_forces :: "sim_force list"
  rq_script :: "sim_record list"

text \<open>The loops and tables run over the whole numbers up to the number of cycles.\<close>

definition cycle_count :: "jsnum \<Rightarrow> nat" where
  "cycle_count x = (case x of Num r \<Rightarrow> nat \<lfloor>r\<rfloor> | _ \<Rightarrow> 0)"

definition input_columns :: "sim_block \<Rightarrow> port_column list" where
  "input_columns b = fst (port_map (sb_kind b) (sb_inputs b) (sb_outputs b))"

definition output_columns :: "sim_block \<Rightarrow> port_column list" where
  "output_columns b = snd (port_map (sb_kind b) (sb_inputs b) (sb_outputs b))"

definition default_values :: "sim_block \<Rightarrow> (string, string) obj" where
  "default_values b = obj_build bp_name defaultCell (sb_inputs b)"

definition open_tab :: "sim_block \<Rightarrow> sim_tab" where
  "open_tab b =
     \<lparr>tb_mode = CycleMode, tb_cycles = Num 4, tb_run = None, tb_running = False, tb_grid = buildGrid (sb_inputs b) 4 [],
      tb_step = Num 0, tb_values = default_values b\<rparr>"

definition refused_run :: "string \<Rightarrow> string \<Rightarrow> block_run" where
  "refused_run stage message =
     \<lparr>bl_ok = False, bl_stage = Some stage, bl_errors = Some [message], bl_cycles = None, bl_symbols = None, bl_ports = None,
      bl_program = None\<rparr>"

text \<open>The start of a run of \<open>k\<close> cycles; the second component is the request.\<close>

definition runCycles :: "(string \<Rightarrow> string) \<Rightarrow> sim_block \<Rightarrow> jsnum \<Rightarrow> sim_tab \<Rightarrow> sim_tab \<times> run_request option" where
  "runCycles t b k tab =
     (if tb_running tab \<or> js_less k (Num 1) \<or> js_less (tb_cycles tab) k then (tab, None)
      else let (forces, script) = buildStimulus (input_columns b) (tb_grid tab) (cycle_count k) in
        if length script > SCRIPT_MAX then
          (tab\<lparr>tb_run := Some (refused_run ''compose'' (t ''editor.simulate.recordsExceed''))\<rparr>, None)
        else (tab\<lparr>tb_running := True\<rparr>,
              Some \<lparr>rq_block = sb_id b, rq_cycles = k, rq_forces = forces, rq_script = script\<rparr>))"

text \<open>The answer to a run of \<open>k\<close> cycles.\<close>

definition run_answered :: "jsnum \<Rightarrow> string + block_run \<Rightarrow> sim_tab \<Rightarrow> sim_tab" where
  "run_answered k answer tab =
     (case answer of
        Inl message \<Rightarrow> tab\<lparr>tb_run := Some (refused_run ''request'' message), tb_running := False\<rparr>
      | Inr r \<Rightarrow> (let tab1 = tab\<lparr>tb_run := Some r, tb_running := False\<rparr> in if bl_ok r then tab1\<lparr>tb_step := k\<rparr> else tab1))"

definition handleStep :: "(string \<Rightarrow> string) \<Rightarrow> sim_block \<Rightarrow> sim_tab \<Rightarrow> sim_tab \<times> run_request option" where
  "handleStep t b tab = runCycles t b (js_plus (tb_step tab) (Num 1)) tab"

definition handleRunAll :: "(string \<Rightarrow> string) \<Rightarrow> sim_block \<Rightarrow> sim_tab \<Rightarrow> sim_tab \<times> run_request option" where
  "handleRunAll t b tab = runCycles t b (tb_cycles tab) tab"

definition setCell :: "nat \<Rightarrow> string \<Rightarrow> string \<Rightarrow> sim_tab \<Rightarrow> sim_tab" where
  "setCell c port v tab = tab\<lparr>tb_grid := set_cell c port v (tb_grid tab), tb_step := Num 0, tb_run := None\<rparr>"

definition set_cycles :: "sim_block \<Rightarrow> string \<Rightarrow> sim_tab \<Rightarrow> sim_tab" where
  "set_cycles b typed tab =
     (let n = js_max (Num 1) (js_number typed)
      in tab\<lparr>tb_cycles := n, tb_grid := (if n = tb_cycles tab then tb_grid tab
            else buildGrid (sb_inputs b) (cycle_count n) (tb_grid tab))\<rparr>)"

definition set_value :: "string \<Rightarrow> string \<Rightarrow> sim_tab \<Rightarrow> sim_tab" where
  "set_value port v tab = tab\<lparr>tb_values := obj_put port v (tb_values tab)\<rparr>"

definition handleRunTruth :: "sim_block \<Rightarrow> sim_tab \<Rightarrow> sim_tab \<times> run_request" where
  "handleRunTruth b tab =
     (let bools = boolInputs (input_columns b)
      in (tab\<lparr>tb_running := True\<rparr>,
          \<lparr>rq_block = sb_id b, rq_cycles = Num (of_int (combos (length bools))),
           rq_forces = truth_forces (fixedInputs (input_columns b)) (tb_values tab), rq_script = truth_script bools\<rparr>))"

definition truth_answered :: "string + block_run \<Rightarrow> sim_tab \<Rightarrow> sim_tab" where
  "truth_answered answer tab =
     tab\<lparr>tb_run := Some (case answer of Inl message \<Rightarrow> refused_run ''request'' message | Inr r \<Rightarrow> r), tb_running := False\<rparr>"

definition reset_tab :: "sim_block \<Rightarrow> sim_tab \<Rightarrow> sim_tab" where
  "reset_tab b tab =
     tab\<lparr>tb_run := None, tb_step := Num 0, tb_grid := buildGrid (sb_inputs b) (cycle_count (tb_cycles tab)) [],
       tb_values := default_values b\<rparr>"

section \<open>What is shown\<close>

text \<open>The columns a run names are authoritative; before the first run the mirrored names stand in.\<close>

definition shown_columns :: "sim_block \<Rightarrow> sim_tab \<Rightarrow> port_column list \<times> port_column list" where
  "shown_columns b tab =
     (case tb_run tab of None \<Rightarrow> (input_columns b, output_columns b)
      | Some r \<Rightarrow> (case bl_ports r of None \<Rightarrow> (input_columns b, output_columns b) | Some ps \<Rightarrow> ps))"

definition series_of :: "sim_tab \<Rightarrow> string \<Rightarrow> symbol_series option" where
  "series_of tab symbol =
     (case tb_run tab of None \<Rightarrow> None
      | Some r \<Rightarrow> obj_get (obj_build ss_name (\<lambda>s. s) (or_empty (bl_symbols r))) symbol)"

definition value_text :: "sim_tab \<Rightarrow> port_column \<Rightarrow> nat \<Rightarrow> string" where
  "value_text tab c i =
     (case series_of tab (pc_symbol c) of None \<Rightarrow> dash_text | Some s \<Rightarrow> formatValue (ss_type s) (value_at (ss_values s) (int i)))"

definition cell_forced :: "sim_tab \<Rightarrow> port_column \<Rightarrow> nat \<Rightarrow> bool" where
  "cell_forced tab c i \<longleftrightarrow>
     (case series_of tab (pc_symbol c) of None \<Rightarrow> False
      | Some s \<Rightarrow> (case ss_forced s of None \<Rightarrow> False | Some fs \<Rightarrow> js_nth fs (int i) = Some True))"

definition result_cycles :: "sim_tab \<Rightarrow> block_run \<Rightarrow> nat" where
  "result_cycles tab r =
     (case or_empty (bl_symbols r) of s # rest \<Rightarrow> length (ss_values s)
      | [] \<Rightarrow> cycle_count (case bl_cycles r of None \<Rightarrow> tb_cycles tab | Some c \<Rightarrow> c))"

text \<open>A row of the result table: the number of the cycle and a text with its mark for each column.\<close>

definition result_table :: "sim_block \<Rightarrow> sim_tab \<Rightarrow> (nat \<times> (string \<times> bool) list) list" where
  "result_table b tab =
     (case tb_run tab of
        Some r \<Rightarrow>
          if bl_ok r \<and> tb_mode tab = CycleMode then
            map (\<lambda>i. (i + 1, map (\<lambda>c. (value_text tab c i, cell_forced tab c i)) (fst (shown_columns b tab) @ snd (shown_columns b tab))))
              [0..<result_cycles tab r]
          else []
      | None \<Rightarrow> [])"

definition truth_table :: "sim_block \<Rightarrow> sim_tab \<Rightarrow> (nat \<times> string list) list" where
  "truth_table b tab =
     (let bools = boolInputs (input_columns b); n = length bools in
      case tb_run tab of
        Some r \<Rightarrow>
          if bl_ok r \<and> tb_mode tab = TruthMode \<and> 0 < n then
            map (\<lambda>row. (row + 1, map (truth_bit n row) [0..<n]
                @ map (\<lambda>p. case obj_get (tb_values tab) (pc_port p) of None \<Rightarrow> ''0'' | Some v \<Rightarrow> v) (fixedInputs (input_columns b))
                @ map (\<lambda>c. value_text tab c row) (snd (shown_columns b tab))))
              [0..<nat (combos n)]
          else []
      | None \<Rightarrow> [])"

definition step_enabled :: "sim_block \<Rightarrow> sim_tab \<Rightarrow> bool" where
  "step_enabled b tab \<longleftrightarrow>
     \<not> (tb_running tab \<or> js_less (tb_cycles tab) (tb_step tab) \<or> tb_step tab = tb_cycles tab \<and> tb_step tab \<noteq> NaN
        \<or> input_columns b = [])"

definition truth_enabled :: "sim_block \<Rightarrow> sim_tab \<Rightarrow> bool" where
  "truth_enabled b tab \<longleftrightarrow> \<not> (tb_running tab \<or> boolInputs (input_columns b) = [])"

definition run_errors :: "sim_tab \<Rightarrow> string list" where
  "run_errors tab = (case tb_run tab of None \<Rightarrow> [] | Some r \<Rightarrow> if bl_ok r then [] else or_empty (bl_errors r))"

end
