(* ===== verification/BlockSimLaws.thy ===== *)
theory BlockSimLaws
  imports BlockSim
begin

text \<open>
  The laws of the block simulation: the symbols of the ports differ, the stimulus replays the grid and the
  truth table, the size of the script of a truth table, and what an answer does that arrives late.
\<close>

section \<open>Symbols\<close>

lemma free_suffix_free: "free_suffix taken base n \<notin> set taken \<and> (\<exists>k. free_suffix taken base n = base @ ''_'' @ show_nat k)"
proof (induction taken base n rule: free_suffix.induct)
  case (1 taken base n)
  show ?case
    using "1.IH" [OF refl] by (subst (1 2) free_suffix.simps) (auto simp: Let_def)
qed

lemma portSymbol_fresh: "portSymbol name taken = (s, taken1) \<Longrightarrow> s \<notin> set taken \<and> set taken1 = insert s (set taken)"
  using free_suffix_free [of taken "cleaned_name name" 2]
  by (auto simp: portSymbol_def Let_def jset_add_def split: if_splits)

lemma name_ports_fresh:
  "name_ports ps taken = (cols, taken1) \<Longrightarrow> distinct (map pc_symbol cols) \<and> set (map pc_symbol cols) \<inter> set taken = {}
     \<and> set taken1 = set taken \<union> set (map pc_symbol cols) \<and> map pc_port cols = map bp_name ps"
proof (induction ps arbitrary: taken cols taken1)
  case (Cons p ps)
  obtain s taken2 where s: "portSymbol (bp_name p) taken = (s, taken2)"
    by (metis prod.exhaust)
  obtain cols2 taken3 where c: "name_ports ps taken2 = (cols2, taken3)"
    by (metis prod.exhaust)
  have "cols = \<lparr>pc_port = bp_name p, pc_symbol = s, pc_type = bp_data_type p\<rparr> # cols2" and "taken1 = taken3"
    using Cons.prems by (simp_all add: s c)
  then show ?case
    using Cons.IH [OF c] portSymbol_fresh [OF s] by auto
qed simp

lemma ident_no_hash: "is_ident_char c \<Longrightarrow> c \<noteq> CHR ''#''"
  by (auto simp: is_ident_char_def is_ident_start_def is_digit_def js_in_range_def)

lemma hash_no_ident: "\<not> is_ident_char CHR ''#''"
  using ident_no_hash by blast

lemma cleaned_no_hash: "CHR ''#'' \<notin> set (cleaned_name name)"
  by (auto simp: cleaned_name_def Let_def hash_no_ident split: if_splits)

lemma show_nat_no_hash: "CHR ''#'' \<notin> set (show_nat n)"
  using show_nat_digits [of "CHR ''#''" n] by (auto simp: is_digit_def js_in_range_def)

lemma portSymbol_no_hash: "CHR ''#'' \<notin> set (fst (portSymbol name taken))"
proof -
  obtain k where "free_suffix taken (cleaned_name name) 2 = cleaned_name name @ ''_'' @ show_nat k"
    using free_suffix_free by blast
  then show ?thesis
    using cleaned_no_hash [of name] show_nat_no_hash [of k] by (simp add: portSymbol_def Let_def)
qed

lemma name_ports_no_hash: "\<forall>s\<in>set (map pc_symbol (fst (name_ports ps taken))). CHR ''#'' \<notin> set s"
proof (induction ps arbitrary: taken)
  case (Cons p ps)
  obtain s1 taken2 where p1: "portSymbol (bp_name p) taken = (s1, taken2)"
    by (metis prod.exhaust)
  have "CHR ''#'' \<notin> set s1"
    using portSymbol_no_hash [of "bp_name p" taken] by (simp add: p1)
  then show ?case
    using Cons.IH [of taken2] by (simp add: p1 split: prod.splits)
qed simp

text \<open>
  C23: the ports of a simulated block have symbols of their own, whatever they are called: the search for a
  free suffix ends, no two inputs share a symbol, and no output has the symbol of an input.
\<close>

theorem port_symbols_distinct:
  "distinct (map pc_symbol (fst (port_map kind ins outs)))
   \<and> set (map pc_symbol (fst (port_map kind ins outs))) \<inter> set (map pc_symbol (snd (port_map kind ins outs))) = {}
   \<and> (kind = ''FB'' \<or> distinct (map pc_symbol (snd (port_map kind ins outs))))"
proof -
  obtain cols taken where i: "name_ports ins [] = (cols, taken)"
    by (metis prod.exhaust)
  obtain outc taken2 where o1: "name_ports outs taken = (outc, taken2)"
    by (metis prod.exhaust)
  have d: "distinct (map pc_symbol cols)" and t: "set taken = set (map pc_symbol cols)"
    using name_ports_fresh [OF i] by simp_all
  show ?thesis
  proof (cases "kind = ''FB''")
    case True
    have "CHR ''#'' \<notin> set s" if "s \<in> set (map pc_symbol cols)" for s
      using name_ports_no_hash [of ins "[]"] that by (auto simp: i)
    then have "set (map pc_symbol cols) \<inter> set (map (\<lambda>p. ''B1#'' @ bp_name p) outs) = {}"
      by force
    then show ?thesis
      using True d by (simp add: port_map_def i comp_def)
  next
    case False
    then show ?thesis
      using d t name_ports_fresh [OF o1] by (auto simp: port_map_def i o1)
  qed
qed

section \<open>The stimulus\<close>

text \<open>
  What the runner drives a symbol with: its force, or the last record up to the cycle, since a record holds
  until the next one for the symbol.
\<close>

definition held_value :: "sim_force list \<Rightarrow> sim_record list \<Rightarrow> nat \<Rightarrow> string \<Rightarrow> string option" where
  "held_value forces script c name =
     (case List.find (\<lambda>f. bf_name f = name) forces of
        Some f \<Rightarrow> Some (bf_value f)
      | None \<Rightarrow>
          (let rs = filter (\<lambda>r. br_name r = name \<and> br_cycle r \<le> c) script
           in if rs = [] then None else Some (br_value (last rs))))"

lemma change_records_in: "r \<in> set (change_records g p prev cs) \<Longrightarrow> br_name r = pc_symbol p \<and> br_cycle r \<in> set cs"
  by (induction cs arbitrary: prev) (auto simp: Let_def split: if_splits)

lemma change_records_last:
  assumes "a \<le> c" and "c < b"
  shows "(let rs = filter (\<lambda>r. br_cycle r \<le> c) (change_records g p prev [a..<b])
     in if rs = [] then prev else br_value (last rs)) = token_at g p c"
  using assms
proof (induction "b - a" arbitrary: a prev)
  case (Suc m)
  have up: "[a..<b] = a # [Suc a..<b]"
    using Suc.prems by (simp add: upt_conv_Cons)
  show ?case
  proof (cases "a = c")
    case True
    have "filter (\<lambda>r. br_cycle r \<le> c) (change_records g p q [Suc c..<b]) = []" for q
      using change_records_in [of _ g p q "[Suc c..<b]"] by (fastforce simp: filter_empty_conv)
    then show ?thesis
      unfolding up by (simp add: True Let_def)
  next
    case False
    then have "(let rs = filter (\<lambda>r. br_cycle r \<le> c) (change_records g p (token_at g p a) [Suc a..<b])
        in if rs = [] then token_at g p a else br_value (last rs)) = token_at g p c"
      using Suc by (intro Suc.hyps(1)) simp_all
    then show ?thesis
      using Suc.prems by (auto simp: up Let_def split: if_splits)
  qed
qed simp

lemma port_records_last:
  assumes "1 \<le> c" and "c \<le> upto1"
  shows "filter (\<lambda>r. br_cycle r \<le> c) (port_records g upto1 p) \<noteq> []
    \<and> br_value (last (filter (\<lambda>r. br_cycle r \<le> c) (port_records g upto1 p))) = token_at g p c"
proof (cases "c = 1")
  case True
  have "filter (\<lambda>r. br_cycle r \<le> 1) (change_records g p q [2..<upto1 + 1]) = []" for q
    using change_records_in [of _ g p q "[2..<upto1 + 1]"] by (fastforce simp: filter_empty_conv)
  then show ?thesis
    by (simp add: True port_records_def del: upt_Suc)
next
  case False
  then show ?thesis
    using change_records_last [of 2 c "upto1 + 1" g p "token_at g p 1"] assms
    by (auto simp: port_records_def Let_def simp del: upt_Suc split: if_splits)
qed

lemma port_records_name: "r \<in> set (port_records g n p) \<Longrightarrow> br_name r = pc_symbol p"
  using change_records_in by (fastforce simp: port_records_def)

lemma port_records_cycle: "r \<in> set (port_records g n p) \<Longrightarrow> 1 \<le> n \<Longrightarrow> 1 \<le> br_cycle r \<and> br_cycle r \<le> n"
  using change_records_in [of r g p "token_at g p 1" "[2..<n + 1]"] by (auto simp: port_records_def)

lemma filter_by_name:
  assumes "distinct (map pc_symbol ps)" and "p \<in> set ps"
  shows "filter (\<lambda>r. br_name r = pc_symbol p) (concat (map (port_records g n) ps)) = port_records g n p"
  using assms
proof (induction ps)
  case (Cons q ps)
  have none: "filter (\<lambda>r. br_name r = pc_symbol x) (port_records g n y) = []" if "pc_symbol y \<noteq> pc_symbol x" for x y
    using that port_records_name by (fastforce simp: filter_empty_conv)
  have all: "filter (\<lambda>r. br_name r = pc_symbol x) (port_records g n x) = port_records g n x" for x
    using port_records_name by (fastforce simp: filter_id_conv)
  show ?case
  proof (cases "p = q")
    case True
    have "filter (\<lambda>r. br_name r = pc_symbol q) (concat (map (port_records g n) ps)) = []"
      using Cons.prems(1) by (auto simp: filter_empty_conv dest!: port_records_name intro: rev_image_eqI)
    then show ?thesis
      by (simp add: True all)
  next
    case False
    then have "pc_symbol q \<noteq> pc_symbol p"
      using Cons.prems by auto
    then show ?thesis
      using Cons False by (simp add: none)
  qed
qed simp

lemma filter_symbols: "distinct (map pc_symbol ps) \<Longrightarrow> distinct (map pc_symbol (filter P ps))"
  by (rule distinct_map_filter)

lemma same_symbol: "distinct (map pc_symbol ps) \<Longrightarrow> p \<in> set ps \<Longrightarrow> q \<in> set ps \<Longrightarrow> pc_symbol p = pc_symbol q \<Longrightarrow> p = q"
  by (auto simp: distinct_map dest: inj_onD)

lemma constant_token: "is_constant g k p \<Longrightarrow> 1 \<le> c \<Longrightarrow> c \<le> k \<Longrightarrow> token_at g p c = token_at g p 1"
  by (cases "c = 1") (auto simp: is_constant_def)

lemma stimulus_held:
  assumes "distinct (map pc_symbol ins)" and "p \<in> set ins" and "1 \<le> c" and "c \<le> k"
    and "buildStimulus ins g k = (forces, script)"
  shows "held_value forces script c (pc_symbol p) = Some (token_at g p c)"
proof (cases "is_constant g k p")
  case True
  let ?f = "\<lambda>q. \<lparr>bf_name = pc_symbol q, bf_value = token_at g q 1\<rparr>"
  have f: "forces = map ?f (filter (is_constant g k) ins)"
    using assms(5) by (simp add: buildStimulus_def)
  have "?f p \<in> set forces"
    using assms(2) True by (simp add: f)
  then obtain x where x: "List.find (\<lambda>f. bf_name f = pc_symbol p) forces = Some x"
    by (cases "List.find (\<lambda>f. bf_name f = pc_symbol p) forces") (auto simp: find_None_iff)
  then have "x \<in> set forces" and "bf_name x = pc_symbol p"
    by (auto simp: find_Some_iff)
  then obtain q where "q \<in> set ins" and "x = ?f q" and "pc_symbol q = pc_symbol p"
    by (auto simp: f)
  then have "x = ?f p"
    using same_symbol [OF assms(1)] assms(2) by blast
  then show ?thesis
    using constant_token [OF True assms(3,4)] by (simp add: held_value_def x)
next
  case False
  let ?vary = "filter (\<lambda>q. \<not> is_constant g k q) ins"
  have s: "forces = map (\<lambda>q. \<lparr>bf_name = pc_symbol q, bf_value = token_at g q 1\<rparr>) (filter (is_constant g k) ins)"
    "script = concat (map (port_records g k) ?vary)"
    using assms(5) by (simp_all add: buildStimulus_def)
  have "List.find (\<lambda>f. bf_name f = pc_symbol p) forces = None"
    using same_symbol [OF assms(1) _ assms(2)] False by (auto simp: find_None_iff s(1))
  moreover have "filter (\<lambda>r. br_name r = pc_symbol p) script = port_records g k p"
    unfolding s(2) using assms(1,2) False by (intro filter_by_name filter_symbols) simp_all
  then have "filter (\<lambda>r. br_name r = pc_symbol p \<and> br_cycle r \<le> c) script = filter (\<lambda>r. br_cycle r \<le> c) (port_records g k p)"
    by (metis (no_types, lifting) filter_cong filter_filter)
  ultimately show ?thesis
    using port_records_last [OF assms(3,4), of g p] by (simp add: held_value_def Let_def)
qed

lemma stimulus_apart:
  assumes "distinct (map pc_symbol ins)" and "buildStimulus ins g k = (forces, script)"
  shows "bf_name ` set forces \<inter> br_name ` set script = {}"
proof -
  have "bf_name f \<noteq> br_name r" if "f \<in> set forces" and "r \<in> set script" for f r
  proof -
    obtain p where p: "p \<in> set ins" "is_constant g k p" "bf_name f = pc_symbol p"
      using assms(2) \<open>f \<in> set forces\<close> by (auto simp: buildStimulus_def)
    obtain q where q: "q \<in> set ins" "\<not> is_constant g k q" "r \<in> set (port_records g k q)"
      using assms(2) \<open>r \<in> set script\<close> by (auto simp: buildStimulus_def)
    show ?thesis
      using same_symbol [OF assms(1) p(1) q(1)] port_records_name [OF q(3)] p(2,3) q(2) by auto
  qed
  then show ?thesis
    by auto
qed

lemma stimulus_cycles:
  assumes "1 \<le> c" and "c \<le> k" and "buildStimulus ins g k = (forces, script)"
  shows "\<forall>r\<in>set script. 1 \<le> br_cycle r \<and> br_cycle r \<le> k"
proof
  fix r
  assume "r \<in> set script"
  then obtain q where "r \<in> set (port_records g k q)"
    using assms(3) by (auto simp: buildStimulus_def)
  then show "1 \<le> br_cycle r \<and> br_cycle r \<le> k"
    using port_records_cycle assms(1,2) by simp
qed

text \<open>
  C14: the stimulus of a run of \<open>k\<close> cycles drives every input, at every cycle, with the value its cell of the
  grid holds there; no symbol is in the forces and in the script, and the script stays inside the run.
\<close>

theorem stimulus_replays_grid:
  assumes "distinct (map pc_symbol ins)" and "p \<in> set ins" and "1 \<le> c" and "c \<le> k"
    and "buildStimulus ins g k = (forces, script)"
  shows "held_value forces script c (pc_symbol p) = Some (token_at g p c)
    \<and> bf_name ` set forces \<inter> br_name ` set script = {}
    \<and> (\<forall>r\<in>set script. 1 \<le> br_cycle r \<and> br_cycle r \<le> k)"
  using assms by (intro conjI stimulus_held stimulus_apart stimulus_cycles)

lemma stimulus_replays_grid_witness:
  "held_value [\<lparr>bf_name = ''B'', bf_value = ''5''\<rparr>]
      [\<lparr>br_cycle = 1, br_name = ''A'', br_value = ''FALSE''\<rparr>, \<lparr>br_cycle = 2, br_name = ''A'', br_value = ''TRUE''\<rparr>] 3 ''A''
    = Some ''TRUE''"
proof -
  let ?ins = "[\<lparr>pc_port = ''a'', pc_symbol = ''A'', pc_type = ''BOOL''\<rparr>, \<lparr>pc_port = ''b'', pc_symbol = ''B'', pc_type = ''INT''\<rparr>]"
  let ?g = "[(1, [(''a'', ''0''), (''b'', ''5'')]), (2, [(''a'', ''1''), (''b'', ''5'')]), (3, [(''a'', ''1''), (''b'', ''5'')])]"
  have "buildStimulus ?ins ?g 3 = ([\<lparr>bf_name = ''B'', bf_value = ''5''\<rparr>],
      [\<lparr>br_cycle = 1, br_name = ''A'', br_value = ''FALSE''\<rparr>, \<lparr>br_cycle = 2, br_name = ''A'', br_value = ''TRUE''\<rparr>])"
    by code_simp
  moreover have "token_at ?g (hd ?ins) 3 = ''TRUE''"
    by code_simp
  ultimately show ?thesis
    using stimulus_replays_grid [of ?ins "hd ?ins" 3 3 ?g] by simp
qed

section \<open>The truth table\<close>

definition turns :: "nat \<Rightarrow> nat \<Rightarrow> nat \<Rightarrow> bool" where
  "turns n row j \<longleftrightarrow> row = 0 \<or> truth_bit n row j \<noteq> truth_bit n (row - 1) j"

definition turn_record :: "nat \<Rightarrow> nat \<Rightarrow> nat \<times> port_column \<Rightarrow> sim_record" where
  "turn_record n row jp = \<lparr>br_cycle = row + 1, br_name = pc_symbol (snd jp), br_value = truth_bit n row (fst jp)\<rparr>"

definition out_of_date :: "nat \<Rightarrow> nat \<Rightarrow> (string, string) obj \<Rightarrow> nat \<times> port_column \<Rightarrow> bool" where
  "out_of_date n row held jp \<longleftrightarrow> obj_get held (pc_symbol (snd jp)) \<noteq> Some (truth_bit n row (fst jp))"

lemma truth_step_eq:
  "truth_step n row jp (script, held) =
     (if out_of_date n row held jp
      then (script @ [turn_record n row jp], obj_put (pc_symbol (snd jp)) (truth_bit n row (fst jp)) held)
      else (script, held))"
  by (simp add: truth_step_def out_of_date_def turn_record_def split_beta Let_def)

lemma truth_steps:
  assumes "distinct (map (pc_symbol \<circ> snd) jps)"
  shows "fst (fold (truth_step n row) jps (script, held)) = script @ map (turn_record n row) (filter (out_of_date n row held) jps)
    \<and> (\<forall>jp\<in>set jps. obj_get (snd (fold (truth_step n row) jps (script, held))) (pc_symbol (snd jp)) = Some (truth_bit n row (fst jp)))
    \<and> (\<forall>s. s \<notin> (pc_symbol \<circ> snd) ` set jps \<longrightarrow> obj_get (snd (fold (truth_step n row) jps (script, held))) s = obj_get held s)"
  using assms
proof (induction jps arbitrary: script held)
  case (Cons jp jps)
  obtain script1 held1 where step: "truth_step n row jp (script, held) = (script1, held1)"
    by (metis prod.exhaust)
  have new: "pc_symbol (snd jp) \<notin> (pc_symbol \<circ> snd) ` set jps" and rest: "distinct (map (pc_symbol \<circ> snd) jps)"
    using Cons.prems by (simp_all add: comp_def)
  have script1: "script1 = script @ map (turn_record n row) (filter (out_of_date n row held) [jp])"
    and here: "obj_get held1 (pc_symbol (snd jp)) = Some (truth_bit n row (fst jp))"
    using step by (auto simp: truth_step_eq out_of_date_def obj_get_def map_of_obj_put split: if_splits)
  have other: "obj_get held1 s = obj_get held s" if "s \<noteq> pc_symbol (snd jp)" for s
    using step that by (auto simp: truth_step_eq out_of_date_def obj_get_def map_of_obj_put split: if_splits)
  have same: "filter (out_of_date n row held1) jps = filter (out_of_date n row held) jps"
    using new by (intro filter_cong refl) (auto simp: out_of_date_def other image_iff)
  note ih = Cons.IH [OF rest, of script1 held1]
  have kept: "obj_get (snd (fold (truth_step n row) jps (script1, held1))) s = obj_get held1 s" if "s \<notin> (pc_symbol \<circ> snd) ` set jps" for s
    using ih that by blast
  show ?case
  proof (intro conjI)
    show "fst (fold (truth_step n row) (jp # jps) (script, held)) =
        script @ map (turn_record n row) (filter (out_of_date n row held) (jp # jps))"
      using ih by (simp add: step script1 same)
    show "\<forall>x\<in>set (jp # jps). obj_get (snd (fold (truth_step n row) (jp # jps) (script, held))) (pc_symbol (snd x))
        = Some (truth_bit n row (fst x))"
      using ih here kept [OF new] by (simp add: step)
    show "\<forall>s. s \<notin> (pc_symbol \<circ> snd) ` set (jp # jps)
        \<longrightarrow> obj_get (snd (fold (truth_step n row) (jp # jps) (script, held))) s = obj_get held s"
      using kept other by (simp add: step)
  qed
qed simp

text \<open>The records of a row are those of the inputs whose bit turns there.\<close>

lemma truth_rows:
  assumes "distinct (map pc_symbol bools)"
  shows "let (script, held) = fold (truth_row bools) [0..<r] ([], []) in
    script = concat (map (\<lambda>row. map (turn_record (length bools) row) (filter (\<lambda>jp. turns (length bools) row (fst jp)) (enumerate 0 bools))) [0..<r])
    \<and> (\<forall>jp\<in>set (enumerate 0 bools). obj_get held (pc_symbol (snd jp)) =
         (if r = 0 then None else Some (truth_bit (length bools) (r - 1) (fst jp))))"
proof (induction r)
  case 0
  show ?case
    by (simp add: obj_get_def)
next
  case (Suc r)
  let ?n = "length bools" and ?jps = "enumerate 0 bools"
  obtain script held where f: "fold (truth_row bools) [0..<r] ([], []) = (script, held)"
    by (metis prod.exhaust)
  obtain script1 held1 where g: "fold (truth_step ?n r) ?jps (script, held) = (script1, held1)"
    by (metis prod.exhaust)
  have d: "distinct (map (pc_symbol \<circ> snd) ?jps)"
    using assms by (simp flip: map_map)
  have "filter (out_of_date ?n r held) ?jps = filter (\<lambda>jp. turns ?n r (fst jp)) ?jps"
    using Suc.IH by (intro filter_cong refl) (auto simp: f out_of_date_def turns_def)
  moreover have "truth_row bools r (script, held) = (script1, held1)"
    by (simp add: truth_row_def g)
  ultimately show ?case
    using Suc.IH truth_steps [OF d, of ?n r script held, unfolded g] by (auto simp: f)
qed

lemma truth_script_records:
  assumes "distinct (map pc_symbol bools)"
  shows "truth_script bools =
    concat (map (\<lambda>row. map (turn_record (length bools) row) (filter (\<lambda>jp. turns (length bools) row (fst jp)) (enumerate 0 bools)))
      [0..<nat (combos (length bools))])"
  using truth_rows [OF assms, of "nat (combos (length bools))"] by (simp add: truth_script_def split_beta Let_def)

lemma filter_key: "distinct (map f xs) \<Longrightarrow> x \<in> set xs \<Longrightarrow> filter (\<lambda>y. f y = f x) xs = [x]"
  by (induction xs) (auto simp: filter_empty_conv image_iff)

lemma row_records:
  assumes "distinct (map pc_symbol bools)" and "j < length bools"
  shows "filter (\<lambda>r. br_name r = pc_symbol (bools ! j))
      (map (turn_record n row) (filter (\<lambda>jp. turns n row (fst jp)) (enumerate 0 bools)))
    = (if turns n row j then [turn_record n row (j, bools ! j)] else [])"
proof -
  have d: "distinct (map (pc_symbol \<circ> snd) (enumerate 0 bools))"
    using assms(1) by (simp flip: map_map)
  have "(j, bools ! j) \<in> set (enumerate 0 bools)"
    using assms(2) by (simp add: in_set_enumerate_eq)
  then have "filter (\<lambda>jp. pc_symbol (snd jp) = pc_symbol (bools ! j)) (enumerate 0 bools) = [(j, bools ! j)]"
    using filter_key [OF d, of "(j, bools ! j)"] by simp
  then have "filter (\<lambda>jp. turns n row (fst jp)) (filter (\<lambda>jp. pc_symbol (snd jp) = pc_symbol (bools ! j)) (enumerate 0 bools))
      = (if turns n row j then [(j, bools ! j)] else [])"
    by simp
  then show ?thesis
    by (simp add: filter_map comp_def turn_record_def conj_commute)
qed

lemma rows_so_far:
  "concat (map (\<lambda>r. if turns n r j then [turn_record n r (j, p)] else []) [0..<Suc row]) \<noteq> []
   \<and> br_value (last (concat (map (\<lambda>r. if turns n r j then [turn_record n r (j, p)] else []) [0..<Suc row]))) = truth_bit n row j"
proof (induction row)
  case 0
  show ?case
    by (simp add: turns_def turn_record_def)
next
  case (Suc row)
  let ?row = "\<lambda>r. if turns n r j then [turn_record n r (j, p)] else []"
  have "concat (map ?row [0..<Suc (Suc row)]) = concat (map ?row [0..<Suc row]) @ ?row (Suc row)"
    by simp
  then show ?case
    using Suc.IH by (cases "turns n (Suc row) j") (simp_all add: turn_record_def turns_def del: upt_Suc)
qed

lemma truth_held:
  assumes "distinct (map pc_symbol bools)" and "j < length bools" and "row < nat (combos (length bools))"
  shows "filter (\<lambda>r. br_name r = pc_symbol (bools ! j) \<and> br_cycle r \<le> row + 1) (truth_script bools)
    = concat (map (\<lambda>r. if turns (length bools) r j then [turn_record (length bools) r (j, bools ! j)] else []) [0..<Suc row])"
proof -
  let ?n = "length bools"
  let ?row = "\<lambda>r. if turns ?n r j then [turn_record ?n r (j, bools ! j)] else []"
  have upt: "[0..<nat (combos ?n)] = [0..<Suc row] @ [Suc row..<nat (combos ?n)]"
    using assms(3) by (metis Suc_leI le_add_diff_inverse upt_add_eq_append zero_le)
  have early: "map (filter (\<lambda>r. br_cycle r \<le> row + 1) \<circ> ?row) [0..<Suc row] = map ?row [0..<Suc row]"
    by (intro map_cong refl) (auto simp: turn_record_def)
  have late: "concat (map (filter (\<lambda>r. br_cycle r \<le> row + 1) \<circ> ?row) [Suc row..<nat (combos ?n)]) = []"
    by (auto simp: turn_record_def)
  have "filter (\<lambda>r. br_name r = pc_symbol (bools ! j)) (truth_script bools) = concat (map ?row [0..<nat (combos ?n)])"
    using row_records [OF assms(1,2)] by (simp add: truth_script_records [OF assms(1)] filter_concat comp_def)
  then have "filter (\<lambda>r. br_cycle r \<le> row + 1) (filter (\<lambda>r. br_name r = pc_symbol (bools ! j)) (truth_script bools))
      = concat (map (filter (\<lambda>r. br_cycle r \<le> row + 1) \<circ> ?row) [0..<nat (combos ?n)])"
    by (simp only: filter_concat map_map)
  then show ?thesis
    by (simp only: upt map_append concat_append early late append_Nil2 filter_filter)
qed

lemma input_symbols: "distinct (map pc_symbol (input_columns b))"
proof -
  obtain cols taken where "name_ports (sb_inputs b) [] = (cols, taken)"
    by (metis prod.exhaust)
  with name_ports_fresh [OF this] show ?thesis
    by (auto simp: input_columns_def port_map_def split: prod.split)
qed

text \<open>
  C15: in the run of the truth table the cycle \<open>row + 1\<close> drives every boolean input with the value that the row
  shows for it, for every row of the table. The script is as short as that allows: its records, in the order of
  the rows, are one for each boolean input in the first row, and in a later row one for each input whose bit has
  turned since the row before.
\<close>

theorem truth_script_replays:
  assumes "bools = boolInputs (input_columns b)" and "n = length bools" and "j < n" and "row < nat (combos n)"
  shows "held_value [] (truth_script bools) (row + 1) (pc_symbol (bools ! j)) = Some (truth_bit n row j)
    \<and> truth_script bools =
        concat (map (\<lambda>r. map (\<lambda>(j, p). \<lparr>br_cycle = r + 1, br_name = pc_symbol p, br_value = truth_bit n r j\<rparr>)
            (filter (\<lambda>(j, p). r = 0 \<or> truth_bit n r j \<noteq> truth_bit n (r - 1) j) (enumerate 0 bools)))
          [0..<nat (combos n)])"
proof
  have d: "distinct (map pc_symbol bools)"
    using filter_symbols [OF input_symbols] by (simp add: assms(1) boolInputs_def)
  show "held_value [] (truth_script bools) (row + 1) (pc_symbol (bools ! j)) = Some (truth_bit n row j)"
    using truth_held [OF d, of j row] rows_so_far [of "length bools" j "bools ! j" row] assms(2-4)
    by (simp add: held_value_def Let_def del: upt_Suc)
  have "turn_record n r = (\<lambda>(j, p). \<lparr>br_cycle = r + 1, br_name = pc_symbol p, br_value = truth_bit n r j\<rparr>)"
    and "turns n r (fst jp) = (case jp of (j, p) \<Rightarrow> r = 0 \<or> truth_bit n r j \<noteq> truth_bit n (r - 1) j)"
    for r and jp :: "nat \<times> port_column"
    by (auto simp: turn_record_def turns_def fun_eq_iff split: prod.split)
  then show "truth_script bools =
        concat (map (\<lambda>r. map (\<lambda>(j, p). \<lparr>br_cycle = r + 1, br_name = pc_symbol p, br_value = truth_bit n r j\<rparr>)
            (filter (\<lambda>(j, p). r = 0 \<or> truth_bit n r j \<noteq> truth_bit n (r - 1) j) (enumerate 0 bools)))
          [0..<nat (combos n)])"
    unfolding truth_script_records [OF d] assms(2) by (simp only:)
qed

definition two_inputs :: sim_block where
  "two_inputs = \<lparr>sb_id = ''AND2'', sb_kind = ''FB'', sb_inputs = map (\<lambda>n. \<lparr>bp_name = n, bp_direction = ''in'', bp_data_type = ''BOOL'',
     bp_description = [], bp_default = JNull\<rparr>) [''a'', ''b''], sb_outputs = []\<rparr>"

theorem truth_script_replays_witness:
  "held_value [] (truth_script (boolInputs (input_columns two_inputs))) 3 (pc_symbol (boolInputs (input_columns two_inputs) ! 0)) = Some ''TRUE''"
proof -
  have "length (boolInputs (input_columns two_inputs)) = 2" and "2 < nat (combos 2)" and "truth_bit 2 2 0 = ''TRUE''"
    by code_simp+
  then show ?thesis
    using truth_script_replays [OF refl refl, of 0 two_inputs 2, THEN conjunct1] by simp
qed

section \<open>The size of the script of a truth table\<close>

lemma combos_power: "n \<le> 30 \<Longrightarrow> combos n = 2 ^ n"
proof -
  assume n: "n \<le> 30"
  have "sint (push_bit n (1 :: 32 word)) = signed_take_bit 31 (2 ^ n)"
    by (subst signed_push_bit_eq) (simp add: push_bit_eq_mult)
  also have "\<dots> = (2 :: int) ^ n"
  proof (rule signed_take_bit_int_eq_self)
    show "- (2 ^ 31) \<le> (2 :: int) ^ n"
      by (rule order_trans [of _ 0]) simp_all
    show "(2 :: int) ^ n < 2 ^ 31"
      using n by (intro power_strict_increasing) simp_all
  qed
  finally show ?thesis
    using n by (simp add: combos_def)
qed

lemma bit_turns: "bit (Suc m) k \<noteq> bit m k \<longleftrightarrow> 2 ^ k dvd Suc m"
  by (auto simp: bit_iff_odd div_Suc dvd_eq_mod_eq_0 [of "2 ^ k"])

lemma turns_iff: "n \<le> 32 \<Longrightarrow> j < n \<Longrightarrow> turns n row j \<longleftrightarrow> 2 ^ (n - 1 - j) dvd row"
  using bit_turns [of "row - 1" "n - 1 - j"] by (cases row) (auto simp: turns_def truth_bit_def)

lemma count_multiples:
  fixes m d :: nat
  assumes "0 < d"
  shows "length (filter (\<lambda>r. d dvd r) [0..<d * m]) = m"
proof -
  have "{r. r < d * m \<and> d dvd r} = (*) d ` {..<m}"
    using assms by (auto simp: dvd_def)
  moreover have "inj_on ((*) d) {..<m}"
    using assms by (auto simp: inj_on_def)
  ultimately have "card {r. r < d * m \<and> d dvd r} = m"
    by (simp add: card_image)
  moreover have "length (filter (\<lambda>r. d dvd r) [0..<d * m]) = card {r. r < d * m \<and> d dvd r}"
    by (simp add: length_filter_conv_card cong: conj_cong)
  ultimately show ?thesis
    by simp
qed

lemma length_filter_ones: "length (filter P xs) = sum_list (map (\<lambda>x. if P x then 1 else 0) xs)"
  by (induction xs) simp_all

lemma swap_counts:
  "sum_list (map (\<lambda>x. length (filter (\<lambda>y. P x y) ys)) xs) = sum_list (map (\<lambda>y. length (filter (\<lambda>x. P x y) xs)) ys)"
  unfolding length_filter_ones by (induction ys) (simp_all add: sum_list_addf)

lemma counts_of_row: "length (filter (\<lambda>jp. P (fst jp)) (enumerate m xs)) = length (filter P [m..<m + length xs])"
  by (induction xs arbitrary: m) (simp_all add: upt_conv_Cons del: upt_Suc)

lemma sum_powers: "sum_list (map (\<lambda>j. 2 ^ Suc j) [0..<n]) = (2::nat) ^ (n + 1) - 2"
proof (induction n)
  case (Suc n)
  have "(2::nat) \<le> 2 ^ (n + 1)"
    by (induction n) simp_all
  then show ?case
    using Suc.IH by simp
qed simp

lemma length_truth_script:
  assumes "distinct (map pc_symbol bools)" and "length bools \<le> 30"
  shows "length (truth_script bools) = 2 ^ (length bools + 1) - 2"
proof -
  let ?n = "length bools"
  have c: "length (filter (\<lambda>row. turns ?n row j) [0..<2 ^ ?n]) = 2 ^ Suc j" if "j < ?n" for j
  proof -
    have k: "?n - 1 - j + Suc j = ?n"
      using that by simp
    have e: "(2::nat) ^ ?n = 2 ^ (?n - 1 - j) * 2 ^ Suc j"
      by (simp only: power_add [symmetric] k)
    have "filter (\<lambda>row. turns ?n row j) [0..<2 ^ ?n] = filter (\<lambda>row. 2 ^ (?n - 1 - j) dvd row) [0..<2 ^ ?n]"
      using that assms(2) by (intro filter_cong refl turns_iff) simp_all
    then have "length (filter (\<lambda>row. turns ?n row j) [0..<2 ^ ?n]) = length (filter (\<lambda>row. 2 ^ (?n - 1 - j) dvd row) [0..<2 ^ ?n])"
      by (simp only:)
    also have "\<dots> = 2 ^ Suc j"
      unfolding e by (rule count_multiples) simp
    finally show ?thesis .
  qed
  have "length (truth_script bools) =
      sum_list (map (\<lambda>row. length (filter (\<lambda>j. turns ?n row j) [0..<?n])) [0..<2 ^ ?n])"
    using assms by (simp add: truth_script_records length_concat comp_def combos_power nat_power_eq counts_of_row)
  also have "\<dots> = sum_list (map (\<lambda>j. 2 ^ Suc j) [0..<?n])"
    by (subst swap_counts) (intro arg_cong [where f = sum_list] map_cong refl c, simp)
  also have "\<dots> = 2 ^ (?n + 1) - 2"
    by (rule sum_powers)
  finally show ?thesis .
qed

text \<open>
  One record per turned bit makes \<open>2 ^ (n + 1) - 2\<close> records for \<open>n\<close> boolean inputs, so the script of the
  truth table fits the budget of the runner up to five inputs and exceeds it from the sixth; the request is made
  all the same.
\<close>

theorem truth_table_budget:
  assumes "distinct (map pc_symbol (boolInputs (input_columns b)))" and "length (boolInputs (input_columns b)) \<le> 30"
  shows "length (rq_script (snd (handleRunTruth b tab))) = 2 ^ (length (boolInputs (input_columns b)) + 1) - 2
    \<and> (length (rq_script (snd (handleRunTruth b tab))) \<le> SCRIPT_MAX \<longleftrightarrow> length (boolInputs (input_columns b)) \<le> 5)"
proof -
  have "(2::nat) ^ (n + 1) - 2 \<le> SCRIPT_MAX \<longleftrightarrow> n \<le> 5" for n
  proof (cases "n \<le> 5")
    case True
    then have "(2::nat) ^ (n + 1) \<le> 2 ^ 6"
      by (intro power_increasing) simp_all
    then show ?thesis
      using True by (simp add: SCRIPT_MAX_def)
  next
    case False
    then have "(2::nat) ^ 7 \<le> 2 ^ (n + 1)"
      by (intro power_increasing) simp_all
    then show ?thesis
      using False by (simp add: SCRIPT_MAX_def)
  qed
  then show ?thesis
    using length_truth_script [OF assms] by (simp add: handleRunTruth_def Let_def)
qed

definition six_bools :: sim_block where
  "six_bools =
     \<lparr>sb_id = ''votes'', sb_kind = ''FC'',
      sb_inputs = map (\<lambda>c. \<lparr>bp_name = [c], bp_direction = ''INPUT'', bp_data_type = ''BOOL'', bp_description = [], bp_default = JNull\<rparr>) ''abcdef'',
      sb_outputs = []\<rparr>"

lemma truth_table_budget_witness:
  "length (rq_script (snd (handleRunTruth six_bools (open_tab six_bools)))) = 126"
proof -
  have "distinct (map pc_symbol (boolInputs (input_columns six_bools)))" and "length (boolInputs (input_columns six_bools)) = 6"
    by code_simp+
  then show ?thesis
    using truth_table_budget [of six_bools "open_tab six_bools"] by simp
qed

section \<open>Late answers\<close>

text \<open>
  A cell of the grid that is edited while a run is on the way discards the results that are shown, but the
  answer of that run, computed from the grid as it was, brings them back and moves the step to its last cycle.
\<close>

theorem late_block_run:
  assumes "runCycles t b k tab = (tab1, Some rq)" and "bl_ok r"
  shows "let edited = setCell c port v tab1; shown = run_answered k (Inr r) edited in
    tb_run edited = None \<and> tb_step edited = Num 0
    \<and> tb_run shown = Some r \<and> tb_step shown = k \<and> tb_grid shown = set_cell c port v (tb_grid tab)
    \<and> rq_script rq = snd (buildStimulus (input_columns b) (tb_grid tab) (cycle_count k))"
  using assms by (auto simp: runCycles_def setCell_def run_answered_def Let_def split: if_splits prod.splits)

lemma late_block_run_witness:
  "tb_run (run_answered (Num 2) (Inr ((refused_run [] [])\<lparr>bl_ok := True\<rparr>))
      (setCell 2 ''a'' ''1'' ((open_tab six_bools)\<lparr>tb_running := True\<rparr>))) = Some ((refused_run [] [])\<lparr>bl_ok := True\<rparr>)"
proof -
  have c: "cycle_count (Num 2) = 2"
    by (simp add: cycle_count_def)
  have g: "tb_grid (open_tab six_bools) = buildGrid (sb_inputs six_bools) 4 []" "\<not> tb_running (open_tab six_bools)"
    "tb_cycles (open_tab six_bools) = Num 4"
    by (simp_all add: open_tab_def)
  have s: "length (snd (buildStimulus (input_columns six_bools) (buildGrid (sb_inputs six_bools) 4 []) 2)) = 0"
    by code_simp
  have "runCycles (\<lambda>k. k) six_bools (Num 2) (open_tab six_bools) =
      ((open_tab six_bools)\<lparr>tb_running := True\<rparr>,
       Some \<lparr>rq_block = sb_id six_bools, rq_cycles = Num 2,
         rq_forces = fst (buildStimulus (input_columns six_bools) (buildGrid (sb_inputs six_bools) 4 []) 2), rq_script = []\<rparr>)"
    using s by (simp add: runCycles_def c g split_beta)
  then show ?thesis
    using late_block_run [of "\<lambda>k. k" six_bools "Num 2" "open_tab six_bools" _ _ "(refused_run [] [])\<lparr>bl_ok := True\<rparr>" 2 "''a''" "''1''"]
    by (simp add: Let_def)
qed

end
