(* ===== verification/EventBus.thy ===== *)
theory EventBus
  imports Containers
begin

text \<open>
  The event bus between the pages (\<open>lib/eventBus.ts\<close>). Handlers are JavaScript functions, compared by
  identity: a type parameter with equality. What a handler does is the argument \<open>run\<close>; it may use the bus, so
  the sets of handlers are objects of a store and \<open>emit\<close> walks a live set.
\<close>

section \<open>Sets of handlers\<close>

text \<open>The entries of a \<open>Set\<close> with the stamps of their insertion.\<close>

record 'h handler_set =
  hs_entries :: "(nat \<times> 'h) list"
  hs_next :: nat

definition hs_add :: "'h \<Rightarrow> 'h handler_set \<Rightarrow> 'h handler_set" where
  "hs_add h s =
     (if h \<in> snd ` set (hs_entries s) then s
      else \<lparr>hs_entries = hs_entries s @ [(hs_next s, h)], hs_next = hs_next s + 1\<rparr>)"

definition hs_delete :: "'h \<Rightarrow> 'h handler_set \<Rightarrow> 'h handler_set" where
  "hs_delete h s = s\<lparr>hs_entries := filter (\<lambda>e. snd e \<noteq> h) (hs_entries s)\<rparr>"

definition hs_wf :: "'h handler_set \<Rightarrow> bool" where
  "hs_wf s \<longleftrightarrow> sorted_wrt (<) (map fst (hs_entries s)) \<and> (\<forall>e\<in>set (hs_entries s). fst e < hs_next s)
     \<and> distinct (map snd (hs_entries s))"

section \<open>The bus\<close>

record 'h bus =
  bu_table :: "(string, nat) obj"
  bu_sets :: "'h handler_set list"

definition new_bus :: "'h bus" where
  "new_bus = \<lparr>bu_table = [], bu_sets = []\<rparr>"

text \<open>\<open>on\<close> creates the set of an event with its first handler.\<close>

definition table_entry :: "string \<Rightarrow> 'h bus \<Rightarrow> 'h bus" where
  "table_entry event b =
     (case obj_get (bu_table b) event of
        Some i \<Rightarrow> b
      | None \<Rightarrow> b\<lparr>bu_table := obj_put event (length (bu_sets b)) (bu_table b),
            bu_sets := bu_sets b @ [\<lparr>hs_entries = [], hs_next = 0\<rparr>]\<rparr>)"

definition bus_on :: "string \<Rightarrow> 'h \<Rightarrow> 'h bus \<Rightarrow> 'h bus" where
  "bus_on event h b =
     (let b1 = table_entry event b in
      case obj_get (bu_table b1) event of
        None \<Rightarrow> b1
      | Some i \<Rightarrow> b1\<lparr>bu_sets := (bu_sets b1)[i := hs_add h (bu_sets b1 ! i)]\<rparr>)"

definition bus_off :: "string \<Rightarrow> 'h \<Rightarrow> 'h bus \<Rightarrow> 'h bus" where
  "bus_off event h b =
     (case obj_get (bu_table b) event of
        None \<Rightarrow> b
      | Some i \<Rightarrow> b\<lparr>bu_sets := (bu_sets b)[i := hs_delete h (bu_sets b ! i)]\<rparr>)"

definition bus_clear :: "'h bus \<Rightarrow> 'h bus" where
  "bus_clear b = b\<lparr>bu_table := []\<rparr>"

text \<open>The handlers an event has, in the order in which they were registered.\<close>

definition listeners :: "string \<Rightarrow> 'h bus \<Rightarrow> 'h list" where
  "listeners event b =
     (case obj_get (bu_table b) event of None \<Rightarrow> [] | Some i \<Rightarrow> map snd (hs_entries (bu_sets b ! i)))"

definition bus_wf :: "'h bus \<Rightarrow> bool" where
  "bus_wf b \<longleftrightarrow> obj_wf (bu_table b) \<and> (\<forall>s\<in>set (bu_sets b). hs_wf s)
     \<and> distinct (obj_values (bu_table b)) \<and> (\<forall>i\<in>set (obj_values (bu_table b)). i < length (bu_sets b))"

section \<open>Emitting\<close>

record ('h, 'w) bus_state =
  bs_bus :: "'h bus"
  bs_world :: 'w
  bs_console :: "(string \<times> string) list"

type_synonym ('h, 'd, 'w) handler_run = "'h \<Rightarrow> 'd \<Rightarrow> ('h, 'w) bus_state \<Rightarrow> string option \<times> ('h, 'w) bus_state"

text \<open>One call of a handler; an error it throws ends up in the console.\<close>

definition deliver :: "('h, 'd, 'w) handler_run \<Rightarrow> string \<Rightarrow> 'd \<Rightarrow> 'h \<Rightarrow> ('h, 'w) bus_state \<Rightarrow> ('h, 'w) bus_state" where
  "deliver run event d h s =
     (case run h d s of (None, s1) \<Rightarrow> s1 | (Some e, s1) \<Rightarrow> s1\<lparr>bs_console := bs_console s1 @ [(event, e)]\<rparr>)"

text \<open>
  \<open>Set.prototype.forEach\<close> visits what is in the set when its turn comes: an entry that was deleted is passed
  over, one that was added is visited as well. The walk need not end.
\<close>

partial_function (option) emit_walk ::
    "('h, 'd, 'w) handler_run \<Rightarrow> string \<Rightarrow> 'd \<Rightarrow> nat \<Rightarrow> nat \<Rightarrow> ('h, 'w) bus_state \<Rightarrow> ('h, 'w) bus_state option" where
  "emit_walk run event d i k s =
     (case List.find (\<lambda>e. k \<le> fst e) (hs_entries (bu_sets (bs_bus s) ! i)) of
        None \<Rightarrow> Some s
      | Some e \<Rightarrow> emit_walk run event d i (fst e + 1) (deliver run event d (snd e) s))"

definition emit_event ::
    "('h, 'd, 'w) handler_run \<Rightarrow> string \<Rightarrow> 'd \<Rightarrow> ('h, 'w) bus_state \<Rightarrow> ('h, 'w) bus_state option" where
  "emit_event run event d s =
     (case obj_get (bu_table (bs_bus s)) event of None \<Rightarrow> Some s | Some i \<Rightarrow> emit_walk run event d i 0 s)"

section \<open>The bus stays well-formed\<close>

lemma hs_wf_add: "hs_wf s \<Longrightarrow> hs_wf (hs_add h s)"
  by (fastforce simp: hs_wf_def hs_add_def sorted_wrt_append)

lemma hs_wf_delete: "hs_wf s \<Longrightarrow> hs_wf (hs_delete h s)"
proof -
  assume w: "hs_wf s"
  have "sorted_wrt (<) (map fst (filter P (hs_entries s)))" for P
    using w by (simp add: hs_wf_def sorted_wrt_map sorted_wrt_filter)
  then show ?thesis
    using w by (auto simp: hs_wf_def hs_delete_def distinct_map_filter)
qed

lemma bus_wf_new [inv_intros]: "bus_wf new_bus"
  by (simp add: bus_wf_def new_bus_def obj_wf_def obj_values_def)

lemma set_at: "bus_wf b \<Longrightarrow> obj_get (bu_table b) event = Some i \<Longrightarrow> i < length (bu_sets b) \<and> hs_wf (bu_sets b ! i)"
  by (force simp: bus_wf_def obj_get_def obj_values_def dest: map_of_SomeD)

lemma bus_wf_update: "bus_wf b \<Longrightarrow> hs_wf s \<Longrightarrow> bus_wf (b\<lparr>bu_sets := (bu_sets b)[i := s]\<rparr>)"
  by (auto simp: bus_wf_def dest!: set_update_subset_insert [THEN subsetD])

lemma values_put_new: "obj_get o1 k = None \<Longrightarrow> obj_values (obj_put k v o1) = obj_values o1 @ [v]"
  by (induction k v o1 rule: obj_put.induct) (auto simp: obj_get_def obj_values_def split: if_splits)

lemma table_entry_wf: "bus_wf b \<Longrightarrow> bus_wf (table_entry event b)"
  by (auto simp: table_entry_def bus_wf_def values_put_new obj_wf_def keys_obj_put hs_wf_def less_Suc_eq
      split: option.splits simp flip: obj_get_def)

lemma table_entry_get: "\<exists>i. obj_get (bu_table (table_entry event b)) event = Some i"
  by (auto simp: table_entry_def obj_get_def map_of_obj_put split: option.splits)

lemma table_entry_listeners: "bus_wf b \<Longrightarrow> listeners e (table_entry event b) = listeners e b"
  using set_at [of b e] by (auto simp: table_entry_def listeners_def obj_get_def map_of_obj_put nth_append split: option.splits)

lemma other_set:
  assumes "bus_wf b" and "obj_get (bu_table b) e1 = Some i" and "obj_get (bu_table b) e2 = Some j" and "e1 \<noteq> e2"
  shows "i \<noteq> j"
proof
  assume "i = j"
  have "inj_on snd (set (bu_table b))"
    using assms(1) by (simp add: bus_wf_def obj_values_def distinct_map)
  moreover have "(e1, i) \<in> set (bu_table b)" and "(e2, j) \<in> set (bu_table b)"
    using assms(2,3) by (simp_all add: obj_get_def map_of_SomeD)
  ultimately have "(e1, i) = (e2, j)"
    using \<open>i = j\<close> inj_onD [of snd "set (bu_table b)" "(e1, i)" "(e2, j)"] by simp
  then show False
    using assms(4) by simp
qed

lemma bus_on_wf: "bus_wf b \<Longrightarrow> bus_wf (bus_on event h b)"
  using table_entry_get [of event b] table_entry_wf [of b event] set_at [of "table_entry event b" event]
  by (auto simp: bus_on_def Let_def hs_wf_add bus_wf_update)

lemma bus_off_wf: "bus_wf b \<Longrightarrow> bus_wf (bus_off event h b)"
  using set_at [of b event] by (auto simp: bus_off_def hs_wf_delete bus_wf_update split: option.splits)

lemma bus_clear_wf: "bus_wf b \<Longrightarrow> bus_wf (bus_clear b)"
  by (simp add: bus_wf_def bus_clear_def obj_wf_def obj_values_def)

lemma hs_add_handlers: "map snd (hs_entries (hs_add h s)) =
    (if h \<in> set (map snd (hs_entries s)) then map snd (hs_entries s) else map snd (hs_entries s) @ [h])"
  by (simp add: hs_add_def)

lemma hs_delete_handlers: "map snd (hs_entries (hs_delete h s)) = filter (\<lambda>x. x \<noteq> h) (map snd (hs_entries s))"
  by (simp add: hs_delete_def filter_map comp_def)

lemma listeners_update:
  assumes "bus_wf b" and "obj_get (bu_table b) event = Some i"
  shows "listeners e (b\<lparr>bu_sets := (bu_sets b)[i := s]\<rparr>) = (if e = event then map snd (hs_entries s) else listeners e b)"
  using assms set_at [OF assms] other_set [OF assms(1)]
  by (auto simp: listeners_def nth_list_update split: option.splits)

lemma listeners_on:
  "bus_wf b \<Longrightarrow> listeners e (bus_on event h b) =
     (if e = event \<and> h \<notin> set (listeners e b) then listeners e b @ [h] else listeners e b)"
proof -
  assume w: "bus_wf b"
  obtain i where i: "obj_get (bu_table (table_entry event b)) event = Some i"
    using table_entry_get by blast
  have "map snd (hs_entries (bu_sets (table_entry event b) ! i)) = listeners event b"
    using table_entry_listeners [OF w, of event event] by (simp add: listeners_def i)
  then show ?thesis
    using listeners_update [OF table_entry_wf [OF w] i] table_entry_listeners [OF w]
    by (simp add: bus_on_def Let_def i hs_add_handlers)
qed

lemma listeners_off:
  assumes "bus_wf b"
  shows "listeners e (bus_off event h b) =
     (if e = event then filter (\<lambda>x. x \<noteq> h) (listeners e b) else listeners e b)"
proof (cases "obj_get (bu_table b) event")
  case None
  then show ?thesis
    by (simp add: bus_off_def listeners_def)
next
  case (Some i)
  then have "map snd (hs_entries (bu_sets b ! i)) = listeners event b"
    by (simp add: listeners_def)
  then show ?thesis
    by (simp add: bus_off_def Some listeners_update [OF assms Some] hs_delete_handlers)
qed

lemma listeners_distinct: "bus_wf b \<Longrightarrow> distinct (listeners e b)"
  using set_at [of b e] by (auto simp: listeners_def hs_wf_def split: option.splits)

section \<open>The contract of a bus\<close>

text \<open>What the pages rely on: the handlers of an event form a set that keeps the order of registration.\<close>

locale publish_subscribe =
  fixes empty :: 'b and sub :: "'e \<Rightarrow> 'h \<Rightarrow> 'b \<Rightarrow> 'b" and unsub :: "'e \<Rightarrow> 'h \<Rightarrow> 'b \<Rightarrow> 'b"
    and heard :: "'e \<Rightarrow> 'b \<Rightarrow> 'h list" and wf :: "'b \<Rightarrow> bool"
  assumes wf_empty: "wf empty"
    and wf_sub: "wf b \<Longrightarrow> wf (sub e h b)"
    and wf_unsub: "wf b \<Longrightarrow> wf (unsub e h b)"
    and heard_empty: "heard e empty = []"
    and heard_sub: "wf b \<Longrightarrow> heard e (sub f h b) = (if e = f \<and> h \<notin> set (heard e b) then heard e b @ [h] else heard e b)"
    and heard_unsub: "wf b \<Longrightarrow> heard e (unsub f h b) = (if e = f then filter (\<lambda>x. x \<noteq> h) (heard e b) else heard e b)"
begin

lemma mount_unmount: "wf b \<Longrightarrow> h \<notin> set (heard f b) \<Longrightarrow> heard e (unsub f h (sub f h b)) = heard e b"
  by (auto simp: heard_sub heard_unsub wf_sub filter_id_conv)

lemma shared_handler: "wf b \<Longrightarrow> h \<notin> set (heard f (unsub f h (sub f h (sub f h b))))"
  by (simp add: heard_unsub wf_sub)

lemma sub_twice: "wf b \<Longrightarrow> heard e (sub f h (sub f h b)) = heard e (sub f h b)"
  by (auto simp: heard_sub wf_sub)

end

interpretation bus: publish_subscribe new_bus bus_on bus_off listeners bus_wf
  by unfold_locales
    (simp_all add: bus_wf_new bus_on_wf bus_off_wf listeners_on listeners_off, simp add: listeners_def new_bus_def obj_get_def)

section \<open>What emitting does\<close>

text \<open>What a handler may do to the bus.\<close>

datatype 'h bus_op = On string 'h | Off string 'h

fun bus_do :: "'h bus_op \<Rightarrow> 'h bus \<Rightarrow> 'h bus" where
  "bus_do (On event h) b = bus_on event h b"
| "bus_do (Off event h) b = bus_off event h b"

fun adds_to :: "string \<Rightarrow> 'h bus_op \<Rightarrow> bool" where
  "adds_to event (On e h) \<longleftrightarrow> e = event"
| "adds_to event (Off e h) \<longleftrightarrow> False"

text \<open>The set of an event loses entries at most, and stays the same object, when nothing is added to it.\<close>

definition shrinks :: "string \<Rightarrow> nat \<Rightarrow> 'h bus \<Rightarrow> 'h bus \<Rightarrow> bool" where
  "shrinks event i b c \<longleftrightarrow> bus_wf c \<and> obj_get (bu_table c) event = Some i
     \<and> (\<exists>P. hs_entries (bu_sets c ! i) = filter P (hs_entries (bu_sets b ! i)))"

lemma shrinks_trans: "shrinks event i b c \<Longrightarrow> shrinks event i c d \<Longrightarrow> shrinks event i b d"
  by (auto simp: shrinks_def)

lemma entry_kept:
  assumes "bus_wf b" and "obj_get (bu_table b) event = Some i"
  shows "obj_get (bu_table (table_entry e b)) event = Some i \<and> bu_sets (table_entry e b) ! i = bu_sets b ! i"
  using assms set_at [OF assms] by (auto simp: table_entry_def obj_get_def map_of_obj_put nth_append split: option.splits)

lemma same_entries: "hs_entries s = hs_entries u \<Longrightarrow> \<exists>P. hs_entries s = filter P (hs_entries u)"
  by (intro exI [of _ "\<lambda>e. True"]) simp

lemma op_shrinks:
  assumes "bus_wf b" and "obj_get (bu_table b) event = Some i" and "\<not> adds_to event x"
  shows "shrinks event i b (bus_do x b)"
proof (cases x)
  case (On e h)
  let ?b = "table_entry e b"
  note wf = table_entry_wf [OF assms(1), of e] and kept = entry_kept [OF assms(1,2), of e]
  obtain j where j: "obj_get (bu_table ?b) e = Some j"
    using table_entry_get by blast
  then have "j \<noteq> i"
    using other_set [OF wf j] kept assms(3) by (auto simp: On)
  then have "bu_sets (bus_on e h b) ! i = bu_sets b ! i" and "obj_get (bu_table (bus_on e h b)) event = Some i"
    using kept by (simp_all add: bus_on_def Let_def j)
  then show ?thesis
    using bus_on_wf [OF assms(1), of e h] by (simp add: shrinks_def On same_entries)
next
  case (Off e h)
  have table: "bu_table (bus_off e h b) = bu_table b"
    by (simp add: bus_off_def split: option.split)
  have "\<exists>P. hs_entries (bu_sets (bus_off e h b) ! i) = filter P (hs_entries (bu_sets b ! i))"
  proof (cases "obj_get (bu_table b) e")
    case None
    then show ?thesis
      by (simp add: bus_off_def same_entries)
  next
    case (Some j)
    then show ?thesis
      using set_at [OF assms(1) Some] by (cases "j = i") (auto simp: bus_off_def hs_delete_def intro: same_entries)
  qed
  then show ?thesis
    using bus_off_wf [OF assms(1), of e h] by (simp add: shrinks_def Off table assms(2))
qed

lemma ops_shrink:
  "bus_wf b \<Longrightarrow> obj_get (bu_table b) event = Some i \<Longrightarrow> list_all (\<lambda>x. \<not> adds_to event x) xs
     \<Longrightarrow> shrinks event i b (fold bus_do xs b)"
proof (induction xs arbitrary: b)
  case (Cons x xs)
  have step: "shrinks event i b (bus_do x b)"
    using Cons.prems by (intro op_shrinks) simp_all
  then have "shrinks event i (bus_do x b) (fold bus_do xs (bus_do x b))"
    using Cons by (intro Cons.IH) (simp_all add: shrinks_def)
  then show ?case
    using shrinks_trans [OF step] by simp
qed (simp add: shrinks_def same_entries)

text \<open>What a call should do: the handler runs, and what it throws is written to the console with the event.\<close>

definition call_one ::
    "('h, 'd, 'w) handler_run \<Rightarrow> string \<Rightarrow> 'd \<Rightarrow> 'h \<Rightarrow> ('h, 'w) bus_state \<Rightarrow> ('h, 'w) bus_state" where
  "call_one run event d h s =
     (let (thrown, s1) = run h d s in
      s1\<lparr>bs_console := bs_console s1 @ (case thrown of None \<Rightarrow> [] | Some e \<Rightarrow> [(event, e)])\<rparr>)"

text \<open>A handler is called when it is still registered at its turn.\<close>

definition call_registered ::
    "('h, 'd, 'w) handler_run \<Rightarrow> string \<Rightarrow> 'd \<Rightarrow> 'h \<Rightarrow> ('h, 'w) bus_state \<Rightarrow> ('h, 'w) bus_state" where
  "call_registered run event d h s = (if h \<in> set (listeners event (bs_bus s)) then call_one run event d h s else s)"

lemma deliver_call_one: "deliver run event d h s = call_one run event d h s"
  by (simp add: deliver_def call_one_def split: prod.split option.split)

lemma find_filter: "List.find P xs = (case filter P xs of [] \<Rightarrow> None | x # ys \<Rightarrow> Some x)"
  by (induction xs) auto

lemma filter_swap: "filter P (filter Q xs) = filter Q (filter P xs)"
  by (induction xs) auto

lemma walk_calls:
  assumes only: "\<And>h d s. \<exists>xs. bs_bus (snd (run h d s)) = fold bus_do xs (bs_bus s) \<and> list_all (\<lambda>x. \<not> adds_to event x) xs"
    and start: "distinct (map snd start)"
    and "bus_wf (bs_bus s)" and "obj_get (bu_table (bs_bus s)) event = Some i"
    and "set (hs_entries (bu_sets (bs_bus s) ! i)) \<subseteq> set start" and "set rest \<subseteq> set start"
    and "\<forall>e\<in>set rest. k \<le> fst e" and "sorted_wrt (<) (map fst rest)"
    and "filter (\<lambda>e. k \<le> fst e) (hs_entries (bu_sets (bs_bus s) ! i))
      = filter (\<lambda>e. e \<in> set (hs_entries (bu_sets (bs_bus s) ! i))) rest"
  shows "emit_walk run event d i k s = Some (fold (call_registered run event d) (map snd rest) s)"
  using assms(3-)
proof (induction rest arbitrary: k s)
  case Nil
  then show ?case
    by (simp add: find_filter emit_walk.simps [of run event d i k])
next
  case (Cons e rest)
  let ?es = "hs_entries (bu_sets (bs_bus s) ! i)"
  have registered: "snd e \<in> set (listeners event (bs_bus s)) \<longleftrightarrow> e \<in> set ?es"
  proof
    assume "snd e \<in> set (listeners event (bs_bus s))"
    then obtain f where f: "f \<in> set ?es" "snd f = snd e"
      by (auto simp: listeners_def Cons.prems(2))
    then have "f = e"
      using start Cons.prems(3,4) by (intro inj_onD [of snd "set start"]) (auto simp: distinct_map)
    then show "e \<in> set ?es"
      using f(1) by simp
  qed (simp add: listeners_def Cons.prems(2))
  show ?case
  proof (cases "e \<in> set ?es")
    case False
    then have "emit_walk run event d i k s = Some (fold (call_registered run event d) (map snd rest) s)"
      using Cons.prems by (intro Cons.IH) simp_all
    then show ?thesis
      using False by (simp add: call_registered_def [of run event d "snd e" s] registered)
  next
    case True
    let ?s = "deliver run event d (snd e) s" and ?k = "fst e + 1"
    let ?fs = "hs_entries (bu_sets (bs_bus ?s) ! i)"
    have found: "List.find (\<lambda>e. k \<le> fst e) ?es = Some e"
      unfolding find_filter Cons.prems(7) using True by simp
    have later: "\<forall>f\<in>set rest. ?k \<le> fst f"
      using Cons.prems(6) by (auto simp: Suc_le_eq)
    have "bs_bus ?s = bs_bus (snd (run (snd e) d s))"
      by (simp add: deliver_def split: prod.splits option.splits)
    then obtain xs where "bs_bus ?s = fold bus_do xs (bs_bus s)" "list_all (\<lambda>x. \<not> adds_to event x) xs"
      using only by metis
    then have sh: "shrinks event i (bs_bus s) (bs_bus ?s)"
      using ops_shrink [OF Cons.prems(1,2)] by simp
    then obtain P where P: "?fs = filter P ?es"
      by (auto simp: shrinks_def)
    have "filter (\<lambda>f. ?k \<le> fst f) ?es = filter (\<lambda>f. ?k \<le> fst f) (filter (\<lambda>f. k \<le> fst f) ?es)"
      using Cons.prems(5) by (auto simp: filter_filter intro!: filter_cong)
    also have "\<dots> = filter (\<lambda>f. f \<in> set ?es) rest"
      unfolding Cons.prems(7) using True later by (auto simp: filter_filter intro!: filter_cong)
    finally have "filter P (filter (\<lambda>f. ?k \<le> fst f) ?es) = filter P (filter (\<lambda>f. f \<in> set ?es) rest)"
      by (simp only:)
    then have "filter (\<lambda>f. ?k \<le> fst f) ?fs = filter P (filter (\<lambda>f. f \<in> set ?es) rest)"
      unfolding P by (subst filter_swap)
    also have "\<dots> = filter (\<lambda>f. f \<in> set ?fs) rest"
      by (auto simp: P filter_filter intro!: filter_cong)
    finally have rest: "filter (\<lambda>f. ?k \<le> fst f) ?fs = filter (\<lambda>f. f \<in> set ?fs) rest" .
    have "emit_walk run event d i ?k ?s = Some (fold (call_registered run event d) (map snd rest) ?s)"
      using Cons.prems(3-6) later sh P by (intro Cons.IH rest) (auto simp: shrinks_def)
    then show ?thesis
      using True by (simp add: emit_walk.simps [of run event d i k] found call_registered_def [of run event d "snd e" s] registered deliver_call_one [symmetric])
  qed
qed

lemma fold_registered:
  assumes "\<And>h d s. bs_bus (snd (run h d s)) = bs_bus s" and "set hs \<subseteq> set (listeners event (bs_bus s))"
  shows "fold (call_registered run event d) hs s = fold (call_one run event d) hs s"
  using assms(2)
proof (induction hs arbitrary: s)
  case (Cons h hs)
  have "bs_bus (call_one run event d h s) = bs_bus s"
    using assms(1) [of h d s] by (auto simp: call_one_def split: prod.splits)
  then show ?case
    using Cons.prems by (simp add: call_registered_def [of run event d h s] Cons.IH)
qed simp

text \<open>
  C30: emitting an event ends, and calls every handler that is registered for it once, in the order of
  registration, unless an earlier one of them has removed it by the time of its turn; a handler that throws is
  reported and does not keep the others from being called. This holds as long as no handler registers a handler
  for the same event while it runs (it may do so for other events, and remove what it likes); without that
  condition emitting need not end: a handler that removes and registers itself is called for ever.
\<close>

theorem emit_calls_all:
  assumes "bus_wf (bs_bus s)"
    and "\<And>h d s. \<exists>xs. bs_bus (snd (run h d s)) = fold bus_do xs (bs_bus s) \<and> list_all (\<lambda>x. \<not> adds_to event x) xs"
  shows "emit_event run event d s = Some (fold (call_registered run event d) (listeners event (bs_bus s)) s)
    \<and> distinct (listeners event (bs_bus s))
    \<and> ((\<forall>h d s. bs_bus (snd (run h d s)) = bs_bus s) \<longrightarrow>
        emit_event run event d s = Some (fold (call_one run event d) (listeners event (bs_bus s)) s))"
proof -
  have "emit_event run event d s = Some (fold (call_registered run event d) (listeners event (bs_bus s)) s)"
  proof (cases "obj_get (bu_table (bs_bus s)) event")
    case (Some i)
    then have wf: "hs_wf (bu_sets (bs_bus s) ! i)"
      using set_at [OF assms(1)] by blast
    have "emit_walk run event d i 0 s
        = Some (fold (call_registered run event d) (map snd (hs_entries (bu_sets (bs_bus s) ! i))) s)"
      using wf by (intro walk_calls [OF assms(2) _ assms(1) Some, where start = "hs_entries (bu_sets (bs_bus s) ! i)"])
        (simp_all add: hs_wf_def)
    then show ?thesis
      by (simp add: emit_event_def listeners_def Some)
  qed (simp add: emit_event_def listeners_def)
  then show ?thesis
    using listeners_distinct [OF assms(1)] fold_registered [where run = run and s = s] by auto
qed

text \<open>Three handlers, one of which removes the last one and throws.\<close>

definition sample_handlers :: "(nat, unit, nat list) handler_run" where
  "sample_handlers h d s =
     (if h = 7 then (Some ''boom'', s\<lparr>bs_bus := bus_off ''page:saved'' 8 (bs_bus s)\<rparr>)
      else (None, s\<lparr>bs_world := bs_world s @ [h]\<rparr>))"

definition sample_bus :: "nat bus" where
  "sample_bus = bus_on ''page:saved'' 8 (bus_on ''page:saved'' 7 (bus_on ''page:saved'' 6 new_bus))"

theorem emit_calls_all_witness:
  "emit_event sample_handlers ''page:saved'' () \<lparr>bs_bus = sample_bus, bs_world = [], bs_console = []\<rparr>
    = Some \<lparr>bs_bus = bus_off ''page:saved'' 8 sample_bus, bs_world = [6], bs_console = [(''page:saved'', ''boom'')]\<rparr>"
proof -
  have wf: "bus_wf sample_bus"
    unfolding sample_bus_def by (intro bus_on_wf bus_wf_new)
  have l: "listeners ''page:saved'' sample_bus = [6, 7, 8]"
    by (simp add: sample_bus_def listeners_on bus_on_wf bus_wf_new) (simp add: listeners_def new_bus_def obj_get_def)
  have gone: "listeners ''page:saved'' (bus_off ''page:saved'' 8 sample_bus) = [6, 7]"
    by (simp add: listeners_off [OF wf] l)
  have "\<exists>xs. bs_bus (snd (sample_handlers h d s)) = fold bus_do xs (bs_bus s) \<and> list_all (\<lambda>x. \<not> adds_to ''page:saved'' x) xs" for h d s
    by (intro exI [of _ "if h = 7 then [Off ''page:saved'' 8] else []"]) (simp add: sample_handlers_def)
  from emit_calls_all [where run = sample_handlers and event = "''page:saved''" and d = "()"
      and s = "\<lparr>bs_bus = sample_bus, bs_world = [], bs_console = []\<rparr>", OF _ this]
  show ?thesis
    by (simp add: wf l gone call_one_def call_registered_def sample_handlers_def)
qed

text \<open>
  A handler that registers itself again whenever it is called is called for ever: the walk never runs out of
  entries.
\<close>

definition one_entry :: "string \<Rightarrow> nat \<Rightarrow> nat \<Rightarrow> 'h \<Rightarrow> ('h, 'w) bus_state \<Rightarrow> bool" where
  "one_entry event i k h s \<longleftrightarrow>
     obj_get (bu_table (bs_bus s)) event = Some i \<and> i < length (bu_sets (bs_bus s))
     \<and> (\<exists>n. k \<le> n \<and> n < hs_next (bu_sets (bs_bus s) ! i) \<and> hs_entries (bu_sets (bs_bus s) ! i) = [(n, h)])"

lemma one_entry_again:
  assumes "one_entry event i k h s"
  shows "\<exists>n. List.find (\<lambda>e. k \<le> fst e) (hs_entries (bu_sets (bs_bus s) ! i)) = Some (n, h)
    \<and> one_entry event i (n + 1) h (s\<lparr>bs_bus := bus_on event h (bus_off event h (bs_bus s))\<rparr>)"
proof -
  obtain n where n: "obj_get (bu_table (bs_bus s)) event = Some i" "i < length (bu_sets (bs_bus s))"
    "k \<le> n" "n < hs_next (bu_sets (bs_bus s) ! i)" "hs_entries (bu_sets (bs_bus s) ! i) = [(n, h)]"
    using assms by (auto simp: one_entry_def)
  then show ?thesis
    by (intro exI [of _ n]) (auto simp: one_entry_def bus_on_def bus_off_def table_entry_def hs_delete_def hs_add_def Let_def)
qed

definition registers_again :: "('h, 'd, 'w) handler_run \<Rightarrow> string \<Rightarrow> 'h \<Rightarrow> bool" where
  "registers_again run event h \<longleftrightarrow>
     (\<forall>d s. run h d s = (None, s\<lparr>bs_bus := bus_on event h (bus_off event h (bs_bus s))\<rparr>))"

lemma walk_never_ends:
  fixes run :: "('h, 'd, 'w) handler_run"
  assumes "emit_walk run event d i k s = Some r" and "registers_again run event h" and "one_entry event i k h s"
  shows False
proof -
  have "registers_again run event h \<longrightarrow> \<not> one_entry event i k h s"
  proof (rule emit_walk.raw_induct
      [where P = "\<lambda>run event d i k s r. registers_again run event h \<longrightarrow> \<not> one_entry event i k h s", OF _ assms(1)])
    fix walk and run' :: "('h, 'd, 'w) handler_run" and event i k s r and d :: 'd
    assume ih: "\<And>run' event d i k s r. walk run' event d i k s = Some r
        \<Longrightarrow> registers_again run' event h \<longrightarrow> \<not> one_entry event i k h s"
      and body: "(case List.find (\<lambda>e. k \<le> fst e) (hs_entries (bu_sets (bs_bus s) ! i)) of
          None \<Rightarrow> Some s | Some e \<Rightarrow> walk run' event d i (fst e + 1) (deliver run' event d (snd e) s)) = Some r"
    show "registers_again run' event h \<longrightarrow> \<not> one_entry event i k h s"
    proof (intro impI notI)
      assume again: "registers_again run' event h" and "one_entry event i k h s"
      then obtain n where f: "List.find (\<lambda>e. k \<le> fst e) (hs_entries (bu_sets (bs_bus s) ! i)) = Some (n, h)"
        and one: "one_entry event i (n + 1) h (s\<lparr>bs_bus := bus_on event h (bus_off event h (bs_bus s))\<rparr>)"
        using one_entry_again [of event i k h s] by auto
      have step: "deliver run' event d h s = s\<lparr>bs_bus := bus_on event h (bus_off event h (bs_bus s))\<rparr>"
        using again by (simp add: deliver_def registers_again_def)
      have "walk run' event d i (n + 1) (s\<lparr>bs_bus := bus_on event h (bus_off event h (bs_bus s))\<rparr>) = Some r"
        using body by (simp only: f step option.case fst_conv snd_conv)
      from ih [OF this] show False
        using again one by simp
    qed
  qed
  then show ?thesis
    using assms(2,3) by blast
qed

text \<open>
  A handler that registers itself again while it is called keeps \<open>emit\<close> from returning.
\<close>

lemma emit_never_returns:
  assumes "registers_again run event h"
  shows "emit_event run event d \<lparr>bs_bus = bus_on event h new_bus, bs_world = w, bs_console = c\<rparr> = None"
proof -
  let ?s = "\<lparr>bs_bus = bus_on event h new_bus, bs_world = w, bs_console = c\<rparr>"
  have "one_entry event 0 0 h ?s" and "obj_get (bu_table (bs_bus ?s)) event = Some 0"
    by (simp_all add: one_entry_def bus_on_def table_entry_def new_bus_def hs_add_def obj_get_def Let_def)
  then show ?thesis
    using walk_never_ends [OF _ assms] by (cases "emit_walk run event d 0 0 ?s") (auto simp: emit_event_def)
qed

end
