(* ===== verification/Toasts.thy ===== *)
theory Toasts
  imports Containers
begin

text \<open>
  The toasts (\<open>components/ui/Toast.tsx\<close>): the list of messages on screen, each with the timer that takes it away,
  as a step relation over the calls, the renders and the passing of time.
\<close>

section \<open>Messages\<close>

datatype toast_type = ToastOk | ToastErr | ToastWarn | ToastNote

record toast =
  to_id :: string
  to_type :: toast_type
  to_title :: string
  to_message :: "string option"
  to_duration :: "nat option"

text \<open>The durations that \<open>toast.success\<close>, \<open>toast.error\<close>, \<open>toast.warning\<close> and \<open>toast.info\<close> give without a third argument.\<close>

fun default_duration :: "toast_type \<Rightarrow> nat" where
  "default_duration ToastOk = 3000"
| "default_duration ToastErr = 5000"
| "default_duration ToastWarn = 4000"
| "default_duration ToastNote = 3000"

definition make_toast :: "string \<Rightarrow> toast_type \<Rightarrow> string \<Rightarrow> string option \<Rightarrow> nat option \<Rightarrow> toast" where
  "make_toast i ty title message duration =
     \<lparr>to_id = i, to_type = ty, to_title = title, to_message = message,
      to_duration = Some (case duration of None \<Rightarrow> default_duration ty | Some d \<Rightarrow> d)\<rparr>"

text \<open>\<open>toast.duration ?? 3000\<close>\<close>

definition timer_length :: "toast \<Rightarrow> nat" where
  "timer_length x = (case to_duration x of None \<Rightarrow> 3000 | Some d \<Rightarrow> d)"

section \<open>The container\<close>

text \<open>
  \<open>tr_toasts\<close> is the state of the provider, \<open>tr_items\<close> what is rendered: a message with the time its timer has
  left, \<open>None\<close> once it has fired. \<open>tr_pending\<close> says that the state was set since the last render.
\<close>

record toaster =
  tr_mounted :: bool
  tr_toasts :: "toast list"
  tr_items :: "(toast \<times> nat option) list"
  tr_pending :: bool
  tr_clock :: nat

definition new_toaster :: toaster where
  "new_toaster = \<lparr>tr_mounted = True, tr_toasts = [], tr_items = [], tr_pending = False, tr_clock = 0\<rparr>"

definition add_toast :: "toast \<Rightarrow> toaster \<Rightarrow> toaster" where
  "add_toast x s = (if tr_mounted s then s\<lparr>tr_toasts := tr_toasts s @ [x], tr_pending := True\<rparr> else s)"

definition removeToast :: "string \<Rightarrow> toaster \<Rightarrow> toaster" where
  "removeToast i s = s\<lparr>tr_toasts := filter (\<lambda>x. to_id x \<noteq> i) (tr_toasts s), tr_pending := True\<rparr>"

text \<open>
  \<open>removeToast\<close> is another function after each render of the provider, so the effect of every item runs again:
  it clears the timer of the item and starts a new one.
\<close>

definition render_toasts :: "toaster \<Rightarrow> toaster" where
  "render_toasts s = s\<lparr>tr_items := map (\<lambda>x. (x, Some (timer_length x))) (tr_toasts s), tr_pending := False\<rparr>"

definition pass_time :: "nat \<Rightarrow> toaster \<Rightarrow> toaster" where
  "pass_time d s = s\<lparr>tr_items := map (\<lambda>(x, r). (x, map_option (\<lambda>n. n - d) r)) (tr_items s), tr_clock := tr_clock s + d\<rparr>"

definition timer_done :: "string \<Rightarrow> toaster \<Rightarrow> toaster" where
  "timer_done i s =
     removeToast i (s\<lparr>tr_items := map (\<lambda>(x, r). (x, if to_id x = i then None else r)) (tr_items s)\<rparr>)"

datatype toaster_event = ShowToast toast | CloseToast string | RenderToasts | Elapse nat | TimerFires string

inductive toaster_step :: "toaster \<Rightarrow> toaster_event \<Rightarrow> toaster \<Rightarrow> bool" where
  shown: "toaster_step s (ShowToast x) (add_toast x s)"
| closing: "i \<in> to_id ` fst ` set (tr_items s) \<Longrightarrow> toaster_step s (CloseToast i) (removeToast i s)"
| rendered: "tr_pending s \<Longrightarrow> toaster_step s RenderToasts (render_toasts s)"
| elapsing: "\<not> tr_pending s \<Longrightarrow> \<forall>(x, r)\<in>set (tr_items s). case r of None \<Rightarrow> True | Some n \<Rightarrow> d \<le> n \<Longrightarrow>
    toaster_step s (Elapse d) (pass_time d s)"
| firing: "(x, Some 0) \<in> set (tr_items s) \<Longrightarrow> toaster_step s (TimerFires (to_id x)) (timer_done (to_id x) s)"

inductive_cases toaster_stepE: "toaster_step s e s'"

inductive toaster_run :: "toaster \<Rightarrow> toaster_event list \<Rightarrow> toaster \<Rightarrow> bool" where
  run_nil: "toaster_run s [] s"
| run_step: "toaster_step s e s1 \<Longrightarrow> toaster_run s1 es s2 \<Longrightarrow> toaster_run s (e # es) s2"

inductive_simps toaster_run_simps: "toaster_run s [] s'" "toaster_run s (e # es) s'"

lemma toaster_run_append: "toaster_run s es s1 \<Longrightarrow> toaster_run s1 fs s2 \<Longrightarrow> toaster_run s (es @ fs) s2"
  by (induction rule: toaster_run.induct) (auto intro: run_step)

section \<open>Laws\<close>

text \<open>What is rendered is the state of the last render; a timer never runs longer than its message asks.\<close>

definition timer_ok :: "toast \<times> nat option \<Rightarrow> bool" where
  "timer_ok p \<longleftrightarrow> (case snd p of None \<Rightarrow> True | Some n \<Rightarrow> n \<le> timer_length (fst p))"

definition toaster_inv :: "toaster \<Rightarrow> bool" where
  "toaster_inv s \<longleftrightarrow>
     (\<not> tr_pending s \<longrightarrow> map fst (tr_items s) = tr_toasts s \<and> list_all (\<lambda>p. snd p \<noteq> None) (tr_items s))
     \<and> list_all timer_ok (tr_items s)"

lemma list_all_timers:
  "list_all timer_ok ps \<Longrightarrow> list_all timer_ok (map (\<lambda>(x, r). (x, map_option (\<lambda>n. n - d) r)) ps)"
  "list_all timer_ok ps \<Longrightarrow> list_all timer_ok (map (\<lambda>(x, r). (x, if to_id x = i then None else r)) ps)"
  "list_all (\<lambda>p. snd p \<noteq> None) ps \<Longrightarrow> list_all (\<lambda>p. snd p \<noteq> None) (map (\<lambda>(x, r). (x, map_option (\<lambda>n. n - d) r)) ps)"
  by (induction ps) (auto simp: timer_ok_def split: option.splits if_splits)

lemma map_fst_timers: "map fst (map (\<lambda>(x, r). (x, f x r)) ps) = map fst ps"
  by (induction ps) auto

lemma rendered_timers:
  "list_all timer_ok (map (\<lambda>x. (x, Some (timer_length x))) xs)"
  "list_all (\<lambda>p. snd p \<noteq> None) (map (\<lambda>x. (x, Some (timer_length x))) xs)"
  "map fst (map (\<lambda>x. (x, Some (timer_length x))) xs) = xs"
  by (induction xs) (simp_all add: timer_ok_def)

lemma toaster_step_inv: "toaster_step s e s' \<Longrightarrow> toaster_inv s \<Longrightarrow> toaster_inv s'"
proof (induction rule: toaster_step.induct)
  case (shown s x)
  then show ?case
    by (simp add: toaster_inv_def add_toast_def)
next
  case (closing i s)
  then show ?case
    by (simp add: toaster_inv_def removeToast_def)
next
  case (rendered s)
  show ?case
    using rendered_timers [of "tr_toasts s"] by (simp add: toaster_inv_def render_toasts_def)
next
  case (elapsing s d)
  then show ?case
    using list_all_timers(1) [of "tr_items s" d] list_all_timers(3) [of "tr_items s" d]
      map_fst_timers [of "\<lambda>x. map_option (\<lambda>n. n - d)" "tr_items s"]
    by (simp add: toaster_inv_def pass_time_def del: map_map list.pred_map)
next
  case (firing x s)
  then show ?case
    by (simp add: toaster_inv_def timer_done_def removeToast_def list_all_timers)
qed

lemma toaster_run_inv: "toaster_run s es s' \<Longrightarrow> toaster_inv s \<Longrightarrow> toaster_inv s'"
  by (induction rule: toaster_run.induct) (auto dest: toaster_step_inv)

text \<open>
  Whatever is shown, closed, rendered and awaited, the messages on screen are those of the state as soon as
  React has rendered, and each of them has a timer that runs out within its duration: no message is stuck.
\<close>

theorem toast_timers:
  assumes "toaster_run new_toaster es s" and "\<not> tr_pending s" and "x \<in> set (tr_toasts s)"
  shows "\<exists>n. (x, Some n) \<in> set (tr_items s) \<and> n \<le> timer_length x"
proof -
  have "toaster_inv new_toaster"
    by (simp add: toaster_inv_def new_toaster_def)
  then have inv: "toaster_inv s"
    using toaster_run_inv [OF assms(1)] by simp
  then have "x \<in> set (map fst (tr_items s))"
    using assms(2,3) by (simp add: toaster_inv_def)
  then obtain r where r: "(x, r) \<in> set (tr_items s)"
    by auto
  then obtain n where "r = Some n"
    using inv assms(2) by (auto simp: toaster_inv_def list_all_iff)
  moreover have "timer_ok (x, r)"
    using inv r by (simp add: toaster_inv_def list_all_iff)
  ultimately show ?thesis
    using r by (auto simp: timer_ok_def)
qed

definition keep_alive :: "(toast \<times> nat) list \<Rightarrow> toaster_event list" where
  "keep_alive later = concat (map (\<lambda>(y, d). [ShowToast y, RenderToasts, Elapse d]) later)"

text \<open>
  C29: every message that is shown starts the timers of all the others again, because the provider hands each
  item a new callback with every render: while new messages come faster than the shortest duration, none that
  is on screen ever leaves it, however long that lasts.
\<close>

theorem toasts_keep_each_other:
  assumes "tr_mounted s" and "tr_toasts s = xs"
    and "\<forall>d\<in>snd ` set later. \<forall>x\<in>set xs \<union> fst ` set later. d \<le> timer_length x"
  shows "\<exists>s'. toaster_run s (keep_alive later) s' \<and> tr_toasts s' = xs @ map fst later
    \<and> tr_clock s' = tr_clock s + sum_list (map snd later)"
  using assms
proof (induction later arbitrary: s xs)
  case Nil
  then show ?case
    by (auto simp: keep_alive_def toaster_run_simps)
next
  case (Cons yd later)
  obtain y d where yd: "yd = (y, d)"
    by (metis prod.exhaust)
  define s1 where "s1 = pass_time d (render_toasts (add_toast y s))"
  have fits: "\<forall>x\<in>set (xs @ [y]). d \<le> timer_length x"
    using Cons.prems(3) by (auto simp: yd)
  have first: "toaster_run s [ShowToast y, RenderToasts, Elapse d] s1"
  proof (intro run_step)
    show "toaster_step s (ShowToast y) (add_toast y s)"
      by (rule toaster_step.shown)
    show "toaster_step (add_toast y s) RenderToasts (render_toasts (add_toast y s))"
      using Cons.prems(1) by (intro toaster_step.rendered) (simp add: add_toast_def)
    show "toaster_step (render_toasts (add_toast y s)) (Elapse d) s1"
      unfolding s1_def using Cons.prems(1,2) fits by (intro toaster_step.elapsing) (auto simp: add_toast_def render_toasts_def)
    show "toaster_run s1 [] s1"
      by (rule run_nil)
  qed
  have s1: "tr_mounted s1" "tr_toasts s1 = xs @ [y]" "tr_clock s1 = tr_clock s + d"
    using Cons.prems(1,2) by (simp_all add: s1_def add_toast_def render_toasts_def pass_time_def)
  have later: "\<forall>d\<in>snd ` set later. \<forall>x\<in>set (xs @ [y]) \<union> fst ` set later. d \<le> timer_length x"
    using Cons.prems(3) by (simp add: yd)
  obtain s2 where "toaster_run s1 (keep_alive later) s2" and "tr_toasts s2 = (xs @ [y]) @ map fst later"
    and "tr_clock s2 = tr_clock s1 + sum_list (map snd later)"
    using Cons.IH [OF s1(1,2) later] by blast
  then show ?case
    using toaster_run_append [OF first] by (intro exI [of _ s2]) (simp add: keep_alive_def yd s1(3))
qed

definition saved_note :: "string \<Rightarrow> toast" where
  "saved_note i = make_toast i ToastNote ''saved'' None None"

theorem toast_timers_witness:
  "\<exists>n. (saved_note ''1'', Some n) \<in> set (tr_items (render_toasts (add_toast (saved_note ''1'') new_toaster))) \<and> n \<le> 3000"
proof -
  let ?s = "render_toasts (add_toast (saved_note ''1'') new_toaster)"
  have "toaster_run new_toaster [ShowToast (saved_note ''1''), RenderToasts] ?s"
    by (rule run_step [OF toaster_step.shown run_step [OF toaster_step.rendered run_nil]])
      (simp add: add_toast_def new_toaster_def)
  then show ?thesis
    using toast_timers [of "[ShowToast (saved_note ''1''), RenderToasts]" ?s "saved_note ''1''"]
    by (simp add: add_toast_def new_toaster_def render_toasts_def timer_length_def saved_note_def make_toast_def)
qed

lemma timer_length_note: "timer_length (saved_note i) = 3000"
  by (simp add: timer_length_def saved_note_def make_toast_def)

theorem toasts_keep_each_other_witness:
  "\<exists>s. toaster_run (add_toast (saved_note ''1'') new_toaster)
        (keep_alive [(saved_note ''2'', 2900), (saved_note ''3'', 2900)]) s
     \<and> tr_toasts s = [saved_note ''1'', saved_note ''2'', saved_note ''3''] \<and> tr_clock s = 5800"
  using toasts_keep_each_other [of "add_toast (saved_note ''1'') new_toaster" "[saved_note ''1'']"
      "[(saved_note ''2'', 2900), (saved_note ''3'', 2900)]"]
  by (simp add: add_toast_def new_toaster_def timer_length_note)

end
