(* ===== verification/Shell.thy ===== *)
theory Shell
  imports Toasts JsNumber
begin

text \<open>
  The frame around the pages: the client of the service (\<open>lib/api.ts\<close>), keyboard shortcuts (\<open>lib/shortcuts.ts\<close>),
  theme and language (\<open>lib/theme.ts\<close>, \<open>lib/i18n/I18nProvider.tsx\<close>), the wait for the backend (\<open>main.tsx\<close>), the
  menus and the navigation (\<open>components/IdeShell.tsx\<close>, \<open>MenuBar.tsx\<close>, \<open>ActivityBar.tsx\<close>) and the bar of the
  work stages (\<open>components/WorkflowProgress.tsx\<close>).
\<close>

section \<open>The client of the service\<close>

record http_answer =
  ha_ok :: bool
  ha_status :: nat
  ha_text :: string

text \<open>
  \<open>parse_detail\<close> is \<open>JSON.parse(text).detail\<close>: \<open>None\<close> when that throws, \<open>Some None\<close> when there is no detail;
  \<open>parse\<close> is \<open>JSON.parse\<close> of a body that is not empty.
\<close>

definition apiCall ::
    "(string \<Rightarrow> string option option) \<Rightarrow> (string \<Rightarrow> string + 'a) \<Rightarrow> 'a \<Rightarrow> string + http_answer \<Rightarrow> string + 'a" where
  "apiCall parse_detail parse blank answer =
     (case answer of
        Inl e \<Rightarrow> Inl e
      | Inr r \<Rightarrow>
          if \<not> ha_ok r then
            (let detail = (case parse_detail (ha_text r) of Some (Some d) \<Rightarrow> d | _ \<Rightarrow> ha_text r)
             in Inl (if detail = [] then ''HTTP '' @ show_nat (ha_status r) else detail))
          else if ha_text r \<noteq> [] then parse (ha_text r) else Inr blank)"

section \<open>Shortcuts\<close>

record key_press =
  ke_key :: string
  ke_ctrl :: bool
  ke_shift :: bool
  ke_alt :: bool
  ke_target :: string

record 'h shortcut =
  sc_key :: string
  sc_ctrl :: "bool option"
  sc_shift :: "bool option"
  sc_alt :: "bool option"
  sc_prevent :: bool
  sc_ignore_in_input :: bool
  sc_handler :: 'h

definition in_input :: "key_press \<Rightarrow> bool" where
  "in_input e \<longleftrightarrow> ke_target e \<in> set [''INPUT'', ''TEXTAREA'', ''SELECT'']"

definition modifier_fits :: "bool option \<Rightarrow> bool \<Rightarrow> bool" where
  "modifier_fits want is_down \<longleftrightarrow> (case want of None \<Rightarrow> True | Some b \<Rightarrow> is_down = b)"

definition shortcut_fits :: "key_press \<Rightarrow> 'h shortcut \<Rightarrow> bool" where
  "shortcut_fits e b \<longleftrightarrow>
     modifier_fits (sc_ctrl b) (ke_ctrl e) \<and> modifier_fits (sc_shift b) (ke_shift e) \<and> modifier_fits (sc_alt b) (ke_alt e)
     \<and> js_to_lower (ke_key e) = js_to_lower (sc_key b) \<and> \<not> (sc_ignore_in_input b \<and> in_input e)"

text \<open>The handler that runs, with whether the default of the browser is kept from running.\<close>

definition press_key :: "'h shortcut list \<Rightarrow> key_press \<Rightarrow> ('h \<times> bool) option" where
  "press_key bindings e = map_option (\<lambda>b. (sc_handler b, sc_prevent b)) (List.find (shortcut_fits e) bindings)"

datatype edit_action = OnSave | OnUndo | OnRedo | OnCut | OnCopy | OnPaste

definition ctrl_key :: "string \<Rightarrow> bool option \<Rightarrow> edit_action \<Rightarrow> edit_action shortcut" where
  "ctrl_key k shift a =
     \<lparr>sc_key = k, sc_ctrl = Some True, sc_shift = shift, sc_alt = None, sc_prevent = False, sc_ignore_in_input = False,
      sc_handler = a\<rparr>"

definition edit_shortcuts :: "edit_action shortcut list" where
  "edit_shortcuts =
     [(ctrl_key ''s'' None OnSave)\<lparr>sc_prevent := True, sc_ignore_in_input := True\<rparr>,
      ctrl_key ''z'' (Some False) OnUndo, ctrl_key ''z'' (Some True) OnRedo, ctrl_key ''y'' None OnRedo,
      ctrl_key ''x'' None OnCut, ctrl_key ''c'' None OnCopy, ctrl_key ''v'' None OnPaste]"

section \<open>Theme and language\<close>

text \<open>What the storage holds; \<open>None\<close> when reading it throws.\<close>

definition readTheme :: "string option option \<Rightarrow> string" where
  "readTheme stored = (if stored = Some (Some ''light'') then ''light'' else ''dark'')"

text \<open>The attribute of the document and, unless storing throws, the new content of the storage.\<close>

definition writeTheme :: "string \<Rightarrow> string option option \<Rightarrow> string \<times> string option option" where
  "writeTheme theme stored = (theme, case stored of None \<Rightarrow> None | Some old \<Rightarrow> Some (Some theme))"

definition toggle_theme :: "string \<Rightarrow> string" where
  "toggle_theme theme = (if theme = ''dark'' then ''light'' else ''dark'')"

definition readLocale :: "string option \<Rightarrow> string" where
  "readLocale stored = (if stored = Some ''zh-CN'' \<or> stored = Some ''en'' then the stored else ''zh-CN'')"

definition toggle_locale :: "string \<Rightarrow> string" where
  "toggle_locale locale = (if locale = ''zh-CN'' then ''en'' else ''zh-CN'')"

text \<open>The replacement text of \<open>s.replace(pattern, v)\<close> for a pattern that is a string.\<close>

fun expand_dollar :: "string \<Rightarrow> string \<Rightarrow> string \<Rightarrow> string \<Rightarrow> string" where
  "expand_dollar before hit rest [] = []"
| "expand_dollar before hit rest [c] = [c]"
| "expand_dollar before hit rest (c # d # r) =
     (if c \<noteq> CHR ''$'' then c # expand_dollar before hit rest (d # r)
      else if d = CHR ''$'' then CHR ''$'' # expand_dollar before hit rest r
      else if d = CHR ''&'' then hit @ expand_dollar before hit rest r
      else if d = CHR 0x60 then before @ expand_dollar before hit rest r
      else if d = CHR 0x27 then rest @ expand_dollar before hit rest r
      else c # expand_dollar before hit rest (d # r))"

fun split_at :: "string \<Rightarrow> string \<Rightarrow> string \<Rightarrow> (string \<times> string) option" where
  "split_at seen pat [] = (if pat = [] then Some (rev seen, []) else None)"
| "split_at seen pat (c # cs) =
     (if prefix pat (c # cs) then Some (rev seen, drop (length pat) (c # cs)) else split_at (c # seen) pat cs)"

definition js_replace :: "string \<Rightarrow> string \<Rightarrow> string \<Rightarrow> string" where
  "js_replace pat v s =
     (case split_at [] pat s of None \<Rightarrow> s | Some (before, rest) \<Rightarrow> before @ expand_dollar before pat rest v @ rest)"

text \<open>\<open>t(key, args)\<close> over the tables of texts.\<close>

definition translate ::
    "(string \<Rightarrow> string \<Rightarrow> string option) \<Rightarrow> string \<Rightarrow> string \<Rightarrow> (string \<times> string) list \<Rightarrow> string" where
  "translate tables locale key args =
     fold (\<lambda>(k, v). js_replace (''{'' @ k @ ''}'') v) args
       (case tables locale key of Some x \<Rightarrow> x | None \<Rightarrow> (case tables ''zh-CN'' key of Some x \<Rightarrow> x | None \<Rightarrow> key))"

section \<open>Waiting for the backend\<close>

definition RETRIES :: nat where
  "RETRIES = 60"

definition RETRY_DELAY_MS :: nat where
  "RETRY_DELAY_MS = 300"

datatype startup = Starting | Mounted | Failed

text \<open>
  What is shown in the end with the time waited between the attempts; \<open>up\<close> gives the answer of the health
  check at each attempt.
\<close>

fun wait_for_backend :: "(nat \<Rightarrow> bool) \<Rightarrow> nat \<Rightarrow> nat \<Rightarrow> startup \<times> nat" where
  "wait_for_backend up attempt 0 = (Failed, 0)"
| "wait_for_backend up attempt (Suc left) =
     (if up attempt then (Mounted, 0)
      else (let (r, waited) = wait_for_backend up (attempt + 1) left in (r, waited + RETRY_DELAY_MS)))"

definition start_app :: "(nat \<Rightarrow> bool) \<Rightarrow> startup \<times> nat" where
  "start_app up = wait_for_backend up 0 RETRIES"

lemma wait_outcome: "fst (wait_for_backend up a n) = (if \<exists>k<n. up (a + k) then Mounted else Failed)
    \<and> snd (wait_for_backend up a n) \<le> n * RETRY_DELAY_MS"
proof (induction n arbitrary: a)
  case (Suc n)
  have "(\<exists>k<Suc n. up (a + k)) \<longleftrightarrow> up a \<or> (\<exists>k<n. up (Suc a + k))"
    by (auto simp: less_Suc_eq_0_disj)
  then show ?case
    using Suc.IH [of "Suc a"] by (auto simp: Let_def split: prod.splits)
qed simp

lemma start_outcome: "fst (start_app up) = (if \<exists>k<60. up k then Mounted else Failed) \<and> snd (start_app up) \<le> 18000"
  using wait_outcome [of up 0 60] by (simp add: start_app_def RETRIES_def RETRY_DELAY_MS_def)

section \<open>Stages\<close>

record stage_status =
  ws_id :: string
  ws_label :: string
  ws_path :: string
  ws_complete :: bool
  ws_progress :: int

definition STAGES :: "(string \<times> string \<times> string) list" where
  "STAGES =
     [(''device'', ''workflow.device'', ''/device''), (''graph'', ''workflow.graph'', ''/graph''),
      (''simulation'', ''workflow.sim'', ''/simulation''), (''download'', ''workflow.download'', ''/download'')]"

definition initial_stages :: "stage_status list" where
  "initial_stages =
     map (\<lambda>(i, l, p). \<lparr>ws_id = i, ws_label = l, ws_path = p, ws_complete = False, ws_progress = 0\<rparr>) STAGES"

definition bound_share :: "nat \<Rightarrow> nat \<Rightarrow> int" where
  "bound_share boundCount totalCount =
     (if 0 < totalCount then round_half_up (of_nat boundCount / of_nat totalCount * 100) else 0)"

text \<open>
  The answers of the service: the ids of the stations, how many mappings and variables a station has, how many
  pages there are; \<open>None\<close> when a request or its JSON fails. An answer that is no list counts as an empty one.
\<close>

record stage_answers =
  sa_stations :: "string list option"
  sa_mappings :: "string \<Rightarrow> nat option"
  sa_variables :: "string \<Rightarrow> nat option"
  sa_pages :: "nat option"

definition device_share :: "stage_answers \<Rightarrow> (bool \<times> int) option" where
  "device_share a =
     (case sa_stations a of
        None \<Rightarrow> None
      | Some [] \<Rightarrow> Some (False, 0)
      | Some (station # others) \<Rightarrow>
          (case (sa_mappings a station, sa_variables a station) of
             (Some ms, Some vs) \<Rightarrow> Some (True, bound_share ms vs)
           | _ \<Rightarrow> None))"

definition calculateProgress :: "stage_answers \<Rightarrow> stage_status list \<Rightarrow> stage_status list" where
  "calculateProgress a stages =
     (case (device_share a, sa_pages a) of
        (Some (any_station, share), Some pages) \<Rightarrow>
          (let graph_done = 0 < pages
           in [\<lparr>ws_id = ''device'', ws_label = ''workflow.device'', ws_path = ''/device'',
                 ws_complete = (any_station \<and> share = 100), ws_progress = share\<rparr>,
               \<lparr>ws_id = ''graph'', ws_label = ''workflow.graph'', ws_path = ''/graph'',
                 ws_complete = graph_done, ws_progress = (if graph_done then 100 else 0)\<rparr>,
               \<lparr>ws_id = ''simulation'', ws_label = ''workflow.sim'', ws_path = ''/simulation'',
                 ws_complete = False, ws_progress = 0\<rparr>,
               \<lparr>ws_id = ''download'', ws_label = ''workflow.download'', ws_path = ''/download'',
                 ws_complete = False, ws_progress = 0\<rparr>])
      | _ \<Rightarrow> stages)"

text \<open>The effect runs when the path of the open project changes, and only then.\<close>

definition stages_after_render ::
    "string option \<Rightarrow> string option \<Rightarrow> stage_answers \<Rightarrow> stage_status list \<Rightarrow> stage_status list" where
  "stages_after_render old_path path a stages =
     (if path = None \<or> path = old_path then stages else calculateProgress a stages)"

definition stage_accessible :: "stage_status list \<Rightarrow> nat \<Rightarrow> bool" where
  "stage_accessible stages idx \<longleftrightarrow> idx = 0 \<or> ws_complete (stages ! (idx - 1))"

datatype shell_effect =
    Say toast_type string "string option" "nat option"
  | GoTo string
  | EmitLater nat string

definition full_width_colon :: string where
  "full_width_colon = utf8 [239, 188, 154]"

definition handleStageClick :: "(string \<Rightarrow> string) \<Rightarrow> stage_status list \<Rightarrow> nat \<Rightarrow> shell_effect list" where
  "handleStageClick t stages idx =
     (if stage_accessible stages idx then [GoTo (ws_path (stages ! idx))]
      else let prev = stages ! (idx - 1)
        in [Say ToastWarn (t ''workflow.stageGate'')
              (Some (t ''workflow.locked'' @ full_width_colon @ t (ws_label prev) @ utf8 [239, 188, 136]
                @ t ''workflow.progress'' @ full_width_colon @ show_int (ws_progress prev) @ ''%'' @ utf8 [239, 188, 137]))
              (Some 4000)])"

record stage_view =
  sg_active :: bool
  sg_past :: bool
  sg_open :: bool
  sg_mark :: string
  sg_label :: string

definition show_stage :: "(string \<Rightarrow> string) \<Rightarrow> string \<Rightarrow> stage_status list \<Rightarrow> nat \<Rightarrow> stage_view" where
  "show_stage t pathname stages idx =
     (let s = stages ! idx; here = List.find (\<lambda>i. snd (snd (STAGES ! i)) = pathname) [0..<length STAGES]
      in \<lparr>sg_active = (here = Some idx), sg_past = (case here of None \<Rightarrow> False | Some h \<Rightarrow> idx < h),
          sg_open = stage_accessible stages idx,
          sg_mark = (if ws_complete s then utf8 [226, 156, 147] else if 0 < ws_progress s then show_int (ws_progress s) @ ''%''
            else show_nat (idx + 1)),
          sg_label = t (ws_label s)\<rparr>)"

definition stages_done :: "stage_status list \<Rightarrow> string" where
  "stages_done stages = show_nat (length (filter ws_complete stages)) @ ''/'' @ show_nat (length stages)"

section \<open>Menus and navigation\<close>

record project_info =
  pi_name :: string
  pi_path :: string
  pi_safety_level :: string
  pi_svm_version :: string
  pi_description :: string
  pi_tree :: "(string, string list) obj"

text \<open>Whether the project is to be saved, and what an answer shows.\<close>

definition shell_save :: "(string \<Rightarrow> string) \<Rightarrow> project_info option \<Rightarrow> string + unit \<Rightarrow> bool \<times> shell_effect list" where
  "shell_save t current answer =
     (case current of
        None \<Rightarrow> (False, [Say ToastWarn (t ''common.noProject'') (Some (t ''common.noProjectDesc'')) None])
      | Some p \<Rightarrow> (True, [case answer of
            Inr u \<Rightarrow> Say ToastOk (t ''common.saved'') (Some (pi_path p)) None
          | Inl e \<Rightarrow> Say ToastErr (t ''common.saveFailed'') (Some e) None]))"

definition shell_close :: "(string \<Rightarrow> string) \<Rightarrow> project_info option \<Rightarrow> string + unit \<Rightarrow> bool \<times> shell_effect list" where
  "shell_close t current answer =
     (case current of
        None \<Rightarrow> (False, [Say ToastWarn (t ''common.noProject'') (Some (t ''common.noProjectToClose'')) None])
      | Some p \<Rightarrow> (True, case answer of
            Inr u \<Rightarrow> [GoTo ''/'', Say ToastOk (t ''common.projectClosed'') (Some (pi_name p)) None]
          | Inl e \<Rightarrow> [Say ToastErr (t ''common.closeFailed'') (Some e) None]))"

definition shell_properties :: "(string \<Rightarrow> string) \<Rightarrow> project_info option \<Rightarrow> shell_effect list" where
  "shell_properties t current =
     (case current of
        None \<Rightarrow> [Say ToastWarn (t ''common.noProject'') (Some (t ''common.noProjectProps'')) None]
      | Some p \<Rightarrow> [Say ToastNote (t ''common.projectProps'')
          (Some (t ''common.name'' @ '': '' @ pi_name p @ [CHR 0x0A] @ t ''common.path'' @ '': '' @ pi_path p @ [CHR 0x0A]
            @ t ''common.safetyLevel'' @ '': '' @ pi_safety_level p)) None])"

datatype menu_action = NewProject | OpenProject | SaveProject | SaveAs | ShowProperties | CloseProject

datatype menu_item =
  MenuItem (mi_id: string) (mi_label: string) (mi_shortcut: "string option") (mi_disabled: bool)
    (mi_action: "menu_action option") (mi_children: "menu_item list option")

definition menu_separator :: "string \<Rightarrow> menu_item" where
  "menu_separator i = MenuItem i (concat (replicate 9 (utf8 [226, 148, 128]))) None True None None"

definition menu_command :: "(string \<Rightarrow> string) \<Rightarrow> string \<Rightarrow> string \<Rightarrow> string option \<Rightarrow> menu_action \<Rightarrow> menu_item" where
  "menu_command t i key keys a = MenuItem i (t key) keys False (Some a) None"

definition idle_command :: "(string \<Rightarrow> string) \<Rightarrow> string \<Rightarrow> string \<Rightarrow> string \<Rightarrow> menu_item" where
  "idle_command t i key keys = MenuItem i (t key) (Some keys) True None None"

definition menu_groups :: "(string \<Rightarrow> string) \<Rightarrow> (string \<times> string \<times> menu_item list) list" where
  "menu_groups t =
     [(''file'', t ''menu.file'',
        [menu_command t ''new'' ''menu.file.new'' (Some ''Ctrl+N'') NewProject,
         menu_command t ''open'' ''menu.file.open'' (Some ''Ctrl+O'') OpenProject,
         menu_separator ''sep1'',
         menu_command t ''save'' ''menu.file.save'' (Some ''Ctrl+S'') SaveProject,
         menu_command t ''save-as'' ''menu.file.saveAs'' (Some ''Ctrl+Shift+S'') SaveAs,
         menu_separator ''sep2'',
         menu_command t ''properties'' ''menu.file.properties'' None ShowProperties,
         menu_separator ''sep3'',
         menu_command t ''close'' ''menu.file.close'' None CloseProject]),
      (''edit'', t ''menu.edit'',
        [idle_command t ''undo'' ''menu.edit.undo'' ''Ctrl+Z'', idle_command t ''redo'' ''menu.edit.redo'' ''Ctrl+Y'',
         menu_separator ''sep4'',
         idle_command t ''cut'' ''menu.edit.cut'' ''Ctrl+X'', idle_command t ''copy'' ''menu.edit.copy'' ''Ctrl+C'',
         idle_command t ''paste'' ''menu.edit.paste'' ''Ctrl+V''])]"

definition menu_chosen ::
    "(string \<Rightarrow> string) \<Rightarrow> project_info option \<Rightarrow> string + unit \<Rightarrow> menu_action \<Rightarrow> bool \<times> shell_effect list" where
  "menu_chosen t current answer a =
     (case a of
        NewProject \<Rightarrow> (False, [GoTo ''/'', EmitLater 50 ''new-project''])
      | OpenProject \<Rightarrow> (False, [GoTo ''/'', EmitLater 50 ''open-project''])
      | SaveProject \<Rightarrow> shell_save t current answer
      | SaveAs \<Rightarrow> (False, [Say ToastNote (t ''menu.file.saveAs'') (Some (t ''menu.notImplemented'')) None])
      | ShowProperties \<Rightarrow> (False, shell_properties t current)
      | CloseProject \<Rightarrow> shell_close t current answer)"

text \<open>The menu bar: the group that is open, and the submenus that are open in it.\<close>

record menu_bar =
  mb_open :: "string option"
  mb_submenus :: "string list"

datatype menu_event = ClickGroup string | ClickItem menu_item | EnterItem menu_item | LeaveItem menu_item | ClickElsewhere

definition close_menu :: "menu_bar \<Rightarrow> menu_bar" where
  "close_menu m = m\<lparr>mb_open := None, mb_submenus := []\<rparr>"

text \<open>The second component is the action that runs.\<close>

definition menu_step :: "menu_event \<Rightarrow> menu_bar \<Rightarrow> menu_bar \<times> menu_action option" where
  "menu_step e m =
     (case e of
        ClickGroup g \<Rightarrow> (m\<lparr>mb_open := (if mb_open m = Some g then None else Some g), mb_submenus := []\<rparr>, None)
      | ClickElsewhere \<Rightarrow> (close_menu m, None)
      | EnterItem i \<Rightarrow> (if mi_children i = None then m else m\<lparr>mb_submenus := jset_add (mi_id i) (mb_submenus m)\<rparr>, None)
      | LeaveItem i \<Rightarrow> (if mi_children i = None then m else m\<lparr>mb_submenus := jset_remove (mi_id i) (mb_submenus m)\<rparr>, None)
      | ClickItem i \<Rightarrow>
          (if mi_disabled i then (m, None)
           else if mi_children i \<noteq> None then
             (m\<lparr>mb_submenus := (if mi_id i \<in> set (mb_submenus m) then jset_remove (mi_id i) (mb_submenus m)
                 else jset_add (mi_id i) (mb_submenus m))\<rparr>, None)
           else (close_menu m, mi_action i)))"

definition nav_items :: "(string \<times> string \<times> string) list" where
  "nav_items =
     [(''home'', ''/'', ''nav.home''), (''device'', ''/device'', ''nav.device''), (''graph'', ''/graph'', ''nav.graph''),
      (''simulation'', ''/simulation'', ''nav.simulation''), (''download'', ''/download'', ''nav.download''),
      (''library'', ''/library'', ''nav.library''), (''monitor'', ''/monitor'', ''nav.monitor'')]"

definition active_view :: "string \<Rightarrow> string" where
  "active_view pathname =
     (case List.find (\<lambda>(i, p, l). p = pathname) nav_items of None \<Rightarrow> ''home'' | Some (i, p, l) \<Rightarrow> i)"

definition disabled_views :: "project_info option \<Rightarrow> string list" where
  "disabled_views current =
     (if current \<noteq> None then [] else map fst (filter (\<lambda>(i, p, l). i \<noteq> ''home'') nav_items))"

definition select_view :: "project_info option \<Rightarrow> string \<Rightarrow> shell_effect list" where
  "select_view current i =
     (if i \<in> set (disabled_views current) then []
      else case List.find (\<lambda>(j, p, l). j = i) nav_items of None \<Rightarrow> [] | Some (j, p, l) \<Rightarrow> [GoTo p])"

text \<open>The button of a view: its title, whether it can be pressed and whether it is the one on screen.\<close>

definition nav_button :: "(string \<Rightarrow> string) \<Rightarrow> project_info option \<Rightarrow> string \<Rightarrow> string \<times> string \<times> string \<Rightarrow> string \<times> bool \<times> bool" where
  "nav_button t current pathname item =
     (let (i, p, l) = item; off = i \<in> set (disabled_views current)
      in (if off then t ''nav.requireProject'' else t l, \<not> off, \<not> off \<and> active_view pathname = i))"

text \<open>What the title bar says of the project, and what a guarded route shows.\<close>

definition title_text :: "(string \<Rightarrow> string) \<Rightarrow> project_info option \<Rightarrow> string list" where
  "title_text t current =
     (case current of None \<Rightarrow> [t ''title.unnamed''] | Some p \<Rightarrow> [pi_name p, pi_path p, middot @ '' '' @ pi_safety_level p])"

definition guarded :: "project_info option \<Rightarrow> 'v \<Rightarrow> 'v \<Rightarrow> 'v" where
  "guarded current page placeholder = (if current \<noteq> None then page else placeholder)"

text \<open>Without a project every way to a stage page is closed: the buttons, and the route itself.\<close>

lemma no_project_no_stage: "select_view None i \<noteq> [] \<Longrightarrow> i = ''home''"
  by (auto simp: select_view_def disabled_views_def nav_items_def split: if_splits)

lemma find_entry: "distinct (map fst xs) \<Longrightarrow> (i, v) \<in> set xs \<Longrightarrow> List.find (\<lambda>(j, w). j = i) xs = Some (i, v)"
  by (induction xs) force+

lemma open_project_all_views: "(i, p, l) \<in> set nav_items \<Longrightarrow> select_view (Some q) i = [GoTo p]"
proof -
  have "distinct (map fst nav_items)"
    by (simp add: nav_items_def)
  then show "(i, p, l) \<in> set nav_items \<Longrightarrow> ?thesis"
    using find_entry [of nav_items i "(p, l)"] by (simp add: select_view_def disabled_views_def case_prod_beta')
qed

section \<open>Laws\<close>

inductive stages_reached :: "stage_status list \<Rightarrow> bool" where
  at_first: "stages_reached initial_stages"
| answered: "stages_reached stages \<Longrightarrow> stages_reached (calculateProgress a stages)"

lemma stages_reached_shape: "stages_reached stages \<Longrightarrow> length stages = 4 \<and> \<not> ws_complete (stages ! 2)"
proof (induction rule: stages_reached.induct)
  case (answered stages a)
  then show ?case
    by (auto simp: calculateProgress_def Let_def split: option.splits)
qed (simp add: initial_stages_def STAGES_def)

text \<open>
  The bar of the work stages opens the simulation as soon as there is a page, but never the download:
  whatever the service answers, the stage before it stays incomplete, and a click only says so.
\<close>

theorem download_stays_locked:
  assumes "stages_reached stages" and "device_share a = Some share" and "sa_pages a = Some pages"
  shows "(stage_accessible (calculateProgress a stages) 2 \<longleftrightarrow> 0 < pages)
    \<and> \<not> stage_accessible stages 3 \<and> (\<exists>title m. handleStageClick t stages 3 = [Say ToastWarn title m (Some 4000)])"
  using assms(2,3) stages_reached_shape [OF assms(1)]
  by (cases share) (auto simp: stage_accessible_def handleStageClick_def Let_def calculateProgress_def)

lemma rounds_to_full:
  assumes "b \<le> n" and "0 < n"
  shows "bound_share b n = 100 \<longleftrightarrow> 200 * (n - b) \<le> n"
proof -
  define q where "q = (of_nat b / of_nat n :: rat)"
  have q: "q * of_nat n = of_nat b"
    using assms(2) by (simp add: q_def)
  have "bound_share b n = 100 \<longleftrightarrow> 199 \<le> 200 * q \<and> 200 * q < 201"
    using assms(2) by (auto simp: bound_share_def round_half_up_def floor_eq_iff q_def)
  also have "q \<le> 1"
    using assms by (simp add: q_def divide_le_eq_1)
  then have "199 \<le> 200 * q \<and> 200 * q < 201 \<longleftrightarrow> 199 \<le> 200 * q"
    by auto
  also have "\<dots> \<longleftrightarrow> 199 * of_nat n \<le> 200 * q * of_nat n"
    using assms(2) by simp
  also have "\<dots> \<longleftrightarrow> (of_nat (199 * n) :: rat) \<le> of_nat (200 * b)"
    using q by (simp add: mult.assoc)
  also have "\<dots> \<longleftrightarrow> 200 * (n - b) \<le> n"
    using assms(1) by (simp only: of_nat_le_iff) linarith
  finally show ?thesis .
qed

text \<open>
  The device stage counts as complete from 99.5 percent on, since the share is rounded before it is compared
  with 100: with two hundred points or more it opens the next stage while points are still without a channel.
\<close>

theorem device_stage_rounds:
  assumes "sa_stations a = Some (station # others)" and "sa_mappings a station = Some b" and "sa_variables a station = Some n"
    and "sa_pages a = Some pages" and "b \<le> n" and "0 < n"
  shows "stage_accessible (calculateProgress a stages) 1 \<longleftrightarrow> 200 * (n - b) \<le> n"
  using assms(1-4) rounds_to_full [OF assms(5,6)]
  by (simp add: stage_accessible_def calculateProgress_def device_share_def Let_def)

definition stage_sample :: "nat \<Rightarrow> nat \<Rightarrow> stage_answers" where
  "stage_sample b n =
     \<lparr>sa_stations = Some [''S1''], sa_mappings = (\<lambda>i. Some b), sa_variables = (\<lambda>i. Some n), sa_pages = Some 3\<rparr>"

theorem download_stays_locked_witness:
  "stage_accessible (calculateProgress (stage_sample 4 4) initial_stages) 2
   \<and> \<not> stage_accessible (calculateProgress (stage_sample 4 4) initial_stages) 3"
  using download_stays_locked [OF answered [OF at_first], of "stage_sample 4 4" _ 3 "stage_sample 4 4"]
    download_stays_locked [OF at_first, of "stage_sample 4 4" _ 3]
  by (simp add: device_share_def stage_sample_def)

theorem device_stage_rounds_witness:
  "stage_accessible (calculateProgress (stage_sample 199 200) initial_stages) 1"
  using device_stage_rounds [of "stage_sample 199 200" "''S1''" "[]" 199 200 3 initial_stages]
  by (simp add: stage_sample_def)

text \<open>
  One press of a key runs at most one of the editing actions, and none without Ctrl: saving outside of
  fields, undoing without and redoing with Shift, redoing on Y, and the clipboard. Shift plays no part in
  saving, so the keys that the menu gives for saving under another name save as well.
\<close>

theorem edit_keys:
  "press_key edit_shortcuts e =
     (if \<not> ke_ctrl e then None
      else let k = js_to_lower (ke_key e) in
        if k = ''s'' then (if in_input e then None else Some (OnSave, True))
        else if k = ''z'' then Some (if ke_shift e then OnRedo else OnUndo, False)
        else if k = ''y'' then Some (OnRedo, False)
        else if k = ''x'' then Some (OnCut, False)
        else if k = ''c'' then Some (OnCopy, False)
        else if k = ''v'' then Some (OnPaste, False)
        else None)"
proof -
  have low: "js_to_lower ''s'' = ''s''" "js_to_lower ''z'' = ''z''" "js_to_lower ''y'' = ''y''" "js_to_lower ''x'' = ''x''"
    "js_to_lower ''c'' = ''c''" "js_to_lower ''v'' = ''v''"
    by code_simp+
  show ?thesis
    by (simp add: press_key_def edit_shortcuts_def shortcut_fits_def modifier_fits_def ctrl_key_def low Let_def)
qed

end
