(* ===== verification/Launcher.thy ===== *)
theory Launcher
  imports GraphEdit Shell
begin

text \<open>
  The open project (\<open>project/ProjectProvider.tsx\<close>) and the start page with its three panels
  (\<open>pages/HomePage.tsx\<close>): creating and opening projects, and creating an algorithm block whose type name, file
  name and source have to agree.
\<close>

section \<open>The provider\<close>

record recent_project =
  rp_path :: string
  rp_name :: string
  rp_safety_level :: string
  rp_opened_at :: string
  rp_exists :: bool
  rp_pages :: int
  rp_stations :: int
  rp_blocks :: int

record recent_block =
  rb_id :: string
  rb_name :: string
  rb_version :: string
  rb_category :: string
  rb_scope :: string
  rb_project :: string
  rb_touched_at :: string

record launcher_state =
  la_current :: "project_info option"
  la_recent_projects :: "recent_project list"
  la_recent_blocks :: "recent_block list"
  la_default_parent_dir :: string

record provider =
  pv_state :: "launcher_state option"
  pv_error :: "string option"

definition new_provider :: provider where
  "new_provider = \<lparr>pv_state = None, pv_error = None\<rparr>"

definition provider_refresh :: "string + launcher_state \<Rightarrow> provider \<Rightarrow> provider" where
  "provider_refresh answer p =
     (case answer of Inl e \<Rightarrow> p\<lparr>pv_error := Some e\<rparr> | Inr s \<Rightarrow> \<lparr>pv_state = Some s, pv_error = None\<rparr>)"

definition current_project :: "provider \<Rightarrow> project_info option" where
  "current_project p = Option.bind (pv_state p) la_current"

text \<open>
  \<open>create\<close>, \<open>open\<close>, \<open>save\<close>, \<open>close\<close> and \<open>forget\<close>: a request, then a refresh; an error of the request is
  thrown to the caller before the refresh, one of the refresh is kept.
\<close>

datatype project_request =
    CreateProject string "string option" string "string option"
  | OpenPath string
  | SaveCurrent
  | CloseCurrent
  | ForgetPath string

definition project_call ::
    "(project_request \<Rightarrow> string + 'a) \<Rightarrow> string + launcher_state \<Rightarrow> project_request \<Rightarrow> provider \<Rightarrow> (string + 'a) \<times> provider" where
  "project_call service state_after req p =
     (case service req of Inl e \<Rightarrow> (Inl e, p) | Inr r \<Rightarrow> (Inr r, provider_refresh state_after p))"

definition create_request :: "string \<Rightarrow> string \<Rightarrow> string \<Rightarrow> project_request" where
  "create_request name parent_dir level =
     CreateProject name (if parent_dir = [] then None else Some parent_dir) level None"

text \<open>\<open>formatWhen\<close>; the date and its text in the Chinese locale are the argument.\<close>

definition formatWhen :: "(string \<Rightarrow> string option) \<Rightarrow> string \<Rightarrow> string" where
  "formatWhen local_text stamp = (if stamp = [] then [] else case local_text stamp of None \<Rightarrow> stamp | Some s \<Rightarrow> s)"

section \<open>Names of program units\<close>

definition is_identifier :: "string \<Rightarrow> bool" where
  "is_identifier s \<longleftrightarrow> (case s of [] \<Rightarrow> False | c # r \<Rightarrow> is_ident_start c \<and> list_all is_ident_char r)"

definition newline :: string where
  "newline = [CHR 0x0A]"

definition skeleton_rest :: string where
  "skeleton_rest =
     newline @ ''VAR_INPUT'' @ newline @ ''    IN : REAL;'' @ newline @ ''END_VAR'' @ newline @ ''VAR_OUTPUT'' @ newline
     @ ''    OUT : REAL;'' @ newline @ ''END_VAR'' @ newline @ newline @ ''OUT := IN;'' @ newline @ ''END_FUNCTION_BLOCK''"

definition ST_SKELETON :: "string \<Rightarrow> string" where
  "ST_SKELETON ty = ''FUNCTION_BLOCK '' @ ty @ skeleton_rest"

definition is_upper_char :: "char \<Rightarrow> bool" where
  "is_upper_char c \<longleftrightarrow> js_in_range CHR ''A'' CHR ''Z'' c \<or> is_digit c \<or> c = CHR ''_''"

text \<open>\<open>replace(/_+/g, "_")\<close>\<close>

fun collapse_underscores :: "string \<Rightarrow> string" where
  "collapse_underscores [] = []"
| "collapse_underscores [c] = [c]"
| "collapse_underscores (c # d # r) =
     (if c = CHR ''_'' \<and> d = CHR ''_'' then collapse_underscores (d # r) else c # collapse_underscores (d # r))"

definition strip_underscores :: "string \<Rightarrow> string" where
  "strip_underscores s =
     rev (dropWhile (\<lambda>c. c = CHR ''_'') (rev (dropWhile (\<lambda>c. c = CHR ''_'') s)))"

definition pouNameOf :: "string \<Rightarrow> string" where
  "pouNameOf v =
     (let cleaned = strip_underscores (collapse_underscores
            (map (\<lambda>c. if is_upper_char c then c else CHR ''_'') (js_to_upper (js_trim v))))
      in if cleaned \<noteq> [] \<and> js_in_range CHR ''A'' CHR ''Z'' (hd cleaned) \<and> list_all is_upper_char cleaned then cleaned else [])"

text \<open>\<open>\bKEYWORD\s+([A-Za-z_][A-Za-z0-9_]*)\<close>; \<open>inside\<close> says that the character before belongs to a word.\<close>

fun keyword_match :: "string \<Rightarrow> bool \<Rightarrow> string \<Rightarrow> string option" where
  "keyword_match kw inside [] = None"
| "keyword_match kw inside (c # cs) =
     (case (if inside then None else Option.bind (strip_keyword kw (c # cs)) ident_after) of
        Some i \<Rightarrow> Some i | None \<Rightarrow> keyword_match kw (is_ident_char c) cs)"

definition pouInSt :: "string \<Rightarrow> string" where
  "pouInSt st =
     (case keyword_match ''FUNCTION_BLOCK'' False st of
        Some i \<Rightarrow> i
      | None \<Rightarrow> (case keyword_match ''FUNCTION'' False st of Some i \<Rightarrow> i | None \<Rightarrow> []))"

section \<open>The panels\<close>

definition SAFETY_LEVELS :: "string list" where
  "SAFETY_LEVELS = [''SIL1'', ''SIL2'', ''SIL3'']"

record new_project =
  np_name :: string
  np_parent :: string
  np_level :: string
  np_busy :: bool
  np_message :: string

record open_project =
  op_path :: string
  op_busy :: bool
  op_message :: string

record new_block =
  nb_name :: string
  nb_typeName :: string
  nb_typeEdited :: bool
  nb_category :: string
  nb_st :: string
  nb_busy :: bool
  nb_message :: string

definition fresh_project :: "string \<Rightarrow> new_project" where
  "fresh_project defaultParent =
     \<lparr>np_name = [], np_parent = defaultParent, np_level = ''SIL2'', np_busy = False, np_message = []\<rparr>"

definition fresh_open :: open_project where
  "fresh_open = \<lparr>op_path = [], op_busy = False, op_message = []\<rparr>"

definition fresh_block :: new_block where
  "fresh_block =
     \<lparr>nb_name = [], nb_typeName = ''NEW_BLOCK'', nb_typeEdited = False, nb_category = ''control'',
      nb_st = ST_SKELETON ''NEW_BLOCK'', nb_busy = False, nb_message = []\<rparr>"

definition submit_project :: "(string \<Rightarrow> string) \<Rightarrow> new_project \<Rightarrow> new_project \<times> project_request option" where
  "submit_project t f =
     (if \<not> is_identifier (np_name f) then (f\<lparr>np_message := t ''home.nameValidation''\<rparr>, None)
      else (f\<lparr>np_busy := True\<rparr>, Some (create_request (np_name f) (np_parent f) (np_level f))))"

definition submit_open :: "open_project \<Rightarrow> open_project \<times> project_request option" where
  "submit_open f = (f\<lparr>op_busy := True\<rparr>, Some (OpenPath (js_trim (op_path f))))"

text \<open>The answer: the page moves on, or the panel shows the error and may be sent again.\<close>

definition project_answered :: "string + 'a \<Rightarrow> new_project \<Rightarrow> new_project \<times> shell_effect list" where
  "project_answered answer f =
     (case answer of Inl e \<Rightarrow> (f\<lparr>np_message := e, np_busy := False\<rparr>, []) | Inr r \<Rightarrow> (f, [GoTo ''/device'']))"

definition open_answered :: "string + 'a \<Rightarrow> open_project \<Rightarrow> open_project \<times> shell_effect list" where
  "open_answered answer f =
     (case answer of Inl e \<Rightarrow> (f\<lparr>op_message := e, op_busy := False\<rparr>, []) | Inr r \<Rightarrow> (f, [GoTo ''/device'']))"

text \<open>A folder that was picked in the dialog; \<open>None\<close> when the dialog was left or is not there.\<close>

definition pick_parent :: "string option \<Rightarrow> new_project \<Rightarrow> new_project" where
  "pick_parent picked f = (case picked of None \<Rightarrow> f | Some d \<Rightarrow> if d = [] then f else f\<lparr>np_parent := d\<rparr>)"

definition pick_path :: "string option \<Rightarrow> open_project \<Rightarrow> open_project" where
  "pick_path picked f = (case picked of None \<Rightarrow> f | Some d \<Rightarrow> if d = [] then f else f\<lparr>op_path := d\<rparr>)"

section \<open>The panel of a new block\<close>

text \<open>The effect that follows a change of the name or the type name.\<close>

definition suggest_type :: "new_block \<Rightarrow> new_block" where
  "suggest_type f =
     (let suggested = pouNameOf (nb_name f) in
      if suggested = [] \<or> nb_typeEdited f then f
      else f\<lparr>nb_st := (if nb_st f = ST_SKELETON (nb_typeName f) then ST_SKELETON suggested else nb_st f), nb_typeName := suggested\<rparr>)"

lemma suggest_once: "suggest_type (suggest_type f) = suggest_type f"
  by (simp add: suggest_type_def Let_def)

definition onTypeName :: "string \<Rightarrow> new_block \<Rightarrow> new_block" where
  "onTypeName v f =
     f\<lparr>nb_st := (if nb_st f = ST_SKELETON (nb_typeName f) then ST_SKELETON v else nb_st f), nb_typeName := v, nb_typeEdited := True\<rparr>"

datatype block_edit = TypeBlockName string | TypeTypeName string | PickCategory string | TypeSource string

definition edit_new_block :: "block_edit \<Rightarrow> new_block \<Rightarrow> new_block" where
  "edit_new_block e f =
     (case e of
        TypeBlockName s \<Rightarrow> suggest_type (f\<lparr>nb_name := s\<rparr>)
      | TypeTypeName s \<Rightarrow> suggest_type (onTypeName s f)
      | PickCategory s \<Rightarrow> f\<lparr>nb_category := s\<rparr>
      | TypeSource s \<Rightarrow> f\<lparr>nb_st := s\<rparr>)"

record block_request =
  br_name :: string
  br_category :: string
  br_inputs :: "(string \<times> string \<times> string) list"
  br_outputs :: "(string \<times> string \<times> string) list"
  br_st :: string

definition mismatch_message :: "(string \<Rightarrow> (string \<times> string) list \<Rightarrow> string) \<Rightarrow> new_block \<Rightarrow> string" where
  "mismatch_message t f =
     t ''home.stTypeMismatch'' [(''declared'', let d = pouInSt (nb_st f) in if d = [] then ''(none)'' else d),
       (''type'', js_trim (nb_typeName f))]"

definition submit_block ::
    "(string \<Rightarrow> (string \<times> string) list \<Rightarrow> string) \<Rightarrow> new_block \<Rightarrow> new_block \<times> block_request option" where
  "submit_block t f =
     (if js_trim (nb_name f) = [] then (f\<lparr>nb_message := t ''home.blockNameRequired'' []\<rparr>, None)
      else if \<not> is_identifier (js_trim (nb_typeName f)) then (f\<lparr>nb_message := t ''home.typeNameValidation'' []\<rparr>, None)
      else if pouInSt (nb_st f) \<noteq> js_trim (nb_typeName f) then (f\<lparr>nb_message := mismatch_message t f\<rparr>, None)
      else (f\<lparr>nb_busy := True\<rparr>,
            Some \<lparr>br_name = js_trim (nb_name f), br_category = nb_category f,
                  br_inputs = [(''IN'', ''input'', ''REAL'')], br_outputs = [(''OUT'', ''output'', ''REAL'')], br_st = nb_st f\<rparr>))"

definition block_answered :: "string + 'a \<Rightarrow> new_block \<Rightarrow> new_block \<times> shell_effect list" where
  "block_answered answer f =
     (case answer of Inl e \<Rightarrow> (f\<lparr>nb_message := e, nb_busy := False\<rparr>, []) | Inr r \<Rightarrow> (f, [GoTo ''/library'']))"

definition file_names :: "new_block \<Rightarrow> string \<times> string" where
  "file_names f =
     (let ty = (if js_trim (nb_typeName f) = [] then ''<Type>'' else js_trim (nb_typeName f))
      in (ty @ ''.block.yaml'', ty @ ''.st''))"

section \<open>The page\<close>

datatype panel = NewProjectPanel new_project | OpenProjectPanel open_project | NewBlockPanel new_block

text \<open>Asking for the panel that is open keeps what was typed there; another one starts afresh.\<close>

definition open_panel :: "provider \<Rightarrow> string \<Rightarrow> panel option \<Rightarrow> panel option" where
  "open_panel p name old =
     (if name = ''new-project'' then
        (case old of Some (NewProjectPanel f) \<Rightarrow> old
         | _ \<Rightarrow> Some (NewProjectPanel (fresh_project (case pv_state p of None \<Rightarrow> [] | Some s \<Rightarrow> la_default_parent_dir s))))
      else if name = ''open-project'' then
        (case old of Some (OpenProjectPanel f) \<Rightarrow> old | _ \<Rightarrow> Some (OpenProjectPanel fresh_open))
      else if name = ''new-block'' then
        (case old of Some (NewBlockPanel f) \<Rightarrow> old | _ \<Rightarrow> Some (NewBlockPanel fresh_block))
      else None)"

text \<open>A click on a recent project: nothing for a folder that is gone, and nothing to see when opening fails.\<close>

definition open_recent :: "recent_project \<Rightarrow> string + 'a \<Rightarrow> shell_effect list" where
  "open_recent row answer =
     (if \<not> rp_exists row then [] else case answer of Inl e \<Rightarrow> [] | Inr r \<Rightarrow> [GoTo ''/device''])"

definition recent_scope :: "(string \<Rightarrow> string) \<Rightarrow> recent_block \<Rightarrow> string" where
  "recent_scope t row =
     (if rb_scope row \<noteq> ''project'' then t ''home.userLibrary''
      else if rb_project row \<noteq> [] then t ''home.projectBlocks'' @ '' '' @ middot @ '' '' @ rb_project row
      else t ''home.projectBlocks'')"

definition recent_counts :: "(string \<Rightarrow> string) \<Rightarrow> recent_project \<Rightarrow> string" where
  "recent_counts t row =
     show_int (rp_stations row) @ '' '' @ t ''home.stations'' @ '' '' @ middot @ '' '' @ show_int (rp_pages row) @ '' ''
     @ t ''home.pages'' @ '' '' @ middot @ '' '' @ show_int (rp_blocks row) @ '' '' @ t ''home.blocks''"

definition scope_hint :: "(string \<Rightarrow> string) \<Rightarrow> project_info option \<Rightarrow> string" where
  "scope_hint t current =
     (case current of
        Some p \<Rightarrow> t ''home.projectBlocks'' @ '' (blocks/) '' @ pi_name p
      | None \<Rightarrow> t ''home.userLibrary'' @ '' ~/.veride/library'')"

definition new_project_hint :: "(string \<Rightarrow> string) \<Rightarrow> new_project \<Rightarrow> string" where
  "new_project_hint t f =
     t ''home.willCreate'' @ '' '' @ (if np_parent f = [] then utf8 [226, 128, 166] else np_parent f) @ '' ''
     @ t ''home.willCreateUnder'' @ '' '' @ (if np_name f = [] then utf8 [226, 128, 166] else np_name f)"

section \<open>Laws\<close>

lemma trim_parts:
  obtains w1 w2 where "v = w1 @ js_trim v @ w2" and "list_all js_is_ws w1" and "list_all js_is_ws w2"
proof -
  have "dropWhile js_is_ws v = js_trim v @ rev (takeWhile js_is_ws (rev (dropWhile js_is_ws v)))"
    unfolding js_trim_def by (metis rev_append rev_rev_ident takeWhile_dropWhile_id)
  then have "v = takeWhile js_is_ws v @ js_trim v @ rev (takeWhile js_is_ws (rev (dropWhile js_is_ws v)))"
    by (metis takeWhile_dropWhile_id)
  then show thesis
    by (rule that) (auto simp: list_all_iff dest: set_takeWhileD)
qed

lemma ws_no_ident: "js_is_ws c \<Longrightarrow> \<not> is_ident_char c"
  by (auto simp: js_is_ws_def is_ident_char_def is_ident_start_def is_digit_def js_in_range_def)

lemma ident_start_char: "is_ident_start c \<Longrightarrow> is_ident_char c \<and> \<not> js_is_ws c"
  using ws_no_ident by (auto simp: is_ident_char_def)

lemma take_ident:
  assumes "is_identifier x" and "r = [] \<or> js_is_ws (hd r)"
  shows "takeWhile is_ident_char (x @ r) = x"
proof -
  have "\<forall>c\<in>set x. is_ident_char c"
    using assms(1) by (cases x) (auto simp: is_identifier_def list_all_iff ident_start_char)
  then show ?thesis
    using assms(2) ws_no_ident by (cases r) (auto simp: takeWhile_append2)
qed

lemma ident_after_name:
  assumes "list_all js_is_ws w" and "w \<noteq> []" and "is_identifier x" and "r = [] \<or> js_is_ws (hd r)"
  shows "ident_after (w @ x @ r) = Some x"
proof -
  have x: "x \<noteq> []" "is_ident_start (hd x)"
    using assms(3) by (auto simp: is_identifier_def split: list.splits)
  then have "dropWhile js_is_ws (w @ x @ r) = x @ r"
    using assms(1) ident_start_char by (cases x) (auto simp: list_all_iff dropWhile_append2)
  then show ?thesis
    using x assms(2) take_ident [OF assms(3,4)] by (simp add: ident_after_def Let_def)
qed

lemma newline_ws: "js_is_ws CHR 0x0A"
  by (simp add: js_is_ws_def)

lemma skeleton_declares:
  assumes "is_identifier (js_trim v)"
  shows "pouInSt (ST_SKELETON v) = js_trim v"
proof -
  obtain w1 w2 where v: "v = w1 @ js_trim v @ w2" and ws: "list_all js_is_ws w1" "list_all js_is_ws w2"
    by (rule trim_parts)
  have "ident_after ((CHR '' '' # w1) @ js_trim v @ w2 @ skeleton_rest) = Some (js_trim v)"
    using ws assms by (intro ident_after_name) (cases w2; simp add: js_is_ws_def skeleton_rest_def newline_def)+
  then have "ident_after (CHR '' '' # v @ skeleton_rest) = Some (js_trim v)"
    using v by (metis append.assoc append_Cons)
  then show ?thesis
    by (simp add: pouInSt_def ST_SKELETON_def strip_keyword_def)
qed

definition touches_source :: "block_edit \<Rightarrow> bool" where
  "touches_source e \<longleftrightarrow> (case e of TypeSource s \<Rightarrow> True | _ \<Rightarrow> False)"

lemma untouched_skeleton:
  assumes "list_all (\<lambda>e. \<not> touches_source e) es"
  shows "nb_st f = ST_SKELETON (nb_typeName f) \<Longrightarrow>
    nb_st (fold edit_new_block es f) = ST_SKELETON (nb_typeName (fold edit_new_block es f))"
  using assms
proof (induction es arbitrary: f)
  case (Cons e es)
  have "nb_st (edit_new_block e f) = ST_SKELETON (nb_typeName (edit_new_block e f))"
    using Cons.prems by (cases e) (auto simp: edit_new_block_def suggest_type_def onTypeName_def touches_source_def Let_def)
  then show ?case
    using Cons by simp
qed simp

text \<open>
  C28: as long as the source is left to the panel, whatever is typed as name and type name, in whatever order,
  the source declares exactly the type name: a block with a name and a valid type name is sent, never refused
  for a source that does not fit.
\<close>

theorem untouched_source_accepted:
  assumes "list_all (\<lambda>e. \<not> touches_source e) es" and "f = fold edit_new_block es fresh_block"
    and "js_trim (nb_name f) \<noteq> []" and "is_identifier (js_trim (nb_typeName f))"
  shows "\<exists>r. submit_block t f = (f\<lparr>nb_busy := True\<rparr>, Some r) \<and> pouInSt (br_st r) = js_trim (nb_typeName f)
    \<and> br_name r = js_trim (nb_name f)"
proof -
  have "nb_st f = ST_SKELETON (nb_typeName f)"
    unfolding assms(2) by (rule untouched_skeleton [OF assms(1)]) (simp add: fresh_block_def)
  then have "pouInSt (nb_st f) = js_trim (nb_typeName f)"
    using skeleton_declares [OF assms(4)] by simp
  then show ?thesis
    using assms(3,4) by (simp add: submit_block_def)
qed

theorem untouched_source_accepted_witness:
  "\<exists>r. submit_block (\<lambda>k a. k) (fold edit_new_block [TypeBlockName ''two speed'', PickCategory ''logic''] fresh_block)
     = ((fold edit_new_block [TypeBlockName ''two speed'', PickCategory ''logic''] fresh_block)\<lparr>nb_busy := True\<rparr>, Some r)
     \<and> pouInSt (br_st r) = ''TWO_SPEED''"
proof -
  let ?f = "fold edit_new_block [TypeBlockName ''two speed'', PickCategory ''logic''] fresh_block"
  have "js_trim (nb_name ?f) \<noteq> []" and "js_trim (nb_typeName ?f) = ''TWO_SPEED''" and "is_identifier ''TWO_SPEED''"
    by code_simp+
  then show ?thesis
    using untouched_source_accepted [OF _ refl, of "[TypeBlockName ''two speed'', PickCategory ''logic'']" "\<lambda>k a. k"]
    by (auto simp: touches_source_def)
qed

section \<open>The message of a mismatch\<close>

text \<open>The two texts of \<open>home.stTypeMismatch\<close>.\<close>

definition mismatch_text :: "string \<Rightarrow> string" where
  "mismatch_text locale =
     (if locale = ''en'' then ''ST declares''
      else ''ST '' @ utf8 [233, 135, 140, 229, 163, 176, 230, 152, 142, 231, 154, 132, 230, 152, 175])"

lemma split_at_none: "pat \<noteq> [] \<Longrightarrow> hd pat \<notin> set s \<Longrightarrow> split_at seen pat s = None"
  by (induction s arbitrary: seen) (auto simp: prefix_def neq_Nil_conv)

lemma no_placeholder: "CHR ''{'' \<notin> set s \<Longrightarrow> js_replace (CHR ''{'' # p) v s = s"
  by (simp add: js_replace_def split_at_none)

text \<open>
  When the source does not declare the type name, the message that refuses it names neither of the two: the
  texts have no place for the names that are handed over, so it reads the same whatever is wrong.
\<close>

theorem mismatch_names_nothing:
  assumes "locale = ''zh-CN'' \<or> locale = ''en''" and "tables locale ''home.stTypeMismatch'' = Some (mismatch_text locale)"
    and "js_trim (nb_name f) \<noteq> []" and "is_identifier (js_trim (nb_typeName f))" and "pouInSt (nb_st f) \<noteq> js_trim (nb_typeName f)"
  shows "submit_block (translate tables locale) f = (f\<lparr>nb_message := mismatch_text locale\<rparr>, None)"
proof -
  have "CHR ''{'' \<notin> set (mismatch_text ''en'')" and "CHR ''{'' \<notin> set (mismatch_text ''zh-CN'')"
    by code_simp+
  then have "CHR ''{'' \<notin> set (mismatch_text locale)"
    using assms(1) by auto
  then have "translate tables locale ''home.stTypeMismatch'' [(''declared'', a), (''type'', b)] = mismatch_text locale" for a b
    using assms(2) by (simp add: translate_def no_placeholder)
  then show ?thesis
    using assms(3-5) by (simp add: submit_block_def mismatch_message_def)
qed

theorem mismatch_names_nothing_witness:
  "snd (submit_block (translate (\<lambda>l k. if k = ''home.stTypeMismatch'' then Some (mismatch_text l) else None) ''en'')
     (fresh_block\<lparr>nb_name := ''Pump'', nb_typeName := ''PUMP''\<rparr>)) = None"
proof -
  let ?f = "fresh_block\<lparr>nb_name := ''Pump'', nb_typeName := ''PUMP''\<rparr>"
  have "js_trim (nb_name ?f) \<noteq> []" and "is_identifier (js_trim (nb_typeName ?f))" and "pouInSt (nb_st ?f) \<noteq> js_trim (nb_typeName ?f)"
    by code_simp+
  then show ?thesis
    using mismatch_names_nothing [of "''en''" "\<lambda>l k. if k = ''home.stTypeMismatch'' then Some (mismatch_text l) else None" ?f]
    by simp
qed

end
