(* ===== verification/JsGroup.thy ===== *)
theory JsGroup
  imports Containers "HOL-Library.Multiset"
begin

text \<open>
  Lists cut into groups by a key, the way the source does it: an object (or a \<open>Map\<close>) of lists that is filled
  row by row. The interface \<open>grouping\<close> extends an ordered dictionary whose values are lists; its laws say that
  a group holds exactly the rows of its key in their order, that the groups come in the order in which their
  keys occur first, and that no row is lost or doubled.
\<close>

section \<open>Keys in the order of their first occurrence\<close>

fun first_occurrences :: "'k list \<Rightarrow> 'k list" where
  "first_occurrences [] = []"
| "first_occurrences (k # ks) = k # filter (\<lambda>j. j \<noteq> k) (first_occurrences ks)"

lemma set_first_occurrences [simp]: "set (first_occurrences ks) = set ks"
  by (induction ks) auto

lemma distinct_first_occurrences [simp]: "distinct (first_occurrences ks)"
  by (induction ks) auto

lemma first_occurrences_snoc:
  "first_occurrences (ks @ [k]) = (if k \<in> set ks then first_occurrences ks else first_occurrences ks @ [k])"
  by (induction ks) auto

section \<open>The interface\<close>

locale grouping = js_ordered_dict empty get put del wf keys
  for empty :: "'m" and get :: "'m \<Rightarrow> 'k \<Rightarrow> 'v list option" and put :: "'k \<Rightarrow> 'v list \<Rightarrow> 'm \<Rightarrow> 'm"
    and del :: "'k \<Rightarrow> 'm \<Rightarrow> 'm" and wf :: "'m \<Rightarrow> bool" and keys :: "'m \<Rightarrow> 'k list" +
  fixes push :: "'k \<Rightarrow> 'v \<Rightarrow> 'm \<Rightarrow> 'm"
  assumes push_eq: "push k v m = put k ((case get m k of None \<Rightarrow> [] | Some vs \<Rightarrow> vs) @ [v]) m"
begin

lemma wf_push: "wf m \<Longrightarrow> wf (push k v m)"
  by (simp add: push_eq wf_put)

lemma get_push:
  "wf m \<Longrightarrow> get (push k v m) j = (if j = k then Some ((case get m k of None \<Rightarrow> [] | Some vs \<Rightarrow> vs) @ [v]) else get m j)"
  by (simp add: push_eq get_put)

lemma keys_push: "wf m \<Longrightarrow> keys (push k v m) = (if k \<in> set (keys m) then keys m else keys m @ [k])"
  by (simp add: push_eq keys_put)

lemma wf_grouped: "wf (fold (\<lambda>v. push (key v) v) vs empty)"
  by (induction vs rule: rev_induct) (simp_all add: wf_push wf_empty)

lemma get_grouped:
  "get (fold (\<lambda>v. push (key v) v) vs empty) k =
     (let g = filter (\<lambda>v. key v = k) vs in if g = [] then None else Some g)"
proof (induction vs rule: rev_induct)
  case (snoc v vs)
  then show ?case
    by (cases "k = key v") (simp_all add: get_push wf_grouped Let_def)
qed (simp add: get_empty)

lemma keys_grouped: "keys (fold (\<lambda>v. push (key v) v) vs empty) = first_occurrences (map key vs)"
  by (induction vs rule: rev_induct) (simp_all add: keys_push wf_grouped first_occurrences_snoc keys_empty)

end

section \<open>Grouping by plain objects\<close>

text \<open>\<open>if (!acc[k]) acc[k] = []; acc[k].push(v)\<close>\<close>

definition obj_push :: "'k \<Rightarrow> 'v \<Rightarrow> ('k, 'v list) obj \<Rightarrow> ('k, 'v list) obj" where
  "obj_push k v o1 = obj_put k ((case obj_get o1 k of None \<Rightarrow> [] | Some vs \<Rightarrow> vs) @ [v]) o1"

definition group_rows :: "('v \<Rightarrow> 'k) \<Rightarrow> 'v list \<Rightarrow> ('k, 'v list) obj" where
  "group_rows key vs = fold (\<lambda>v. obj_push (key v) v) vs []"

interpretation groups: grouping "[]" obj_get obj_put obj_del obj_wf obj_keys obj_push
  by unfold_locales (simp add: obj_push_def)

lemmas group_rows_get = groups.get_grouped [folded group_rows_def]
lemmas group_rows_keys = groups.keys_grouped [folded group_rows_def]
lemmas group_rows_wf = groups.wf_grouped [folded group_rows_def]

text \<open>The entries of the object: each key with its rows.\<close>

lemma obj_entries: "obj_wf o1 \<Longrightarrow> o1 = map (\<lambda>k. (k, the (obj_get o1 k))) (obj_keys o1)"
proof -
  assume "obj_wf o1"
  then have "distinct (map fst o1)"
    by (simp add: obj_wf_def)
  then have "(fst p, the (map_of o1 (fst p))) = p" if "p \<in> set o1" for p
    using that by (simp add: map_of_is_SomeI [of o1 "fst p" "snd p"])
  then show ?thesis
    by (simp add: obj_keys_def obj_get_def map_idI)
qed

lemma group_rows_eq:
  "group_rows key vs = map (\<lambda>k. (k, filter (\<lambda>v. key v = k) vs)) (first_occurrences (map key vs))"
proof -
  have "the (obj_get (group_rows key vs) k) = filter (\<lambda>v. key v = k) vs" if "k \<in> key ` set vs" for k
    using that by (auto simp: group_rows_get filter_empty_conv Let_def)
  then show ?thesis
    by (subst obj_entries [OF group_rows_wf]) (simp add: group_rows_keys)
qed

lemma mset_concat_filter:
  "distinct ks \<Longrightarrow> mset (concat (map (\<lambda>k. filter (\<lambda>v. key v = k) vs) ks)) = mset (filter (\<lambda>v. key v \<in> set ks) vs)"
proof (induction ks)
  case (Cons k ks)
  have "filter_mset (\<lambda>v. key v = k \<or> key v \<in> set ks) (mset vs) =
      filter_mset (\<lambda>v. key v = k) (mset vs) + filter_mset (\<lambda>v. key v \<in> set ks) (mset vs)"
    using Cons.prems by (induction vs) auto
  with Cons show ?case
    by (simp add: mset_filter)
qed simp

lemma group_rows_mset: "mset (concat (map snd (group_rows key vs))) = mset vs"
proof -
  have "mset (concat (map snd (group_rows key vs))) = mset (filter (\<lambda>v. key v \<in> key ` set vs) vs)"
    using mset_concat_filter [of "first_occurrences (map key vs)" key vs] by (simp add: group_rows_eq comp_def)
  also have "filter (\<lambda>v. key v \<in> key ` set vs) vs = vs"
    by (simp add: filter_id_conv)
  finally show ?thesis .
qed

declare obj_push_def [js_eval] group_rows_def [js_eval]

end
