(* ===== verification/Requests.thy ===== *)
theory Requests
  imports Shell JsGroup
begin

text \<open>
  What the pages for the library, the monitor, the waveforms and the download share: a request to the service on
  its fixed port, the three ways in which it ends, the query string of \<open>URLSearchParams\<close>, and numbers in base
  2 and 16.
\<close>

section \<open>Requests and how they end\<close>

datatype http_method = GET | POST | PUT | DELETE

text \<open>
  \<open>Lost\<close>: \<open>fetch\<close> or the reading of the body throws, with the text of the error. \<open>Denied\<close>: \<open>response.ok\<close> is
  false, with the text of the body. \<open>Got\<close>: the parsed body.
\<close>

datatype 'a reply = Lost string | Denied string | Got 'a

definition SERVICE :: string where
  "SERVICE = ''http://localhost:8000''"

text \<open>What a page does to its surroundings.\<close>

datatype page_note = Toast toast_type string string | Alert string | ReloadWindow | SaveFile string

section \<open>Base 2 and 16\<close>

definition radix_char :: "nat \<Rightarrow> char" where
  "radix_char d = (if d < 10 then digit_char d else char_of (87 + d))"

text \<open>\<open>n.toString(b)\<close> of a natural number.\<close>

function show_radix :: "nat \<Rightarrow> nat \<Rightarrow> string" where
  "show_radix b n = (if n < b \<or> b < 2 then [radix_char n] else show_radix b (n div b) @ [radix_char (n mod b)])"
  by pat_completeness auto
termination
  by (relation "measure snd") auto

declare show_radix.simps [simp del]

text \<open>\<open>s.toUpperCase()\<close> of it.\<close>

definition show_upper :: "nat \<Rightarrow> nat \<Rightarrow> string" where
  "show_upper b n = js_to_upper (show_radix b n)"

section \<open>Query strings\<close>

definition hex_upper :: "nat \<Rightarrow> char" where
  "hex_upper d = (if d < 10 then digit_char d else char_of (55 + d))"

definition is_form_plain :: "char \<Rightarrow> bool" where
  "is_form_plain c \<longleftrightarrow> is_ident_char c \<or> c = CHR ''*'' \<or> c = CHR ''-'' \<or> c = CHR ''.''"

text \<open>One byte of \<open>new URLSearchParams\<close> as it is written into the query.\<close>

definition form_byte :: "char \<Rightarrow> string" where
  "form_byte c =
     (if is_form_plain c then [c] else if c = CHR '' '' then ''+''
      else [CHR ''%'', hex_upper (of_char c div 16), hex_upper (of_char c mod 16)])"

definition form_encode :: "string \<Rightarrow> string" where
  "form_encode s = concat (map form_byte s)"

definition query_pair :: "string \<Rightarrow> string \<Rightarrow> string" where
  "query_pair k v = form_encode k @ ''='' @ form_encode v"

declare SERVICE_def [js_eval] radix_char_def [js_eval] show_radix.simps [js_eval] show_upper_def [js_eval]
  hex_upper_def [js_eval] is_form_plain_def [js_eval] form_byte_def [js_eval] form_encode_def [js_eval]
  query_pair_def [js_eval]

section \<open>Laws\<close>

text \<open>The code of a character below the base is found back, so that no two numbers have one notation.\<close>

lemma radix_char_inj: "a < 16 \<Longrightarrow> b < 16 \<Longrightarrow> radix_char a = radix_char b \<Longrightarrow> a = b"
  using arg_cong [of "radix_char a" "radix_char b" "of_char :: char \<Rightarrow> nat"]
  by (auto simp: radix_char_def digit_char_def split: if_splits)

lemma hex_upper_inj: "a < 16 \<Longrightarrow> b < 16 \<Longrightarrow> hex_upper a = hex_upper b \<Longrightarrow> a = b"
  using arg_cong [of "hex_upper a" "hex_upper b" "of_char :: char \<Rightarrow> nat"]
  by (auto simp: hex_upper_def digit_char_def split: if_splits)

lemma show_radix_not_Nil [simp]: "show_radix b n \<noteq> []"
  by (subst show_radix.simps) simp

lemma show_radix_long: "2 \<le> b \<Longrightarrow> b \<le> n \<Longrightarrow> 2 \<le> length (show_radix b n)"
  by (subst show_radix.simps) (simp add: Suc_le_eq)

lemma show_radix_inj: "2 \<le> b \<Longrightarrow> b \<le> 16 \<Longrightarrow> show_radix b m = show_radix b n \<Longrightarrow> m = n"
proof (induction m arbitrary: n rule: less_induct)
  case (less m)
  note b = less.prems(1,2)
  have small: "show_radix b k = [radix_char k]" if "k < b" for k
    using that by (subst show_radix.simps) simp
  have big: "show_radix b k = show_radix b (k div b) @ [radix_char (k mod b)]" if "\<not> k < b" for k
    using that b by (subst show_radix.simps) simp
  show ?case
  proof (cases "m < b \<or> n < b")
    case True
    have "length (show_radix b m) = length (show_radix b n)"
      using less.prems(3) by simp
    moreover have "length (show_radix b k) = 1 \<longleftrightarrow> k < b" for k
      using small [of k] show_radix_long [OF b(1), of k] by (cases "k < b") auto
    ultimately have both: "m < b \<and> n < b"
      using True by metis
    then have "radix_char m = radix_char n"
      using less.prems(3) small by simp
    then show ?thesis
      using both b by (intro radix_char_inj) auto
  next
    case False
    then have "show_radix b (m div b) = show_radix b (n div b)" and "radix_char (m mod b) = radix_char (n mod b)"
      using less.prems(3) big [of m] big [of n] by auto
    moreover have "m div b < m" and "m mod b < 16" and "n mod b < 16"
      using False b by (auto intro: order.strict_trans2 [OF mod_less_divisor])
    ultimately have "m div b = n div b" and "m mod b = n mod b"
      using less.IH [OF _ b] radix_char_inj by auto
    then show ?thesis
      by (metis div_mult_mod_eq)
  qed
qed

lemma nibbles_inj:
  assumes "hex_upper (of_char c div 16) = hex_upper (of_char d div 16)"
    and "hex_upper (of_char c mod 16) = hex_upper (of_char d mod 16)"
  shows "c = d"
proof -
  have "of_char e div 16 < (16 :: nat)" for e :: char
    using nat_of_char_less_256 [of e] by (simp add: div_less_iff_less_mult)
  then have "of_char c div 16 = (of_char d div 16 :: nat)" and "of_char c mod 16 = (of_char d mod 16 :: nat)"
    using assms hex_upper_inj by simp_all
  then show ?thesis
    by (metis div_mult_mod_eq of_char_eq_iff)
qed

lemma form_byte_append: "form_byte c @ s = form_byte d @ u \<Longrightarrow> c = d \<and> s = u"
proof -
  have "\<not> is_form_plain (CHR ''%'')" and "\<not> is_form_plain (CHR ''+'')"
    by code_simp+
  then show "form_byte c @ s = form_byte d @ u \<Longrightarrow> c = d \<and> s = u"
    using nibbles_inj [of c d] by (auto simp: form_byte_def split: if_splits)
qed

lemma form_byte_not_Nil [simp]: "form_byte c \<noteq> []"
  by (simp add: form_byte_def)

lemma form_encode_inj: "form_encode s = form_encode u \<Longrightarrow> s = u"
proof (induction s arbitrary: u)
  case Nil
  then show ?case
    by (cases u) (simp_all add: form_encode_def)
next
  case (Cons c s)
  then obtain d u' where u: "u = d # u'"
    by (cases u) (simp_all add: form_encode_def)
  have "form_byte c @ form_encode s = form_byte d @ form_encode u'"
    using Cons.prems by (simp add: u form_encode_def)
  from form_byte_append [OF this] show ?case
    using Cons.IH by (simp add: u)
qed

end
