(* ===== verification/BlockShelf.thy ===== *)
theory BlockShelf
  imports Requests BlockHistory
begin

text \<open>
  The list of blocks (\<open>components/library/BlockLibrary.tsx\<close>): filters and groups, the dialogs, the context menu,
  and the block editor it opens, with the requests it sends and what it tells the page. The editor is the one of
  BlockHistory; a number tells one opened editor from the next, because the answer of a save acts on the editor
  that asked for it.
\<close>

section \<open>Rows\<close>

text \<open>What the service answers beside the members the editor knows; the list reads the first two untyped.\<close>

record library_block = algorithm_block +
  lb_library :: "string option"
  lb_signal :: "string option"
  lb_sha256 :: "string option"

record block_filter =
  fl_category :: string
  fl_time :: string
  fl_signal :: string
  fl_search :: string

definition no_filter :: block_filter where
  "no_filter = \<lparr>fl_category = ''all'', fl_time = ''all'', fl_signal = ''all'', fl_search = []\<rparr>"

definition matches_library :: "string option \<Rightarrow> library_block \<Rightarrow> bool" where
  "matches_library lib b \<longleftrightarrow> (case lib of None \<Rightarrow> True | Some l \<Rightarrow> l = [] \<or> lb_library b = Some l)"

definition matches_text :: "string \<Rightarrow> library_block \<Rightarrow> bool" where
  "matches_text q b \<longleftrightarrow> q = [] \<or> js_includes (js_to_lower (ab_name b)) (js_to_lower q)
     \<or> js_includes (js_to_lower (ab_description b)) (js_to_lower q)"

definition block_matches :: "string option \<Rightarrow> block_filter \<Rightarrow> library_block \<Rightarrow> bool" where
  "block_matches lib f b \<longleftrightarrow>
     (fl_category f = ''all'' \<or> ab_category b = fl_category f)
     \<and> (fl_time f = ''all'' \<or> fl_time f = ''yes'' \<and> ab_time_based b \<or> fl_time f = ''no'' \<and> \<not> ab_time_based b)
     \<and> (fl_signal f = ''all'' \<or> lb_signal b = Some (fl_signal f))
     \<and> matches_library lib b \<and> matches_text (fl_search f) b"

definition filteredBlocks :: "string option \<Rightarrow> block_filter \<Rightarrow> library_block list \<Rightarrow> library_block list" where
  "filteredBlocks lib f blocks = filter (block_matches lib f) blocks"

definition groupedBlocks :: "library_block list \<Rightarrow> (string, library_block list) obj" where
  "groupedBlocks blocks = group_rows ab_category blocks"

section \<open>The state\<close>

record shelf =
  sh_filter :: block_filter
  sh_import_open :: bool
  sh_import_text :: string
  sh_editor :: "(nat \<times> block_editor) option"
  sh_mounts :: nat
  sh_menu :: "(int \<times> int \<times> string) option"

definition new_shelf :: shelf where
  "new_shelf = \<lparr>sh_filter = no_filter, sh_import_open = False, sh_import_text = [], sh_editor = None, sh_mounts = 0,
     sh_menu = None\<rparr>"

record shelf_props =
  sp_blocks :: "library_block list"
  sp_selected :: "string option"
  sp_library :: "string option"

text \<open>\<open>setEditingBlock\<close>: an editor that is open gets the block, otherwise a new one opens with it.\<close>

definition setEditingBlock :: "algorithm_block \<Rightarrow> shelf \<Rightarrow> shelf" where
  "setEditingBlock b s =
     (case sh_editor s of
        None \<Rightarrow> s\<lparr>sh_editor := Some (sh_mounts s, open_editor b), sh_mounts := Suc (sh_mounts s)\<rparr>
      | Some (i, ed) \<Rightarrow> s\<lparr>sh_editor := Some (i, load_block b ed)\<rparr>)"

definition on_editor :: "(nat \<Rightarrow> bool) \<Rightarrow> (block_editor \<Rightarrow> block_editor) \<Rightarrow> shelf \<Rightarrow> shelf" where
  "on_editor here f s = s\<lparr>sh_editor := map_option (\<lambda>(i, ed). (i, if here i then f ed else ed)) (sh_editor s)\<rparr>"

section \<open>Requests\<close>

text \<open>A save on its way: the editor that asked, the library on screen then, and the block.\<close>

record save_call =
  sv_editor :: nat
  sv_library :: "string option"
  sv_block :: algorithm_block

datatype 'j shelf_request = GetBlock string | SendBlock save_call | PostImport 'j | GetExport string

definition save_line :: "save_call \<Rightarrow> http_method \<times> string" where
  "save_line c =
     (if ab_id (sv_block c) = [] then
        (POST, case sv_library c of
            None \<Rightarrow> SERVICE @ ''/library/blocks''
          | Some l \<Rightarrow> if l = [] then SERVICE @ ''/library/blocks'' else SERVICE @ ''/library/libraries/'' @ l @ ''/blocks'')
      else (PUT, SERVICE @ ''/library/blocks/'' @ ab_id (sv_block c)))"

fun request_line :: "'j shelf_request \<Rightarrow> http_method \<times> string" where
  "request_line (GetBlock i) = (GET, SERVICE @ ''/library/blocks/'' @ i)"
| "request_line (SendBlock c) = save_line c"
| "request_line (PostImport j) = (POST, SERVICE @ ''/library/import'')"
| "request_line (GetExport i) = (GET, SERVICE @ ''/library/export/'' @ i)"

text \<open>What the list does outside: a request, a call of one of its properties, or something the user sees.\<close>

datatype 'j shelf_out =
    Ask "'j shelf_request"
  | OnSelect string
  | OnDelete string
  | OnBlockSaved library_block
  | OnRefresh
  | Notify page_note

section \<open>Events\<close>

datatype editor_op = OpEdit field_edit | OpUndo | OpRedo | OpTimer

fun apply_op :: "editor_op \<Rightarrow> block_editor \<Rightarrow> block_editor" where
  "apply_op (OpEdit e) ed = edit_block e ed"
| "apply_op OpUndo ed = undo_block ed"
| "apply_op OpRedo ed = redo_block ed"
| "apply_op OpTimer ed = debounce_fires ed"

datatype filter_edit = PickCategory string | PickTime string | PickSignal string | TypeSearch string

fun edit_filter :: "filter_edit \<Rightarrow> block_filter \<Rightarrow> block_filter" where
  "edit_filter (PickCategory v) f = f\<lparr>fl_category := v\<rparr>"
| "edit_filter (PickTime v) f = f\<lparr>fl_time := v\<rparr>"
| "edit_filter (PickSignal v) f = f\<lparr>fl_signal := v\<rparr>"
| "edit_filter (TypeSearch v) f = f\<lparr>fl_search := v\<rparr>"

datatype menu_choice = MenuEdit | MenuExport | MenuDelete bool

datatype 'j shelf_event =
    EditFilter filter_edit
  | ClickBlock string
  | DoubleClick string
  | BlockLoaded "library_block reply"
  | RightClick int int string
  | ClickWindow
  | ChooseEntry menu_choice
  | ExportButton string
  | DeleteButton string bool
  | ExportAnswered "string reply"
  | OpenImport
  | TypeImport string
  | CancelImport
  | ImportButton
  | ImportAnswered "string reply"
  | CreateButton
  | EditorDo editor_op
  | SaveKey
  | SaveButton
  | SaveAnswered save_call "library_block reply"
  | EditorClose bool

definition new_block_draft :: algorithm_block where
  "new_block_draft =
     \<lparr>ab_id = [], ab_name = ''NewBlock'', ab_category = ''custom'', ab_version = ''1.0.0'', ab_description = [],
      ab_author = [], ab_block_kind = ''FB'', ab_time_based = False, ab_inputs = [], ab_outputs = [], ab_parameters = [],
      ab_st_template = [], ab_icon_svg = [], ab_tags = [], ab_updated_at = None\<rparr>"

text \<open>\<open>handleSave\<close> of the editor up to its request: the block it hands to \<open>onSave\<close> of the list.\<close>

definition start_save :: "string option \<Rightarrow> shelf \<Rightarrow> shelf \<times> 'j shelf_out list" where
  "start_save lib s =
     (case sh_editor s of
        None \<Rightarrow> (s, [])
      | Some (i, ed) \<Rightarrow>
          (s\<lparr>sh_editor := Some (i, fst (save_starts ed))\<rparr>,
           [Ask (SendBlock \<lparr>sv_editor = i, sv_library = lib, sv_block = snd (save_starts ed)\<rparr>)]))"

text \<open>
  \<open>handleSaveBlock\<close> after its request, and the rest of \<open>handleSave\<close>: the editor that asked is told how it went,
  if it is still there.
\<close>

definition finish_save ::
    "(string \<Rightarrow> string) \<Rightarrow> save_call \<Rightarrow> library_block reply \<Rightarrow> shelf \<Rightarrow> shelf \<times> 'j shelf_out list" where
  "finish_save t c answer s =
     (let failed = (\<lambda>e. (on_editor (\<lambda>i. i = sv_editor c) (block_save_answered (Inl e)) s,
                         [Notify (Toast ToastErr (t ''editor.saveFailed'') e)]))
      in case answer of
        Lost e \<Rightarrow> failed e
      | Denied e \<Rightarrow> failed e
      | Got b \<Rightarrow>
          (on_editor (\<lambda>i. i = sv_editor c) (block_save_answered (Inr ())) (setEditingBlock (algorithm_block.truncate b) s),
           [OnBlockSaved b, OnRefresh, Notify (Toast ToastOk (t ''editor.saved'') (ab_name (sv_block c)))]))"

text \<open>The entries of the context menu; each closes it, and the deletion asks back when the block is still listed.\<close>

definition choose_entry :: "shelf_props \<Rightarrow> menu_choice \<Rightarrow> shelf \<Rightarrow> shelf \<times> 'j shelf_out list" where
  "choose_entry p m s =
     (case sh_menu s of
        None \<Rightarrow> (s, [])
      | Some (x, y, i) \<Rightarrow>
          (s\<lparr>sh_menu := None\<rparr>,
           case m of
             MenuEdit \<Rightarrow> [Ask (GetBlock i)]
           | MenuExport \<Rightarrow> [Ask (GetExport i)]
           | MenuDelete confirmed \<Rightarrow>
               if List.find (\<lambda>b. ab_id b = i) (sp_blocks p) \<noteq> None \<and> confirmed then [OnDelete i] else []))"

definition handleImport :: "(string \<Rightarrow> string) \<Rightarrow> (string \<Rightarrow> 'j option) \<Rightarrow> shelf \<Rightarrow> 'j shelf_out list" where
  "handleImport t parse s =
     (case parse (sh_import_text s) of
        None \<Rightarrow> [Notify (Alert (t ''blockLibrary.importFailed''))] | Some j \<Rightarrow> [Ask (PostImport j)])"

definition import_answered :: "(string \<Rightarrow> string) \<Rightarrow> string reply \<Rightarrow> shelf \<Rightarrow> shelf \<times> 'j shelf_out list" where
  "import_answered t r s =
     (case r of
        Lost e \<Rightarrow> (s, [Notify (Alert (t ''blockLibrary.importFailed''))])
      | Denied e \<Rightarrow> (s, [])
      | Got message \<Rightarrow> (s\<lparr>sh_import_open := False, sh_import_text := []\<rparr>, [Notify (Alert message), Notify ReloadWindow]))"

definition export_answered :: "string reply \<Rightarrow> 'j shelf_out list" where
  "export_answered r = (case r of Got name \<Rightarrow> [Notify (SaveFile (name @ ''.json''))] | _ \<Rightarrow> [])"

fun shelf_step ::
    "(string \<Rightarrow> string) \<Rightarrow> (string \<Rightarrow> 'j option) \<Rightarrow> shelf_props \<Rightarrow> 'j shelf_event \<Rightarrow> shelf \<Rightarrow> shelf \<times> 'j shelf_out list" where
  "shelf_step t parse p (EditFilter e) s = (s\<lparr>sh_filter := edit_filter e (sh_filter s)\<rparr>, [])"
| "shelf_step t parse p (ClickBlock i) s = (s\<lparr>sh_menu := None\<rparr>, [OnSelect i])"
| "shelf_step t parse p (DoubleClick i) s = (s, [Ask (GetBlock i)])"
| "shelf_step t parse p (BlockLoaded r) s =
     (case r of Got b \<Rightarrow> (setEditingBlock (algorithm_block.truncate b) s, []) | _ \<Rightarrow> (s, []))"
| "shelf_step t parse p (RightClick x y i) s = (s\<lparr>sh_menu := Some (x, y, i)\<rparr>, [])"
| "shelf_step t parse p ClickWindow s = (s\<lparr>sh_menu := None\<rparr>, [])"
| "shelf_step t parse p (ChooseEntry m) s = choose_entry p m s"
| "shelf_step t parse p (ExportButton i) s = (s, [Ask (GetExport i)])"
| "shelf_step t parse p (DeleteButton i confirmed) s = (s, if confirmed then [OnDelete i] else [])"
| "shelf_step t parse p (ExportAnswered r) s = (s, export_answered r)"
| "shelf_step t parse p OpenImport s = (s\<lparr>sh_import_open := True, sh_menu := None\<rparr>, [])"
| "shelf_step t parse p (TypeImport v) s = (s\<lparr>sh_import_text := v\<rparr>, [])"
| "shelf_step t parse p CancelImport s = (s\<lparr>sh_import_open := False\<rparr>, [])"
| "shelf_step t parse p ImportButton s = (s, handleImport t parse s)"
| "shelf_step t parse p (ImportAnswered r) s = import_answered t r s"
| "shelf_step t parse p CreateButton s = (setEditingBlock new_block_draft (s\<lparr>sh_menu := None\<rparr>), [])"
| "shelf_step t parse p (EditorDo e) s = (on_editor (\<lambda>i. True) (apply_op e) s, [])"
| "shelf_step t parse p SaveKey s = start_save (sp_library p) s"
| "shelf_step t parse p SaveButton s =
     (case sh_editor s of None \<Rightarrow> (s, []) | Some (i, ed) \<Rightarrow> if be_saving ed then (s, []) else start_save (sp_library p) s)"
| "shelf_step t parse p (SaveAnswered c r) s = finish_save t c r s"
| "shelf_step t parse p (EditorClose confirmed) s =
     (case sh_editor s of
        None \<Rightarrow> (s, []) | Some (i, ed) \<Rightarrow> (if close_allowed confirmed ed then s\<lparr>sh_editor := None\<rparr> else s, []))"

section \<open>What is shown\<close>

definition category_label :: "(string \<Rightarrow> string) \<Rightarrow> string \<Rightarrow> string" where
  "category_label t c =
     (if c \<in> set CATEGORIES then t (''blockLibrary.'' @ (if c = ''converter'' then ''convert'' else c)) else c)"

definition CATEGORY_COLORS :: "(string, string) obj" where
  "CATEGORY_COLORS =
     [(''math'', ''blue''), (''control'', ''green''), (''logic'', ''purple''), (''filter'', ''orange''),
      (''converter'', ''cyan''), (''custom'', ''gray'')]"

definition category_color :: "string \<Rightarrow> string" where
  "category_color c = (case obj_get CATEGORY_COLORS c of None \<Rightarrow> ''gray'' | Some v \<Rightarrow> v)"

record block_card =
  cd_id :: string
  cd_name :: string
  cd_chosen :: bool
  cd_description :: string
  cd_version :: string
  cd_ports :: "string \<times> string"
  cd_tags :: "string list"

definition show_card :: "(string \<Rightarrow> string) \<Rightarrow> string option \<Rightarrow> library_block \<Rightarrow> block_card" where
  "show_card t chosen b =
     \<lparr>cd_id = ab_id b, cd_name = ab_name b, cd_chosen = (chosen = Some (ab_id b)), cd_description = ab_description b,
      cd_version = ''v'' @ ab_version b,
      cd_ports = (show_nat (length (ab_inputs b)) @ '' '' @ t ''blockLibrary.inputs'',
                  show_nat (length (ab_outputs b)) @ '' '' @ t ''blockLibrary.outputs''),
      cd_tags = take 3 (ab_tags b)\<rparr>"

text \<open>The groups on screen: label, colour, count and cards.\<close>

definition show_shelf :: "(string \<Rightarrow> string) \<Rightarrow> shelf_props \<Rightarrow> shelf \<Rightarrow> (string \<times> string \<times> string \<times> block_card list) list" where
  "show_shelf t p s =
     map (\<lambda>(c, rows). (category_label t c, category_color c, ''('' @ show_nat (length rows) @ '')'',
                       map (show_card t (sp_selected p)) rows))
       (groupedBlocks (filteredBlocks (sp_library p) (sh_filter s) (sp_blocks p)))"

section \<open>Properties\<close>

text \<open>
  Whatever the filters are, every block that passes them is shown exactly once, under its category; the
  categories come in the order of their first block, none is empty, and inside one the order of the list is kept.
\<close>

theorem shelf_shows_each_once:
  "let rows = filteredBlocks lib f blocks; shown = groupedBlocks rows in
     map fst shown = first_occurrences (map ab_category rows)
     \<and> list_all (\<lambda>(c, g). g \<noteq> [] \<and> g = filter (\<lambda>b. ab_category b = c) rows) shown
     \<and> mset (concat (map snd shown)) = mset rows
     \<and> set rows = {b \<in> set blocks. block_matches lib f b}"
proof -
  let ?rows = "filteredBlocks lib f blocks"
  have "map fst (groupedBlocks ?rows) = first_occurrences (map ab_category ?rows)"
    by (simp add: groupedBlocks_def group_rows_eq comp_def)
  moreover have "list_all (\<lambda>(c, g). g \<noteq> [] \<and> g = filter (\<lambda>b. ab_category b = c) ?rows) (groupedBlocks ?rows)"
    by (auto simp: groupedBlocks_def group_rows_eq list_all_iff filter_empty_conv)
  moreover have "mset (concat (map snd (groupedBlocks ?rows))) = mset ?rows"
    by (simp only: groupedBlocks_def group_rows_mset)
  ultimately show ?thesis
    by (simp add: Let_def filteredBlocks_def)
qed

definition sent_saves :: "'j shelf_out list list \<Rightarrow> save_call list" where
  "sent_saves outs = concat (map (\<lambda>o1. case o1 of Ask (SendBlock c) \<Rightarrow> [c] | _ \<Rightarrow> []) (concat outs))"

text \<open>The call that a save of an open editor makes.\<close>

definition call_of :: "shelf_props \<Rightarrow> nat \<Rightarrow> block_editor \<Rightarrow> save_call" where
  "call_of p i ed = \<lparr>sv_editor = i, sv_library = sp_library p, sv_block = saved_block (be_block ed) (be_fields ed)\<rparr>"

lemma saved_block_id [simp]: "ab_id (saved_block b f) = ab_id b"
  by (simp add: saved_block_def)

lemma load_block_block [simp]: "be_block (load_block b ed) = b"
  by (simp add: load_block_def)

lemma block_save_answered_simps [simp]:
  "be_block (block_save_answered r ed) = be_block ed" "be_fields (block_save_answered r ed) = be_fields ed"
  "be_saving (block_save_answered r ed) = False" "be_dirty (block_save_answered (Inr u) ed) = False"
  by (simp_all add: block_save_answered_def split: sum.splits)

lemma edit_block_block [simp]: "be_block (edit_block e ed) = be_block ed"
  by (simp add: edit_block_def Let_def split: recording.splits)

lemma start_save_open:
  "sh_editor s = Some (i, ed) \<Longrightarrow>
   start_save (sp_library p) s = (s\<lparr>sh_editor := Some (i, ed\<lparr>be_saving := True\<rparr>)\<rparr>, [Ask (SendBlock (call_of p i ed))])"
  by (simp add: start_save_def save_starts_def call_of_def)

lemma finish_save_open:
  "sh_editor s = Some (i, ed) \<Longrightarrow> sv_editor c = i \<Longrightarrow>
   finish_save t c (Got b) s =
     (s\<lparr>sh_editor := Some (i, block_save_answered (Inr ()) (load_block (algorithm_block.truncate b) ed))\<rparr>,
      [OnBlockSaved b, OnRefresh, Notify (Toast ToastOk (t ''editor.saved'') (ab_name (sv_block c)))])"
  by (simp add: finish_save_def setEditingBlock_def on_editor_def)

lemma call_of_editor [simp]: "sv_editor (call_of p i ed) = i"
  by (simp add: call_of_def)

text \<open>
  C18: a new block is created once when its next save waits for the answer: the answer gives the open editor the
  id, and the second save updates that block. The shortcut does not wait: two saves by keyboard create the block
  twice, where the button, disabled while a save is on its way, creates it once.
\<close>

theorem new_block_saves:
  assumes "sh_editor s = Some (i, ed)" and "ab_id (be_block ed) = []" and "ab_id b \<noteq> []" and "\<not> be_saving ed"
  shows "map save_line (sent_saves (snd (run_steps (shelf_step t parse p)
           [SaveKey, SaveAnswered (call_of p i ed) (Got b), SaveKey] s)))
         = [save_line (call_of p i ed), (PUT, SERVICE @ ''/library/blocks/'' @ ab_id b)]
     \<and> map (fst \<circ> save_line) (sent_saves (snd (run_steps (shelf_step t parse p) [SaveKey, SaveKey] s))) = [POST, POST]
     \<and> map (fst \<circ> save_line) (sent_saves (snd (run_steps (shelf_step t parse p) [SaveButton, SaveButton] s))) = [POST]"
proof -
  define ed1 where "ed1 = ed\<lparr>be_saving := True\<rparr>"
  define ed2 where "ed2 = block_save_answered (Inr ()) (load_block (algorithm_block.truncate b) ed1)"
  note opened = start_save_open finish_save_open
  have new: "fst (save_line (call_of p i e)) = POST" if "be_block e = be_block ed" for e
    using assms(2) that by (simp add: save_line_def call_of_def split: option.splits)
  have "ab_id (be_block ed2) = ab_id b"
    by (simp add: ed2_def algorithm_block.defs)
  then have upd: "save_line (call_of p i ed2) = (PUT, SERVICE @ ''/library/blocks/'' @ ab_id b)"
    using assms(3) by (simp add: save_line_def call_of_def)
  have "sent_saves (snd (run_steps (shelf_step t parse p) [SaveKey, SaveAnswered (call_of p i ed) (Got b), SaveKey] s))
      = [call_of p i ed, call_of p i ed2]"
    using assms(1) by (simp add: run_steps_Cons opened ed1_def ed2_def sent_saves_def)
  then show ?thesis
    using new upd assms(1,4) by (simp add: run_steps_Cons opened sent_saves_def)
qed

text \<open>
  What is typed while a save is on its way is lost: the answer carries another time of change, so the editor
  takes all its fields from the answer and counts as saved.
\<close>

theorem typed_while_saving_lost:
  assumes "sh_editor s = Some (i, ed)" and "ab_updated_at b \<noteq> ab_updated_at (be_block ed)"
  shows "\<exists>ed'. sh_editor (fst (run_steps (shelf_step t parse p)
            [SaveKey, EditorDo (OpEdit e), SaveAnswered (call_of p i ed) (Got b)] s)) = Some (i, ed')
          \<and> be_fields ed' = fields_of (algorithm_block.truncate b) \<and> \<not> be_dirty ed' \<and> \<not> be_saving ed'"
proof -
  let ?ed1 = "edit_block e (ed\<lparr>be_saving := True\<rparr>)"
  have "be_fields (load_block (algorithm_block.truncate b) ?ed1) = fields_of (algorithm_block.truncate b)"
    using assms(2) by (simp add: load_block_def algorithm_block.defs)
  then show ?thesis
    using assms(1) by (simp add: run_steps_Cons start_save_open finish_save_open on_editor_def)
qed

text \<open>
  An editor that is closed while its save is on its way comes back: the answer opens it again with the
  stored block.
\<close>

theorem closed_editor_reopens:
  assumes "sh_editor s = Some (i, ed)"
  shows "sh_editor (fst (run_steps (shelf_step t parse p) [SaveKey, EditorClose True] s)) = None
     \<and> sh_editor (fst (run_steps (shelf_step t parse p) [SaveKey, EditorClose True, SaveAnswered (call_of p i ed) (Got b)] s))
       = Some (sh_mounts s, open_editor (algorithm_block.truncate b))"
proof -
  have "block_save_answered (Inr ()) (open_editor a) = open_editor a" for a
    by (simp add: block_save_answered_def open_editor_def)
  then show ?thesis
    by (simp add: run_steps_Cons start_save_open [OF assms] close_allowed_def finish_save_def setEditingBlock_def on_editor_def)
qed

definition stored_row :: library_block where
  "stored_row = algorithm_block.extend (new_block_draft\<lparr>ab_id := ''b1'', ab_updated_at := Some ''2026''\<rparr>)
     \<lparr>lb_library = Some ''user-default'', lb_signal = None, lb_sha256 = None\<rparr>"

definition draft_shelf :: shelf where
  "draft_shelf = setEditingBlock new_block_draft new_shelf"

definition draft_props :: shelf_props where
  "draft_props = \<lparr>sp_blocks = [], sp_selected = None, sp_library = Some ''user-default''\<rparr>"

lemma draft_facts:
  "sh_editor draft_shelf = Some (0, open_editor new_block_draft)" "be_block (open_editor new_block_draft) = new_block_draft"
  "ab_id new_block_draft = []" "ab_updated_at new_block_draft = None" "\<not> be_saving (open_editor new_block_draft)"
  "ab_id stored_row = ''b1''" "ab_updated_at stored_row = Some ''2026''"
  by (simp_all add: draft_shelf_def setEditingBlock_def new_shelf_def open_editor_def new_block_draft_def stored_row_def
      algorithm_block.defs)

theorem new_block_saves_witness:
  "map (fst \<circ> save_line) (sent_saves (snd (run_steps (shelf_step id (\<lambda>s. None :: nat option) draft_props) [SaveKey, SaveKey] draft_shelf)))
     = [POST, POST]
   \<and> map (fst \<circ> save_line) (sent_saves (snd (run_steps (shelf_step id (\<lambda>s. None :: nat option) draft_props) [SaveButton, SaveButton] draft_shelf)))
     = [POST]"
  using new_block_saves [of draft_shelf 0 "open_editor new_block_draft" stored_row id "\<lambda>s. None :: nat option" draft_props]
  by (simp only: draft_facts list.distinct simp_thms)

theorem typed_while_saving_lost_witness:
  "\<exists>ed'. sh_editor (fst (run_steps (shelf_step id (\<lambda>s. None :: nat option) draft_props)
       [SaveKey, EditorDo (OpEdit (EditAuthor ''me'')), SaveAnswered (call_of draft_props 0 (open_editor new_block_draft)) (Got stored_row)]
       draft_shelf)) = Some (0, ed')
     \<and> be_fields ed' = fields_of (algorithm_block.truncate stored_row) \<and> \<not> be_dirty ed' \<and> \<not> be_saving ed'"
  by (rule typed_while_saving_lost) (simp_all add: draft_facts)

theorem closed_editor_reopens_witness:
  "sh_editor (fst (run_steps (shelf_step id (\<lambda>s. None :: nat option) draft_props)
       [SaveKey, EditorClose True, SaveAnswered (call_of draft_props 0 (open_editor new_block_draft)) (Got stored_row)] draft_shelf))
     = Some (1, open_editor (algorithm_block.truncate stored_row))"
proof -
  have "sh_mounts draft_shelf = 1"
    by (simp add: draft_shelf_def setEditingBlock_def new_shelf_def)
  then show ?thesis
    using closed_editor_reopens [of draft_shelf 0 "open_editor new_block_draft" id "\<lambda>s. None :: nat option" draft_props stored_row]
      draft_facts(1) by simp
qed

end
