(* ===== verification/Libraries.thy ===== *)
theory Libraries
  imports BlockShelf
begin

text \<open>
  The page of the block library (\<open>pages/LibraryPage.tsx\<close>) with the list of libraries beside the blocks
  (\<open>components/library/LibraryListPanel.tsx\<close>) and the manager of libraries
  (\<open>components/library/LibraryManager.tsx\<close>). Requests that are on their way are kept in a list, each with the
  values of the rendering it was made in; they may be answered in any order. A component that is not on screen
  any more keeps its requests, but their answers change none of its state: the number of the switch between the
  two tabs tells which component asked.
\<close>

section \<open>State\<close>

record library_info =
  li_id :: string
  li_name :: string
  li_description :: string
  li_owner :: string
  li_version :: string
  li_shared :: bool
  li_blocks_count :: nat
  li_created_at :: string

text \<open>The list of libraries with its dialog; the panel and the manager each have one.\<close>

record library_list =
  ll_libraries :: "library_info list"
  ll_dialog :: bool
  ll_name :: string
  ll_desc :: string

definition new_list :: library_list where
  "new_list = \<lparr>ll_libraries = [], ll_dialog = False, ll_name = [], ll_desc = []\<rparr>"

datatype library_tab = BlocksTab | ManagerTab

text \<open>
  A request with what its continuation reads from the closure: for a deletion the rows and the choice on screen,
  for the panel the library on screen (its \<open>onRefresh\<close> reads the blocks of that library).
\<close>

datatype library_call =
    ReadBlocks "string option"
  | DropBlock string "library_block list" "string option"
  | ShelfCall nat "string shelf_request"
  | ReadLibraries nat
  | PanelCreate nat string string "string option"
  | PanelDelete nat string "string option"
  | PanelClear nat string "string option"
  | PanelExport string
  | PanelImport nat "string option"
  | ManagerCreate nat string string
  | ManagerShare nat string bool
  | ManagerDelete nat string
  | ManagerExport

record library_page =
  lp_tab :: library_tab
  lp_blocks :: "library_block list"
  lp_selected :: "string option"
  lp_library :: "string option"
  lp_shelf :: shelf
  lp_list :: library_list
  lp_mount :: nat
  lp_pending :: "library_call list"
  lp_notes :: "page_note list"

text \<open>Opening the page reads the blocks, and the panel its libraries.\<close>

definition open_library :: library_page where
  "open_library =
     \<lparr>lp_tab = BlocksTab, lp_blocks = [], lp_selected = None, lp_library = Some ''user-default'', lp_shelf = new_shelf,
      lp_list = new_list, lp_mount = 0, lp_pending = [ReadLibraries 0, ReadBlocks (Some ''user-default'')], lp_notes = []\<rparr>"

section \<open>Requests\<close>

definition blocks_url :: "string option \<Rightarrow> string" where
  "blocks_url lib = SERVICE @ ''/library/blocks?''
     @ (case lib of None \<Rightarrow> [] | Some l \<Rightarrow> if l = [] then [] else query_pair ''library_id'' l)"

definition libraries_url :: "string \<Rightarrow> string" where
  "libraries_url rest = SERVICE @ ''/library/libraries'' @ rest"

fun call_line :: "library_call \<Rightarrow> http_method \<times> string" where
  "call_line (ReadBlocks lib) = (GET, blocks_url lib)"
| "call_line (DropBlock i rows chosen) = (DELETE, SERVICE @ ''/library/blocks/'' @ i)"
| "call_line (ShelfCall m r) = request_line r"
| "call_line (ReadLibraries m) = (GET, libraries_url [])"
| "call_line (PanelCreate m name desc lib) = (POST, libraries_url [])"
| "call_line (PanelDelete m i lib) = (DELETE, libraries_url (CHR ''/'' # i))"
| "call_line (PanelClear m i lib) = (POST, libraries_url (CHR ''/'' # i @ ''/clear''))"
| "call_line (PanelExport i) = (GET, libraries_url (CHR ''/'' # i @ ''/export-zip''))"
| "call_line (PanelImport m lib) = (POST, libraries_url ''/import-zip'')"
| "call_line (ManagerCreate m name desc) = (POST, libraries_url [])"
| "call_line (ManagerShare m i shared) =
     (POST, libraries_url (CHR ''/'' # i @ ''/share?shared='' @ (if shared then ''true'' else ''false'')))"
| "call_line (ManagerDelete m i) = (DELETE, libraries_url (CHR ''/'' # i))"
| "call_line ManagerExport = (GET, SERVICE @ ''/library/export/library'')"

definition send :: "library_call \<Rightarrow> library_page \<Rightarrow> library_page" where
  "send c p = p\<lparr>lp_pending := lp_pending p @ [c]\<rparr>"

definition notify :: "page_note list \<Rightarrow> library_page \<Rightarrow> library_page" where
  "notify ns p = p\<lparr>lp_notes := lp_notes p @ ns\<rparr>"

section \<open>The blocks\<close>

text \<open>\<open>setSelectedLibrary\<close> and the effect that follows a change of it.\<close>

definition setSelectedLibrary :: "string \<Rightarrow> library_page \<Rightarrow> library_page" where
  "setSelectedLibrary i p =
     (if lp_library p = Some i then p else send (ReadBlocks (Some i)) (p\<lparr>lp_library := Some i\<rparr>))"

definition handleBlockSaved :: "library_block \<Rightarrow> library_page \<Rightarrow> library_page" where
  "handleBlockSaved b p = p\<lparr>lp_blocks := map (\<lambda>x. if ab_id x = ab_id b then b else x) (lp_blocks p)\<rparr>"

definition handleDeleteBlock :: "string \<Rightarrow> library_page \<Rightarrow> library_page" where
  "handleDeleteBlock i p = send (DropBlock i (lp_blocks p) (lp_selected p)) p"

definition block_deleted ::
    "(string \<Rightarrow> string) \<Rightarrow> string \<Rightarrow> library_block list \<Rightarrow> string option \<Rightarrow> unit reply \<Rightarrow> library_page \<Rightarrow> library_page" where
  "block_deleted t i rows chosen r p =
     (case r of
        Got u \<Rightarrow>
          notify [Toast ToastOk (t ''library.blockDeleted'') i]
            (p\<lparr>lp_blocks := filter (\<lambda>b. ab_id b \<noteq> i) rows, lp_selected := (if chosen = Some i then None else lp_selected p)\<rparr>)
      | Denied e \<Rightarrow> notify [Toast ToastErr (t ''library.deleteFailed'') (t ''library.deleteFailedMsg'' @ '' '' @ i)] p
      | Lost e \<Rightarrow> notify [Toast ToastErr (t ''library.deleteFailed'') e] p)"

text \<open>What the list of blocks hands to the page; \<open>lib\<close> is the library of the rendering its handler belongs to.\<close>

fun hand_over :: "string option \<Rightarrow> string shelf_out \<Rightarrow> library_page \<Rightarrow> library_page" where
  "hand_over lib (Ask r) p = send (ShelfCall (lp_mount p) r) p"
| "hand_over lib (OnSelect i) p = p\<lparr>lp_selected := Some i\<rparr>"
| "hand_over lib (OnDelete i) p = handleDeleteBlock i p"
| "hand_over lib (OnBlockSaved b) p = handleBlockSaved b p"
| "hand_over lib OnRefresh p = send (ReadBlocks lib) p"
| "hand_over lib (Notify n) p = notify [n] p"

definition shelf_props_of :: "library_page \<Rightarrow> shelf_props" where
  "shelf_props_of p = \<lparr>sp_blocks = lp_blocks p, sp_selected = lp_selected p, sp_library = lp_library p\<rparr>"

text \<open>An event of the list of blocks that was mounted as number \<open>m\<close>.\<close>

definition shelf_event ::
    "(string \<Rightarrow> string) \<Rightarrow> (string \<Rightarrow> string option) \<Rightarrow> nat \<Rightarrow> string option \<Rightarrow> string shelf_event \<Rightarrow> library_page \<Rightarrow> library_page" where
  "shelf_event t parse m lib e p =
     (let here = (m = lp_mount p \<and> lp_tab p = BlocksTab);
          (s, outs) = shelf_step t parse (shelf_props_of p) e (if here then lp_shelf p else new_shelf)
      in fold (hand_over lib) outs (if here then p\<lparr>lp_shelf := s\<rparr> else p))"

section \<open>Answers\<close>

datatype library_answer =
    BlocksAre "library_block list reply"
  | BlockIs "library_block reply"
  | LibrariesAre "library_info list reply"
  | TextIs "string reply"
  | DoneIs "unit reply"

definition on_list :: "nat \<Rightarrow> (library_list \<Rightarrow> library_list) \<Rightarrow> library_page \<Rightarrow> library_page" where
  "on_list m f p = (if m = lp_mount p then p\<lparr>lp_list := f (lp_list p)\<rparr> else p)"

definition created_list :: "library_list \<Rightarrow> library_list" where
  "created_list l = l\<lparr>ll_dialog := False, ll_name := [], ll_desc := []\<rparr>"

text \<open>\<open>fetchLibraries(); onRefresh();\<close>\<close>

definition read_again :: "nat \<Rightarrow> string option \<Rightarrow> library_page \<Rightarrow> library_page" where
  "read_again m lib p = send (ReadBlocks lib) (send (ReadLibraries m) p)"

definition panel_created :: "(string \<Rightarrow> string) \<Rightarrow> nat \<Rightarrow> string \<Rightarrow> string option \<Rightarrow> unit reply \<Rightarrow> library_page \<Rightarrow> library_page" where
  "panel_created t m name lib r p =
     (case r of
        Got u \<Rightarrow> read_again m lib (on_list m created_list (notify [Toast ToastOk (t ''libraryManager.created'') name] p))
      | Denied e \<Rightarrow> notify [Toast ToastErr (t ''libraryManager.createFailed'') e] p
      | Lost e \<Rightarrow> notify [Toast ToastErr (t ''libraryManager.createFailed'') e] p)"

definition panel_deleted :: "(string \<Rightarrow> string) \<Rightarrow> nat \<Rightarrow> string \<Rightarrow> string option \<Rightarrow> unit reply \<Rightarrow> library_page \<Rightarrow> library_page" where
  "panel_deleted t m i lib r p =
     (case r of
        Got u \<Rightarrow>
          (let p1 = read_again m lib (notify [Toast ToastOk (t ''libraryManager.deleted'') i] p)
           in if lib = Some i then setSelectedLibrary ''user-default'' p1 else p1)
      | Denied e \<Rightarrow> p
      | Lost e \<Rightarrow> notify [Toast ToastErr (t ''libraryManager.deleteFailed'') e] p)"

definition panel_cleared :: "(string \<Rightarrow> string) \<Rightarrow> nat \<Rightarrow> string \<Rightarrow> string option \<Rightarrow> unit reply \<Rightarrow> library_page \<Rightarrow> library_page" where
  "panel_cleared t m i lib r p =
     (case r of
        Got u \<Rightarrow> read_again m lib (notify [Toast ToastOk (t ''libraryManager.cleared'') i] p)
      | Denied e \<Rightarrow> p
      | Lost e \<Rightarrow> notify [Toast ToastErr (t ''libraryManager.clearFailed'') e] p)"

definition panel_exported :: "(string \<Rightarrow> string) \<Rightarrow> string \<Rightarrow> unit reply \<Rightarrow> library_page \<Rightarrow> library_page" where
  "panel_exported t i r p =
     (case r of
        Got u \<Rightarrow> notify [SaveFile (i @ ''.zip''), Toast ToastOk (t ''libraryManager.exported'') i] p
      | Denied e \<Rightarrow> p
      | Lost e \<Rightarrow> notify [Toast ToastErr (t ''libraryManager.exportFailed'') e] p)"

text \<open>\<open>r\<close> gives the id of the library that the archive brought.\<close>

definition panel_imported :: "(string \<Rightarrow> string) \<Rightarrow> nat \<Rightarrow> string option \<Rightarrow> string reply \<Rightarrow> library_page \<Rightarrow> library_page" where
  "panel_imported t m lib r p =
     (case r of
        Got i \<Rightarrow> read_again m lib (notify [Toast ToastOk (t ''libraryManager.imported'') i] p)
      | Denied e \<Rightarrow> notify [Toast ToastErr (t ''libraryManager.importFailed'') e] p
      | Lost e \<Rightarrow> notify [Toast ToastErr (t ''libraryManager.importFailed'') e] p)"

text \<open>The manager reports no failure: only an answer that is fine has an effect.\<close>

definition if_got :: "'a reply \<Rightarrow> ('a \<Rightarrow> library_page \<Rightarrow> library_page) \<Rightarrow> library_page \<Rightarrow> library_page" where
  "if_got r f p = (case r of Got a \<Rightarrow> f a p | _ \<Rightarrow> p)"

fun answer_shelf :: "string shelf_request \<Rightarrow> library_answer \<Rightarrow> (string option \<times> string shelf_event) option" where
  "answer_shelf (GetBlock i) (BlockIs r) = Some (None, BlockLoaded r)"
| "answer_shelf (SendBlock c) (BlockIs r) = Some (sv_library c, SaveAnswered c r)"
| "answer_shelf (PostImport j) (TextIs r) = Some (None, ImportAnswered r)"
| "answer_shelf (GetExport i) (TextIs r) = Some (None, ExportAnswered r)"
| "answer_shelf _ _ = None"

definition answered ::
    "(string \<Rightarrow> string) \<Rightarrow> (string \<Rightarrow> string option) \<Rightarrow> library_call \<Rightarrow> library_answer \<Rightarrow> library_page \<Rightarrow> library_page" where
  "answered t parse c a p =
     (case c of
        ReadBlocks lib \<Rightarrow> (case a of BlocksAre r \<Rightarrow> if_got r (\<lambda>rows p. p\<lparr>lp_blocks := rows\<rparr>) p | _ \<Rightarrow> p)
      | DropBlock i rows chosen \<Rightarrow> (case a of DoneIs r \<Rightarrow> block_deleted t i rows chosen r p | _ \<Rightarrow> p)
      | ShelfCall m q \<Rightarrow> (case answer_shelf q a of None \<Rightarrow> p | Some (lib, e) \<Rightarrow> shelf_event t parse m lib e p)
      | ReadLibraries m \<Rightarrow> (case a of LibrariesAre r \<Rightarrow> if_got r (\<lambda>libs. on_list m (\<lambda>l. l\<lparr>ll_libraries := libs\<rparr>)) p | _ \<Rightarrow> p)
      | PanelCreate m name desc lib \<Rightarrow> (case a of DoneIs r \<Rightarrow> panel_created t m name lib r p | _ \<Rightarrow> p)
      | PanelDelete m i lib \<Rightarrow> (case a of DoneIs r \<Rightarrow> panel_deleted t m i lib r p | _ \<Rightarrow> p)
      | PanelClear m i lib \<Rightarrow> (case a of DoneIs r \<Rightarrow> panel_cleared t m i lib r p | _ \<Rightarrow> p)
      | PanelExport i \<Rightarrow> (case a of DoneIs r \<Rightarrow> panel_exported t i r p | _ \<Rightarrow> p)
      | PanelImport m lib \<Rightarrow> (case a of TextIs r \<Rightarrow> panel_imported t m lib r p | _ \<Rightarrow> p)
      | ManagerCreate m name desc \<Rightarrow> (case a of DoneIs r \<Rightarrow> if_got r (\<lambda>u p. send (ReadLibraries m) (on_list m created_list p)) p | _ \<Rightarrow> p)
      | ManagerShare m i shared \<Rightarrow> (case a of DoneIs r \<Rightarrow> if_got r (\<lambda>u. send (ReadLibraries m)) p | _ \<Rightarrow> p)
      | ManagerDelete m i \<Rightarrow> (case a of DoneIs r \<Rightarrow> if_got r (\<lambda>u. send (ReadLibraries m)) p | _ \<Rightarrow> p)
      | ManagerExport \<Rightarrow> (case a of DoneIs r \<Rightarrow> if_got r (\<lambda>u. notify [SaveFile ''algorithm_library.json'']) p | _ \<Rightarrow> p))"

section \<open>Events\<close>

datatype library_event =
    SelectTab library_tab
  | Shelf "string shelf_event"
  | PickLibrary string
  | OpenCreate
  | CloseCreate
  | TypeName string
  | TypeDesc string
  | CreateLibrary
  | RemoveLibrary string bool
  | ClearLibrary string bool
  | ExportZip string
  | ChooseZip bool
  | ToggleShare string bool
  | ExportLibrary
  | Answered nat library_answer

text \<open>The component of the other tab opens with a fresh state and reads its libraries.\<close>

definition select_tab :: "library_tab \<Rightarrow> library_page \<Rightarrow> library_page" where
  "select_tab tab p =
     (if tab = lp_tab p then p
      else send (ReadLibraries (Suc (lp_mount p)))
        (p\<lparr>lp_tab := tab, lp_mount := Suc (lp_mount p), lp_shelf := new_shelf\<lparr>sh_mounts := sh_mounts (lp_shelf p)\<rparr>,
           lp_list := new_list\<rparr>))"

definition create_library :: "library_page \<Rightarrow> library_page" where
  "create_library p =
     (let l = lp_list p in
      if js_trim (ll_name l) = [] then p
      else case lp_tab p of
        BlocksTab \<Rightarrow> send (PanelCreate (lp_mount p) (ll_name l) (ll_desc l) (lp_library p)) p
      | ManagerTab \<Rightarrow> send (ManagerCreate (lp_mount p) (ll_name l) (ll_desc l)) p)"

definition remove_library :: "string \<Rightarrow> bool \<Rightarrow> library_page \<Rightarrow> library_page" where
  "remove_library i confirmed p =
     (if \<not> confirmed then p
      else case lp_tab p of
        BlocksTab \<Rightarrow> send (PanelDelete (lp_mount p) i (lp_library p)) p
      | ManagerTab \<Rightarrow> send (ManagerDelete (lp_mount p) i) p)"

fun library_step ::
    "(string \<Rightarrow> string) \<Rightarrow> (string \<Rightarrow> string option) \<Rightarrow> library_event \<Rightarrow> library_page \<Rightarrow> library_page" where
  "library_step t parse (SelectTab tab) p = select_tab tab p"
| "library_step t parse (Shelf e) p = shelf_event t parse (lp_mount p) (lp_library p) e p"
| "library_step t parse (PickLibrary i) p = setSelectedLibrary i p"
| "library_step t parse OpenCreate p = p\<lparr>lp_list := (lp_list p)\<lparr>ll_dialog := True\<rparr>\<rparr>"
| "library_step t parse CloseCreate p = p\<lparr>lp_list := (lp_list p)\<lparr>ll_dialog := False\<rparr>\<rparr>"
| "library_step t parse (TypeName v) p = p\<lparr>lp_list := (lp_list p)\<lparr>ll_name := v\<rparr>\<rparr>"
| "library_step t parse (TypeDesc v) p = p\<lparr>lp_list := (lp_list p)\<lparr>ll_desc := v\<rparr>\<rparr>"
| "library_step t parse CreateLibrary p = create_library p"
| "library_step t parse (RemoveLibrary i confirmed) p = remove_library i confirmed p"
| "library_step t parse (ClearLibrary i confirmed) p =
     (if confirmed then send (PanelClear (lp_mount p) i (lp_library p)) p else p)"
| "library_step t parse (ExportZip i) p = send (PanelExport i) p"
| "library_step t parse (ChooseZip chosen) p = (if chosen then send (PanelImport (lp_mount p) (lp_library p)) p else p)"
| "library_step t parse (ToggleShare i shared) p = send (ManagerShare (lp_mount p) i (\<not> shared)) p"
| "library_step t parse ExportLibrary p = send ManagerExport p"
| "library_step t parse (Answered n a) p =
     (if n < length (lp_pending p)
      then answered t parse (lp_pending p ! n) a (p\<lparr>lp_pending := take n (lp_pending p) @ drop (Suc n) (lp_pending p)\<rparr>)
      else p)"

definition library_run ::
    "(string \<Rightarrow> string) \<Rightarrow> (string \<Rightarrow> string option) \<Rightarrow> library_event list \<Rightarrow> library_page \<Rightarrow> library_page" where
  "library_run t parse es p = fold (library_step t parse) es p"

section \<open>What is shown\<close>

record library_line =
  ln_id :: string
  ln_name :: string
  ln_description :: string
  ln_facts :: "string list"
  ln_chosen :: bool
  ln_buttons :: "string list"

text \<open>A line of the panel; the built-in library can be neither cleared nor deleted there.\<close>

definition show_line :: "(string \<Rightarrow> string) \<Rightarrow> string option \<Rightarrow> library_info \<Rightarrow> library_line" where
  "show_line t chosen l =
     \<lparr>ln_id = li_id l, ln_name = li_name l, ln_description = (if li_description l = [] then ''-'' else li_description l),
      ln_facts = [show_nat (li_blocks_count l) @ '' '' @ t ''library.blockCount'', ''v'' @ li_version l],
      ln_chosen = (chosen = Some (li_id l)),
      ln_buttons = t ''libraryManager.exportZip''
        # (if li_id l = ''builtin'' then [] else [t ''libraryManager.clear'', t ''libraryManager.delete''])\<rparr>"

text \<open>A card of the manager; \<open>day\<close> is the date as the browser writes it.\<close>

definition show_manager_card :: "(string \<Rightarrow> string) \<Rightarrow> (string \<Rightarrow> string) \<Rightarrow> library_info \<Rightarrow> library_line" where
  "show_manager_card t day l =
     \<lparr>ln_id = li_id l, ln_name = li_name l, ln_description = li_description l,
      ln_facts = [show_nat (li_blocks_count l) @ '' '' @ t ''libraryManager.blocks'',
                  if li_owner l = [] then t ''libraryManager.unspecified'' else li_owner l, day (li_created_at l)]
                 @ (if li_shared l then [t ''libraryManager.shared''] else []),
      ln_chosen = False,
      ln_buttons = [t (if li_shared l then ''libraryManager.unshare'' else ''libraryManager.share''), t ''common.delete'']\<rparr>"

text \<open>The details of the chosen block: labels with their texts; nothing while it is not among the rows.\<close>

definition show_details :: "(string \<Rightarrow> string) \<Rightarrow> library_page \<Rightarrow> (string \<times> string list) list option" where
  "show_details t p =
     (if lp_tab p \<noteq> BlocksTab then None
      else case lp_selected p of None \<Rightarrow> None
      | Some i \<Rightarrow> if i = [] then None else
          map_option (\<lambda>b.
            [(t ''library.name'', [ab_name b]), (''ID'', [ab_id b]), (t ''library.category'', [ab_category b]),
             (t ''library.version'', [ab_version b]), (t ''library.description'', [ab_description b]),
             (t ''library.author'', [if ab_author b = [] then ''-'' else ab_author b]),
             (t ''library.inputs'' @ '' ('' @ show_nat (length (ab_inputs b)) @ '')'',
              map (\<lambda>x. bp_name x @ '' '' @ bp_data_type x) (ab_inputs b)),
             (t ''library.outputs'' @ '' ('' @ show_nat (length (ab_outputs b)) @ '')'',
              map (\<lambda>x. bp_name x @ '' '' @ bp_data_type x) (ab_outputs b))]
            @ (if ab_parameters b = [] then []
               else [(t ''library.parameters'' @ '' ('' @ show_nat (length (ab_parameters b)) @ '')'',
                      map (\<lambda>x. pm_name x @ ''= '' @ js_string (pm_default x)) (ab_parameters b))])
            @ (if ab_tags b = [] then [] else [(t ''library.tags'', ab_tags b)])
            @ (if ab_st_template b = [] then [] else [(t ''library.stTemplate'', [ab_st_template b])])
            @ [(''SHA-256'', [case lb_sha256 b of None \<Rightarrow> [] | Some h \<Rightarrow> h])])
          (List.find (\<lambda>b. ab_id b = i) (lp_blocks p)))"

definition show_title :: "(string \<Rightarrow> string) \<Rightarrow> library_page \<Rightarrow> string \<times> string" where
  "show_title t p = (t ''library.title'', show_nat (length (lp_blocks p)) @ '' '' @ t ''library.blockCount'')"

end
