(* ===== verification/LibraryLaws.thy ===== *)
theory LibraryLaws
  imports Libraries
begin

text \<open>
  What the library page promises over requests that overlap: which rows are left when lists or deletions are
  answered in another order than they were asked for, and which refusals of the service the user hears of.
\<close>

section \<open>Steps\<close>

lemma library_run_simps [simp]:
  "library_run t parse [] p = p"
  "library_run t parse (e # es) p = library_run t parse es (library_step t parse e p)"
  by (simp_all add: library_run_def)

lemma send_simps [simp]:
  "lp_pending (send c p) = lp_pending p @ [c]" "lp_blocks (send c p) = lp_blocks p" "lp_library (send c p) = lp_library p"
  "lp_tab (send c p) = lp_tab p" "lp_selected (send c p) = lp_selected p" "lp_notes (send c p) = lp_notes p"
  "lp_mount (send c p) = lp_mount p" "lp_shelf (send c p) = lp_shelf p"
  by (simp_all add: send_def)

lemma notify_simps [simp]:
  "lp_pending (notify ns p) = lp_pending p" "lp_blocks (notify ns p) = lp_blocks p" "lp_library (notify ns p) = lp_library p"
  "lp_tab (notify ns p) = lp_tab p" "lp_selected (notify ns p) = lp_selected p" "lp_notes (notify ns p) = lp_notes p @ ns"
  "lp_mount (notify ns p) = lp_mount p" "lp_shelf (notify ns p) = lp_shelf p"
  by (simp_all add: notify_def)

lemma answered_list [simp]: "answered t parse (ReadBlocks lib) (BlocksAre (Got rows)) p = p\<lparr>lp_blocks := rows\<rparr>"
  by (simp add: answered_def if_got_def)

lemma answered_drop [simp]:
  "answered t parse (DropBlock i rows chosen) (DoneIs r) p = block_deleted t i rows chosen r p"
  by (simp add: answered_def)

text \<open>A deletion from a card, once it was confirmed.\<close>

lemma delete_button: "lp_tab p = BlocksTab \<Longrightarrow> library_step t parse (Shelf (DeleteButton i True)) p = handleDeleteBlock i p"
  by (simp add: shelf_event_def)

lemma no_row_of_other_library:
  assumes "\<forall>x\<in>set rows. lb_library x = Some a" and "a \<noteq> b" and "b \<noteq> []"
  shows "filteredBlocks (Some b) f rows = []"
  using assms by (auto simp: filteredBlocks_def filter_empty_conv block_matches_def matches_library_def)

section \<open>Properties\<close>

text \<open>
  Two libraries are picked one after the other. When the service answers in that order the page has the
  rows of the second; when the first answer comes last, the page keeps the rows of the library that was left,
  and since the list passes only rows of the library that is chosen it shows no block at all.
\<close>

theorem late_list_hides_blocks:
  assumes "lp_pending p = []" and "lp_library p \<noteq> Some a" and "a \<noteq> b" and "b \<noteq> []"
    and "\<forall>x\<in>set rows_a. lb_library x = Some a"
  shows "lp_blocks (library_run t parse [PickLibrary a, PickLibrary b, Answered 0 (BlocksAre (Got rows_a)),
           Answered 0 (BlocksAre (Got rows_b))] p) = rows_b
    \<and> (let late = library_run t parse [PickLibrary a, PickLibrary b, Answered 1 (BlocksAre (Got rows_b)),
           Answered 0 (BlocksAre (Got rows_a))] p
       in lp_library late = Some b \<and> lp_pending late = [] \<and> lp_blocks late = rows_a
          \<and> show_shelf t (shelf_props_of late) (lp_shelf late) = [])"
  using assms no_row_of_other_library [OF assms(5,3,4)]
  by (simp add: setSelectedLibrary_def show_shelf_def shelf_props_of_def groupedBlocks_def group_rows_def Let_def)

text \<open>
  A deletion writes the rows of the rendering it was asked for in. Two deletions that wait for each other
  remove both rows; when the second is asked for before the first is answered, the first row comes back.
\<close>

theorem overlapping_deletes:
  assumes "lp_pending p = []" and "lp_tab p = BlocksTab"
  shows "lp_blocks (library_run t parse [Shelf (DeleteButton a True), Answered 0 (DoneIs (Got ())),
           Shelf (DeleteButton b True), Answered 0 (DoneIs (Got ()))] p)
         = filter (\<lambda>x. ab_id x \<noteq> a \<and> ab_id x \<noteq> b) (lp_blocks p)
     \<and> lp_blocks (library_run t parse [Shelf (DeleteButton a True), Shelf (DeleteButton b True),
           Answered 0 (DoneIs (Got ())), Answered 0 (DoneIs (Got ()))] p)
         = filter (\<lambda>x. ab_id x \<noteq> b) (lp_blocks p)"
  using assms by (simp add: delete_button handleDeleteBlock_def block_deleted_def conj_commute del: library_step.simps(2))

text \<open>
  Deleting the library on screen goes back to the default library, but the blocks of the deleted library are
  read once more: when that answer, which has no rows, comes last, the rows of the default library are gone.
\<close>

theorem deleted_library_read_again:
  assumes "lp_pending p = []" and "lp_tab p = BlocksTab" and "lp_library p = Some i" and "i \<noteq> ''user-default''"
  shows "let gone = library_run t parse [RemoveLibrary i True, Answered 0 (DoneIs (Got ()))] p
     in lp_library gone = Some ''user-default''
        \<and> lp_pending gone = [ReadLibraries (lp_mount p), ReadBlocks (Some i), ReadBlocks (Some ''user-default'')]
        \<and> lp_blocks (library_run t parse [Answered 2 (BlocksAre (Got rows)), Answered 1 (BlocksAre (Got []))] gone) = []"
  using assms
  by (simp add: Let_def remove_library_def answered_def if_got_def panel_deleted_def read_again_def setSelectedLibrary_def)

text \<open>The answer with which the service denies a request, by its kind.\<close>

fun denial :: "string \<Rightarrow> library_call \<Rightarrow> library_answer" where
  "denial e (ReadBlocks lib) = BlocksAre (Denied e)"
| "denial e (ShelfCall m (GetBlock i)) = BlockIs (Denied e)"
| "denial e (ShelfCall m (SendBlock c)) = BlockIs (Denied e)"
| "denial e (ShelfCall m q) = TextIs (Denied e)"
| "denial e (ReadLibraries m) = LibrariesAre (Denied e)"
| "denial e (PanelImport m lib) = TextIs (Denied e)"
| "denial e c = DoneIs (Denied e)"

text \<open>
  When the service denies a request, the user is told for four of the thirteen kinds (deleting or saving a
  block, creating or importing a library); every other denial, deletions of whole libraries among them, leaves the
  messages as they are.
\<close>

theorem denials_told:
  "lp_notes (answered t parse c (denial e c) p) = lp_notes p \<longleftrightarrow>
     (case c of DropBlock i rows chosen \<Rightarrow> False | PanelCreate m n d l \<Rightarrow> False | PanelImport m l \<Rightarrow> False
      | ShelfCall m (SendBlock s) \<Rightarrow> False | _ \<Rightarrow> True)"
proof (cases c)
  case (ShelfCall m q)
  then show ?thesis
    by (cases q) (simp_all add: answered_def shelf_event_def finish_save_def import_answered_def export_answered_def Let_def)
qed (simp_all add: answered_def if_got_def block_deleted_def panel_created_def panel_deleted_def panel_cleared_def
    panel_exported_def panel_imported_def)

definition two_rows :: library_page where
  "two_rows = open_library\<lparr>lp_pending := [], lp_blocks := [stored_row, stored_row\<lparr>ab_id := ''b2''\<rparr>]\<rparr>"

lemma two_rows_facts:
  "lp_pending two_rows = []" "lp_tab two_rows = BlocksTab" "lp_library two_rows = Some ''user-default''"
  "map ab_id (lp_blocks two_rows) = [''b1'', ''b2'']" "lb_library stored_row = Some ''user-default''"
  by (simp add: two_rows_def open_library_def, simp add: two_rows_def open_library_def, simp add: two_rows_def open_library_def,
      simp add: two_rows_def stored_row_def algorithm_block.defs, simp add: stored_row_def algorithm_block.defs)

theorem late_list_hides_blocks_witness:
  "lp_blocks (library_run id Some [PickLibrary ''std'', PickLibrary ''user-default'', Answered 1 (BlocksAre (Got [stored_row])),
      Answered 0 (BlocksAre (Got [stored_row\<lparr>lb_library := Some ''std''\<rparr>]))] two_rows) = [stored_row\<lparr>lb_library := Some ''std''\<rparr>]"
  using late_list_hides_blocks [of two_rows "''std''" "''user-default''" "[stored_row\<lparr>lb_library := Some ''std''\<rparr>]" id Some "[stored_row]"]
  by (simp only: two_rows_facts Let_def) simp

theorem overlapping_deletes_witness:
  "map ab_id (lp_blocks (library_run id Some [Shelf (DeleteButton ''b1'' True), Shelf (DeleteButton ''b2'' True),
      Answered 0 (DoneIs (Got ())), Answered 0 (DoneIs (Got ()))] two_rows)) = [''b1'']"
proof -
  have "map ab_id (filter (\<lambda>x. ab_id x \<noteq> ''b2'') (lp_blocks two_rows)) = filter (\<lambda>i. i \<noteq> ''b2'') (map ab_id (lp_blocks two_rows))"
    by (simp add: filter_map comp_def)
  also have "\<dots> = [''b1'']"
    by (simp only: two_rows_facts) simp
  finally show ?thesis
    using overlapping_deletes [OF two_rows_facts(1,2), of id Some "''b1''" "''b2''"] by (simp only: conj_commute)
qed

theorem deleted_library_read_again_witness:
  "lp_blocks (library_run id Some [Answered 2 (BlocksAre (Got [stored_row])), Answered 1 (BlocksAre (Got []))]
     (library_run id Some [RemoveLibrary ''std'' True, Answered 0 (DoneIs (Got ()))] (two_rows\<lparr>lp_library := Some ''std''\<rparr>))) = []"
  using deleted_library_read_again [of "two_rows\<lparr>lp_library := Some ''std''\<rparr>" "''std''" id Some "[stored_row]"]
  by (simp add: two_rows_facts Let_def del: library_run_simps)

end
