(* ===== verification/MonitorTypes.thy ===== *)
theory MonitorTypes
  imports Requests GraphTypes
begin

text \<open>
  The variables of a running station and their values as the monitor shows and sends them: \<open>Variable\<close> and
  \<open>WatchEntry\<close> of \<open>pages/MonitorPage.tsx\<close>, the reading of a typed text by its data type (the same code in
  \<open>components/monitor/VariableInspector.tsx\<close>, \<open>ForceControlPanel.tsx\<close> and \<open>ParameterEditor.tsx\<close>), the texts of
  \<open>WatchTable.tsx\<close>, and the parts of a parameter's name.
\<close>

section \<open>Data\<close>

record mon_var =
  va_name :: string
  va_address :: nat
  va_data_type :: string
  va_var_type :: string
  va_current :: jsval
  va_forced :: jsval
  va_force_status :: string
  va_last_updated :: string
  va_quality :: string

record watch_entry =
  we_id :: string
  we_variable :: string
  we_alias :: "string option"
  we_format :: string

definition find_variable :: "string \<Rightarrow> mon_var list \<Rightarrow> mon_var option" where
  "find_variable name vs = List.find (\<lambda>v. va_name v = name) vs"

definition is_forced :: "mon_var \<Rightarrow> bool" where
  "is_forced v \<longleftrightarrow> va_force_status v = ''forced''"

section \<open>Values\<close>

text \<open>Whether a value counts as true in a condition.\<close>

fun js_truthy :: "jsval \<Rightarrow> bool" where
  "js_truthy (JStr s) \<longleftrightarrow> s \<noteq> []"
| "js_truthy (JNum x) \<longleftrightarrow> x \<noteq> NaN \<and> x \<noteq> Num 0"
| "js_truthy (JBool b) \<longleftrightarrow> b"
| "js_truthy JNull \<longleftrightarrow> False"

text \<open>The typed text as a value of the data type; the types that the code does not name keep the text.\<close>

definition read_value :: "string \<Rightarrow> string \<Rightarrow> jsval" where
  "read_value dataType s =
     (if dataType = ''BOOL'' then JBool (js_to_lower s = ''true'' \<or> s = ''1'')
      else if dataType = ''INT'' \<or> dataType = ''DINT'' then JNum (js_parse_int s)
      else if dataType = ''REAL'' then JNum (js_parse_float s)
      else JStr s)"

text \<open>What \<open>JSON.stringify\<close> makes of a value: a number that is not finite becomes \<open>null\<close>.\<close>

fun wire_value :: "jsval \<Rightarrow> jsval" where
  "wire_value (JNum x) = (if js_is_finite x then JNum x else JNull)"
| "wire_value v = v"

definition show_value :: "mon_var \<Rightarrow> string" where
  "show_value v =
     (if va_data_type v = ''BOOL'' then if js_truthy (va_current v) then ''TRUE'' else ''FALSE''
      else js_string (va_current v))"

text \<open>
  \<open>x.toString(b)\<close>; \<open>fraction\<close> gives the digits of a number that is not integral, which depend on its binary
  rounding.
\<close>

fun radix_text :: "(nat \<Rightarrow> rat \<Rightarrow> string) \<Rightarrow> nat \<Rightarrow> jsnum \<Rightarrow> string" where
  "radix_text fraction b (Num r) =
     (if is_integral r then (if r < 0 then ''-'' else []) @ show_radix b (nat \<lfloor>\<bar>r\<bar>\<rfloor>) else fraction b r)"
| "radix_text fraction b x = show_num x"

text \<open>\<open>formatValue\<close> of the watch table.\<close>

definition watch_text :: "(nat \<Rightarrow> rat \<Rightarrow> string) \<Rightarrow> jsval \<Rightarrow> string \<Rightarrow> string \<Rightarrow> string" where
  "watch_text fraction v format dataType =
     (case v of
        JNull \<Rightarrow> ''-''
      | JNum x \<Rightarrow>
          if format = ''hex'' then ''0x'' @ js_to_upper (radix_text fraction 16 x)
          else if format = ''binary'' then ''0b'' @ radix_text fraction 2 x
          else if dataType = ''BOOL'' then if js_truthy v then ''TRUE'' else ''FALSE'' else js_string v
      | _ \<Rightarrow> if dataType = ''BOOL'' then if js_truthy v then ''TRUE'' else ''FALSE'' else js_string v)"

definition address_text :: "mon_var \<Rightarrow> string" where
  "address_text v = ''0x'' @ show_upper 16 (va_address v)"

section \<open>Names of parameters\<close>

text \<open>The block and the parameter that a name stands for.\<close>

definition split_name :: "string \<Rightarrow> string \<times> string" where
  "split_name name =
     (let parts = js_split (CHR ''_'') name
      in if 1 < length parts then (hd parts, js_join ''_'' (tl parts)) else (''MAIN'', name))"

declare read_value_def [js_eval] split_name_def [js_eval] find_variable_def [js_eval] is_forced_def [js_eval]

section \<open>Types of the values that are sent\<close>

text \<open>The values a data type stands for.\<close>

definition has_type :: "string \<Rightarrow> jsval \<Rightarrow> bool" where
  "has_type dataType v \<longleftrightarrow>
     (if dataType = ''BOOL'' then \<exists>b. v = JBool b
      else if dataType = ''INT'' \<or> dataType = ''DINT'' then \<exists>i. v = JNum (Num (of_int i))
      else if dataType = ''REAL'' then \<exists>r. v = JNum (Num r)
      else \<exists>s. v = JStr s)"

lemma js_parse_int_type: "js_parse_int s = NaN \<or> (\<exists>i. js_parse_int s = Num (of_int i))"
proof -
  have "js_parse_int s = NaN \<or> (\<exists>b n. js_parse_int s = Num (if b then - of_nat n else of_nat n))"
    by (auto simp: js_parse_int_def Let_def)
  moreover have "(if b then - of_nat n else of_nat n :: rat) = of_int (if b then - int n else int n)" for b n
    by simp
  ultimately show ?thesis
    by metis
qed

text \<open>
  C19: whatever is typed, the value that travels to the service has the type of the variable or is \<open>null\<close>: a
  boolean for \<open>BOOL\<close>, an integer for \<open>INT\<close> and \<open>DINT\<close>, a number for \<open>REAL\<close>, the text for the other types; and it
  is \<open>null\<close> exactly when the reading of a number gives no finite one.
\<close>

theorem sent_value_typed:
  "(has_type ty (wire_value (read_value ty s)) \<or> wire_value (read_value ty s) = JNull)
   \<and> (wire_value (read_value ty s) = JNull \<longleftrightarrow>
        ty \<in> {''INT'', ''DINT''} \<and> js_parse_int s = NaN \<or> ty = ''REAL'' \<and> js_is_finite (js_parse_float s) = False)"
proof -
  have "has_type ty (wire_value (JNum (js_parse_int s))) \<or> wire_value (JNum (js_parse_int s)) = JNull"
    "wire_value (JNum (js_parse_int s)) = JNull \<longleftrightarrow> js_parse_int s = NaN" if "ty = ''INT'' \<or> ty = ''DINT''"
    using js_parse_int_type [of s] that by (auto simp: has_type_def js_is_finite_def)
  moreover have "has_type ''REAL'' (wire_value (JNum x)) \<or> wire_value (JNum x) = JNull" for x
    by (cases x) (simp_all add: has_type_def js_is_finite_def)
  moreover have "has_type ''BOOL'' (wire_value (JBool b))" for b
    by (simp add: has_type_def)
  ultimately show ?thesis
    by (simp add: read_value_def) (simp add: has_type_def)
qed

section \<open>The text of a value reads back\<close>

lemma takeWhile_digits [simp]: "takeWhile is_digit (show_nat m) = show_nat m"
  by (simp add: takeWhile_eq_all_conv show_nat_digits)

lemma js_parse_int_show_nat: "js_parse_int (show_nat m) = Num (of_nat m)"
proof -
  have "dropWhile js_is_ws (show_nat m) = show_nat m" and "hd (show_nat m) \<noteq> CHR ''-''" and "hd (show_nat m) \<noteq> CHR ''+''"
    using show_nat_hd_last(1) [of m] digit_not_ws digit_not_sign by (auto intro: dropWhile_idem_front)
  then show ?thesis
    by (simp add: js_parse_int_def digits_val_show_nat Let_def)
qed

lemma js_parse_int_minus: "js_parse_int (CHR ''-'' # show_nat m) = Num (- of_nat m)"
proof -
  have "\<not> js_is_ws (CHR ''-'')"
    by code_simp
  then show ?thesis
    by (simp add: js_parse_int_def digits_val_show_nat Let_def)
qed

lemma js_parse_int_show_rat:
  assumes "\<bar>i\<bar> < 10 ^ 21"
  shows "js_parse_int (show_rat (of_int i)) = Num (of_int i)"
proof (cases "0 \<le> i")
  case True
  then have "show_rat (of_int i) = show_nat (nat i)"
    using assms show_rat_of_nat [of "nat i"] by (simp add: nat_less_iff)
  then show ?thesis
    using True js_parse_int_show_nat [of "nat i"] by simp
next
  case False
  then have "show_rat (of_int (- i)) = show_nat (nat (- i))"
    using assms show_rat_of_nat [of "nat (- i)"] by (simp add: nat_less_iff)
  then have "show_rat (of_int i) = CHR ''-'' # show_nat (nat (- i))"
    using False by (simp add: show_rat_def)
  then show ?thesis
    using False js_parse_int_minus [of "nat (- i)"] by simp
qed

lemma read_signed_show_pos:
  assumes "0 < r" and "decimal_num r"
  shows "read_signed (show_pos r) = Some (Num r, [])" "read_signed (CHR ''-'' # show_pos r) = Some (Num (- r), [])"
  using show_pos_shape [of r] digit_not_sign not_infinity [of "show_pos r"] read_unsigned_show_pos [OF assms]
  by (auto simp: read_signed_def Let_def)

lemma js_parse_float_show_rat:
  assumes "decimal_num r"
  shows "js_parse_float (show_rat r) = Num r"
proof -
  have "dropWhile js_is_ws (show_pos q) = show_pos q" "\<not> js_is_ws (CHR ''-'')" for q
    using show_pos_shape [of q] digit_not_ws by (auto simp: js_is_ws_def intro: dropWhile_idem_front)
  moreover have "js_parse_float ''0'' = Num 0"
    by code_simp
  ultimately show ?thesis
    using read_signed_show_pos [of r] read_signed_show_pos [of "- r"] assms
    by (auto simp: show_rat_def js_parse_float_def decimal_num_uminus)
qed

text \<open>The values of a type whose text is exact: integers below the exponent notation, decimal fractions.\<close>

definition exact_value :: "string \<Rightarrow> jsval \<Rightarrow> bool" where
  "exact_value ty v \<longleftrightarrow>
     has_type ty v
     \<and> (case v of JNum (Num r) \<Rightarrow> (if ty = ''REAL'' then decimal_num r else \<bar>r\<bar> < 10 ^ 21) | _ \<Rightarrow> True)"

lemma read_value_exact:
  assumes "exact_value ty v"
  shows "read_value ty (js_string v) = v"
proof -
  have boolean: "js_to_lower ''true'' = ''true''" "js_to_lower ''false'' = ''false''"
    by code_simp+
  have typed: "has_type ty v"
    using assms by (simp add: exact_value_def)
  consider (b) b where "ty = ''BOOL''" "v = JBool b" | (i) i where "ty = ''INT'' \<or> ty = ''DINT''" "v = JNum (Num (of_int i))"
    | (r) r where "ty = ''REAL''" "v = JNum (Num r)" | (s) s where "ty \<notin> {''BOOL'', ''INT'', ''DINT'', ''REAL''}" "v = JStr s"
    using typed unfolding has_type_def by (auto split: if_splits)
  then show ?thesis
  proof cases
    case b
    then show ?thesis
      using boolean by (simp add: read_value_def)
  next
    case i
    then have "\<bar>i\<bar> < 10 ^ 21"
      using assms by (auto simp: exact_value_def simp flip: of_int_abs)
    then show ?thesis
      using i js_parse_int_show_rat [of i] by (auto simp: read_value_def)
  next
    case r
    then show ?thesis
      using assms js_parse_float_show_rat [of r] by (simp add: read_value_def exact_value_def)
  next
    case s
    then show ?thesis
      by (simp add: read_value_def)
  qed
qed

section \<open>Names read back\<close>

lemma js_split_first:
  "js_split c s = takeWhile (\<lambda>x. x \<noteq> c) s
     # (if c \<in> set s then js_split c (tl (dropWhile (\<lambda>x. x \<noteq> c) s)) else [])"
  by (induction s) (auto split: list.splits)

lemma takeWhile_cut: "c \<in> set s \<Longrightarrow> takeWhile (\<lambda>x. x \<noteq> c) s @ c # tl (dropWhile (\<lambda>x. x \<noteq> c) s) = s"
  by (induction s) auto

lemma split_name_cut:
  "split_name s = (if CHR ''_'' \<in> set s
     then (takeWhile (\<lambda>x. x \<noteq> CHR ''_'') s, tl (dropWhile (\<lambda>x. x \<noteq> CHR ''_'') s)) else (''MAIN'', s))"
  by (simp add: split_name_def js_split_first [of _ s] js_join_split)

lemma split_name_MAIN:
  assumes "CHR ''_'' \<notin> set x"
  shows "split_name (''MAIN_'' @ x) = (''MAIN'', x)" and "split_name x = (''MAIN'', x)"
  using assms by (simp_all add: split_name_cut)

text \<open>
  Block and parameter name a variable, with one exception: a name without an underscore and the same name
  behind \<open>MAIN_\<close> stand for the same parameter of the same block, so one cannot be written apart from the other.
\<close>

theorem parameter_address:
  "split_name a = split_name b \<longleftrightarrow> a = b \<or> (\<exists>x. CHR ''_'' \<notin> set x \<and> {a, b} = {x, ''MAIN_'' @ x})"
proof
  have join: "fst (split_name s) @ ''_'' @ snd (split_name s) = s" if "CHR ''_'' \<in> set s" for s
    using takeWhile_cut [OF that] that by (simp add: split_name_cut)
  assume eq: "split_name a = split_name b"
  consider "CHR ''_'' \<in> set a" "CHR ''_'' \<in> set b" | "CHR ''_'' \<notin> set a" "CHR ''_'' \<notin> set b"
    | "CHR ''_'' \<in> set a" "CHR ''_'' \<notin> set b" | "CHR ''_'' \<notin> set a" "CHR ''_'' \<in> set b"
    by blast
  then show "a = b \<or> (\<exists>x. CHR ''_'' \<notin> set x \<and> {a, b} = {x, ''MAIN_'' @ x})"
  proof cases
    case 1
    then show ?thesis
      using join [of a] join [of b] eq by simp
  next
    case 2
    then show ?thesis
      using eq split_name_MAIN(2) by simp
  next
    case 3
    then have "a = ''MAIN_'' @ b"
      using join [of a] eq split_name_MAIN(2) [of b] by simp
    then show ?thesis
      using 3 by (intro disjI2 exI [of _ b]) auto
  next
    case 4
    then have "b = ''MAIN_'' @ a"
      using join [of b] eq [symmetric] split_name_MAIN(2) [of a] by simp
    then show ?thesis
      using 4 by (intro disjI2 exI [of _ a]) auto
  qed
next
  assume "a = b \<or> (\<exists>x. CHR ''_'' \<notin> set x \<and> {a, b} = {x, ''MAIN_'' @ x})"
  then show "split_name a = split_name b"
    using split_name_MAIN by (auto simp: doubleton_eq_iff)
qed

end
