(* ===== verification/MonitorParts.thy ===== *)
theory MonitorParts
  imports MonitorTypes
begin

text \<open>
  The four views of the monitor page (\<open>components/monitor\<close>): the watch table, the list of variables with its
  force dialog, the panel that forces many variables, and the editor of parameters. Each is a record of its state
  and a step over its events, which gives the calls of the properties the page handed in.
\<close>

text \<open>The properties the page hands in, as they are called.\<close>

datatype monitor_out =
    OnRemove string
  | OnSelectVariable string
  | OnAddToWatch string
  | OnForce string jsval string
  | OnRelease string
  | OnBatchForce "(string \<times> jsval \<times> string) list"
  | OnBatchRelease "string list"
  | OnModify string string jsval string
  | OnBatchModify "(string \<times> string \<times> jsval \<times> string) list"

section \<open>Watch table\<close>

record watch_panel =
  wp_editing :: "string option"
  wp_alias :: string

definition new_watch_panel :: watch_panel where
  "new_watch_panel = \<lparr>wp_editing = None, wp_alias = []\<rparr>"

datatype watch_event = StartAlias string | TypeAlias string | SaveAlias | RemoveEntry string | ClearWatch bool

definition alias_text :: "string option \<Rightarrow> string" where
  "alias_text a = (case a of None \<Rightarrow> [] | Some s \<Rightarrow> s)"

fun watch_step :: "watch_entry list \<Rightarrow> watch_event \<Rightarrow> watch_panel \<Rightarrow> watch_panel \<times> monitor_out list" where
  "watch_step entries (StartAlias i) s =
     (case List.find (\<lambda>e. we_id e = i) entries of
        None \<Rightarrow> (s, []) | Some e \<Rightarrow> (\<lparr>wp_editing = Some i, wp_alias = alias_text (we_alias e)\<rparr>, []))"
| "watch_step entries (TypeAlias v) s = (s\<lparr>wp_alias := v\<rparr>, [])"
| "watch_step entries SaveAlias s = (new_watch_panel, [])"
| "watch_step entries (RemoveEntry i) s = (s, [OnRemove i])"
| "watch_step entries (ClearWatch confirmed) s = (s, if confirmed then map (OnRemove \<circ> we_id) entries else [])"

record watch_row =
  wr_name :: string
  wr_alias :: string
  wr_value :: string
  wr_forced :: string
  wr_type :: string
  wr_status :: string
  wr_time :: string

definition status_text :: "(string \<Rightarrow> string) \<Rightarrow> string \<times> string \<times> string \<Rightarrow> mon_var \<Rightarrow> string" where
  "status_text t keys v =
     (if is_forced v then t (fst keys) else if va_quality v = ''good'' then t (fst (snd keys)) else t (snd (snd keys)))"

text \<open>A row, or nothing while the service does not list the variable; \<open>clock\<close> writes a time.\<close>

definition show_watch_row ::
    "(string \<Rightarrow> string) \<Rightarrow> (string \<Rightarrow> string) \<Rightarrow> (nat \<Rightarrow> rat \<Rightarrow> string) \<Rightarrow> mon_var list \<Rightarrow> watch_panel \<Rightarrow> watch_entry \<Rightarrow> watch_row option" where
  "show_watch_row t clock fraction vs s e =
     map_option (\<lambda>v.
       \<lparr>wr_name = we_variable e,
        wr_alias = (if wp_editing s = Some (we_id e) then wp_alias s
          else if alias_text (we_alias e) = [] then ''-'' else alias_text (we_alias e)),
        wr_value = watch_text fraction (va_current v) (we_format e) (va_data_type v),
        wr_forced = (if va_forced v = JNull then ''-'' else watch_text fraction (va_forced v) (we_format e) (va_data_type v)),
        wr_type = va_data_type v,
        wr_status = status_text t (''watchTable.forced'', ''watchTable.normal'', ''watchTable.abnormal'') v,
        wr_time = clock (va_last_updated v)\<rparr>)
     (find_variable (we_variable e) vs)"

definition show_watch ::
    "(string \<Rightarrow> string) \<Rightarrow> (string \<Rightarrow> string) \<Rightarrow> (nat \<Rightarrow> rat \<Rightarrow> string) \<Rightarrow> mon_var list \<Rightarrow> watch_entry list \<Rightarrow> watch_panel
      \<Rightarrow> string \<times> watch_row list" where
  "show_watch t clock fraction vs entries s =
     (if entries = [] then (t ''watchTable.empty'', [])
      else (show_nat (length entries) @ '' '' @ t ''watchTable.variables'',
            List.map_filter (show_watch_row t clock fraction vs s) entries))"

section \<open>List of variables\<close>

record inspector =
  vi_text :: string
  vi_type :: string
  vi_dialog :: "string option"
  vi_value :: string

definition new_inspector :: inspector where
  "new_inspector = \<lparr>vi_text = [], vi_type = ''all'', vi_dialog = None, vi_value = []\<rparr>"

definition filteredVariables :: "inspector \<Rightarrow> mon_var list \<Rightarrow> mon_var list" where
  "filteredVariables s vs =
     filter (\<lambda>v. js_includes (js_to_lower (va_name v)) (js_to_lower (vi_text s))
                 \<and> (vi_type s = ''all'' \<or> va_var_type v = vi_type s)) vs"

definition handleForce :: "string \<Rightarrow> string \<Rightarrow> inspector \<Rightarrow> inspector \<times> monitor_out list" where
  "handleForce name ty s =
     (s\<lparr>vi_dialog := None, vi_value := []\<rparr>, [OnForce name (read_value ty (vi_value s)) ty])"

datatype inspector_event =
    SearchVariable string
  | PickType string
  | ClickVariable string
  | WatchButton string
  | ReleaseButton string
  | ForceButton string
  | TypeForce string
  | ConfirmForce
  | CancelForce

fun inspector_step :: "mon_var list \<Rightarrow> inspector_event \<Rightarrow> inspector \<Rightarrow> inspector \<times> monitor_out list" where
  "inspector_step vs (SearchVariable v) s = (s\<lparr>vi_text := v\<rparr>, [])"
| "inspector_step vs (PickType v) s = (s\<lparr>vi_type := v\<rparr>, [])"
| "inspector_step vs (ClickVariable n) s = (s, [OnSelectVariable n])"
| "inspector_step vs (WatchButton n) s = (s, [OnAddToWatch n])"
| "inspector_step vs (ReleaseButton n) s = (s, [OnRelease n])"
| "inspector_step vs (ForceButton n) s =
     (case find_variable n vs of
        None \<Rightarrow> (s, []) | Some v \<Rightarrow> (s\<lparr>vi_dialog := Some n, vi_value := js_string (va_current v)\<rparr>, []))"
| "inspector_step vs (TypeForce v) s = (s\<lparr>vi_value := v\<rparr>, [])"
| "inspector_step vs ConfirmForce s =
     (case vi_dialog s of
        None \<Rightarrow> (s, [])
      | Some n \<Rightarrow> (case find_variable n vs of None \<Rightarrow> (s, []) | Some v \<Rightarrow> handleForce n (va_data_type v) s))"
| "inspector_step vs CancelForce s = (s\<lparr>vi_dialog := None\<rparr>, [])"

definition varTypeColors :: "(string, string) obj" where
  "varTypeColors =
     [(''INPUT'', ''blue''), (''OUTPUT'', ''green''), (''IN_OUT'', ''purple''), (''LOCAL'', ''gray''), (''GLOBAL'', ''orange'')]"

record inspector_row =
  ir_name :: string
  ir_chosen :: bool
  ir_address :: string
  ir_value :: string
  ir_kind :: "string \<times> string"
  ir_type :: string
  ir_status :: string
  ir_buttons :: "string list"

definition show_inspector_row :: "(string \<Rightarrow> string) \<Rightarrow> string option \<Rightarrow> mon_var \<Rightarrow> inspector_row" where
  "show_inspector_row t chosen v =
     \<lparr>ir_name = va_name v, ir_chosen = (chosen = Some (va_name v)), ir_address = address_text v, ir_value = show_value v,
      ir_kind = (va_var_type v, case obj_get varTypeColors (va_var_type v) of None \<Rightarrow> ''gray'' | Some c \<Rightarrow> c),
      ir_type = va_data_type v,
      ir_status = status_text t (''monitor.forcedStatus'', ''watchTable.normal'', ''monitor.abnormal'') v,
      ir_buttons = [t ''varInspector.addToWatch'',
                    if is_forced v then t ''varInspector.releaseForce'' else t ''varInspector.forceValue'']\<rparr>"

definition show_inspector :: "(string \<Rightarrow> string) \<Rightarrow> string option \<Rightarrow> mon_var list \<Rightarrow> inspector \<Rightarrow> string \<times> inspector_row list" where
  "show_inspector t chosen vs s =
     (show_nat (length (filteredVariables s vs)) @ '' / '' @ show_nat (length vs),
      map (show_inspector_row t chosen) (filteredVariables s vs))"

section \<open>Values of many variables\<close>

text \<open>\<open>values[name] || fallback\<close>\<close>

definition typed_or :: "(string, string) obj \<Rightarrow> string \<Rightarrow> string \<Rightarrow> string" where
  "typed_or values n fallback =
     (case obj_get values n of None \<Rightarrow> fallback | Some s \<Rightarrow> if s = [] then fallback else s)"

text \<open>The text of a row in the dialog, and the text that is read when the dialog is confirmed.\<close>

definition dialog_text :: "(string, string) obj \<Rightarrow> mon_var \<Rightarrow> string" where
  "dialog_text values v = typed_or values (va_name v) (js_string (va_current v))"

definition batch_text :: "mon_var list \<Rightarrow> (string, string) obj \<Rightarrow> string \<Rightarrow> string" where
  "batch_text vs values n =
     typed_or values n
       (case find_variable n vs of
          None \<Rightarrow> [] | Some v \<Rightarrow> if js_truthy (va_current v) then js_string (va_current v) else [])"

definition batch_value :: "mon_var list \<Rightarrow> (string, string) obj \<Rightarrow> string \<Rightarrow> jsval \<times> string" where
  "batch_value vs values n =
     (let s = batch_text vs values n
      in case find_variable n vs of
           None \<Rightarrow> (JStr s, ''REAL'')
         | Some v \<Rightarrow> (read_value (va_data_type v) s, if va_data_type v = [] then ''REAL'' else va_data_type v))"

definition toggle_name :: "string \<Rightarrow> string jset \<Rightarrow> string jset" where
  "toggle_name n sel = (if jset_has sel n then jset_remove n sel else jset_add n sel)"

section \<open>Forcing many variables\<close>

record force_panel =
  fp_selected :: "string jset"
  fp_values :: "(string, string) obj"
  fp_dialog :: bool

definition new_force_panel :: force_panel where
  "new_force_panel = \<lparr>fp_selected = [], fp_values = [], fp_dialog = False\<rparr>"

definition forcedVariables :: "mon_var list \<Rightarrow> mon_var list" where
  "forcedVariables vs = filter is_forced vs"

definition availableVariables :: "mon_var list \<Rightarrow> mon_var list" where
  "availableVariables vs = filter (\<lambda>v. \<not> is_forced v) vs"

definition handleBatchForce :: "mon_var list \<Rightarrow> force_panel \<Rightarrow> force_panel \<times> monitor_out list" where
  "handleBatchForce vs s =
     (s\<lparr>fp_selected := [], fp_values := []\<rparr>,
      [OnBatchForce (map (\<lambda>n. (n, batch_value vs (fp_values s) n)) (fp_selected s))])"

datatype force_event =
    ToggleForce string
  | SelectAllVariables
  | DeselectAll
  | HeaderBox bool
  | OpenBatch
  | TypeBatch string string
  | ConfirmBatch
  | CancelBatch
  | BatchRelease
  | ReleaseRow string

fun force_step :: "mon_var list \<Rightarrow> force_event \<Rightarrow> force_panel \<Rightarrow> force_panel \<times> monitor_out list" where
  "force_step vs (ToggleForce n) s = (s\<lparr>fp_selected := toggle_name n (fp_selected s)\<rparr>, [])"
| "force_step vs SelectAllVariables s = (s\<lparr>fp_selected := jset_of (map va_name vs)\<rparr>, [])"
| "force_step vs DeselectAll s = (s\<lparr>fp_selected := []\<rparr>, [])"
| "force_step vs (HeaderBox checked) s =
     (s\<lparr>fp_selected := (if checked then jset_of (map va_name (availableVariables vs)) else [])\<rparr>, [])"
| "force_step vs OpenBatch s = (s\<lparr>fp_dialog := True\<rparr>, [])"
| "force_step vs (TypeBatch n v) s = (s\<lparr>fp_values := obj_put n v (fp_values s)\<rparr>, [])"
| "force_step vs ConfirmBatch s = (let (s1, outs) = handleBatchForce vs s in (s1\<lparr>fp_dialog := False\<rparr>, outs))"
| "force_step vs CancelBatch s = (s\<lparr>fp_dialog := False\<rparr>, [])"
| "force_step vs BatchRelease s = (s\<lparr>fp_selected := []\<rparr>, [OnBatchRelease (fp_selected s)])"
| "force_step vs (ReleaseRow n) s = (s, [OnRelease n])"

text \<open>Whether the box in the head of the table is ticked.\<close>

definition header_checked :: "mon_var list \<Rightarrow> force_panel \<Rightarrow> bool" where
  "header_checked vs s \<longleftrightarrow>
     length (fp_selected s) = length (availableVariables vs) \<and> length (availableVariables vs) > 0"

record force_view =
  fv_buttons :: "string list"
  fv_header :: bool
  fv_available :: "(bool \<times> string \<times> string \<times> string) list"
  fv_forced :: "(string \<times> string \<times> string) list"
  fv_titles :: "string \<times> string"
  fv_dialog :: "(string \<times> string \<times> string) list option"

definition counted :: "string \<Rightarrow> nat \<Rightarrow> string" where
  "counted label n = label @ '' ('' @ show_nat n @ '')''"

definition dialog_rows :: "mon_var list \<Rightarrow> string jset \<Rightarrow> (string, string) obj \<Rightarrow> (string \<times> string \<times> string) list" where
  "dialog_rows vs sel values =
     List.map_filter (\<lambda>n. map_option (\<lambda>v. (n, va_data_type v, dialog_text values v)) (find_variable n vs)) sel"

definition show_force :: "(string \<Rightarrow> string) \<Rightarrow> mon_var list \<Rightarrow> force_panel \<Rightarrow> force_view" where
  "show_force t vs s =
     \<lparr>fv_buttons = [t ''forceControl.selectAll'', t ''forceControl.deselectAll'']
        @ (if fp_selected s = [] then []
           else [counted (t ''forceControl.batchForce'') (length (fp_selected s)),
                 counted (t ''forceControl.batchRelease'') (length (fp_selected s))]),
      fv_header = header_checked vs s,
      fv_available = map (\<lambda>v. (jset_has (fp_selected s) (va_name v), va_name v, show_value v, va_data_type v)) (availableVariables vs),
      fv_forced = (if forcedVariables vs = [] then [(t ''forceControl.noForced'', [], [])]
        else map (\<lambda>v. (va_name v, if va_forced v = JNull then ''-'' else js_string (va_forced v), show_value v)) (forcedVariables vs)),
      fv_titles = (counted (t ''forceControl.availableVars'') (length (availableVariables vs)),
                   counted (t ''forceControl.forcedVars'') (length (forcedVariables vs))),
      fv_dialog = (if fp_dialog s then Some (dialog_rows vs (fp_selected s) (fp_values s)) else None)\<rparr>"

section \<open>Parameters\<close>

definition is_parameter :: "mon_var \<Rightarrow> bool" where
  "is_parameter v \<longleftrightarrow> va_var_type v = ''LOCAL'' \<or> va_var_type v = ''GLOBAL''"

definition parameterGroups :: "mon_var list \<Rightarrow> (string, mon_var list) obj" where
  "parameterGroups vs = group_rows (\<lambda>v. fst (split_name (va_name v))) (filter is_parameter vs)"

record param_editor =
  pe_editing :: "string jset"
  pe_values :: "(string, string) obj"
  pe_selected :: "string jset"
  pe_dialog :: bool

definition new_param_editor :: param_editor where
  "new_param_editor = \<lparr>pe_editing = [], pe_values = [], pe_selected = [], pe_dialog = False\<rparr>"

definition startEditing :: "string \<Rightarrow> jsval \<Rightarrow> param_editor \<Rightarrow> param_editor" where
  "startEditing n current s =
     s\<lparr>pe_editing := jset_add n (pe_editing s), pe_values := obj_put n (js_string current) (pe_values s)\<rparr>"

definition cancelEditing :: "string \<Rightarrow> param_editor \<Rightarrow> param_editor" where
  "cancelEditing n s = s\<lparr>pe_editing := jset_remove n (pe_editing s), pe_values := obj_del n (pe_values s)\<rparr>"

text \<open>
  \<open>None\<close>: the handler throws, because there is no text for the name and the type asks for a method of it. A number
  type reads a missing text as the text \<open>undefined\<close>, which is no number; any other type hands it on as it is.
\<close>

definition saveEditing :: "string \<Rightarrow> string \<Rightarrow> param_editor \<Rightarrow> (param_editor \<times> monitor_out list) option" where
  "saveEditing n ty s =
     (let (block, param) = split_name n
      in case obj_get (pe_values s) n of
           None \<Rightarrow> if ty = ''BOOL'' then None
             else Some (cancelEditing n s,
               [OnModify block param (if ty \<in> {''INT'', ''DINT'', ''REAL''} then JNum NaN else JNull) ty])
         | Some v \<Rightarrow> Some (cancelEditing n s, [OnModify block param (read_value ty v) ty]))"

definition modification :: "mon_var list \<Rightarrow> (string, string) obj \<Rightarrow> string \<Rightarrow> string \<times> string \<times> jsval \<times> string" where
  "modification vs values n =
     (let (block, param) = split_name n; (value, ty) = batch_value vs values n in (block, param, value, ty))"

definition handleBatchModify :: "mon_var list \<Rightarrow> param_editor \<Rightarrow> param_editor \<times> monitor_out list" where
  "handleBatchModify vs s =
     (s\<lparr>pe_selected := [], pe_dialog := False\<rparr>, [OnBatchModify (map (modification vs (pe_values s)) (pe_selected s))])"

datatype param_event =
    StartEdit string jsval
  | TypeParam string string
  | KeepEdit string string
  | CancelEdit string
  | ToggleParam string
  | GroupBox string bool
  | OpenModify
  | ConfirmModify
  | CancelModify

definition group_box :: "mon_var list \<Rightarrow> string \<Rightarrow> bool \<Rightarrow> string jset \<Rightarrow> string jset" where
  "group_box vs block checked sel =
     (let names = map va_name (case obj_get (parameterGroups vs) block of None \<Rightarrow> [] | Some ps \<Rightarrow> ps)
      in if checked then fold jset_add names sel else fold jset_remove names sel)"

fun param_step :: "mon_var list \<Rightarrow> param_event \<Rightarrow> param_editor \<Rightarrow> (param_editor \<times> monitor_out list) option" where
  "param_step vs (StartEdit n current) s = Some (startEditing n current s, [])"
| "param_step vs (TypeParam n v) s = Some (s\<lparr>pe_values := obj_put n v (pe_values s)\<rparr>, [])"
| "param_step vs (KeepEdit n ty) s = (if jset_has (pe_editing s) n then saveEditing n ty s else Some (s, []))"
| "param_step vs (CancelEdit n) s = Some (cancelEditing n s, [])"
| "param_step vs (ToggleParam n) s = Some (s\<lparr>pe_selected := toggle_name n (pe_selected s)\<rparr>, [])"
| "param_step vs (GroupBox block checked) s = Some (s\<lparr>pe_selected := group_box vs block checked (pe_selected s)\<rparr>, [])"
| "param_step vs OpenModify s = Some (s\<lparr>pe_dialog := True\<rparr>, [])"
| "param_step vs ConfirmModify s = Some (handleBatchModify vs s)"
| "param_step vs CancelModify s = Some (s\<lparr>pe_dialog := False\<rparr>, [])"

definition show_parameter :: "param_editor \<Rightarrow> mon_var \<Rightarrow> bool \<times> string \<times> string \<times> string \<times> string" where
  "show_parameter s v =
     (jset_has (pe_selected s) (va_name v), va_name v, va_data_type v, show_value v,
      if jset_has (pe_editing s) (va_name v) then typed_or (pe_values s) (va_name v) [] else ''-'')"

record param_view =
  pv_counts :: string
  pv_groups :: "(string \<times> bool \<times> (bool \<times> string \<times> string \<times> string \<times> string) list) list"
  pv_dialog :: "(string \<times> string \<times> string) list option"

definition show_parameters :: "(string \<Rightarrow> string) \<Rightarrow> mon_var list \<Rightarrow> param_editor \<Rightarrow> param_view" where
  "show_parameters t vs s =
     (let groups = parameterGroups vs in
      \<lparr>pv_counts = show_nat (length groups) @ '' '' @ t ''paramEditor.functionBlocks'' @ utf8 [239, 188, 140]
         @ show_nat (length (filter is_parameter vs)) @ '' '' @ t ''paramEditor.paramCount'',
       pv_groups = map (\<lambda>(block, ps).
         (t ''paramEditor.functionBlock'' @ '' '' @ block @ ''('' @ show_nat (length ps) @ '' '' @ t ''paramEditor.paramCount'' @ '')'',
          list_all (\<lambda>v. jset_has (pe_selected s) (va_name v)) ps,
          map (show_parameter s) ps)) groups,
       pv_dialog = (if pe_dialog s then Some (dialog_rows vs (pe_selected s) (pe_values s)) else None)\<rparr>)"

end
