(* ===== verification/MonitorPage.thy ===== *)
theory MonitorPage
  imports MonitorParts Simulation
begin

text \<open>
  The monitor page (\<open>pages/MonitorPage.tsx\<close>): the variables it polls, the watch table, forcing and releasing, and
  the four views, one of which is on screen. Requests on their way are a list, each with the values of the
  rendering it was made in; the handler that awaits two requests leaves a second call when the first is answered.
\<close>

section \<open>State\<close>

datatype monitor_tab = WatchTab | VariablesTab | ForceTab | ParametersTab

text \<open>
  \<open>ReadAfter done failed\<close>: the variables are read after a force or a release that was accepted, with what is
  shown when the reading is over, and the title shown when it throws.
\<close>

datatype monitor_call =
    PollVariables
  | ReadWatch
  | AddWatch string "watch_entry list"
  | DropWatch string "watch_entry list"
  | SendForce string jsval string
  | SendRelease string
  | ReadAfter page_note string

record monitor_page =
  mp_tab :: monitor_tab
  mp_variables :: "mon_var list"
  mp_watch :: "watch_entry list"
  mp_selected :: "string option"
  mp_interval :: jsnum
  mp_auto :: bool
  mp_panel :: watch_panel
  mp_inspector :: inspector
  mp_force :: force_panel
  mp_params :: param_editor
  mp_pending :: "monitor_call list"
  mp_notes :: "page_note list"

definition open_monitor :: monitor_page where
  "open_monitor =
     \<lparr>mp_tab = WatchTab, mp_variables = [], mp_watch = [], mp_selected = None, mp_interval = Num 1000, mp_auto = True,
      mp_panel = new_watch_panel, mp_inspector = new_inspector, mp_force = new_force_panel, mp_params = new_param_editor,
      mp_pending = [PollVariables, ReadWatch], mp_notes = []\<rparr>"

section \<open>Requests\<close>

fun monitor_line :: "monitor_call \<Rightarrow> http_method \<times> string" where
  "monitor_line PollVariables = (GET, SERVICE @ ''/monitor/variables'')"
| "monitor_line ReadWatch = (GET, SERVICE @ ''/monitor/watch'')"
| "monitor_line (AddWatch n ws) = (POST, SERVICE @ ''/monitor/watch'')"
| "monitor_line (DropWatch i ws) = (DELETE, SERVICE @ ''/monitor/watch/'' @ i)"
| "monitor_line (SendForce n v ty) = (POST, SERVICE @ ''/monitor/force'')"
| "monitor_line (SendRelease n) = (POST, SERVICE @ ''/monitor/release/'' @ n)"
| "monitor_line (ReadAfter ok failed) = (GET, SERVICE @ ''/monitor/variables'')"

text \<open>The body of a force: variable, value, type, and that it does not outlive the session.\<close>

record force_body =
  bd_variable_name :: string
  bd_force_value :: jsval
  bd_data_type :: string
  bd_persistent :: bool

definition body_of_force :: "string \<Rightarrow> jsval \<Rightarrow> string \<Rightarrow> force_body" where
  "body_of_force n v ty =
     \<lparr>bd_variable_name = n, bd_force_value = wire_value v, bd_data_type = ty, bd_persistent = False\<rparr>"

definition ask :: "monitor_call \<Rightarrow> monitor_page \<Rightarrow> monitor_page" where
  "ask c p = p\<lparr>mp_pending := mp_pending p @ [c]\<rparr>"

definition say :: "page_note \<Rightarrow> monitor_page \<Rightarrow> monitor_page" where
  "say n p = p\<lparr>mp_notes := mp_notes p @ [n]\<rparr>"

text \<open>The page hands the batch operations and the editor of parameters functions that do nothing.\<close>

fun do_call :: "monitor_out \<Rightarrow> monitor_page \<Rightarrow> monitor_page" where
  "do_call (OnRemove i) p = ask (DropWatch i (mp_watch p)) p"
| "do_call (OnSelectVariable n) p = p\<lparr>mp_selected := Some n\<rparr>"
| "do_call (OnAddToWatch n) p = ask (AddWatch n (mp_watch p)) p"
| "do_call (OnForce n v ty) p = ask (SendForce n v ty) p"
| "do_call (OnRelease n) p = ask (SendRelease n) p"
| "do_call (OnBatchForce rs) p = p"
| "do_call (OnBatchRelease ns) p = p"
| "do_call (OnModify b n v ty) p = p"
| "do_call (OnBatchModify ms) p = p"

section \<open>Answers\<close>

datatype monitor_answer =
    VariablesAre "mon_var list reply"
  | WatchIs "watch_entry list reply"
  | EntryIs "watch_entry reply"
  | Accepted "unit reply"

definition watch_added :: "(string \<Rightarrow> string) \<Rightarrow> string \<Rightarrow> watch_entry list \<Rightarrow> watch_entry reply \<Rightarrow> monitor_page \<Rightarrow> monitor_page" where
  "watch_added t n ws r p =
     (case r of
        Got e \<Rightarrow> say (Toast ToastOk (t ''monitor.addedToWatch'') n) (p\<lparr>mp_watch := ws @ [e]\<rparr>)
      | Denied e \<Rightarrow> say (Toast ToastErr (t ''monitor.addFailed'')
          (t ''monitor.addFailedMsg'' @ '' '' @ n @ '' '' @ t ''monitor.addFailedMsg2'')) p
      | Lost e \<Rightarrow> say (Toast ToastErr (t ''monitor.addFailed'') e) p)"

definition watch_dropped :: "(string \<Rightarrow> string) \<Rightarrow> string \<Rightarrow> watch_entry list \<Rightarrow> unit reply \<Rightarrow> monitor_page \<Rightarrow> monitor_page" where
  "watch_dropped t i ws r p =
     (case r of
        Got u \<Rightarrow> say (Toast ToastOk (t ''monitor.removedFromWatch'') i) (p\<lparr>mp_watch := filter (\<lambda>e. we_id e \<noteq> i) ws\<rparr>)
      | Denied e \<Rightarrow> say (Toast ToastErr (t ''monitor.removeFailed'') (t ''monitor.removeFailedMsg'' @ '' '' @ i)) p
      | Lost e \<Rightarrow> say (Toast ToastErr (t ''monitor.removeFailed'') e) p)"

definition force_answered ::
    "(string \<Rightarrow> string) \<Rightarrow> string \<Rightarrow> jsval \<Rightarrow> unit reply \<Rightarrow> monitor_page \<Rightarrow> monitor_page" where
  "force_answered t n v r p =
     (case r of
        Got u \<Rightarrow> ask (ReadAfter (Toast ToastOk (t ''monitor.variableForced'') (n @ '' = '' @ js_string v)) (t ''monitor.forceFailed'')) p
      | Denied e \<Rightarrow> say (Toast ToastErr (t ''monitor.forceFailed'') (t ''monitor.forceFailedMsg'' @ '' '' @ n)) p
      | Lost e \<Rightarrow> say (Toast ToastErr (t ''monitor.forceFailed'') e) p)"

definition release_answered :: "(string \<Rightarrow> string) \<Rightarrow> string \<Rightarrow> unit reply \<Rightarrow> monitor_page \<Rightarrow> monitor_page" where
  "release_answered t n r p =
     (case r of
        Got u \<Rightarrow> ask (ReadAfter (Toast ToastOk (t ''monitor.variableReleased'') n) (t ''monitor.releaseFailed'')) p
      | Denied e \<Rightarrow> say (Toast ToastErr (t ''monitor.releaseFailed'') (t ''monitor.releaseFailedMsg'' @ '' '' @ n)) p
      | Lost e \<Rightarrow> say (Toast ToastErr (t ''monitor.releaseFailed'') e) p)"

definition read_after :: "page_note \<Rightarrow> string \<Rightarrow> mon_var list reply \<Rightarrow> monitor_page \<Rightarrow> monitor_page" where
  "read_after ok failed r p =
     (case r of
        Got vs \<Rightarrow> say ok (p\<lparr>mp_variables := vs\<rparr>)
      | Denied e \<Rightarrow> say ok p
      | Lost e \<Rightarrow> say (Toast ToastErr failed e) p)"

definition monitor_answered :: "(string \<Rightarrow> string) \<Rightarrow> monitor_call \<Rightarrow> monitor_answer \<Rightarrow> monitor_page \<Rightarrow> monitor_page" where
  "monitor_answered t c a p =
     (case c of
        PollVariables \<Rightarrow> (case a of VariablesAre (Got vs) \<Rightarrow> p\<lparr>mp_variables := vs\<rparr> | _ \<Rightarrow> p)
      | ReadWatch \<Rightarrow> (case a of WatchIs (Got ws) \<Rightarrow> p\<lparr>mp_watch := ws\<rparr> | _ \<Rightarrow> p)
      | AddWatch n ws \<Rightarrow> (case a of EntryIs r \<Rightarrow> watch_added t n ws r p | _ \<Rightarrow> p)
      | DropWatch i ws \<Rightarrow> (case a of Accepted r \<Rightarrow> watch_dropped t i ws r p | _ \<Rightarrow> p)
      | SendForce n v ty \<Rightarrow> (case a of Accepted r \<Rightarrow> force_answered t n v r p | _ \<Rightarrow> p)
      | SendRelease n \<Rightarrow> (case a of Accepted r \<Rightarrow> release_answered t n r p | _ \<Rightarrow> p)
      | ReadAfter ok failed \<Rightarrow> (case a of VariablesAre r \<Rightarrow> read_after ok failed r p | _ \<Rightarrow> p))"

section \<open>Events\<close>

datatype monitor_event =
    SelectMonitorTab monitor_tab
  | SetAuto bool
  | PickInterval string
  | Tick
  | Watch watch_event
  | Inspect inspector_event
  | Force force_event
  | Params param_event
  | AnswerTo nat monitor_answer

text \<open>The views of the other tabs are taken down; the one that opens starts afresh.\<close>

definition select_monitor_tab :: "monitor_tab \<Rightarrow> monitor_page \<Rightarrow> monitor_page" where
  "select_monitor_tab tab p =
     (if tab = mp_tab p then p
      else p\<lparr>mp_tab := tab, mp_panel := new_watch_panel, mp_inspector := new_inspector, mp_force := new_force_panel,
             mp_params := new_param_editor\<rparr>)"

text \<open>The effect on the two settings of the polling: each change reads at once and sets the timer again.\<close>

definition set_auto :: "bool \<Rightarrow> monitor_page \<Rightarrow> monitor_page" where
  "set_auto b p = (if b = mp_auto p then p else ask PollVariables (p\<lparr>mp_auto := b\<rparr>))"

definition pick_interval :: "string \<Rightarrow> monitor_page \<Rightarrow> monitor_page" where
  "pick_interval s p =
     (if js_number s = mp_interval p then p else ask PollVariables (p\<lparr>mp_interval := js_number s\<rparr>))"

fun monitor_step :: "(string \<Rightarrow> string) \<Rightarrow> monitor_event \<Rightarrow> monitor_page \<Rightarrow> monitor_page" where
  "monitor_step t (SelectMonitorTab tab) p = select_monitor_tab tab p"
| "monitor_step t (SetAuto b) p = set_auto b p"
| "monitor_step t (PickInterval s) p = pick_interval s p"
| "monitor_step t Tick p = (if mp_auto p then ask PollVariables p else p)"
| "monitor_step t (Watch e) p =
     (if mp_tab p \<noteq> WatchTab then p
      else let (s, outs) = watch_step (mp_watch p) e (mp_panel p) in fold do_call outs (p\<lparr>mp_panel := s\<rparr>))"
| "monitor_step t (Inspect e) p =
     (if mp_tab p \<noteq> VariablesTab then p
      else let (s, outs) = inspector_step (mp_variables p) e (mp_inspector p) in fold do_call outs (p\<lparr>mp_inspector := s\<rparr>))"
| "monitor_step t (Force e) p =
     (if mp_tab p \<noteq> ForceTab then p
      else let (s, outs) = force_step (mp_variables p) e (mp_force p) in fold do_call outs (p\<lparr>mp_force := s\<rparr>))"
| "monitor_step t (Params e) p =
     (if mp_tab p \<noteq> ParametersTab then p
      else case param_step (mp_variables p) e (mp_params p) of
        None \<Rightarrow> p | Some (s, outs) \<Rightarrow> fold do_call outs (p\<lparr>mp_params := s\<rparr>))"
| "monitor_step t (AnswerTo n a) p =
     (if n < length (mp_pending p)
      then monitor_answered t (mp_pending p ! n) a (p\<lparr>mp_pending := take n (mp_pending p) @ drop (Suc n) (mp_pending p)\<rparr>)
      else p)"

definition monitor_run :: "(string \<Rightarrow> string) \<Rightarrow> monitor_event list \<Rightarrow> monitor_page \<Rightarrow> monitor_page" where
  "monitor_run t es p = fold (monitor_step t) es p"

section \<open>The details of a variable\<close>

definition show_variable :: "(string \<Rightarrow> string) \<Rightarrow> (string \<Rightarrow> string) \<Rightarrow> mon_var \<Rightarrow> (string \<times> string) list" where
  "show_variable t clock v =
     [(t ''common.name'', va_name v), (t ''monitor.address'', address_text v), (t ''monitor.dataType'', va_data_type v),
      (t ''monitor.varType'', va_var_type v), (t ''monitor.currentValue'', js_string (va_current v))]
     @ (if va_forced v = JNull then [] else [(t ''monitor.forcedValue'', js_string (va_forced v))])
     @ [(t ''monitor.forceStatus'', t (if is_forced v then ''monitor.forced'' else ''monitor.notForced'')),
        (t ''monitor.quality'', t (if va_quality v = ''good'' then ''monitor.good'' else ''monitor.bad'')),
        (t ''monitor.lastUpdated'', clock (va_last_updated v))]"

definition show_variable_panel ::
    "(string \<Rightarrow> string) \<Rightarrow> (string \<Rightarrow> string) \<Rightarrow> monitor_page \<Rightarrow> (string \<times> string) list option" where
  "show_variable_panel t clock p =
     (if mp_tab p \<noteq> VariablesTab then None
      else case mp_selected p of
        None \<Rightarrow> None | Some n \<Rightarrow> if n = [] then None else map_option (show_variable t clock) (find_variable n (mp_variables p)))"

end
