(* ===== verification/MonitorLaws.thy ===== *)
theory MonitorLaws
  imports MonitorPage
begin

text \<open>
  What the monitor promises: which value a batch sends, when the editor of parameters throws, how the parameters
  are grouped, which rows of the watch table survive requests that overlap, and which operations of the views
  reach the service.
\<close>

section \<open>Steps of the page\<close>

lemma monitor_run_simps [simp]:
  "monitor_run t [] p = p"
  "monitor_run t (e # es) p = monitor_run t es (monitor_step t e p)"
  by (simp_all add: monitor_run_def)

lemma ask_simps [simp]:
  "mp_pending (ask c p) = mp_pending p @ [c]" "mp_watch (ask c p) = mp_watch p" "mp_variables (ask c p) = mp_variables p"
  "mp_notes (ask c p) = mp_notes p" "mp_tab (ask c p) = mp_tab p"
  by (simp_all add: ask_def)

lemma say_simps [simp]:
  "mp_pending (say n p) = mp_pending p" "mp_watch (say n p) = mp_watch p" "mp_variables (say n p) = mp_variables p"
  "mp_notes (say n p) = mp_notes p @ [n]" "mp_tab (say n p) = mp_tab p"
  by (simp_all add: say_def)

lemma answer_first [simp]:
  "mp_pending p = c # cs \<Longrightarrow> monitor_step t (AnswerTo 0 a) p = monitor_answered t c a (p\<lparr>mp_pending := cs\<rparr>)"
  by simp

section \<open>The watch table\<close>

lemma asks_drops:
  "mp_pending (fold do_call (map (OnRemove \<circ> we_id) es) p) = mp_pending p @ map (\<lambda>e. DropWatch (we_id e) (mp_watch p)) es
   \<and> mp_watch (fold do_call (map (OnRemove \<circ> we_id) es) p) = mp_watch p"
  by (induction es arbitrary: p) simp_all

text \<open>An event that answers no request about the watch table, or answers it with a failure; and a run of such events.\<close>

fun no_table_answer :: "monitor_page \<Rightarrow> monitor_event \<Rightarrow> bool" where
  "no_table_answer p (AnswerTo n a) =
     (n < length (mp_pending p) \<longrightarrow>
       (case mp_pending p ! n of
          ReadWatch \<Rightarrow> (case a of WatchIs (Got ws) \<Rightarrow> False | _ \<Rightarrow> True)
        | AddWatch v ws \<Rightarrow> (case a of EntryIs (Got e) \<Rightarrow> False | _ \<Rightarrow> True)
        | DropWatch i ws \<Rightarrow> (case a of Accepted (Got u) \<Rightarrow> False | _ \<Rightarrow> True)
        | _ \<Rightarrow> True))"
| "no_table_answer p e = True"

fun table_untouched :: "(string \<Rightarrow> string) \<Rightarrow> monitor_event list \<Rightarrow> monitor_page \<Rightarrow> bool" where
  "table_untouched t [] p = True"
| "table_untouched t (e # es) p \<longleftrightarrow> no_table_answer p e \<and> table_untouched t es (monitor_step t e p)"

lemma do_call_watch [simp]: "mp_watch (do_call c p) = mp_watch p"
  by (cases c) simp_all

lemma fold_call_watch [simp]: "mp_watch (fold do_call cs p) = mp_watch p"
  by (induction cs arbitrary: p) simp_all

lemmas answer_defs = monitor_answered_def watch_added_def watch_dropped_def force_answered_def release_answered_def read_after_def

lemma step_watch: "no_table_answer p e \<Longrightarrow> mp_watch (monitor_step t e p) = mp_watch p"
proof (cases e)
  case (AnswerTo n a)
  assume "no_table_answer p e"
  then show ?thesis
    by (auto simp: AnswerTo answer_defs split: monitor_call.splits monitor_answer.splits reply.splits)
qed (auto simp: select_monitor_tab_def set_auto_def pick_interval_def split: prod.split option.split)

lemma untouched_watch: "table_untouched t es p \<Longrightarrow> mp_watch (monitor_run t es p) = mp_watch p"
  by (induction es arbitrary: p) (simp_all add: monitor_run_def step_watch del: monitor_step.simps)

text \<open>
  C20: clearing the watch table asks the service to delete every entry, but each answer writes the rows of the
  rendering in which the table was cleared, without its own entry. Whatever else happens and in whatever order
  the answers arrive, a table that was changed last by an accepted one of these deletions holds every entry it
  held when it was cleared but the one of that deletion: all the others are back on screen, also those that the
  service has deleted.
\<close>

theorem clear_watch_keeps_rest:
  assumes "mp_tab p = WatchTab" and "ws = mp_watch p"
    and "p1 = monitor_step t (Watch (ClearWatch True)) p"
    and "p2 = monitor_run t es p1" and "n < length (mp_pending p2)" and "mp_pending p2 ! n = DropWatch i ws"
    and "p3 = monitor_step t (AnswerTo n (Accepted (Got ()))) p2" and "table_untouched t fs p3"
  shows "mp_pending p1 = mp_pending p @ map (\<lambda>x. DropWatch (we_id x) ws) ws
    \<and> mp_watch (monitor_run t fs p3) = filter (\<lambda>x. we_id x \<noteq> i) ws"
proof
  show "mp_pending p1 = mp_pending p @ map (\<lambda>x. DropWatch (we_id x) ws) ws"
    using asks_drops [of ws p] assms(1) by (simp add: assms(2,3))
  have "mp_watch p3 = filter (\<lambda>x. we_id x \<noteq> i) ws"
    using assms(5,6) by (simp add: assms(7) monitor_answered_def watch_dropped_def)
  then show "mp_watch (monitor_run t fs p3) = filter (\<lambda>x. we_id x \<noteq> i) ws"
    using untouched_watch [OF assms(8)] by simp
qed

text \<open>
  An entry that is added while the answer to another addition is missing replaces it on screen; additions that
  wait for each other are both kept.
\<close>

theorem overlapping_watch_adds:
  assumes "mp_tab p = VariablesTab" and "mp_pending p = []"
  shows "mp_watch (monitor_run t [Inspect (WatchButton a), AnswerTo 0 (EntryIs (Got ea)), Inspect (WatchButton b),
           AnswerTo 0 (EntryIs (Got eb))] p) = mp_watch p @ [ea, eb]
     \<and> mp_watch (monitor_run t [Inspect (WatchButton a), Inspect (WatchButton b), AnswerTo 0 (EntryIs (Got ea)),
           AnswerTo 0 (EntryIs (Got eb))] p) = mp_watch p @ [eb]"
  using assms by (simp add: monitor_answered_def watch_added_def)

text \<open>
  A force that the service accepted is reported as failed when the variables cannot be read afterwards, with
  the very title of a force that was not accepted.
\<close>

theorem accepted_force_reported_failed:
  assumes "mp_tab p = VariablesTab" and "mp_pending p = []" and "vi_dialog (mp_inspector p) = Some n"
    and "find_variable n (mp_variables p) = Some v"
  shows "mp_pending (monitor_step t (Inspect ConfirmForce) p)
           = [SendForce n (read_value (va_data_type v) (vi_value (mp_inspector p))) (va_data_type v)]
     \<and> mp_notes (monitor_run t [Inspect ConfirmForce, AnswerTo 0 (Accepted (Got ())), AnswerTo 0 (VariablesAre (Lost e))] p)
       = mp_notes p @ [Toast ToastErr (t ''monitor.forceFailed'') e]
     \<and> mp_notes (monitor_run t [Inspect ConfirmForce, AnswerTo 0 (Accepted (Lost e))] p)
       = mp_notes p @ [Toast ToastErr (t ''monitor.forceFailed'') e]"
  using assms by (simp add: handleForce_def monitor_answered_def force_answered_def read_after_def)

text \<open>What the editor of parameters and the batches call reaches no function of the page.\<close>

definition idle_call :: "monitor_out \<Rightarrow> bool" where
  "idle_call c \<longleftrightarrow> (case c of OnBatchForce x \<Rightarrow> True | OnBatchRelease x \<Rightarrow> True | OnModify a b x y \<Rightarrow> True
     | OnBatchModify x \<Rightarrow> True | _ \<Rightarrow> False)"

lemma fold_idle: "list_all idle_call cs \<Longrightarrow> fold do_call cs p = p"
  by (induction cs) (auto simp: idle_call_def split: monitor_out.splits)

lemma param_step_idle: "param_step vs e s = Some (s1, outs) \<Longrightarrow> list_all idle_call outs"
  by (cases e) (auto simp: saveEditing_def handleBatchModify_def idle_call_def split: if_splits option.splits prod.splits)

definition is_batch :: "force_event \<Rightarrow> bool" where
  "is_batch e \<longleftrightarrow> (case e of ReleaseRow n \<Rightarrow> False | _ \<Rightarrow> True)"

lemma force_step_idle: "is_batch e \<Longrightarrow> list_all idle_call (snd (force_step vs e s))"
  by (cases e) (simp_all add: handleBatchForce_def idle_call_def is_batch_def)

lemma discarded_step:
  assumes "case e of Params pe \<Rightarrow> True | Force fe \<Rightarrow> is_batch fe | _ \<Rightarrow> False"
  shows "mp_pending (monitor_step t e p) = mp_pending p \<and> mp_variables (monitor_step t e p) = mp_variables p
    \<and> mp_notes (monitor_step t e p) = mp_notes p"
proof (cases e)
  case (Force fe)
  then have "list_all idle_call (snd (force_step (mp_variables p) fe (mp_force p)))"
    using assms by (simp add: force_step_idle)
  then show ?thesis
    by (simp add: Force fold_idle split_beta)
next
  case (Params pe)
  then show ?thesis
    by (auto simp: fold_idle param_step_idle split: option.splits)
qed (use assms in simp_all)

text \<open>
  Whatever is edited, selected and confirmed in the editor of parameters, and whatever is forced or released
  there in a batch, nothing is sent to the service, no variable changes and no message is shown: only the release
  of a single row works.
\<close>

theorem batches_and_parameters_discarded:
  assumes "list_all (\<lambda>e. case e of Params pe \<Rightarrow> True | Force fe \<Rightarrow> is_batch fe | _ \<Rightarrow> False) es"
  shows "mp_pending (monitor_run t es p) = mp_pending p \<and> mp_variables (monitor_run t es p) = mp_variables p
    \<and> mp_notes (monitor_run t es p) = mp_notes p"
  using assms
proof (induction es arbitrary: p)
  case (Cons e es)
  then show ?case
    using discarded_step [of e t p] by (simp del: monitor_step.simps)
qed simp

section \<open>Values of a batch\<close>

lemma find_variable_name: "find_variable n vs = Some v \<Longrightarrow> va_name v = n"
  by (auto simp: find_variable_def find_Some_iff)

text \<open>
  A force that is confirmed with the text the dialog opened with sends the value of the variable, for every
  type of data whose numbers are written exactly.
\<close>

theorem prefilled_force_keeps_value:
  assumes "find_variable n vs = Some v" and "exact_value (va_data_type v) (va_current v)"
  shows "snd (run_steps (inspector_step vs) [ForceButton n, ConfirmForce] s) = [[], [OnForce n (va_current v) (va_data_type v)]]"
  using assms by (simp add: run_steps_Cons handleForce_def read_value_exact)

lemma falsy_exact:
  assumes "has_type ty v" and "\<not> js_truthy v"
  shows "read_value ty [] = (if v = JNum (Num 0) then JNum NaN else v)"
proof -
  have "js_parse_int [] = NaN" "js_parse_float [] = NaN" "js_to_lower [] = []"
    by code_simp+
  then show ?thesis
    using assms by (cases v) (auto simp: has_type_def read_value_def split: if_splits)
qed

text \<open>
  A row of the batch dialog that was not touched shows a text that reads as the value of its variable. What
  is sent is that value, unless it is the number zero: then it is no number, which travels as \<open>null\<close>.
\<close>

theorem untouched_batch_value:
  assumes "find_variable n vs = Some v" and "obj_get values n = None" and "exact_value (va_data_type v) (va_current v)"
  shows "read_value (va_data_type v) (dialog_text values v) = va_current v
    \<and> fst (batch_value vs values n) = (if va_current v = JNum (Num 0) then JNum NaN else va_current v)"
proof -
  have "va_name v = n"
    using assms(1) by (rule find_variable_name)
  then have shown: "dialog_text values v = js_string (va_current v)"
    using assms(2) by (simp add: dialog_text_def typed_or_def)
  have sent: "fst (batch_value vs values n) =
      read_value (va_data_type v) (if js_truthy (va_current v) then js_string (va_current v) else [])"
    using assms(1,2) by (simp add: batch_value_def batch_text_def typed_or_def)
  show ?thesis
  proof (cases "js_truthy (va_current v)")
    case True
    then show ?thesis
      using read_value_exact [OF assms(3)] shown sent by auto
  next
    case False
    then show ?thesis
      using read_value_exact [OF assms(3)] falsy_exact [of "va_data_type v" "va_current v"] assms(3) shown sent
      by (simp add: exact_value_def)
  qed
qed

definition param_run ::
    "(mon_var list \<times> param_event) list \<Rightarrow> param_editor \<Rightarrow> (param_editor \<times> monitor_out list) option" where
  "param_run es s =
     fold (\<lambda>(vs, e) r. Option.bind r (\<lambda>(s, outs). map_option (\<lambda>(s1, new). (s1, outs @ new)) (param_step vs e s))) es (Some (s, []))"

text \<open>
  The texts of a batch of parameters stay behind: when the same parameter is modified in a later batch and
  nothing is typed, the old text is sent again, whatever the variable has become in the meantime.
\<close>

theorem batch_text_stays:
  assumes "x \<noteq> []" and "pe_selected s = []" and "find_variable n vs = Some v" and "find_variable n later = Some w"
    and "va_data_type w = va_data_type v" and "va_data_type v \<noteq> []"
  shows "map_option snd (param_run [(vs, ToggleParam n), (vs, OpenModify), (vs, TypeParam n x), (vs, ConfirmModify),
             (later, ToggleParam n), (later, OpenModify), (later, ConfirmModify)] s)
         = (let m = (fst (split_name n), snd (split_name n), read_value (va_data_type v) x, va_data_type v)
            in Some [OnBatchModify [m], OnBatchModify [m]])"
proof -
  have get: "obj_get (obj_put n x given) n = Some x" for given
    by (simp add: obj_get_def map_of_obj_put)
  then have "modification us (obj_put n x given) n = (fst (split_name n), snd (split_name n), read_value (va_data_type u) x, va_data_type u)"
    if "find_variable n us = Some u" "va_data_type u \<noteq> []" for us u given
    using that assms(1) by (simp add: modification_def batch_value_def batch_text_def typed_or_def split_beta)
  then show ?thesis
    using assms(2-) by (simp add: param_run_def toggle_name_def jset_has_def jset_add_def handleBatchModify_def Let_def)
qed

section \<open>The editor of parameters never throws\<close>

definition editing_has_text :: "param_editor \<Rightarrow> bool" where
  "editing_has_text s \<longleftrightarrow> (\<forall>n\<in>set (pe_editing s). obj_get (pe_values s) n \<noteq> None)"

lemma param_step_keeps:
  assumes "editing_has_text s"
  shows "\<exists>s1 outs. param_step vs e s = Some (s1, outs) \<and> editing_has_text s1"
proof -
  have cancel: "editing_has_text (cancelEditing n s)" for n
    using assms by (auto simp: editing_has_text_def cancelEditing_def jset_remove_def obj_get_def map_of_obj_del)
  show ?thesis
  proof (cases e)
    case (KeepEdit n ty)
    then show ?thesis
      using assms cancel by (auto simp: saveEditing_def jset_has_def editing_has_text_def split: prod.splits)
  qed (use assms cancel in \<open>auto simp: editing_has_text_def startEditing_def jset_add_def obj_get_def map_of_obj_put
      handleBatchModify_def\<close>)
qed

lemma param_fold_keeps:
  assumes "editing_has_text s"
  shows "\<exists>s1 outs. fold (\<lambda>(vs, e) r. Option.bind r (\<lambda>(s, outs). map_option (\<lambda>(s1, new). (s1, outs @ new)) (param_step vs e s))) es
      (Some (s, outs0)) = Some (s1, outs) \<and> editing_has_text s1"
  using assms
proof (induction es arbitrary: s outs0)
  case (Cons ve es)
  obtain s1 outs where "param_step (fst ve) (snd ve) s = Some (s1, outs)" and "editing_has_text s1"
    using param_step_keeps [OF Cons.prems] by blast
  then show ?case
    using Cons.IH by (simp add: split_beta)
qed simp

text \<open>
  C21: no sequence of edits, with variables that change under it, makes the editor of parameters throw: a row that
  is being edited always has a text to read.
\<close>

theorem param_editor_never_throws:
  "\<exists>s outs. param_run es new_param_editor = Some (s, outs) \<and> editing_has_text s"
proof -
  have "editing_has_text new_param_editor"
    by (simp add: editing_has_text_def new_param_editor_def)
  then show ?thesis
    using param_fold_keeps unfolding param_run_def by blast
qed

section \<open>Boxes and groups\<close>

text \<open>
  The box in the head of the table is right as long as only rows of the table are chosen. Choosing everything
  also chooses variables that are forced already; with one free and one forced variable the box is then empty
  although the only row is ticked, and ticked as soon as that row is not.
\<close>

theorem header_box:
  assumes "distinct (map va_name vs)" and "distinct (fp_selected s)"
    and "set (fp_selected s) \<subseteq> va_name ` set (availableVariables vs)"
    and "\<not> is_forced v" and "is_forced w" and "va_name v \<noteq> va_name w"
  shows "(header_checked vs s \<longleftrightarrow>
           availableVariables vs \<noteq> [] \<and> list_all (\<lambda>x. va_name x \<in> set (fp_selected s)) (availableVariables vs))
    \<and> \<not> header_checked [v, w] (fst (force_step [v, w] SelectAllVariables s))
    \<and> header_checked [v, w] (fst (run_steps (force_step [v, w]) [SelectAllVariables, ToggleForce (va_name v)] s))"
proof (intro conjI)
  let ?names = "map va_name (availableVariables vs)"
  have "distinct ?names"
    using assms(1) by (simp add: availableVariables_def distinct_map_filter)
  then have "length (fp_selected s) = length ?names \<longleftrightarrow> set (fp_selected s) = set ?names"
    using assms(2,3) by (metis card_subset_eq distinct_card finite_set set_map)
  then show "header_checked vs s \<longleftrightarrow>
      availableVariables vs \<noteq> [] \<and> list_all (\<lambda>x. va_name x \<in> set (fp_selected s)) (availableVariables vs)"
    using assms(3) by (auto simp: header_checked_def list_all_iff)
  show "\<not> header_checked [v, w] (fst (force_step [v, w] SelectAllVariables s))"
    using assms(4-) by (simp add: header_checked_def availableVariables_def jset_of_def jset_add_def)
  show "header_checked [v, w] (fst (run_steps (force_step [v, w]) [SelectAllVariables, ToggleForce (va_name v)] s))"
    using assms(4-)
    by (simp add: run_steps_Cons header_checked_def availableVariables_def jset_of_def jset_add_def toggle_name_def
        jset_has_def jset_remove_def)
qed

text \<open>
  Every parameter is listed exactly once, under its block; the blocks come in the order of their first
  parameter, and variables that are no parameters are left out.
\<close>

theorem parameters_listed_once:
  "let params = filter is_parameter vs; groups = parameterGroups vs in
     map fst groups = first_occurrences (map (\<lambda>v. fst (split_name (va_name v))) params)
     \<and> list_all (\<lambda>(block, g). g \<noteq> [] \<and> g = filter (\<lambda>v. fst (split_name (va_name v)) = block) params) groups
     \<and> mset (concat (map snd groups)) = mset params"
proof -
  let ?params = "filter is_parameter vs"
  have "mset (concat (map snd (parameterGroups vs))) = mset ?params"
    by (simp only: parameterGroups_def group_rows_mset)
  moreover have "list_all (\<lambda>(block, g). g \<noteq> [] \<and> g = filter (\<lambda>v. fst (split_name (va_name v)) = block) ?params) (parameterGroups vs)"
    unfolding parameterGroups_def group_rows_eq by (auto simp: list_all_iff filter_empty_conv)
  moreover have "map fst (parameterGroups vs) = first_occurrences (map (\<lambda>v. fst (split_name (va_name v))) ?params)"
    by (simp add: parameterGroups_def group_rows_eq comp_def)
  ultimately show ?thesis
    by (simp only: Let_def simp_thms)
qed

section \<open>Witnesses\<close>

definition sample_var :: "string \<Rightarrow> string \<Rightarrow> jsval \<Rightarrow> mon_var" where
  "sample_var n ty v =
     \<lparr>va_name = n, va_address = 16, va_data_type = ty, va_var_type = ''LOCAL'', va_current = v, va_forced = JNull,
      va_force_status = ''none'', va_last_updated = ''2026'', va_quality = ''good''\<rparr>"

definition sample_entry :: "string \<Rightarrow> watch_entry" where
  "sample_entry i = \<lparr>we_id = i, we_variable = ''PV'', we_alias = None, we_format = ''decimal''\<rparr>"

definition watched_page :: monitor_page where
  "watched_page = open_monitor\<lparr>mp_pending := [], mp_watch := [sample_entry ''w1'', sample_entry ''w2'', sample_entry ''w3'']\<rparr>"

theorem clear_watch_keeps_rest_witness:
  "map we_id (mp_watch (monitor_run id [Watch (ClearWatch True), AnswerTo 2 (Accepted (Got ())), AnswerTo 0 (Accepted (Got ())),
     AnswerTo 0 (Accepted (Got ())), Tick] watched_page)) = [''w1'', ''w3'']"
proof -
  let ?p1 = "monitor_step id (Watch (ClearWatch True)) watched_page"
  let ?es = "[AnswerTo 2 (Accepted (Got ())), AnswerTo 0 (Accepted (Got ()))]"
  have "mp_pending (monitor_run id ?es ?p1) = [DropWatch ''w2'' (mp_watch watched_page)]"
    by (simp add: watched_page_def open_monitor_def sample_entry_def monitor_answered_def watch_dropped_def)
  then show ?thesis
    using clear_watch_keeps_rest [OF _ refl refl refl _ _ refl, where p = watched_page and t = id and es = ?es and n = 0
        and i = "''w2''" and fs = "[Tick]"]
    by (simp add: watched_page_def open_monitor_def sample_entry_def)
qed

theorem batches_and_parameters_discarded_witness:
  "mp_pending (monitor_run id [Params (StartEdit ''PID_KP'' (JNum (Num 1))), Params (TypeParam ''PID_KP'' ''2''),
       Params (KeepEdit ''PID_KP'' ''REAL'')] (watched_page\<lparr>mp_tab := ParametersTab\<rparr>)) = []"
proof -
  have "mp_pending (watched_page\<lparr>mp_tab := ParametersTab\<rparr>) = []"
    by (simp add: watched_page_def)
  then show ?thesis
    using batches_and_parameters_discarded [of "[Params (StartEdit ''PID_KP'' (JNum (Num 1))), Params (TypeParam ''PID_KP'' ''2''),
       Params (KeepEdit ''PID_KP'' ''REAL'')]" id "watched_page\<lparr>mp_tab := ParametersTab\<rparr>"]
    by (simp del: monitor_run_simps)
qed

theorem untouched_batch_value_witness:
  "read_value ''INT'' (dialog_text [] (sample_var ''N'' ''INT'' (JNum (Num 0)))) = JNum (Num 0)
   \<and> fst (batch_value [sample_var ''N'' ''INT'' (JNum (Num 0))] [] ''N'') = JNum NaN"
proof -
  let ?v = "sample_var ''N'' ''INT'' (JNum (Num 0))"
  have "find_variable ''N'' [?v] = Some ?v" and "obj_get [] ''N'' = None"
    by (simp_all add: find_variable_def sample_var_def obj_get_def)
  moreover have "exact_value (va_data_type ?v) (va_current ?v)"
    by (simp add: exact_value_def has_type_def sample_var_def)
  ultimately show ?thesis
    using untouched_batch_value [of "''N''" "[?v]" ?v "[]"] by (simp add: sample_var_def)
qed

end
