(* ===== verification/Waveform.thy ===== *)
theory Waveform
  imports Requests EventBus GraphTypes
begin

text \<open>
  The waveform page (\<open>pages/WaveformPage.tsx\<close>): the channels of a plant, taken from the bindings of a station or
  edited by hand, the curves that are computed from them, and the subscription of the page to changes of the
  bindings on the event bus. \<open>decay i\<close> stands for \<open>Math.exp(-i / 10)\<close>.
\<close>

section \<open>Arithmetic\<close>

fun js_times :: "jsnum \<Rightarrow> jsnum \<Rightarrow> jsnum" where
  "js_times (Num a) (Num b) = Num (a * b)"
| "js_times (Infinite s) (Num b) = (if b = 0 then NaN else Infinite (s \<noteq> (b < 0)))"
| "js_times (Num a) (Infinite u) = (if a = 0 then NaN else Infinite (u \<noteq> (a < 0)))"
| "js_times (Infinite s) (Infinite u) = Infinite (s \<noteq> u)"
| "js_times x y = NaN"

fun js_divide :: "jsnum \<Rightarrow> jsnum \<Rightarrow> jsnum" where
  "js_divide (Num a) (Num b) = (if b \<noteq> 0 then Num (a / b) else if a = 0 then NaN else Infinite (a < 0))"
| "js_divide (Infinite s) (Num b) = Infinite (s \<noteq> (b < 0))"
| "js_divide (Num a) (Infinite u) = Num 0"
| "js_divide x y = NaN"

text \<open>The length of \<open>Array.from({ length: x })\<close>; \<open>None\<close>: it throws, because no array can be that long.\<close>

definition array_length :: "jsnum \<Rightarrow> nat option" where
  "array_length x =
     (case x of
        NaN \<Rightarrow> Some 0
      | Infinite s \<Rightarrow> if s then Some 0 else None
      | Num r \<Rightarrow> if \<lfloor>r\<rfloor> < 2 ^ 32 then Some (nat \<lfloor>r\<rfloor>) else None)"

section \<open>The client of the page\<close>

text \<open>The body of an answer: parsed, missing, or a text that starts neither an object nor an array.\<close>

datatype 'a body = Parsed 'a | Blank | Raw string

text \<open>
  \<open>parse_detail\<close> is \<open>JSON.parse(text).detail\<close>: \<open>None\<close> when that throws, \<open>Some None\<close> without a detail, otherwise a
  text or the JSON text of what it is.
\<close>

definition page_call ::
    "(string \<Rightarrow> (string + string) option option) \<Rightarrow> (string \<Rightarrow> string + 'a) \<Rightarrow> string + http_answer \<Rightarrow> string + 'a body" where
  "page_call parse_detail parse answer =
     (case answer of
        Inl e \<Rightarrow> Inl e
      | Inr r \<Rightarrow>
          (let txt = ha_text r in
           if \<not> ha_ok r then
             Inl (case parse_detail txt of Some (Some d) \<Rightarrow> (case d of Inl s \<Rightarrow> s | Inr j \<Rightarrow> j) | _ \<Rightarrow> txt)
           else if txt = [] then Inr Blank
           else if hd txt \<noteq> CHR ''{'' \<and> hd txt \<noteq> CHR ''['' then Inr (Raw txt)
           else case parse txt of Inl e \<Rightarrow> Inl e | Inr a \<Rightarrow> Inr (Parsed a)))"

section \<open>Channels and curves\<close>

datatype plant_kind = ConstKind | LagKind | RampKind | ActuatorKind

record plant_channel =
  pc_id :: string
  pc_name :: string
  pc_kind :: plant_kind
  pc_value :: jsnum
  pc_min :: rat
  pc_max :: rat

record waveform =
  wv_name :: string
  wv_values :: "jsnum list"
  wv_color :: string

record binding_row =
  bw_var_name :: string
  bw_channel :: int
  bw_io_kind :: string

definition kind_of :: "string \<Rightarrow> plant_kind" where
  "kind_of io = (if io = ''AI'' then LagKind else if io = ''AO'' then ActuatorKind else ConstKind)"

definition derive_channels :: "binding_row list \<Rightarrow> plant_channel list" where
  "derive_channels rows =
     map_index (\<lambda>idx b. \<lparr>pc_id = show_nat (idx + 1), pc_name = bw_var_name b, pc_kind = kind_of (bw_io_kind b),
       pc_value = Num 0, pc_min = 0, pc_max = 100\<rparr>) rows"

definition wave_colors :: "string list" where
  "wave_colors = [''#4ec9b0'', ''#569cd6'', ''#c586c0'', ''#dcdcaa'', ''#ce9178'']"

definition wave_sample :: "(nat \<Rightarrow> rat) \<Rightarrow> jsnum \<Rightarrow> plant_channel \<Rightarrow> nat \<Rightarrow> jsnum" where
  "wave_sample decay cycles ch i =
     (case pc_kind ch of
        ConstKind \<Rightarrow> pc_value ch
      | RampKind \<Rightarrow> js_times (js_divide (Num (of_nat i)) cycles) (pc_value ch)
      | _ \<Rightarrow> js_times (pc_value ch) (Num (1 - decay i)))"

definition make_waves :: "(nat \<Rightarrow> rat) \<Rightarrow> jsnum \<Rightarrow> nat \<Rightarrow> plant_channel list \<Rightarrow> waveform list" where
  "make_waves decay cycles n channels =
     map_index (\<lambda>idx ch. \<lparr>wv_name = pc_name ch, wv_values = map (wave_sample decay cycles ch) [0..<n],
       wv_color = wave_colors ! (idx mod length wave_colors)\<rparr>) channels"

section \<open>The page\<close>

datatype wave_call = ReadStations | ReadMappings bool string

text \<open>
  \<open>wf_handler\<close> is the function that is registered on the bus at the moment; every run of the effect makes a new
  one. \<open>wf_timers\<close> counts the timers of a second that are running.
\<close>

record wave_page =
  wf_plant :: bool
  wf_cycles :: jsnum
  wf_period :: jsnum
  wf_running :: bool
  wf_channels :: "plant_channel list"
  wf_waves :: "waveform list"
  wf_station :: string
  wf_bus :: "nat bus"
  wf_handler :: nat
  wf_pending :: "wave_call list"
  wf_timers :: nat
  wf_notes :: "page_note list"

definition bindings_changed :: string where
  "bindings_changed = ''bindings:changed''"

definition first_channels :: "plant_channel list" where
  "first_channels =
     [\<lparr>pc_id = ''1'', pc_name = ''SP'', pc_kind = ConstKind, pc_value = Num 100, pc_min = 0, pc_max = 200\<rparr>,
      \<lparr>pc_id = ''2'', pc_name = ''PV'', pc_kind = LagKind, pc_value = Num 0, pc_min = 0, pc_max = 200\<rparr>]"

text \<open>Opening the page: the stations are read, and the first handler, \<open>h\<close>, is registered.\<close>

definition open_waves :: "nat \<Rightarrow> nat bus \<Rightarrow> wave_page" where
  "open_waves h b =
     \<lparr>wf_plant = False, wf_cycles = Num 100, wf_period = Num 100, wf_running = False, wf_channels = first_channels,
      wf_waves = [], wf_station = [], wf_bus = bus_on bindings_changed h b, wf_handler = h, wf_pending = [ReadStations],
      wf_timers = 0, wf_notes = []\<rparr>"

definition close_waves :: "wave_page \<Rightarrow> nat bus" where
  "close_waves p = bus_off bindings_changed (wf_handler p) (wf_bus p)"

definition wave_line :: "wave_call \<Rightarrow> http_method \<times> string" where
  "wave_line c =
     (case c of
        ReadStations \<Rightarrow> (GET, SERVICE @ ''/device/stations'')
      | ReadMappings first s \<Rightarrow> (GET, SERVICE @ ''/device/stations/'' @ s @ ''/mappings''))"

text \<open>The effects of a station that changed: its bindings are read and the handler is exchanged for a new one.\<close>

definition set_station :: "nat \<Rightarrow> string \<Rightarrow> wave_page \<Rightarrow> wave_page" where
  "set_station h s p =
     (if s = wf_station p then p
      else p\<lparr>wf_station := s, wf_pending := wf_pending p @ (if s = [] then [] else [ReadMappings True s]),
             wf_bus := bus_on bindings_changed h (bus_off bindings_changed (wf_handler p) (wf_bus p)), wf_handler := h\<rparr>)"

definition stations_answered :: "nat \<Rightarrow> string + string list body \<Rightarrow> wave_page \<Rightarrow> wave_page" where
  "stations_answered h r p =
     (case r of Inr (Parsed ids) \<Rightarrow> set_station h (case ids of [] \<Rightarrow> [] | i # rest \<Rightarrow> i) p | _ \<Rightarrow> p)"

definition bindings_derived :: "(string \<Rightarrow> string) \<Rightarrow> string + binding_row list body \<Rightarrow> wave_page \<Rightarrow> wave_page" where
  "bindings_derived t r p =
     (case r of
        Inr (Parsed rows) \<Rightarrow>
          if length rows = 0 then p
          else p\<lparr>wf_channels := derive_channels rows,
                 wf_notes := wf_notes p @ [Toast ToastNote (t ''waveform.configDerived'')
                   (t ''waveform.configDerivedMsg'' @ '' '' @ show_nat (length rows) @ '' '' @ t ''waveform.configDerivedMsg2'')]\<rparr>
      | _ \<Rightarrow> p)"

definition bindings_updated :: "(string \<Rightarrow> string) \<Rightarrow> string + binding_row list body \<Rightarrow> wave_page \<Rightarrow> wave_page" where
  "bindings_updated t r p =
     (case r of
        Inr (Parsed rows) \<Rightarrow>
          p\<lparr>wf_channels := derive_channels rows,
            wf_notes := wf_notes p @ [Toast ToastNote (t ''waveform.configUpdated'') (t ''waveform.configUpdatedMsg'')]\<rparr>
      | _ \<Rightarrow> p)"

text \<open>The handler on the bus.\<close>

definition on_bindings_changed :: "wave_page \<Rightarrow> wave_page" where
  "on_bindings_changed p =
     (if wf_station p = [] then p else p\<lparr>wf_pending := wf_pending p @ [ReadMappings False (wf_station p)]\<rparr>)"

text \<open>\<open>now\<close> is \<open>Date.now()\<close>.\<close>

definition addChannel :: "nat \<Rightarrow> wave_page \<Rightarrow> wave_page" where
  "addChannel now p =
     p\<lparr>wf_channels := wf_channels p @ [\<lparr>pc_id = show_nat now, pc_name = ''CH_'' @ show_nat (length (wf_channels p) + 1),
       pc_kind = ConstKind, pc_value = Num 0, pc_min = 0, pc_max = 100\<rparr>]\<rparr>"

definition removeChannel :: "string \<Rightarrow> wave_page \<Rightarrow> wave_page" where
  "removeChannel i p = p\<lparr>wf_channels := filter (\<lambda>c. pc_id c \<noteq> i) (wf_channels p)\<rparr>"

datatype channel_edit = ChannelName string | ChannelKind plant_kind | ChannelValue string

fun edit_channel :: "channel_edit \<Rightarrow> plant_channel \<Rightarrow> plant_channel" where
  "edit_channel (ChannelName v) c = c\<lparr>pc_name := v\<rparr>"
| "edit_channel (ChannelKind k) c = c\<lparr>pc_kind := k\<rparr>"
| "edit_channel (ChannelValue v) c = c\<lparr>pc_value := js_number v\<rparr>"

text \<open>
  A run: when the array of a curve cannot be made, the handler throws after it marked the page as running and
  before it set the timer.
\<close>

definition runSimulation :: "(nat \<Rightarrow> rat) \<Rightarrow> wave_page \<Rightarrow> wave_page" where
  "runSimulation decay p =
     (let p1 = p\<lparr>wf_running := True\<rparr> in
      if wf_channels p = [] then p1\<lparr>wf_waves := [], wf_timers := Suc (wf_timers p)\<rparr>
      else case array_length (wf_cycles p) of
        None \<Rightarrow> p1
      | Some n \<Rightarrow> p1\<lparr>wf_waves := make_waves decay (wf_cycles p) n (wf_channels p), wf_timers := Suc (wf_timers p)\<rparr>)"

datatype wave_event =
    TogglePlant
  | TypeCycles string
  | TypePeriod string
  | RunButton
  | RunOver
  | AddChannel nat
  | RemoveChannel string
  | EditChannel string channel_edit
  | BindingsChanged
  | StationsAre nat nat "string + string list body"
  | MappingsAre nat "string + binding_row list body"

definition take_call :: "nat \<Rightarrow> wave_page \<Rightarrow> wave_page" where
  "take_call n p = p\<lparr>wf_pending := take n (wf_pending p) @ drop (Suc n) (wf_pending p)\<rparr>"

text \<open>The first number of an answer is the place of its request; \<open>StationsAre\<close> also names the handler to come.\<close>

fun wave_step :: "(string \<Rightarrow> string) \<Rightarrow> (nat \<Rightarrow> rat) \<Rightarrow> wave_event \<Rightarrow> wave_page \<Rightarrow> wave_page" where
  "wave_step t decay TogglePlant p = p\<lparr>wf_plant := \<not> wf_plant p\<rparr>"
| "wave_step t decay (TypeCycles v) p = p\<lparr>wf_cycles := js_number v\<rparr>"
| "wave_step t decay (TypePeriod v) p = p\<lparr>wf_period := js_number v\<rparr>"
| "wave_step t decay RunButton p = (if wf_running p then p else runSimulation decay p)"
| "wave_step t decay RunOver p = (if wf_timers p = 0 then p else p\<lparr>wf_running := False, wf_timers := wf_timers p - 1\<rparr>)"
| "wave_step t decay (AddChannel now) p = addChannel now p"
| "wave_step t decay (RemoveChannel i) p = removeChannel i p"
| "wave_step t decay (EditChannel i e) p =
     p\<lparr>wf_channels := map (\<lambda>c. if pc_id c = i then edit_channel e c else c) (wf_channels p)\<rparr>"
| "wave_step t decay BindingsChanged p = on_bindings_changed p"
| "wave_step t decay (StationsAre n h r) p =
     (if n < length (wf_pending p) \<and> wf_pending p ! n = ReadStations then stations_answered h r (take_call n p) else p)"
| "wave_step t decay (MappingsAre n r) p =
     (if n < length (wf_pending p)
      then case wf_pending p ! n of
          ReadStations \<Rightarrow> p
        | ReadMappings first s \<Rightarrow> (if first then bindings_derived t r else bindings_updated t r) (take_call n p)
      else p)"

definition wave_run :: "(string \<Rightarrow> string) \<Rightarrow> (nat \<Rightarrow> rat) \<Rightarrow> wave_event list \<Rightarrow> wave_page \<Rightarrow> wave_page" where
  "wave_run t decay es p = fold (wave_step t decay) es p"

section \<open>What is shown\<close>

definition wave_max :: "jsnum list \<Rightarrow> jsnum" where
  "wave_max vs = fold js_max vs (Infinite True)"

definition bar_height :: "jsnum list \<Rightarrow> jsnum \<Rightarrow> jsnum" where
  "bar_height vs v = (if js_less (Num 0) (wave_max vs) then js_times (js_divide v (wave_max vs)) (Num 100) else Num 0)"

definition wave_mean :: "jsnum list \<Rightarrow> jsnum" where
  "wave_mean vs = js_divide (fold (\<lambda>v a. js_plus a v) vs (Num 0)) (Num (of_nat (length vs)))"

definition show_wave :: "(string \<Rightarrow> string) \<Rightarrow> waveform \<Rightarrow> string \<times> string \<times> string \<times> string list" where
  "show_wave t w =
     (wv_color w, wv_name w, t ''waveform.mean'' @ '' '' @ show_num (wave_mean (wv_values w)),
      map (\<lambda>v. show_num (bar_height (wv_values w) v) @ ''%'') (wv_values w))"

definition run_button :: "(string \<Rightarrow> string) \<Rightarrow> wave_page \<Rightarrow> string \<times> bool" where
  "run_button t p = (t (if wf_running p then ''waveform.running'' else ''waveform.runSim''), \<not> wf_running p)"

definition plant_button :: "(string \<Rightarrow> string) \<Rightarrow> wave_page \<Rightarrow> string" where
  "plant_button t p = t (if wf_plant p then ''waveform.hidePlant'' else ''waveform.configPlant'') @ t ''waveform.plant''"

section \<open>Properties\<close>

subsection \<open>The subscription\<close>

text \<open>Of the handlers on the bus, the page holds exactly the last one; the others are those of \<open>b\<close>.\<close>

definition subscribed :: "nat bus \<Rightarrow> wave_page \<Rightarrow> bool" where
  "subscribed b p \<longleftrightarrow> bus_wf (wf_bus p) \<and> wf_handler p \<notin> set (listeners bindings_changed b)
     \<and> (\<forall>e. listeners e (wf_bus p) = listeners e b @ (if e = bindings_changed then [wf_handler p] else []))"

lemma subscribed_open:
  assumes "bus_wf b" and "h \<notin> set (listeners bindings_changed b)"
  shows "subscribed b (open_waves h b)"
  using assms by (simp add: subscribed_def open_waves_def bus.wf_sub bus.heard_sub)

lemma subscribed_close:
  assumes "subscribed b p"
  shows "listeners e (close_waves p) = listeners e b"
  using assms by (auto simp: subscribed_def close_waves_def bus.heard_unsub filter_id_conv)

lemma subscribed_station:
  assumes "subscribed b p" and "h \<notin> set (listeners bindings_changed b)"
  shows "subscribed b (set_station h s p)"
proof -
  let ?off = "bus_off bindings_changed (wf_handler p) (wf_bus p)"
  have "bus_wf ?off" and "\<forall>e. listeners e ?off = listeners e b"
    using assms(1) subscribed_close [OF assms(1)] by (simp_all add: subscribed_def bus.wf_unsub close_waves_def)
  then show ?thesis
    using assms by (simp add: subscribed_def set_station_def bus.wf_sub bus.heard_sub)
qed

text \<open>The handlers that events bring along.\<close>

definition handlers_of :: "wave_event list \<Rightarrow> nat set" where
  "handlers_of es = {h. \<exists>n r. StationsAre n h r \<in> set es}"

lemma subscribed_same: "subscribed b p \<Longrightarrow> wf_bus q = wf_bus p \<Longrightarrow> wf_handler q = wf_handler p \<Longrightarrow> subscribed b q"
  by (simp add: subscribed_def)

lemma subscribed_step:
  assumes "subscribed b p" and "handlers_of [e] \<inter> set (listeners bindings_changed b) = {}"
  shows "subscribed b (wave_step t decay e p)"
proof (cases e)
  case (StationsAre n h r)
  then have "subscribed b (stations_answered h r (take_call n p))"
    using assms subscribed_station [of b "take_call n p" h] subscribed_same [OF assms(1), of "take_call n p"]
    by (auto simp: stations_answered_def take_call_def handlers_of_def split: sum.splits body.splits list.splits)
  then show ?thesis
    using assms(1) StationsAre by simp
qed (use assms(1) in \<open>auto intro!: subscribed_same [OF assms(1)] split: wave_call.splits sum.splits body.splits option.splits
    simp: runSimulation_def Let_def addChannel_def removeChannel_def on_bindings_changed_def bindings_derived_def
      bindings_updated_def take_call_def\<close>)

lemma subscribed_run:
  "subscribed b p \<Longrightarrow> handlers_of es \<inter> set (listeners bindings_changed b) = {} \<Longrightarrow> subscribed b (wave_run t decay es p)"
proof (induction es arbitrary: p)
  case (Cons e es)
  have "handlers_of [e] \<inter> set (listeners bindings_changed b) = {}" "handlers_of es \<inter> set (listeners bindings_changed b) = {}"
    using Cons.prems(2) by (auto simp: handlers_of_def)
  then show ?case
    using Cons.IH [of "wave_step t decay e p"] Cons.prems(1) subscribed_step [of b p e t decay] by (simp add: wave_run_def)
qed (simp add: wave_run_def)

text \<open>
  C31: however the station and everything else on the page change, exactly one handler of the page hears of changed
  bindings, behind those of the rest of the program, and closing the page leaves the bus as it was for every event.
\<close>

theorem one_subscription:
  assumes "bus_wf b" and "insert h (handlers_of es) \<inter> set (listeners bindings_changed b) = {}"
  shows "listeners bindings_changed (wf_bus (wave_run t decay es (open_waves h b)))
      = listeners bindings_changed b @ [wf_handler (wave_run t decay es (open_waves h b))]
    \<and> listeners ev (close_waves (wave_run t decay es (open_waves h b))) = listeners ev b"
proof -
  have "subscribed b (wave_run t decay es (open_waves h b))"
    using assms by (intro subscribed_run subscribed_open) auto
  then show ?thesis
    using subscribed_close by (auto simp: subscribed_def)
qed

subsection \<open>The bars\<close>

lemma wave_max_Num: "rs \<noteq> [] \<Longrightarrow> wave_max (map Num rs) = Num (Max (set rs))"
proof (induction rs rule: rev_induct)
  case (snoc r rs)
  show ?case
  proof (cases "rs = []")
    case False
    then show ?thesis
      using snoc.IH by (auto simp: wave_max_def js_max_def max_def)
  qed (simp add: wave_max_def js_max_def)
qed simp

lemma bar_height_Num:
  assumes "r \<in> set rs" and "(\<forall>x\<in>set rs. 0 \<le> x) \<or> (\<forall>x\<in>set rs. x \<le> 0)"
  shows "\<exists>q. bar_height (map Num rs) (Num r) = Num q \<and> 0 \<le> q \<and> q \<le> 100"
proof -
  let ?m = "Max (set rs)"
  have m: "wave_max (map Num rs) = Num ?m" and "?m \<in> set rs" and "r \<le> ?m"
    using assms(1) by (auto intro!: wave_max_Num Max_in)
  show ?thesis
  proof (cases "0 < ?m")
    case True
    then have "0 \<le> r"
      using assms \<open>?m \<in> set rs\<close> by force
    then have "0 \<le> r / ?m * 100" and "r / ?m * 100 \<le> 100"
      using True \<open>r \<le> ?m\<close> by (simp_all add: divide_le_eq)
    then show ?thesis
      using True by (simp add: bar_height_def m)
  qed (simp add: bar_height_def m)
qed

text \<open>The numbers of a curve whose amplitude is the number \<open>v\<close>.\<close>

definition sample_rat :: "(nat \<Rightarrow> rat) \<Rightarrow> rat \<Rightarrow> plant_kind \<Rightarrow> rat \<Rightarrow> nat \<Rightarrow> rat" where
  "sample_rat decay c k v i =
     (case k of ConstKind \<Rightarrow> v | RampKind \<Rightarrow> of_nat i / c * v | _ \<Rightarrow> v * (1 - decay i))"

lemma wave_sample_rat:
  "pc_value ch = Num v \<Longrightarrow> c \<noteq> 0 \<Longrightarrow> wave_sample decay (Num c) ch i = Num (sample_rat decay c (pc_kind ch) v i)"
  by (simp add: wave_sample_def sample_rat_def split: plant_kind.splits)

lemma sample_rat_sign:
  assumes "0 < c" and "0 \<le> decay i" and "decay i \<le> 1"
  shows "0 \<le> v \<Longrightarrow> 0 \<le> sample_rat decay c k v i" and "v \<le> 0 \<Longrightarrow> sample_rat decay c k v i \<le> 0"
  using assms
  by (auto simp: sample_rat_def mult_nonneg_nonpos mult_nonpos_nonneg divide_nonpos_pos split: plant_kind.splits)

text \<open>
  C33: every bar of a curve is between nothing and the full height, for each kind of channel and for amplitudes of
  both signs.
\<close>

theorem bars_inside:
  assumes "pc_value ch = Num v" and "array_length (Num c) = Some n" and "i < n"
    and "\<forall>j<n. 0 \<le> decay j \<and> decay j \<le> 1"
  shows "\<exists>q. bar_height (map (wave_sample decay (Num c) ch) [0..<n]) (wave_sample decay (Num c) ch i) = Num q \<and> 0 \<le> q \<and> q \<le> 100"
proof -
  let ?f = "sample_rat decay c (pc_kind ch) v"
  have "n = nat \<lfloor>c\<rfloor>"
    using assms(2) by (simp add: array_length_def split: if_splits)
  then have "0 < \<lfloor>c\<rfloor>"
    using assms(3) by linarith
  then have c: "0 < c"
    by linarith
  then have samples: "wave_sample decay (Num c) ch j = Num (?f j)" for j
    using assms(1) by (intro wave_sample_rat) auto
  have signs: "(\<forall>x\<in>set (map ?f [0..<n]). 0 \<le> x) \<or> (\<forall>x\<in>set (map ?f [0..<n]). x \<le> 0)"
  proof (cases "0 \<le> v")
    case True
    then show ?thesis
      using sample_rat_sign(1) [OF c] assms(4) by simp
  next
    case False
    then show ?thesis
      using sample_rat_sign(2) [OF c, of decay _ v] assms(4) by simp
  qed
  have "map (wave_sample decay (Num c) ch) [0..<n] = map Num (map ?f [0..<n])"
    using samples by simp
  moreover have "?f i \<in> set (map ?f [0..<n])"
    using assms(3) by simp
  ultimately show ?thesis
    using bar_height_Num [OF _ signs, of "?f i"] by (simp only: samples)
qed

subsection \<open>A run that cannot start\<close>

lemma stuck_step:
  assumes "wf_running p" and "wf_timers p = 0"
  shows "wf_running (wave_step t decay e p) \<and> wf_timers (wave_step t decay e p) = 0"
  using assms by (cases e)
    (auto simp: addChannel_def removeChannel_def on_bindings_changed_def stations_answered_def set_station_def
      bindings_derived_def bindings_updated_def take_call_def split: wave_call.splits sum.splits body.splits)

text \<open>
  A run over more cycles than an array can hold stops in the middle: the page shows a run that never ends, and
  whatever happens next, the button stays disabled until the page is opened again.
\<close>

theorem endless_run:
  assumes "array_length (wf_cycles p) = None" and "wf_channels p \<noteq> []" and "wf_timers p = 0"
  shows "\<not> snd (run_button t (wave_run t decay (RunButton # es) p))"
proof -
  have "wf_running (wave_run t decay es q)" if "wf_running q" "wf_timers q = 0" for q
    using that
  proof (induction es arbitrary: q)
    case (Cons e es)
    then show ?case
      using stuck_step [of q t decay e] by (simp add: wave_run_def)
  qed (simp add: wave_run_def)
  then show ?thesis
    using assms by (simp add: run_button_def wave_run_def runSimulation_def)
qed

theorem one_subscription_witness:
  "listeners bindings_changed (wf_bus (wave_run id (\<lambda>i. 1 / of_nat (i + 1))
       [StationsAre 0 8 (Inr (Parsed [''S1'', ''S2''])), BindingsChanged] (open_waves 7 (bus_on bindings_changed 3 new_bus)))) = [3, 8]
   \<and> listeners bindings_changed (close_waves (wave_run id (\<lambda>i. 1 / of_nat (i + 1))
       [StationsAre 0 8 (Inr (Parsed [''S1'', ''S2''])), BindingsChanged] (open_waves 7 (bus_on bindings_changed 3 new_bus)))) = [3]"
proof -
  let ?b = "bus_on bindings_changed 3 new_bus :: nat bus"
  let ?es = "[StationsAre 0 8 (Inr (Parsed [''S1'', ''S2''])), BindingsChanged]"
  have b: "bus_wf ?b" "listeners bindings_changed ?b = [3]"
    by (simp_all add: bus.wf_sub bus.heard_sub bus.wf_empty bus.heard_empty)
  have "insert 7 (handlers_of ?es) \<inter> set (listeners bindings_changed ?b) = {}"
    by (auto simp: b handlers_of_def)
  moreover have "wf_handler (wave_run id (\<lambda>i. 1 / of_nat (i + 1)) ?es (open_waves 7 ?b)) = 8"
    by (simp add: wave_run_def open_waves_def stations_answered_def set_station_def take_call_def on_bindings_changed_def)
  ultimately show ?thesis
    using one_subscription [OF b(1), of 7 ?es id "\<lambda>i. 1 / of_nat (i + 1)" bindings_changed] b(2) by simp
qed

theorem bars_inside_witness:
  "\<exists>q. bar_height (map (wave_sample (\<lambda>i. 1 / of_nat (i + 1)) (Num 100) (first_channels ! 0)) [0..<100])
        (wave_sample (\<lambda>i. 1 / of_nat (i + 1)) (Num 100) (first_channels ! 0) 50) = Num q \<and> 0 \<le> q \<and> q \<le> 100"
  by (rule bars_inside [where v = 100]) (simp_all add: first_channels_def array_length_def)

theorem endless_run_witness:
  "\<not> snd (run_button id (wave_run id (\<lambda>i. 1 / of_nat (i + 1)) [RunButton, RunOver, TypeCycles ''10'', RunButton]
      ((open_waves 0 new_bus)\<lparr>wf_cycles := Num 5000000000\<rparr>)))"
  by (rule endless_run) (simp_all add: array_length_def open_waves_def first_channels_def)

end
