(* ===== verification/Download.thy ===== *)
theory Download
  imports Requests
begin

text \<open>
  The wizard of the download page (\<open>pages/DownloadPage.tsx\<close>): five steps that can be walked or jumped, the form,
  and a deployment that is a timer. The page sends no request; what it reports is what it was built to report.
\<close>

section \<open>State\<close>

record download_form =
  df_targetPath :: string
  df_backend :: string
  df_agentBinary :: string
  df_role :: string
  df_nodeId :: jsnum
  df_keyName :: string
  df_keyHex :: string
  df_cycles :: jsnum
  df_periodMs :: jsnum
  df_downloadAt :: jsnum
  df_healthCycles :: jsnum

definition fresh_form :: download_form where
  "fresh_form =
     \<lparr>df_targetPath = [], df_backend = ''pipe'', df_agentBinary = ''/usr/bin/veristc-agent'', df_role = ''primary'',
      df_nodeId = Num 1, df_keyName = [], df_keyHex = [], df_cycles = Num 1000, df_periodMs = Num 100,
      df_downloadAt = Num 1, df_healthCycles = Num 3\<rparr>"

text \<open>\<open>dp_timers\<close> counts the timers of two seconds that are running.\<close>

record download_page =
  dp_step :: nat
  dp_form :: download_form
  dp_deploying :: bool
  dp_timers :: nat
  dp_notes :: "page_note list"

definition open_download :: download_page where
  "open_download = \<lparr>dp_step = 1, dp_form = fresh_form, dp_deploying = False, dp_timers = 0, dp_notes = []\<rparr>"

definition download_steps :: "(nat \<times> string \<times> string) list" where
  "download_steps =
     [(1, ''download.step1.title'', ''download.step1.desc''), (2, ''download.step2.title'', ''download.step2.desc''),
      (3, ''download.step3.title'', ''download.step3.desc''), (4, ''download.step4.title'', ''download.step4.desc''),
      (5, ''download.step5.title'', ''download.step5.desc'')]"

section \<open>Handlers\<close>

definition handleNext :: "download_page \<Rightarrow> download_page" where
  "handleNext p = (if dp_step p < 5 then p\<lparr>dp_step := dp_step p + 1\<rparr> else p)"

definition handlePrev :: "download_page \<Rightarrow> download_page" where
  "handlePrev p = (if dp_step p > 1 then p\<lparr>dp_step := dp_step p - 1\<rparr> else p)"

definition handleDeploy :: "download_page \<Rightarrow> download_page" where
  "handleDeploy p = p\<lparr>dp_deploying := True, dp_timers := Suc (dp_timers p)\<rparr>"

definition deploy_over :: "(string \<Rightarrow> string) \<Rightarrow> download_page \<Rightarrow> download_page" where
  "deploy_over t p =
     p\<lparr>dp_deploying := False, dp_timers := dp_timers p - 1, dp_step := 5,
       dp_notes := dp_notes p @ [Toast ToastOk (t ''download.completed'') (t ''download.completedMsg'')]\<rparr>"

datatype form_edit =
    FormTarget string
  | FormBackend string
  | FormRole string
  | FormNode string
  | FormKeyName string
  | FormKeyHex string
  | FormCycles string
  | FormPeriod string
  | FormDownloadAt string
  | FormHealth string

fun edit_form :: "form_edit \<Rightarrow> download_form \<Rightarrow> download_form" where
  "edit_form (FormTarget v) f = f\<lparr>df_targetPath := v\<rparr>"
| "edit_form (FormBackend v) f = f\<lparr>df_backend := v\<rparr>"
| "edit_form (FormRole v) f = f\<lparr>df_role := v\<rparr>"
| "edit_form (FormNode v) f = f\<lparr>df_nodeId := js_number v\<rparr>"
| "edit_form (FormKeyName v) f = f\<lparr>df_keyName := v\<rparr>"
| "edit_form (FormKeyHex v) f = f\<lparr>df_keyHex := v\<rparr>"
| "edit_form (FormCycles v) f = f\<lparr>df_cycles := js_number v\<rparr>"
| "edit_form (FormPeriod v) f = f\<lparr>df_periodMs := js_number v\<rparr>"
| "edit_form (FormDownloadAt v) f = f\<lparr>df_downloadAt := js_number v\<rparr>"
| "edit_form (FormHealth v) f = f\<lparr>df_healthCycles := js_number v\<rparr>"

text \<open>The step whose form has the field.\<close>

definition field_step :: "form_edit \<Rightarrow> nat" where
  "field_step e =
     (case e of FormTarget v \<Rightarrow> 1 | FormBackend v \<Rightarrow> 1 | FormRole v \<Rightarrow> 1 | FormNode v \<Rightarrow> 1
      | FormKeyName v \<Rightarrow> 2 | FormKeyHex v \<Rightarrow> 2 | _ \<Rightarrow> 3)"

datatype download_event =
    ResetSteps | JumpTo nat | PrevButton | NextButton | EditForm form_edit | DeployButton | DeployOver

text \<open>An event of a button or field that is not on screen, or is disabled, does nothing.\<close>

fun download_step :: "(string \<Rightarrow> string) \<Rightarrow> download_event \<Rightarrow> download_page \<Rightarrow> download_page" where
  "download_step t ResetSteps p = p\<lparr>dp_step := 1\<rparr>"
| "download_step t (JumpTo k) p = (if k \<in> fst ` set download_steps then p\<lparr>dp_step := k\<rparr> else p)"
| "download_step t PrevButton p = (if dp_step p = 1 then p else handlePrev p)"
| "download_step t NextButton p = (if dp_step p < 4 then handleNext p else p)"
| "download_step t (EditForm e) p = (if dp_step p = field_step e then p\<lparr>dp_form := edit_form e (dp_form p)\<rparr> else p)"
| "download_step t DeployButton p = (if dp_step p = 4 \<and> \<not> dp_deploying p then handleDeploy p else p)"
| "download_step t DeployOver p = (if dp_timers p = 0 then p else deploy_over t p)"

definition download_run :: "(string \<Rightarrow> string) \<Rightarrow> download_event list \<Rightarrow> download_page \<Rightarrow> download_page" where
  "download_run t es p = fold (download_step t) es p"

section \<open>What is shown\<close>

definition check_mark :: string where
  "check_mark = utf8 [226, 156, 147]"

datatype step_look = StepNow | StepDone | StepAhead

definition show_download_step :: "(string \<Rightarrow> string) \<Rightarrow> nat \<Rightarrow> nat \<times> string \<times> string \<Rightarrow> step_look \<times> string \<times> string \<times> string" where
  "show_download_step t current s =
     (if current = fst s then StepNow else if current > fst s then StepDone else StepAhead,
      if current > fst s then check_mark else show_nat (fst s), t (fst (snd s)), t (snd (snd s)))"

definition key_text :: "(string \<Rightarrow> string) \<Rightarrow> download_form \<Rightarrow> string" where
  "key_text t f = (if df_keyHex f = [] then t ''download.notSet'' else take 16 (df_keyHex f) @ ''...'')"

text \<open>The rows of the fourth step with the text of its button, and whether that can be pressed.\<close>

definition show_confirm :: "(string \<Rightarrow> string) \<Rightarrow> download_page \<Rightarrow> (string \<times> string) list \<times> string \<times> bool" where
  "show_confirm t p =
     (let f = dp_form p in
      ([(t ''download.targetPath'' @ '':'', if df_targetPath f = [] then t ''download.notSet'' else df_targetPath f),
        (t ''download.keyHex'' @ '':'', key_text t f),
        (t ''download.cycles'' @ '':'', show_num (df_cycles f)),
        (t ''download.periodLabel'', show_num (df_periodMs f) @ '' ms'')],
       t (if dp_deploying p then ''download.deploying'' else ''download.startDeploy''), \<not> dp_deploying p))"

definition show_summary :: "(string \<Rightarrow> string) \<Rightarrow> download_page \<Rightarrow> (string \<times> string) list" where
  "show_summary t p =
     (let f = dp_form p in
      [(t ''download.currentStep'', show_nat (dp_step p) @ '' / 5''),
       (t ''download.target'', if df_targetPath f = [] then ''-'' else df_targetPath f),
       (t ''download.periodLabel'', show_num (df_periodMs f) @ ''ms '' @ utf8 [195, 151] @ '' '' @ show_num (df_cycles f))])"

text \<open>The two buttons below: whether going back is possible, and whether there is one for going on.\<close>

definition step_buttons :: "download_page \<Rightarrow> bool \<times> bool" where
  "step_buttons p = (dp_step p \<noteq> 1, dp_step p < 4)"

text \<open>What the fifth step says, on screen as soon as that step is.\<close>

definition show_success :: "(string \<Rightarrow> string) \<Rightarrow> download_page \<Rightarrow> (string \<times> string) option" where
  "show_success t p = (if dp_step p = 5 then Some (t ''download.success'', t ''download.completedMsg'') else None)"

section \<open>Properties\<close>

definition download_wf :: "download_page \<Rightarrow> bool" where
  "download_wf p \<longleftrightarrow> 1 \<le> dp_step p \<and> dp_step p \<le> 5 \<and> dp_timers p = (if dp_deploying p then 1 else 0)"

lemma download_wf_step: "download_wf p \<Longrightarrow> download_wf (download_step t e p)"
  by (cases e) (auto simp: download_wf_def handlePrev_def handleNext_def handleDeploy_def deploy_over_def download_steps_def)

lemma download_wf_run: "download_wf p \<Longrightarrow> download_wf (download_run t es p)"
  by (induction es arbitrary: p) (simp_all add: download_run_def download_wf_step)

text \<open>
  The wizard stays within its five steps, at most one deployment runs, and the page says that it deploys
  exactly while its timer runs, in every order of clicks.
\<close>

theorem download_bounds:
  "download_wf (download_run t es open_download)"
  by (rule download_wf_run) (simp add: download_wf_def open_download_def)

definition timer_runs :: "download_page \<Rightarrow> bool" where
  "timer_runs p \<longleftrightarrow> dp_deploying p \<and> 0 < dp_timers p"

lemma timer_kept:
  assumes "timer_runs p" and "DeployOver \<notin> set es"
  shows "timer_runs (download_run t es p) \<and> dp_notes (download_run t es p) = dp_notes p"
  using assms
proof (induction es arbitrary: p)
  case (Cons e es)
  have "timer_runs (download_step t e p) \<and> dp_notes (download_step t e p) = dp_notes p"
    using Cons.prems by (cases e) (auto simp: timer_runs_def handlePrev_def handleNext_def)
  then show ?case
    using Cons.IH [of "download_step t e p"] Cons.prems by (simp add: download_run_def)
qed (simp add: download_run_def)

text \<open>
  A deployment that was started is reported as a success and brings the last step on screen, whatever is in
  the form and whatever is done before its time is up, a reset of the wizard included.
\<close>

theorem deployment_always_succeeds:
  assumes "dp_step p = 4" and "\<not> dp_deploying p" and "DeployOver \<notin> set es"
  shows "show_success t (download_run t (DeployButton # es @ [DeployOver]) p) = Some (t ''download.success'', t ''download.completedMsg'')
    \<and> dp_notes (download_run t (DeployButton # es @ [DeployOver]) p)
      = dp_notes p @ [Toast ToastOk (t ''download.completed'') (t ''download.completedMsg'')]"
proof -
  let ?p1 = "handleDeploy p"
  have "timer_runs ?p1"
    by (simp add: timer_runs_def handleDeploy_def)
  then have "timer_runs (download_run t es ?p1)" and "dp_notes (download_run t es ?p1) = dp_notes p"
    using timer_kept [OF _ assms(3), of ?p1 t] by (simp_all add: handleDeploy_def)
  then show ?thesis
    using assms(1,2) by (simp add: download_run_def timer_runs_def deploy_over_def show_success_def)
qed

lemma success_without_deployment:
  "show_success t (download_step t (JumpTo 5) open_download) = Some (t ''download.success'', t ''download.completedMsg'')
   \<and> dp_timers (download_step t (JumpTo 5) open_download) = 0"
  by (simp add: show_success_def open_download_def download_steps_def)

theorem deployment_always_succeeds_witness:
  "show_success id (download_run id [DeployButton, ResetSteps, EditForm (FormTarget ''x''), DeployOver]
     (open_download\<lparr>dp_step := 4\<rparr>)) = Some (''download.success'', ''download.completedMsg'')"
  using deployment_always_succeeds [of "open_download\<lparr>dp_step := 4\<rparr>" "[ResetSteps, EditForm (FormTarget ''x'')]" id]
  by (simp add: open_download_def)

end
