(* ===== verification/Highlight.thy ===== *)
theory Highlight
  imports BlockText
begin

text \<open>
  The colouring of source text in the block editor (\<open>components/library/BlockEditor.tsx\<close>, lines 62 to 133): a
  replacement by a regular expression as a loop over a scanner, the tokens of structured text and the passes
  over the markup of a symbol. The locale \<open>highlighter\<close> says when the markup that is put in leaves the text a
  browser shows (\<open>shown_text\<close> of \<open>BlockText\<close>) unchanged: no reference is cut and every match ends between two
  characters of the text. It is interpreted on the tokens of structured text.
\<close>

section \<open>Replacing the matches of a scanner\<close>

text \<open>
  A scanner stands for a regular expression. It gets the rest of the string, and whether a word character stands
  behind it (for \<open>\b\<close>); a match is its kind with its length. \<open>s.replace(re, f)\<close> with the flag \<open>g\<close> walks over
  the string; the expressions of the source have no empty match.
\<close>

type_synonym 'k scanner = "bool \<Rightarrow> string \<Rightarrow> ('k \<times> nat) option"

function replace_matches :: "'k scanner \<Rightarrow> ('k \<Rightarrow> string \<Rightarrow> string) \<Rightarrow> bool \<Rightarrow> string \<Rightarrow> string" where
  "replace_matches scan f behind [] = []"
| "replace_matches scan f behind (c # cs) =
     (case scan behind (c # cs) of
        Some (k, Suc n) \<Rightarrow>
          f k (take (Suc n) (c # cs)) @ replace_matches scan f (is_ident_char (last (take (Suc n) (c # cs)))) (drop n cs)
      | _ \<Rightarrow> c # replace_matches scan f (is_ident_char c) cs)"
  by pat_completeness auto
termination
  by (relation "measure (\<lambda>(scan, f, behind, s). length s)") auto

text \<open>The length of the text up to the end of the first \<open>needle\<close>.\<close>

fun upto_end :: "string \<Rightarrow> string \<Rightarrow> nat option" where
  "upto_end needle [] = None"
| "upto_end needle (c # cs) =
     (if prefix needle (c # cs) then Some (length needle) else map_option Suc (upto_end needle cs))"

text \<open>\<open>(?:[^q\\]|\\.)*q\<close>: the length of what remains of a literal that is closed by \<open>q\<close>.\<close>

fun literal_end :: "char \<Rightarrow> string \<Rightarrow> nat option" where
  "literal_end q [] = None"
| "literal_end q (c # cs) =
     (if c = q then Some 1
      else if c \<noteq> CHR 0x5C then map_option Suc (literal_end q cs)
      else case cs of
          [] \<Rightarrow> None
        | d # ds \<Rightarrow> if d \<in> {CHR 0x0A, CHR 0x0D} then None else map_option (\<lambda>n. n + 2) (literal_end q ds))"

section \<open>Structured text\<close>

definition ST_KEYWORDS :: "string list" where
  "ST_KEYWORDS =
     [''FUNCTION_BLOCK'', ''FUNCTION'', ''END_FUNCTION_BLOCK'', ''END_FUNCTION'',
      ''VAR_INPUT'', ''VAR_OUTPUT'', ''VAR_IN_OUT'', ''VAR'', ''END_VAR'',
      ''IF'', ''THEN'', ''ELSIF'', ''ELSE'', ''END_IF'',
      ''CASE'', ''OF'', ''END_CASE'',
      ''FOR'', ''TO'', ''BY'', ''DO'', ''END_FOR'',
      ''WHILE'', ''END_WHILE'',
      ''REPEAT'', ''UNTIL'', ''END_REPEAT'',
      ''RETURN'', ''EXIT'',
      ''TRUE'', ''FALSE'',
      ''AND'', ''OR'', ''NOT'', ''XOR'', ''MOD'',
      ''REAL'', ''INT'', ''DINT'', ''BOOL'', ''STRING'', ''LREAL'']"

text \<open>The groups of the regular expression; a type keeps the length of the colon with the space behind it.\<close>

datatype st_token = BlockComment | LineComment | StringLit | TypeAnn nat | Ident | NumberLit

definition starts_word :: "string \<Rightarrow> bool" where
  "starts_word s \<longleftrightarrow> s \<noteq> [] \<and> is_ident_char (hd s)"

text \<open>\<open>\(\*[\s\S]*?\*\)\<close>\<close>

definition scan_block_comment :: "string \<Rightarrow> nat option" where
  "scan_block_comment s = (if prefix ''(*'' s then map_option (\<lambda>n. n + 2) (upto_end ''*)'' (drop 2 s)) else None)"

text \<open>\<open>--.*\<close>\<close>

definition scan_line_comment :: "string \<Rightarrow> nat option" where
  "scan_line_comment s =
     (if prefix ''--'' s then Some (2 + length (takeWhile (\<lambda>c. c \<notin> {CHR 0x0A, CHR 0x0D}) (drop 2 s))) else None)"

definition scan_literal :: "char \<Rightarrow> string \<Rightarrow> nat option" where
  "scan_literal q s = (case s of [] \<Rightarrow> None | c # cs \<Rightarrow> if c = q then map_option Suc (literal_end q cs) else None)"

text \<open>\<open>:\s*(?:REAL|INT|DINT|BOOL|STRING|LREAL)\b\<close>, with the length of the part behind the name.\<close>

definition type_words :: "string list" where
  "type_words = [''REAL'', ''INT'', ''DINT'', ''BOOL'', ''STRING'', ''LREAL'']"

definition scan_type :: "string \<Rightarrow> (nat \<times> nat) option" where
  "scan_type s =
     (case s of [] \<Rightarrow> None
      | c # cs \<Rightarrow>
          if c \<noteq> CHR '':'' then None
          else let blanks = length (takeWhile js_is_ws cs); rest = drop blanks cs in
            case filter (\<lambda>w. prefix w rest \<and> \<not> starts_word (drop (length w) rest)) type_words of
              [] \<Rightarrow> None
            | w # ws \<Rightarrow> Some (Suc blanks, Suc blanks + length w))"

text \<open>\<open>\b[A-Za-z_][A-Za-z0-9_]*\b\<close>\<close>

definition scan_ident :: "bool \<Rightarrow> string \<Rightarrow> nat option" where
  "scan_ident behind s =
     (case s of [] \<Rightarrow> None
      | c # cs \<Rightarrow> if \<not> behind \<and> is_ident_start c then Some (Suc (length (takeWhile is_ident_char cs))) else None)"

text \<open>
  \<open>\b\d+\.?\d*\b\<close>. With a point behind the digits the longest match that ends at a word boundary is the whole
  number, or the number up to the point when a letter follows, or the digits alone.
\<close>

definition scan_number :: "bool \<Rightarrow> string \<Rightarrow> nat option" where
  "scan_number behind s =
     (let ds = takeWhile is_digit s; rest = drop (length ds) s in
      if behind \<or> ds = [] then None
      else case rest of
          [] \<Rightarrow> Some (length ds)
        | c # cs \<Rightarrow>
            if c \<noteq> CHR ''.'' then (if is_ident_char c then None else Some (length ds))
            else let es = takeWhile is_digit cs; after = drop (length es) cs in
              if es = [] then Some (if starts_word cs then Suc (length ds) else length ds)
              else Some (if starts_word after then Suc (length ds) else Suc (length ds) + length es))"

definition scan_st :: "st_token scanner" where
  "scan_st behind s =
     (case scan_block_comment s of Some n \<Rightarrow> Some (BlockComment, n) | None \<Rightarrow>
      case scan_line_comment s of Some n \<Rightarrow> Some (LineComment, n) | None \<Rightarrow>
      case scan_literal (CHR 0x27) s of Some n \<Rightarrow> Some (StringLit, n) | None \<Rightarrow>
      case scan_type s of Some (colon, n) \<Rightarrow> Some (TypeAnn colon, n) | None \<Rightarrow>
      case scan_ident behind s of Some n \<Rightarrow> Some (Ident, n) | None \<Rightarrow>
      map_option (\<lambda>n. (NumberLit, n)) (scan_number behind s))"

definition coloured :: "string \<Rightarrow> string \<Rightarrow> string" where
  "coloured cls body = ''<span class='' @ quoted cls @ ''>'' @ body @ ''</span>''"

fun paint_st :: "st_token \<Rightarrow> string \<Rightarrow> string" where
  "paint_st BlockComment tok = coloured ''text-ide-textDim italic'' tok"
| "paint_st LineComment tok = coloured ''text-ide-textDim italic'' tok"
| "paint_st StringLit tok = coloured ''text-green-400'' tok"
| "paint_st (TypeAnn n) tok = take n tok @ coloured ''text-cyan-400'' (drop n tok)"
| "paint_st Ident tok = (if js_to_upper tok \<in> set ST_KEYWORDS then coloured ''text-purple-400'' tok else tok)"
| "paint_st NumberLit tok = coloured ''text-orange-400'' tok"

text \<open>\<open>replace(/&/g, "&amp;").replace(/</g, "&lt;").replace(/>/g, "&gt;")\<close>\<close>

definition escape_markup :: "string \<Rightarrow> string" where
  "escape_markup s =
     replace_char (CHR ''>'') ''&gt;'' (replace_char (CHR ''<'') ''&lt;'' (replace_char (CHR ''&'') ''&amp;'' s))"

definition highlight_line :: "string \<Rightarrow> string" where
  "highlight_line l = replace_matches scan_st paint_st False (escape_markup l)"

definition highlightSt :: "string \<Rightarrow> string" where
  "highlightSt code = js_join line_feed (map highlight_line (js_split (CHR 0x0A) code))"

section \<open>The markup of a symbol\<close>

text \<open>\<open>[\w:-]\<close>\<close>

definition is_name_char :: "char \<Rightarrow> bool" where
  "is_name_char c \<longleftrightarrow> is_ident_char c \<or> c = CHR '':'' \<or> c = CHR ''-''"

text \<open>\<open>(&lt;\/?)([\w:-]+)\<close>; the kind of a match is the length of its first group.\<close>

definition scan_tag_name :: "nat scanner" where
  "scan_tag_name behind s =
     (if \<not> prefix ''&lt;'' s then None
      else let open_len = (if prefix ''/'' (drop 4 s) then 5 else 4); n = length (takeWhile is_name_char (drop open_len s)) in
        if n = 0 then None else Some (open_len, open_len + n))"

text \<open>\<open>([\w:-]+)(=)\<close>\<close>

definition scan_attribute :: "nat scanner" where
  "scan_attribute behind s =
     (let n = length (takeWhile is_name_char s) in
      if n = 0 \<or> \<not> prefix ''='' (drop n s) then None else Some (n, n + 1))"

text \<open>\<open>("(?:[^"\\]|\\.)*")\<close>\<close>

definition scan_quoted :: "unit scanner" where
  "scan_quoted behind s = map_option (Pair ()) (scan_literal (CHR 0x22) s)"

text \<open>\<open>(&lt;!--[\s\S]*?--&gt;)\<close>\<close>

definition scan_comment :: "unit scanner" where
  "scan_comment behind s =
     (if prefix ''&lt;!--'' s then map_option (\<lambda>n. ((), n + 7)) (upto_end ''--&gt;'' (drop 7 s)) else None)"

definition highlightXml :: "string \<Rightarrow> string" where
  "highlightXml xml =
     (let s1 = replace_matches scan_tag_name (\<lambda>n m. take n m @ coloured ''text-red-400'' (drop n m)) False (escape_markup xml);
          s2 = replace_matches scan_attribute (\<lambda>n m. coloured ''text-yellow-300'' (take n m) @ drop n m) False s1;
          s3 = replace_matches scan_quoted (\<lambda>_. coloured ''text-green-400'') False s2
      in replace_matches scan_comment (\<lambda>_. coloured ''text-ide-textDim italic'') False s3)"

section \<open>Properties\<close>

text \<open>What \<open>escape_markup\<close> makes of one character.\<close>

definition markup_char :: "char \<Rightarrow> string" where
  "markup_char c =
     (if c = CHR ''&'' then ''&amp;'' else if c = CHR ''<'' then ''&lt;'' else if c = CHR ''>'' then ''&gt;'' else [c])"

lemma escape_markup_char: "escape_markup s = concat (map markup_char s)"
  by (induction s) (simp_all add: escape_markup_def markup_char_def)

lemma escape_markup_simps [simp]:
  "escape_markup [] = []" "escape_markup (c # s) = markup_char c @ escape_markup s"
  "escape_markup (s @ u) = escape_markup s @ escape_markup u"
  by (simp_all add: escape_markup_char)

lemma markup_char_not_Nil [simp]: "markup_char c \<noteq> []"
  by (simp add: markup_char_def)

lemma escape_markup_Nil_iff [simp]: "escape_markup s = [] \<longleftrightarrow> s = []"
  by (cases s) simp_all

lemma escape_markup_clean: "CHR ''<'' \<notin> set (escape_markup s)"
  by (induction s) (simp_all add: markup_char_def)

lemma shown_markup: "shown_text (escape_markup s @ r) = s @ shown_text r"
  by (induction s) (simp_all add: markup_char_def)

lemma escape_markup_plain: "CHR ''&'' \<notin> set (escape_markup s) \<Longrightarrow> escape_markup s = s"
  by (induction s) (auto simp: markup_char_def split: if_splits)

text \<open>
  A cut through escaped text goes between two characters of the text, or through one of the three references.
\<close>

lemma markup_cut:
  "escape_markup s = x @ y \<Longrightarrow>
     (\<exists>u v. s = u @ v \<and> x = escape_markup u \<and> y = escape_markup v)
     \<or> CHR ''&'' \<in> set x \<and> last x \<in> set ''&ampltg'' \<and> y \<noteq> [] \<and> hd y \<in> set ''ampltg;''"
proof (induction s arbitrary: x)
  case (Cons c s)
  from Cons.prems consider x' where "x = markup_char c @ x'" and "escape_markup s = x' @ y"
    | z where "markup_char c = x @ z" and "y = z @ escape_markup s"
    by (auto simp: append_eq_append_conv2)
  then show ?case
  proof cases
    case 1
    from Cons.IH [OF 1(2)] show ?thesis
    proof
      assume "\<exists>u v. s = u @ v \<and> x' = escape_markup u \<and> y = escape_markup v"
      then obtain u v where "s = u @ v" "x' = escape_markup u" "y = escape_markup v"
        by blast
      then have "c # s = (c # u) @ v \<and> x = escape_markup (c # u) \<and> y = escape_markup v"
        using 1(1) by simp
      then show ?thesis
        by blast
    next
      assume "CHR ''&'' \<in> set x' \<and> last x' \<in> set ''&ampltg'' \<and> y \<noteq> [] \<and> hd y \<in> set ''ampltg;''"
      then show ?thesis
        using 1(1) by (cases x') auto
    qed
  next
    case 2
    consider "x = []" | "z = []" | "x \<noteq> []" "z \<noteq> []"
      by blast
    then show ?thesis
    proof cases
      case 1
      then have "c # s = [] @ c # s \<and> x = escape_markup [] \<and> y = escape_markup (c # s)"
        using 2 by simp
      then show ?thesis
        by blast
    next
      case part: 2
      then have "c # s = [c] @ s \<and> x = escape_markup [c] \<and> y = escape_markup s"
        using 2 by simp
      then show ?thesis
        by blast
    next
      case 3
      then show ?thesis
        using 2 by (auto simp: markup_char_def Cons_eq_append_conv append_eq_Cons_conv split: if_splits)
    qed
  qed
qed simp

lemma markup_aligned:
  assumes "escape_markup s = x @ y"
    and "CHR ''&'' \<notin> set x \<or> last x \<notin> set ''&ampltg'' \<or> y = [] \<or> hd y \<notin> set ''ampltg;''"
  obtains u v where "s = u @ v" "x = escape_markup u" "y = escape_markup v"
  using markup_cut [OF assms(1)] assms(2) by blast

lemma shown_coloured:
  assumes "CHR ''>'' \<notin> set cls" and "\<And>r. shown_text (body @ r) = t @ shown_text r"
  shows "shown_text (coloured cls body @ rest) = t @ shown_text rest"
proof -
  define tag where "tag = ''span class='' @ quoted cls"
  have "opens_tag tag" and "CHR ''>'' \<notin> set tag"
    using assms(1) by (simp_all add: tag_def quoted_def js_in_range_def)
  note opened = shown_tag [OF this, of "body @ ''</span>'' @ rest"]
  have "coloured cls body @ rest = CHR ''<'' # tag @ CHR ''>'' # body @ ''</span>'' @ rest"
    by (simp add: coloured_def tag_def)
  moreover have "shown_text (''</span>'' @ rest) = shown_text rest"
    using shown_tag [of "''/span''" rest] by simp
  ultimately show ?thesis
    using opened assms(2) by simp
qed

text \<open>
  A scanner with the markup for its matches that leaves escaped text readable: it does not touch a reference, and
  a match that starts at any other character ends between two characters of the text and is shown as these.
\<close>

locale highlighter =
  fixes scan :: "'k scanner" and paint :: "'k \<Rightarrow> string \<Rightarrow> string"
  assumes reference_kept: "c \<in> set ''&<>'' \<Longrightarrow>
      replace_matches scan paint b (markup_char c @ s) = markup_char c @ replace_matches scan paint False s"
    and match_text: "scan b (escape_markup s) = Some (k, Suc n) \<Longrightarrow> s \<noteq> [] \<Longrightarrow> hd s \<notin> set ''&<>'' \<Longrightarrow>
      \<exists>u v. s = u @ v \<and> take (Suc n) (escape_markup s) = escape_markup u \<and>
        (\<forall>r. shown_text (paint k (escape_markup u) @ r) = u @ shown_text r)"
begin

lemma shown_replaced: "shown_text (replace_matches scan paint b (escape_markup s) @ r) = s @ shown_text r"
proof (induction "length s" arbitrary: s b rule: less_induct)
  case less
  show ?case
  proof (cases s)
    case (Cons c cs)
    show ?thesis
    proof (cases "c \<in> set ''&<>''")
      case True
      have "shown_text (replace_matches scan paint False (escape_markup cs) @ r) = cs @ shown_text r"
        by (rule less.hyps) (simp add: Cons)
      then show ?thesis
        using shown_markup [of "[c]"] by (simp add: Cons reference_kept [OF True])
    next
      case False
      then have c: "markup_char c = [c]"
        by (simp add: markup_char_def)
      show ?thesis
      proof (cases "\<exists>k n. scan b (escape_markup s) = Some (k, Suc n)")
        case True
        then obtain k n where m: "scan b (escape_markup s) = Some (k, Suc n)"
          by blast
        have "s \<noteq> []" and "hd s \<notin> set ''&<>''"
          using False by (simp_all add: Cons)
        from match_text [OF m this] obtain u v
          where uv: "s = u @ v" "take (Suc n) (escape_markup s) = escape_markup u"
            and shown: "\<And>r. shown_text (paint k (escape_markup u) @ r) = u @ shown_text r"
          by blast
        have "escape_markup u @ drop (Suc n) (escape_markup s) = escape_markup s"
          by (simp only: uv(2) [symmetric] append_take_drop_id)
        also have "\<dots> = escape_markup u @ escape_markup v"
          by (simp only: uv(1) escape_markup_simps)
        finally have "drop (Suc n) (escape_markup s) = escape_markup v"
          by (simp only: same_append_eq)
        then have v: "drop n (escape_markup cs) = escape_markup v"
          by (simp add: Cons c)
        have "u \<noteq> []"
          using uv(2) by (auto simp: Cons c)
        then have "shown_text (replace_matches scan paint b' (escape_markup v) @ r) = v @ shown_text r" for b'
          by (intro less.hyps) (simp add: uv(1))
        then show ?thesis
          using m uv(2) shown v by (simp add: Cons c uv(1) [symmetric])
      next
        case no: False
        have "replace_matches scan paint b (escape_markup s) = c # replace_matches scan paint (is_ident_char c) (escape_markup cs)"
          using no by (auto simp: Cons c split: option.split nat.split)
        moreover have "shown_text (replace_matches scan paint (is_ident_char c) (escape_markup cs) @ r) = cs @ shown_text r"
          by (rule less.hyps) (simp add: Cons)
        ultimately show ?thesis
          using False by (simp add: Cons)
      qed
    qed
  qed simp
qed

end

text \<open>Where the tokens of structured text end.\<close>

lemma upto_end_take: "upto_end needle s = Some n \<Longrightarrow> \<exists>x. take n s = x @ needle"
proof (induction s arbitrary: n)
  case (Cons c s)
  show ?case
  proof (cases "prefix needle (c # s)")
    case True
    then have "take n (c # s) = [] @ needle"
      using Cons.prems by (auto simp: prefix_def)
    then show ?thesis
      by blast
  next
    case False
    then obtain m where m: "upto_end needle s = Some m" "n = Suc m"
      using Cons.prems by auto
    then obtain x where "take m s = x @ needle"
      using Cons.IH by blast
    then have "take n (c # s) = (c # x) @ needle"
      by (simp add: m(2))
    then show ?thesis
      by blast
  qed
qed simp

lemma literal_end_take: "literal_end q s = Some n \<Longrightarrow> \<exists>x. take n s = x @ [q]"
proof (induction q s arbitrary: n rule: literal_end.induct)
  case (2 q c cs)
  have step: "\<exists>x. take (Suc m) (c # u) = x @ [q]" if "\<exists>x. take m u = x @ [q]" for m and u :: string and c
    using that by (metis append_Cons take_Suc_Cons)
  show ?case
  proof (cases "c = q")
    case True
    then have "take n (c # cs) = [] @ [q]"
      using "2.prems" by auto
    then show ?thesis
      by blast
  next
    case False
    then show ?thesis
      using 2 by (auto split: if_splits list.splits intro!: step simp: numeral_2_eq_2)
  qed
qed simp

lemma block_comment_last:
  "scan_block_comment s = Some n \<Longrightarrow> take n s \<noteq> [] \<and> last (take n s) = CHR '')''"
proof -
  assume "scan_block_comment s = Some n"
  then obtain m t where "s = CHR ''('' # CHR ''*'' # t" "upto_end ''*)'' t = Some m" "n = Suc (Suc m)"
    by (auto simp: scan_block_comment_def prefix_def split: if_splits)
  moreover from upto_end_take [OF this(2)] obtain x where "take m t = x @ ''*)''"
    by blast
  ultimately have "take n s = (''(*'' @ x @ ''*'') @ '')''"
    by simp
  then show ?thesis
    by (simp only: last_snoc append_is_Nil_conv list.distinct simp_thms)
qed

lemma line_comment_end:
  "scan_line_comment s = Some n \<Longrightarrow> drop n s = [] \<or> hd (drop n s) \<in> {CHR 0x0A, CHR 0x0D}"
proof -
  assume "scan_line_comment s = Some n"
  then obtain t where "s = CHR ''-'' # CHR ''-'' # t"
    and "n = Suc (Suc (length (takeWhile (\<lambda>c. c \<notin> {CHR 0x0A, CHR 0x0D}) t)))"
    by (auto simp: scan_line_comment_def prefix_def split: if_splits)
  then have "drop n s = dropWhile (\<lambda>c. c \<notin> {CHR 0x0A, CHR 0x0D}) t"
    by (simp add: dropWhile_eq_drop)
  then show ?thesis
    using hd_dropWhile [of "\<lambda>c. c \<notin> {CHR 0x0A, CHR 0x0D}" t] by auto
qed

lemma literal_last: "scan_literal q s = Some n \<Longrightarrow> take n s \<noteq> [] \<and> last (take n s) = q"
  using literal_end_take [of q] by (fastforce simp: scan_literal_def split: list.splits if_splits)

lemma type_plain: "scan_type s = Some (m, n) \<Longrightarrow> CHR ''&'' \<notin> set (take n s)"
proof -
  assume "scan_type s = Some (m, n)"
  then obtain cs w ws where s: "s = CHR '':'' # cs"
    and found: "filter (\<lambda>w. prefix w (dropWhile js_is_ws cs) \<and> \<not> starts_word (drop (length w) (dropWhile js_is_ws cs))) type_words
      = w # ws"
    and n: "n = Suc (length (takeWhile js_is_ws cs) + length w)"
    by (auto simp: scan_type_def Let_def dropWhile_eq_drop simp del: drop_drop split: list.splits if_splits)
  have "w \<in> set (w # ws)"
    by simp
  then have w: "w \<in> set type_words" "prefix w (dropWhile js_is_ws cs)"
    unfolding found [symmetric] by simp_all
  have "take n s = CHR '':'' # take (length (takeWhile js_is_ws cs) + length w) (takeWhile js_is_ws cs @ dropWhile js_is_ws cs)"
    by (simp add: s n)
  then have "take n s = CHR '':'' # takeWhile js_is_ws cs @ take (length w) (dropWhile js_is_ws cs)"
    by (simp only: take_append) simp
  moreover have "take (length w) (dropWhile js_is_ws cs) = w"
    using w(2) by (auto simp: prefix_def)
  moreover have "CHR ''&'' \<notin> set w"
    using w(1) by (auto simp: type_words_def)
  moreover have "CHR ''&'' \<notin> set (takeWhile js_is_ws cs)"
    by (auto dest: set_takeWhileD simp: js_is_ws_def)
  ultimately show ?thesis
    by simp
qed

lemma ident_plain: "scan_ident b s = Some n \<Longrightarrow> CHR ''&'' \<notin> set (take n s)"
proof -
  assume "scan_ident b s = Some n"
  then obtain c cs where s: "s = c # cs" "is_ident_start c" "n = Suc (length (takeWhile is_ident_char cs))"
    by (auto simp: scan_ident_def split: list.splits if_splits)
  then have "take n s = c # takeWhile is_ident_char cs"
    by (simp add: takeWhile_eq_take [symmetric])
  moreover have "\<not> is_ident_char (CHR ''&'')" and "\<not> is_ident_start (CHR ''&'')"
    by code_simp+
  ultimately show ?thesis
    using s(2) by (auto dest: set_takeWhileD)
qed

lemma number_plain: "scan_number b s = Some n \<Longrightarrow> CHR ''&'' \<notin> set (take n s)"
proof -
  assume n: "scan_number b s = Some n"
  define ds where "ds = takeWhile is_digit s"
  have s: "s = ds @ drop (length ds) s"
    by (simp only: ds_def dropWhile_eq_drop [symmetric] takeWhile_dropWhile_id)
  have amp: "\<not> is_digit (CHR ''&'')"
    by code_simp
  have ds: "CHR ''&'' \<notin> set ds"
    using amp by (auto simp: ds_def dest: set_takeWhileD)
  show ?thesis
  proof (cases "drop (length ds) s")
    case Nil
    then have "s = ds"
      using s by simp
    then show ?thesis
      using ds by (auto dest: in_set_takeD)
  next
    case (Cons c cs)
    define es where "es = takeWhile is_digit cs"
    have cs: "cs = es @ drop (length es) cs"
      by (simp only: es_def dropWhile_eq_drop [symmetric] takeWhile_dropWhile_id)
    have es: "CHR ''&'' \<notin> set es"
      using amp by (auto simp: es_def dest: set_takeWhileD)
    have "n = length ds \<or> c = CHR ''.'' \<and> n \<le> Suc (length ds) + length es"
      using n Cons unfolding scan_number_def ds_def [symmetric]
      by (auto simp: Let_def es_def [symmetric] split: if_splits)
    moreover have seq: "s = (ds @ c # es) @ drop (length es) cs"
      using s cs Cons by simp
    ultimately show ?thesis
    proof (elim disjE conjE)
      assume "n = length ds"
      then have "take n s = ds"
        unfolding ds_def by (simp add: takeWhile_eq_take [symmetric])
      then show ?thesis
        using ds by simp
    next
      assume c: "c = CHR ''.''" and le: "n \<le> Suc (length ds) + length es"
      have "take n s = take n (ds @ c # es) @ take (n - length (ds @ c # es)) (drop (length es) cs)"
        by (subst seq) (simp only: take_append)
      then have "take n s = take n (ds @ c # es)"
        using le by simp
      then show ?thesis
        using ds es c by (auto dest!: in_set_takeD)
    qed
  qed
qed

lemma scan_st_end:
  assumes "scan_st b s = Some (k, n)"
  shows "CHR ''&'' \<notin> set (take n s) \<or>
    k \<in> {BlockComment, LineComment, StringLit} \<and>
      (last (take n s) \<in> set '')'' \<union> {CHR 0x27} \<or> drop n s = [] \<or> hd (drop n s) \<in> {CHR 0x0A, CHR 0x0D})"
  using assms block_comment_last [of s n] line_comment_end [of s n] literal_last [of "CHR 0x27" s n] type_plain [of s _ n]
    ident_plain [of b s n] number_plain [of b s n]
  by (auto simp: scan_st_def split: option.splits)

lemma paint_st_shows:
  assumes "CHR ''&'' \<notin> set (escape_markup u) \<or> k \<in> {BlockComment, LineComment, StringLit}"
  shows "shown_text (paint_st k (escape_markup u) @ r) = u @ shown_text r"
proof (cases "CHR ''&'' \<in> set (escape_markup u)")
  case True
  then show ?thesis
    using assms by (auto intro!: shown_coloured simp: shown_markup)
next
  case False
  have e: "escape_markup u = u"
    by (rule escape_markup_plain [OF False])
  then have "CHR ''&'' \<notin> set u" and "CHR ''<'' \<notin> set u"
    using False escape_markup_clean [of u] by simp_all
  then have plain: "shown_text (take m u @ r) = take m u @ shown_text r" "shown_text (drop m u @ r) = drop m u @ shown_text r"
    "shown_text (u @ r) = u @ shown_text r" for m r
    by (auto intro!: shown_plain dest: in_set_takeD in_set_dropD)
  show ?thesis
    unfolding e by (cases k) (simp_all add: plain shown_coloured)
qed

text \<open>No expression of structured text matches at a reference, and the letters of one are no keyword.\<close>

lemma mark_st: "c \<in> set ''&;'' \<Longrightarrow> scan_st b (c # s) = None"
proof -
  have "\<not> is_ident_start (CHR ''&'')" "\<not> is_ident_start (CHR '';'')" "\<not> is_digit (CHR ''&'')" "\<not> is_digit (CHR '';'')"
    by code_simp+
  then show "c \<in> set ''&;'' \<Longrightarrow> scan_st b (c # s) = None"
    by (auto simp: scan_st_def scan_block_comment_def scan_line_comment_def scan_literal_def scan_type_def scan_ident_def
        scan_number_def)
qed

lemma word_st:
  assumes "list_all is_ident_char u" and "u \<noteq> []" and "is_ident_start (hd u)" and "hd u \<notin> set ''(-:'' \<union> {CHR 0x27}"
  shows "scan_st False (u @ CHR '';'' # s) = Some (Ident, length u)"
proof -
  obtain c w where u: "u = c # w"
    using assms(2) by (cases u) auto
  have "takeWhile is_ident_char (w @ CHR '';'' # s) = w"
    using assms(1) by (subst takeWhile_append2) (auto simp: u list_all_iff is_ident_char_def js_eval)
  then show ?thesis
    using assms(3,4)
    by (auto simp: u scan_st_def scan_block_comment_def scan_line_comment_def scan_literal_def scan_type_def scan_ident_def)
qed

lemma letters_st:
  assumes "list_all is_ident_char u" and "u \<noteq> []" and "is_ident_start (hd u)" and "hd u \<notin> set ''(-:'' \<union> {CHR 0x27}"
    and "js_to_upper u \<notin> set ST_KEYWORDS"
  shows "replace_matches scan_st paint_st b (CHR ''&'' # u @ CHR '';'' # s)
    = CHR ''&'' # u @ CHR '';'' # replace_matches scan_st paint_st False s"
proof -
  obtain c w where u: "u = c # w"
    using assms(2) by (cases u) auto
  have "\<not> is_ident_char (CHR ''&'')" and "\<not> is_ident_char (CHR '';'')"
    by code_simp+
  then show ?thesis
    using word_st [OF assms(1-4), of s] assms(5) by (simp add: mark_st u)
qed

lemma reference_st:
  assumes "c \<in> set ''&<>''"
  shows "replace_matches scan_st paint_st b (markup_char c @ s) = markup_char c @ replace_matches scan_st paint_st False s"
proof -
  obtain u where u: "markup_char c = CHR ''&'' # u @ [CHR '';'']" "u \<in> {''amp'', ''lt'', ''gt''}"
    using assms by (auto simp: markup_char_def)
  have "\<forall>u \<in> {''amp'', ''lt'', ''gt''}. list_all is_ident_char u \<and> u \<noteq> [] \<and> is_ident_start (hd u)
      \<and> hd u \<notin> set ''(-:'' \<union> {CHR 0x27} \<and> js_to_upper u \<notin> set ST_KEYWORDS"
    by code_simp
  then have "replace_matches scan_st paint_st b (CHR ''&'' # u @ CHR '';'' # s)
      = CHR ''&'' # u @ CHR '';'' # replace_matches scan_st paint_st False s"
    using u(2) by (intro letters_st) blast+
  then show ?thesis
    by (simp only: u(1) append_Cons append_assoc append_Nil)
qed

lemma match_st:
  assumes "scan_st b (escape_markup s) = Some (k, Suc n)"
  shows "\<exists>u v. s = u @ v \<and> take (Suc n) (escape_markup s) = escape_markup u \<and>
    (\<forall>r. shown_text (paint_st k (escape_markup u) @ r) = u @ shown_text r)"
proof -
  let ?x = "take (Suc n) (escape_markup s)" and ?y = "drop (Suc n) (escape_markup s)"
  note ends = scan_st_end [OF assms]
  have "escape_markup s = ?x @ ?y"
    by (simp only: append_take_drop_id)
  moreover have "\<forall>a \<in> set '')'' \<union> {CHR 0x27}. a \<notin> set ''&ampltg''" and "\<forall>a \<in> {CHR 0x0A, CHR 0x0D}. a \<notin> set ''ampltg;''"
    by code_simp+
  then have "CHR ''&'' \<notin> set ?x \<or> last ?x \<notin> set ''&ampltg'' \<or> ?y = [] \<or> hd ?y \<notin> set ''ampltg;''"
    using ends by blast
  ultimately obtain u v where uv: "s = u @ v" "?x = escape_markup u"
    by (rule markup_aligned)
  moreover have "shown_text (paint_st k (escape_markup u) @ r) = u @ shown_text r" for r
    by (rule paint_st_shows) (use ends uv(2) in auto)
  ultimately show ?thesis
    by blast
qed

interpretation st: highlighter scan_st paint_st
  by unfold_locales (use reference_st match_st in blast)+

lemma shown_lines: "shown_text (js_join line_feed (map highlight_line ls)) = js_join line_feed ls"
proof (induction ls rule: induct_list012)
  case (2 l)
  then show ?case
    using st.shown_replaced [of False l "[]"] by (simp add: highlight_line_def)
next
  case (3 l1 l2 ls)
  have "shown_text (highlight_line l1 @ CHR 0x0A # js_join line_feed (map highlight_line (l2 # ls)))
      = l1 @ CHR 0x0A # shown_text (js_join line_feed (map highlight_line (l2 # ls)))"
    by (simp add: highlight_line_def st.shown_replaced)
  then show ?case
    using 3 by (simp add: line_feed_def)
qed simp

text \<open>
  C5: colouring structured text changes nothing of the text itself: what the layer behind the text area shows is
  the typed source, character for character, so that the caret stands where it seems to stand, and nothing that
  is typed is taken as markup. No colouring cuts one of the references that stand for \<open>&\<close>, \<open><\<close> and \<open>>\<close>,
  which a browser would then show as they are written.
\<close>

theorem highlighting_shows_source: "shown_text (highlightSt code) = code"
  using shown_lines [of "js_split (CHR 0x0A) code"] js_join_split [of "CHR 0x0A" code]
  by (simp add: highlightSt_def line_feed_def)

lemma replace_match:
  assumes "scan b (u @ s) = Some (k, length u)" and "u \<noteq> []"
  shows "replace_matches scan f b (u @ s) = f k u @ replace_matches scan f (is_ident_char (last u)) s"
proof -
  obtain a v where "u = a # v"
    using assms(2) by (cases u) auto
  then show ?thesis
    using assms(1) by simp
qed

text \<open>The passes over the markup of a symbol do not look at the character before a match.\<close>

lemma replace_behind:
  assumes "\<And>b s. scan b s = scan False s"
  shows "replace_matches scan f b s = replace_matches scan f False s"
  by (cases s) (simp_all add: assms [of b])

lemma attribute_behind: "replace_matches scan_attribute f True s = replace_matches scan_attribute f False s"
  by (rule replace_behind) (simp add: scan_attribute_def)

lemma quoted_behind: "replace_matches scan_quoted f True s = replace_matches scan_quoted f False s"
  by (rule replace_behind) (simp add: scan_quoted_def)

lemma comment_behind: "replace_matches scan_comment f True s = replace_matches scan_comment f False s"
  by (rule replace_behind) (simp add: scan_comment_def)

lemma drop_names: "list_all is_name_char u \<Longrightarrow> \<not> is_name_char c \<Longrightarrow> takeWhile is_name_char (u @ c # s) = u"
  by (subst takeWhile_append2) (auto simp: list_all_iff)

lemma attribute_skip:
  "list_all is_name_char u \<Longrightarrow> \<not> is_name_char c \<Longrightarrow> c \<noteq> CHR ''='' \<Longrightarrow>
   replace_matches scan_attribute f b (u @ c # s) = u @ c # replace_matches scan_attribute f False s"
proof (induction u arbitrary: b)
  case Nil
  then have "scan_attribute b (c # s) = None"
    by (simp add: scan_attribute_def)
  then show ?case
    using attribute_behind [of f s] by (cases "is_ident_char c") simp_all
next
  case (Cons a u)
  then have "scan_attribute b ((a # u) @ c # s) = None"
    using drop_names [of "a # u" c s] by (simp add: scan_attribute_def)
  then show ?case
    using Cons by simp
qed

lemma attribute_match:
  assumes "list_all is_name_char u" and "u \<noteq> []"
  shows "replace_matches scan_attribute f b (u @ CHR ''='' # s)
    = f (length u) (u @ ''='') @ replace_matches scan_attribute f False s"
proof -
  obtain a v where u: "u = a # v"
    using assms(2) by (cases u) auto
  have "scan_attribute b (u @ CHR ''='' # s) = Some (length u, Suc (length u))"
    using assms drop_names [of u "CHR ''=''" s] by (simp add: scan_attribute_def is_name_char_def is_ident_char_def js_eval Let_def)
  then show ?thesis
    by (simp add: u is_ident_char_def js_eval)
qed

lemma quoted_skip:
  "CHR 0x22 \<notin> set u \<Longrightarrow> replace_matches scan_quoted f b (u @ s) = u @ replace_matches scan_quoted f False s"
proof (induction u arbitrary: b)
  case Nil
  show ?case
    using quoted_behind [of f s] by (cases b) simp_all
next
  case (Cons a u)
  then have "scan_quoted b ((a # u) @ s) = None"
    by (auto simp: scan_quoted_def scan_literal_def)
  then show ?case
    using Cons by simp
qed

lemma literal_end_plain: "q \<notin> set u \<Longrightarrow> CHR 0x5C \<notin> set u \<Longrightarrow> literal_end q (u @ q # s) = Some (Suc (length u))"
  by (induction u) auto

lemma quoted_match:
  assumes "CHR 0x22 \<notin> set u" and "CHR 0x5C \<notin> set u"
  shows "replace_matches scan_quoted f b (quoted u @ s) = f () (quoted u) @ replace_matches scan_quoted f False s"
proof -
  have "scan_quoted b (quoted u @ s) = Some ((), Suc (Suc (length u)))"
    using literal_end_plain [OF assms, of s] by (simp add: scan_quoted_def scan_literal_def quoted_def)
  then show ?thesis
    by (simp add: quoted_def is_ident_char_def js_eval)
qed

lemma comment_skip:
  "CHR ''&'' \<notin> set u \<Longrightarrow> replace_matches scan_comment f b (u @ s) = u @ replace_matches scan_comment f False s"
proof (induction u arbitrary: b)
  case Nil
  show ?case
    using comment_behind [of f s] by (cases b) simp_all
next
  case (Cons a u)
  then have "scan_comment b ((a # u) @ s) = None"
    by (auto simp: scan_comment_def)
  then show ?case
    using Cons by simp
qed

lemma names_plain:
  assumes "list_all is_name_char u" and "\<not> is_name_char c"
  shows "c \<notin> set u"
  using assms by (auto simp: list_all_iff)

text \<open>The characters of the markup, and which of them may be part of a name.\<close>

lemma markup_chars:
  "is_ident_char (CHR ''a'')" "is_ident_char (CHR ''c'')" "is_ident_char (CHR ''d'')" "is_ident_char (CHR ''e'')"
  "is_ident_char (CHR ''g'')" "is_ident_char (CHR ''l'')" "is_ident_char (CHR ''n'')" "is_ident_char (CHR ''p'')"
  "is_ident_char (CHR ''r'')" "is_ident_char (CHR ''s'')" "is_ident_char (CHR ''t'')" "is_ident_char (CHR ''x'')"
  "is_ident_char (CHR ''4'')" "is_ident_char (CHR ''0'')" "\<not> is_ident_char (CHR ''&'')"
  "\<not> is_ident_char (CHR '';'')" "\<not> is_ident_char (CHR ''<'')" "\<not> is_ident_char (CHR ''='')"
  "\<not> is_ident_char (CHR '' '')" "\<not> is_ident_char (CHR 0x22)" "\<not> is_ident_char (CHR ''>'')"
  "\<not> is_ident_char (CHR ''/'')" "\<not> is_ident_char (CHR ''-'')"
  by code_simp+

text \<open>
  Colouring the markup of a symbol garbles it: the second pass takes the \<open>class=\<close> that the first one wrote
  for an attribute of the symbol, and the third its value for a literal. Behind \<open><name>\<close> the layer shows
  two pieces of the markup as text.
\<close>

theorem highlighted_element_garbled:
  assumes "n \<noteq> []" and "list_all is_name_char n"
  shows "shown_text (highlightXml (''<'' @ n @ ''>''))
    = ''<'' @ quoted ''text-yellow-300'' @ ''>class='' @ quoted ''text-red-400'' @ ''>'' @ n @ ''>''"
proof -
  note clean = names_plain [OF assms(2)]
  have plain: "CHR ''<'' \<notin> set n" "CHR ''>'' \<notin> set n" "CHR ''&'' \<notin> set n" "CHR 0x22 \<notin> set n" "CHR ''/'' \<notin> set n"
    by (rule clean, simp add: is_name_char_def is_ident_char_def js_eval)+
  define red where "red = quoted ''text-red-400''"
  define yellow where "yellow = quoted ''text-yellow-300''"
  define green where "green = quoted ''text-green-400''"
  obtain a v where n: "n = a # v"
    using assms(1) by (cases n) auto
  have "escape_markup n = n"
    using plain(1-3) by (induction n) (auto simp: markup_char_def)
  then have s0: "escape_markup (''<'' @ n @ ''>'') = ''&lt;'' @ n @ ''&gt;''"
    by (simp add: markup_char_def)
  have "takeWhile is_name_char (n @ ''&gt;'') = n"
    using assms(2) by (intro drop_names) (simp_all add: is_name_char_def is_ident_char_def js_eval)
  then have m: "scan_tag_name False ((''&lt;'' @ n) @ ''&gt;'') = Some (4, length (''&lt;'' @ n))"
    using plain(5) by (simp add: scan_tag_name_def n Let_def)
  have tail: "replace_matches scan_tag_name f b ''&gt;'' = ''&gt;''" for f b
    by (simp add: scan_tag_name_def)
  have "replace_matches scan_tag_name f False ((''&lt;'' @ n) @ ''&gt;'') = f 4 (''&lt;'' @ n) @ ''&gt;''" for f
    using replace_match [of scan_tag_name, OF m] by (simp only: tail) simp
  then have s1: "replace_matches scan_tag_name (\<lambda>n m. take n m @ coloured ''text-red-400'' (drop n m)) False (''&lt;'' @ n @ ''&gt;'')
      = ''&lt;<span class='' @ red @ ''>'' @ n @ ''</span>&gt;''"
    by (simp add: coloured_def red_def del: replace_matches.simps)
  have s2: "replace_matches scan_attribute (\<lambda>n m. coloured ''text-yellow-300'' (take n m) @ drop n m) False
        (''&lt;<span class='' @ red @ ''>'' @ n @ ''</span>&gt;'')
      = ''&lt;<span <span class='' @ yellow @ ''>class</span>='' @ red @ ''>'' @ n @ ''</span>&gt;''"
    by (simp add: red_def yellow_def quoted_def coloured_def scan_attribute_def is_name_char_def markup_chars attribute_skip [OF assms(2)])
  define u1 where "u1 = ''lt;<span <span class=''"
  define u2 where "u2 = ''>class</span>=''"
  define u3 where "u3 = ''>'' @ n @ ''</span>&gt;''"
  define u4 where "u4 = ''>'' @ n @ ''</span>''"
  have "CHR 0x22 \<notin> set (CHR ''&'' # u1)" "CHR 0x22 \<notin> set u2" "CHR 0x22 \<notin> set u3"
    using plain by (simp_all add: u1_def u2_def u3_def)
  note skips = this [THEN quoted_skip]
  have "replace_matches scan_quoted (\<lambda>_. coloured ''text-green-400'') False
        ((CHR ''&'' # u1) @ yellow @ u2 @ red @ u3 @ [])
      = (CHR ''&'' # u1) @ coloured ''text-green-400'' yellow @ u2 @ coloured ''text-green-400'' red @ u3 @ []"
    unfolding yellow_def red_def
    by (subst skips, subst quoted_match, simp, simp, subst skips, subst quoted_match, simp, simp, subst skips) simp
  then have s3: "replace_matches scan_quoted (\<lambda>_. coloured ''text-green-400'') False
        (''&lt;<span <span class='' @ yellow @ ''>class</span>='' @ red @ ''>'' @ n @ ''</span>&gt;'')
      = CHR ''&'' # (u1 @ coloured ''text-green-400'' yellow @ u2 @ coloured ''text-green-400'' red @ u4) @ ''&gt;''"
    by (simp add: u1_def u2_def u3_def u4_def)
  have "CHR ''&'' \<notin> set (u1 @ coloured ''text-green-400'' yellow @ u2 @ coloured ''text-green-400'' red @ u4)"
    using plain by (simp add: u1_def u2_def u4_def coloured_def yellow_def red_def quoted_def)
  from comment_skip [OF this] have s4: "replace_matches scan_comment (\<lambda>_. coloured ''text-ide-textDim italic'') False
        (CHR ''&'' # (u1 @ coloured ''text-green-400'' yellow @ u2 @ coloured ''text-green-400'' red @ u4) @ ''&gt;'')
      = CHR ''&'' # (u1 @ coloured ''text-green-400'' yellow @ u2 @ coloured ''text-green-400'' red @ u4) @ ''&gt;''"
    by (simp add: scan_comment_def u1_def is_ident_char_def js_eval)
  define garbled where
    "garbled = CHR ''&'' # (u1 @ coloured ''text-green-400'' yellow @ u2 @ coloured ''text-green-400'' red @ u4) @ ''&gt;''"
  have parts: "garbled = ''&lt;'' @ CHR ''<'' # (''span <span class=<span class='' @ green) @ CHR ''>'' #
      yellow @ CHR ''<'' # ''/span'' @ CHR ''>'' # ''>class'' @ CHR ''<'' # ''/span'' @ CHR ''>'' # ''='' @ CHR ''<'' #
      (''span class='' @ green) @ CHR ''>'' # red @ CHR ''<'' # ''/span'' @ CHR ''>'' # (''>'' @ n) @ CHR ''<'' # ''/span'' @ CHR ''>'' # ''&gt;''"
    by (simp add: garbled_def u1_def u2_def u4_def coloured_def green_def)
  have tags: "opens_tag (''span <span class=<span class='' @ green)" "CHR ''>'' \<notin> set (''span <span class=<span class='' @ green)"
    "opens_tag (''span class='' @ green)" "CHR ''>'' \<notin> set (''span class='' @ green)"
    "opens_tag ''/span''" "CHR ''>'' \<notin> set ''/span''"
    by (simp_all add: green_def quoted_def js_in_range_def)
  have texts: "CHR ''<'' \<notin> set yellow" "CHR ''&'' \<notin> set yellow" "CHR ''<'' \<notin> set red" "CHR ''&'' \<notin> set red"
    "CHR ''<'' \<notin> set (''>'' @ n)" "CHR ''&'' \<notin> set (''>'' @ n)"
    "CHR ''<'' \<notin> set ''>class''" "CHR ''&'' \<notin> set ''>class''" "CHR ''<'' \<notin> set ''=''" "CHR ''&'' \<notin> set ''=''"
    using plain by (simp_all add: yellow_def red_def quoted_def)
  note reads = shown_tag [OF tags(1,2)] shown_tag [OF tags(3,4)] shown_tag [OF tags(5,6)] shown_plain [OF texts(1,2)]
    shown_plain [OF texts(3,4)] shown_plain [OF texts(5,6)] shown_plain [OF texts(7,8)] shown_plain [OF texts(9,10)]
  have less: "shown_text (''&lt;'' @ s) = ''<'' @ shown_text s" for s
    by simp
  have "shown_text garbled = ''<'' @ yellow @ ''>class'' @ ''='' @ red @ (''>'' @ n) @ shown_text ''&gt;''"
    unfolding parts by (simp only: reads less)
  then have "shown_text garbled = ''<'' @ yellow @ ''>class='' @ red @ ''>'' @ n @ ''>''"
    by simp
  then have "shown_text (highlightXml (''<'' @ n @ ''>'')) = ''<'' @ yellow @ ''>class='' @ red @ ''>'' @ n @ ''>''"
    by (simp only: highlightXml_def Let_def s0 s1 s2 s3 s4 garbled_def)
  then show ?thesis
    by (simp only: yellow_def red_def)
qed

theorem highlighted_element_garbled_witness:
  "shown_text (highlightXml ''<svg>'')
    = ''<'' @ quoted ''text-yellow-300'' @ ''>class='' @ quoted ''text-red-400'' @ ''>svg>''"
  using highlighted_element_garbled [of "''svg''"] by (simp add: is_name_char_def is_ident_char_def js_eval)

text \<open>
  A comment of structured text that goes over two lines is not seen as one, although the expression for it
  reads line breaks: the source is split into lines first, and the words of the comment are coloured as keywords.
\<close>

theorem long_comment_not_coloured:
  "highlightSt (''(* IF'' @ line_feed @ ''*)'') = ''(* '' @ coloured ''text-purple-400'' ''IF'' @ line_feed @ ''*)''
   \<and> highlightSt ''(* IF *)'' = coloured ''text-ide-textDim italic'' ''(* IF *)''"
  by (simp add: highlightSt_def line_feed_def highlight_line_def markup_char_def scan_st_def scan_block_comment_def
      scan_line_comment_def scan_literal_def scan_type_def scan_ident_def scan_number_def starts_word_def ST_KEYWORDS_def
      is_ident_char_def js_eval Let_def)

end
