(* ===== verification/BlockScreen.thy ===== *)
theory BlockScreen
  imports Highlight BlockLaws BlockSimLaws
begin

text \<open>
  The screen of the block editor around its fields (\<open>components/library/BlockEditor.tsx\<close>): the two tabs, the
  sections that fold, the symbol and the source with their layers, and which part of the state lives only while
  its section is on screen. A section that is mounted runs its effects before those of the editor.
\<close>

section \<open>The symbol section\<close>

record symbol_section =
  sy_custom :: bool
  sy_font :: int

datatype font_button = Smaller | Bigger

fun change_font :: "font_button \<Rightarrow> int \<Rightarrow> int" where
  "change_font Smaller s = max 10 (s - 1)"
| "change_font Bigger s = min 24 (s + 1)"

definition open_symbol :: "editor_fields \<Rightarrow> symbol_section" where
  "open_symbol f = \<lparr>sy_custom = (shown_symbol f \<noteq> symbol_of f), sy_font = 12\<rparr>"

text \<open>The layers of a text area: the numbers of the lines, the coloured text when it is shown, and the text.\<close>

record text_layers =
  tl_font :: int
  tl_gutter :: "nat list"
  tl_coloured :: "string option"
  tl_typed :: string

definition line_numbers :: "string \<Rightarrow> nat list" where
  "line_numbers s = [1..<length (js_split (CHR 0x0A) s) + 1]"

record symbol_view =
  syv_auto_marked :: bool
  syv_custom_marked :: bool
  syv_reset :: "string option"
  syv_preview :: string
  syv_editor :: "text_layers option"

definition symbol_section_view :: "(string \<Rightarrow> string) \<Rightarrow> editor_fields \<Rightarrow> symbol_section \<Rightarrow> symbol_view" where
  "symbol_section_view t f s =
     (let svg = shown_symbol f in
      \<lparr>syv_auto_marked = (\<not> sy_custom s), syv_custom_marked = sy_custom s,
       syv_reset = (if sy_custom s then Some (t ''editor.symbol.reset'') else None),
       syv_preview = (if sy_custom s then svg else symbol_of f),
       syv_editor =
         (if sy_custom s
          then Some \<lparr>tl_font = sy_font s, tl_gutter = line_numbers svg, tl_coloured = Some (highlightXml svg), tl_typed = svg\<rparr>
          else None)\<rparr>)"

section \<open>The source section\<close>

record source_section =
  sc_highlight :: bool
  sc_font :: int

definition open_source :: source_section where
  "open_source = \<lparr>sc_highlight = True, sc_font = 13\<rparr>"

definition skeleton_of :: "editor_fields \<Rightarrow> string" where
  "skeleton_of f = skeleton (ef_name f) (ef_blockKind f) (ef_inputs f) (ef_outputs f) (ef_parameters f)"

definition effectiveCode :: "editor_fields \<Rightarrow> string" where
  "effectiveCode f = (if ef_stTemplate f = [] then skeleton_of f else ef_stTemplate f)"

definition source_section_view :: "editor_fields \<Rightarrow> source_section \<Rightarrow> text_layers" where
  "source_section_view f s =
     \<lparr>tl_font = sc_font s, tl_gutter = line_numbers (effectiveCode f),
      tl_coloured = (if sc_highlight s then Some (highlightSt (effectiveCode f)) else None), tl_typed = effectiveCode f\<rparr>"

section \<open>Scrolling\<close>

text \<open>
  The text area is transparent: what is read is the coloured layer behind it, and the numbers are those of the
  gutter. Each of the three has a scroll position of its own, top and left; a layer that is mounted starts at the top.
\<close>

record scroll_state =
  sl_area :: "int \<times> int"
  sl_gutter :: int
  sl_layer :: "(int \<times> int) option"

definition scroll_start :: "bool \<Rightarrow> scroll_state" where
  "scroll_start layer = \<lparr>sl_area = (0, 0), sl_gutter = 0, sl_layer = (if layer then Some (0, 0) else None)\<rparr>"

definition syncScroll :: "int \<times> int \<Rightarrow> scroll_state \<Rightarrow> scroll_state" where
  "syncScroll pos s = s\<lparr>sl_area := pos, sl_gutter := fst pos, sl_layer := map_option (\<lambda>_. pos) (sl_layer s)\<rparr>"

definition syncSvgScroll :: "int \<times> int \<Rightarrow> scroll_state \<Rightarrow> scroll_state" where
  "syncSvgScroll pos s = s\<lparr>sl_area := pos, sl_gutter := fst pos\<rparr>"

text \<open>The layer of the source comes and goes with its checkbox.\<close>

definition tick_layer :: "bool \<Rightarrow> scroll_state \<Rightarrow> scroll_state" where
  "tick_layer shown s =
     s\<lparr>sl_layer := (if \<not> shown then None else case sl_layer s of None \<Rightarrow> Some (0, 0) | Some pos \<Rightarrow> Some pos)\<rparr>"

definition in_line :: "scroll_state \<Rightarrow> bool" where
  "in_line s \<longleftrightarrow> sl_gutter s = fst (sl_area s) \<and> pred_option (\<lambda>pos. pos = sl_area s) (sl_layer s)"

section \<open>The screen\<close>

datatype editor_tab = EditTab | SimulateTab

datatype section_name = PortsPart | SymbolPart | SourcePart

record section_state =
  sec_ports :: bool
  sec_symbol :: bool
  sec_source :: bool

fun toggle_section :: "section_name \<Rightarrow> section_state \<Rightarrow> section_state" where
  "toggle_section PortsPart s = s\<lparr>sec_ports := \<not> sec_ports s\<rparr>"
| "toggle_section SymbolPart s = s\<lparr>sec_symbol := \<not> sec_symbol s\<rparr>"
| "toggle_section SourcePart s = s\<lparr>sec_source := \<not> sec_source s\<rparr>"

text \<open>\<open>bs_symbol\<close>, \<open>bs_source\<close> and \<open>bs_sim\<close> are the states of the parts that are on screen.\<close>

record block_screen =
  bs_editor :: block_editor
  bs_tab :: editor_tab
  bs_sections :: section_state
  bs_symbol :: "symbol_section option"
  bs_source :: "source_section option"
  bs_sim :: "sim_tab option"

definition sim_block_of :: "block_editor \<Rightarrow> sim_block" where
  "sim_block_of ed =
     (let f = be_fields ed in
      \<lparr>sb_id = ab_id (be_block ed), sb_kind = ef_blockKind f, sb_inputs = ef_inputs f, sb_outputs = ef_outputs f\<rparr>)"

text \<open>The parts that come on screen with the edit tab.\<close>

definition mount_sections :: "block_screen \<Rightarrow> block_screen" where
  "mount_sections s =
     (let secs = bs_sections s;
          s1 = s\<lparr>bs_symbol := (if sec_symbol secs then Some (open_symbol (be_fields (bs_editor s))) else None)\<rparr>
      in if sec_source secs
         then s1\<lparr>bs_source := Some open_source, bs_editor := mount_source (bs_editor s)\<rparr>
         else s1\<lparr>bs_source := None\<rparr>)"

text \<open>
  The editor opens with the source on screen. The effect of the source section writes the skeleton, and then the
  effect of the editor sets every field to that of the block; the first snapshot is of the first rendering.
\<close>

definition open_screen :: "algorithm_block \<Rightarrow> block_screen" where
  "open_screen b =
     (let ed0 = \<lparr>be_block = b, be_fields = fields_of b, be_history = empty_history, be_timer = False,
                be_dirty = False, be_saving = False\<rparr>;
          s0 = \<lparr>bs_editor = ed0, bs_tab = EditTab, bs_sections = \<lparr>sec_ports = True, sec_symbol = False, sec_source = True\<rparr>,
                bs_symbol = None, bs_source = None, bs_sim = None\<rparr>;
          s1 = mount_sections s0;
          ed1 = bs_editor s1;
          ed2 = ed1\<lparr>be_fields := fields_of b, be_dirty := False\<rparr>;
          ed3 = ed2\<lparr>be_history := push_snapshot (be_fields ed0) (be_history ed2)\<rparr>
      in s1\<lparr>bs_editor := ed3\<rparr>)"

definition set_tab :: "editor_tab \<Rightarrow> block_screen \<Rightarrow> block_screen" where
  "set_tab tab s =
     (if bs_tab s = tab then s
      else case tab of
          SimulateTab \<Rightarrow> s\<lparr>bs_tab := SimulateTab, bs_symbol := None, bs_source := None,
              bs_sim := Some (open_tab (sim_block_of (bs_editor s)))\<rparr>
        | EditTab \<Rightarrow> mount_sections (s\<lparr>bs_tab := EditTab, bs_sim := None\<rparr>))"

definition press_section :: "section_name \<Rightarrow> block_screen \<Rightarrow> block_screen" where
  "press_section part s =
     (let s1 = s\<lparr>bs_sections := toggle_section part (bs_sections s)\<rparr> in
      case part of
        PortsPart \<Rightarrow> s1
      | SymbolPart \<Rightarrow>
          s1\<lparr>bs_symbol := (if sec_symbol (bs_sections s1) then Some (open_symbol (be_fields (bs_editor s))) else None)\<rparr>
      | SourcePart \<Rightarrow>
          if sec_source (bs_sections s1)
          then s1\<lparr>bs_source := Some open_source, bs_editor := mount_source (bs_editor s)\<rparr>
          else s1\<lparr>bs_source := None\<rparr>)"

definition on_editor :: "(block_editor \<Rightarrow> block_editor) \<Rightarrow> block_screen \<Rightarrow> block_screen" where
  "on_editor g s = s\<lparr>bs_editor := g (bs_editor s)\<rparr>"

definition on_symbol :: "(symbol_section \<Rightarrow> symbol_section) \<Rightarrow> block_screen \<Rightarrow> block_screen" where
  "on_symbol g s = s\<lparr>bs_symbol := map_option g (bs_symbol s)\<rparr>"

definition on_source :: "(source_section \<Rightarrow> source_section) \<Rightarrow> block_screen \<Rightarrow> block_screen" where
  "on_source g s = s\<lparr>bs_source := map_option g (bs_source s)\<rparr>"

definition format_source :: "block_editor \<Rightarrow> block_editor" where
  "format_source ed = edit_block (EditSource (skeleton_of (be_fields ed))) ed"

datatype screen_event =
    PressTab editor_tab
  | PressSection section_name
  | FieldEdit field_edit
  | PressAuto
  | PressCustom
  | PressReset
  | SymbolFont font_button
  | SourceFont font_button
  | TickHighlight bool
  | PressFormat
  | PressUndo
  | PressRedo
  | TimerFires
  | BlockArrives algorithm_block

fun screen_step :: "screen_event \<Rightarrow> block_screen \<Rightarrow> block_screen" where
  "screen_step (PressTab tab) s = set_tab tab s"
| "screen_step (PressSection part) s = (if bs_tab s = EditTab then press_section part s else s)"
| "screen_step (FieldEdit e) s = (if bs_tab s = EditTab then on_editor (edit_block e) s else s)"
| "screen_step PressAuto s = on_symbol (\<lambda>y. y\<lparr>sy_custom := False\<rparr>) s"
| "screen_step PressCustom s = on_symbol (\<lambda>y. y\<lparr>sy_custom := True\<rparr>) s"
| "screen_step PressReset s =
     (if bs_symbol s = None then s else on_editor (edit_block ResetSvg) (on_symbol (\<lambda>y. y\<lparr>sy_custom := False\<rparr>) s))"
| "screen_step (SymbolFont b) s = on_symbol (\<lambda>y. y\<lparr>sy_font := change_font b (sy_font y)\<rparr>) s"
| "screen_step (SourceFont b) s = on_source (\<lambda>y. y\<lparr>sc_font := change_font b (sc_font y)\<rparr>) s"
| "screen_step (TickHighlight v) s = on_source (\<lambda>y. y\<lparr>sc_highlight := v\<rparr>) s"
| "screen_step PressFormat s = (if bs_source s = None then s else on_editor format_source s)"
| "screen_step PressUndo s = on_editor undo_block s"
| "screen_step PressRedo s = on_editor redo_block s"
| "screen_step TimerFires s = on_editor debounce_fires s"
| "screen_step (BlockArrives b) s = on_editor (load_block b) s"

definition run_screen :: "screen_event list \<Rightarrow> block_screen \<Rightarrow> block_screen" where
  "run_screen es s = fold screen_step es s"

section \<open>What the header and the metadata show\<close>

record screen_view =
  sv_title :: string
  sv_unsaved :: bool
  sv_save :: "string \<times> bool"
  sv_tabs :: "(string \<times> bool) list"
  sv_kind_hint :: string

definition block_screen_view :: "(string \<Rightarrow> string) \<Rightarrow> block_screen \<Rightarrow> screen_view" where
  "block_screen_view t s =
     (let ed = bs_editor s in
      \<lparr>sv_title = dash_text @ '' '' @ ef_name (be_fields ed), sv_unsaved = be_dirty ed,
       sv_save = (if be_saving ed then (t ''editor.saving'', False) else (t ''editor.save'', True)),
       sv_tabs = [(t ''editor.tabs.edit'', bs_tab s = EditTab), (t ''editor.tabs.simulate'', bs_tab s = SimulateTab)],
       sv_kind_hint =
         (if ef_blockKind (be_fields ed) = ''FB'' then t ''editor.blockKind.fbHint'' else t ''editor.blockKind.funHint'')\<rparr>)"

end
