(* ===== verification/BlockScreenLaws.thy ===== *)
theory BlockScreenLaws
  imports BlockScreen
begin

text \<open>
  What holds of the screen of the block editor: which parts live while which tab is open, the sizes of the text,
  and what happens to a source or a symbol that is shown but not stored.
\<close>

section \<open>The parts on screen\<close>

definition font_ok :: "int \<Rightarrow> bool" where
  "font_ok n \<longleftrightarrow> 10 \<le> n \<and> n \<le> 24"

definition screen_ok :: "block_screen \<Rightarrow> bool" where
  "screen_ok s \<longleftrightarrow>
     (bs_symbol s \<noteq> None \<longleftrightarrow> bs_tab s = EditTab \<and> sec_symbol (bs_sections s))
   \<and> (bs_source s \<noteq> None \<longleftrightarrow> bs_tab s = EditTab \<and> sec_source (bs_sections s))
   \<and> (bs_sim s \<noteq> None \<longleftrightarrow> bs_tab s = SimulateTab)
   \<and> pred_option (\<lambda>y. font_ok (sy_font y)) (bs_symbol s) \<and> pred_option (\<lambda>y. font_ok (sc_font y)) (bs_source s)"

lemma change_font_ok: "font_ok n \<Longrightarrow> font_ok (change_font b n)"
  by (cases b) (auto simp: font_ok_def)

lemma opened_fonts: "font_ok (sy_font (open_symbol f))" "font_ok (sc_font open_source)"
  by (simp_all add: font_ok_def open_symbol_def open_source_def)

lemma on_editor_ok: "screen_ok s \<Longrightarrow> screen_ok (on_editor g s)"
  by (simp add: screen_ok_def on_editor_def)

lemma on_symbol_ok: "screen_ok s \<Longrightarrow> (\<And>y. font_ok (sy_font y) \<Longrightarrow> font_ok (sy_font (g y))) \<Longrightarrow> screen_ok (on_symbol g s)"
  by (cases "bs_symbol s") (simp_all add: screen_ok_def on_symbol_def)

lemma on_source_ok: "screen_ok s \<Longrightarrow> (\<And>y. font_ok (sc_font y) \<Longrightarrow> font_ok (sc_font (g y))) \<Longrightarrow> screen_ok (on_source g s)"
  by (cases "bs_source s") (simp_all add: screen_ok_def on_source_def)

lemma mount_sections_ok: "bs_tab s = EditTab \<Longrightarrow> bs_sim s = None \<Longrightarrow> screen_ok (mount_sections s)"
  by (simp add: screen_ok_def mount_sections_def Let_def opened_fonts)

lemma set_tab_ok: "screen_ok s \<Longrightarrow> screen_ok (set_tab tab s)"
  by (cases tab) (auto simp: set_tab_def mount_sections_ok, simp add: screen_ok_def)

lemma press_section_ok: "screen_ok s \<Longrightarrow> bs_tab s = EditTab \<Longrightarrow> screen_ok (press_section part s)"
  by (cases part) (simp_all add: screen_ok_def press_section_def Let_def opened_fonts)

lemma screen_step_ok: "screen_ok s \<Longrightarrow> screen_ok (screen_step e s)"
  by (cases e) (simp_all add: set_tab_ok press_section_ok on_editor_ok on_symbol_ok on_source_ok change_font_ok)

lemma open_screen_ok: "screen_ok (open_screen b)"
  by (simp add: open_screen_def Let_def screen_ok_def mount_sections_def opened_fonts)

text \<open>
  C35: whatever is pressed in the block editor, a section has a state exactly while its tab is open and it is
  unfolded, the simulation exactly while its tab is open, and the size of the text stays between 10 and 24.
\<close>

theorem screen_parts: "screen_ok (run_screen es (open_screen b))"
proof -
  have "screen_ok s \<Longrightarrow> screen_ok (fold screen_step es s)" for s
    by (induction es arbitrary: s) (simp_all add: screen_step_ok)
  then show ?thesis
    by (simp add: run_screen_def open_screen_ok)
qed

section \<open>What is shown and what is saved\<close>

lemma hd_skeleton: "hd (skeleton name kind ins outs ps) = CHR ''F''"
  by (simp add: skeleton_def Let_def js_join_Cons_char)

lemma open_screen_editor:
  "bs_editor (open_screen b) = (open_editor b)\<lparr>be_timer := (ab_st_template b = [])\<rparr>"
  by (simp add: open_screen_def mount_sections_def mount_source_def edit_block_def open_editor_def fields_of_def Let_def)

lemma back_from_simulation:
  assumes "bs_tab s = EditTab" and "sec_source (bs_sections s)"
  shows "bs_editor (run_screen [PressTab SimulateTab, PressTab EditTab] s) = mount_source (bs_editor s)"
  using assms by (simp add: run_screen_def set_tab_def mount_sections_def Let_def)

text \<open>
  C36: the frame of the source that the editor shows for a new block is not part of the block: when the editor
  opens, the frame that the section writes is overwritten by the empty source of the block at once, and a save
  stores no source at all although one is on screen. Once the simulation has been looked at, the same save
  stores the frame, and the editor asks before it closes, without anything having been typed.
\<close>

theorem shown_source_not_saved:
  assumes "ab_st_template b = []" and "s = open_screen b" and "s' = run_screen [PressTab SimulateTab, PressTab EditTab] s"
  shows "tl_typed (source_section_view (be_fields (bs_editor s)) open_source) = skeleton_of (fields_of b)
    \<and> ab_st_template (snd (save_starts (bs_editor s))) = [] \<and> close_allowed False (bs_editor s)
    \<and> ab_st_template (snd (save_starts (bs_editor s'))) = skeleton_of (fields_of b) \<and> \<not> close_allowed False (bs_editor s')"
proof -
  have "bs_tab s = EditTab" and "sec_source (bs_sections s)"
    by (simp_all add: assms(2) open_screen_def mount_sections_def Let_def)
  then have s': "bs_editor s' = mount_source (bs_editor s)"
    unfolding assms(3) by (rule back_from_simulation)
  show ?thesis
    unfolding s' using assms(1)
    by (simp add: assms(2) open_screen_editor open_editor_def source_section_view_def effectiveCode_def fields_of_def skeleton_of_def
        save_starts_def saved_block_def close_allowed_def mount_source_def edit_block_def Let_def)
qed

theorem shown_source_not_saved_witness:
  "ab_st_template (snd (save_starts (bs_editor (open_screen sample_block)))) = []"
  using shown_source_not_saved [OF _ refl refl, of sample_block] by (simp add: sample_block_def)

text \<open>
  \<open>Format\<close> does not format: it replaces the source by the frame that is made from the ports. A source that
  was typed less than half a second before is nowhere any more, neither in the block nor in the undo history.
\<close>

theorem formatted_source_lost:
  assumes "code \<notin> ef_stTemplate ` set (hi_snapshots (be_history ed))" and "code \<noteq> skeleton_of (be_fields ed)"
    and "ed' = debounce_fires (format_source (edit_block (EditSource code) ed))"
  shows "ef_stTemplate (be_fields ed') = skeleton_of (be_fields ed)
    \<and> code \<notin> ef_stTemplate ` set (hi_snapshots (be_history ed'))"
proof -
  define f where "f = edit_field (EditSource (skeleton_of (be_fields ed))) (be_fields ed)"
  have fields: "be_fields ed' = f" and h: "be_history ed' = push_snapshot f (be_history ed)"
    by (simp_all add: assms(3) f_def format_source_def debounce_fires_def edit_block_def skeleton_of_def Let_def)
  show ?thesis
    using set_push [of f "be_history ed"] assms(1,2) by (auto simp: fields h f_def)
qed

theorem formatted_source_lost_witness:
  "ef_stTemplate (be_fields (debounce_fires (format_source (edit_block (EditSource ''X'') (open_editor sample_block)))))
    = skeleton_of (fields_of sample_block)"
proof -
  have fresh: "''X'' \<notin> ef_stTemplate ` set (hi_snapshots (be_history (open_editor sample_block)))"
    by (simp add: open_editor_def push_snapshot_def empty_history_def history_limit_def fields_of_def sample_block_def)
  have "''X'' \<noteq> skeleton_of (be_fields (open_editor sample_block))"
    by (auto dest!: arg_cong [of _ _ hd] simp: skeleton_of_def hd_skeleton)
  from formatted_source_lost [OF fresh this refl] show ?thesis
    by (simp add: open_editor_def)
qed

text \<open>
  Switching the symbol to automatic changes the preview only: the generated symbol is drawn, and the custom
  one is what a save stores.
\<close>

theorem auto_symbol_not_saved:
  assumes "bs_symbol s = Some y" and "f = be_fields (bs_editor s)" and "ef_iconSvg f \<noteq> []"
    and "s' = screen_step PressAuto s"
  shows "map_option (syv_preview \<circ> symbol_section_view t (be_fields (bs_editor s'))) (bs_symbol s') = Some (symbol_of f)
    \<and> ab_icon_svg (snd (save_starts (bs_editor s'))) = ef_iconSvg f"
  using assms by (simp add: on_symbol_def symbol_section_view_def save_starts_def saved_block_def Let_def)

theorem auto_symbol_not_saved_witness:
  "ab_icon_svg (snd (save_starts (bs_editor (screen_step PressAuto
      (run_screen [PressSection SymbolPart, FieldEdit (EditCustomSvg ''<svg/>'')] (open_screen sample_block)))))) = ''<svg/>''"
proof -
  define s where "s = run_screen [PressSection SymbolPart, FieldEdit (EditCustomSvg ''<svg/>'')] (open_screen sample_block)"
  have "bs_symbol s = Some (open_symbol (fields_of sample_block))" and "ef_iconSvg (be_fields (bs_editor s)) = ''<svg/>''"
    by (simp_all add: s_def run_screen_def open_screen_def mount_sections_def press_section_def on_editor_def edit_block_def
        mount_source_def Let_def)
  then show ?thesis
    using auto_symbol_not_saved [OF _ refl _ refl, of s] by (simp flip: s_def)
qed

text \<open>A look at the fields and back starts the simulation anew: its run, its grid and its presets are gone.\<close>

theorem simulation_starts_anew:
  assumes "screen_ok s" and "bs_tab s = SimulateTab" and "sec_source (bs_sections s) \<longrightarrow> ef_stTemplate (be_fields (bs_editor s)) \<noteq> []"
  shows "bs_sim (run_screen [PressTab EditTab, PressTab SimulateTab] s) = Some (open_tab (sim_block_of (bs_editor s)))"
  using assms by (simp add: run_screen_def set_tab_def mount_sections_def mount_source_def Let_def)

section \<open>Scrolling\<close>

lemma fold_syncSvg: "fold syncSvgScroll (ps @ [p]) s = s\<lparr>sl_area := p, sl_gutter := fst p\<rparr>"
  by (induction ps arbitrary: s) (simp_all add: syncSvgScroll_def)

lemma fold_sync: "fold syncScroll (ps @ [p]) s = s\<lparr>sl_area := p, sl_gutter := fst p, sl_layer := map_option (\<lambda>_. p) (sl_layer s)\<rparr>"
  by (induction ps arbitrary: s) (simp_all add: syncScroll_def option.map_comp comp_def)

text \<open>
  Scrolling the source moves its numbers and its coloured text along; scrolling the markup of a symbol moves
  the numbers only: the coloured text, which is the only one to be seen, stays at the top.
\<close>

theorem symbol_layer_does_not_scroll:
  "in_line (fold syncScroll (ps @ [p]) (scroll_start shown))
   \<and> sl_gutter (fold syncSvgScroll (ps @ [p]) (scroll_start True)) = fst p
   \<and> sl_layer (fold syncSvgScroll (ps @ [p]) (scroll_start True)) = Some (0, 0)
   \<and> (in_line (fold syncSvgScroll (ps @ [p]) (scroll_start True)) \<longleftrightarrow> p = (0, 0))"
  unfolding fold_sync fold_syncSvg by (auto simp: in_line_def scroll_start_def)

text \<open>Colouring that is switched off and on again starts at the top of the source, wherever the text area stands.\<close>

theorem layer_comes_back_at_top:
  "sl_layer (tick_layer True (tick_layer False (syncScroll p (scroll_start True)))) = Some (0, 0)
   \<and> (in_line (tick_layer True (tick_layer False (syncScroll p (scroll_start True)))) \<longleftrightarrow> p = (0, 0))"
  by (auto simp: in_line_def scroll_start_def tick_layer_def syncScroll_def)

end
