(* ===== verification/BlockViews.thy ===== *)
theory BlockViews
  imports BlockScreen
begin

text \<open>
  What the tables of the block editor show (\<open>components/library/BlockEditor.tsx\<close>, lines 601 to 766 and 1262 to
  1600): the ports, the grid of presets with its controls, and the results; and how far what is shown agrees with
  what a run is given.
\<close>

section \<open>The tables of ports\<close>

datatype port_kind = PortKind | ParamKind

record port_table =
  pt_heading :: string
  pt_empty :: "string option"
  pt_headers :: "string list"
  pt_rows :: "(string \<times> string \<times> string) list"

definition port_table_view :: "(string \<Rightarrow> string) \<Rightarrow> string \<Rightarrow> port_kind \<Rightarrow> block_port list \<Rightarrow> port_table" where
  "port_table_view t title kind ports =
     \<lparr>pt_heading = title @ '' ('' @ show_nat (length ports) @ '')'',
      pt_empty = (if ports = [] then Some (t ''editor.ports.empty'') else None),
      pt_headers = (if ports = [] then []
        else [t ''editor.ports.name'', t ''editor.ports.dataType'',
              case kind of PortKind \<Rightarrow> t ''editor.ports.description'' | ParamKind \<Rightarrow> t ''editor.ports.defaultValue'']),
      pt_rows = map (\<lambda>p. (bp_name p, bp_data_type p,
        case kind of PortKind \<Rightarrow> bp_description p
        | ParamKind \<Rightarrow> if bp_default p = JNull then [] else js_string (bp_default p))) ports\<rparr>"

text \<open>The three tables, each with the button below it.\<close>

definition ports_section_view :: "(string \<Rightarrow> string) \<Rightarrow> editor_fields \<Rightarrow> (port_table \<times> string) list" where
  "ports_section_view t f =
     [(port_table_view t (t ''editor.ports.inputs'') PortKind (ef_inputs f), t ''editor.ports.addInput''),
      (port_table_view t (t ''editor.ports.outputs'') PortKind (ef_outputs f), t ''editor.ports.addOutput''),
      (port_table_view t (t ''editor.ports.parameters'') ParamKind (param_ports (ef_parameters f)), t ''editor.ports.addParam'')]"

section \<open>The presets of a run\<close>

datatype grid_input = Tick bool | Typed string

definition grid_input_of :: "grid \<Rightarrow> nat \<Rightarrow> port_column \<Rightarrow> grid_input" where
  "grid_input_of g c p =
     (if is_bool_type (pc_type p)
      then Tick (boolToken (case grid_cell g c (pc_port p) of None \<Rightarrow> ''FALSE'' | Some v \<Rightarrow> v) = ''TRUE'')
      else Typed (case grid_cell g c (pc_port p) of None \<Rightarrow> [] | Some v \<Rightarrow> v))"

definition toggled_cell :: "bool \<Rightarrow> string" where
  "toggled_cell checked = (if checked then ''TRUE'' else ''FALSE'')"

record preset_row =
  ps_cycle :: nat
  ps_done :: bool
  ps_inputs :: "grid_input list"

record preset_grid =
  pg_headers :: "(string \<times> string) list"
  pg_rows :: "preset_row list"

definition preset_grid_view :: "sim_block \<Rightarrow> sim_tab \<Rightarrow> preset_grid option" where
  "preset_grid_view b tab =
     (let ins = input_columns b in
      if tb_mode tab = CycleMode \<and> ins \<noteq> [] then
        Some \<lparr>pg_headers = map (\<lambda>p. (pc_port p, pc_type p)) ins,
              pg_rows = map (\<lambda>c. \<lparr>ps_cycle = c,
                  ps_done = (\<not> js_less (tb_step tab) (Num (of_nat c)) \<and> tb_step tab \<noteq> NaN),
                  ps_inputs = map (grid_input_of (tb_grid tab) c) ins\<rparr>) [1..<cycle_count (tb_cycles tab) + 1]\<rparr>
      else None)"

text \<open>The inputs that are not truth values, in the mode of the truth table: port, type and text.\<close>

definition fixed_rows :: "sim_block \<Rightarrow> sim_tab \<Rightarrow> (string \<times> string \<times> string) list" where
  "fixed_rows b tab =
     (if tb_mode tab = TruthMode
      then map (\<lambda>p. (pc_port p, pc_type p, case obj_get (tb_values tab) (pc_port p) of None \<Rightarrow> [] | Some v \<Rightarrow> v))
             (fixedInputs (input_columns b))
      else [])"

section \<open>The controls\<close>

text \<open>A button is its text, and whether it can be pressed.\<close>

record sim_controls =
  ct_progress :: "string option"
  ct_buttons :: "(string \<times> bool) list"
  ct_notice :: "string option"

definition run_all_enabled :: "sim_block \<Rightarrow> sim_tab \<Rightarrow> bool" where
  "run_all_enabled b tab \<longleftrightarrow> \<not> (tb_running tab \<or> input_columns b = [])"

definition running_label :: "(string \<Rightarrow> string) \<Rightarrow> sim_tab \<Rightarrow> string \<Rightarrow> string" where
  "running_label t tab idle = (if tb_running tab then t ''editor.simulate.running'' else t idle)"

definition truth_caption :: "(string \<Rightarrow> string) \<Rightarrow> nat \<Rightarrow> string" where
  "truth_caption t n =
     show_nat n @ '' '' @ t ''editor.simulate.boolInputs'' @ '', '' @ show_int (combos n) @ '' '' @ t ''editor.simulate.combinations''"

definition mode_buttons :: "(string \<Rightarrow> string) \<Rightarrow> sim_tab \<Rightarrow> (string \<times> bool) list" where
  "mode_buttons t tab =
     [(t ''editor.simulate.cycleSim'', tb_mode tab = CycleMode), (t ''editor.simulate.truthTable'', tb_mode tab = TruthMode)]"

definition sim_hints :: "(string \<Rightarrow> string) \<Rightarrow> bool \<Rightarrow> sim_tab \<Rightarrow> string list" where
  "sim_hints t time_based tab =
     t ''editor.simulate.engineHint'' # (if time_based \<and> tb_mode tab = TruthMode then [t ''editor.simulate.statefulHint''] else [])"

definition sim_controls_view :: "(string \<Rightarrow> string) \<Rightarrow> sim_block \<Rightarrow> sim_tab \<Rightarrow> sim_controls" where
  "sim_controls_view t b tab =
     (let bools = boolInputs (input_columns b); cyc = (tb_mode tab = CycleMode) in
      \<lparr>ct_progress =
         (if cyc then Some (t ''editor.simulate.stepProgress'' @ '': '' @ show_num (tb_step tab) @ ''/'' @ show_num (tb_cycles tab))
          else if bools \<noteq> [] then Some (truth_caption t (length bools)) else None),
       ct_buttons =
         (if cyc then [(running_label t tab ''editor.simulate.step'', step_enabled b tab),
                       (t ''editor.simulate.runAll'', run_all_enabled b tab)]
          else [(running_label t tab ''editor.simulate.run'', truth_enabled b tab)]) @ [(t ''editor.simulate.reset'', True)],
       ct_notice = (if \<not> cyc \<and> bools = [] then Some (t ''editor.simulate.noBoolInputs'') else None)\<rparr>)"

definition set_mode :: "sim_mode \<Rightarrow> sim_tab \<Rightarrow> sim_tab" where
  "set_mode m tab = tab\<lparr>tb_mode := m\<rparr>"

section \<open>The results\<close>

text \<open>The full-width brackets around the stage of a failed run.\<close>

definition wide_open :: string where
  "wide_open = utf8 [239, 188, 136]"

definition wide_close :: string where
  "wide_close = utf8 [239, 188, 137]"

definition failure_box :: "(string \<Rightarrow> string) \<Rightarrow> sim_tab \<Rightarrow> (string \<times> string list) option" where
  "failure_box t tab =
     (if run_errors tab = [] then None
      else Some (t ''editor.simulate.failed'' @ wide_open
          @ (case tb_run tab of None \<Rightarrow> [] | Some r \<Rightarrow> (case bl_stage r of None \<Rightarrow> [] | Some x \<Rightarrow> x)) @ wide_close,
        run_errors tab))"

definition result_headers :: "(string \<Rightarrow> string) \<Rightarrow> sim_block \<Rightarrow> sim_tab \<Rightarrow> (string \<times> string) list" where
  "result_headers t b tab =
     (t ''editor.simulate.cycle'', ''text-ide-textDim'')
     # map (\<lambda>c. (pc_port c, ''text-blue-400'')) (fst (shown_columns b tab))
     @ map (\<lambda>c. (pc_port c, ''text-green-400'')) (snd (shown_columns b tab))"

definition truth_headers :: "sim_block \<Rightarrow> sim_tab \<Rightarrow> (string \<times> string) list" where
  "truth_headers b tab =
     (''#'', ''text-ide-textDim'')
     # map (\<lambda>c. (pc_port c, ''text-blue-400'')) (boolInputs (input_columns b))
     @ map (\<lambda>c. (pc_port c, ''text-blue-300'')) (fixedInputs (input_columns b))
     @ map (\<lambda>c. (pc_port c, ''text-green-400'')) (snd (shown_columns b tab))"

text \<open>The program of a run behind its button.\<close>

record program_view =
  pv_button :: string
  pv_text :: "string option"

definition program_box :: "(string \<Rightarrow> string) \<Rightarrow> bool \<Rightarrow> sim_tab \<Rightarrow> program_view option" where
  "program_box t showProgram tab =
     (case tb_run tab of None \<Rightarrow> None
      | Some r \<Rightarrow> (case bl_program r of None \<Rightarrow> None
          | Some p \<Rightarrow> if p = [] then None
              else Some \<lparr>pv_button = t ''editor.simulate.viewProgram'', pv_text = (if showProgram then Some p else None)\<rparr>))"

section \<open>What is shown and what is sent\<close>

lemma boolToken_cases: "boolToken v = ''TRUE'' \<or> boolToken v = ''FALSE''"
  by (simp add: boolToken_def)

text \<open>
  The grid shows what the run is given: a box is ticked exactly when the stimulus holds \<open>TRUE\<close> at its cycle,
  ticking or typing puts that value there, and a text that is shown is the token, unless the cell is missing,
  where the empty box stands for a \<open>0\<close>.
\<close>

theorem grid_shows_stimulus:
  "(case grid_input_of g c p of
      Tick x \<Rightarrow> token_at g p c = toggled_cell x
    | Typed v \<Rightarrow> token_at g p c = (if grid_cell g c (pc_port p) = None then ''0'' else v))
   \<and> grid_input_of (set_cell c (pc_port p) v g) c p = (if is_bool_type (pc_type p) then Tick (boolToken v = ''TRUE'') else Typed v)
   \<and> boolToken (toggled_cell x) = toggled_cell x"
proof -
  have cell: "grid_cell (set_cell c (pc_port p) v g) c (pc_port p) = Some v"
    by (simp add: grid_cell_def set_cell_def obj_get_def map_of_obj_put)
  show ?thesis
    using boolToken_cases
    by (auto simp: cell grid_input_of_def token_at_def tokenFor_def toggled_cell_def boolToken_def js_eval split: option.split)
qed

text \<open>
  A preset that is changed behind a truth table stands beside the outputs of the old one: the table shows the
  new text in every row, and the outputs as they were, for nothing is run again. A change in the grid of cycles
  throws the results away.
\<close>

theorem truth_table_mixes_presets:
  assumes "tb_run tab = Some r" and "bl_ok r" and "tb_mode tab = TruthMode" and "boolInputs (input_columns b) \<noteq> []"
    and "tab' = set_value (pc_port p) v tab" and "n = length (boolInputs (input_columns b))"
  shows "truth_table b tab' = map (\<lambda>row. (row + 1, map (truth_bit n row) [0..<n]
        @ map (\<lambda>q. if pc_port q = pc_port p then v
            else (case obj_get (tb_values tab) (pc_port q) of None \<Rightarrow> ''0'' | Some w \<Rightarrow> w)) (fixedInputs (input_columns b))
        @ map (\<lambda>c. value_text tab c row) (snd (shown_columns b tab)))) [0..<nat (combos n)]
    \<and> tb_run (setCell c port w tab) = None"
proof -
  have same: "value_text tab' c i = value_text tab c i" "shown_columns b tab' = shown_columns b tab" for c i
    by (simp_all add: assms(5) set_value_def value_text_def series_of_def shown_columns_def)
  have get: "obj_get (tb_values tab') q = (if q = pc_port p then Some v else obj_get (tb_values tab) q)" for q
    by (simp add: assms(5) set_value_def obj_get_def map_of_obj_put)
  have tab': "tb_run tab' = Some r" "tb_mode tab' = TruthMode"
    using assms(1,3,5) by (simp_all add: set_value_def)
  show ?thesis
    using assms(2,4) by (simp add: truth_table_def tab' get same assms(6) setCell_def Let_def)
qed

text \<open>Every row of a table of results has a cell for each of its headers.\<close>

theorem results_fit_headers:
  "list_all (\<lambda>row. Suc (length (snd row)) = length (result_headers t b tab)) (result_table b tab)
   \<and> list_all (\<lambda>row. Suc (length (snd row)) = length (truth_headers b tab)) (truth_table b tab)"
  by (auto simp: list_all_iff result_table_def truth_table_def result_headers_def truth_headers_def Let_def
      split: option.splits if_splits)

text \<open>
  The hint that a block keeps a state follows the flag of the block that was loaded: a block whose kind was just
  made a function block shows the truth table without the hint, until it is saved.
\<close>

theorem stateful_hint_late:
  assumes "ed' = edit_block (EditBlockKind ''FB'') ed" and "\<not> ab_time_based (be_block ed)"
  shows "sim_hints t (ab_time_based (be_block ed')) (set_mode TruthMode (open_tab (sim_block_of ed')))
      = [t ''editor.simulate.engineHint'']
    \<and> ab_time_based (snd (save_starts ed'))"
  using assms
  by (simp add: edit_block_def sim_hints_def set_mode_def save_starts_def saved_block_def Let_def)

end
