(* ===== verification/TextsZh.thy ===== *)
theory TextsZh
  imports Prelude
begin

text \<open>
  The Chinese texts of the front end (\<open>lib/i18n/translations.ts\<close>, lines 4 to 967), one definition for each
  group of the source. Characters that are not ASCII are given by their code points.
\<close>

type_synonym texts = "(string \<times> string) list"

text \<open>The bytes of a code point in UTF-8.\<close>

definition char_bytes :: "nat \<Rightarrow> string" where
  "char_bytes c =
     map char_of
       (if c < 0x80 then [c]
        else if c < 0x800 then [0xC0 + c div 64, 0x80 + c mod 64]
        else if c < 0x10000 then [0xE0 + c div 4096, 0x80 + c div 64 mod 64, 0x80 + c mod 64]
        else [0xF0 + c div 262144, 0x80 + c div 4096 mod 64, 0x80 + c div 64 mod 64, 0x80 + c mod 64])"

definition chars :: "nat list \<Rightarrow> string" where
  "chars cs = concat (map char_bytes cs)"

definition zh_title_bar :: texts where
  "zh_title_bar =
     [(''title.unnamed'', chars [0x672A, 0x6253, 0x5F00, 0x5DE5, 0x7A0B]),
      (''title.theme.dark'', chars [0x5207, 0x6362, 0x5230, 0x6D45, 0x8272, 0x4E3B, 0x9898]),
      (''title.theme.light'', chars [0x5207, 0x6362, 0x5230, 0x6DF1, 0x8272, 0x4E3B, 0x9898]),
      (''title.lang.zh'', chars [0x5207, 0x6362, 0x5230, 0x82F1, 0x6587]),
      (''title.lang.en'', chars [0x5207, 0x6362, 0x5230, 0x4E2D, 0x6587])]"

definition zh_menu_bar :: texts where
  "zh_menu_bar =
     [(''menu.file'', chars [0x6587, 0x4EF6]),
      (''menu.file.new'', chars [0x65B0, 0x5EFA, 0x5DE5, 0x7A0B]),
      (''menu.file.open'', chars [0x6253, 0x5F00, 0x5DE5, 0x7A0B]),
      (''menu.file.save'', chars [0x4FDD, 0x5B58]),
      (''menu.file.saveAs'', chars [0x53E6, 0x5B58, 0x4E3A]),
      (''menu.file.properties'', chars [0x5DE5, 0x7A0B, 0x5C5E, 0x6027]),
      (''menu.file.close'', chars [0x5173, 0x95ED, 0x5DE5, 0x7A0B]),
      (''menu.edit'', chars [0x7F16, 0x8F91]),
      (''menu.edit.undo'', chars [0x64A4, 0x9500]),
      (''menu.edit.redo'', chars [0x91CD, 0x505A]),
      (''menu.edit.cut'', chars [0x526A, 0x5207]),
      (''menu.edit.copy'', chars [0x590D, 0x5236]),
      (''menu.edit.paste'', chars [0x7C98, 0x8D34]),
      (''menu.notImplemented'', chars [0x8BE5, 0x529F, 0x80FD, 0x5C1A, 0x672A, 0x5B9E, 0x73B0])]"

definition zh_activity_bar :: texts where
  "zh_activity_bar =
     [(''nav.home'', chars [0x9996, 0x9875]),
      (''nav.device'', chars [0x8BBE, 0x5907, 0x7EC4, 0x6001]),
      (''nav.graph'', chars [0x56FE, 0x5F62, 0x7EC4, 0x6001]),
      (''nav.simulation'', chars [0x4EFF, 0x771F, 0x9A8C, 0x8BC1]),
      (''nav.download'', chars [0x4E0B, 0x88C5, 0x8FD0, 0x884C]),
      (''nav.library'', chars [0x7B97, 0x6CD5, 0x5E93]),
      (''nav.monitor'', chars [0x5728, 0x7EBF, 0x76D1, 0x89C6]),
      (''nav.settings'', chars [0x8BBE, 0x7F6E]),
      (''nav.requireProject'', chars [0x8BF7, 0x5148, 0x65B0, 0x5EFA, 0x6216, 0x6253, 0x5F00, 0x5DE5, 0x7A0B])]"

definition zh_status_bar :: texts where
  "zh_status_bar =
     [(''status.ready'', chars [0x5C31, 0x7EEA]),
      (''status.encoding'', ''UTF-8''),
      (''status.language'', ''IEC 61131-3''),
      (''status.version'', ''VeriIDE v0.1.0'')]"

definition zh_workflow_progress :: texts where
  "zh_workflow_progress =
     [(''workflow.device'', chars [0x8BBE, 0x5907, 0x7EC4, 0x6001]),
      (''workflow.graph'', chars [0x56FE, 0x5F62, 0x903B, 0x8F91]),
      (''workflow.sim'', chars [0x4EFF, 0x771F, 0x9A8C, 0x8BC1]),
      (''workflow.download'', chars [0x4E0B, 0x88C5, 0x8FD0, 0x884C]),
      (''workflow.locked'', chars [0x8BF7, 0x5148, 0x5B8C, 0x6210, 0x4E0A, 0x4E00, 0x9636, 0x6BB5]),
      (''workflow.stageGate'', chars [0x9636, 0x6BB5, 0x95E8, 0x7981]),
      (''workflow.stageComplete'', chars [0x9636, 0x6BB5, 0x5B8C, 0x6210]),
      (''workflow.complete'', chars [0x5B8C, 0x6210]),
      (''workflow.progress'', chars [0x5DE5, 0x4F5C, 0x6D41])]"

definition zh_require_project_placeholder :: texts where
  "zh_require_project_placeholder =
     [(''requireProject.title'', chars [0x672A, 0x6253, 0x5F00, 0x5DE5, 0x7A0B]),
      (''requireProject.desc'', chars [0x8BF7, 0x5148, 0x65B0, 0x5EFA, 0x6216, 0x6253, 0x5F00, 0x4E00, 0x4E2A, 0x5DE5, 0x7A0B, 0xFF0C, 0x518D, 0x8FDB, 0x884C, 0x8BBE, 0x5907, 0x7EC4, 0x6001, 0x3001, 0x56FE, 0x5F62, 0x7EC4, 0x6001, 0x3001, 0x4EFF, 0x771F, 0x9A8C, 0x8BC1, 0x7B49, 0x64CD, 0x4F5C, 0x3002]),
      (''requireProject.goHome'', chars [0x524D, 0x5F80, 0x9996, 0x9875])]"

definition zh_home_page :: texts where
  "zh_home_page =
     [(''home.title'', ''VeriIDE '' @ chars [0x5DE5, 0x7A0B, 0x7AD9]),
      (''home.desc'', chars [0x5DE5, 0x7A0B, 0x662F, 0x78C1, 0x76D8, 0x4E0A, 0x7684, 0x4E00, 0x4E2A, 0x6587, 0x4EF6, 0x5939, 0xFF1A, 0x8BBE, 0x5907, 0x3001, 0x56FE, 0x9875, 0x3001, 0x53D8, 0x91CF, 0x4E0E, 0x7B97, 0x6CD5, 0x5757, 0x5168, 0x90E8, 0x6587, 0x672C, 0x5316, 0x5B58, 0x50A8]),
      (''home.continue'', chars [0x7EE7, 0x7EED]),
      (''home.backendNotReady'', chars [0x540E, 0x7AEF, 0x672A, 0x5C31, 0x7EEA]),
      (''home.newProject'', chars [0x65B0, 0x5EFA, 0x5DE5, 0x7A0B]),
      (''home.newProjectDesc'', chars [0x5728, 0x9879, 0x76EE, 0x4F4D, 0x7F6E, 0x521B, 0x5EFA, 0x5DE5, 0x7A0B, 0x6587, 0x4EF6, 0x5939, 0x5E76, 0x521D, 0x59CB, 0x5316] @ '' Git''),
      (''home.openProject'', chars [0x6253, 0x5F00, 0x5DE5, 0x7A0B]),
      (''home.openProjectDesc'', chars [0x9009, 0x62E9, 0x5DF2, 0x6709, 0x5DE5, 0x7A0B, 0x6587, 0x4EF6, 0x5939, 0xFF0C, 0x8BFB, 0x5165, 0x8BBE, 0x5907, 0x3001, 0x56FE, 0x9875, 0x4E0E, 0x53D8, 0x91CF]),
      (''home.newBlock'', chars [0x65B0, 0x5EFA, 0x7B97, 0x6CD5, 0x5757]),
      (''home.newBlockDesc'', chars [0x5199, 0x4E00, 0x4E2A] @ '' FUNCTION_BLOCK '' @ chars [0x5B58, 0x8FDB, 0x7B97, 0x6CD5, 0x5E93]),
      (''home.recentProjects'', chars [0x6700, 0x8FD1, 0x6253, 0x5F00, 0x7684, 0x5DE5, 0x7A0B]),
      (''home.noRecentProjects'', chars [0x8FD8, 0x6CA1, 0x6709, 0x6253, 0x5F00, 0x8FC7, 0x5DE5, 0x7A0B]),
      (''home.recentBlocks'', chars [0x6700, 0x8FD1, 0x4F7F, 0x7528, 0x7684, 0x7B97, 0x6CD5, 0x5757]),
      (''home.noRecentBlocks'', chars [0x8FD8, 0x6CA1, 0x6709, 0x521B, 0x5EFA, 0x6216, 0x7F16, 0x8F91, 0x8FC7, 0x7B97, 0x6CD5, 0x5757]),
      (''home.pathNotFound'', chars [0x8DEF, 0x5F84, 0x4E0D, 0x5B58, 0x5728]),
      (''home.stations'', chars [0x7AD9]),
      (''home.pages'', chars [0x56FE, 0x9875]),
      (''home.blocks'', chars [0x5757]),
      (''home.removeFromRecent'', chars [0x4ECE, 0x6700, 0x8FD1, 0x5217, 0x8868, 0x79FB, 0x9664, 0xFF08, 0x4E0D, 0x5220, 0x9664, 0x78C1, 0x76D8, 0x6587, 0x4EF6, 0xFF09]),
      (''home.remove'', chars [0x79FB, 0x9664]),
      (''home.userLibrary'', chars [0x7528, 0x6237, 0x5E93]),
      (''home.projectBlocks'', chars [0x5DE5, 0x7A0B, 0x5757]),
      (''home.close'', chars [0x5173, 0x95ED]),
      (''home.nameValidation'', chars [0x5DE5, 0x7A0B, 0x540D, 0x53EA, 0x80FD, 0x7528, 0x5B57, 0x6BCD, 0x3001, 0x6570, 0x5B57, 0x548C, 0x4E0B, 0x5212, 0x7EBF, 0xFF0C, 0x4E14, 0x4E0D, 0x80FD, 0x4EE5, 0x6570, 0x5B57, 0x5F00, 0x5934]),
      (''home.projectName'', chars [0x5DE5, 0x7A0B, 0x540D, 0x79F0]),
      (''home.projectLocation'', chars [0x9879, 0x76EE, 0x4F4D, 0x7F6E]),
      (''home.selectLocation'', chars [0x9009, 0x62E9, 0x5DE5, 0x7A0B, 0x5B58, 0x653E, 0x4F4D, 0x7F6E]),
      (''home.browse'', chars [0x6D4F, 0x89C8, 0x2026]),
      (''home.browseHint'', chars [0x684C, 0x9762, 0x7248, 0x53EF, 0x7528, 0x76EE, 0x5F55, 0x9009, 0x62E9, 0x5668]),
      (''home.safetyLevel'', chars [0x5B89, 0x5168, 0x7B49, 0x7EA7]),
      (''home.willCreate'', chars [0x5C06, 0x5728]),
      (''home.willCreateUnder'', chars [0x4E0B, 0x521B, 0x5EFA]),
      (''home.projectStructure'', ''project.yaml + logic/ iomap/ device/ blocks/ sim/ build/'' @ chars [0xFF0C, 0x5E76, 0x521D, 0x59CB, 0x5316] @ '' Git '' @ chars [0x4ED3, 0x5E93, 0x3002]),
      (''home.cancel'', chars [0x53D6, 0x6D88]),
      (''home.creating'', chars [0x521B, 0x5EFA, 0x4E2D, 0x2026]),
      (''home.createAndOpen'', chars [0x521B, 0x5EFA, 0x5E76, 0x6253, 0x5F00]),
      (''home.projectFolder'', chars [0x5DE5, 0x7A0B, 0x6587, 0x4EF6, 0x5939]),
      (''home.selectFolder'', chars [0x9009, 0x62E9, 0x5DE5, 0x7A0B, 0x6587, 0x4EF6, 0x5939]),
      (''home.folderHint'', chars [0x6587, 0x4EF6, 0x5939, 0x91CC, 0x5FC5, 0x987B, 0x6709] @ '' project.yaml'' @ chars [0xFF1B, 0x6253, 0x5F00, 0x540E, 0x4F1A, 0x8BFB, 0x5165] @ '' device/'' @ chars [0x3001] @ ''iomap/'' @ chars [0x3001] @ ''logic/ '' @ chars [0x4E0E] @ '' blocks/'' @ chars [0x3002]),
      (''home.opening'', chars [0x6253, 0x5F00, 0x4E2D, 0x2026]),
      (''home.open'', chars [0x6253, 0x5F00]),
      (''home.currentProjectBlocks'', chars [0x5F53, 0x524D, 0x5DE5, 0x7A0B] @ '' blocks/'' @ chars [0xFF1A]),
      (''home.globalLibrary'', chars [0x5168, 0x5C40, 0x7528, 0x6237, 0x5E93] @ '' ~/.veride/library''),
      (''home.blockNameRequired'', chars [0x8BF7, 0x586B, 0x5199, 0x7B97, 0x6CD5, 0x5757, 0x663E, 0x793A, 0x540D]),
      (''home.typeNameValidation'', chars [0x7C7B, 0x578B, 0x540D, 0x8BF7, 0x5199, 0x6210] @ '' ST '' @ chars [0x6807, 0x8BC6, 0x7B26, 0xFF1A, 0x5B57, 0x6BCD, 0x6216, 0x4E0B, 0x5212, 0x7EBF, 0x5F00, 0x5934, 0xFF0C, 0x53EA, 0x542B, 0x5B57, 0x6BCD, 0x3001, 0x6570, 0x5B57, 0x3001, 0x4E0B, 0x5212, 0x7EBF]),
      (''home.stTypeMismatch'', ''ST '' @ chars [0x91CC, 0x58F0, 0x660E, 0x7684, 0x662F]),
      (''home.stTypeMismatch2'', chars [0x4E0E, 0x7C7B, 0x578B, 0x540D]),
      (''home.stTypeMismatch3'', chars [0x4E0D, 0x4E00, 0x81F4, 0xFF1A, 0x6587, 0x4EF6, 0x540D, 0x53D6, 0x81EA] @ '' ST '' @ chars [0x58F0, 0x660E]),
      (''home.displayName'', chars [0x663E, 0x793A, 0x540D, 0x79F0]),
      (''home.displayNamePlaceholder'', chars [0x4E24, 0x901F, 0x6BD4, 0x8F83, 0x5668]),
      (''home.typeName'', chars [0x7C7B, 0x578B, 0x540D, 0xFF08] @ ''ST POU'' @ chars [0xFF09]),
      (''home.category'', chars [0x5206, 0x7C7B]),
      (''home.stImplementation'', ''ST '' @ chars [0x5B9E, 0x73B0]),
      (''home.storageLocation'', chars [0x5B58, 0x50A8, 0x4F4D, 0x7F6E, 0xFF1A]),
      (''home.twoTextFiles'', chars [0x4E24, 0x4E2A, 0x6587, 0x672C, 0x6587, 0x4EF6, 0x3002]),
      (''home.saving'', chars [0x4FDD, 0x5B58, 0x4E2D, 0x2026]),
      (''home.saveBlock'', chars [0x4FDD, 0x5B58, 0x7B97, 0x6CD5, 0x5757])]"

definition zh_library_page :: texts where
  "zh_library_page =
     [(''library.title'', chars [0x7B97, 0x6CD5, 0x5757, 0x4E0E, 0x7B97, 0x6CD5, 0x5E93]),
      (''library.blockCount'', chars [0x4E2A, 0x7B97, 0x6CD5, 0x5757]),
      (''library.tabs.blocks'', chars [0x7B97, 0x6CD5, 0x5757, 0x5E93]),
      (''library.tabs.manager'', chars [0x5E93, 0x7BA1, 0x7406]),
      (''library.blockDeleted'', chars [0x7B97, 0x6CD5, 0x5757, 0x5DF2, 0x5220, 0x9664]),
      (''library.deleteFailed'', chars [0x5220, 0x9664, 0x5931, 0x8D25]),
      (''library.deleteFailedMsg'', chars [0x65E0, 0x6CD5, 0x5220, 0x9664, 0x7B97, 0x6CD5, 0x5757]),
      (''library.blockDetails'', chars [0x7B97, 0x6CD5, 0x5757, 0x8BE6, 0x60C5]),
      (''library.name'', chars [0x540D, 0x79F0]),
      (''library.category'', chars [0x5206, 0x7C7B]),
      (''library.version'', chars [0x7248, 0x672C]),
      (''library.description'', chars [0x63CF, 0x8FF0]),
      (''library.author'', chars [0x4F5C, 0x8005]),
      (''library.inputs'', chars [0x8F93, 0x5165, 0x7AEF, 0x53E3]),
      (''library.outputs'', chars [0x8F93, 0x51FA, 0x7AEF, 0x53E3]),
      (''library.parameters'', chars [0x53C2, 0x6570]),
      (''library.tags'', chars [0x6807, 0x7B7E]),
      (''library.stTemplate'', ''ST '' @ chars [0x4EE3, 0x7801, 0x6A21, 0x677F])]"

definition zh_block_editor :: texts where
  "zh_block_editor =
     [(''editor.title'', chars [0x7B97, 0x6CD5, 0x5757, 0x7F16, 0x8F91, 0x5668]),
      (''editor.tabs.edit'', chars [0x7F16, 0x8F91]),
      (''editor.tabs.simulate'', chars [0x4EFF, 0x771F]),
      (''editor.save'', chars [0x4FDD, 0x5B58]),
      (''editor.saving'', chars [0x4FDD, 0x5B58, 0x4E2D, 0x2026]),
      (''editor.saved'', chars [0x5DF2, 0x4FDD, 0x5B58]),
      (''editor.saveFailed'', chars [0x4FDD, 0x5B58, 0x5931, 0x8D25]),
      (''editor.cancel'', chars [0x53D6, 0x6D88]),
      (''editor.close'', chars [0x5173, 0x95ED]),
      (''editor.closeConfirm'', chars [0x6709, 0x672A, 0x4FDD, 0x5B58, 0x7684, 0x4FEE, 0x6539, 0xFF0C, 0x786E, 0x5B9A, 0x5173, 0x95ED, 0xFF1F]),
      (''editor.metadata'', chars [0x57FA, 0x672C, 0x4FE1, 0x606F]),
      (''editor.blockName'', chars [0x5757, 0x540D, 0x79F0]),
      (''editor.blockKind'', chars [0x5757, 0x7C7B, 0x578B]),
      (''editor.blockKind.fb'', chars [0x529F, 0x80FD, 0x5757] @ '' (FB)''),
      (''editor.blockKind.fun'', chars [0x51FD, 0x6570] @ '' (FUN)''),
      (''editor.blockKind.fbHint'', ''FB '' @ chars [0x7528, 0x4E8E, 0x65F6, 0x5E8F, 0x76F8, 0x5173, 0x903B, 0x8F91, 0xFF0C, 0x53EF, 0x6301, 0x6709, 0x5185, 0x90E8, 0x72B6, 0x6001]),
      (''editor.blockKind.funHint'', ''FUN '' @ chars [0x7528, 0x4E8E, 0x65F6, 0x5E8F, 0x65E0, 0x5173, 0x7684, 0x7EAF, 0x51FD, 0x6570, 0x8BA1, 0x7B97]),
      (''editor.timeBased'', chars [0x65F6, 0x5E8F, 0x76F8, 0x5173]),
      (''editor.timeBasedHint'', chars [0x8F93, 0x51FA, 0x4F9D, 0x8D56, 0x4E0A, 0x4E00, 0x5468, 0x671F, 0x72B6, 0x6001]),
      (''editor.category'', chars [0x5206, 0x7C7B]),
      (''editor.version'', chars [0x7248, 0x672C]),
      (''editor.description'', chars [0x63CF, 0x8FF0]),
      (''editor.author'', chars [0x4F5C, 0x8005]),
      (''editor.tags'', chars [0x6807, 0x7B7E]),
      (''editor.tagsHint'', chars [0x9017, 0x53F7, 0x5206, 0x9694]),
      (''editor.ports.title'', chars [0x7AEF, 0x53E3, 0x5B9A, 0x4E49]),
      (''editor.ports.inputs'', chars [0x8F93, 0x5165, 0x7AEF, 0x53E3]),
      (''editor.ports.outputs'', chars [0x8F93, 0x51FA, 0x7AEF, 0x53E3]),
      (''editor.ports.parameters'', chars [0x53C2, 0x6570]),
      (''editor.ports.addInput'', ''+ '' @ chars [0x8F93, 0x5165]),
      (''editor.ports.addOutput'', ''+ '' @ chars [0x8F93, 0x51FA]),
      (''editor.ports.addParam'', ''+ '' @ chars [0x53C2, 0x6570]),
      (''editor.ports.name'', chars [0x540D, 0x79F0]),
      (''editor.ports.direction'', chars [0x65B9, 0x5411]),
      (''editor.ports.dataType'', chars [0x6570, 0x636E, 0x7C7B, 0x578B]),
      (''editor.ports.defaultValue'', chars [0x9ED8, 0x8BA4, 0x503C]),
      (''editor.ports.description'', chars [0x63CF, 0x8FF0]),
      (''editor.ports.minValue'', chars [0x6700, 0x5C0F, 0x503C]),
      (''editor.ports.maxValue'', chars [0x6700, 0x5927, 0x503C]),
      (''editor.ports.remove'', chars [0x5220, 0x9664]),
      (''editor.ports.empty'', chars [0x6682, 0x65E0, 0x7AEF, 0x53E3, 0x5B9A, 0x4E49]),
      (''editor.symbol.title'', chars [0x56FE, 0x5F62, 0x7B26, 0x53F7, 0x9884, 0x89C8]),
      (''editor.symbol.autoGenerate'', chars [0x81EA, 0x52A8, 0x751F, 0x6210]),
      (''editor.symbol.custom'', chars [0x81EA, 0x5B9A, 0x4E49] @ '' SVG''),
      (''editor.symbol.reset'', chars [0x91CD, 0x7F6E, 0x4E3A, 0x81EA, 0x52A8]),
      (''editor.symbol.preview'', chars [0x9884, 0x89C8]),
      (''editor.symbol.width'', chars [0x5BBD, 0x5EA6]),
      (''editor.symbol.height'', chars [0x9AD8, 0x5EA6]),
      (''editor.source.title'', ''ST '' @ chars [0x6E90, 0x4EE3, 0x7801]),
      (''editor.source.hint'', chars [0x7F16, 0x5199] @ '' IEC 61131-3 Structured Text '' @ chars [0x4EE3, 0x7801]),
      (''editor.source.format'', chars [0x683C, 0x5F0F, 0x5316]),
      (''editor.source.validate'', chars [0x6821, 0x9A8C, 0x8BED, 0x6CD5]),
      (''editor.source.valid'', chars [0x8BED, 0x6CD5, 0x6B63, 0x786E]),
      (''editor.source.invalid'', chars [0x8BED, 0x6CD5, 0x9519, 0x8BEF]),
      (''editor.source.fontSmaller'', chars [0x7F29, 0x5C0F, 0x5B57, 0x4F53]),
      (''editor.source.fontBigger'', chars [0x653E, 0x5927, 0x5B57, 0x4F53]),
      (''editor.simulate.title'', chars [0x5757, 0x4EFF, 0x771F, 0x6D4B, 0x8BD5]),
      (''editor.simulate.run'', chars [0x8FD0, 0x884C, 0x4EFF, 0x771F]),
      (''editor.simulate.running'', chars [0x8FD0, 0x884C, 0x4E2D, 0x2026]),
      (''editor.simulate.stop'', chars [0x505C, 0x6B62]),
      (''editor.simulate.reset'', chars [0x91CD, 0x7F6E]),
      (''editor.simulate.cycles'', chars [0x5468, 0x671F, 0x6570]),
      (''editor.simulate.period'', chars [0x5468, 0x671F] @ '' (ms)''),
      (''editor.simulate.inputs'', chars [0x8F93, 0x5165, 0x503C]),
      (''editor.simulate.outputs'', chars [0x8F93, 0x51FA, 0x7ED3, 0x679C]),
      (''editor.simulate.timeline'', chars [0x65F6, 0x5E8F, 0x6570, 0x636E]),
      (''editor.simulate.noResult'', chars [0x5C1A, 0x672A, 0x8FD0, 0x884C, 0x4EFF, 0x771F]),
      (''editor.simulate.cycle'', chars [0x5468, 0x671F]),
      (''editor.simulate.truthTable'', chars [0x771F, 0x503C, 0x8868]),
      (''editor.simulate.cycleSim'', chars [0x5468, 0x671F, 0x4EFF, 0x771F]),
      (''editor.simulate.noBoolInputs'', chars [0x8BE5, 0x5757, 0x6CA1, 0x6709, 0x5E03, 0x5C14, 0x578B, 0x8F93, 0x5165, 0xFF0C, 0x65E0, 0x6CD5, 0x751F, 0x6210, 0x771F, 0x503C, 0x8868]),
      (''editor.simulate.boolInputs'', chars [0x5E03, 0x5C14, 0x8F93, 0x5165]),
      (''editor.simulate.combinations'', chars [0x79CD, 0x7EC4, 0x5408]),
      (''editor.simulate.generate'', chars [0x751F, 0x6210, 0x771F, 0x503C, 0x8868]),
      (''editor.simulate.fixedInputs'', chars [0x56FA, 0x5B9A, 0x8F93, 0x5165, 0x503C]),
      (''editor.simulate.noTruthTable'', chars [0x70B9, 0x51FB, 0x300C, 0x751F, 0x6210, 0x771F, 0x503C, 0x8868, 0x300D, 0x5F00, 0x59CB]),
      (''editor.simulate.engineHint'', chars [0x4E0E, 0x5DE5, 0x7A0B, 0x4EFF, 0x771F, 0x540C, 0x6E90, 0xFF1A, 0x6570, 0x503C, 0x6765, 0x81EA, 0x771F, 0x5B9E, 0x7F16, 0x8BD1, 0x5668, 0x4E0E, 0x88AB, 0x63A7, 0x5BF9, 0x8C61, 0x8FD0, 0x884C, 0x7684, 0x5E27]),
      (''editor.simulate.statefulHint'', chars [0x8BE5, 0x5757, 0x8DE8, 0x5468, 0x671F, 0x4FDD, 0x6301, 0x72B6, 0x6001, 0xFF0C, 0x771F, 0x503C, 0x8868, 0x5404, 0x884C, 0x6309, 0x8F93, 0x5165, 0x5E8F, 0x5217, 0x4F9D, 0x6B21, 0x6F14, 0x5316, 0xFF0C, 0x975E, 0x72EC, 0x7ACB, 0x5FEB, 0x7167]),
      (''editor.simulate.failed'', chars [0x4EFF, 0x771F, 0x5931, 0x8D25]),
      (''editor.simulate.viewProgram'', chars [0x67E5, 0x770B, 0x751F, 0x6210, 0x7684, 0x9A71, 0x52A8, 0x7A0B, 0x5E8F]),
      (''editor.simulate.forced'', chars [0x8BE5, 0x503C, 0x7531, 0x5916, 0x90E8, 0x6FC0, 0x52B1, 0x5F3A, 0x5236]),
      (''editor.simulate.stepGrid'', chars [0x6BCF, 0x5468, 0x671F, 0x8F93, 0x5165, 0x6FC0, 0x52B1]),
      (''editor.simulate.gridHint'', chars [0x9010, 0x5468, 0x671F, 0x586B, 0x5165, 0x5404, 0x8F93, 0x5165, 0x7684, 0x503C, 0xFF1B, 0x5355, 0x6B65, 0x63A8, 0x8FDB, 0x5373, 0x53EF, 0x89C2, 0x5BDF, 0x968F, 0x65F6, 0x95F4, 0x6F14, 0x5316, 0x7684, 0x884C, 0x4E3A, 0xFF08, 0x6BCF, 0x6B65, 0x8BFB, 0x5165, 0x8BE5, 0x5468, 0x671F, 0x9884, 0x7F6E, 0x7684, 0x8F93, 0x5165, 0xFF09]),
      (''editor.simulate.step'', chars [0x5355, 0x6B65]),
      (''editor.simulate.runAll'', chars [0x8FD0, 0x884C, 0x5168, 0x90E8]),
      (''editor.simulate.stepProgress'', chars [0x5DF2, 0x8FD0, 0x884C, 0x5468, 0x671F]),
      (''editor.simulate.recordsExceed'', chars [0x6FC0, 0x52B1, 0x8BB0, 0x5F55, 0x8D85, 0x8FC7, 0x8FD0, 0x884C, 0x5668, 0x4E0A, 0x9650, 0xFF08] @ ''64 '' @ chars [0x6761, 0xFF09, 0x2014, 0x2014, 0x8BF7, 0x51CF, 0x5C11, 0x5468, 0x671F, 0x6570, 0xFF0C, 0x6216, 0x51CF, 0x5C11, 0x6BCF, 0x5468, 0x671F, 0x6539, 0x52A8, 0x7684, 0x8F93, 0x5165])]"

definition zh_device_page :: texts where
  "zh_device_page =
     [(''device.title'', chars [0x8BBE, 0x5907, 0x7EC4, 0x6001]),
      (''device.subtitle'', chars [0x5EFA, 0x6A21, 0x5757, 0x5373, 0x6210, 0x70B9, 0x4F4D, 0xFF0C, 0x53EA, 0x9700, 0x542F, 0x7528] @ ''/'' @ chars [0x505C, 0x7528, 0x4E0E, 0x70B9, 0x914D, 0x7F6E]),
      (''device.errors'', chars [0x9879, 0x9519, 0x8BEF]),
      (''device.warnings'', chars [0x9879, 0x63D0, 0x9192]),
      (''device.passed'', chars [0x6821, 0x9A8C, 0x901A, 0x8FC7]),
      (''device.hardwareModules'', chars [0x786C, 0x4EF6, 0x6A21, 0x5757]),
      (''device.moduleId'', chars [0x6A21, 0x5757] @ '' ID''),
      (''device.startChannel'', chars [0x8D77, 0x59CB, 0x901A, 0x9053]),
      (''device.channelCount'', chars [0x901A, 0x9053, 0x6570]),
      (''device.add'', chars [0x6DFB, 0x52A0]),
      (''device.spaceFull'', chars [0x901A, 0x9053, 0x7A7A, 0x95F4, 0x5DF2, 0x6EE1]),
      (''device.spaceFullMsg'', chars [0x672C, 0x7AD9] @ '' 0'' @ chars [0x2013] @ ''63 '' @ chars [0x5DF2, 0x5168, 0x90E8, 0x5212, 0x5165, 0x6A21, 0x5757, 0xFF0C, 0x5148, 0x5220, 0x9664, 0x4E00, 0x4E2A, 0x6A21, 0x5757]),
      (''device.spaceFullAdd'', chars [0x672C, 0x7AD9] @ '' 0'' @ chars [0x2013] @ ''63 '' @ chars [0x5DF2, 0x5168, 0x90E8, 0x5212, 0x5165, 0x6A21, 0x5757, 0xFF0C, 0x5220, 0x9664, 0x4E00, 0x4E2A, 0x624D, 0x80FD, 0x518D, 0x6DFB]),
      (''device.channelHint'', chars [0x8D77, 0x59CB, 0x901A, 0x9053, 0x81EA, 0x52A8, 0x63A5, 0x5728, 0x6700, 0x540E, 0x4E00, 0x4E2A, 0x6A21, 0x5757, 0x4E4B, 0x540E] @ '' '' @ chars [0xB7] @ '' '' @ chars [0x65B9, 0x5411, 0x4E0E, 0x6570, 0x636E, 0x7C7B, 0x578B, 0x7531] @ '' AI/AO/DI/DO '' @ chars [0x51B3, 0x5B9A]),
      (''device.directionHint'', chars [0x65B9, 0x5411, 0x4E0E, 0x6570, 0x636E, 0x7C7B, 0x578B, 0x7531, 0x6B64, 0x51B3, 0x5B9A]),
      (''device.devicePoints'', chars [0x8BBE, 0x5907, 0x70B9, 0x4F4D]),
      (''device.hideDisabled'', chars [0x9690, 0x85CF, 0x5DF2, 0x505C, 0x7528]),
      (''device.cardView'', chars [0x901A, 0x9053, 0x5361, 0x7247]),
      (''device.tableView'', chars [0x7D27, 0x51D1, 0x8868, 0x683C]),
      (''device.totalPoints'', chars [0x5171]),
      (''device.disabled'', chars [0x5DF2, 0x505C, 0x7528]),
      (''device.cardHint'', chars [0x53CC, 0x51FB, 0x5361, 0x9762, 0x6539, 0x70B9, 0x540D, 0x79F0] @ ''/'' @ chars [0x5355, 0x4F4D] @ '' '' @ chars [0xB7] @ '' '' @ chars [0x53F3, 0x952E, 0x505C, 0x7528, 0x6216, 0x5220, 0x9664] @ '' '' @ chars [0xB7] @ '' '' @ chars [0x300C, 0x591A, 0x9009, 0x300D, 0x6279, 0x91CF, 0x64CD, 0x4F5C]),
      (''device.tableHint'', chars [0x53CC, 0x51FB, 0x70B9, 0x540D, 0x79F0] @ ''/'' @ chars [0x5355, 0x4F4D, 0x53EF, 0x6539]),
      (''device.copySt'', chars [0x590D, 0x5236] @ '' ST''),
      (''device.collapseSt'', chars [0x6536, 0x8D77] @ '' ST''),
      (''device.viewSt'', chars [0x67E5, 0x770B] @ '' ST''),
      (''device.noPoints'', ''// '' @ chars [0x5C1A, 0x65E0, 0x6709, 0x6548, 0x70B9, 0x4F4D]),
      (''device.backendOffline'', chars [0x540E, 0x7AEF, 0x79BB, 0x7EBF]),
      (''device.pointHint'', chars [0x70B9, 0x4F4D, 0x5373, 0x901A, 0x9053, 0xFF1A] @ ''AI/DI '' @ chars [0x4E3A, 0x8F93, 0x5165, 0xFF0C] @ ''AO/DO '' @ chars [0x4E3A, 0x8F93, 0x51FA]),
      (''device.disableHint'', chars [0x505C, 0x7528] @ '' '' @ chars [0x2260] @ '' '' @ chars [0x5220, 0x9664, 0xFF1A, 0x505C, 0x7528, 0x4FDD, 0x7559, 0x7ED1, 0x5B9A, 0xFF0C, 0x53EA, 0x662F, 0x4E0D, 0x53C2, 0x4E0E, 0x7F16, 0x8BD1, 0x3001, 0x4EFF, 0x771F, 0x4E0E, 0x76D1, 0x89C6]),
      (''device.operationFailed'', chars [0x64CD, 0x4F5C, 0x5931, 0x8D25]),
      (''device.updateChannelFailed'', chars [0x66F4, 0x65B0, 0x901A, 0x9053, 0x540D, 0x79F0, 0x5931, 0x8D25]),
      (''device.module'', chars [0x6A21, 0x5757]),
      (''device.moduleAdded'', chars [0x5DF2, 0x6DFB, 0x52A0, 0x6A21, 0x5757]),
      (''device.moduleAddedMsg'', chars [0x6BCF, 0x4E2A, 0x901A, 0x9053, 0x5DF2, 0x81EA, 0x52A8, 0x751F, 0x6210, 0x70B9, 0x4F4D]),
      (''device.addModuleFailed'', chars [0x6DFB, 0x52A0, 0x6A21, 0x5757, 0x5931, 0x8D25]),
      (''device.confirmDeleteModule'', chars [0x786E, 0x5B9A, 0x5220, 0x9664, 0x6A21, 0x5757]),
      (''device.confirmDeleteModuleMsg'', chars [0x5176, 0x6240, 0x6709, 0x70B9, 0x4F4D, 0x5C06, 0x4E00, 0x5E76, 0x79FB, 0x9664, 0x3002]),
      (''device.moduleDeleted'', chars [0x5DF2, 0x5220, 0x9664, 0x6A21, 0x5757]),
      (''device.deleteModuleFailed'', chars [0x5220, 0x9664, 0x6A21, 0x5757, 0x5931, 0x8D25]),
      (''device.pointCreated'', chars [0x5DF2, 0x521B, 0x5EFA, 0x70B9, 0x4F4D]),
      (''device.boundByGraph'', chars [0x5DF2, 0x88AB, 0x56FE, 0x5F62, 0x7EC4, 0x6001, 0x7ED1, 0x5B9A]),
      (''device.unbindFirst'', chars [0x8BF7, 0x5148, 0x5728, 0x903B, 0x8F91, 0x7EC4, 0x6001, 0x4E2D, 0x53D6, 0x6D88, 0x8BE5, 0x5F15, 0x811A, 0x7684, 0x7ED1, 0x5B9A, 0xFF0C, 0x518D]),
      (''device.disable'', chars [0x505C, 0x7528]),
      (''device.enable'', chars [0x542F, 0x7528]),
      (''device.pointEnabled'', chars [0x5DF2, 0x542F, 0x7528, 0x70B9, 0x4F4D]),
      (''device.pointDisabled'', chars [0x5DF2, 0x505C, 0x7528, 0x70B9, 0x4F4D]),
      (''device.delete'', chars [0x5220, 0x9664]),
      (''device.confirmDeletePoint'', chars [0x5220, 0x9664, 0x70B9, 0x4F4D]),
      (''device.confirmDeletePointMsg'', chars [0x8BE5, 0x901A, 0x9053, 0x5C06, 0x7A7A, 0x51FA, 0xFF0C, 0x53EF, 0x5728, 0x6811, 0x4E0A, 0x91CD, 0x65B0, 0x521B, 0x5EFA, 0x3002]),
      (''device.pointDeleted'', chars [0x5DF2, 0x5220, 0x9664, 0x70B9, 0x4F4D]),
      (''device.confirmBatchDelete'', chars [0x5220, 0x9664, 0x9009, 0x4E2D, 0x7684]),
      (''device.confirmBatchDeleteMsg'', chars [0x4E2A, 0x70B9, 0x4F4D, 0xFF1F, 0x5BF9, 0x5E94, 0x901A, 0x9053, 0x5C06, 0x7A7A, 0x51FA, 0x3002]),
      (''device.batch'', chars [0x6279, 0x91CF]),
      (''device.points'', chars [0x4E2A, 0x70B9, 0x4F4D]),
      (''device.batchFailed'', chars [0x6279, 0x91CF]),
      (''device.batchFailedMsg'', chars [0x4E2A, 0x70B9, 0x4F4D, 0x672A, 0x54CD, 0x5E94]),
      (''device.pointsBound'', chars [0x4E2A, 0x70B9, 0x4F4D, 0x5DF2, 0x88AB, 0x56FE, 0x5F62, 0x7EC4, 0x6001, 0x7ED1, 0x5B9A]),
      (''device.skipUnbind'', chars [0x5DF2, 0x8DF3, 0x8FC7]),
      (''device.skipUnbindMsg'', chars [0x5148, 0x5728, 0x903B, 0x8F91, 0x7EC4, 0x6001, 0x53D6, 0x6D88, 0x7ED1, 0x5B9A]),
      (''device.batchModified'', chars [0x5DF2, 0x6279, 0x91CF, 0x4FEE, 0x6539]),
      (''device.batchModifiedMsg'', chars [0x4E2A, 0x70B9, 0x4F4D, 0x7684, 0x70B9, 0x914D, 0x7F6E]),
      (''device.batchModifyFailed'', chars [0x6279, 0x91CF, 0x4FEE, 0x6539, 0x5931, 0x8D25]),
      (''device.batchModifyFailedMsg'', chars [0x4E2A, 0x70B9, 0x4F4D, 0x672A, 0x5199, 0x5165]),
      (''device.stationSaved'', chars [0x7AD9, 0x53C2, 0x6570, 0x5DF2, 0x4FDD, 0x5B58]),
      (''device.confirmDeleteStation'', chars [0x5220, 0x9664, 0x7AD9]),
      (''device.confirmDeleteStationMsg'', chars [0x5176, 0x901A, 0x9053, 0x70B9, 0x4F4D, 0x4E0E, 0x914D, 0x7F6E, 0x5C06, 0x4E00, 0x5E76, 0x79FB, 0x9664, 0x3002]),
      (''device.moduleIdRequired'', chars [0x8BF7, 0x586B, 0x5199, 0x6A21, 0x5757] @ '' ID'')]"

definition zh_download_page :: texts where
  "zh_download_page =
     [(''download.title'', chars [0x4E0B, 0x88C5, 0x5411, 0x5BFC]),
      (''download.reset'', chars [0x91CD, 0x7F6E]),
      (''download.steps'', chars [0x4E0B, 0x88C5, 0x6B65, 0x9AA4]),
      (''download.step1.title'', chars [0x76EE, 0x6807, 0x914D, 0x7F6E]),
      (''download.step1.desc'', chars [0x914D, 0x7F6E, 0x4E0B, 0x88C5, 0x76EE, 0x6807, 0x53C2, 0x6570]),
      (''download.step2.title'', chars [0x5BC6, 0x94A5, 0x9009, 0x62E9]),
      (''download.step2.desc'', chars [0x9009, 0x62E9, 0x6216, 0x751F, 0x6210] @ '' HMAC '' @ chars [0x5BC6, 0x94A5]),
      (''download.step3.title'', chars [0x4E0B, 0x88C5, 0x53C2, 0x6570]),
      (''download.step3.desc'', chars [0x914D, 0x7F6E, 0x4E0B, 0x88C5, 0x65F6, 0x5E8F, 0x53C2, 0x6570]),
      (''download.step4.title'', chars [0x6267, 0x884C, 0x4E0B, 0x88C5]),
      (''download.step4.desc'', chars [0x53D1, 0x9001, 0x5E27, 0x6D41, 0x5E76, 0x76D1, 0x63A7]),
      (''download.step5.title'', chars [0x5B8C, 0x6210]),
      (''download.step5.desc'', chars [0x4E0B, 0x88C5, 0x7ED3, 0x679C, 0x786E, 0x8BA4]),
      (''download.targetPath'', chars [0x76EE, 0x6807, 0x8DEF, 0x5F84]),
      (''download.backendType'', chars [0x540E, 0x7AEF, 0x7C7B, 0x578B]),
      (''download.pipe'', chars [0x7BA1, 0x9053]),
      (''download.file'', chars [0x6587, 0x4EF6]),
      (''download.role'', chars [0x89D2, 0x8272]),
      (''download.primary'', chars [0x4E3B]),
      (''download.backup'', chars [0x5907]),
      (''download.nodeId'', chars [0x8282, 0x70B9] @ '' ID''),
      (''download.keyName'', chars [0x5BC6, 0x94A5, 0x540D, 0x79F0]),
      (''download.keyNamePlaceholder'', chars [0x8F93, 0x5165, 0x5BC6, 0x94A5, 0x540D, 0x79F0]),
      (''download.keyHex'', chars [0x5BC6, 0x94A5] @ '' (Hex)''),
      (''download.cycles'', chars [0x5468, 0x671F, 0x6570]),
      (''download.period'', chars [0x5468, 0x671F] @ '' (ms)''),
      (''download.downloadAt'', chars [0x4E0B, 0x88C5, 0x65F6, 0x673A]),
      (''download.healthCycles'', chars [0x5065, 0x5EB7, 0x68C0, 0x67E5, 0x5468, 0x671F, 0x6570]),
      (''download.deploying'', chars [0x4E0B, 0x88C5, 0x4E2D] @ ''...''),
      (''download.startDeploy'', chars [0x5F00, 0x59CB, 0x4E0B, 0x88C5]),
      (''download.completed'', chars [0x4E0B, 0x88C5, 0x5B8C, 0x6210]),
      (''download.completedMsg'', chars [0x6240, 0x6709, 0x5E27, 0x5DF2, 0x53D1, 0x9001, 0xFF0C, 0x76EE, 0x6807, 0x5DF2, 0x5207, 0x6362]),
      (''download.success'', chars [0x4E0B, 0x88C5, 0x6210, 0x529F, 0x5B8C, 0x6210]),
      (''download.configSummary'', chars [0x914D, 0x7F6E, 0x6458, 0x8981]),
      (''download.currentStep'', chars [0x5F53, 0x524D, 0x6B65, 0x9AA4] @ '':''),
      (''download.target'', chars [0x76EE, 0x6807] @ '':''),
      (''download.periodLabel'', chars [0x5468, 0x671F] @ '':''),
      (''download.notSet'', chars [0x672A, 0x8BBE, 0x7F6E]),
      (''download.prev'', chars [0x4E0A, 0x4E00, 0x6B65]),
      (''download.next'', chars [0x4E0B, 0x4E00, 0x6B65])]"

definition zh_monitor_page :: texts where
  "zh_monitor_page =
     [(''monitor.title'', chars [0x5728, 0x7EBF, 0x76D1, 0x89C6, 0x4E0E, 0x8C03, 0x8BD5]),
      (''monitor.autoRefresh'', chars [0x81EA, 0x52A8, 0x5237, 0x65B0]),
      (''monitor.tabs.watch'', chars [0x76D1, 0x89C6, 0x8868]),
      (''monitor.tabs.variables'', chars [0x53D8, 0x91CF, 0x6D4F, 0x89C8, 0x5668]),
      (''monitor.tabs.force'', chars [0x5F3A, 0x5236, 0x63A7, 0x5236]),
      (''monitor.tabs.parameters'', chars [0x53C2, 0x6570, 0x4FEE, 0x6539]),
      (''monitor.variableDetails'', chars [0x53D8, 0x91CF, 0x8BE6, 0x60C5]),
      (''monitor.address'', chars [0x5730, 0x5740]),
      (''monitor.dataType'', chars [0x6570, 0x636E, 0x7C7B, 0x578B]),
      (''monitor.varType'', chars [0x53D8, 0x91CF, 0x7C7B, 0x578B]),
      (''monitor.currentValue'', chars [0x5F53, 0x524D, 0x503C]),
      (''monitor.forcedValue'', chars [0x5F3A, 0x5236, 0x503C]),
      (''monitor.forceStatus'', chars [0x5F3A, 0x5236, 0x72B6, 0x6001]),
      (''monitor.forced'', chars [0x5DF2, 0x5F3A, 0x5236]),
      (''monitor.notForced'', chars [0x672A, 0x5F3A, 0x5236]),
      (''monitor.quality'', chars [0x8D28, 0x91CF]),
      (''monitor.good'', chars [0x826F, 0x597D]),
      (''monitor.bad'', chars [0x5F02, 0x5E38]),
      (''monitor.type'', chars [0x7C7B, 0x578B]),
      (''monitor.status'', chars [0x72B6, 0x6001]),
      (''monitor.operations'', chars [0x64CD, 0x4F5C]),
      (''monitor.varName'', chars [0x53D8, 0x91CF, 0x540D]),
      (''monitor.abnormal'', chars [0x5F02, 0x5E38]),
      (''monitor.forcedStatus'', chars [0x5DF2, 0x5F3A, 0x5236]),
      (''monitor.input'', chars [0x8F93, 0x5165]),
      (''monitor.output'', chars [0x8F93, 0x51FA]),
      (''monitor.lastUpdated'', chars [0x6700, 0x540E, 0x66F4, 0x65B0]),
      (''monitor.addedToWatch'', chars [0x5DF2, 0x6DFB, 0x52A0, 0x5230, 0x76D1, 0x89C6, 0x8868]),
      (''monitor.addFailed'', chars [0x6DFB, 0x52A0, 0x5931, 0x8D25]),
      (''monitor.addFailedMsg'', chars [0x65E0, 0x6CD5, 0x5C06]),
      (''monitor.addFailedMsg2'', chars [0x6DFB, 0x52A0, 0x5230, 0x76D1, 0x89C6, 0x8868]),
      (''monitor.removedFromWatch'', chars [0x5DF2, 0x4ECE, 0x76D1, 0x89C6, 0x8868, 0x79FB, 0x9664]),
      (''monitor.removeFailed'', chars [0x79FB, 0x9664, 0x5931, 0x8D25]),
      (''monitor.removeFailedMsg'', chars [0x65E0, 0x6CD5, 0x4ECE, 0x76D1, 0x89C6, 0x8868, 0x79FB, 0x9664]),
      (''monitor.variableForced'', chars [0x53D8, 0x91CF, 0x5DF2, 0x5F3A, 0x5236]),
      (''monitor.forceFailed'', chars [0x5F3A, 0x5236, 0x5931, 0x8D25]),
      (''monitor.forceFailedMsg'', chars [0x65E0, 0x6CD5, 0x5F3A, 0x5236, 0x53D8, 0x91CF]),
      (''monitor.variableReleased'', chars [0x53D8, 0x91CF, 0x5DF2, 0x91CA, 0x653E]),
      (''monitor.releaseFailed'', chars [0x91CA, 0x653E, 0x5931, 0x8D25]),
      (''monitor.releaseFailedMsg'', chars [0x65E0, 0x6CD5, 0x91CA, 0x653E, 0x53D8, 0x91CF])]"

definition zh_waveform_page :: texts where
  "zh_waveform_page =
     [(''waveform.hidePlant'', chars [0x9690, 0x85CF]),
      (''waveform.configPlant'', chars [0x914D, 0x7F6E]),
      (''waveform.plant'', chars [0x88AB, 0x63A7, 0x5BF9, 0x8C61]),
      (''waveform.cycles'', chars [0x5468, 0x671F, 0x6570] @ '':''),
      (''waveform.period'', chars [0x5468, 0x671F] @ '' (ms):''),
      (''waveform.running'', chars [0x8FD0, 0x884C, 0x4E2D] @ ''...''),
      (''waveform.runSim'', chars [0x8FD0, 0x884C, 0x4EFF, 0x771F]),
      (''waveform.plantConfig'', chars [0x88AB, 0x63A7, 0x5BF9, 0x8C61, 0x914D, 0x7F6E]),
      (''waveform.delete'', chars [0x5220, 0x9664]),
      (''waveform.addChannel'', ''+ '' @ chars [0x6DFB, 0x52A0, 0x901A, 0x9053]),
      (''waveform.viewer'', chars [0x4EFF, 0x771F, 0x6CE2, 0x5F62, 0x67E5, 0x770B, 0x5668]),
      (''waveform.viewerDesc'', chars [0x914D, 0x7F6E, 0x88AB, 0x63A7, 0x5BF9, 0x8C61, 0x5E76, 0x8FD0, 0x884C, 0x4EFF, 0x771F, 0x4EE5, 0x67E5, 0x770B, 0x6CE2, 0x5F62]),
      (''waveform.mean'', chars [0x5747, 0x503C] @ '':''),
      (''waveform.configDerived'', chars [0x4EFF, 0x771F, 0x914D, 0x7F6E, 0x5DF2, 0x81EA, 0x52A8, 0x63A8, 0x5BFC]),
      (''waveform.configDerivedMsg'', chars [0x4ECE]),
      (''waveform.configDerivedMsg2'', chars [0x4E2A, 0x7ED1, 0x5B9A, 0x53D8, 0x91CF]),
      (''waveform.configUpdated'', chars [0x4EFF, 0x771F, 0x914D, 0x7F6E, 0x5DF2, 0x66F4, 0x65B0]),
      (''waveform.configUpdatedMsg'', chars [0x8BBE, 0x5907, 0x7ED1, 0x5B9A, 0x53D8, 0x66F4, 0x5DF2, 0x540C, 0x6B65])]"

definition zh_graph_editor_page :: texts where
  "zh_graph_editor_page =
     [(''graph.program'', chars [0x7A0B, 0x5E8F]),
      (''graph.station'', chars [0x7AD9, 0x70B9]),
      (''graph.noStation'', chars [0x65E0, 0x7AD9]),
      (''graph.checker'', chars [0x68C0, 0x67E5, 0x5668]),
      (''graph.cycles'', chars [0x5468, 0x671F, 0x6570]),
      (''graph.simHint'', chars [0x6309, 0x8BBE, 0x5907, 0x7EC4, 0x6001, 0x751F, 0x6210, 0x88AB, 0x63A7, 0x5BF9, 0x8C61, 0x8868, 0x5E76, 0x8FD0, 0x884C] @ '' sim''),
      (''graph.simulating'', chars [0x4EFF, 0x771F, 0x4E2D, 0x2026]),
      (''graph.sim'', chars [0x4EFF, 0x771F]),
      (''graph.deleteSelected'', chars [0x5220, 0x9664, 0x6240, 0x9009, 0xFF08] @ ''Delete'' @ chars [0xFF09]),
      (''graph.delete'', chars [0x5220, 0x9664]),
      (''graph.addConstant'', ''+ '' @ chars [0x5E38, 0x91CF]),
      (''graph.searchPlaceholder'', chars [0x641C, 0x7D22, 0x7B97, 0x6CD5, 0x5757] @ '' / '' @ chars [0x53D8, 0x91CF]),
      (''graph.library'', chars [0x7B97, 0x6CD5, 0x5E93]),
      (''graph.input'', chars [0x8F93, 0x5165]),
      (''graph.output'', chars [0x8F93, 0x51FA]),
      (''graph.onPage'', chars [0x5728, 0x9875, 0x4E0A]),
      (''graph.onPageHint'', chars [0x5DF2, 0x5728, 0x672C, 0x9875, 0x753B, 0x51FA, 0xFF1A, 0x70B9, 0x51FB, 0x5B9A, 0x4F4D]),
      (''graph.loading'', chars [0x6B63, 0x5728, 0x8F7D, 0x5165, 0x56FE, 0x9875, 0x2026, 0xFF08, 0x82E5, 0x957F, 0x65F6, 0x95F4, 0x65E0, 0x54CD, 0x5E94, 0xFF0C, 0x8BF7, 0x786E, 0x8BA4, 0x540E, 0x7AEF, 0x5DF2, 0x542F, 0x52A8, 0xFF09]),
      (''graph.forcedPins'', chars [0x672C, 0x5468, 0x671F, 0x6709]),
      (''graph.forcedPinsMsg'', chars [0x4E2A, 0x5F15, 0x811A, 0x663E, 0x793A, 0x7684, 0x662F, 0x5F3A, 0x5236, 0x503C, 0xFF08] @ ''F '' @ chars [0x6807, 0x8BB0, 0xFF09, 0xFF0C, 0x4E0D, 0x662F, 0x7A0B, 0x5E8F, 0x7B97, 0x51FA, 0x6765, 0x7684, 0x7ED3, 0x679C]),
      (''graph.tabs.properties'', chars [0x5C5E, 0x6027]),
      (''graph.tabs.variables'', chars [0x56FE, 0x9875, 0x53D8, 0x91CF]),
      (''graph.direction.input'', chars [0x8F93, 0x5165]),
      (''graph.direction.output'', chars [0x8F93, 0x51FA]),
      (''graph.direction.inout'', chars [0x8BFB, 0x5199]),
      (''graph.newVarPin'', chars [0x65B0, 0x5EFA, 0x53D8, 0x91CF, 0x5F15, 0x811A]),
      (''graph.cross'', chars [0x8DE8]),
      (''graph.pageSaved'', chars [0x56FE, 0x9875, 0x5DF2, 0x4FDD, 0x5B58]),
      (''graph.pageSavedMsg'', chars [0x5DF2, 0x5199, 0x5165]),
      (''graph.varListRefreshed'', chars [0x53D8, 0x91CF, 0x5217, 0x8868, 0x5DF2, 0x5237, 0x65B0]),
      (''graph.varListRefreshedMsg'', chars [0x8BBE, 0x5907, 0x7ED1, 0x5B9A, 0x5DF2, 0x540C, 0x6B65]),
      (''graph.pageName'', chars [0x56FE, 0x9875, 0x540D, 0x79F0]),
      (''graph.confirmDeletePage'', chars [0x5220, 0x9664, 0x56FE, 0x9875]),
      (''graph.readHere'', chars [0x5728, 0x672C, 0x9875, 0x8BFB, 0x5B83]),
      (''graph.writeHere'', chars [0x5728, 0x672C, 0x9875, 0x5199, 0x5B83]),
      (''graph.noPointName'', chars [0x65E0, 0x70B9, 0x540D]),
      (''graph.noChannel'', chars [0x672A, 0x6620, 0x5C04, 0x901A, 0x9053]),
      (''graph.inputVars'', chars [0x8F93, 0x5165, 0x53D8, 0x91CF]),
      (''graph.inputVarsNote'', chars [0x5DF2, 0x505C, 0x7528, 0x7684, 0x70B9, 0x4F4D, 0x4E0D, 0x5217, 0x51FA, 0xFF1A, 0x505C, 0x7528, 0x540E, 0x4E0D, 0x751F, 0x6210, 0x5168, 0x5C40, 0x53D8, 0x91CF, 0xFF0C, 0x7ED1, 0x5B9A, 0x4F1A, 0x62A5, 0x9519]),
      (''graph.noInputVars'', chars [0x8BE5, 0x7AD9, 0x6CA1, 0x6709, 0x8F93, 0x5165, 0x70B9, 0x4F4D, 0xFF1A, 0x5148, 0x5728, 0x8BBE, 0x5907, 0x7EC4, 0x6001, 0x6DFB, 0x52A0] @ '' AI '' @ chars [0x6216] @ '' DI '' @ chars [0x6A21, 0x5757]),
      (''graph.outputVars'', chars [0x8F93, 0x51FA, 0x53D8, 0x91CF]),
      (''graph.noOutputVars'', chars [0x8BE5, 0x7AD9, 0x6CA1, 0x6709, 0x8F93, 0x51FA, 0x70B9, 0x4F4D, 0xFF1A, 0x5148, 0x5728, 0x8BBE, 0x5907, 0x7EC4, 0x6001, 0x6DFB, 0x52A0] @ '' AO '' @ chars [0x6216] @ '' DO '' @ chars [0x6A21, 0x5757]),
      (''graph.middleVars'', chars [0x4E2D, 0x95F4, 0x53D8, 0x91CF]),
      (''graph.newMiddle'', ''+ '' @ chars [0x65B0, 0x5EFA]),
      (''graph.newMiddleHint'', chars [0x65B0, 0x5EFA, 0x8DE8, 0x9875, 0x53D8, 0x91CF, 0xFF0C, 0x6539, 0x540D, 0x540E, 0x5373, 0x4E0E, 0x53E6, 0x4E00, 0x9875, 0x540C, 0x540D, 0x76F8, 0x8FDE]),
      (''graph.noMiddleVars'', chars [0x8FD8, 0x6CA1, 0x6709, 0x8DE8, 0x9875, 0x53D8, 0x91CF, 0xFF1A, 0x5728, 0x522B, 0x7684, 0x7BA1, 0x7406, 0x9875, 0x628A, 0x540C, 0x540D, 0x5F15, 0x811A, 0x6807, 0x4E3A, 0x4E2D, 0x95F4, 0x53D8, 0x91CF, 0xFF0C, 0x8FD9, 0x91CC, 0x5C31, 0x4F1A, 0x51FA, 0x73B0]),
      (''graph.connectPage'', chars [0x8FDE, 0x63A5, 0x56FE, 0x9875]),
      (''graph.thisPage'', chars [0x672C, 0x9875]),
      (''graph.privateVars'', chars [0x672C, 0x9875, 0x79C1, 0x6709]),
      (''graph.newPrivate'', ''+ '' @ chars [0x65B0, 0x5EFA]),
      (''graph.newPrivateHint'', chars [0x65B0, 0x5EFA, 0x53EA, 0x5C5E, 0x4E8E, 0x672C, 0x9875, 0x7684, 0x53D8, 0x91CF]),
      (''graph.noPrivateVars'', chars [0x672C, 0x9875, 0x8FD8, 0x6CA1, 0x6709, 0x79C1, 0x6709, 0x53D8, 0x91CF]),
      (''graph.privateHint'', chars [0x53EA, 0x5728, 0x672C, 0x9875, 0x6709, 0x6548]),
      (''graph.systemVars'', chars [0x7CFB, 0x7EDF, 0x53D8, 0x91CF]),
      (''graph.systemVarsNote'', chars [0x6BCF, 0x5468, 0x671F, 0x7531, 0x8FD0, 0x884C, 0x7AD9, 0x7ED9, 0x51FA, 0xFF0C, 0x53EA, 0x8BFB]),
      (''graph.noSystemVars'', chars [0x8FD0, 0x884C, 0x7AD9, 0x6CA1, 0x6709, 0x53EF, 0x7ED9, 0x7684, 0x91CF]),
      (''graph.readonly'', chars [0x53EA, 0x8BFB])]"

definition zh_sheet :: texts where
  "zh_sheet =
     [(''sheet.page'', chars [0x56FE, 0x9875]),
      (''sheet.pageN'', chars [0x7B2C]),
      (''sheet.pageN2'', chars [0x9875]),
      (''sheet.blocks'', chars [0x5757]),
      (''sheet.wires'', chars [0x7EBF]),
      (''sheet.variables'', chars [0x53D8, 0x91CF]),
      (''sheet.landscape'', chars [0x6A2A, 0x5411]),
      (''sheet.noPinDef'', chars [0x5E93, 0x4E2D, 0x65E0, 0x5F15, 0x811A, 0x5B9A, 0x4E49])]"

definition zh_page_tabs :: texts where
  "zh_page_tabs =
     [(''pageTabs.pageName'', chars [0x56FE, 0x9875, 0x540D, 0x79F0]),
      (''pageTabs.unsaved'', chars [0x672A, 0x4FDD, 0x5B58]),
      (''pageTabs.deletePage'', chars [0x5220, 0x9664, 0x56FE, 0x9875]),
      (''pageTabs.newPage'', chars [0x65B0, 0x5EFA, 0x56FE, 0x9875]),
      (''pageTabs.crossVars'', chars [0x8DE8, 0x9875, 0x53D8, 0x91CF]),
      (''pageTabs.none'', chars [0x65E0]),
      (''pageTabs.jumpTo'', chars [0x8DF3, 0x8F6C, 0x5230]),
      (''pageTabs.jumpToOn'', chars [0x4E0A, 0x7684])]"

definition zh_inspector :: texts where
  "zh_inspector =
     [(''inspector.selectHint'', chars [0x9009, 0x62E9, 0x4E00, 0x4E2A, 0x7B97, 0x6CD5, 0x5757, 0x3001, 0x5E38, 0x91CF, 0x6216, 0x53D8, 0x91CF, 0x5F15, 0x811A, 0x67E5, 0x770B, 0x5C5E, 0x6027, 0x3002]),
      (''inspector.dragHint'', chars [0x4ECE, 0x5DE6, 0x4FA7, 0x7B97, 0x6CD5, 0x5E93, 0x62D6, 0x62FD, 0x5230, 0x753B, 0x5E03, 0x53EF, 0x653E, 0x7F6E, 0x7B97, 0x6CD5, 0x5757, 0xFF1B, 0x4ECE, 0x5F15, 0x811A, 0x4E0A, 0x6309, 0x4E0B, 0x5E76, 0x62D6, 0x5230, 0x53E6, 0x4E00, 0x4E2A, 0x5F15, 0x811A, 0x5373, 0x5B8C, 0x6210, 0x8FDE, 0x7EBF, 0x3002]),
      (''inspector.wireDeleted'', chars [0x8FDE, 0x7EBF, 0x5DF2, 0x5220, 0x9664, 0x3002]),
      (''inspector.wire'', chars [0x8FDE, 0x7EBF]),
      (''inspector.deleteWire'', chars [0x5220, 0x9664, 0x8FDE, 0x7EBF]),
      (''inspector.blockDeleted'', chars [0x5757, 0x5DF2, 0x5220, 0x9664, 0x3002]),
      (''inspector.instanceName'', chars [0x5B9E, 0x4F8B, 0x540D]),
      (''inspector.type'', chars [0x7C7B, 0x578B]),
      (''inspector.pin'', chars [0x5F15, 0x811A]),
      (''inspector.parameters'', chars [0x53C2, 0x6570]),
      (''inspector.addParam'', ''+ '' @ chars [0x53C2, 0x6570]),
      (''inspector.deleteBlock'', chars [0x5220, 0x9664, 0x7B97, 0x6CD5, 0x5757]),
      (''inspector.constantDeleted'', chars [0x5E38, 0x91CF, 0x5DF2, 0x5220, 0x9664, 0x3002]),
      (''inspector.constantName'', chars [0x5E38, 0x91CF, 0x540D]),
      (''inspector.value'', chars [0x6570, 0x503C]),
      (''inspector.constantHint'', chars [0x5E38, 0x91CF, 0x5728, 0x751F, 0x6210] @ '' ST '' @ chars [0x65F6, 0x5185, 0x8054, 0x4E3A, 0x5B57, 0x9762, 0x91CF, 0xFF0C, 0x4E0D, 0x4EA7, 0x751F, 0x53D8, 0x91CF, 0x3002]),
      (''inspector.deleteConstant'', chars [0x5220, 0x9664, 0x5E38, 0x91CF]),
      (''inspector.varDeleted'', chars [0x53D8, 0x91CF, 0x5DF2, 0x5220, 0x9664, 0x3002]),
      (''inspector.varName'', chars [0x53D8, 0x91CF, 0x540D]),
      (''inspector.direction'', chars [0x65B9, 0x5411]),
      (''inspector.unit'', chars [0x5355, 0x4F4D]),
      (''inspector.scope'', chars [0x4F5C, 0x7528, 0x57DF]),
      (''inspector.systemVar'', chars [0x7CFB, 0x7EDF, 0x53D8, 0x91CF, 0xFF08, 0x8FD0, 0x884C, 0x7AD9, 0x7ED9, 0x51FA, 0xFF09]),
      (''inspector.systemVarHint'', chars [0x6BCF, 0x5468, 0x671F, 0x7531, 0x8FD0, 0x884C, 0x7AD9, 0x5199, 0x5165, 0xFF0C, 0x56FE, 0x9875, 0x53EA, 0x80FD, 0x8BFB, 0xFF0C, 0x8FDE, 0x5230, 0x5B83, 0x7684, 0x8F93, 0x51FA, 0x5F15, 0x811A, 0x4F1A, 0x88AB, 0x68C0, 0x67E5, 0x5668, 0x62D2, 0x7EDD, 0x3002]),
      (''inspector.associateDevice'', chars [0x5173, 0x8054, 0x8BBE, 0x5907, 0x53D8, 0x91CF]),
      (''inspector.noStation'', chars [0x672A, 0x9009, 0x7AD9]),
      (''inspector.notAssociated'', chars [0x672A, 0x5173, 0x8054]),
      (''inspector.noExternalVars'', chars [0x8BE5, 0x7AD9, 0x8FD8, 0x6CA1, 0x6709, 0x5916, 0x90E8, 0x53D8, 0x91CF, 0x8868, 0xFF0C, 0x5148, 0x5728, 0x8BBE, 0x5907, 0x7EC4, 0x6001, 0x5B8C, 0x6210, 0x901A, 0x9053, 0x914D, 0x7F6E, 0x3002]),
      (''inspector.deleteVarPin'', chars [0x5220, 0x9664, 0x53D8, 0x91CF, 0x5F15, 0x811A]),
      (''inspector.externalVar'', chars [0x5916, 0x90E8, 0x53D8, 0x91CF, 0xFF08, 0x5173, 0x8054, 0x8BBE, 0x5907, 0xFF09]),
      (''inspector.middleVar'', chars [0x4E2D, 0x95F4, 0x53D8, 0x91CF, 0xFF08, 0x8DE8, 0x9875, 0x8DF3, 0x8F6C, 0xFF09]),
      (''inspector.localVar'', chars [0x5C40, 0x90E8, 0x53D8, 0x91CF, 0xFF08, 0x672C, 0x9875, 0x4E34, 0x65F6, 0xFF09])]"

definition zh_checker_panel :: texts where
  "zh_checker_panel =
     [(''checker.tabs.checker'', chars [0x68C0, 0x67E5, 0x5668]),
      (''checker.tabs.st'', ''ST '' @ chars [0x6587, 0x672C]),
      (''checker.tabs.analysis'', chars [0x7F16, 0x8BD1, 0x5206, 0x6790]),
      (''checker.tabs.sim'', chars [0x4EFF, 0x771F]),
      (''checker.tabs.stimulus'', chars [0x6FC0, 0x52B1] @ ''/'' @ chars [0x5F3A, 0x5236]),
      (''checker.error'', chars [0x9519, 0x8BEF]),
      (''checker.warning'', chars [0x8B66, 0x544A]),
      (''checker.info'', chars [0x63D0, 0x793A]),
      (''checker.unlocated'', chars [0x672A, 0x5B9A, 0x4F4D]),
      (''checker.fail'', chars [0x9519]),
      (''checker.pass'', chars [0x901A, 0x8FC7]),
      (''checker.rejected'', chars [0x62D2, 0x7EDD]),
      (''checker.modified'', chars [0x5DF2, 0x6539, 0x52A8]),
      (''checker.measured'', chars [0x5DF2, 0x5EA6, 0x91CF]),
      (''checker.running'', chars [0x8FD0, 0x884C, 0x4E2D, 0x2026]),
      (''checker.notChecked'', chars [0x5C1A, 0x672A, 0x68C0, 0x67E5, 0x3002, 0x68C0, 0x67E5, 0x5668, 0x4F1A, 0x6838, 0x67E5, 0x56DE, 0x73AF, 0x3001, 0x5F15, 0x811A, 0x7C7B, 0x578B, 0x3001, 0x672A, 0x5173, 0x8054, 0x53D8, 0x91CF, 0x3001, 0x591A, 0x9A71, 0x52A8, 0x4E0E, 0x5916, 0x90E8, 0x53D8, 0x91CF, 0x7ED1, 0x5B9A, 0x3002]),
      (''checker.passed'', chars [0x68C0, 0x67E5, 0x901A, 0x8FC7, 0xFF1A]),
      (''checker.passedPages'', chars [0x5F20, 0x56FE, 0x9875, 0xFF0C]),
      (''checker.passedCrossVars'', chars [0x4E2A, 0x8DE8, 0x9875, 0x53D8, 0x91CF, 0xFF0C, 0x65E0, 0x9519, 0x8BEF, 0x3002]),
      (''checker.noContent'', chars [0xFF08, 0x65E0, 0x5185, 0x5BB9, 0xFF09])]"

definition zh_sim_panel :: texts where
  "zh_sim_panel =
     [(''sim.firstCycle'', chars [0x9996, 0x4E2A, 0x5468, 0x671F]),
      (''sim.prevCycle'', chars [0x4E0A, 0x4E00, 0x5468, 0x671F]),
      (''sim.pause'', chars [0x6682, 0x505C]),
      (''sim.replay'', chars [0x56DE, 0x653E]),
      (''sim.nextCycle'', chars [0x4E0B, 0x4E00, 0x5468, 0x671F]),
      (''sim.lastCycle'', chars [0x672B, 0x4E2A, 0x5468, 0x671F]),
      (''sim.cycle'', chars [0x5468, 0x671F]),
      (''sim.violation'', chars [0x8FDD, 0x4F8B]),
      (''sim.status'', chars [0x72B6, 0x6001]),
      (''sim.staleWarning'', chars [0x56FE, 0x5DF2, 0x6539, 0x52A8, 0xFF0C, 0x7ED3, 0x679C, 0x5C5E, 0x4E8E, 0x6539, 0x52A8, 0x524D]),
      (''sim.symbol'', chars [0x7B26, 0x53F7]),
      (''sim.runsMerged'', chars [0x6B21, 0x8FD0, 0x884C, 0x5408, 0x5E76]),
      (''sim.singleRun'', chars [0x5355, 0x6B21, 0x8FD0, 0x884C]),
      (''sim.runSim'', chars [0x8FD0, 0x884C, 0x4EFF, 0x771F]),
      (''sim.readError'', chars [0x8BFB, 0x9519]),
      (''sim.writeError'', chars [0x5199, 0x9519]),
      (''sim.plantTable'', chars [0x5BF9, 0x8C61, 0x8868]),
      (''sim.station'', chars [0x7AD9]),
      (''sim.forcedValues'', chars [0x4E2A, 0x503C, 0x88AB, 0x5F3A, 0x5236]),
      (''sim.noForced'', chars [0x65E0, 0x5F3A, 0x5236, 0x503C]),
      (''sim.rejected'', chars [0x4EFF, 0x771F, 0x88AB, 0x62D2, 0x7EDD, 0xFF1A]),
      (''sim.unknownStage'', chars [0x672A, 0x77E5, 0x9636, 0x6BB5]),
      (''sim.channel'', chars [0x901A, 0x9053]),
      (''sim.displayIn'', chars [0x663E, 0x793A, 0x5728]),
      (''sim.force'', chars [0x5F3A, 0x5236]),
      (''sim.forcedByStimulus'', chars [0x672C, 0x5468, 0x671F, 0x8BE5, 0x503C, 0x7531, 0x6FC0, 0x52B1, 0x8986, 0x76D6, 0xFF0C, 0x4E0D, 0x662F, 0x7A0B, 0x5E8F, 0x7B97, 0x51FA, 0x7684]),
      (''sim.computedByProgram'', chars [0x672C, 0x5468, 0x671F, 0x8BE5, 0x503C, 0x7531, 0x7A0B, 0x5E8F, 0x7B97, 0x51FA]),
      (''sim.addToForce'', chars [0x52A0, 0x5165, 0x5F3A, 0x5236, 0x5217, 0x8868, 0x5E76, 0x8F6C, 0x5230, 0x6FC0, 0x52B1, 0x9875]),
      (''sim.forceLabel'', chars [0x5F3A, 0x5236, 0x2026]),
      (''sim.notSimulated'', chars [0x5C1A, 0x672A, 0x4EFF, 0x771F, 0x3002, 0x8FD0, 0x884C, 0x65F6, 0x68C0, 0x67E5, 0x5668, 0x5148, 0x901A, 0x8FC7, 0xFF0C, 0x518D, 0x6309, 0x8BBE, 0x5907, 0x7EC4, 0x6001, 0x751F, 0x6210, 0x88AB, 0x63A7, 0x5BF9, 0x8C61, 0x8868, 0xFF0C, 0x9010, 0x5468, 0x671F, 0x53D6, 0x56DE] @ '' watch '' @ chars [0x5E27, 0xFF1B, 0x5F15, 0x811A, 0x4E0A, 0x7684, 0x6570, 0x5B57, 0x6765, 0x81EA, 0x5E27, 0xFF0C, 0x4E0D, 0x6765, 0x81EA, 0x56FE, 0x3002])]"

definition zh_stimulus_panel :: texts where
  "zh_stimulus_panel =
     [(''stimulus.addForce'', ''+ '' @ chars [0x5F3A, 0x5236, 0x9879]),
      (''stimulus.addScript'', ''+ '' @ chars [0x811A, 0x672C, 0x8BB0, 0x5F55]),
      (''stimulus.selectSymbolFirst'', chars [0x5148, 0x9009, 0x4E00, 0x4E2A, 0x4E0A, 0x6B21, 0x4EFF, 0x771F, 0x62A5, 0x544A, 0x8FC7, 0x7684, 0x7B26, 0x53F7, 0xFF0C, 0x518D, 0x6309, 0x4E0A, 0x9762, 0x7684, 0x6309, 0x94AE, 0x52A0, 0x884C]),
      (''stimulus.selectSymbolPlaceholder'', chars [0xFF08, 0x5148, 0x9009, 0x7B26, 0x53F7, 0xFF09]),
      (''stimulus.forceCount'', chars [0x5F3A, 0x5236]),
      (''stimulus.scriptCount'', chars [0x8BB0, 0x5F55]),
      (''stimulus.runWithStimulus'', chars [0x5E26, 0x6FC0, 0x52B1, 0x8FD0, 0x884C]),
      (''stimulus.forceSection'', chars [0x5F3A, 0x5236, 0xFF08, 0x6574, 0x573A, 0x8FD0, 0x884C, 0x4FDD, 0x6301, 0xFF09]),
      (''stimulus.using'', chars [0x7528]),
      (''stimulus.symbol'', chars [0x7B26, 0x53F7]),
      (''stimulus.value'', chars [0x503C]),
      (''stimulus.noForces'', chars [0x65E0, 0x5F3A, 0x5236, 0x9879, 0x3002]),
      (''stimulus.scriptSection'', chars [0x6D4B, 0x8BD5, 0x811A, 0x672C, 0xFF08, 0x6309, 0x5468, 0x671F, 0x8BBE, 0x5B9A, 0xFF09]),
      (''stimulus.cycle'', chars [0x5468, 0x671F]),
      (''stimulus.noScripts'', chars [0x65E0, 0x811A, 0x672C, 0x8BB0, 0x5F55, 0x3002]),
      (''stimulus.helpText'', chars [0x5F3A, 0x5236, 0x503C, 0x5728, 0x6BCF, 0x5468, 0x671F, 0x5F00, 0x59CB, 0x65F6, 0x5199, 0x5165, 0xFF0C, 0x8986, 0x76D6, 0x7A0B, 0x5E8F, 0x8BA1, 0x7B97, 0x7ED3, 0x679C, 0xFF1B, 0x811A, 0x672C, 0x6309, 0x5468, 0x671F, 0x53F7, 0x7CBE, 0x786E, 0x6CE8, 0x5165, 0x3002, 0x7ED1, 0x5728, 0x8F93, 0x5165, 0x901A, 0x9053, 0x7684, 0x5F3A, 0x5236, 0x503C, 0x6CE8, 0x5165, 0x88AB, 0x63A7, 0x5BF9, 0x8C61, 0xFF0C, 0x5176, 0x4F59, 0x8986, 0x76D6, 0x6BB5] @ '' 7 '' @ chars [0x5168, 0x5C40, 0x69FD, 0x4F4D, 0x3002, 0x5E27, 0x7684] @ '' forced '' @ chars [0x6807, 0x8BB0, 0x6807, 0x660E, 0x8BE5, 0x503C, 0x6765, 0x81EA, 0x7A0B, 0x5E8F, 0x4E4B, 0x5916, 0x3002]),
      (''stimulus.knownGap'', chars [0x5DF2, 0x77E5, 0x7F3A, 0x53E3, 0xFF1A, 0x7ED1, 0x5728, 0x8F93, 0x5165, 0x901A, 0x9053, 0x4E0A, 0x7684] @ '' REAL '' @ chars [0x70B9, 0xFF0C, 0x5F3A, 0x5236, 0x503C, 0x7ECF] @ '' float64'' @ chars [0x2192] @ ''float32 '' @ chars [0x6536, 0x7A84, 0x540E, 0x6CE8, 0x5165, 0xFF0C, 0x53EF, 0x80FD, 0x6709, 0x820D, 0x5165, 0x8BEF, 0x5DEE, 0x3002]),
      (''stimulus.keepRow'', chars [0x52FE, 0x6389, 0x5373, 0x4FDD, 0x7559, 0x6B64, 0x884C, 0x4F46, 0x4E0D, 0x9001, 0x8FDB, 0x4E0B, 0x4E00, 0x6B21, 0x8FD0, 0x884C]),
      (''stimulus.deleteRow'', chars [0x5220, 0x9664, 0x6B64, 0x884C]),
      (''stimulus.cycleOutOfRange'', chars [0x672C, 0x6B21, 0x8FD0, 0x884C, 0x53EA, 0x6709]),
      (''stimulus.cycleOutOfRange2'', chars [0x4E2A, 0x5468, 0x671F, 0xFF0C, 0x8FD9, 0x6761, 0x8BB0, 0x5F55, 0x6C38, 0x8FDC, 0x4E0D, 0x4F1A, 0x751F, 0x6548]),
      (''stimulus.effectiveCycle'', chars [0x751F, 0x6548, 0x5468, 0x671F, 0xFF0C, 0x4ECE] @ '' 1 '' @ chars [0x8D77])]"

definition zh_analysis_panel :: texts where
  "zh_analysis_panel =
     [(''analysis.checkerErrors'', chars [0x68C0, 0x67E5, 0x5668, 0x4ECD, 0x6709, 0x9519, 0x8BEF]),
      (''analysis.checkerErrorsHint'', chars [0x7528, 0x7F16, 0x8BD1, 0x5668, 0x5EA6, 0x91CF] @ '' WCET'' @ chars [0x3001, 0x5185, 0x5B58, 0x4E0E, 0x540C, 0x6B65, 0x533A]),
      (''analysis.analyzing'', chars [0x5206, 0x6790, 0x4E2D, 0x2026]),
      (''analysis.reanalyze'', chars [0x91CD, 0x65B0, 0x5206, 0x6790]),
      (''analysis.checkerFirst'', chars [0x5148, 0x8BA9, 0x68C0, 0x67E5, 0x5668, 0x901A, 0x8FC7, 0xFF0C, 0x7F16, 0x8BD1, 0x5668, 0x624D, 0x4F1A, 0x88AB, 0x8C03, 0x7528, 0x3002]),
      (''analysis.configChanged'', chars [0x7EC4, 0x6001, 0x5DF2, 0x6539, 0x52A8, 0xFF0C, 0x4E0B, 0x9762, 0x7684, 0x6570, 0x503C, 0x6765, 0x81EA, 0x6539, 0x52A8, 0x524D, 0x7684, 0x90A3, 0x4E00, 0x6B21, 0x5206, 0x6790, 0x3002]),
      (''analysis.checkerStillErrors'', chars [0x68C0, 0x67E5, 0x5668, 0x4ECD, 0x6709, 0x9519, 0x8BEF, 0xFF0C, 0x7F16, 0x8BD1, 0x5668, 0x672A, 0x8C03, 0x7528, 0x3002]),
      (''analysis.compilerRejected'', chars [0x7F16, 0x8BD1, 0x5668, 0x62D2, 0x7EDD, 0x8BE5, 0x7EC4, 0x6001, 0x6587, 0x672C]),
      (''analysis.exitCode'', chars [0x9000, 0x51FA, 0x7801]),
      (''analysis.wcet'', chars [0x6700, 0x574F, 0x6267, 0x884C, 0x65F6, 0x95F4]),
      (''analysis.artifact'', chars [0x5236, 0x54C1]),
      (''analysis.bytes'', chars [0x5B57, 0x8282]),
      (''analysis.instructionCycles'', chars [0x6307, 0x4EE4, 0x5468, 0x671F, 0x6570, 0xFF08, 0x6BB5] @ '' 6 WCET'' @ chars [0xFF09]),
      (''analysis.time'', chars [0x65F6, 0x95F4, 0xFF08, 0x7F16, 0x8BD1, 0x5668, 0x6298, 0x7B97, 0xFF09]),
      (''analysis.cycleBudget'', chars [0x5360]),
      (''analysis.cycleBudget2'', ''ms '' @ chars [0x5468, 0x671F]),
      (''analysis.cycleLimit'', chars [0x6BCF, 0x5468, 0x671F, 0x6307, 0x4EE4, 0x4E0A, 0x9650, 0xFF08, 0x6BB5] @ '' 5'' @ chars [0xFF09]),
      (''analysis.exceeded'', chars [0x8D85, 0x9650]),
      (''analysis.stackDepth'', chars [0x9759, 0x6001, 0x6808, 0x6DF1, 0x5EA6]),
      (''analysis.recursive'', chars [0x9012, 0x5F52, 0x8C03, 0x7528]),
      (''analysis.yes'', chars [0x6709]),
      (''analysis.no'', chars [0x65E0]),
      (''analysis.boundedLoop'', chars [0x5FAA, 0x73AF, 0x6709, 0x754C]),
      (''analysis.memoryUsage'', chars [0x5185, 0x5B58, 0x4E0E, 0x53D8, 0x91CF, 0x5360, 0x7528]),
      (''analysis.code'', chars [0x4EE3, 0x7801]),
      (''analysis.linearMemory'', chars [0x7EBF, 0x6027, 0x5185, 0x5B58, 0xFF08, 0x6BB5] @ '' 2 '' @ chars [0x58F0, 0x660E, 0xFF09]),
      (''analysis.section'', chars [0x533A]),
      (''analysis.section2'', chars [0x6BB5]),
      (''analysis.baseAddr'', chars [0x57FA, 0x5740]),
      (''analysis.symbolCount'', chars [0x7B26, 0x53F7, 0x6761, 0x6570, 0xFF08, 0x6BB5] @ '' 7'' @ chars [0xFF09]),
      (''analysis.globalVars'', chars [0x5168, 0x5C40, 0x53D8, 0x91CF] @ '' / '' @ chars [0x5B9E, 0x4F8B, 0x5B57, 0x6BB5]),
      (''analysis.ioMapping'', ''I/O '' @ chars [0x901A, 0x9053, 0x6620, 0x5C04, 0xFF08, 0x6BB5] @ '' 3'' @ chars [0xFF09]),
      (''analysis.hotstandby'', chars [0x70ED, 0x5907, 0x540C, 0x6B65, 0x533A]),
      (''analysis.page'', chars [0x9875]),
      (''analysis.syncPages'', chars [0x6BCF, 0x5468, 0x671F, 0x5F3A, 0x5236, 0x540C, 0x6B65, 0x9875]),
      (''analysis.syncDataSize'', chars [0x6BCF, 0x5468, 0x671F, 0x540C, 0x6B65, 0x6570, 0x636E, 0x91CF]),
      (''analysis.snapshotHeader'', chars [0x5FEB, 0x7167, 0x5305, 0x5934]),
      (''analysis.worstSnapshot'', chars [0x6700, 0x574F, 0x5355, 0x5E27, 0x5FEB, 0x7167]),
      (''analysis.tracePageLimit'', chars [0x8DDF, 0x8E2A, 0x9875, 0x4E0A, 0x9650]),
      (''analysis.used'', chars [0x5DF2, 0x7528]),
      (''analysis.stackNote'', chars [0x6570, 0x503C, 0x6808, 0x4E0E, 0x5E27, 0x6808, 0x7531, 0x8FD0, 0x884C, 0x7AD9, 0x5FEB, 0x7167, 0x6A21, 0x578B, 0xFF08] @ ''hotstandby/snapshot.c'' @ chars [0xFF09, 0x53E6, 0x884C, 0x8BA1, 0x5165, 0x3002]),
      (''analysis.notAnalyzed'', chars [0x5C1A, 0x672A, 0x5206, 0x6790, 0x3002, 0x5206, 0x6790, 0x628A, 0x8BBE, 0x5907, 0x7EC4, 0x6001, 0x7684] @ '' VAR_GLOBAL/IOMAP '' @ chars [0x6BB5, 0x4E0E, 0x56FE, 0x9875, 0x751F, 0x6210, 0x7684] @ '' PROGRAM '' @ chars [0x6587, 0x672C, 0x4E00, 0x5E76, 0x4EA4, 0x7ED9] @ '' veristc'' @ chars [0xFF0C, 0x8BFB, 0x56DE, 0x5236, 0x54C1, 0x91CC, 0x7684] @ '' WCET'' @ chars [0x3001, 0x5185, 0x5B58, 0x4E0E, 0x7B26, 0x53F7, 0x6BB5, 0xFF0C, 0x5E76, 0x6309, 0x70ED, 0x5907, 0x5FEB, 0x7167, 0x89C4, 0x5219, 0x7B97, 0x51FA, 0x540C, 0x6B65, 0x533A, 0x5927, 0x5C0F, 0x3002])]"

definition zh_hardware_tree :: texts where
  "zh_hardware_tree =
     [(''hwTree.createPoint'', chars [0x4E3A] @ '' CH''),
      (''hwTree.createPoint2'', chars [0x521B, 0x5EFA, 0x70B9, 0x4F4D]),
      (''hwTree.disablePoint'', chars [0x505C, 0x7528, 0x70B9, 0x4F4D]),
      (''hwTree.enablePoint'', chars [0x542F, 0x7528, 0x70B9, 0x4F4D]),
      (''hwTree.deletePoint'', chars [0x5220, 0x9664, 0x70B9, 0x4F4D]),
      (''hwTree.renameChannel'', chars [0x91CD, 0x547D, 0x540D, 0x901A, 0x9053]),
      (''hwTree.deleteModule'', chars [0x5220, 0x9664, 0x6A21, 0x5757]),
      (''hwTree.addAI'', chars [0x6DFB, 0x52A0] @ '' AI '' @ chars [0x6A21, 0x5757]),
      (''hwTree.addAO'', chars [0x6DFB, 0x52A0] @ '' AO '' @ chars [0x6A21, 0x5757]),
      (''hwTree.addDI'', chars [0x6DFB, 0x52A0] @ '' DI '' @ chars [0x6A21, 0x5757]),
      (''hwTree.addDO'', chars [0x6DFB, 0x52A0] @ '' DO '' @ chars [0x6A21, 0x5757]),
      (''hwTree.hardwareChannels'', chars [0x786C, 0x4EF6, 0x901A, 0x9053]),
      (''hwTree.modules'', chars [0x4E2A, 0x6A21, 0x5757]),
      (''hwTree.channelsWithPoints'', chars [0x901A, 0x9053, 0x6709, 0x70B9, 0x4F4D]),
      (''hwTree.points'', chars [0x70B9, 0x4F4D]),
      (''hwTree.disableChannel'', chars [0x505C, 0x7528, 0x8BE5, 0x901A, 0x9053, 0x70B9, 0x4F4D]),
      (''hwTree.enableChannel'', chars [0x542F, 0x7528, 0x8BE5, 0x901A, 0x9053, 0x70B9, 0x4F4D]),
      (''hwTree.noPointYet'', chars [0x8BE5, 0x901A, 0x9053, 0x8FD8, 0x6CA1, 0x6709, 0x70B9, 0x4F4D, 0xFF0C, 0x53F3, 0x952E, 0x521B, 0x5EFA]),
      (''hwTree.channelName'', chars [0x901A, 0x9053, 0x540D, 0x79F0]),
      (''hwTree.editName'', chars [0x53CC, 0x51FB, 0x7F16, 0x8F91, 0x540D, 0x79F0]),
      (''hwTree.addName'', chars [0x53CC, 0x51FB, 0x6DFB, 0x52A0, 0x540D, 0x79F0]),
      (''hwTree.unnamed'', chars [0x672A, 0x547D, 0x540D]),
      (''hwTree.noPoints'', chars [0x65E0, 0x70B9, 0x4F4D]),
      (''hwTree.notConfigured'', chars [0x5C1A, 0x672A, 0x914D, 0x7F6E, 0x786C, 0x4EF6, 0x6A21, 0x5757])]"

definition zh_station_bar :: texts where
  "zh_station_bar =
     [(''station.stationId'', chars [0x7AD9] @ '' ID''),
      (''station.stationName'', chars [0x7AD9, 0x540D, 0x79F0]),
      (''station.create'', chars [0x521B, 0x5EFA]),
      (''station.cancel'', chars [0x53D6, 0x6D88]),
      (''station.newStation'', chars [0x65B0, 0x5EFA, 0x7AD9]),
      (''station.addStation'', ''+ '' @ chars [0x65B0, 0x5EFA, 0x7AD9]),
      (''station.keepOne'', chars [0x81F3, 0x5C11, 0x4FDD, 0x7559, 0x4E00, 0x4E2A, 0x7AD9]),
      (''station.deleteThis'', chars [0x5220, 0x9664, 0x672C, 0x7AD9]),
      (''station.deleteStation'', chars [0x5220, 0x9664, 0x7AD9]),
      (''station.name'', chars [0x540D, 0x79F0]),
      (''station.deviceType'', chars [0x8BBE, 0x5907, 0x7C7B, 0x578B]),
      (''station.cycle'', chars [0x8FD0, 0x884C, 0x5468, 0x671F]),
      (''station.interface'', chars [0x901A, 0x4FE1, 0x63A5, 0x53E3]),
      (''station.address'', chars [0x901A, 0x4FE1, 0x5730, 0x5740]),
      (''station.saveParams'', chars [0x4FDD, 0x5B58, 0x7AD9, 0x53C2, 0x6570]),
      (''station.modules'', chars [0x6A21, 0x5757]),
      (''station.points'', chars [0x70B9, 0x4F4D])]"

definition zh_binding_properties :: texts where
  "zh_binding_properties =
     [(''binding.title'', chars [0x70B9, 0x4F4D, 0x5C5E, 0x6027]),
      (''binding.point'', chars [0x70B9, 0x4F4D]),
      (''binding.signalType'', chars [0x4FE1, 0x53F7, 0x7C7B, 0x578B]),
      (''binding.scale'', chars [0x91CF, 0x7A0B, 0x7CFB, 0x6570]),
      (''binding.bias'', chars [0x504F, 0x7F6E]),
      (''binding.safetyMin'', chars [0x5B89, 0x5168, 0x4E0B, 0x9650]),
      (''binding.unlimited'', chars [0x4E0D, 0x9650]),
      (''binding.safetyMax'', chars [0x5B89, 0x5168, 0x4E0A, 0x9650]),
      (''binding.pointName'', chars [0x70B9, 0x540D, 0x79F0]),
      (''binding.unit'', chars [0x5DE5, 0x7A0B, 0x5355, 0x4F4D]),
      (''binding.faultHold'', chars [0x5F02, 0x5E38, 0x540E, 0x4FDD, 0x6301]),
      (''binding.preset'', chars [0x9884, 0x8BBE, 0x503C]),
      (''binding.hasQuality'', chars [0x901A, 0x9053, 0x542B, 0x8D28, 0x91CF, 0x4F4D]),
      (''binding.saveConfig'', chars [0x4FDD, 0x5B58, 0x70B9, 0x4F4D, 0x914D, 0x7F6E]),
      (''binding.selectPoint'', chars [0x9009, 0x62E9, 0x4E00, 0x4E2A, 0x70B9, 0x4F4D, 0x4EE5, 0x7F16, 0x8F91, 0x70B9, 0x914D, 0x7F6E]),
      (''binding.validation'', chars [0x6821, 0x9A8C, 0x7ED3, 0x679C]),
      (''binding.allPassed'', chars [0x5168, 0x90E8, 0x901A, 0x8FC7, 0xFF0C, 0x53EF, 0x751F, 0x6210] @ '' IOMAP '' @ chars [0x6BB5])]"

definition zh_external_var_table :: texts where
  "zh_external_var_table =
     [(''extVar.enabled'', chars [0x542F, 0x7528]),
      (''extVar.pointName'', chars [0x70B9, 0x4F4D, 0x540D]),
      (''extVar.module'', chars [0x6A21, 0x5757]),
      (''extVar.channel'', chars [0x901A, 0x9053]),
      (''extVar.directionType'', chars [0x65B9, 0x5411] @ '' / '' @ chars [0x7C7B, 0x578B]),
      (''extVar.pointNameCol'', chars [0x70B9, 0x540D, 0x79F0]),
      (''extVar.unit'', chars [0x5355, 0x4F4D]),
      (''extVar.scaleBias'', chars [0x91CF, 0x7A0B] @ '' / '' @ chars [0x504F, 0x7F6E]),
      (''extVar.quality'', chars [0x8D28, 0x91CF, 0x4F4D]),
      (''extVar.range'', chars [0x5E45, 0x503C, 0x9650, 0x5236]),
      (''extVar.faultHold'', chars [0x5F02, 0x5E38, 0x540E, 0x4FDD, 0x6301]),
      (''extVar.actions'', chars [0x64CD, 0x4F5C]),
      (''extVar.noPoints'', chars [0x672C, 0x7AD9, 0x8FD8, 0x6CA1, 0x6709, 0x70B9, 0x4F4D] @ '' '' @ chars [0x2014, 0x2014] @ '' '' @ chars [0x5728, 0x4E0A, 0x65B9, 0x6216, 0x5DE6, 0x4FA7, 0x6811, 0x6DFB, 0x52A0, 0x6A21, 0x5757, 0xFF0C, 0x6BCF, 0x4E2A, 0x901A, 0x9053, 0x4F1A, 0x81EA, 0x52A8, 0x6210, 0x4E3A, 0x4E00, 0x4E2A, 0x70B9, 0x4F4D]),
      (''extVar.disablePoint'', chars [0x505C, 0x7528, 0x8BE5, 0x70B9, 0x4F4D]),
      (''extVar.enablePoint'', chars [0x542F, 0x7528, 0x8BE5, 0x70B9, 0x4F4D]),
      (''extVar.emptyChannel'', chars [0x7A7A, 0x901A, 0x9053]),
      (''extVar.input'', chars [0x8F93, 0x5165]),
      (''extVar.output'', chars [0x8F93, 0x51FA]),
      (''extVar.edit'', chars [0x53CC, 0x51FB, 0x7F16, 0x8F91]),
      (''extVar.yes'', chars [0x662F]),
      (''extVar.no'', chars [0x5426]),
      (''extVar.notConfigured'', chars [0x672A, 0x914D, 0x7F6E]),
      (''extVar.disabled'', chars [0x5DF2, 0x505C, 0x7528]),
      (''extVar.deleteHint'', chars [0x5220, 0x9664, 0x8BE5, 0x70B9, 0x4F4D, 0xFF0C, 0x901A, 0x9053, 0x968F, 0x4E4B, 0x7A7A, 0x51FA])]"

definition zh_point_board :: texts where
  "zh_point_board =
     [(''pointBoard.noChannel'', chars [0x65E0, 0x901A, 0x9053, 0x6307, 0x5411]),
      (''pointBoard.noChannelDesc'', chars [0x70B9, 0x4F4D, 0x5B58, 0x5728, 0xFF0C, 0x4F46, 0x6CA1, 0x6709, 0x6A21, 0x5757, 0x901A, 0x9053, 0x7ED1, 0x5B9A, 0x5B83]),
      (''pointBoard.point'', chars [0x70B9]),
      (''pointBoard.addToSelection'', chars [0x628A]),
      (''pointBoard.addToSelection2'', chars [0x52A0, 0x5165, 0x9009, 0x62E9]),
      (''pointBoard.applyToSelected'', chars [0x4F5C, 0x7528, 0x4E8E, 0x5DF2, 0x9009]),
      (''pointBoard.applyToSelected2'', chars [0x70B9]),
      (''pointBoard.batchEnable'', chars [0x6279, 0x91CF, 0x542F, 0x7528]),
      (''pointBoard.batchDisable'', chars [0x6279, 0x91CF, 0x505C, 0x7528]),
      (''pointBoard.batchRename'', chars [0x6279, 0x91CF, 0x6539, 0x70B9, 0x540D, 0x79F0, 0x2026]),
      (''pointBoard.prefix'', chars [0x524D, 0x7F00]),
      (''pointBoard.startIndex'', chars [0x8D77, 0x59CB, 0x5E8F, 0x53F7]),
      (''pointBoard.batchUnit'', chars [0x6279, 0x91CF, 0x8BBE, 0x5DE5, 0x7A0B, 0x5355, 0x4F4D, 0x2026]),
      (''pointBoard.batchRange'', chars [0x6279, 0x91CF, 0x8BBE, 0x5E45, 0x503C, 0x9650, 0x5236, 0x2026]),
      (''pointBoard.safetyMin'', chars [0x5B89, 0x5168, 0x4E0B, 0x9650, 0xFF08, 0x6574, 0x6570, 0xFF0C, 0x7559, 0x7A7A, 0x4E3A, 0x4E0D, 0x9650, 0xFF09]),
      (''pointBoard.safetyMax'', chars [0x5B89, 0x5168, 0x4E0A, 0x9650, 0xFF08, 0x6574, 0x6570, 0xFF0C, 0x7559, 0x7A7A, 0x4E3A, 0x4E0D, 0x9650, 0xFF09]),
      (''pointBoard.batchSignalType'', chars [0x6279, 0x91CF, 0x8BBE, 0x4FE1, 0x53F7, 0x7C7B, 0x578B, 0x2026]),
      (''pointBoard.batchFaultHold'', chars [0x6279, 0x91CF, 0x8BBE, 0x5F02, 0x5E38, 0x540E, 0x4FDD, 0x6301, 0x2026]),
      (''pointBoard.presetValue'', chars [0x9884, 0x8BBE, 0x503C, 0xFF08, 0x4EC5] @ [CHR 0x22] @ chars [0x9884, 0x8BBE, 0x503C] @ [CHR 0x22] @ chars [0x65F6, 0x7528, 0xFF09]),
      (''pointBoard.batchDelete'', chars [0x6279, 0x91CF, 0x5220, 0x9664]),
      (''pointBoard.deselect'', chars [0x53D6, 0x6D88, 0x9009, 0x62E9]),
      (''pointBoard.createPoint'', chars [0x521B, 0x5EFA, 0x70B9, 0x4F4D]),
      (''pointBoard.helpText'', chars [0x70B9, 0x6309] @ ''/'' @ chars [0x957F, 0x6309, 0x9009, 0x5361, 0x7247] @ '' '' @ chars [0xB7] @ '' Shift '' @ chars [0x8FDE, 0x9009] @ '' '' @ chars [0xB7] @ '' Ctrl+A '' @ chars [0x5168, 0x9009] @ '' '' @ chars [0xB7] @ '' '' @ chars [0x53F3, 0x952E, 0x6279, 0x91CF, 0x4FEE, 0x6539] @ '' '' @ chars [0xB7] @ '' Esc '' @ chars [0x53D6, 0x6D88]),
      (''pointBoard.helpText2'', chars [0x53F3, 0x952E, 0x5361, 0x7247, 0x53EF, 0x505C, 0x7528] @ ''/'' @ chars [0x6539, 0x540D] @ ''/'' @ chars [0x5220, 0x9664]),
      (''pointBoard.exitMulti'', chars [0x9000, 0x51FA, 0x591A, 0x9009]),
      (''pointBoard.multiSelect'', chars [0x591A, 0x9009]),
      (''pointBoard.notConfigured'', chars [0x5C1A, 0x672A, 0x914D, 0x7F6E, 0x786C, 0x4EF6, 0x6A21, 0x5757] @ '' '' @ chars [0x2014, 0x2014] @ '' '' @ chars [0x5728, 0x4E0A, 0x65B9, 0x6309] @ '' AI/AO/DI/DO '' @ chars [0x6DFB, 0x52A0, 0xFF0C, 0x6BCF, 0x4E2A, 0x901A, 0x9053, 0x4F1A, 0x81EA, 0x52A8, 0x6210, 0x4E3A, 0x4E00, 0x4E2A, 0x70B9, 0x4F4D]),
      (''pointBoard.selectAll'', chars [0x5168, 0x9009, 0x672C, 0x6A21, 0x5757]),
      (''pointBoard.selectAllHint'', chars [0x9009, 0x4E2D, 0x672C, 0x6A21, 0x5757, 0x5168, 0x90E8, 0x70B9, 0x4F4D]),
      (''pointBoard.idle'', chars [0x7A7A, 0x95F2, 0xFF1A, 0x70B9, 0x51FB, 0x521B, 0x5EFA, 0x70B9, 0x4F4D]),
      (''pointBoard.idleLabel'', chars [0x7A7A, 0x95F2]),
      (''pointBoard.createPointLabel'', ''+ '' @ chars [0x521B, 0x5EFA, 0x70B9, 0x4F4D]),
      (''pointBoard.clickDisable'', chars [0x70B9, 0x51FB, 0x505C, 0x7528, 0xFF08, 0x4FDD, 0x7559, 0x7ED1, 0x5B9A, 0xFF09]),
      (''pointBoard.clickEnable'', chars [0x70B9, 0x51FB, 0x542F, 0x7528]),
      (''pointBoard.editName'', chars [0x53CC, 0x51FB, 0x6539, 0x70B9, 0x540D, 0x79F0]),
      (''pointBoard.fillName'', chars [0x53CC, 0x51FB, 0x586B, 0x70B9, 0x540D, 0x79F0]),
      (''pointBoard.editUnit'', chars [0x53CC, 0x51FB, 0x6539, 0x5DE5, 0x7A0B, 0x5355, 0x4F4D]),
      (''pointBoard.unitPlaceholder'', ''+'' @ chars [0x5355, 0x4F4D]),
      (''pointBoard.noScale'', chars [0x672A, 0x5B9A, 0x91CF, 0x7A0B]),
      (''pointBoard.qualityBadge'', chars [0x8D28, 0x91CF, 0x4F4D]),
      (''pointBoard.faultBadge'', chars [0x5F02, 0x5E38]),
      (''pointBoard.selected'', chars [0x5DF2, 0x9009]),
      (''pointBoard.deselectAll'', chars [0x5168, 0x4E0D, 0x9009]),
      (''pointBoard.selectAllBtn'', chars [0x5168, 0x9009]),
      (''pointBoard.invert'', chars [0x53CD, 0x9009])]"

definition zh_library_components :: texts where
  "zh_library_components =
     [(''libraryManager.newLibrary'', chars [0x65B0, 0x5EFA, 0x5E93]),
      (''libraryManager.exportLibrary'', chars [0x5BFC, 0x51FA, 0x5E93]),
      (''libraryManager.libraries'', chars [0x4E2A, 0x5E93]),
      (''libraryManager.noLibraries'', chars [0x6682, 0x65E0, 0x7B97, 0x6CD5, 0x5E93]),
      (''libraryManager.noLibrariesHint'', chars [0x70B9, 0x51FB] @ [CHR 0x22] @ chars [0x65B0, 0x5EFA, 0x5E93] @ [CHR 0x22] @ chars [0x521B, 0x5EFA, 0x7B97, 0x6CD5, 0x5E93]),
      (''libraryManager.unshare'', chars [0x53D6, 0x6D88, 0x5171, 0x4EAB]),
      (''libraryManager.share'', chars [0x8BBE, 0x4E3A, 0x5171, 0x4EAB]),
      (''libraryManager.confirmDelete'', chars [0x786E, 0x5B9A, 0x8981, 0x5220, 0x9664, 0x5E93]),
      (''libraryManager.confirmDelete2'', chars [0x5417, 0xFF1F]),
      (''libraryManager.shared'', chars [0x5171, 0x4EAB, 0x5E93]),
      (''libraryManager.newLibraryTitle'', chars [0x65B0, 0x5EFA, 0x7B97, 0x6CD5, 0x5E93]),
      (''libraryManager.libraryName'', chars [0x5E93, 0x540D, 0x79F0]),
      (''libraryManager.libraryNamePlaceholder'', chars [0x4F8B, 0x5982, 0xFF1A, 0x6211, 0x7684, 0x7B97, 0x6CD5, 0x5E93]),
      (''libraryManager.libraryDesc'', chars [0x63CF, 0x8FF0]),
      (''libraryManager.libraryDescPlaceholder'', chars [0x53EF, 0x9009, 0x7684, 0x5E93, 0x63CF, 0x8FF0]),
      (''libraryManager.blocks'', chars [0x4E2A, 0x7B97, 0x6CD5, 0x5757]),
      (''libraryManager.unspecified'', chars [0x672A, 0x6307, 0x5B9A]),
      (''libraryManager.exportFailed'', chars [0x5BFC, 0x51FA, 0x5931, 0x8D25] @ '':''),
      (''libraryManager.create'', chars [0x521B, 0x5EFA]),
      (''libraryManager.created'', chars [0x5DF2, 0x521B, 0x5EFA, 0x5E93]),
      (''libraryManager.createFailed'', chars [0x521B, 0x5EFA, 0x5E93, 0x5931, 0x8D25]),
      (''libraryManager.deleted'', chars [0x5DF2, 0x5220, 0x9664, 0x5E93]),
      (''libraryManager.deleteFailed'', chars [0x5220, 0x9664, 0x5E93, 0x5931, 0x8D25]),
      (''libraryManager.delete'', chars [0x5220, 0x9664]),
      (''libraryManager.confirmClear'', chars [0x786E, 0x5B9A, 0x8981, 0x6E05, 0x7A7A, 0x6B64, 0x5E93, 0x4E2D, 0x7684, 0x6240, 0x6709, 0x7B97, 0x6CD5, 0x5757, 0x5417, 0xFF1F]),
      (''libraryManager.cleared'', chars [0x5DF2, 0x6E05, 0x7A7A, 0x5E93]),
      (''libraryManager.clearFailed'', chars [0x6E05, 0x7A7A, 0x5E93, 0x5931, 0x8D25]),
      (''libraryManager.clear'', chars [0x6E05, 0x7A7A]),
      (''libraryManager.exported'', chars [0x5DF2, 0x5BFC, 0x51FA, 0x5E93]),
      (''libraryManager.exportZip'', chars [0x5BFC, 0x51FA, 0x4E3A] @ '' ZIP''),
      (''libraryManager.imported'', chars [0x5DF2, 0x5BFC, 0x5165, 0x5E93]),
      (''libraryManager.importFailed'', chars [0x5BFC, 0x5165, 0x5E93, 0x5931, 0x8D25]),
      (''libraryManager.importZip'', chars [0x4ECE] @ '' ZIP '' @ chars [0x5BFC, 0x5165]),
      (''libraryManager.name'', chars [0x540D, 0x79F0]),
      (''libraryManager.description'', chars [0x63CF, 0x8FF0]),
      (''libraryManager.cancel'', chars [0x53D6, 0x6D88]),
      (''blockLibrary.math'', chars [0x6570, 0x5B66, 0x8FD0, 0x7B97]),
      (''blockLibrary.control'', chars [0x63A7, 0x5236, 0x7B97, 0x6CD5]),
      (''blockLibrary.logic'', chars [0x903B, 0x8F91, 0x8FD0, 0x7B97]),
      (''blockLibrary.filter'', chars [0x6EE4, 0x6CE2, 0x7B97, 0x6CD5]),
      (''blockLibrary.convert'', chars [0x8F6C, 0x6362, 0x7B97, 0x6CD5]),
      (''blockLibrary.custom'', chars [0x81EA, 0x5B9A, 0x4E49]),
      (''blockLibrary.importFailed'', chars [0x5BFC, 0x5165, 0x5931, 0x8D25] @ '': '' @ chars [0x65E0, 0x6548, 0x7684] @ '' JSON '' @ chars [0x683C, 0x5F0F]),
      (''blockLibrary.searchPlaceholder'', chars [0x641C, 0x7D22, 0x7B97, 0x6CD5, 0x5757] @ ''...''),
      (''blockLibrary.allCategories'', chars [0x6240, 0x6709, 0x5206, 0x7C7B]),
      (''blockLibrary.allTimeBased'', chars [0x65F6, 0x5E8F, 0xFF1A, 0x5168, 0x90E8]),
      (''blockLibrary.timeBased'', chars [0x65F6, 0x5E8F, 0x76F8, 0x5173]),
      (''blockLibrary.notTimeBased'', chars [0x65F6, 0x5E8F, 0x65E0, 0x5173]),
      (''blockLibrary.allSignalTypes'', chars [0x4FE1, 0x53F7, 0xFF1A, 0x5168, 0x90E8]),
      (''blockLibrary.analog'', chars [0x6A21, 0x62DF, 0x91CF]),
      (''blockLibrary.digital'', chars [0x5F00, 0x5173, 0x91CF]),
      (''blockLibrary.mixed'', chars [0x6DF7, 0x5408]),
      (''blockLibrary.create'', chars [0x65B0, 0x5EFA]),
      (''blockLibrary.import'', chars [0x5BFC, 0x5165]),
      (''blockLibrary.noBlocks'', chars [0x6682, 0x65E0, 0x7B97, 0x6CD5, 0x5757]),
      (''blockLibrary.noBlocksHint'', chars [0x70B9, 0x51FB] @ [CHR 0x22] @ chars [0x5BFC, 0x5165] @ [CHR 0x22] @ chars [0x6309, 0x94AE, 0x6DFB, 0x52A0, 0x7B97, 0x6CD5, 0x5757]),
      (''blockLibrary.export'', chars [0x5BFC, 0x51FA]),
      (''blockLibrary.edit'', chars [0x7F16, 0x8F91]),
      (''blockLibrary.confirmDelete'', chars [0x786E, 0x5B9A, 0x8981, 0x5220, 0x9664]),
      (''blockLibrary.confirmDelete2'', chars [0x5417, 0xFF1F]),
      (''blockLibrary.importTitle'', chars [0x5BFC, 0x5165, 0x7B97, 0x6CD5, 0x5757]),
      (''blockLibrary.importDesc'', chars [0x7C98, 0x8D34, 0x7B97, 0x6CD5, 0x5757] @ '' JSON '' @ chars [0x5B9A, 0x4E49, 0xFF0C, 0x6216, 0x4E0A, 0x4F20] @ '' .json '' @ chars [0x6587, 0x4EF6, 0x3002]),
      (''blockLibrary.inputs'', chars [0x8F93, 0x5165]),
      (''blockLibrary.outputs'', chars [0x8F93, 0x51FA])]"

definition zh_monitor_components :: texts where
  "zh_monitor_components =
     [(''watchTable.empty'', chars [0x76D1, 0x89C6, 0x8868, 0x4E3A, 0x7A7A]),
      (''watchTable.emptyHint'', chars [0x4ECE, 0x53D8, 0x91CF, 0x6D4F, 0x89C8, 0x5668, 0x4E2D, 0x6DFB, 0x52A0, 0x53D8, 0x91CF, 0x5230, 0x76D1, 0x89C6, 0x8868]),
      (''watchTable.refresh'', chars [0x5237, 0x65B0]),
      (''watchTable.confirmClear'', chars [0x786E, 0x5B9A, 0x8981, 0x6E05, 0x7A7A, 0x76D1, 0x89C6, 0x8868, 0x5417, 0xFF1F]),
      (''watchTable.clear'', chars [0x6E05, 0x7A7A]),
      (''watchTable.variables'', chars [0x4E2A, 0x53D8, 0x91CF]),
      (''watchTable.varName'', chars [0x53D8, 0x91CF, 0x540D]),
      (''watchTable.alias'', chars [0x522B, 0x540D]),
      (''watchTable.updateTime'', chars [0x66F4, 0x65B0, 0x65F6, 0x95F4]),
      (''watchTable.normal'', chars [0x6B63, 0x5E38]),
      (''watchTable.remove'', chars [0x79FB, 0x9664]),
      (''watchTable.currentValue'', chars [0x5F53, 0x524D, 0x503C]),
      (''watchTable.forcedValue'', chars [0x5F3A, 0x5236, 0x503C]),
      (''watchTable.type'', chars [0x7C7B, 0x578B]),
      (''watchTable.status'', chars [0x72B6, 0x6001]),
      (''watchTable.operations'', chars [0x64CD, 0x4F5C]),
      (''watchTable.forced'', chars [0x5DF2, 0x5F3A, 0x5236]),
      (''watchTable.abnormal'', chars [0x5F02, 0x5E38]),
      (''varInspector.searchPlaceholder'', chars [0x641C, 0x7D22, 0x53D8, 0x91CF, 0x540D] @ ''...''),
      (''varInspector.allTypes'', chars [0x6240, 0x6709, 0x7C7B, 0x578B]),
      (''varInspector.inputOutput'', chars [0x8F93, 0x5165, 0x8F93, 0x51FA]),
      (''varInspector.local'', chars [0x672C, 0x5730]),
      (''varInspector.global'', chars [0x5168, 0x5C40]),
      (''varInspector.addToWatch'', chars [0x6DFB, 0x52A0, 0x5230, 0x76D1, 0x89C6, 0x8868]),
      (''varInspector.releaseForce'', chars [0x91CA, 0x653E, 0x5F3A, 0x5236]),
      (''varInspector.forceValue'', chars [0x5F3A, 0x5236, 0x53D8, 0x91CF, 0x503C]),
      (''varInspector.forceValueTitle'', chars [0x5F3A, 0x5236, 0x53D8, 0x91CF, 0x503C]),
      (''varInspector.force'', chars [0x5F3A, 0x5236]),
      (''varInspector.varName'', chars [0x53D8, 0x91CF, 0x540D]),
      (''varInspector.address'', chars [0x5730, 0x5740]),
      (''varInspector.currentValue'', chars [0x5F53, 0x524D, 0x503C]),
      (''varInspector.dataType'', chars [0x6570, 0x636E, 0x7C7B, 0x578B]),
      (''varInspector.type'', chars [0x7C7B, 0x578B]),
      (''varInspector.status'', chars [0x72B6, 0x6001]),
      (''varInspector.operations'', chars [0x64CD, 0x4F5C]),
      (''varInspector.abnormal'', chars [0x5F02, 0x5E38]),
      (''forceControl.title'', chars [0x53D8, 0x91CF, 0x5F3A, 0x5236, 0x63A7, 0x5236]),
      (''forceControl.desc'', chars [0x5F3A, 0x5236, 0x53D8, 0x91CF, 0x5230, 0x6307, 0x5B9A, 0x503C, 0x6216, 0x91CA, 0x653E, 0x5F3A, 0x5236, 0x3002, 0x652F, 0x6301, 0x5355, 0x4E2A, 0x548C, 0x6279, 0x91CF, 0x64CD, 0x4F5C, 0x3002]),
      (''forceControl.selectAll'', chars [0x5168, 0x9009]),
      (''forceControl.deselectAll'', chars [0x53D6, 0x6D88, 0x5168, 0x9009]),
      (''forceControl.batchForce'', chars [0x6279, 0x91CF, 0x5F3A, 0x5236]),
      (''forceControl.batchRelease'', chars [0x6279, 0x91CF, 0x91CA, 0x653E]),
      (''forceControl.availableVars'', chars [0x53EF, 0x7528, 0x53D8, 0x91CF]),
      (''forceControl.forcedVars'', chars [0x5DF2, 0x5F3A, 0x5236, 0x53D8, 0x91CF]),
      (''forceControl.release'', chars [0x91CA, 0x653E]),
      (''forceControl.noForced'', chars [0x6682, 0x65E0, 0x5DF2, 0x5F3A, 0x5236, 0x7684, 0x53D8, 0x91CF]),
      (''forceControl.batchForceTitle'', chars [0x6279, 0x91CF, 0x5F3A, 0x5236, 0x53D8, 0x91CF]),
      (''forceControl.batchForceDesc'', chars [0x5C06, 0x4E3A, 0x4EE5, 0x4E0B]),
      (''forceControl.batchForceDesc2'', chars [0x4E2A, 0x53D8, 0x91CF, 0x8BBE, 0x7F6E, 0x5F3A, 0x5236, 0x503C, 0xFF1A]),
      (''forceControl.confirmForce'', chars [0x786E, 0x8BA4, 0x5F3A, 0x5236]),
      (''forceControl.varName'', chars [0x53D8, 0x91CF, 0x540D]),
      (''forceControl.currentValue'', chars [0x5F53, 0x524D, 0x503C]),
      (''forceControl.type'', chars [0x7C7B, 0x578B]),
      (''forceControl.forcedValue'', chars [0x5F3A, 0x5236, 0x503C]),
      (''forceControl.operations'', chars [0x64CD, 0x4F5C]),
      (''forceControl.forceValuePlaceholder'', chars [0x5F3A, 0x5236, 0x503C]),
      (''paramEditor.title'', chars [0x53C2, 0x6570, 0x5728, 0x7EBF, 0x4FEE, 0x6539]),
      (''paramEditor.desc'', chars [0x4FEE, 0x6539, 0x529F, 0x80FD, 0x5757, 0x53C2, 0x6570, 0x503C, 0xFF0C, 0x652F, 0x6301, 0x5355, 0x4E2A, 0x7F16, 0x8F91, 0x548C, 0x6279, 0x91CF, 0x4FEE, 0x6539, 0x3002, 0x4FEE, 0x6539, 0x5C06, 0x5728, 0x4E0B, 0x4E00, 0x4E2A, 0x5468, 0x671F, 0x751F, 0x6548, 0x3002]),
      (''paramEditor.batchModify'', chars [0x6279, 0x91CF, 0x4FEE, 0x6539]),
      (''paramEditor.functionBlocks'', chars [0x4E2A, 0x529F, 0x80FD, 0x5757]),
      (''paramEditor.paramCount'', chars [0x4E2A, 0x53C2, 0x6570]),
      (''paramEditor.functionBlock'', chars [0x529F, 0x80FD, 0x5757] @ '':''),
      (''paramEditor.paramName'', chars [0x53C2, 0x6570, 0x540D]),
      (''paramEditor.newValue'', chars [0x4FEE, 0x6539, 0x503C]),
      (''paramEditor.save'', chars [0x4FDD, 0x5B58]),
      (''paramEditor.edit'', chars [0x7F16, 0x8F91]),
      (''paramEditor.noParams'', chars [0x6682, 0x65E0, 0x53EF, 0x4FEE, 0x6539, 0x7684, 0x53C2, 0x6570]),
      (''paramEditor.noParamsHint'', chars [0x53C2, 0x6570, 0x5C06, 0x5728, 0x52A0, 0x8F7D, 0x7A0B, 0x5E8F, 0x540E, 0x663E, 0x793A]),
      (''paramEditor.batchModifyTitle'', chars [0x6279, 0x91CF, 0x4FEE, 0x6539, 0x53C2, 0x6570]),
      (''paramEditor.batchModifyDesc'', chars [0x5C06, 0x4FEE, 0x6539, 0x4EE5, 0x4E0B]),
      (''paramEditor.batchModifyDesc2'', chars [0x4E2A, 0x53C2, 0x6570, 0x7684, 0x503C, 0xFF1A]),
      (''paramEditor.newValuePlaceholder'', chars [0x65B0, 0x503C]),
      (''paramEditor.confirmModify'', chars [0x786E, 0x8BA4, 0x4FEE, 0x6539]),
      (''paramEditor.dataType'', chars [0x6570, 0x636E, 0x7C7B, 0x578B]),
      (''paramEditor.currentValue'', chars [0x5F53, 0x524D, 0x503C]),
      (''paramEditor.operations'', chars [0x64CD, 0x4F5C])]"

definition zh_context_menu :: texts where
  "zh_context_menu =
     [(''contextMenu.apply'', chars [0x5E94, 0x7528]),
      (''contextMenu.collapse'', chars [0x6536, 0x8D77])]"

definition zh_error_banner :: texts where
  "zh_error_banner =
     [(''errorBanner.error'', chars [0x9519, 0x8BEF]),
      (''errorBanner.retry'', chars [0x91CD, 0x8BD5])]"

definition zh_common :: texts where
  "zh_common =
     [(''common.cancel'', chars [0x53D6, 0x6D88]),
      (''common.confirm'', chars [0x786E, 0x8BA4]),
      (''common.save'', chars [0x4FDD, 0x5B58]),
      (''common.load'', chars [0x8F7D, 0x5165]),
      (''common.delete'', chars [0x5220, 0x9664]),
      (''common.add'', chars [0x6DFB, 0x52A0]),
      (''common.edit'', chars [0x7F16, 0x8F91]),
      (''common.search'', chars [0x641C, 0x7D22]),
      (''common.close'', chars [0x5173, 0x95ED]),
      (''common.reset'', chars [0x91CD, 0x7F6E]),
      (''common.next'', chars [0x4E0B, 0x4E00, 0x6B65]),
      (''common.prev'', chars [0x4E0A, 0x4E00, 0x6B65]),
      (''common.yes'', chars [0x662F]),
      (''common.no'', chars [0x5426]),
      (''common.ok'', chars [0x786E, 0x5B9A]),
      (''common.error'', chars [0x9519, 0x8BEF]),
      (''common.warning'', chars [0x8B66, 0x544A]),
      (''common.info'', chars [0x63D0, 0x793A]),
      (''common.success'', chars [0x6210, 0x529F]),
      (''common.noProject'', chars [0x5C1A, 0x672A, 0x6253, 0x5F00, 0x5DE5, 0x7A0B]),
      (''common.noProjectDesc'', chars [0x5148, 0x5728, 0x9996, 0x9875, 0x65B0, 0x5EFA, 0x6216, 0x6253, 0x5F00, 0x4E00, 0x4E2A, 0x5DE5, 0x7A0B, 0x6587, 0x4EF6, 0x5939]),
      (''common.saved'', chars [0x5DF2, 0x5199, 0x5165, 0x5DE5, 0x7A0B]),
      (''common.saveFailed'', chars [0x4FDD, 0x5B58, 0x5931, 0x8D25]),
      (''common.closeFailed'', chars [0x5173, 0x95ED, 0x5931, 0x8D25]),
      (''common.projectClosed'', chars [0x5DE5, 0x7A0B, 0x5DF2, 0x5173, 0x95ED]),
      (''common.noProjectToClose'', chars [0x6CA1, 0x6709, 0x53EF, 0x5173, 0x95ED, 0x7684, 0x5DE5, 0x7A0B]),
      (''common.noProjectProps'', chars [0x6CA1, 0x6709, 0x53EF, 0x67E5, 0x770B, 0x5C5E, 0x6027, 0x7684, 0x5DE5, 0x7A0B]),
      (''common.projectProps'', chars [0x5DE5, 0x7A0B, 0x5C5E, 0x6027]),
      (''common.name'', chars [0x540D, 0x79F0]),
      (''common.path'', chars [0x8DEF, 0x5F84]),
      (''common.safetyLevel'', chars [0x5B89, 0x5168, 0x7B49, 0x7EA7]),
      (''common.type'', chars [0x7C7B, 0x578B]),
      (''common.status'', chars [0x72B6, 0x6001]),
      (''common.operations'', chars [0x64CD, 0x4F5C]),
      (''common.create'', chars [0x521B, 0x5EFA]),
      (''common.input'', chars [0x8F93, 0x5165]),
      (''common.output'', chars [0x8F93, 0x51FA]),
      (''common.abnormal'', chars [0x5F02, 0x5E38]),
      (''common.forced'', chars [0x5DF2, 0x5F3A, 0x5236])]"

definition zh_texts :: texts where
  "zh_texts =
     concat [zh_title_bar, zh_menu_bar, zh_activity_bar, zh_status_bar, zh_workflow_progress,
       zh_require_project_placeholder, zh_home_page, zh_library_page, zh_block_editor, zh_device_page,
       zh_download_page, zh_monitor_page, zh_waveform_page, zh_graph_editor_page, zh_sheet,
       zh_page_tabs, zh_inspector, zh_checker_panel, zh_sim_panel, zh_stimulus_panel,
       zh_analysis_panel, zh_hardware_tree, zh_station_bar, zh_binding_properties, zh_external_var_table,
       zh_point_board, zh_library_components, zh_monitor_components, zh_context_menu, zh_error_banner,
       zh_common]"

end
