(* ===== verification/TextsEn.thy ===== *)
theory TextsEn
  imports TextsZh
begin

text \<open>
  The English texts of the front end (\<open>lib/i18n/translations.ts\<close>, lines 968 to 1931), in the same groups as the
  Chinese ones.
\<close>

definition en_title_bar :: texts where
  "en_title_bar =
     [(''title.unnamed'', ''No project opened''),
      (''title.theme.dark'', ''Switch to light theme''),
      (''title.theme.light'', ''Switch to dark theme''),
      (''title.lang.zh'', ''Switch to English''),
      (''title.lang.en'', ''Switch to Chinese'')]"

definition en_menu_bar :: texts where
  "en_menu_bar =
     [(''menu.file'', ''File''),
      (''menu.file.new'', ''New Project''),
      (''menu.file.open'', ''Open Project''),
      (''menu.file.save'', ''Save''),
      (''menu.file.saveAs'', ''Save As''),
      (''menu.file.properties'', ''Project Properties''),
      (''menu.file.close'', ''Close Project''),
      (''menu.edit'', ''Edit''),
      (''menu.edit.undo'', ''Undo''),
      (''menu.edit.redo'', ''Redo''),
      (''menu.edit.cut'', ''Cut''),
      (''menu.edit.copy'', ''Copy''),
      (''menu.edit.paste'', ''Paste''),
      (''menu.notImplemented'', ''Not implemented yet'')]"

definition en_activity_bar :: texts where
  "en_activity_bar =
     [(''nav.home'', ''Home''),
      (''nav.device'', ''Device''),
      (''nav.graph'', ''Graph''),
      (''nav.simulation'', ''Simulation''),
      (''nav.download'', ''Download''),
      (''nav.library'', ''Library''),
      (''nav.monitor'', ''Monitor''),
      (''nav.settings'', ''Settings''),
      (''nav.requireProject'', ''Please create or open a project first'')]"

definition en_status_bar :: texts where
  "en_status_bar =
     [(''status.ready'', ''Ready''),
      (''status.encoding'', ''UTF-8''),
      (''status.language'', ''IEC 61131-3''),
      (''status.version'', ''VeriIDE v0.1.0'')]"

definition en_workflow_progress :: texts where
  "en_workflow_progress =
     [(''workflow.device'', ''Device Config''),
      (''workflow.graph'', ''Graph Logic''),
      (''workflow.sim'', ''Simulation''),
      (''workflow.download'', ''Download''),
      (''workflow.locked'', ''Please complete the previous stage first''),
      (''workflow.stageGate'', ''Stage Gate''),
      (''workflow.stageComplete'', ''Stage Complete''),
      (''workflow.complete'', ''Complete''),
      (''workflow.progress'', ''Workflow'')]"

definition en_require_project_placeholder :: texts where
  "en_require_project_placeholder =
     [(''requireProject.title'', ''No Project Opened''),
      (''requireProject.desc'', ''Please create or open a project before configuring devices, editing graphs, or running simulations.''),
      (''requireProject.goHome'', ''Go to Home'')]"

definition en_home_page :: texts where
  "en_home_page =
     [(''home.title'', ''VeriIDE Engineering Station''),
      (''home.desc'', ''A project is a folder on disk: devices, pages, variables and blocks are all stored as text''),
      (''home.continue'', ''Continue''),
      (''home.backendNotReady'', ''Backend not ready''),
      (''home.newProject'', ''New Project''),
      (''home.newProjectDesc'', ''Create project folder and initialize Git''),
      (''home.openProject'', ''Open Project''),
      (''home.openProjectDesc'', ''Select existing project folder, load devices, pages and variables''),
      (''home.newBlock'', ''New Block''),
      (''home.newBlockDesc'', ''Write a FUNCTION_BLOCK to the algorithm library''),
      (''home.recentProjects'', ''Recent Projects''),
      (''home.noRecentProjects'', ''No recently opened projects''),
      (''home.recentBlocks'', ''Recent Blocks''),
      (''home.noRecentBlocks'', ''No blocks created or edited yet''),
      (''home.pathNotFound'', ''Path not found''),
      (''home.stations'', ''Stations''),
      (''home.pages'', ''Pages''),
      (''home.blocks'', ''Blocks''),
      (''home.removeFromRecent'', ''Remove from recent list (does not delete files)''),
      (''home.remove'', ''Remove''),
      (''home.userLibrary'', ''User Library''),
      (''home.projectBlocks'', ''Project Blocks''),
      (''home.close'', ''Close''),
      (''home.nameValidation'', ''Project name must use letters, digits and underscores, and cannot start with a digit''),
      (''home.projectName'', ''Project Name''),
      (''home.projectLocation'', ''Project Location''),
      (''home.selectLocation'', ''Select project storage location''),
      (''home.browse'', ''Browse'' @ chars [0x2026]),
      (''home.browseHint'', ''Desktop version can use directory picker''),
      (''home.safetyLevel'', ''Safety Level''),
      (''home.willCreate'', ''Will create''),
      (''home.willCreateUnder'', ''under''),
      (''home.projectStructure'', ''project.yaml + logic/ iomap/ device/ blocks/ sim/ build/, and initialize Git repository.''),
      (''home.cancel'', ''Cancel''),
      (''home.creating'', ''Creating'' @ chars [0x2026]),
      (''home.createAndOpen'', ''Create and Open''),
      (''home.projectFolder'', ''Project Folder''),
      (''home.selectFolder'', ''Select project folder''),
      (''home.folderHint'', ''Folder must contain project.yaml; opening will load device/, iomap/, logic/ and blocks/.''),
      (''home.opening'', ''Opening'' @ chars [0x2026]),
      (''home.open'', ''Open''),
      (''home.currentProjectBlocks'', ''Current project blocks/:''),
      (''home.globalLibrary'', ''Global user library ~/.veride/library''),
      (''home.blockNameRequired'', ''Please enter block display name''),
      (''home.typeNameValidation'', ''Type name must be a valid ST identifier: starts with letter or underscore, contains only letters, digits, underscores''),
      (''home.stTypeMismatch'', ''ST declares''),
      (''home.stTypeMismatch2'', ''which doesn'' @ [CHR 0x27] @ ''t match type name''),
      (''home.stTypeMismatch3'', '': filename is taken from ST declaration''),
      (''home.displayName'', ''Display Name''),
      (''home.displayNamePlaceholder'', ''TwoSpeedComparator''),
      (''home.typeName'', ''Type Name (ST POU)''),
      (''home.category'', ''Category''),
      (''home.stImplementation'', ''ST Implementation''),
      (''home.storageLocation'', ''Storage location:''),
      (''home.twoTextFiles'', ''Two text files.''),
      (''home.saving'', ''Saving'' @ chars [0x2026]),
      (''home.saveBlock'', ''Save Block'')]"

definition en_library_page :: texts where
  "en_library_page =
     [(''library.title'', ''Algorithm Blocks & Libraries''),
      (''library.blockCount'', ''blocks''),
      (''library.tabs.blocks'', ''Block Library''),
      (''library.tabs.manager'', ''Library Manager''),
      (''library.blockDeleted'', ''Block deleted''),
      (''library.deleteFailed'', ''Delete failed''),
      (''library.deleteFailedMsg'', ''Cannot delete block''),
      (''library.blockDetails'', ''Block Details''),
      (''library.name'', ''Name''),
      (''library.category'', ''Category''),
      (''library.version'', ''Version''),
      (''library.description'', ''Description''),
      (''library.author'', ''Author''),
      (''library.inputs'', ''Inputs''),
      (''library.outputs'', ''Outputs''),
      (''library.parameters'', ''Parameters''),
      (''library.tags'', ''Tags''),
      (''library.stTemplate'', ''ST Code Template'')]"

definition en_block_editor :: texts where
  "en_block_editor =
     [(''editor.title'', ''Block Editor''),
      (''editor.tabs.edit'', ''Edit''),
      (''editor.tabs.simulate'', ''Simulate''),
      (''editor.save'', ''Save''),
      (''editor.saving'', ''Saving'' @ chars [0x2026]),
      (''editor.saved'', ''Saved''),
      (''editor.saveFailed'', ''Save failed''),
      (''editor.cancel'', ''Cancel''),
      (''editor.close'', ''Close''),
      (''editor.closeConfirm'', ''Unsaved changes will be lost. Close?''),
      (''editor.metadata'', ''General''),
      (''editor.blockName'', ''Block Name''),
      (''editor.blockKind'', ''Block Kind''),
      (''editor.blockKind.fb'', ''Function Block (FB)''),
      (''editor.blockKind.fun'', ''Function (FUN)''),
      (''editor.blockKind.fbHint'', ''FB for time-dependent logic with internal state''),
      (''editor.blockKind.funHint'', ''FUN for stateless pure function computation''),
      (''editor.timeBased'', ''Time-dependent''),
      (''editor.timeBasedHint'', ''Output depends on previous cycle state''),
      (''editor.category'', ''Category''),
      (''editor.version'', ''Version''),
      (''editor.description'', ''Description''),
      (''editor.author'', ''Author''),
      (''editor.tags'', ''Tags''),
      (''editor.tagsHint'', ''Comma separated''),
      (''editor.ports.title'', ''Port Definitions''),
      (''editor.ports.inputs'', ''Input Ports''),
      (''editor.ports.outputs'', ''Output Ports''),
      (''editor.ports.parameters'', ''Parameters''),
      (''editor.ports.addInput'', ''+ Input''),
      (''editor.ports.addOutput'', ''+ Output''),
      (''editor.ports.addParam'', ''+ Param''),
      (''editor.ports.name'', ''Name''),
      (''editor.ports.direction'', ''Direction''),
      (''editor.ports.dataType'', ''Data Type''),
      (''editor.ports.defaultValue'', ''Default''),
      (''editor.ports.description'', ''Description''),
      (''editor.ports.minValue'', ''Min''),
      (''editor.ports.maxValue'', ''Max''),
      (''editor.ports.remove'', ''Remove''),
      (''editor.ports.empty'', ''No ports defined''),
      (''editor.symbol.title'', ''Symbol Preview''),
      (''editor.symbol.autoGenerate'', ''Auto Generate''),
      (''editor.symbol.custom'', ''Custom SVG''),
      (''editor.symbol.reset'', ''Reset to Auto''),
      (''editor.symbol.preview'', ''Preview''),
      (''editor.symbol.width'', ''Width''),
      (''editor.symbol.height'', ''Height''),
      (''editor.source.title'', ''ST Source Code''),
      (''editor.source.hint'', ''Write IEC 61131-3 Structured Text code''),
      (''editor.source.format'', ''Format''),
      (''editor.source.validate'', ''Validate''),
      (''editor.source.valid'', ''Syntax OK''),
      (''editor.source.invalid'', ''Syntax error''),
      (''editor.source.fontSmaller'', ''Smaller font''),
      (''editor.source.fontBigger'', ''Larger font''),
      (''editor.simulate.title'', ''Block Simulation''),
      (''editor.simulate.run'', ''Run''),
      (''editor.simulate.running'', ''Running'' @ chars [0x2026]),
      (''editor.simulate.stop'', ''Stop''),
      (''editor.simulate.reset'', ''Reset''),
      (''editor.simulate.cycles'', ''Cycles''),
      (''editor.simulate.period'', ''Period (ms)''),
      (''editor.simulate.inputs'', ''Inputs''),
      (''editor.simulate.outputs'', ''Outputs''),
      (''editor.simulate.timeline'', ''Timeline''),
      (''editor.simulate.noResult'', ''No simulation results yet''),
      (''editor.simulate.cycle'', ''Cycle''),
      (''editor.simulate.truthTable'', ''Truth Table''),
      (''editor.simulate.cycleSim'', ''Cycle Sim''),
      (''editor.simulate.noBoolInputs'', ''No BOOL inputs '' @ chars [0x2014] @ '' cannot generate truth table''),
      (''editor.simulate.boolInputs'', ''boolean inputs''),
      (''editor.simulate.combinations'', ''combinations''),
      (''editor.simulate.generate'', ''Generate''),
      (''editor.simulate.fixedInputs'', ''Fixed Inputs''),
      (''editor.simulate.noTruthTable'', ''Click Generate to start''),
      (''editor.simulate.engineHint'', ''Same engine as the plant simulation: values come from the real compiler and the object table'' @ [CHR 0x27] @ ''s run frames''),
      (''editor.simulate.statefulHint'', ''This block keeps state across cycles '' @ chars [0x2014] @ '' truth rows evolve from the input sequence, they are not independent snapshots''),
      (''editor.simulate.failed'', ''Simulation failed''),
      (''editor.simulate.viewProgram'', ''View the generated driver program''),
      (''editor.simulate.forced'', ''Value overridden by external stimulus''),
      (''editor.simulate.stepGrid'', ''Per-cycle stimulus''),
      (''editor.simulate.gridHint'', ''Fill each cycle'' @ [CHR 0x27] @ ''s inputs; step through to watch time-dependent behaviour '' @ chars [0x2014] @ '' each step reads that cycle'' @ [CHR 0x27] @ ''s preset inputs''),
      (''editor.simulate.step'', ''Step''),
      (''editor.simulate.runAll'', ''Run all''),
      (''editor.simulate.stepProgress'', ''Cycles run''),
      (''editor.simulate.recordsExceed'', ''Stimulus records exceed the runner'' @ [CHR 0x27] @ ''s limit (64) '' @ chars [0x2014] @ '' reduce the cycle count, or change fewer inputs per cycle'')]"

definition en_device_page :: texts where
  "en_device_page =
     [(''device.title'', ''Device Configuration''),
      (''device.subtitle'', ''Add modules to create points, just enable/disable and configure''),
      (''device.errors'', ''errors''),
      (''device.warnings'', ''warnings''),
      (''device.passed'', ''Validation passed''),
      (''device.hardwareModules'', ''Hardware Modules''),
      (''device.moduleId'', ''Module ID''),
      (''device.startChannel'', ''Start Channel''),
      (''device.channelCount'', ''Channel Count''),
      (''device.add'', ''Add''),
      (''device.spaceFull'', ''Channel space full''),
      (''device.spaceFullMsg'', ''All channels 0-63 are allocated to modules, delete one first''),
      (''device.spaceFullAdd'', ''All channels 0-63 are allocated, delete one to add more''),
      (''device.channelHint'', ''Start channel follows last module '' @ chars [0xB7] @ '' Direction and data type determined by AI/AO/DI/DO''),
      (''device.directionHint'', ''Direction and data type determined by this''),
      (''device.devicePoints'', ''Device Points''),
      (''device.hideDisabled'', ''Hide Disabled''),
      (''device.cardView'', ''Card View''),
      (''device.tableView'', ''Table View''),
      (''device.totalPoints'', ''Total''),
      (''device.disabled'', ''Disabled''),
      (''device.cardHint'', ''Double-click to edit name/unit '' @ chars [0xB7] @ '' Right-click to disable/delete '' @ chars [0xB7] @ '' Multi-select for batch ops''),
      (''device.tableHint'', ''Double-click name/unit to edit''),
      (''device.copySt'', ''Copy ST''),
      (''device.collapseSt'', ''Collapse ST''),
      (''device.viewSt'', ''View ST''),
      (''device.noPoints'', ''// No valid points''),
      (''device.backendOffline'', ''Backend offline''),
      (''device.pointHint'', ''Points are channels: AI/DI are inputs, AO/DO are outputs''),
      (''device.disableHint'', ''Disable '' @ chars [0x2260] @ '' Delete: disable keeps binding but excludes from compile, sim and monitor''),
      (''device.operationFailed'', ''Operation failed''),
      (''device.updateChannelFailed'', ''Failed to update channel name''),
      (''device.module'', ''Module''),
      (''device.moduleAdded'', ''Module added''),
      (''device.moduleAddedMsg'', ''Points auto-generated for each channel''),
      (''device.addModuleFailed'', ''Failed to add module''),
      (''device.confirmDeleteModule'', ''Delete module''),
      (''device.confirmDeleteModuleMsg'', ''All its points will be removed.''),
      (''device.moduleDeleted'', ''Module deleted''),
      (''device.deleteModuleFailed'', ''Failed to delete module''),
      (''device.pointCreated'', ''Point created''),
      (''device.boundByGraph'', ''Bound by graph configuration''),
      (''device.unbindFirst'', ''Please unbind this pin in graph config first, then''),
      (''device.disable'', ''Disable''),
      (''device.enable'', ''Enable''),
      (''device.pointEnabled'', ''Point enabled''),
      (''device.pointDisabled'', ''Point disabled''),
      (''device.delete'', ''Delete''),
      (''device.confirmDeletePoint'', ''Delete point''),
      (''device.confirmDeletePointMsg'', ''Channel will be freed and can be recreated on the tree.''),
      (''device.pointDeleted'', ''Point deleted''),
      (''device.confirmBatchDelete'', ''Delete selected''),
      (''device.confirmBatchDeleteMsg'', ''points? Corresponding channels will be freed.''),
      (''device.batch'', ''Batch''),
      (''device.points'', ''points''),
      (''device.batchFailed'', ''Batch''),
      (''device.batchFailedMsg'', ''points did not respond''),
      (''device.pointsBound'', ''points are bound by graph configuration''),
      (''device.skipUnbind'', ''Skipped''),
      (''device.skipUnbindMsg'', ''Unbind in graph config first''),
      (''device.batchModified'', ''Batch modified''),
      (''device.batchModifiedMsg'', ''point configurations''),
      (''device.batchModifyFailed'', ''Batch modify failed''),
      (''device.batchModifyFailedMsg'', ''points not written''),
      (''device.stationSaved'', ''Station parameters saved''),
      (''device.confirmDeleteStation'', ''Delete station''),
      (''device.confirmDeleteStationMsg'', ''Its channel points and config will be removed.''),
      (''device.moduleIdRequired'', ''Please enter module ID'')]"

definition en_download_page :: texts where
  "en_download_page =
     [(''download.title'', ''Download Wizard''),
      (''download.reset'', ''Reset''),
      (''download.steps'', ''Download Steps''),
      (''download.step1.title'', ''Target Config''),
      (''download.step1.desc'', ''Configure download target parameters''),
      (''download.step2.title'', ''Key Selection''),
      (''download.step2.desc'', ''Select or generate HMAC key''),
      (''download.step3.title'', ''Download Params''),
      (''download.step3.desc'', ''Configure download timing parameters''),
      (''download.step4.title'', ''Execute Download''),
      (''download.step4.desc'', ''Send frame stream and monitor''),
      (''download.step5.title'', ''Complete''),
      (''download.step5.desc'', ''Download result confirmation''),
      (''download.targetPath'', ''Target Path''),
      (''download.backendType'', ''Backend Type''),
      (''download.pipe'', ''Pipe''),
      (''download.file'', ''File''),
      (''download.role'', ''Role''),
      (''download.primary'', ''Primary''),
      (''download.backup'', ''Backup''),
      (''download.nodeId'', ''Node ID''),
      (''download.keyName'', ''Key Name''),
      (''download.keyNamePlaceholder'', ''Enter key name''),
      (''download.keyHex'', ''Key (Hex)''),
      (''download.cycles'', ''Cycles''),
      (''download.period'', ''Period (ms)''),
      (''download.downloadAt'', ''Download At''),
      (''download.healthCycles'', ''Health Check Cycles''),
      (''download.deploying'', ''Deploying...''),
      (''download.startDeploy'', ''Start Download''),
      (''download.completed'', ''Download Complete''),
      (''download.completedMsg'', ''All frames sent, target switched''),
      (''download.success'', ''Download Successfully Completed''),
      (''download.configSummary'', ''Config Summary''),
      (''download.currentStep'', ''Current Step:''),
      (''download.target'', ''Target:''),
      (''download.periodLabel'', ''Period:''),
      (''download.notSet'', ''Not set''),
      (''download.prev'', ''Previous''),
      (''download.next'', ''Next'')]"

definition en_monitor_page :: texts where
  "en_monitor_page =
     [(''monitor.title'', ''Online Monitor & Debug''),
      (''monitor.autoRefresh'', ''Auto Refresh''),
      (''monitor.tabs.watch'', ''Watch Table''),
      (''monitor.tabs.variables'', ''Variable Browser''),
      (''monitor.tabs.force'', ''Force Control''),
      (''monitor.tabs.parameters'', ''Parameter Edit''),
      (''monitor.variableDetails'', ''Variable Details''),
      (''monitor.address'', ''Address''),
      (''monitor.dataType'', ''Data Type''),
      (''monitor.varType'', ''Variable Type''),
      (''monitor.currentValue'', ''Current Value''),
      (''monitor.forcedValue'', ''Forced Value''),
      (''monitor.forceStatus'', ''Force Status''),
      (''monitor.forced'', ''Forced''),
      (''monitor.notForced'', ''Not Forced''),
      (''monitor.quality'', ''Quality''),
      (''monitor.good'', ''Good''),
      (''monitor.bad'', ''Bad''),
      (''monitor.type'', ''Type''),
      (''monitor.status'', ''Status''),
      (''monitor.operations'', ''Operations''),
      (''monitor.varName'', ''Variable''),
      (''monitor.abnormal'', ''Abnormal''),
      (''monitor.forcedStatus'', ''Forced''),
      (''monitor.input'', ''Input''),
      (''monitor.output'', ''Output''),
      (''monitor.lastUpdated'', ''Last Updated''),
      (''monitor.addedToWatch'', ''Added to watch table''),
      (''monitor.addFailed'', ''Add failed''),
      (''monitor.addFailedMsg'', ''Cannot add''),
      (''monitor.addFailedMsg2'', ''to watch table''),
      (''monitor.removedFromWatch'', ''Removed from watch table''),
      (''monitor.removeFailed'', ''Remove failed''),
      (''monitor.removeFailedMsg'', ''Cannot remove from watch table''),
      (''monitor.variableForced'', ''Variable forced''),
      (''monitor.forceFailed'', ''Force failed''),
      (''monitor.forceFailedMsg'', ''Cannot force variable''),
      (''monitor.variableReleased'', ''Variable released''),
      (''monitor.releaseFailed'', ''Release failed''),
      (''monitor.releaseFailedMsg'', ''Cannot release variable'')]"

definition en_waveform_page :: texts where
  "en_waveform_page =
     [(''waveform.hidePlant'', ''Hide''),
      (''waveform.configPlant'', ''Config''),
      (''waveform.plant'', ''Plant''),
      (''waveform.cycles'', ''Cycles:''),
      (''waveform.period'', ''Period (ms):''),
      (''waveform.running'', ''Running...''),
      (''waveform.runSim'', ''Run Simulation''),
      (''waveform.plantConfig'', ''Plant Configuration''),
      (''waveform.delete'', ''Delete''),
      (''waveform.addChannel'', ''+ Add Channel''),
      (''waveform.viewer'', ''Simulation Waveform Viewer''),
      (''waveform.viewerDesc'', ''Configure plant and run simulation to view waveforms''),
      (''waveform.mean'', ''Mean:''),
      (''waveform.configDerived'', ''Simulation config auto-derived''),
      (''waveform.configDerivedMsg'', ''From''),
      (''waveform.configDerivedMsg2'', ''binding variables''),
      (''waveform.configUpdated'', ''Simulation config updated''),
      (''waveform.configUpdatedMsg'', ''Device binding changes synced'')]"

definition en_graph_editor_page :: texts where
  "en_graph_editor_page =
     [(''graph.program'', ''Program''),
      (''graph.station'', ''Station''),
      (''graph.noStation'', ''No station''),
      (''graph.checker'', ''Checker''),
      (''graph.cycles'', ''Cycles''),
      (''graph.simHint'', ''Generate plant table from device config and run sim''),
      (''graph.simulating'', ''Simulating'' @ chars [0x2026]),
      (''graph.sim'', ''Sim''),
      (''graph.deleteSelected'', ''Delete selected (Delete)''),
      (''graph.delete'', ''Delete''),
      (''graph.addConstant'', ''+ Constant''),
      (''graph.searchPlaceholder'', ''Search blocks / variables''),
      (''graph.library'', ''Library''),
      (''graph.input'', ''Input''),
      (''graph.output'', ''Output''),
      (''graph.onPage'', ''On page''),
      (''graph.onPageHint'', ''Already drawn on this page: click to locate''),
      (''graph.loading'', ''Loading page'' @ chars [0x2026] @ '' (if no response, check backend is running)''),
      (''graph.forcedPins'', ''This cycle''),
      (''graph.forcedPinsMsg'', ''pins show forced values (F mark), not program results''),
      (''graph.tabs.properties'', ''Properties''),
      (''graph.tabs.variables'', ''Page Variables''),
      (''graph.direction.input'', ''Input''),
      (''graph.direction.output'', ''Output''),
      (''graph.direction.inout'', ''In/Out''),
      (''graph.newVarPin'', ''New variable pin''),
      (''graph.cross'', ''Cross''),
      (''graph.pageSaved'', ''Page saved''),
      (''graph.pageSavedMsg'', ''Written to''),
      (''graph.varListRefreshed'', ''Variable list refreshed''),
      (''graph.varListRefreshedMsg'', ''Device bindings synced''),
      (''graph.pageName'', ''Page name''),
      (''graph.confirmDeletePage'', ''Delete page''),
      (''graph.readHere'', ''Read it on this page''),
      (''graph.writeHere'', ''Write it on this page''),
      (''graph.noPointName'', ''No point name''),
      (''graph.noChannel'', ''No channel mapped''),
      (''graph.inputVars'', ''Input Variables''),
      (''graph.inputVarsNote'', ''Disabled points not listed: they don'' @ [CHR 0x27] @ ''t generate global vars, binding will fail''),
      (''graph.noInputVars'', ''No input points for this station: add AI or DI modules in device config first''),
      (''graph.outputVars'', ''Output Variables''),
      (''graph.noOutputVars'', ''No output points for this station: add AO or DO modules in device config first''),
      (''graph.middleVars'', ''Middle Variables''),
      (''graph.newMiddle'', ''+ New''),
      (''graph.newMiddleHint'', ''New cross-page variable, rename to connect to same-named pin on another page''),
      (''graph.noMiddleVars'', ''No cross-page variables yet: mark same-named pins as middle vars on other pages''),
      (''graph.connectPage'', ''Connect page''),
      (''graph.thisPage'', ''This page''),
      (''graph.privateVars'', ''Page Private''),
      (''graph.newPrivate'', ''+ New''),
      (''graph.newPrivateHint'', ''New variable only for this page''),
      (''graph.noPrivateVars'', ''No private variables on this page yet''),
      (''graph.privateHint'', ''Only valid on this page''),
      (''graph.systemVars'', ''System Variables''),
      (''graph.systemVarsNote'', ''Provided by runtime each cycle, read-only''),
      (''graph.noSystemVars'', ''Runtime has no values to provide''),
      (''graph.readonly'', ''Read-only'')]"

definition en_sheet :: texts where
  "en_sheet =
     [(''sheet.page'', ''Page''),
      (''sheet.pageN'', ''Page''),
      (''sheet.pageN2'', []),
      (''sheet.blocks'', ''Blocks''),
      (''sheet.wires'', ''Wires''),
      (''sheet.variables'', ''Variables''),
      (''sheet.landscape'', ''Landscape''),
      (''sheet.noPinDef'', ''No pin definition in library'')]"

definition en_page_tabs :: texts where
  "en_page_tabs =
     [(''pageTabs.pageName'', ''Page name''),
      (''pageTabs.unsaved'', ''Unsaved''),
      (''pageTabs.deletePage'', ''Delete page''),
      (''pageTabs.newPage'', ''New page''),
      (''pageTabs.crossVars'', ''Cross-page vars''),
      (''pageTabs.none'', ''None''),
      (''pageTabs.jumpTo'', ''Jump to''),
      (''pageTabs.jumpToOn'', ''on'')]"

definition en_inspector :: texts where
  "en_inspector =
     [(''inspector.selectHint'', ''Select a block, constant or variable pin to view properties.''),
      (''inspector.dragHint'', ''Drag from library to canvas to place blocks; drag from pin to pin to connect wires.''),
      (''inspector.wireDeleted'', ''Wire deleted.''),
      (''inspector.wire'', ''Wire''),
      (''inspector.deleteWire'', ''Delete wire''),
      (''inspector.blockDeleted'', ''Block deleted.''),
      (''inspector.instanceName'', ''Instance Name''),
      (''inspector.type'', ''Type''),
      (''inspector.pin'', ''Pin''),
      (''inspector.parameters'', ''Parameters''),
      (''inspector.addParam'', ''+ Param''),
      (''inspector.deleteBlock'', ''Delete block''),
      (''inspector.constantDeleted'', ''Constant deleted.''),
      (''inspector.constantName'', ''Constant Name''),
      (''inspector.value'', ''Value''),
      (''inspector.constantHint'', ''Constants are inlined as literals in generated ST, no variable produced.''),
      (''inspector.deleteConstant'', ''Delete constant''),
      (''inspector.varDeleted'', ''Variable deleted.''),
      (''inspector.varName'', ''Variable Name''),
      (''inspector.direction'', ''Direction''),
      (''inspector.unit'', ''Unit''),
      (''inspector.scope'', ''Scope''),
      (''inspector.systemVar'', ''System variable (from runtime)''),
      (''inspector.systemVarHint'', ''Written by runtime each cycle, page can only read, output pins connected to it will be rejected by checker.''),
      (''inspector.associateDevice'', ''Associate device variable''),
      (''inspector.noStation'', ''No station selected''),
      (''inspector.notAssociated'', ''Not associated''),
      (''inspector.noExternalVars'', ''No external variable table for this station, complete channel config in device config first.''),
      (''inspector.deleteVarPin'', ''Delete variable pin''),
      (''inspector.externalVar'', ''External variable (device)''),
      (''inspector.middleVar'', ''Middle variable (cross-page)''),
      (''inspector.localVar'', ''Local variable (page temp)'')]"

definition en_checker_panel :: texts where
  "en_checker_panel =
     [(''checker.tabs.checker'', ''Checker''),
      (''checker.tabs.st'', ''ST Text''),
      (''checker.tabs.analysis'', ''Analysis''),
      (''checker.tabs.sim'', ''Simulation''),
      (''checker.tabs.stimulus'', ''Stimulus/Force''),
      (''checker.error'', ''Error''),
      (''checker.warning'', ''Warning''),
      (''checker.info'', ''Info''),
      (''checker.unlocated'', ''Unlocated''),
      (''checker.fail'', ''Fail''),
      (''checker.pass'', ''Pass''),
      (''checker.rejected'', ''Rejected''),
      (''checker.modified'', ''Modified''),
      (''checker.measured'', ''Measured''),
      (''checker.running'', ''Running'' @ chars [0x2026]),
      (''checker.notChecked'', ''Not checked yet. Checker verifies loops, pin types, unbound vars, multi-drivers and external var bindings.''),
      (''checker.passed'', ''Check passed:''),
      (''checker.passedPages'', ''pages,''),
      (''checker.passedCrossVars'', ''cross-page vars, no errors.''),
      (''checker.noContent'', ''(No content)'')]"

definition en_sim_panel :: texts where
  "en_sim_panel =
     [(''sim.firstCycle'', ''First cycle''),
      (''sim.prevCycle'', ''Previous cycle''),
      (''sim.pause'', ''Pause''),
      (''sim.replay'', ''Replay''),
      (''sim.nextCycle'', ''Next cycle''),
      (''sim.lastCycle'', ''Last cycle''),
      (''sim.cycle'', ''Cycle''),
      (''sim.violation'', ''Violation''),
      (''sim.status'', ''Status''),
      (''sim.staleWarning'', ''Graph modified, results are from before changes''),
      (''sim.symbol'', ''Symbol''),
      (''sim.runsMerged'', ''runs merged''),
      (''sim.singleRun'', ''Single run''),
      (''sim.runSim'', ''Run Simulation''),
      (''sim.readError'', ''Read err''),
      (''sim.writeError'', ''Write err''),
      (''sim.plantTable'', ''Plant table''),
      (''sim.station'', ''Station''),
      (''sim.forcedValues'', ''values forced''),
      (''sim.noForced'', ''No forced values''),
      (''sim.rejected'', ''Simulation rejected:''),
      (''sim.unknownStage'', ''Unknown stage''),
      (''sim.channel'', ''Channel''),
      (''sim.displayIn'', ''Display in''),
      (''sim.force'', ''Force''),
      (''sim.forcedByStimulus'', ''This cycle value overridden by stimulus, not program result''),
      (''sim.computedByProgram'', ''This cycle value computed by program''),
      (''sim.addToForce'', ''Add to force list and go to stimulus page''),
      (''sim.forceLabel'', ''Force'' @ chars [0x2026]),
      (''sim.notSimulated'', ''Not simulated yet. Pass checker first, then generate plant table from device config, fetch watch frames per cycle; pin numbers come from frames, not graph.'')]"

definition en_stimulus_panel :: texts where
  "en_stimulus_panel =
     [(''stimulus.addForce'', ''+ Force''),
      (''stimulus.addScript'', ''+ Script''),
      (''stimulus.selectSymbolFirst'', ''Select a symbol from last sim report first, then add row''),
      (''stimulus.selectSymbolPlaceholder'', ''(Select symbol first)''),
      (''stimulus.forceCount'', ''Force''),
      (''stimulus.scriptCount'', ''Script''),
      (''stimulus.runWithStimulus'', ''Run with stimulus''),
      (''stimulus.forceSection'', ''Force (kept for entire run)''),
      (''stimulus.using'', ''Using''),
      (''stimulus.symbol'', ''Symbol''),
      (''stimulus.value'', ''Value''),
      (''stimulus.noForces'', ''No forces.''),
      (''stimulus.scriptSection'', ''Test Script (by cycle)''),
      (''stimulus.cycle'', ''Cycle''),
      (''stimulus.noScripts'', ''No scripts.''),
      (''stimulus.helpText'', ''Force values are written at cycle start, overriding program results; scripts inject by cycle number. Forces on input channels inject into plant, others override segment 7 global slots. Frame forced mark indicates value from outside program.''),
      (''stimulus.knownGap'', ''Known gap: REAL points bound to input channels, force values go through float64'' @ chars [0x2192] @ ''float32 narrowing, may have rounding errors.''),
      (''stimulus.keepRow'', ''Uncheck to keep row but not send to next run''),
      (''stimulus.deleteRow'', ''Delete this row''),
      (''stimulus.cycleOutOfRange'', ''This run only has''),
      (''stimulus.cycleOutOfRange2'', ''cycles, this record will never take effect''),
      (''stimulus.effectiveCycle'', ''Effective cycle, from 1'')]"

definition en_analysis_panel :: texts where
  "en_analysis_panel =
     [(''analysis.checkerErrors'', ''Checker still has errors''),
      (''analysis.checkerErrorsHint'', ''Use compiler to measure WCET, memory and sync area''),
      (''analysis.analyzing'', ''Analyzing'' @ chars [0x2026]),
      (''analysis.reanalyze'', ''Re-analyze''),
      (''analysis.checkerFirst'', ''Checker must pass before compiler is called.''),
      (''analysis.configChanged'', ''Config changed, values below are from previous analysis.''),
      (''analysis.checkerStillErrors'', ''Checker still has errors, compiler not called.''),
      (''analysis.compilerRejected'', ''Compiler rejected config text''),
      (''analysis.exitCode'', ''Exit code''),
      (''analysis.wcet'', ''Worst-Case Execution Time''),
      (''analysis.artifact'', ''Artifact''),
      (''analysis.bytes'', ''bytes''),
      (''analysis.instructionCycles'', ''Instruction cycles (segment 6 WCET)''),
      (''analysis.time'', ''Time (compiler estimate)''),
      (''analysis.cycleBudget'', ''of''),
      (''analysis.cycleBudget2'', ''ms cycle''),
      (''analysis.cycleLimit'', ''Per-cycle instruction limit (segment 5)''),
      (''analysis.exceeded'', ''Exceeded''),
      (''analysis.stackDepth'', ''Static Stack Depth''),
      (''analysis.recursive'', ''Recursive calls''),
      (''analysis.yes'', ''Yes''),
      (''analysis.no'', ''No''),
      (''analysis.boundedLoop'', ''Bounded loops''),
      (''analysis.memoryUsage'', ''Memory & Variable Usage''),
      (''analysis.code'', ''Code''),
      (''analysis.linearMemory'', ''Linear memory (segment 2 declaration)''),
      (''analysis.section'', ''Section''),
      (''analysis.section2'', ''Segment''),
      (''analysis.baseAddr'', ''Base addr''),
      (''analysis.symbolCount'', ''Symbol count (segment 7)''),
      (''analysis.globalVars'', ''Global vars / instance fields''),
      (''analysis.ioMapping'', ''I/O channel mapping (segment 3)''),
      (''analysis.hotstandby'', ''Hot-standby sync area''),
      (''analysis.page'', ''Page''),
      (''analysis.syncPages'', ''Forced sync pages per cycle''),
      (''analysis.syncDataSize'', ''Sync data size per cycle''),
      (''analysis.snapshotHeader'', ''Snapshot header''),
      (''analysis.worstSnapshot'', ''Worst single-frame snapshot''),
      (''analysis.tracePageLimit'', ''Trace page limit''),
      (''analysis.used'', ''Used''),
      (''analysis.stackNote'', ''Value stack and frame stack are counted separately by runtime snapshot model (hotstandby/snapshot.c).''),
      (''analysis.notAnalyzed'', ''Not analyzed yet. Analysis sends device config VAR_GLOBAL/IOMAP segments and page-generated PROGRAM text to veristc, reads back WCET, memory and symbol segments from artifact, and calculates sync area size per hot-standby snapshot rules.'')]"

definition en_hardware_tree :: texts where
  "en_hardware_tree =
     [(''hwTree.createPoint'', ''Create point for CH''),
      (''hwTree.createPoint2'', []),
      (''hwTree.disablePoint'', ''Disable point''),
      (''hwTree.enablePoint'', ''Enable point''),
      (''hwTree.deletePoint'', ''Delete point''),
      (''hwTree.renameChannel'', ''Rename channel''),
      (''hwTree.deleteModule'', ''Delete module''),
      (''hwTree.addAI'', ''Add AI module''),
      (''hwTree.addAO'', ''Add AO module''),
      (''hwTree.addDI'', ''Add DI module''),
      (''hwTree.addDO'', ''Add DO module''),
      (''hwTree.hardwareChannels'', ''Hardware Channels''),
      (''hwTree.modules'', ''modules''),
      (''hwTree.channelsWithPoints'', ''channels with points''),
      (''hwTree.points'', ''Points''),
      (''hwTree.disableChannel'', ''Disable channel points''),
      (''hwTree.enableChannel'', ''Enable channel points''),
      (''hwTree.noPointYet'', ''No points on this channel yet, right-click to create''),
      (''hwTree.channelName'', ''Channel name''),
      (''hwTree.editName'', ''Double-click to edit name''),
      (''hwTree.addName'', ''Double-click to add name''),
      (''hwTree.unnamed'', ''Unnamed''),
      (''hwTree.noPoints'', ''No points''),
      (''hwTree.notConfigured'', ''Hardware modules not configured yet'')]"

definition en_station_bar :: texts where
  "en_station_bar =
     [(''station.stationId'', ''Station ID''),
      (''station.stationName'', ''Station Name''),
      (''station.create'', ''Create''),
      (''station.cancel'', ''Cancel''),
      (''station.newStation'', ''New Station''),
      (''station.addStation'', ''+ New Station''),
      (''station.keepOne'', ''Keep at least one station''),
      (''station.deleteThis'', ''Delete this station''),
      (''station.deleteStation'', ''Delete station''),
      (''station.name'', ''Name''),
      (''station.deviceType'', ''Device Type''),
      (''station.cycle'', ''Cycle''),
      (''station.interface'', ''Interface''),
      (''station.address'', ''Address''),
      (''station.saveParams'', ''Save station params''),
      (''station.modules'', ''Modules''),
      (''station.points'', ''Points'')]"

definition en_binding_properties :: texts where
  "en_binding_properties =
     [(''binding.title'', ''Point Properties''),
      (''binding.point'', ''Point''),
      (''binding.signalType'', ''Signal Type''),
      (''binding.scale'', ''Scale''),
      (''binding.bias'', ''Bias''),
      (''binding.safetyMin'', ''Safety Min''),
      (''binding.unlimited'', ''Unlimited''),
      (''binding.safetyMax'', ''Safety Max''),
      (''binding.pointName'', ''Point Name''),
      (''binding.unit'', ''Unit''),
      (''binding.faultHold'', ''Fault Hold''),
      (''binding.preset'', ''Preset''),
      (''binding.hasQuality'', ''Channel has quality bit''),
      (''binding.saveConfig'', ''Save point config''),
      (''binding.selectPoint'', ''Select a point to edit config''),
      (''binding.validation'', ''Validation''),
      (''binding.allPassed'', ''All passed, can generate IOMAP segment'')]"

definition en_external_var_table :: texts where
  "en_external_var_table =
     [(''extVar.enabled'', ''Enabled''),
      (''extVar.pointName'', ''Point Name''),
      (''extVar.module'', ''Module''),
      (''extVar.channel'', ''Channel''),
      (''extVar.directionType'', ''Direction / Type''),
      (''extVar.pointNameCol'', ''Point Name''),
      (''extVar.unit'', ''Unit''),
      (''extVar.scaleBias'', ''Scale / Bias''),
      (''extVar.quality'', ''Quality''),
      (''extVar.range'', ''Range''),
      (''extVar.faultHold'', ''Fault Hold''),
      (''extVar.actions'', ''Actions''),
      (''extVar.noPoints'', ''No points yet '' @ chars [0x2014] @ '' add modules above or on the left tree, each channel becomes a point''),
      (''extVar.disablePoint'', ''Disable this point''),
      (''extVar.enablePoint'', ''Enable this point''),
      (''extVar.emptyChannel'', ''Empty channel''),
      (''extVar.input'', ''Input''),
      (''extVar.output'', ''Output''),
      (''extVar.edit'', ''Double-click to edit''),
      (''extVar.yes'', ''Yes''),
      (''extVar.no'', ''No''),
      (''extVar.notConfigured'', ''Not configured''),
      (''extVar.disabled'', ''Disabled''),
      (''extVar.deleteHint'', ''Delete this point, channel will be freed'')]"

definition en_point_board :: texts where
  "en_point_board =
     [(''pointBoard.noChannel'', ''No channel binding''),
      (''pointBoard.noChannelDesc'', ''Point exists but no module channel bound to it''),
      (''pointBoard.point'', ''point''),
      (''pointBoard.addToSelection'', ''Add''),
      (''pointBoard.addToSelection2'', ''to selection''),
      (''pointBoard.applyToSelected'', ''Apply to selected''),
      (''pointBoard.applyToSelected2'', ''points''),
      (''pointBoard.batchEnable'', ''Batch enable''),
      (''pointBoard.batchDisable'', ''Batch disable''),
      (''pointBoard.batchRename'', ''Batch rename'' @ chars [0x2026]),
      (''pointBoard.prefix'', ''Prefix''),
      (''pointBoard.startIndex'', ''Start index''),
      (''pointBoard.batchUnit'', ''Batch set unit'' @ chars [0x2026]),
      (''pointBoard.batchRange'', ''Batch set range'' @ chars [0x2026]),
      (''pointBoard.safetyMin'', ''Safety min (integer, blank for unlimited)''),
      (''pointBoard.safetyMax'', ''Safety max (integer, blank for unlimited)''),
      (''pointBoard.batchSignalType'', ''Batch set signal type'' @ chars [0x2026]),
      (''pointBoard.batchFaultHold'', ''Batch set fault hold'' @ chars [0x2026]),
      (''pointBoard.presetValue'', ''Preset value (only for '' @ [CHR 0x22] @ ''Preset'' @ [CHR 0x22] @ '')''),
      (''pointBoard.batchDelete'', ''Batch delete''),
      (''pointBoard.deselect'', ''Deselect''),
      (''pointBoard.createPoint'', ''Create point''),
      (''pointBoard.helpText'', ''Click/long-press to select '' @ chars [0xB7] @ '' Shift for range '' @ chars [0xB7] @ '' Ctrl+A select all '' @ chars [0xB7] @ '' Right-click for batch '' @ chars [0xB7] @ '' Esc to cancel''),
      (''pointBoard.helpText2'', ''Right-click card to disable/rename/delete''),
      (''pointBoard.exitMulti'', ''Exit multi-select''),
      (''pointBoard.multiSelect'', ''Multi-select''),
      (''pointBoard.notConfigured'', ''Hardware modules not configured '' @ chars [0x2014] @ '' add AI/AO/DI/DO above, each channel becomes a point''),
      (''pointBoard.selectAll'', ''Select all module''),
      (''pointBoard.selectAllHint'', ''Select all points in this module''),
      (''pointBoard.idle'', ''Idle: click to create point''),
      (''pointBoard.idleLabel'', ''Idle''),
      (''pointBoard.createPointLabel'', ''+ Create point''),
      (''pointBoard.clickDisable'', ''Click to disable (keep binding)''),
      (''pointBoard.clickEnable'', ''Click to enable''),
      (''pointBoard.editName'', ''Double-click to edit name''),
      (''pointBoard.fillName'', ''Double-click to fill name''),
      (''pointBoard.editUnit'', ''Double-click to edit unit''),
      (''pointBoard.unitPlaceholder'', ''+Unit''),
      (''pointBoard.noScale'', ''No scale''),
      (''pointBoard.qualityBadge'', ''Quality''),
      (''pointBoard.faultBadge'', ''Fault''),
      (''pointBoard.selected'', ''Selected''),
      (''pointBoard.deselectAll'', ''Deselect all''),
      (''pointBoard.selectAllBtn'', ''Select all''),
      (''pointBoard.invert'', ''Invert'')]"

definition en_library_components :: texts where
  "en_library_components =
     [(''libraryManager.newLibrary'', ''New Library''),
      (''libraryManager.exportLibrary'', ''Export Library''),
      (''libraryManager.libraries'', ''libraries''),
      (''libraryManager.noLibraries'', ''No libraries yet''),
      (''libraryManager.noLibrariesHint'', ''Click '' @ [CHR 0x22] @ ''New Library'' @ [CHR 0x22] @ '' to create''),
      (''libraryManager.unshare'', ''Unshare''),
      (''libraryManager.share'', ''Share''),
      (''libraryManager.confirmDelete'', ''Delete library''),
      (''libraryManager.confirmDelete2'', ''?''),
      (''libraryManager.shared'', ''Shared''),
      (''libraryManager.newLibraryTitle'', ''New Algorithm Library''),
      (''libraryManager.libraryName'', ''Library Name''),
      (''libraryManager.libraryNamePlaceholder'', ''e.g., My Algorithm Library''),
      (''libraryManager.libraryDesc'', ''Description''),
      (''libraryManager.libraryDescPlaceholder'', ''Optional library description''),
      (''libraryManager.blocks'', ''blocks''),
      (''libraryManager.unspecified'', ''Unspecified''),
      (''libraryManager.exportFailed'', ''Export failed:''),
      (''libraryManager.create'', ''Create''),
      (''libraryManager.created'', ''Library created''),
      (''libraryManager.createFailed'', ''Failed to create library''),
      (''libraryManager.deleted'', ''Library deleted''),
      (''libraryManager.deleteFailed'', ''Failed to delete library''),
      (''libraryManager.delete'', ''Delete''),
      (''libraryManager.confirmClear'', ''Clear all blocks in this library?''),
      (''libraryManager.cleared'', ''Library cleared''),
      (''libraryManager.clearFailed'', ''Failed to clear library''),
      (''libraryManager.clear'', ''Clear''),
      (''libraryManager.exported'', ''Library exported''),
      (''libraryManager.exportZip'', ''Export as ZIP''),
      (''libraryManager.imported'', ''Library imported''),
      (''libraryManager.importFailed'', ''Failed to import library''),
      (''libraryManager.importZip'', ''Import from ZIP''),
      (''libraryManager.name'', ''Name''),
      (''libraryManager.description'', ''Description''),
      (''libraryManager.cancel'', ''Cancel''),
      (''blockLibrary.math'', ''Math''),
      (''blockLibrary.control'', ''Control''),
      (''blockLibrary.logic'', ''Logic''),
      (''blockLibrary.filter'', ''Filter''),
      (''blockLibrary.convert'', ''Convert''),
      (''blockLibrary.custom'', ''Custom''),
      (''blockLibrary.importFailed'', ''Import failed: Invalid JSON format''),
      (''blockLibrary.searchPlaceholder'', ''Search blocks...''),
      (''blockLibrary.allCategories'', ''All Categories''),
      (''blockLibrary.allTimeBased'', ''Time: All''),
      (''blockLibrary.timeBased'', ''Time-based''),
      (''blockLibrary.notTimeBased'', ''Not time-based''),
      (''blockLibrary.allSignalTypes'', ''Signal: All''),
      (''blockLibrary.analog'', ''Analog''),
      (''blockLibrary.digital'', ''Digital''),
      (''blockLibrary.mixed'', ''Mixed''),
      (''blockLibrary.create'', ''Create''),
      (''blockLibrary.import'', ''Import''),
      (''blockLibrary.noBlocks'', ''No blocks yet''),
      (''blockLibrary.noBlocksHint'', ''Click '' @ [CHR 0x22] @ ''Import'' @ [CHR 0x22] @ '' to add blocks''),
      (''blockLibrary.export'', ''Export''),
      (''blockLibrary.edit'', ''Edit''),
      (''blockLibrary.confirmDelete'', ''Delete''),
      (''blockLibrary.confirmDelete2'', ''?''),
      (''blockLibrary.importTitle'', ''Import Block''),
      (''blockLibrary.importDesc'', ''Paste block JSON definition, or upload .json file.''),
      (''blockLibrary.inputs'', ''inputs''),
      (''blockLibrary.outputs'', ''outputs'')]"

definition en_monitor_components :: texts where
  "en_monitor_components =
     [(''watchTable.empty'', ''Watch table is empty''),
      (''watchTable.emptyHint'', ''Add variables from variable browser''),
      (''watchTable.refresh'', ''Refresh''),
      (''watchTable.confirmClear'', ''Clear watch table?''),
      (''watchTable.clear'', ''Clear''),
      (''watchTable.variables'', ''variables''),
      (''watchTable.varName'', ''Variable''),
      (''watchTable.alias'', ''Alias''),
      (''watchTable.updateTime'', ''Updated''),
      (''watchTable.normal'', ''Normal''),
      (''watchTable.remove'', ''Remove''),
      (''watchTable.currentValue'', ''Current Value''),
      (''watchTable.forcedValue'', ''Forced Value''),
      (''watchTable.type'', ''Type''),
      (''watchTable.status'', ''Status''),
      (''watchTable.operations'', ''Operations''),
      (''watchTable.forced'', ''Forced''),
      (''watchTable.abnormal'', ''Abnormal''),
      (''varInspector.searchPlaceholder'', ''Search variables...''),
      (''varInspector.allTypes'', ''All Types''),
      (''varInspector.inputOutput'', ''In/Out''),
      (''varInspector.local'', ''Local''),
      (''varInspector.global'', ''Global''),
      (''varInspector.addToWatch'', ''Add to watch''),
      (''varInspector.releaseForce'', ''Release force''),
      (''varInspector.forceValue'', ''Force variable value''),
      (''varInspector.forceValueTitle'', ''Force Variable Value''),
      (''varInspector.force'', ''Force''),
      (''varInspector.varName'', ''Variable''),
      (''varInspector.address'', ''Address''),
      (''varInspector.currentValue'', ''Current Value''),
      (''varInspector.dataType'', ''Data Type''),
      (''varInspector.type'', ''Type''),
      (''varInspector.status'', ''Status''),
      (''varInspector.operations'', ''Operations''),
      (''varInspector.abnormal'', ''Abnormal''),
      (''forceControl.title'', ''Variable Force Control''),
      (''forceControl.desc'', ''Force variables to specified values or release. Supports single and batch operations.''),
      (''forceControl.selectAll'', ''Select All''),
      (''forceControl.deselectAll'', ''Deselect All''),
      (''forceControl.batchForce'', ''Batch Force''),
      (''forceControl.batchRelease'', ''Batch Release''),
      (''forceControl.availableVars'', ''Available Variables''),
      (''forceControl.forcedVars'', ''Forced Variables''),
      (''forceControl.release'', ''Release''),
      (''forceControl.noForced'', ''No forced variables''),
      (''forceControl.batchForceTitle'', ''Batch Force Variables''),
      (''forceControl.batchForceDesc'', ''Will set force values for''),
      (''forceControl.batchForceDesc2'', ''variables:''),
      (''forceControl.confirmForce'', ''Confirm Force''),
      (''forceControl.varName'', ''Variable''),
      (''forceControl.currentValue'', ''Current Value''),
      (''forceControl.type'', ''Type''),
      (''forceControl.forcedValue'', ''Forced Value''),
      (''forceControl.operations'', ''Operations''),
      (''forceControl.forceValuePlaceholder'', ''Force value''),
      (''paramEditor.title'', ''Online Parameter Edit''),
      (''paramEditor.desc'', ''Modify function block parameter values. Changes take effect next cycle.''),
      (''paramEditor.batchModify'', ''Batch Modify''),
      (''paramEditor.functionBlocks'', ''function blocks''),
      (''paramEditor.paramCount'', ''parameters''),
      (''paramEditor.functionBlock'', ''Function Block:''),
      (''paramEditor.paramName'', ''Parameter''),
      (''paramEditor.newValue'', ''New Value''),
      (''paramEditor.save'', ''Save''),
      (''paramEditor.edit'', ''Edit''),
      (''paramEditor.noParams'', ''No parameters to modify''),
      (''paramEditor.noParamsHint'', ''Parameters will appear after loading program''),
      (''paramEditor.batchModifyTitle'', ''Batch Modify Parameters''),
      (''paramEditor.batchModifyDesc'', ''Will modify values of''),
      (''paramEditor.batchModifyDesc2'', ''parameters:''),
      (''paramEditor.newValuePlaceholder'', ''New value''),
      (''paramEditor.confirmModify'', ''Confirm Modify''),
      (''paramEditor.dataType'', ''Data Type''),
      (''paramEditor.currentValue'', ''Current Value''),
      (''paramEditor.operations'', ''Operations'')]"

definition en_context_menu :: texts where
  "en_context_menu =
     [(''contextMenu.apply'', ''Apply''),
      (''contextMenu.collapse'', ''Collapse'')]"

definition en_error_banner :: texts where
  "en_error_banner =
     [(''errorBanner.error'', ''Error''),
      (''errorBanner.retry'', ''Retry'')]"

definition en_common :: texts where
  "en_common =
     [(''common.cancel'', ''Cancel''),
      (''common.confirm'', ''Confirm''),
      (''common.save'', ''Save''),
      (''common.load'', ''Load''),
      (''common.delete'', ''Delete''),
      (''common.add'', ''Add''),
      (''common.edit'', ''Edit''),
      (''common.search'', ''Search''),
      (''common.close'', ''Close''),
      (''common.reset'', ''Reset''),
      (''common.next'', ''Next''),
      (''common.prev'', ''Previous''),
      (''common.yes'', ''Yes''),
      (''common.no'', ''No''),
      (''common.ok'', ''OK''),
      (''common.error'', ''Error''),
      (''common.warning'', ''Warning''),
      (''common.info'', ''Info''),
      (''common.success'', ''Success''),
      (''common.noProject'', ''No project opened''),
      (''common.noProjectDesc'', ''Create or open a project from the home page first''),
      (''common.saved'', ''Saved to project''),
      (''common.saveFailed'', ''Save failed''),
      (''common.closeFailed'', ''Close failed''),
      (''common.projectClosed'', ''Project closed''),
      (''common.noProjectToClose'', ''No project to close''),
      (''common.noProjectProps'', ''No project to view properties''),
      (''common.projectProps'', ''Project Properties''),
      (''common.name'', ''Name''),
      (''common.path'', ''Path''),
      (''common.safetyLevel'', ''Safety Level''),
      (''common.type'', ''Type''),
      (''common.status'', ''Status''),
      (''common.operations'', ''Operations''),
      (''common.create'', ''Create''),
      (''common.input'', ''input''),
      (''common.output'', ''output''),
      (''common.abnormal'', ''Abnormal''),
      (''common.forced'', ''Forced'')]"

definition en_texts :: texts where
  "en_texts =
     concat [en_title_bar, en_menu_bar, en_activity_bar, en_status_bar, en_workflow_progress,
       en_require_project_placeholder, en_home_page, en_library_page, en_block_editor, en_device_page,
       en_download_page, en_monitor_page, en_waveform_page, en_graph_editor_page, en_sheet,
       en_page_tabs, en_inspector, en_checker_panel, en_sim_panel, en_stimulus_panel,
       en_analysis_panel, en_hardware_tree, en_station_bar, en_binding_properties, en_external_var_table,
       en_point_board, en_library_components, en_monitor_components, en_context_menu, en_error_banner,
       en_common]"

end
