(* ===== verification/Texts.thy ===== *)
theory Texts
  imports TextsEn Shell
begin

text \<open>
  The tables of texts in both languages (\<open>lib/i18n/translations.ts\<close>) as the provider of translations reads
  them: both have the same keys, so no text falls back to the other language, and no text has a placeholder.
\<close>

text \<open>\<open>translations[locale][key]\<close>; in a literal object the last value of a key counts.\<close>

definition text_table :: "string \<Rightarrow> string \<Rightarrow> string option" where
  "text_table locale key =
     (if locale = ''zh-CN'' then map_of (rev zh_texts) key
      else if locale = ''en'' then map_of (rev en_texts) key else None)"

section \<open>The groups\<close>

lemmas zh_defs =
  zh_title_bar_def zh_menu_bar_def zh_activity_bar_def zh_status_bar_def zh_workflow_progress_def
  zh_require_project_placeholder_def zh_home_page_def zh_library_page_def zh_block_editor_def
  zh_device_page_def zh_download_page_def zh_monitor_page_def zh_waveform_page_def zh_graph_editor_page_def
  zh_sheet_def zh_page_tabs_def zh_inspector_def zh_checker_panel_def zh_sim_panel_def zh_stimulus_panel_def
  zh_analysis_panel_def zh_hardware_tree_def zh_station_bar_def zh_binding_properties_def
  zh_external_var_table_def zh_point_board_def zh_library_components_def zh_monitor_components_def
  zh_context_menu_def zh_error_banner_def zh_common_def

lemmas en_defs =
  en_title_bar_def en_menu_bar_def en_activity_bar_def en_status_bar_def en_workflow_progress_def
  en_require_project_placeholder_def en_home_page_def en_library_page_def en_block_editor_def
  en_device_page_def en_download_page_def en_monitor_page_def en_waveform_page_def en_graph_editor_page_def
  en_sheet_def en_page_tabs_def en_inspector_def en_checker_panel_def en_sim_panel_def en_stimulus_panel_def
  en_analysis_panel_def en_hardware_tree_def en_station_bar_def en_binding_properties_def
  en_external_var_table_def en_point_board_def en_library_components_def en_monitor_components_def
  en_context_menu_def en_error_banner_def en_common_def

lemma group_keys:
  "map fst zh_title_bar = map fst en_title_bar"
  "map fst zh_menu_bar = map fst en_menu_bar"
  "map fst zh_activity_bar = map fst en_activity_bar"
  "map fst zh_status_bar = map fst en_status_bar"
  "map fst zh_workflow_progress = map fst en_workflow_progress"
  "map fst zh_require_project_placeholder = map fst en_require_project_placeholder"
  "map fst zh_home_page = map fst en_home_page"
  "map fst zh_library_page = map fst en_library_page"
  "map fst zh_block_editor = map fst en_block_editor"
  "map fst zh_device_page = map fst en_device_page"
  "map fst zh_download_page = map fst en_download_page"
  "map fst zh_monitor_page = map fst en_monitor_page"
  "map fst zh_waveform_page = map fst en_waveform_page"
  "map fst zh_graph_editor_page = map fst en_graph_editor_page"
  "map fst zh_sheet = map fst en_sheet"
  "map fst zh_page_tabs = map fst en_page_tabs"
  "map fst zh_inspector = map fst en_inspector"
  "map fst zh_checker_panel = map fst en_checker_panel"
  "map fst zh_sim_panel = map fst en_sim_panel"
  "map fst zh_stimulus_panel = map fst en_stimulus_panel"
  "map fst zh_analysis_panel = map fst en_analysis_panel"
  "map fst zh_hardware_tree = map fst en_hardware_tree"
  "map fst zh_station_bar = map fst en_station_bar"
  "map fst zh_binding_properties = map fst en_binding_properties"
  "map fst zh_external_var_table = map fst en_external_var_table"
  "map fst zh_point_board = map fst en_point_board"
  "map fst zh_library_components = map fst en_library_components"
  "map fst zh_monitor_components = map fst en_monitor_components"
  "map fst zh_context_menu = map fst en_context_menu"
  "map fst zh_error_banner = map fst en_error_banner"
  "map fst zh_common = map fst en_common"
  by (simp_all only: zh_defs en_defs list.map fst_conv)

lemma high_bytes: "128 \<le> c \<Longrightarrow> c < 0x10000 \<Longrightarrow> CHR ''{'' \<notin> set (char_bytes c)"
proof -
  have "char_of b \<noteq> CHR ''{''" if "128 \<le> b" "b < 256" for b :: nat
  proof
    assume "char_of b = CHR ''{''"
    then have "of_char (char_of b :: char) = (of_char (CHR ''{'') :: nat)"
      by (rule arg_cong)
    then show False
      using that by simp
  qed
  moreover assume "128 \<le> c" "c < 0x10000"
  ultimately show ?thesis
    by (auto simp: char_bytes_def dest!: sym [of "CHR ''{''"])
qed

lemma chars_plain: "list_all (\<lambda>c. 128 \<le> c \<and> c < 0x10000) cs \<Longrightarrow> CHR ''{'' \<notin> set (chars cs)"
  using high_bytes by (auto simp: chars_def list_all_iff)

definition plain_row :: "string \<times> string \<Rightarrow> bool" where
  "plain_row r \<longleftrightarrow> CHR ''{'' \<notin> set (snd r)"

lemma zh_plain:
  "list_all plain_row zh_title_bar"
  "list_all plain_row zh_menu_bar"
  "list_all plain_row zh_activity_bar"
  "list_all plain_row zh_status_bar"
  "list_all plain_row zh_workflow_progress"
  "list_all plain_row zh_require_project_placeholder"
  "list_all plain_row zh_home_page"
  "list_all plain_row zh_library_page"
  "list_all plain_row zh_block_editor"
  "list_all plain_row zh_device_page"
  "list_all plain_row zh_download_page"
  "list_all plain_row zh_monitor_page"
  "list_all plain_row zh_waveform_page"
  "list_all plain_row zh_graph_editor_page"
  "list_all plain_row zh_sheet"
  "list_all plain_row zh_page_tabs"
  "list_all plain_row zh_inspector"
  "list_all plain_row zh_checker_panel"
  "list_all plain_row zh_sim_panel"
  "list_all plain_row zh_stimulus_panel"
  "list_all plain_row zh_analysis_panel"
  "list_all plain_row zh_hardware_tree"
  "list_all plain_row zh_station_bar"
  "list_all plain_row zh_binding_properties"
  "list_all plain_row zh_external_var_table"
  "list_all plain_row zh_point_board"
  "list_all plain_row zh_library_components"
  "list_all plain_row zh_monitor_components"
  "list_all plain_row zh_context_menu"
  "list_all plain_row zh_error_banner"
  "list_all plain_row zh_common"
  by (simp_all add: zh_defs plain_row_def chars_plain)

lemma en_plain:
  "list_all plain_row en_title_bar"
  "list_all plain_row en_menu_bar"
  "list_all plain_row en_activity_bar"
  "list_all plain_row en_status_bar"
  "list_all plain_row en_workflow_progress"
  "list_all plain_row en_require_project_placeholder"
  "list_all plain_row en_home_page"
  "list_all plain_row en_library_page"
  "list_all plain_row en_block_editor"
  "list_all plain_row en_device_page"
  "list_all plain_row en_download_page"
  "list_all plain_row en_monitor_page"
  "list_all plain_row en_waveform_page"
  "list_all plain_row en_graph_editor_page"
  "list_all plain_row en_sheet"
  "list_all plain_row en_page_tabs"
  "list_all plain_row en_inspector"
  "list_all plain_row en_checker_panel"
  "list_all plain_row en_sim_panel"
  "list_all plain_row en_stimulus_panel"
  "list_all plain_row en_analysis_panel"
  "list_all plain_row en_hardware_tree"
  "list_all plain_row en_station_bar"
  "list_all plain_row en_binding_properties"
  "list_all plain_row en_external_var_table"
  "list_all plain_row en_point_board"
  "list_all plain_row en_library_components"
  "list_all plain_row en_monitor_components"
  "list_all plain_row en_context_menu"
  "list_all plain_row en_error_banner"
  "list_all plain_row en_common"
  by (simp_all add: en_defs plain_row_def chars_plain)

section \<open>The tables\<close>

lemma texts_plain: "list_all plain_row zh_texts" "list_all plain_row en_texts"
  unfolding zh_texts_def en_texts_def by (simp_all add: zh_plain en_plain)

lemma same_keys: "map fst zh_texts = map fst en_texts"
  unfolding zh_texts_def en_texts_def by (simp add: map_concat group_keys)

lemma no_brace_kept: "CHR ''{'' \<notin> set s \<Longrightarrow> fold (\<lambda>(k, v). js_replace (CHR ''{'' # k @ ''}'') v) args s = s"
proof (induction args)
  case (Cons kv args)
  have "split_at seen (CHR ''{'' # p) s = None" for seen p
    using Cons.prems by (induction s arbitrary: seen) auto
  then show ?case
    using Cons by (cases kv) (simp add: js_replace_def)
qed simp

text \<open>
  C34: the texts of the two languages belong to the same keys, in the same order; so every key has a text in either
  language, which is shown as it stands in its table, and neither the text of the other language nor the key. No
  text has a placeholder, so whatever names or numbers a page hands over with a key are left out of the text.
\<close>

theorem texts_complete:
  assumes "key \<in> set (map fst zh_texts)" and "locale = ''zh-CN'' \<or> locale = ''en''"
  shows "map fst zh_texts = map fst en_texts
    \<and> text_table locale key = Some (translate text_table locale key args)
    \<and> (key, translate text_table locale key args) \<in> set (if locale = ''en'' then en_texts else zh_texts)"
proof -
  define rows where "rows = (if locale = ''en'' then en_texts else zh_texts)"
  have "map fst rows = map fst zh_texts"
    by (cases "locale = ''en''") (simp_all add: rows_def same_keys)
  then have key: "key \<in> set (map fst rows)"
    using assms(1) by simp
  have plain: "list_all plain_row rows"
    using texts_plain by (simp add: rows_def)
  have table: "text_table locale key = map_of (rev rows) key"
    using assms(2) by (auto simp: text_table_def rows_def)
  then obtain x where x: "text_table locale key = Some x"
    using key by (cases "map_of (rev rows) key") (auto simp: map_of_eq_None_iff image_iff)
  then have row: "(key, x) \<in> set rows"
    using map_of_SomeD [of "rev rows" key x] table by simp
  then have "CHR ''{'' \<notin> set x"
    using plain by (auto simp: list_all_iff plain_row_def)
  then have "translate text_table locale key args = x"
    by (simp add: translate_def x no_brace_kept)
  then show ?thesis
    using row x same_keys by (simp add: rows_def)
qed

theorem texts_complete_witness: "text_table ''en'' ''menu.file'' = Some (translate text_table ''en'' ''menu.file'' [])"
  using texts_complete [of "''menu.file''" "''en''" "[]"] by (simp add: zh_texts_def zh_menu_bar_def)

end
