(* ===== verification/GraphScreen.thy ===== *)
theory GraphScreen
  imports GraphPalette
begin

text \<open>
  The graph editor around its session (\<open>pages/GraphEditorPage.tsx\<close>): the tables it loads when it opens and
  whenever one of the values its load depends on is another one, the points of the station with their late answers, the command that
  saves the project, and what the toolbar, the palette and the list of variables show.
\<close>

section \<open>State\<close>

text \<open>What the page tells with a toast that is not an error; errors are kept by the session.\<close>

datatype desk_note = NoProject | ProjectSaved string | PointsRefreshed

text \<open>
  What a load waits for. \<open>fail\<close> depends on the texts, so that it is another function after each change of the language;
  its number stands for it. \<open>gd_deps\<close> are the values of the last run of the load.
\<close>

datatype load_stage = WaitTables | WaitFirst string | WaitCross | LoadOver

record graph_desk =
  gd_session :: session
  gd_library :: "(string, library_block) obj"
  gd_palette :: "library_block list"
  gd_stations :: "string list"
  gd_system :: "system_var_row list"
  gd_external :: "external_var_row list"
  gd_filter :: string
  gd_notes :: "desk_note list"
  gd_fail :: nat
  gd_project :: "string option"
  gd_deps :: "(nat \<times> string option) option"
  gd_loads :: "load_stage list"

definition initial_desk :: graph_desk where
  "initial_desk =
     \<lparr>gd_session = initial_session, gd_library = [], gd_palette = [], gd_stations = [], gd_system = [], gd_external = [],
      gd_filter = [], gd_notes = [], gd_fail = 0, gd_project = None, gd_deps = None, gd_loads = []\<rparr>"

definition on_session :: "(session \<Rightarrow> session) \<Rightarrow> graph_desk \<Rightarrow> graph_desk" where
  "on_session g d = d\<lparr>gd_session := g (gd_session d)\<rparr>"

definition tell :: "desk_note \<Rightarrow> graph_desk \<Rightarrow> graph_desk" where
  "tell n d = d\<lparr>gd_notes := gd_notes d @ [n]\<rparr>"

section \<open>Loading\<close>

text \<open>
  The four tables are asked for at once; the first error stands for all. Then comes the first page, when there is
  one, and then the cross-page table; the second component is the page that is asked for next.
\<close>

record opening_tables =
  op_pages :: "page_row list"
  op_blocks :: "library_block list"
  op_stations :: "string list"
  op_system :: "system_var_row list"

definition tables_answered ::
    "(string \<Rightarrow> string \<Rightarrow> int) \<Rightarrow> string + opening_tables \<Rightarrow> graph_desk \<Rightarrow> graph_desk \<times> string option" where
  "tables_answered cmp answer d =
     (case answer of
        Inl message \<Rightarrow> (on_session (fail message) d, None)
      | Inr tables \<Rightarrow>
          (let s = gd_session d in
           (d\<lparr>gd_library := index_library (op_blocks tables), gd_system := op_system tables,
              gd_palette := sorted_palette cmp (op_blocks tables), gd_stations := op_stations tables,
              gd_session := s\<lparr>se_station := initial_station (se_station s) (op_stations tables), se_pages := op_pages tables\<rparr>\<rparr>,
            case op_pages tables of [] \<Rightarrow> None | row # others \<Rightarrow> Some (pr_id row))))"

text \<open>An error of the page skips the cross-page table; the second component says whether that is asked for.\<close>

definition first_page_answered :: "string \<Rightarrow> string + page_doc \<Rightarrow> graph_desk \<Rightarrow> graph_desk \<times> bool" where
  "first_page_answered i answer d =
     (case answer of
        Inl message \<Rightarrow> (on_session (fail message) d, False)
      | Inr doc \<Rightarrow> (on_session (loadPage i doc) d, True))"

definition cross_answered :: "string + cross_page_row list \<Rightarrow> graph_desk \<Rightarrow> graph_desk" where
  "cross_answered answer d =
     (case answer of
        Inl message \<Rightarrow> on_session (fail message) d
      | Inr found \<Rightarrow> on_session (\<lambda>s. s\<lparr>se_cross := found\<rparr>) d)"

text \<open>The effect of the load: it runs when the page is mounted, and again when \<open>fail\<close> or the path of the project changed.\<close>

definition load_effect :: "graph_desk \<Rightarrow> graph_desk" where
  "load_effect d =
     (if gd_deps d = Some (gd_fail d, gd_project d) then d
      else d\<lparr>gd_deps := Some (gd_fail d, gd_project d), gd_loads := gd_loads d @ [WaitTables]\<rparr>)"

definition open_desk :: "string option \<Rightarrow> graph_desk" where
  "open_desk project = load_effect (initial_desk\<lparr>gd_project := project\<rparr>)"

text \<open>The language is changed in the title bar; the effects that depend on \<open>fail\<close> run again.\<close>

definition language_changes :: "graph_desk \<Rightarrow> graph_desk" where
  "language_changes d = load_effect (on_session save_effect (d\<lparr>gd_fail := gd_fail d + 1\<rparr>))"

definition project_changes :: "string option \<Rightarrow> graph_desk \<Rightarrow> graph_desk" where
  "project_changes project d = load_effect (d\<lparr>gd_project := project\<rparr>)"

text \<open>An answer takes its load one stage further; loads that were started earlier go on beside it.\<close>

datatype load_answer =
    TablesAnswer "string + opening_tables"
  | FirstAnswer "string + page_doc"
  | CrossAnswer "string + cross_page_row list"

definition after_tables :: "string + opening_tables \<Rightarrow> string option \<Rightarrow> load_stage" where
  "after_tables answer first =
     (case answer of Inl m \<Rightarrow> LoadOver | Inr tables \<Rightarrow> (case first of None \<Rightarrow> WaitCross | Some i \<Rightarrow> WaitFirst i))"

definition load_answered :: "(string \<Rightarrow> string \<Rightarrow> int) \<Rightarrow> nat \<Rightarrow> load_answer \<Rightarrow> graph_desk \<Rightarrow> graph_desk" where
  "load_answered cmp n answer d =
     (if n < length (gd_loads d) then
        (case (gd_loads d ! n, answer) of
           (WaitTables, TablesAnswer a) \<Rightarrow>
             (let (d1, first) = tables_answered cmp a d in d1\<lparr>gd_loads := (gd_loads d)[n := after_tables a first]\<rparr>)
         | (WaitFirst i, FirstAnswer a) \<Rightarrow>
             (let (d1, goes_on) = first_page_answered i a d
              in d1\<lparr>gd_loads := (gd_loads d)[n := if goes_on then WaitCross else LoadOver]\<rparr>)
         | (WaitCross, CrossAnswer a) \<Rightarrow> (cross_answered a d)\<lparr>gd_loads := (gd_loads d)[n := LoadOver]\<rparr>
         | _ \<Rightarrow> d)
      else d)"

datatype desk_event =
    InSession session_event
  | LanguageChanges
  | ProjectChanges "string option"
  | LoadAnswered nat load_answer

definition desk_step :: "(string \<Rightarrow> string \<Rightarrow> int) \<Rightarrow> desk_event \<Rightarrow> graph_desk \<Rightarrow> graph_desk" where
  "desk_step cmp e d =
     (case e of
        InSession se \<Rightarrow> on_session (session_step se) d
      | LanguageChanges \<Rightarrow> language_changes d
      | ProjectChanges project \<Rightarrow> project_changes project d
      | LoadAnswered n answer \<Rightarrow> load_answered cmp n answer d)"

section \<open>The points of the station\<close>

text \<open>Another station empties nothing at once; \<open>Some\<close> is the station that is asked for its points.\<close>

definition choose_station :: "string \<Rightarrow> graph_desk \<Rightarrow> graph_desk \<times> string option" where
  "choose_station station d =
     (let d1 = on_session (\<lambda>s. s\<lparr>se_station := station\<rparr>) d in
      if se_station (gd_session d) = station then (d1, None)
      else if station = [] then (d1\<lparr>gd_external := []\<rparr>, None)
      else (d1, Some station))"

definition points_answered :: "string + external_var_row list \<Rightarrow> graph_desk \<Rightarrow> graph_desk" where
  "points_answered answer d = d\<lparr>gd_external := (case answer of Inl message \<Rightarrow> [] | Inr found \<Rightarrow> found)\<rparr>"

text \<open>The event \<open>bindings:changed\<close> asks again; its answer is told, and its error is dropped.\<close>

definition bindings_changed :: "graph_desk \<Rightarrow> string option" where
  "bindings_changed d = (if se_station (gd_session d) = [] then None else Some (se_station (gd_session d)))"

definition refresh_answered :: "string + external_var_row list \<Rightarrow> graph_desk \<Rightarrow> graph_desk" where
  "refresh_answered answer d =
     (case answer of Inl message \<Rightarrow> d | Inr found \<Rightarrow> tell PointsRefreshed (d\<lparr>gd_external := found\<rparr>))"

section \<open>Saving the project\<close>

text \<open>\<open>Ctrl+S\<close>: the project is its name with its path; whether the service is asked to save.\<close>

definition save_pressed :: "(string \<times> string) option \<Rightarrow> graph_desk \<Rightarrow> graph_desk \<times> bool" where
  "save_pressed project d = (case project of None \<Rightarrow> (tell NoProject d, False) | Some p \<Rightarrow> (d, True))"

definition project_saved :: "string \<times> string \<Rightarrow> string + unit \<Rightarrow> graph_desk \<Rightarrow> graph_desk" where
  "project_saved project answer d =
     (case answer of
        Inl message \<Rightarrow> on_session (fail message) d
      | Inr u \<Rightarrow> tell (ProjectSaved (snd project @ ''/logic'')) d)"

section \<open>The toolbar\<close>

record toolbar_view =
  tv_program :: string
  tv_stations :: "(string \<times> string) list"
  tv_station :: string
  tv_check_enabled :: bool
  tv_cycles :: string
  tv_sim :: "string \<times> bool"
  tv_delete_enabled :: bool
  tv_zoom :: string
  tv_project :: string

definition toolbar_of :: "(string \<Rightarrow> string) \<Rightarrow> (string \<times> string) option \<Rightarrow> graph_desk \<Rightarrow> toolbar_view" where
  "toolbar_of t project d =
     (let s = gd_session d in
      \<lparr>tv_program = (case se_page s of None \<Rightarrow> ''MAIN'' | Some p \<Rightarrow> page_name p),
       tv_stations = (if gd_stations d = [] then [([], t ''graph.noStation'')] else map (\<lambda>i. (i, i)) (gd_stations d)),
       tv_station = se_station s,
       tv_check_enabled = (\<not> se_busy s),
       tv_cycles = show_num (se_sim_cycles s),
       tv_sim = (if se_sim_busy s then t ''graph.simulating'' else t ''graph.sim'', \<not> (se_busy s \<or> se_sim_busy s)),
       tv_delete_enabled = (se_selected s \<noteq> None),
       tv_zoom = show_int (round_half_up (double_of (se_zoom s * 100))) @ ''%'',
       tv_project = (case project of None \<Rightarrow> t ''title.unnamed'' | Some (name, path) \<Rightarrow> name @ sep_dot @ ''logic/'')\<rparr>)"

text \<open>The buttons beside the zoom.\<close>

datatype zoom_button = ZoomOut | ZoomIn

fun press_zoom :: "zoom_button \<Rightarrow> session \<Rightarrow> session" where
  "press_zoom ZoomOut s = zoom_out s"
| "press_zoom ZoomIn s = zoom_in s"

section \<open>The palette\<close>

definition arrow_text :: string where
  "arrow_text = utf8 [226, 134, 146]"

record palette_item =
  pi_kind :: string
  pi_name :: string
  pi_pins :: string
  pi_title :: string
  pi_payload :: "string \<times> string"

definition palette_item_of :: "(string \<Rightarrow> string) \<Rightarrow> library_block \<Rightarrow> palette_item" where
  "palette_item_of t b =
     (let ins = show_nat (length (lib_inputs b)); outs = show_nat (length (lib_outputs b)) in
      \<lparr>pi_kind = (if lib_block_kind b = Some ''FUN'' then ''FUN'' else ''FB''),
       pi_name = lib_name b, pi_pins = ins @ arrow_text @ outs,
       pi_title = lib_description b @ [CHR 0x0A] @ t ''graph.input'' @ '' '' @ ins @ '' / '' @ t ''graph.output'' @ '' '' @ outs,
       pi_payload = (lib_id b, stTypeOf b)\<rparr>)"

text \<open>A row offers its pins, or the way to the pin it has on the sheet.\<close>

record variable_row =
  vr_name :: string
  vr_colour :: string
  vr_title :: string
  vr_badge :: "string option"
  vr_type :: string
  vr_buttons :: "string list"

definition variable_row_of :: "(string \<Rightarrow> string) \<Rightarrow> palette_row \<Rightarrow> variable_row" where
  "variable_row_of t row =
     \<lparr>vr_name = rw_name row, vr_colour = typeColor (rw_type row), vr_title = rw_title row, vr_badge = rw_badge row,
      vr_type = rw_type row,
      vr_buttons = (if rw_actions row = [] then [t ''graph.onPage''] else map ac_label (rw_actions row))\<rparr>"

record group_view =
  gv_heading :: string
  gv_create :: "string option"
  gv_rows :: "variable_row list"
  gv_empty :: "string option"
  gv_note :: "string option"

definition group_view_of :: "(string \<Rightarrow> string) \<Rightarrow> string \<Rightarrow> palette_group \<Rightarrow> group_view" where
  "group_view_of t filt g =
     (let shown = shown_rows filt g in
      \<lparr>gv_heading = pg_title g @ sep_dot @ show_nat (length shown), gv_create = map_option fst (pg_create g),
       gv_rows = map (variable_row_of t) shown, gv_empty = (if shown = [] then Some (pg_empty g) else None),
       gv_note = pg_note g\<rparr>)"

section \<open>The rest of the page\<close>

definition sheet_shown :: "graph_desk \<Rightarrow> bool" where
  "sheet_shown d \<longleftrightarrow> se_page (gd_session d) \<noteq> None"

definition timeline_shown :: "session \<Rightarrow> bool" where
  "timeline_shown s \<longleftrightarrow> (case se_sim s of None \<Rightarrow> False | Some run \<Rightarrow> sim_ok run \<and> or_empty (sim_timeline run) \<noteq> [])"

definition forced_bar :: "(string \<Rightarrow> string) \<Rightarrow> session \<Rightarrow> string option" where
  "forced_bar t s =
     (let n = length (obj_keys (shown_forced s)) in
      if n > 0 then Some (t ''graph.forcedPins'' @ '' '' @ show_nat n @ '' '' @ t ''graph.forcedPinsMsg'') else None)"

text \<open>The variables of the sheet: name, colour, whether it is bound, whether it crosses pages, type, and whether it is selected.\<close>

record port_line =
  pl_name :: string
  pl_colour :: string
  pl_bound :: bool
  pl_cross :: bool
  pl_type :: string
  pl_selected :: bool

definition port_line_of :: "session \<Rightarrow> port_direction \<Rightarrow> port \<Rightarrow> port_line" where
  "port_line_of s direction p =
     \<lparr>pl_name = port_name p, pl_colour = typeColor (port_type p),
      pl_bound = (case port_bind p of None \<Rightarrow> False | Some b \<Rightarrow> opt_or (bind_variable b) [] \<noteq> []),
      pl_cross = (port_scope p = Some Intermediate), pl_type = port_type p,
      pl_selected = (se_selected s = Some (SelPort direction (port_name p)))\<rparr>"

definition direction_label :: "(string \<Rightarrow> string) \<Rightarrow> port_direction \<Rightarrow> string" where
  "direction_label t direction =
     (case direction of Input \<Rightarrow> t ''graph.direction.input'' | Output \<Rightarrow> t ''graph.direction.output''
      | In_out \<Rightarrow> t ''graph.direction.inout'')"

definition variable_list :: "(string \<Rightarrow> string) \<Rightarrow> session \<Rightarrow> (string \<times> port_line list) list" where
  "variable_list t s =
     (case se_page s of None \<Rightarrow> []
      | Some page \<Rightarrow>
          map (\<lambda>direction. (direction_label t direction, map (port_line_of s direction) (iface_ports (page_interface page) direction)))
            [Input, In_out, Output])"

definition press_variable :: "port_direction \<Rightarrow> string \<Rightarrow> session \<Rightarrow> session" where
  "press_variable direction name s = s\<lparr>se_selected := Some (SelPort direction name)\<rparr>"

end
