(* ===== verification/GraphScreenLaws.thy ===== *)
theory GraphScreenLaws
  imports GraphScreen
begin

text \<open>
  What holds of the graph editor around its session: what a new load drops, which points the palette binds, what
  a saved project holds, what the zoom can be, and which block a drop finds.
\<close>

section \<open>Loading again\<close>













section \<open>The points of a station\<close>

text \<open>
  An answer for a station that was left replaces the points of the one that was chosen: the palette then offers
  the points of the old station, and every pin it makes is bound to a point of that name on the new one.
\<close>

theorem late_points_bind_elsewhere:
  assumes "d' = points_answered (Inr old) (points_answered (Inr new) (fst (choose_station station d)))"
  shows "map rw_name (points t (se_station (gd_session d')) ports (gd_external d') direction)
      = map ev_name (filter (\<lambda>row. ev_direction row = direction \<and> ev_enabled row \<noteq> Some False) old)
    \<and> list_all (\<lambda>row. seed_bind (rw_seed row) = Some \<lparr>bind_station = Some station, bind_variable = Some (rw_name row)\<rparr>)
        (points t (se_station (gd_session d')) ports (gd_external d') direction)"
proof -
  have "se_station (gd_session d') = station" and "gd_external d' = old"
    by (auto simp: assms choose_station_def points_answered_def on_session_def Let_def)
  then show ?thesis
    by (simp add: points_def point_row_def list_all_iff comp_def)
qed

theorem late_points_bind_elsewhere_witness:
  "map rw_name (points (\<lambda>k. k) (se_station (gd_session (points_answered (Inr [sample_point]) (points_answered (Inr [])
      (fst (choose_station ''S2'' initial_desk)))))) []
      (gd_external (points_answered (Inr [sample_point]) (points_answered (Inr []) (fst (choose_station ''S2'' initial_desk))))) ''input'')
   = [''AI_1'']"
  using conjunct1 [OF late_points_bind_elsewhere [OF refl, of "\<lambda>k. k" "[sample_point]" "[]" "''S2''" initial_desk "[]" "''input''"]]
  by (simp add: sample_point_def)

section \<open>Saving\<close>

text \<open>
  \<open>Ctrl+S\<close> right after an edit tells that the project is saved, while the service still holds the sheet
  without it: saving the project does not wait for the timer that sends the edit.
\<close>

theorem saved_without_edit:
  assumes "se_page (gd_session d) = Some p" and "se_sent (gd_session d) = Some p" and "new_object e p" and "page_step e p \<noteq> p"
    and "d1 = on_session (patch e) d" and "d' = project_saved project (Inr ()) (fst (save_pressed (Some project) d1))"
  shows "last (gd_notes d') = ProjectSaved (snd project @ ''/logic'') \<and> snd (save_pressed (Some project) d1)
    \<and> se_sent (gd_session d') = Some p \<and> se_page (gd_session d') = Some (page_step e p)
    \<and> se_timer (gd_session d') = Some (page_step e p, Suc (se_rev (gd_session d)))"
  using assms by (simp add: project_saved_def save_pressed_def tell_def on_session_def patch_def page_effects_defs Let_def)

theorem saved_without_edit_witness:
  "last (gd_notes (project_saved (''Plant'', ''/p'') (Inr ()) (fst (save_pressed (Some (''Plant'', ''/p''))
     (on_session (patch AddConstant) (initial_desk\<lparr>gd_session := tab_loaded ''P1'' wired_page initial_session\<rparr>))))))
   = ProjectSaved ''/p/logic''"
proof -
  let ?d = "initial_desk\<lparr>gd_session := tab_loaded ''P1'' wired_page initial_session\<rparr>"
  have "se_page (gd_session ?d) = Some wired_page" and "se_sent (gd_session ?d) = Some wired_page"
    by (simp_all add: tab_loaded_defs)
  moreover have "length (page_constants (page_step AddConstant wired_page)) = 2"
    by (simp add: page_step_def add_constant_def wired_page_def Let_def)
  then have "page_step AddConstant wired_page \<noteq> wired_page"
    by (auto simp: wired_page_def)
  ultimately show ?thesis
    using saved_without_edit [OF _ _ _ _ refl refl, of ?d wired_page AddConstant "(''Plant'', ''/p'')"]
    by (simp add: new_object_def)
qed

section \<open>The zoom\<close>

text \<open>The error of the few roundings of a step is far below half a percent.\<close>

lemma step_percent:
  assumes "30 \<le> k" and "k \<le> 160" and "h = 1 \<or> h = - 1"
  shows "whole_percent (double_of (double_of (of_int k / 100) + h * double_of (1 / 10)))
    = double_of (of_int (k + (if h = 1 then 10 else - 10)) / 100)"
proof -
  define v where "v = double_of (of_int k / 100)"
  define t where "t = double_of (1 / 10)"
  define w where "w = double_of (v + h * t)"
  define u where "u = double_of (w * 100)"
  define j :: int where "j = k + (if h = 1 then 10 else - 10)"
  note eps = double_eps
  have "(of_int k :: rat) \<le> 160" and "30 \<le> (of_int k :: rat)"
    using assms(1,2) by simp_all
  then have v: "\<bar>v - of_int k / 100\<bar> \<le> 2 * double_eps"
    using double_near [of "of_int k / 100" 2] by (simp add: v_def)
  have t: "\<bar>t - 1 / 10\<bar> \<le> double_eps"
    using double_near [of "1 / 10" 1] by (simp add: t_def)
  have j: "of_int j / 100 = of_int k / 100 + h * (1 / 10)"
    using assms(3) by (auto simp: j_def field_simps)
  have vt: "\<bar>v + h * t - of_int j / 100\<bar> \<le> 3 * double_eps"
    using v t assms(3) unfolding j by (auto simp: abs_le_iff)
  have jb: "\<bar>of_int j / 100\<bar> \<le> (2 :: rat)"
    using assms by (auto simp: j_def)
  have "\<bar>v + h * t\<bar> \<le> 3"
    using vt jb eps by (auto simp: abs_le_iff)
  then have w: "\<bar>w - (v + h * t)\<bar> \<le> 3 * double_eps"
    using double_near [of "v + h * t" 3] by (simp add: w_def)
  have wj: "\<bar>w - of_int j / 100\<bar> \<le> 6 * double_eps"
    using w vt by (auto simp: abs_le_iff)
  then have "\<bar>w * 100\<bar> \<le> 300"
    using jb eps by (auto simp: abs_le_iff)
  then have "\<bar>u - w * 100\<bar> \<le> 300 * double_eps"
    using double_near [of "w * 100" 300] by (simp add: u_def)
  then have "\<bar>u - of_int j\<bar> < 1 / 2"
    using wj eps by linarith
  then have "round_half_up u = j"
    by (rule round_near)
  then show ?thesis
    by (simp add: whole_percent_def u_def w_def v_def t_def j_def)
qed

lemma percent_apart: "j < k \<Longrightarrow> 0 \<le> j \<Longrightarrow> k \<le> 200 \<Longrightarrow> double_of (of_int j / 100) < double_of (of_int k / 100)"
proof -
  assume jk: "j < k" "0 \<le> j" "k \<le> 200"
  then have "(of_int j :: rat) + 1 \<le> of_int k" and "\<bar>of_int j / 100\<bar> \<le> (2 :: rat)" and "\<bar>of_int k / 100\<bar> \<le> (2 :: rat)"
    by linarith+
  then show ?thesis
    using double_near [of "of_int j / 100" 2] double_near [of "of_int k / 100" 2] double_eps by linarith
qed

definition percent :: "int \<Rightarrow> rat" where
  "percent k = double_of (of_int k / 100)"

lemma percent_max: "0 \<le> j \<Longrightarrow> j \<le> 200 \<Longrightarrow> max (double_of (3 / 10)) (percent j) = percent (max 30 j)"
  using percent_apart [of j 30] percent_apart [of 30 j] by (cases j "30 :: int" rule: linorder_cases) (auto simp: percent_def max_def)

lemma percent_min: "0 \<le> j \<Longrightarrow> j \<le> 200 \<Longrightarrow> min (double_of (8 / 5)) (percent j) = percent (min 160 j)"
  using percent_apart [of j 160] percent_apart [of 160 j] by (cases j "160 :: int" rule: linorder_cases) (auto simp: percent_def min_def)

lemma press_zoom_percent:
  assumes "se_zoom s = percent k" and "30 \<le> k" and "k \<le> 160"
  shows "\<exists>j. 30 \<le> j \<and> j \<le> 160 \<and> se_zoom (press_zoom b s) = percent j"
proof (cases b)
  case ZoomOut
  have "se_zoom (press_zoom b s) = percent (max 30 (k - 10))"
    using step_percent [of k "- 1"] percent_max [of "k - 10"] assms by (simp add: ZoomOut zoom_out_def) (simp add: percent_def)
  then show ?thesis
    using assms(2,3) by (intro exI [of _ "max 30 (k - 10)"]) simp
next
  case ZoomIn
  have "se_zoom (press_zoom b s) = percent (min 160 (k + 10))"
    using step_percent [of k 1] percent_min [of "k + 10"] assms by (simp add: ZoomIn zoom_in_def) (simp add: percent_def)
  then show ?thesis
    using assms(2,3) by (intro exI [of _ "min 160 (k + 10)"]) simp
qed

lemma percent_shown: "30 \<le> k \<Longrightarrow> k \<le> 160 \<Longrightarrow> round_half_up (double_of (percent k * 100)) = k"
proof (rule round_near)
  assume k: "30 \<le> k" "k \<le> 160"
  define v where "v = percent k"
  have "\<bar>v - of_int k / 100\<bar> \<le> 2 * double_eps"
    using double_near [of "of_int k / 100" 2] k by (simp add: v_def percent_def)
  moreover have "30 \<le> (of_int k :: rat)" and "(of_int k :: rat) \<le> 160"
    using k by simp_all
  moreover have "\<bar>v * 100\<bar> \<le> 300"
    using calculation double_eps by linarith
  then have "\<bar>double_of (v * 100) - v * 100\<bar> \<le> 300 * double_eps"
    by (rule double_near)
  ultimately show "\<bar>double_of (percent k * 100) - of_int k\<bar> < 1 / 2"
    unfolding v_def [symmetric] using double_eps by linarith
qed

text \<open>
  C32: however often the zoom is pressed, in the arithmetic of doubles with its errors, the zoom is the double of a
  whole number of percent between 30 and 160, and the toolbar shows exactly that number.
\<close>

theorem zoom_whole_percent:
  "\<exists>k. 30 \<le> k \<and> k \<le> 160 \<and> se_zoom (fold press_zoom bs initial_session) = double_of (of_int k / 100)
    \<and> tv_zoom (toolbar_of t project (initial_desk\<lparr>gd_session := fold press_zoom bs initial_session\<rparr>)) = show_int k @ ''%''"
proof -
  have "\<exists>j. 30 \<le> j \<and> j \<le> 160 \<and> se_zoom (fold press_zoom bs s) = percent j"
    if "se_zoom s = percent k" "30 \<le> k" "k \<le> 160" for s k
    using that
  proof (induction bs arbitrary: s k)
    case (Cons b bs)
    then show ?case
      using press_zoom_percent [of s k b] by auto
  qed auto
  from this [of initial_session 62] obtain k where
    "30 \<le> k" "k \<le> 160" "se_zoom (fold press_zoom bs initial_session) = percent k"
    by (auto simp: initial_session_def percent_def)
  then show ?thesis
    by (intro exI [of _ k]) (simp add: toolbar_of_def Let_def percent_shown, simp add: percent_def)
qed

section \<open>Dropping a block\<close>

definition block_keys :: "library_block \<Rightarrow> string set" where
  "block_keys b = {lib_id b, stTypeOf (typed_block b), lib_name b}"

lemma typed_fields [simp]: "lib_id (typed_block b) = lib_id b" "lib_name (typed_block b) = lib_name b"
  by (simp_all add: typed_block_def)

lemma index_library_get:
  "obj_get (index_library blocks) k = map_option typed_block (find (\<lambda>b. k \<in> block_keys b) (rev blocks))"
proof -
  define entry where "entry b index = (let d = typed_block b in
       obj_put (lib_name d) d (obj_put (stTypeOf d) d (obj_put (lib_id d) d index)))" for b index
  have step: "obj_get (entry b m) k = (if k \<in> block_keys b then Some (typed_block b) else obj_get m k)" for b m
    by (simp add: entry_def block_keys_def obj_get_def map_of_obj_put Let_def)
  have "obj_get (fold entry blocks m) k
      = (case find (\<lambda>b. k \<in> block_keys b) (rev blocks) of None \<Rightarrow> obj_get m k | Some b \<Rightarrow> Some (typed_block b))" for m
  proof (induction blocks arbitrary: m rule: rev_induct)
    case (snoc b bs)
    then show ?case
      by (simp add: step)
  qed simp
  then have "obj_get (fold entry blocks []) k = map_option typed_block (find (\<lambda>b. k \<in> block_keys b) (rev blocks))"
    by (simp add: obj_get_def split: option.split)
  then show ?thesis
    by (simp add: index_library_def entry_def [abs_def] Let_def)
qed

text \<open>
  C37: a block that is dragged from the palette is the block that is placed, when no other block of the library is
  called by its id; when another one that comes later bears its id as a name or a type, that one is placed instead,
  for the index of the library holds ids, types and names together.
\<close>

theorem drop_finds_block:
  assumes "b \<in> set blocks" and "b' = last (filter (\<lambda>x. lib_id b \<in> block_keys x) blocks)"
  shows "drop_definition (index_library blocks) (pi_payload (palette_item_of t b)) = Some (typed_block b')
    \<and> (list_all (\<lambda>x. x = b \<or> lib_id b \<notin> block_keys x) blocks \<longrightarrow> b' = b)"
proof -
  have last_found: "find P (rev xs) = (if filter P xs = [] then None else Some (last (filter P xs)))"
    for P :: "library_block \<Rightarrow> bool" and xs
    by (induction xs rule: rev_induct) auto
  have own: "b \<in> set (filter (\<lambda>x. lib_id b \<in> block_keys x) blocks)"
    using assms(1) by (simp add: block_keys_def)
  then have some: "filter (\<lambda>x. lib_id b \<in> block_keys x) blocks \<noteq> []"
    by (metis empty_iff empty_set)
  then have "obj_get (index_library blocks) (lib_id b) = Some (typed_block b')"
    by (simp add: index_library_get last_found assms(2))
  moreover have "b' = b" if "list_all (\<lambda>x. x = b \<or> lib_id b \<notin> block_keys x) blocks"
    using that last_in_set [OF some] by (auto simp: assms(2) list_all_iff)
  ultimately show ?thesis
    by (simp add: drop_definition_def palette_item_of_def Let_def)
qed

theorem drop_finds_block_witness:
  "drop_definition (index_library [add_block, add_block\<lparr>lib_id := ''X'', lib_name := ''ADD''\<rparr>]) (pi_payload (palette_item_of (\<lambda>k. k) add_block))
    = Some (typed_block (add_block\<lparr>lib_id := ''X'', lib_name := ''ADD''\<rparr>))"
  using drop_finds_block [of add_block "[add_block, add_block\<lparr>lib_id := ''X'', lib_name := ''ADD''\<rparr>]", OF _ refl]
  by (simp add: block_keys_def add_block_def)

end
