(* ===== verification/InspectorView.thy ===== *)
theory InspectorView
  imports PageEdits
begin

text \<open>
  The inspector of the sheet editor (\<open>components/graph/Inspector.tsx\<close>): which element it shows, the forms, and
  the edits they send. Some of its fields are uncontrolled: they keep the text they were mounted with, whatever
  the document says, for as long as React reuses them. The texts of these fields are a state of their own.
\<close>

section \<open>The element that is shown\<close>

datatype element =
    NoElement
  | GoneElement string
  | WireElement connection
  | BlockElement block_node
  | ConstantElement constant_node
  | PortElement port_direction port

definition element_at :: "page_doc \<Rightarrow> selection option \<Rightarrow> element" where
  "element_at page selected =
     (case selected of
        None \<Rightarrow> NoElement
      | Some (SelWire i) \<Rightarrow>
          if i < length (page_connections page) then WireElement (page_connections page ! i) else GoneElement ''inspector.wireDeleted''
      | Some (SelBlock i) \<Rightarrow>
          (case find (\<lambda>b. block_id b = i) (page_blocks page) of
             None \<Rightarrow> GoneElement ''inspector.blockDeleted'' | Some b \<Rightarrow> BlockElement b)
      | Some (SelConstant i) \<Rightarrow>
          (case find (\<lambda>c. const_id c = i) (page_constants page) of
             None \<Rightarrow> GoneElement ''inspector.constantDeleted'' | Some c \<Rightarrow> ConstantElement c)
      | Some (SelPort d name) \<Rightarrow>
          (case find (\<lambda>p. port_name p = name) (iface_ports (page_interface page) d) of
             None \<Rightarrow> GoneElement ''inspector.varDeleted'' | Some p \<Rightarrow> PortElement d p))"

section \<open>The fields that keep their text\<close>

text \<open>
  The text of the first field, which a block controls and a port does not, and the texts of the name and the value
  field of each parameter. A port that is shown after a port or a block reuses the first field; the rows of
  parameters are told apart by the name of the parameter only.
\<close>

record inspector_dom =
  dm_name :: "string option"
  dm_params :: "(string, string \<times> string) obj"

definition no_fields :: inspector_dom where
  "no_fields = \<lparr>dm_name = None, dm_params = []\<rparr>"

definition param_texts :: "inspector_dom \<Rightarrow> string \<Rightarrow> jsval \<Rightarrow> string \<times> string" where
  "param_texts fs key v = opt_or (obj_get (dm_params fs) key) (key, js_string v)"

definition render_fields :: "element \<Rightarrow> inspector_dom \<Rightarrow> inspector_dom" where
  "render_fields el fs =
     (case el of
        BlockElement b \<Rightarrow> \<lparr>dm_name = Some (block_id b), dm_params = map (\<lambda>(k, v). (k, param_texts fs k v)) (params_of b)\<rparr>
      | PortElement d p \<Rightarrow> \<lparr>dm_name = Some (opt_or (dm_name fs) (port_name p)), dm_params = []\<rparr>
      | _ \<Rightarrow> no_fields)"

section \<open>Events\<close>

datatype inspector_event =
    TypeInstance string
  | TypeParamKey string string
  | LeaveParamKey string
  | TypeParamValue string string
  | LeaveParamValue string
  | PressParamRemove string
  | PressParamAdd
  | TypeConstant string
  | PickConstantType string
  | TypeConstantValue string
  | TypePortName string
  | LeavePortName
  | PickPortType string
  | TypeUnit string
  | PickScope scope
  | PickBinding string

text \<open>What an event does to the texts.\<close>

definition type_text :: "inspector_event \<Rightarrow> inspector_dom \<Rightarrow> inspector_dom" where
  "type_text e fs =
     (case e of
        TypeParamKey key x \<Rightarrow>
          (case obj_get (dm_params fs) key of None \<Rightarrow> fs
           | Some (k, v) \<Rightarrow> fs\<lparr>dm_params := obj_put key (x, v) (dm_params fs)\<rparr>)
      | TypeParamValue key x \<Rightarrow>
          (case obj_get (dm_params fs) key of None \<Rightarrow> fs
           | Some (k, v) \<Rightarrow> fs\<lparr>dm_params := obj_put key (k, x) (dm_params fs)\<rparr>)
      | TypePortName x \<Rightarrow> fs\<lparr>dm_name := Some x\<rparr>
      | _ \<Rightarrow> fs)"

text \<open>The scope with its default, and the system variable that a port stands for.\<close>

definition scope_of :: "port \<Rightarrow> scope" where
  "scope_of p = opt_or (port_scope p) External"

definition system_var :: "system_var_row list \<Rightarrow> port \<Rightarrow> system_var_row option" where
  "system_var system p = find (\<lambda>row. sv_name row = port_name p) system"

text \<open>The edit of the page that an event sends, if any.\<close>

definition block_edit :: "inspector_event \<Rightarrow> block_node \<Rightarrow> inspector_dom \<Rightarrow> page_edit option" where
  "block_edit e b fs =
     (case e of
        TypeInstance x \<Rightarrow> Some (RenameBlock (block_id b) x)
      | LeaveParamKey key \<Rightarrow>
          (case obj_get (params_of b) key of None \<Rightarrow> None
           | Some v \<Rightarrow> Some (EditParam (block_id b) (ParamKey key v (fst (param_texts fs key v)))))
      | LeaveParamValue key \<Rightarrow>
          (case obj_get (params_of b) key of None \<Rightarrow> None
           | Some v \<Rightarrow> Some (EditParam (block_id b) (ParamValue key (snd (param_texts fs key v)))))
      | PressParamRemove key \<Rightarrow> Some (EditParam (block_id b) (ParamRemove key))
      | PressParamAdd \<Rightarrow> Some (EditParam (block_id b) ParamAdd)
      | _ \<Rightarrow> None)"

definition constant_edit :: "inspector_event \<Rightarrow> constant_node \<Rightarrow> page_edit option" where
  "constant_edit e c =
     (case e of
        TypeConstant x \<Rightarrow> Some (RenameConstant (const_id c) x)
      | PickConstantType ty \<Rightarrow> Some (ConstantType (const_id c) ty)
      | TypeConstantValue x \<Rightarrow> Some (ConstantValue (const_id c) x)
      | _ \<Rightarrow> None)"

definition port_edit ::
    "string \<Rightarrow> system_var_row list \<Rightarrow> inspector_event \<Rightarrow> port_direction \<Rightarrow> port \<Rightarrow> inspector_dom \<Rightarrow> page_edit option" where
  "port_edit station system e d p fs =
     (let name = port_name p; free = (system_var system p = None) in
      case e of
        LeavePortName \<Rightarrow>
          (let x = js_trim (opt_or (dm_name fs) name) in if x = [] \<or> x = name then None else Some (RenamePort d name x))
      | PickPortType ty \<Rightarrow> if free then Some (EditPort d name (PortType ty)) else None
      | TypeUnit u \<Rightarrow> Some (EditPort d name (PortUnit u))
      | PickScope sc \<Rightarrow> if free then Some (EditPort d name (PortScope sc)) else None
      | PickBinding v \<Rightarrow> if free \<and> scope_of p = External then Some (EditPort d name (PortBind station v)) else None
      | _ \<Rightarrow> None)"

definition inspector_edit ::
    "string \<Rightarrow> system_var_row list \<Rightarrow> inspector_event \<Rightarrow> element \<Rightarrow> inspector_dom \<Rightarrow> page_edit option" where
  "inspector_edit station system e el fs =
     (case el of
        BlockElement b \<Rightarrow> block_edit e b fs
      | ConstantElement c \<Rightarrow> constant_edit e c
      | PortElement d p \<Rightarrow> port_edit station system e d p fs
      | _ \<Rightarrow> None)"

text \<open>The inspector with the page it shows; the selection is that of the editor.\<close>

record inspector =
  in_page :: page_doc
  in_selected :: "selection option"
  in_dom :: inspector_dom

definition rerender :: "inspector \<Rightarrow> inspector" where
  "rerender i = i\<lparr>in_dom := render_fields (element_at (in_page i) (in_selected i)) (in_dom i)\<rparr>"

definition inspector_step :: "string \<Rightarrow> system_var_row list \<Rightarrow> inspector_event \<Rightarrow> inspector \<Rightarrow> inspector" where
  "inspector_step station system e i =
     (let fs = type_text e (in_dom i) in
      case inspector_edit station system e (element_at (in_page i) (in_selected i)) fs of
        None \<Rightarrow> i\<lparr>in_dom := fs\<rparr>
      | Some ed \<Rightarrow> rerender (i\<lparr>in_dom := fs, in_page := page_step ed (in_page i)\<rparr>))"

definition select_element :: "selection option \<Rightarrow> inspector \<Rightarrow> inspector" where
  "select_element sel i = rerender (i\<lparr>in_selected := sel\<rparr>)"

section \<open>The forms\<close>

definition ST_TYPES :: "string list" where
  "ST_TYPES =
     [''BOOL'', ''BYTE'', ''WORD'', ''DWORD'', ''SINT'', ''INT'', ''DINT'', ''LINT'', ''REAL'', ''LREAL'', ''TIME'',
      ''QBOOL'', ''QINT'', ''QDINT'', ''QREAL'', ''STRING'']"

definition SCOPES :: "(string \<Rightarrow> string) \<Rightarrow> (scope \<times> string) list" where
  "SCOPES t =
     [(External, t ''inspector.externalVar''), (Intermediate, t ''inspector.middleVar''), (Local, t ''inspector.localVar'')]"

definition box_text :: string where
  "box_text = utf8 [226, 172, 154]"

definition wire_arrow :: string where
  "wire_arrow = '' '' @ utf8 [226, 134, 146] @ '' ''"

definition wire_text :: "connection \<Rightarrow> string" where
  "wire_text c =
     (if ep_block (conn_from c) = INTERFACE then box_text else [])
     @ ep_block (conn_from c) @ ''.'' @ ep_port (conn_from c) @ wire_arrow @ ep_block (conn_to c) @ ''.'' @ ep_port (conn_to c)"

record block_form =
  kf_instance :: string
  kf_type :: string
  kf_inputs :: "(string \<times> string \<times> string) list"
  kf_outputs :: "(string \<times> string \<times> string) list"
  kf_params :: "(string \<times> string) list"

definition pin_line :: "library_pin \<Rightarrow> string \<times> string \<times> string" where
  "pin_line pin = (pin_name pin, pin_type pin, typeColor (pin_type pin))"

text \<open>A side without pins shows a dash.\<close>

definition pin_lines :: "library_pin list \<Rightarrow> (string \<times> string \<times> string) list" where
  "pin_lines pins = (if pins = [] then [(dash_text, [], [])] else map pin_line pins)"

definition block_form_of :: "(string, library_block) obj \<Rightarrow> block_node \<Rightarrow> inspector_dom \<Rightarrow> block_form" where
  "block_form_of library b fs =
     \<lparr>kf_instance = block_id b,
      kf_type = (case lookup_block b library of None \<Rightarrow> block_type b | Some d \<Rightarrow> lib_name d),
      kf_inputs = pin_lines (pins_inputs (pinsOf b library)), kf_outputs = pin_lines (pins_outputs (pinsOf b library)),
      kf_params = map (\<lambda>(k, v). param_texts fs k v) (params_of b)\<rparr>"

record constant_form =
  cf_name :: string
  cf_type :: string
  cf_value :: string

definition constant_form_of :: "constant_node \<Rightarrow> constant_form" where
  "constant_form_of c = \<lparr>cf_name = const_id c, cf_type = const_type c, cf_value = js_string (const_value c)\<rparr>"

datatype scope_field =
    SystemScope string string
  | ScopeChoice scope

record port_form =
  pf_name :: string
  pf_direction :: string
  pf_type :: "string \<times> bool"
  pf_unit :: string
  pf_scope :: scope_field
  pf_binding :: "(string \<times> string \<times> (string \<times> string) list \<times> bool) option"

definition option_dot :: string where
  "option_dot = '' '' @ middot @ '' ''"

definition binding_option :: "external_var_row \<Rightarrow> string \<times> string" where
  "binding_option row =
     (ev_name row, ev_name row @ option_dot @ ev_st_type row @ option_dot @ ev_direction row
        @ (if opt_or (ev_unit row) [] = [] then [] else option_dot @ opt_or (ev_unit row) []))"

definition long_dash :: string where
  "long_dash = '' '' @ dash_text @ dash_text @ '' ''"

text \<open>The type can be chosen unless the runtime gives it; the binding has its label, its value, its choices and a notice.\<close>

definition port_form_of ::
    "(string \<Rightarrow> string) \<Rightarrow> string \<Rightarrow> external_var_row list \<Rightarrow> system_var_row list \<Rightarrow> port_direction \<Rightarrow> port \<Rightarrow> inspector_dom \<Rightarrow>
     port_form" where
  "port_form_of t station external system d p fs =
     (let sys = system_var system p in
      \<lparr>pf_name = opt_or (dm_name fs) (port_name p),
       pf_direction = (case d of Input \<Rightarrow> t ''graph.direction.input'' | Output \<Rightarrow> t ''graph.direction.output''
                       | In_out \<Rightarrow> t ''graph.direction.inout''),
       pf_type = (case sys of Some row \<Rightarrow> (sv_st_type row, False) | None \<Rightarrow> (port_type p, True)),
       pf_unit = opt_or (port_unit p) [],
       pf_scope = (case sys of
           Some row \<Rightarrow> SystemScope (t ''inspector.systemVar'') (sv_description row @ long_dash @ t ''inspector.systemVarHint'')
         | None \<Rightarrow> ScopeChoice (scope_of p)),
       pf_binding =
         (if sys = None \<and> scope_of p = External
          then Some (t ''inspector.associateDevice'' @ utf8 [239, 188, 136] @ js_or_str (Some station) (t ''inspector.noStation'')
                 @ utf8 [239, 188, 137],
               (case port_bind p of None \<Rightarrow> [] | Some b \<Rightarrow> opt_or (bind_variable b) []),
               ([], t ''inspector.notAssociated'') # map binding_option external, external = [])
          else None)\<rparr>)"

datatype inspector_view =
    HintView "string list"
  | GoneView string
  | WireView string string
  | BlockView block_form string
  | ConstantView constant_form string
  | PortView port_form string

text \<open>A form with the label of its delete button.\<close>

definition inspector_view_of ::
    "(string \<Rightarrow> string) \<Rightarrow> (string, library_block) obj \<Rightarrow> string \<Rightarrow> external_var_row list \<Rightarrow> system_var_row list \<Rightarrow> inspector \<Rightarrow>
     inspector_view" where
  "inspector_view_of t library station external system i =
     (case element_at (in_page i) (in_selected i) of
        NoElement \<Rightarrow> HintView [t ''inspector.selectHint'', t ''inspector.dragHint'']
      | GoneElement key \<Rightarrow> GoneView (t key)
      | WireElement c \<Rightarrow> WireView (wire_text c) (t ''inspector.deleteWire'')
      | BlockElement b \<Rightarrow> BlockView (block_form_of library b (in_dom i)) (t ''inspector.deleteBlock'')
      | ConstantElement c \<Rightarrow> ConstantView (constant_form_of c) (t ''inspector.deleteConstant'')
      | PortElement d p \<Rightarrow> PortView (port_form_of t station external system d p (in_dom i)) (t ''inspector.deleteVarPin''))"

end
