(* ===== verification/InspectorLaws.thy ===== *)
theory InspectorLaws
  imports InspectorView
begin

text \<open>
  What holds of the inspector: an element that is renamed is gone from it, and a field that keeps its text writes
  the name or the value of one element into another.
\<close>

lemma find_none: "find P xs = None \<longleftrightarrow> list_all (\<lambda>x. \<not> P x) xs"
  by (induction xs) auto

lemma find_no: "(\<And>x. x \<in> set xs \<Longrightarrow> \<not> P x) \<Longrightarrow> find P xs = None"
  by (simp add: find_none list_all_iff)

lemma iface_update_ports: "iface_ports (iface_update d f i) d = f (iface_ports i d)"
  by (cases d) (simp_all add: iface_ports_def iface_update_def)

text \<open>
  Renaming an element in the inspector makes the inspector lose it: the selection keeps the old name, so that
  after the first character that is typed into the name of a block or a constant, and after the name of a variable
  is left, the inspector tells that the element was deleted.
\<close>

theorem renamed_element_vanishes:
  assumes "i' = inspector_step station system e i"
  shows "(case (element_at (in_page i) (in_selected i), e) of
      (BlockElement b, TypeInstance x) \<Rightarrow> x = block_id b \<or> element_at (in_page i') (in_selected i') = GoneElement ''inspector.blockDeleted''
    | (ConstantElement c, TypeConstant x) \<Rightarrow> x = const_id c \<or> element_at (in_page i') (in_selected i') = GoneElement ''inspector.constantDeleted''
    | (PortElement d p, LeavePortName) \<Rightarrow>
        in_page i' = in_page i \<or> element_at (in_page i') (in_selected i') = GoneElement ''inspector.varDeleted''
    | _ \<Rightarrow> True)"
proof -
  have gone_block: "element_at (rename_block n x page) (Some (SelBlock n)) \<noteq> GoneElement ''inspector.blockDeleted'' \<Longrightarrow> x = n" for n x page
    by (rule ccontr) (auto simp: element_at_def rename_block_def patchBlock_def find_none list_all_iff find_Some_iff split: option.splits if_splits)
  have gone_constant: "element_at (rename_constant n x page) (Some (SelConstant n)) \<noteq> GoneElement ''inspector.constantDeleted'' \<Longrightarrow> x = n"
    for n x page
    by (rule ccontr) (auto simp: element_at_def rename_constant_def patchConstant_def find_none list_all_iff find_Some_iff split: option.splits if_splits)
  have gone_port: "element_at (rename_port d n x page) (Some (SelPort d n)) = GoneElement ''inspector.varDeleted''"
    if "js_trim x \<noteq> n" "js_trim x \<noteq> []" for d n x page
    using that by (auto simp: element_at_def rename_port_def patchPort_def iface_update_ports find_none list_all_iff Let_def
        split: option.split)
  have sel: "in_selected i' = in_selected i"
    by (simp add: assms inspector_step_def rerender_def Let_def split: option.split)
  have found: "in_selected i = Some (SelBlock (block_id b))" if "element_at (in_page i) (in_selected i) = BlockElement b" for b
    using that by (auto simp: element_at_def find_Some_iff split: option.splits selection.splits if_splits)
  have found_c: "in_selected i = Some (SelConstant (const_id c))" if "element_at (in_page i) (in_selected i) = ConstantElement c" for c
    using that by (auto simp: element_at_def find_Some_iff split: option.splits selection.splits if_splits)
  have found_p: "in_selected i = Some (SelPort d (port_name p))" if "element_at (in_page i) (in_selected i) = PortElement d p" for d p
    using that by (auto simp: element_at_def find_Some_iff split: option.splits selection.splits if_splits)
  show ?thesis
    using found found_c found_p gone_port
    by (auto dest: gone_block gone_constant simp: assms sel inspector_step_def rerender_def inspector_edit_def block_edit_def constant_edit_def port_edit_def
        page_step_def Let_def split: element.split inspector_event.split option.split)
qed

text \<open>
  The name field keeps the name of the variable that was selected before: it is shown for the next variable, and
  leaving the field without typing gives that variable the name of the other one.
\<close>

theorem name_field_keeps_name:
  assumes "element_at (in_page i) (Some s1) = PortElement d1 p1" and "element_at (in_page i) (Some s2) = PortElement d2 p2"
    and "js_trim (port_name p1) = port_name p1" and "port_name p1 \<noteq> []" and "port_name p1 \<noteq> port_name p2"
    and "i2 = select_element (Some s2) (select_element (Some s1) (select_element None i))"
  shows "pf_name (port_form_of t station external system d2 p2 (in_dom i2)) = port_name p1
    \<and> in_page (inspector_step station system LeavePortName i2) = rename_port d2 (port_name p2) (port_name p1) (in_page i)"
  using assms(1-5)
  by (simp add: assms(6) select_element_def rerender_def render_fields_def no_fields_def port_form_of_def opt_or_def
      inspector_step_def inspector_edit_def port_edit_def type_text_def page_step_def element_at_def [of _ None] Let_def)

text \<open>
  The field of a parameter keeps the value of the block that was selected before, when that block has a
  parameter of the same name: it is shown for the next block, and leaving the field without typing writes it there.
\<close>

theorem parameter_field_keeps_value:
  assumes "element_at (in_page i) (Some s1) = BlockElement b1" and "element_at (in_page i) (Some s2) = BlockElement b2"
    and "obj_get (params_of b1) key = Some v1" and "obj_get (params_of b2) key = Some v2"
    and "i2 = select_element (Some s2) (select_element (Some s1) (select_element None i))"
  shows "param_texts (in_dom i2) key v2 = (key, js_string v1)
    \<and> in_page (inspector_step station system (LeaveParamValue key) i2)
      = page_step (EditParam (block_id b2) (ParamValue key (js_string v1))) (in_page i)"
proof -
  have get: "obj_get (map (\<lambda>(k, v). (k, f k v)) ps) key = map_option (f key) (obj_get ps key)" for f :: "string \<Rightarrow> jsval \<Rightarrow> string \<times> string" and ps
    by (induction ps) (auto simp: obj_get_def)
  have "param_texts (in_dom i2) key v2 = (key, js_string v1)"
    using assms(1-4)
    by (simp add: assms(5) select_element_def rerender_def render_fields_def no_fields_def param_texts_def get opt_or_def
        element_at_def [of _ None] obj_get_def [of "[]"])
  moreover have "in_page i2 = in_page i" "in_selected i2 = Some s2"
    by (simp_all add: assms(5) select_element_def rerender_def)
  ultimately show ?thesis
    using assms(2,4) by (simp add: inspector_step_def inspector_edit_def block_edit_def type_text_def rerender_def Let_def)
qed

section \<open>Concrete runs\<close>

definition timer_block :: "string \<Rightarrow> rat \<Rightarrow> block_node" where
  "timer_block i v =
     \<lparr>block_id = i, block_type = ''TON'', block_library_id = None, block_position = \<lparr>px = 0, py = 0\<rparr>,
      block_parameters = Some [(''PT'', JNum (Num v))]\<rparr>"

definition plain_port :: "string \<Rightarrow> port" where
  "plain_port n =
     \<lparr>port_name = n, port_type = ''REAL'', port_scope = Some Local, port_bind = None, port_unit = None, port_position = None\<rparr>"

definition two_of_each :: page_doc where
  "two_of_each = (emptyPage ''P1'' ''MAIN'' 0 ''A3'')
     \<lparr>page_blocks := [timer_block ''B1'' 5, timer_block ''B2'' 9],
      page_interface := \<lparr>if_input = [plain_port ''a'', plain_port ''b''], if_output = [], if_in_out = []\<rparr>\<rparr>"

definition shown_two :: "selection option \<Rightarrow> inspector" where
  "shown_two sel = \<lparr>in_page = two_of_each, in_selected = sel, in_dom = no_fields\<rparr>"

lemma two_elements:
  "element_at two_of_each (Some (SelBlock ''B1'')) = BlockElement (timer_block ''B1'' 5)"
  "element_at two_of_each (Some (SelBlock ''B2'')) = BlockElement (timer_block ''B2'' 9)"
  "element_at two_of_each (Some (SelPort Input ''a'')) = PortElement Input (plain_port ''a'')"
  "element_at two_of_each (Some (SelPort Input ''b'')) = PortElement Input (plain_port ''b'')"
  by (simp_all add: element_at_def two_of_each_def timer_block_def plain_port_def iface_ports_def)

theorem renamed_element_vanishes_witness:
  "element_at (in_page (inspector_step [] [] (TypeInstance ''B'') (shown_two (Some (SelBlock ''B1''))))) (Some (SelBlock ''B1''))
    = GoneElement ''inspector.blockDeleted''"
  using renamed_element_vanishes [OF refl, of "[]" "[]" "TypeInstance ''B''" "shown_two (Some (SelBlock ''B1''))"]
  by (simp add: shown_two_def two_elements timer_block_def inspector_step_def inspector_edit_def block_edit_def rerender_def Let_def)

theorem name_field_keeps_name_witness:
  "in_page (inspector_step [] [] LeavePortName (select_element (Some (SelPort Input ''b'')) (select_element (Some (SelPort Input ''a''))
     (select_element None (shown_two None))))) = rename_port Input ''b'' ''a'' two_of_each"
  using name_field_keeps_name [OF _ _ _ _ _ refl, of "shown_two None" "SelPort Input ''a''" Input "plain_port ''a''"
      "SelPort Input ''b''" Input "plain_port ''b''" "\<lambda>k. k" "[]" "[]" "[]"]
  by (simp add: shown_two_def two_elements plain_port_def js_eval)

theorem parameter_field_keeps_value_witness:
  "param_texts (in_dom (select_element (Some (SelBlock ''B2'')) (select_element (Some (SelBlock ''B1''))
     (select_element None (shown_two None))))) ''PT'' (JNum (Num 9)) = (''PT'', show_num (Num 5))"
  using parameter_field_keeps_value [OF _ _ _ _ refl, of "shown_two None" "SelBlock ''B1''" "timer_block ''B1'' 5"
      "SelBlock ''B2''" "timer_block ''B2'' 9" "''PT''" "JNum (Num 5)" "JNum (Num 9)"]
  by (simp add: shown_two_def two_elements timer_block_def params_of_def opt_or_def obj_get_def)

end
