(* ===== verification/GraphPanels.thy ===== *)
theory GraphPanels
  imports GraphNavigate
begin

text \<open>
  What the panels below and above the sheet show (\<open>components/graph/StimulusPanel.tsx\<close>, \<open>CheckerPanel.tsx\<close> and
  \<open>PageTabs.tsx\<close>): the lists of forces and records with their counts, the tabs with their badges and the body
  each opens, and the tabs of the pages.
\<close>

section \<open>The stimulus panel\<close>

definition dot :: string where
  "dot = '' '' @ middot @ '' ''"

text \<open>A row: ticked, name, value; a record has its cycle in front, whether it lies beyond the run, and a hint.\<close>

record cells =
  ce_id :: string
  ce_on :: bool
  ce_cycle :: "(string \<times> bool \<times> string) option"
  ce_name :: string
  ce_value :: string

definition force_cells :: "force_row \<Rightarrow> cells" where
  "force_cells row =
     \<lparr>ce_id = fr_id row, ce_on = fr_on row, ce_cycle = None, ce_name = fr_name row, ce_value = fr_value row\<rparr>"

definition script_cells :: "(string \<Rightarrow> string) \<Rightarrow> jsnum \<Rightarrow> script_row \<Rightarrow> cells" where
  "script_cells t cycles row =
     (let beyond = beyond_run cycles row in
      \<lparr>ce_id = sr_id row, ce_on = sr_on row,
       ce_cycle = Some (show_num (sr_cycle row), beyond,
         if beyond then t ''stimulus.cycleOutOfRange'' @ '' '' @ show_num cycles @ '' '' @ t ''stimulus.cycleOutOfRange2''
         else t ''stimulus.effectiveCycle''),
       ce_name = sr_name row, ce_value = sr_value row\<rparr>)"

record stimulus_view =
  sw_names :: "string list"
  sw_choices :: "(string \<times> string) list"
  sw_preset :: string
  sw_counts :: string
  sw_run :: "string \<times> bool"
  sw_forces :: "cells list"
  sw_no_forces :: "string option"
  sw_script :: "cells list"
  sw_no_script :: "string option"

text \<open>The type of a name is that of its last symbol, as \<open>new Map\<close> keeps it.\<close>

definition stimulus_view_of ::
    "(string \<Rightarrow> string) \<Rightarrow> string \<Rightarrow> (string \<times> string) list \<Rightarrow> jsnum \<Rightarrow> bool \<Rightarrow> stimulus \<Rightarrow> stimulus_view" where
  "stimulus_view_of t preset symbols cycles busy s =
     (let typeOf = obj_build fst snd symbols; (forces_on, script_on) = rows_on s in
      \<lparr>sw_names = map fst symbols,
       sw_choices = ([], t ''stimulus.selectSymbolPlaceholder'')
         # map (\<lambda>(n, ty). (n, n @ dot @ opt_or (obj_get typeOf n) [])) symbols,
       sw_preset = preset,
       sw_counts = show_nat forces_on @ '' '' @ t ''stimulus.forceCount'' @ dot @ show_nat script_on @ '' '' @ t ''stimulus.scriptCount'',
       sw_run = (if busy then t ''checker.running'' else t ''stimulus.runWithStimulus'', \<not> busy),
       sw_forces = map force_cells (st_forces s),
       sw_no_forces = (if st_forces s = [] then Some (t ''stimulus.noForces'') else None),
       sw_script = map (script_cells t cycles) (st_script s),
       sw_no_script = (if st_script s = [] then Some (t ''stimulus.noScripts'') else None)\<rparr>)"

text \<open>What a cell hands up when it is changed.\<close>

datatype cell_event = TickCell bool | TypeName string | TypeValue string | TypeCycle string | PressRemove

definition force_event :: "string \<Rightarrow> cell_event \<Rightarrow> stimulus_edit option" where
  "force_event i e =
     (case e of
        TickCell b \<Rightarrow> Some (PatchForce i (ForceOn b))
      | TypeName n \<Rightarrow> Some (PatchForce i (ForceName n))
      | TypeValue v \<Rightarrow> Some (PatchForce i (ForceValue v))
      | TypeCycle c \<Rightarrow> None
      | PressRemove \<Rightarrow> Some (RemoveForce i))"

definition script_event :: "string \<Rightarrow> cell_event \<Rightarrow> stimulus_edit" where
  "script_event i e =
     (case e of
        TickCell b \<Rightarrow> PatchScript i (ScriptOn b)
      | TypeName n \<Rightarrow> PatchScript i (ScriptName n)
      | TypeValue v \<Rightarrow> PatchScript i (ScriptValue v)
      | TypeCycle c \<Rightarrow> PatchScript i (ScriptCycle c)
      | PressRemove \<Rightarrow> RemoveRecord i)"

section \<open>The checker panel\<close>

definition tab_label :: "(string \<Rightarrow> string) \<Rightarrow> panel_tab \<Rightarrow> string" where
  "tab_label t tab =
     (case tab of
        TabCheck \<Rightarrow> t ''checker.tabs.checker'' | TabSt \<Rightarrow> t ''checker.tabs.st'' | TabAnalysis \<Rightarrow> t ''checker.tabs.analysis''
      | TabSim \<Rightarrow> t ''checker.tabs.sim'' | TabStim \<Rightarrow> t ''checker.tabs.stimulus'')"

text \<open>The colour of a badge.\<close>

definition badge_colour :: "session \<Rightarrow> panel_tab \<Rightarrow> string" where
  "badge_colour s tab =
     (case tab of
        TabCheck \<Rightarrow> (case se_report s of None \<Rightarrow> [] | Some r \<Rightarrow> if rep_errors r \<noteq> [] then ''text-red-400'' else ''text-green-400'')
      | TabSt \<Rightarrow> []
      | TabAnalysis \<Rightarrow> (case se_analysis s of None \<Rightarrow> []
          | Some a \<Rightarrow> if an_ok a then (if se_analysis_stale s then ''text-yellow-400'' else ''text-green-400'') else ''text-red-400'')
      | TabSim \<Rightarrow> (case se_sim s of None \<Rightarrow> [] | Some r \<Rightarrow> if sim_ok r then ''text-green-400'' else ''text-red-400'')
      | TabStim \<Rightarrow> ''text-orange-400'')"

text \<open>Label, badge with its colour, and whether the tab is open.\<close>

definition panel_tabs :: "(string \<Rightarrow> string) \<Rightarrow> session \<Rightarrow> (string \<times> (string \<times> string) option \<times> bool) list" where
  "panel_tabs t s =
     map (\<lambda>tab. (tab_label t tab, map_option (\<lambda>b. (b, badge_colour s tab)) (tab_badge t s tab), se_panel s = tab))
       [TabCheck, TabSt, TabAnalysis, TabSim, TabStim]"

definition severity_label :: "(string \<Rightarrow> string) \<Rightarrow> severity \<Rightarrow> string" where
  "severity_label t v =
     (case v of SevError \<Rightarrow> t ''checker.error'' | SevWarning \<Rightarrow> t ''checker.warning'' | SevInfo \<Rightarrow> t ''checker.info'')"

definition severity_glyph :: "severity \<Rightarrow> string" where
  "severity_glyph v =
     (case v of SevError \<Rightarrow> utf8 [226, 156, 149] | SevWarning \<Rightarrow> utf8 [226, 150, 178] | SevInfo \<Rightarrow> utf8 [226, 132, 185])"

definition findings_of :: "session \<Rightarrow> severity \<Rightarrow> finding list" where
  "findings_of s v =
     (case se_report s of None \<Rightarrow> []
      | Some r \<Rightarrow> (case v of SevError \<Rightarrow> rep_errors r | SevWarning \<Rightarrow> rep_warnings r | SevInfo \<Rightarrow> rep_infos r))"

text \<open>The buttons of the severities: glyph with the number, label, and whether it is faded.\<close>

definition severity_buttons :: "(string \<Rightarrow> string) \<Rightarrow> session \<Rightarrow> severity_filter \<Rightarrow> (string \<times> string \<times> bool) list" where
  "severity_buttons t s filt =
     (if se_panel s = TabCheck
      then map (\<lambda>v. (severity_glyph v @ show_nat (length (findings_of s v)), severity_label t v, obj_get filt v = Some False))
             [SevError, SevWarning, SevInfo]
      else [])"

datatype panel_body =
    CheckBody "string option" "string option" "(string \<times> finding_view list) list"
  | StBody string bool
  | AnalysisBody bool
  | SimBody
  | StimBody "(string \<times> string) list"

definition passed_text :: "(string \<Rightarrow> string) \<Rightarrow> session \<Rightarrow> check_report \<Rightarrow> string" where
  "passed_text t s r =
     t ''checker.passed'' @ show_nat (length (se_pages s)) @ t ''checker.passedPages'' @ show_nat (length (rep_cross_page r))
     @ t ''checker.passedCrossVars''"

text \<open>
  The open tab: the notice before the first check, the notice of a clean chart, and the groups; or the text with
  whether it is an error; or the other panels, the analysis with whether it is blocked.
\<close>

definition panel_body_of :: "(string \<Rightarrow> string) \<Rightarrow> severity_filter \<Rightarrow> session \<Rightarrow> panel_body" where
  "panel_body_of t filt s =
     (case se_panel s of
        TabCheck \<Rightarrow> CheckBody
          (if se_report s = None \<and> \<not> se_busy s then Some (t ''checker.notChecked'') else None)
          (case se_report s of None \<Rightarrow> None | Some r \<Rightarrow> if rep_ok r then Some (passed_text t s r) else None)
          (concat (map (\<lambda>v. case finding_group t (severity_label t v) (findings_of s v) filt of None \<Rightarrow> [] | Some g \<Rightarrow> [g])
             [SevError, SevWarning, SevInfo]))
      | TabSt \<Rightarrow> StBody (st_shown t s) (opt_or (se_st_error s) [] \<noteq> [])
      | TabAnalysis \<Rightarrow> AnalysisBody (case se_report s of None \<Rightarrow> True | Some r \<Rightarrow> \<not> rep_ok r)
      | TabSim \<Rightarrow> SimBody
      | TabStim \<Rightarrow> StimBody (case se_sim s of None \<Rightarrow> [] | Some r \<Rightarrow> map (\<lambda>y. (ss_name y, ss_type y)) (or_empty (sim_symbols r))))"

section \<open>The tabs of the pages\<close>

definition tab_title :: "(string \<Rightarrow> string) \<Rightarrow> page_row \<Rightarrow> string" where
  "tab_title t row =
     pr_id row @ dot @ pr_sheet row @ dot @ show_int (pr_blocks row) @ '' '' @ t ''sheet.blocks'' @ '' ''
     @ show_int (pr_connections row) @ '' '' @ t ''sheet.wires''"

text \<open>
  A double click on a tab is two clicks and then the question for the new name, during which nothing else runs; an
  empty answer, or none, renames nothing. The second component is the rename that is asked for.
\<close>

definition double_click :: "string \<Rightarrow> string option \<Rightarrow> session \<Rightarrow> session \<times> (string \<times> string) option" where
  "double_click i typed s =
     (select_tab i (select_tab i s),
      case typed of None \<Rightarrow> None | Some label \<Rightarrow> if label = [] then None else Some (i, label))"

section \<open>Properties\<close>

lemma filter_length_eq: "length (filter P xs) = length (filter Q xs) \<Longrightarrow> (\<And>x. P x \<Longrightarrow> Q x) \<Longrightarrow> x \<in> set xs \<Longrightarrow> Q x \<Longrightarrow> P x"
proof (induction xs)
  case (Cons a xs)
  have "length (filter P xs) \<le> length (filter Q xs)"
    using Cons.prems(2) by (induction xs) auto
  then show ?case
    using Cons by (auto split: if_splits)
qed simp

text \<open>
  The numbers that the stimulus panel shows are bounds on what a run is given, and they are exact when every
  row that is switched on has a name and a value; a row that is on and lacks one of them is counted, and not sent.
\<close>

theorem counted_rows_sent:
  "length (pl_forces (stimulusPayload (st_forces s) (st_script s))) \<le> fst (rows_on s)
   \<and> length (pl_script (stimulusPayload (st_forces s) (st_script s))) \<le> snd (rows_on s)
   \<and> (length (pl_forces (stimulusPayload (st_forces s) (st_script s))) = fst (rows_on s)
      \<longleftrightarrow> list_all (\<lambda>r. force_usable r \<longleftrightarrow> fr_on r) (st_forces s))
   \<and> (length (pl_script (stimulusPayload (st_forces s) (st_script s))) = snd (rows_on s)
      \<longleftrightarrow> list_all (\<lambda>r. script_usable r \<longleftrightarrow> sr_on r) (st_script s))"
proof -
  have f: "force_usable r \<Longrightarrow> fr_on r" and g: "script_usable r' \<Longrightarrow> sr_on r'" for r r'
    by (simp_all add: force_usable_def script_usable_def usable_def)
  have le: "length (filter P xs) \<le> length (filter Q xs)" if "\<And>x. P x \<Longrightarrow> Q x" for P Q and xs :: "'a list"
    using that by (induction xs) auto
  have eq: "length (filter P xs) = length (filter Q xs) \<longleftrightarrow> list_all (\<lambda>x. P x \<longleftrightarrow> Q x) xs"
    if "\<And>x. P x \<Longrightarrow> Q x" for P Q and xs :: "'b list"
  proof
    show "list_all (\<lambda>x. P x \<longleftrightarrow> Q x) xs" if "length (filter P xs) = length (filter Q xs)"
      using filter_length_eq [OF that] \<open>\<And>x. P x \<Longrightarrow> Q x\<close> by (auto simp: list_all_iff)
    show "length (filter P xs) = length (filter Q xs)" if "list_all (\<lambda>x. P x \<longleftrightarrow> Q x) xs"
      using that by (induction xs) auto
  qed
  show ?thesis
    using f g by (simp add: stimulusPayload_def rows_on_def le eq)
qed

text \<open>The groups of a check hide what is filtered out, and their headings count it.\<close>

theorem hidden_findings_counted:
  assumes "findings_of s v \<noteq> []" and "obj_get filt v = Some False" and "list_all (\<lambda>f. fd_severity f = v) (findings_of s v)"
  shows "finding_group t title (findings_of s v) filt = Some (title @ dot @ show_nat (length (findings_of s v)), [])"
proof -
  have "rows (findings_of s v) filt = []"
    using assms(2,3) by (auto simp: rows_def filter_empty_conv list_all_iff)
  then show ?thesis
    using assms(1) by (simp add: finding_group_def dot_def)
qed

text \<open>
  Renaming a page by a double click reads it twice first, and an edit that was not sent is lost with the first of
  the two clicks.
\<close>

theorem double_click_drops_edit:
  assumes "se_page s = Some p" and "new_object e p" and "n = length (se_fetches s)"
    and "s' = fold session_step [PageAnswered n (Inr doc), PageAnswered n (Inr doc)] (fst (double_click i typed (patch e s)))"
  shows "se_page s' = Some doc \<and> se_timer s' = None \<and> \<not> se_dirty s' \<and> se_sent s' = Some doc \<and> se_fetches s' = se_fetches s"
  using assms by (simp add: double_click_def session_step_def select_tab_def page_answered_def fetch_page_def select_jump_def
      patch_def loadPage_def page_effects_defs Let_def)

end
