(* ===== verification/LauncherView.thy ===== *)
theory LauncherView
  imports Launcher
begin

text \<open>
  What the start page and its panels show (\<open>pages/HomePage.tsx\<close>), and which of their buttons can be pressed.
\<close>

section \<open>The start page\<close>

record tile =
  tl_title :: string
  tl_desc :: string
  tl_panel :: string

definition action_tiles :: "(string \<Rightarrow> string) \<Rightarrow> tile list" where
  "action_tiles t =
     [\<lparr>tl_title = t ''home.newProject'', tl_desc = t ''home.newProjectDesc'', tl_panel = ''new-project''\<rparr>,
      \<lparr>tl_title = t ''home.openProject'', tl_desc = t ''home.openProjectDesc'', tl_panel = ''open-project''\<rparr>,
      \<lparr>tl_title = t ''home.newBlock'', tl_desc = t ''home.newBlockDesc'', tl_panel = ''new-block''\<rparr>]"

text \<open>A project of the list: whether a click opens it, the mark of a lost path, and its figures with the date.\<close>

record project_line =
  pl_name :: string
  pl_level :: string
  pl_path :: string
  pl_opens :: bool
  pl_lost :: "string option"
  pl_figures :: "(string \<times> string) option"

definition project_line_of :: "(string \<Rightarrow> string) \<Rightarrow> (string \<Rightarrow> string option) \<Rightarrow> recent_project \<Rightarrow> project_line" where
  "project_line_of t local_text row =
     \<lparr>pl_name = rp_name row, pl_level = rp_safety_level row, pl_path = rp_path row, pl_opens = rp_exists row,
      pl_lost = (if rp_exists row then None else Some (t ''home.pathNotFound'')),
      pl_figures = (if rp_exists row then Some (recent_counts t row, formatWhen local_text (rp_opened_at row)) else None)\<rparr>"

record block_line =
  bl_name :: string
  bl_version :: string
  bl_scope :: string
  bl_category :: string
  bl_when :: string

definition block_line_of :: "(string \<Rightarrow> string) \<Rightarrow> (string \<Rightarrow> string option) \<Rightarrow> recent_block \<Rightarrow> block_line" where
  "block_line_of t local_text row =
     \<lparr>bl_name = rb_name row, bl_version = CHR ''v'' # rb_version row, bl_scope = recent_scope t row,
      bl_category = rb_category row, bl_when = formatWhen local_text (rb_touched_at row)\<rparr>"

record home_view =
  hv_continue :: "string option"
  hv_error :: "string option"
  hv_tiles :: "tile list"
  hv_projects :: "project_line list"
  hv_no_projects :: "string option"
  hv_blocks :: "block_line list"
  hv_no_blocks :: "string option"

definition recent_projects_of :: "provider \<Rightarrow> recent_project list" where
  "recent_projects_of p = (case pv_state p of None \<Rightarrow> [] | Some s \<Rightarrow> la_recent_projects s)"

definition recent_blocks_of :: "provider \<Rightarrow> recent_block list" where
  "recent_blocks_of p = (case pv_state p of None \<Rightarrow> [] | Some s \<Rightarrow> la_recent_blocks s)"

definition home_view_of :: "(string \<Rightarrow> string) \<Rightarrow> (string \<Rightarrow> string option) \<Rightarrow> provider \<Rightarrow> home_view" where
  "home_view_of t local_text p =
     (let projects = recent_projects_of p; blocks = recent_blocks_of p in
      \<lparr>hv_continue = map_option (\<lambda>c. t ''home.continue'' @ '' '' @ pi_name c) (current_project p),
       hv_error = (case pv_error p of None \<Rightarrow> None | Some e \<Rightarrow> if e = [] then None else Some (t ''home.backendNotReady'' @ e)),
       hv_tiles = action_tiles t,
       hv_projects = map (project_line_of t local_text) projects,
       hv_no_projects = (if projects = [] then Some (t ''home.noRecentProjects'') else None),
       hv_blocks = map (block_line_of t local_text) blocks,
       hv_no_blocks = (if blocks = [] then Some (t ''home.noRecentBlocks'') else None)\<rparr>)"

section \<open>The panels\<close>

text \<open>Title, labels with the texts of the fields, the hint, the error, and the button with whether it can be pressed.\<close>

record panel_view =
  pw_title :: string
  pw_fields :: "(string \<times> string) list"
  pw_hint :: string
  pw_error :: "string option"
  pw_submit :: "string \<times> bool"

definition submit_error :: "string \<Rightarrow> string option" where
  "submit_error message = (if message = [] then None else Some message)"

definition new_project_view :: "(string \<Rightarrow> string) \<Rightarrow> new_project \<Rightarrow> panel_view" where
  "new_project_view t f =
     \<lparr>pw_title = t ''home.newProject'',
      pw_fields = [(t ''home.projectName'', np_name f), (t ''home.projectLocation'', np_parent f), (t ''home.safetyLevel'', np_level f)],
      pw_hint = new_project_hint t f, pw_error = submit_error (np_message f),
      pw_submit = (if np_busy f then t ''home.creating'' else t ''home.createAndOpen'', \<not> np_busy f)\<rparr>"

datatype project_field = TypeProjectName string | TypeParent string | PickLevel string

definition edit_new_project :: "project_field \<Rightarrow> new_project \<Rightarrow> new_project" where
  "edit_new_project e f =
     (case e of TypeProjectName s \<Rightarrow> f\<lparr>np_name := s\<rparr> | TypeParent s \<Rightarrow> f\<lparr>np_parent := s\<rparr> | PickLevel s \<Rightarrow> f\<lparr>np_level := s\<rparr>)"

definition open_project_view :: "(string \<Rightarrow> string) \<Rightarrow> open_project \<Rightarrow> panel_view" where
  "open_project_view t f =
     \<lparr>pw_title = t ''home.openProject'', pw_fields = [(t ''home.projectFolder'', op_path f)], pw_hint = t ''home.folderHint'',
      pw_error = submit_error (op_message f),
      pw_submit = (if op_busy f then t ''home.opening'' else t ''home.open'', \<not> (op_busy f \<or> js_trim (op_path f) = []))\<rparr>"

definition type_path :: "string \<Rightarrow> open_project \<Rightarrow> open_project" where
  "type_path s f = f\<lparr>op_path := s\<rparr>"

definition new_block_view :: "(string \<Rightarrow> string) \<Rightarrow> project_info option \<Rightarrow> new_block \<Rightarrow> panel_view" where
  "new_block_view t current f =
     \<lparr>pw_title = t ''home.newBlock'',
      pw_fields = [(t ''home.displayName'', nb_name f), (t ''home.typeName'', nb_typeName f), (t ''home.category'', nb_category f),
        (t ''home.stImplementation'', nb_st f)],
      pw_hint = t ''home.storageLocation'' @ '' '' @ scope_hint t current @ ''. '' @ t ''home.twoTextFiles''
        @ fst (file_names f) @ '' + '' @ snd (file_names f) @ ''.'',
      pw_error = submit_error (nb_message f),
      pw_submit = (if nb_busy f then t ''home.saving'' else t ''home.saveBlock'', \<not> nb_busy f)\<rparr>"

text \<open>A press of a button that can be pressed; \<open>None\<close> when nothing is sent.\<close>

definition press_create :: "(string \<Rightarrow> string) \<Rightarrow> new_project \<Rightarrow> new_project \<times> project_request option" where
  "press_create t f = (if snd (pw_submit (new_project_view t f)) then submit_project t f else (f, None))"

definition press_open :: "(string \<Rightarrow> string) \<Rightarrow> open_project \<Rightarrow> open_project \<times> project_request option" where
  "press_open t f = (if snd (pw_submit (open_project_view t f)) then submit_open f else (f, None))"

section \<open>Properties\<close>

text \<open>
  Pressing the button of a panel twice sends one request: while a request is under way nothing more is sent,
  whatever is typed meanwhile; a request to open always names a path, and one to create a valid name.
\<close>

theorem panels_send_once:
  "snd (press_create t (fold edit_new_project es (fst (press_create t f)))) = None \<or> snd (press_create t f) = None"
  "snd (press_open t (fold type_path ps (fst (press_open t g)))) = None \<or> snd (press_open t g) = None"
  "(case snd (press_open t g) of None \<Rightarrow> True | Some r \<Rightarrow> r = OpenPath (js_trim (op_path g)) \<and> js_trim (op_path g) \<noteq> [])"
  "(case snd (press_create t f) of None \<Rightarrow> True
     | Some r \<Rightarrow> r = create_request (np_name f) (np_parent f) (np_level f) \<and> is_identifier (np_name f))"
proof -
  have busy: "np_busy (fold edit_new_project es f') = np_busy f'" for f'
    by (induction es arbitrary: f') (simp_all add: edit_new_project_def split: project_field.split)
  have busy_open: "op_busy (fold type_path ps g') = op_busy g'" for g'
    by (induction ps arbitrary: g') (simp_all add: type_path_def)
  show "snd (press_create t (fold edit_new_project es (fst (press_create t f)))) = None \<or> snd (press_create t f) = None"
    by (auto simp: press_create_def new_project_view_def submit_project_def busy)
  show "snd (press_open t (fold type_path ps (fst (press_open t g)))) = None \<or> snd (press_open t g) = None"
    by (auto simp: press_open_def open_project_view_def submit_open_def busy_open)
qed (auto simp: press_create_def press_open_def new_project_view_def open_project_view_def submit_project_def submit_open_def)

text \<open>
  An error stays on the panel while the next attempt is under way, and beside a later refusal only the new text is
  shown: the message is replaced and never cleared.
\<close>

theorem error_stays_while_busy:
  assumes "is_identifier (np_name f)" and "np_message f \<noteq> []" and "\<not> np_busy f"
  shows "pw_error (new_project_view t (fst (press_create t f))) = Some (np_message f)
    \<and> snd (pw_submit (new_project_view t (fst (press_create t f)))) = False"
  using assms by (simp add: press_create_def new_project_view_def submit_project_def submit_error_def)

text \<open>A project whose folder is gone is listed with its mark and without figures, and a click does nothing.\<close>

theorem lost_project_line:
  assumes "\<not> rp_exists row"
  shows "open_recent row answer = [] \<and> \<not> pl_opens (project_line_of t local_text row)
    \<and> pl_lost (project_line_of t local_text row) = Some (t ''home.pathNotFound'') \<and> pl_figures (project_line_of t local_text row) = None"
  using assms by (simp add: open_recent_def project_line_of_def)

end
