(* ===== verification/AppFrame.thy ===== *)
theory AppFrame
  imports LauncherView TextsZh
begin

text \<open>
  The program around its pages (\<open>main.tsx\<close>, \<open>App.tsx\<close>, \<open>components/IdeShell.tsx\<close>, \<open>RequireProject.tsx\<close>,
  \<open>StatusBar.tsx\<close> and the frame of \<open>pages/HomePage.tsx\<close>): the start, the routes, and the frame as one state
  machine in which the menus, the views, the start page with its panels and the provider of the project meet.
  Paths are those the program navigates to.
\<close>

section \<open>The start\<close>

definition starting_text :: "string \<Rightarrow> string" where
  "starting_text locale =
     (if locale = ''en'' then ''Starting VeriIDE backend'' @ chars [0x2026]
      else chars [0x6B63, 0x5728, 0x542F, 0x52A8] @ '' VeriIDE '' @ chars [0x540E, 0x7AEF, 0x2026])"

definition failed_text :: "string \<Rightarrow> string" where
  "failed_text locale =
     (if locale = ''en'' then
        ''Backend failed to start (127.0.0.1:8000 not responding). Please check the FastAPI sidecar and restart VeriIDE.''
      else chars [0x540E, 0x7AEF, 0x672A, 0x80FD, 0x542F, 0x52A8, 0xFF08] @ ''127.0.0.1:8000 '' @ chars [0x65E0, 0x54CD, 0x5E94, 0xFF09, 0x3002, 0x8BF7, 0x68C0, 0x67E5] @ '' FastAPI '' @ chars [0x4FA7, 0x8F66, 0x540E, 0x91CD, 0x65B0, 0x542F, 0x52A8] @ '' VeriIDE'' @ chars [0x3002])"

definition getStartupLocale :: "string option \<Rightarrow> string" where
  "getStartupLocale stored = (if stored = Some ''en'' then ''en'' else ''zh-CN'')"

text \<open>
  What the window shows in the end. The storage holds the theme and the language; \<open>None\<close> is a storage whose
  access throws. Nothing is drawn before the language was read, and nobody catches that error.
\<close>

datatype window = BlankWindow | NoticeWindow string | AppWindow

definition start_window :: "(string option \<times> string option) option \<Rightarrow> (nat \<Rightarrow> bool) \<Rightarrow> window" where
  "start_window storage up =
     (case storage of
        None \<Rightarrow> BlankWindow
      | Some (theme, locale) \<Rightarrow>
          (case fst (start_app up) of
             Starting \<Rightarrow> NoticeWindow (starting_text (getStartupLocale locale))
           | Failed \<Rightarrow> NoticeWindow (failed_text (getStartupLocale locale))
           | Mounted \<Rightarrow> AppWindow))"

section \<open>Routes\<close>

definition routes :: "(string \<times> string) list" where
  "routes =
     [(''/'', ''home''), (''/graph'', ''graph''), (''/device'', ''device''), (''/monitor'', ''monitor''), (''/library'', ''library''),
      (''/simulation'', ''simulation''), (''/download'', ''download'')]"

text \<open>Every page but the first is behind the guard.\<close>

datatype screen = NoScreen | StartScreen | ProjectWanted | StageScreen string

definition screen_of :: "project_info option \<Rightarrow> string \<Rightarrow> screen" where
  "screen_of current path =
     (case map_of routes path of
        None \<Rightarrow> NoScreen
      | Some name \<Rightarrow> if name = ''home'' then StartScreen else guarded current (StageScreen name) ProjectWanted)"

text \<open>The menu of the browser is left to the fields in which text is typed.\<close>

definition browser_menu :: "string \<Rightarrow> bool" where
  "browser_menu tag \<longleftrightarrow> tag = ''INPUT'' \<or> tag = ''TEXTAREA''"

section \<open>The frame\<close>

text \<open>
  A request that is under way: what was asked, the project and the language the handler had captured, the panel that asked, and
  whether the state of the project is being read after it.
\<close>

datatype frame_request = ProjectRequest project_request | StoreBlock block_request

record app_call =
  cl_request :: frame_request
  cl_current :: "project_info option"
  cl_locale :: string
  cl_panel :: "nat option"
  cl_reading :: bool

text \<open>The start page is there only on its route; a panel that is opened is a new instance with a number.\<close>

record app =
  ap_path :: string
  ap_provider :: provider
  ap_home :: "(nat \<times> panel) option option"
  ap_next :: nat
  ap_menu :: menu_bar
  ap_stages :: "stage_status list"
  ap_theme :: string
  ap_attribute :: string
  ap_stored_theme :: "string option"
  ap_locale :: string
  ap_stored_locale :: "string option"
  ap_timers :: "string list"
  ap_calls :: "app_call list"
  ap_said :: "shell_effect list"

definition open_app :: "string option \<Rightarrow> string option \<Rightarrow> app" where
  "open_app theme locale =
     \<lparr>ap_path = ''/'', ap_provider = new_provider, ap_home = Some None, ap_next = 0,
      ap_menu = \<lparr>mb_open = None, mb_submenus = []\<rparr>, ap_stages = initial_stages,
      ap_theme = readTheme (Some theme), ap_attribute = readTheme (Some theme), ap_stored_theme = theme,
      ap_locale = readLocale locale, ap_stored_locale = locale, ap_timers = [], ap_calls = [], ap_said = []\<rparr>"

definition app_current :: "app \<Rightarrow> project_info option" where
  "app_current a = current_project (ap_provider a)"

definition navigate :: "string \<Rightarrow> app \<Rightarrow> app" where
  "navigate path a =
     a\<lparr>ap_path := path,
       ap_home := (if path \<noteq> ''/'' then None else if ap_path a = ''/'' then ap_home a else Some None)\<rparr>"

definition apply_effect :: "shell_effect \<Rightarrow> app \<Rightarrow> app" where
  "apply_effect e a =
     (case e of
        GoTo path \<Rightarrow> navigate path a
      | EmitLater ms name \<Rightarrow> a\<lparr>ap_timers := ap_timers a @ [name]\<rparr>
      | Say kind title msg ms \<Rightarrow> a\<lparr>ap_said := ap_said a @ [e]\<rparr>)"

text \<open>The panel with a name: the one that is open stays when it is asked for again.\<close>

definition show_panel :: "string \<Rightarrow> app \<Rightarrow> app" where
  "show_panel name a =
     (case ap_home a of
        None \<Rightarrow> a
      | Some old \<Rightarrow>
          (let new = open_panel (ap_provider a) name (map_option snd old) in
           if new = map_option snd old then a
           else a\<lparr>ap_home := Some (map_option (Pair (ap_next a)) new), ap_next := ap_next a + 1\<rparr>))"

definition on_panel :: "(nat \<Rightarrow> bool) \<Rightarrow> (panel \<Rightarrow> panel) \<Rightarrow> app \<Rightarrow> app" where
  "on_panel here g a =
     (case ap_home a of
        Some (Some (i, p)) \<Rightarrow> if here i then a\<lparr>ap_home := Some (Some (i, g p))\<rparr> else a
      | _ \<Rightarrow> a)"

definition send :: "frame_request \<Rightarrow> nat option \<Rightarrow> app \<Rightarrow> app" where
  "send r asker a =
     a\<lparr>ap_calls := ap_calls a @ [\<lparr>cl_request = r, cl_current = app_current a, cl_locale = ap_locale a, cl_panel = asker, cl_reading = False\<rparr>]\<rparr>"

section \<open>Panels and answers\<close>

text \<open>The texts depend on the language; a request speaks the language of the rendering it was sent in.\<close>

type_synonym texts_of = "string \<Rightarrow> string \<Rightarrow> (string \<times> string) list \<Rightarrow> string"

datatype panel_input = InProject project_field | InPath string | InBlock block_edit | Picked "string option"

definition edit_panel :: "panel_input \<Rightarrow> panel \<Rightarrow> panel" where
  "edit_panel x p =
     (case (x, p) of
        (InProject e, NewProjectPanel f) \<Rightarrow> NewProjectPanel (edit_new_project e f)
      | (Picked d, NewProjectPanel f) \<Rightarrow> NewProjectPanel (pick_parent d f)
      | (InPath s, OpenProjectPanel f) \<Rightarrow> OpenProjectPanel (type_path s f)
      | (Picked d, OpenProjectPanel f) \<Rightarrow> OpenProjectPanel (pick_path d f)
      | (InBlock e, NewBlockPanel f) \<Rightarrow> NewBlockPanel (edit_new_block e f)
      | _ \<Rightarrow> p)"

text \<open>The button of a panel: the panel after the press, and what is asked.\<close>

definition press_panel ::
    "(string \<Rightarrow> (string \<times> string) list \<Rightarrow> string) \<Rightarrow> panel \<Rightarrow> panel \<times> frame_request option" where
  "press_panel t p =
     (case p of
        NewProjectPanel f \<Rightarrow> (let (g, r) = press_create (\<lambda>k. t k []) f in (NewProjectPanel g, map_option ProjectRequest r))
      | OpenProjectPanel f \<Rightarrow> (let (g, r) = press_open (\<lambda>k. t k []) f in (OpenProjectPanel g, map_option ProjectRequest r))
      | NewBlockPanel f \<Rightarrow>
          if nb_busy f then (p, None) else (let (g, r) = submit_block t f in (NewBlockPanel g, map_option StoreBlock r)))"

definition press_submit :: "texts_of \<Rightarrow> app \<Rightarrow> app" where
  "press_submit t a =
     (case ap_home a of
        Some (Some (i, p)) \<Rightarrow>
          (case press_panel (t (ap_locale a)) p of
             (q, None) \<Rightarrow> on_panel (\<lambda>j. j = i) (\<lambda>_. q) a
           | (q, Some r) \<Rightarrow> send r (Some i) (on_panel (\<lambda>j. j = i) (\<lambda>_. q) a))
      | _ \<Rightarrow> a)"

text \<open>What a refused request does: the panel that asked shows the error, the shell tells it, a row says nothing.\<close>

definition refuse_panel :: "string \<Rightarrow> panel \<Rightarrow> panel" where
  "refuse_panel e p =
     (case p of
        NewProjectPanel f \<Rightarrow> NewProjectPanel (fst (project_answered (Inl e :: string + unit) f))
      | OpenProjectPanel f \<Rightarrow> OpenProjectPanel (fst (open_answered (Inl e :: string + unit) f))
      | NewBlockPanel f \<Rightarrow> NewBlockPanel (fst (block_answered (Inl e :: string + unit) f)))"

definition call_refused :: "texts_of \<Rightarrow> string \<Rightarrow> app_call \<Rightarrow> app \<Rightarrow> app" where
  "call_refused t e c a =
     (case cl_request c of
        ProjectRequest SaveCurrent \<Rightarrow> fold apply_effect (snd (shell_save (\<lambda>k. t (cl_locale c) k []) (cl_current c) (Inl e))) a
      | ProjectRequest CloseCurrent \<Rightarrow> fold apply_effect (snd (shell_close (\<lambda>k. t (cl_locale c) k []) (cl_current c) (Inl e))) a
      | _ \<Rightarrow> (case cl_panel c of None \<Rightarrow> a | Some i \<Rightarrow> on_panel (\<lambda>j. j = i) (refuse_panel e) a))"

text \<open>What follows when the request was granted and the state was read, whatever that read gave.\<close>

definition call_effects :: "texts_of \<Rightarrow> app_call \<Rightarrow> shell_effect list" where
  "call_effects t c =
     (case cl_request c of
        ProjectRequest SaveCurrent \<Rightarrow> snd (shell_save (\<lambda>k. t (cl_locale c) k []) (cl_current c) (Inr ()))
      | ProjectRequest CloseCurrent \<Rightarrow> snd (shell_close (\<lambda>k. t (cl_locale c) k []) (cl_current c) (Inr ()))
      | ProjectRequest (ForgetPath path) \<Rightarrow> []
      | ProjectRequest _ \<Rightarrow> [GoTo ''/device'']
      | StoreBlock r \<Rightarrow> [GoTo ''/library''])"

text \<open>The bar of the stages is there while a project is open, and starts anew with it.\<close>

definition take_state :: "string + launcher_state \<Rightarrow> app \<Rightarrow> app" where
  "take_state answer a =
     (let a1 = a\<lparr>ap_provider := provider_refresh answer (ap_provider a)\<rparr> in
      if app_current a = None \<or> app_current a1 = None then a1\<lparr>ap_stages := initial_stages\<rparr> else a1)"

definition drop_call :: "nat \<Rightarrow> app \<Rightarrow> app" where
  "drop_call n a = a\<lparr>ap_calls := take n (ap_calls a) @ drop (Suc n) (ap_calls a)\<rparr>"

definition answer_call :: "texts_of \<Rightarrow> nat \<Rightarrow> string + unit \<Rightarrow> app \<Rightarrow> app" where
  "answer_call t n answer a =
     (if n < length (ap_calls a) \<and> \<not> cl_reading (ap_calls a ! n) then
        (case answer of
           Inl e \<Rightarrow> call_refused t e (ap_calls a ! n) (drop_call n a)
         | Inr u \<Rightarrow> a\<lparr>ap_calls := (ap_calls a)[n := (ap_calls a ! n)\<lparr>cl_reading := True\<rparr>]\<rparr>)
      else a)"

definition state_read :: "texts_of \<Rightarrow> nat \<Rightarrow> string + launcher_state \<Rightarrow> app \<Rightarrow> app" where
  "state_read t n answer a =
     (if n < length (ap_calls a) \<and> cl_reading (ap_calls a ! n) then
        fold apply_effect (call_effects t (ap_calls a ! n)) (take_state answer (drop_call n a))
      else a)"

section \<open>Events\<close>

datatype app_event =
    ClickTitle
  | ClickContinue
  | ClickView string
  | ClickStage nat
  | PressLanguage
  | PressTheme
  | MenuEvent menu_event
  | TimerFires
  | PressTile string
  | ClosePanel
  | PanelInput panel_input
  | PressSubmit
  | ClickProject recent_project
  | ForgetProject recent_project
  | ClickBlock
  | PressHome
  | FirstRead "string + launcher_state"
  | StagesRead stage_answers
  | CallAnswered nat "string + unit"
  | StateRead nat "string + launcher_state"

definition run_menu :: "texts_of \<Rightarrow> menu_action option \<Rightarrow> app \<Rightarrow> app" where
  "run_menu t action a =
     (case action of
        None \<Rightarrow> a
      | Some SaveProject \<Rightarrow>
          if app_current a = None then fold apply_effect (snd (shell_save (\<lambda>k. t (ap_locale a) k []) None (Inr ()))) a
          else send (ProjectRequest SaveCurrent) None a
      | Some CloseProject \<Rightarrow>
          if app_current a = None then fold apply_effect (snd (shell_close (\<lambda>k. t (ap_locale a) k []) None (Inr ()))) a
          else send (ProjectRequest CloseCurrent) None a
      | Some other \<Rightarrow> fold apply_effect (snd (menu_chosen (\<lambda>k. t (ap_locale a) k []) (app_current a) (Inr ()) other)) a)"

definition press_language :: "app \<Rightarrow> app" where
  "press_language a =
     (let next = toggle_locale (ap_locale a) in a\<lparr>ap_locale := next, ap_stored_locale := Some next\<rparr>)"

definition press_theme :: "app \<Rightarrow> app" where
  "press_theme a =
     (let next = toggle_theme (ap_theme a); (attribute, storage) = writeTheme next (Some (ap_stored_theme a)) in
      a\<lparr>ap_theme := next, ap_attribute := attribute,
        ap_stored_theme := (case storage of None \<Rightarrow> ap_stored_theme a | Some stored \<Rightarrow> stored)\<rparr>)"

text \<open>A control that is not on the screen does nothing.\<close>

definition on_start :: "(app \<Rightarrow> app) \<Rightarrow> app \<Rightarrow> app" where
  "on_start g a = (if ap_home a = None then a else g a)"

definition app_step :: "texts_of \<Rightarrow> app_event \<Rightarrow> app \<Rightarrow> app" where
  "app_step t e a =
     (case e of
        ClickTitle \<Rightarrow> navigate ''/'' a
      | ClickContinue \<Rightarrow> on_start (\<lambda>a. if app_current a = None then a else navigate ''/device'' a) a
      | ClickView i \<Rightarrow> fold apply_effect (select_view (app_current a) i) a
      | ClickStage n \<Rightarrow>
          if app_current a = None \<or> length (ap_stages a) \<le> n then a
          else fold apply_effect (handleStageClick (\<lambda>k. t (ap_locale a) k []) (ap_stages a) n) a
      | PressLanguage \<Rightarrow> press_language a
      | PressTheme \<Rightarrow> press_theme a
      | MenuEvent m \<Rightarrow> (let (mb, action) = menu_step m (ap_menu a) in run_menu t action (a\<lparr>ap_menu := mb\<rparr>))
      | TimerFires \<Rightarrow> (case ap_timers a of [] \<Rightarrow> a | name # later \<Rightarrow> show_panel name (a\<lparr>ap_timers := later\<rparr>))
      | PressTile name \<Rightarrow> on_start (show_panel name) a
      | ClosePanel \<Rightarrow> on_start (\<lambda>a. a\<lparr>ap_home := Some None\<rparr>) a
      | PanelInput x \<Rightarrow> on_panel (\<lambda>i. True) (edit_panel x) a
      | PressSubmit \<Rightarrow> press_submit t a
      | ClickProject row \<Rightarrow>
          on_start (\<lambda>a. if rp_exists row then send (ProjectRequest (OpenPath (rp_path row))) None a else a) a
      | ForgetProject row \<Rightarrow> on_start (send (ProjectRequest (ForgetPath (rp_path row))) None) a
      | ClickBlock \<Rightarrow> on_start (navigate ''/library'') a
      | PressHome \<Rightarrow> if screen_of (app_current a) (ap_path a) = ProjectWanted then navigate ''/'' a else a
      | FirstRead answer \<Rightarrow> take_state answer a
      | StagesRead answers \<Rightarrow> if app_current a = None then a else a\<lparr>ap_stages := calculateProgress answers (ap_stages a)\<rparr>
      | CallAnswered n answer \<Rightarrow> answer_call t n answer a
      | StateRead n answer \<Rightarrow> state_read t n answer a)"

section \<open>What the frame shows\<close>

record frame_view =
  fv_title :: "string list"
  fv_language :: "string \<times> string"
  fv_theme :: string
  fv_views :: "(string \<times> bool \<times> bool) list"
  fv_menus :: "(string \<times> bool) list"
  fv_stages :: "(stage_view list \<times> string) option"
  fv_wanted :: "string list"
  fv_status :: "string list"

definition frame_view_of :: "(string \<Rightarrow> string) \<Rightarrow> app \<Rightarrow> frame_view" where
  "frame_view_of t a =
     (let current = app_current a; zh = (ap_locale a = ''zh-CN'') in
      \<lparr>fv_title = title_text t current,
       fv_language = (if zh then (''EN'', t ''title.lang.zh'') else (utf8 [228, 184, 173], t ''title.lang.en'')),
       fv_theme = (if ap_theme a = ''dark'' then t ''title.theme.dark'' else t ''title.theme.light''),
       fv_views = map (nav_button t current (ap_path a)) nav_items,
       fv_menus = map (\<lambda>(i, label, items). (label, mb_open (ap_menu a) = Some i)) (menu_groups t),
       fv_stages = (if current = None then None
         else Some (map (show_stage t (ap_path a) (ap_stages a)) [0..<length (ap_stages a)],
                stages_done (ap_stages a) @ '' '' @ t ''workflow.complete'')),
       fv_wanted = (if screen_of current (ap_path a) = ProjectWanted
         then [t ''requireProject.title'', t ''requireProject.desc'', t ''requireProject.goHome''] else []),
       fv_status = [t ''status.ready'', t ''status.encoding'', t ''status.language'', t ''status.version'']\<rparr>)"

end
