(* ===== verification/AppFrameLaws.thy ===== *)
theory AppFrameLaws
  imports AppFrame PageInvariant
begin

text \<open>
  Laws of the frame: what holds whatever is pressed and answered in whatever order, how a panel is reached from
  the menus, and what becomes of requests whose answers come late or whose state cannot be read.
\<close>

section \<open>The invariant\<close>

text \<open>
  The start page is mounted exactly on its route, the path is one of the routes, theme and language are those that
  a new start would read, panels and the requests they sent have older numbers than the next panel, and the bar of
  the stages keeps its four stages.
\<close>

definition settings_kept :: "app \<Rightarrow> bool" where
  "settings_kept a \<longleftrightarrow>
     ap_theme a = readTheme (Some (ap_stored_theme a)) \<and> ap_attribute a = ap_theme a \<and> ap_locale a = readLocale (ap_stored_locale a)"

definition place_ok :: "app \<Rightarrow> bool" where
  "place_ok a \<longleftrightarrow> ap_path a \<in> set (map fst routes) \<and> (ap_home a = None \<longleftrightarrow> ap_path a \<noteq> ''/'')"

definition older :: "nat \<Rightarrow> nat option \<Rightarrow> bool" where
  "older k i \<longleftrightarrow> (case i of None \<Rightarrow> True | Some n \<Rightarrow> n < k)"

definition panel_number :: "app \<Rightarrow> nat option" where
  "panel_number a = Option.bind (ap_home a) (map_option fst)"

definition panels_ok :: "app \<Rightarrow> bool" where
  "panels_ok a \<longleftrightarrow> older (ap_next a) (panel_number a) \<and> list_all (\<lambda>c. older (ap_next a) (cl_panel c)) (ap_calls a)"

lemma older_simps [simp]: "older k None" "older k (Some n) \<longleftrightarrow> n < k"
  by (simp_all add: older_def)

lemma older_new [simp]: "older (Suc k) (map_option fst (map_option (Pair k) q))"
  by (cases q) simp_all

lemma older_next: "older k i \<Longrightarrow> older (Suc k) i"
  by (cases i) simp_all

definition bar_ok :: "app \<Rightarrow> bool" where
  "bar_ok a \<longleftrightarrow> map ws_path (ap_stages a) = map (snd \<circ> snd) STAGES \<and> (app_current a = None \<longrightarrow> ap_stages a = initial_stages)"

definition frame_ok :: "app \<Rightarrow> bool" where
  "frame_ok a \<longleftrightarrow> settings_kept a \<and> place_ok a \<and> panels_ok a \<and> bar_ok a"

lemma frame_open: "frame_ok (open_app theme locale)"
  by (simp add: frame_ok_def settings_kept_def place_ok_def panels_ok_def panel_number_def bar_ok_def open_app_def routes_def initial_stages_def
      STAGES_def)

definition to_route :: "shell_effect \<Rightarrow> bool" where
  "to_route e \<longleftrightarrow> (case e of GoTo path \<Rightarrow> path \<in> set (map fst routes) | _ \<Rightarrow> True)"

lemmas frame_defs = frame_ok_def settings_kept_def place_ok_def panels_ok_def panel_number_def bar_ok_def app_current_def

lemma navigate_ok [inv_intros]: "frame_ok a \<Longrightarrow> path \<in> set (map fst routes) \<Longrightarrow> frame_ok (navigate path a)"
  by (auto simp: frame_defs navigate_def split: option.splits prod.splits)

lemma effect_ok [inv_intros]: "frame_ok a \<Longrightarrow> to_route e \<Longrightarrow> frame_ok (apply_effect e a)"
proof (cases e)
  case (GoTo path)
  then show "frame_ok a \<Longrightarrow> to_route e \<Longrightarrow> ?thesis"
    by (simp add: apply_effect_def to_route_def navigate_ok)
qed (simp_all add: apply_effect_def frame_defs)

lemma effects_ok [inv_intros]: "frame_ok a \<Longrightarrow> list_all to_route es \<Longrightarrow> frame_ok (fold apply_effect es a)"
  by (induction es arbitrary: a) (simp_all add: effect_ok)

lemma show_panel_ok [inv_intros]: "frame_ok a \<Longrightarrow> frame_ok (show_panel name a)"
  by (auto simp: frame_defs show_panel_def Let_def list_all_iff older_next split: option.splits)

lemma on_panel_ok [inv_intros]: "frame_ok a \<Longrightarrow> frame_ok (on_panel here g a)"
  by (auto simp: frame_defs on_panel_def split: option.splits)

lemma send_ok [inv_intros]:
  "frame_ok a \<Longrightarrow> older (ap_next a) asker \<Longrightarrow> frame_ok (send r asker a)"
  by (auto simp: frame_defs send_def)

lemma drop_call_ok [inv_intros]: "frame_ok a \<Longrightarrow> frame_ok (drop_call n a)"
  by (auto simp: frame_defs drop_call_def list_all_iff dest: in_set_takeD in_set_dropD)

lemma take_state_ok [inv_intros]: "frame_ok a \<Longrightarrow> frame_ok (take_state answer a)"
  by (auto simp: frame_defs take_state_def Let_def initial_stages_def STAGES_def split: option.splits)

lemma panel_frame: "ap_next (on_panel here g a) = ap_next a"
  by (simp add: on_panel_def split: option.split)

section \<open>Every step keeps it\<close>

lemma shell_routes:
  "list_all to_route (snd (shell_save t current answer))" "list_all to_route (snd (shell_close t current answer))"
  "list_all to_route (snd (menu_chosen t current answer action))"
  by (auto simp: shell_save_def shell_close_def shell_properties_def menu_chosen_def to_route_def routes_def
      split: option.splits sum.splits menu_action.splits)

lemma view_routes: "list_all to_route (select_view current i)"
  by (auto simp: select_view_def nav_items_def to_route_def routes_def split: option.splits if_splits)

lemma stage_routes:
  assumes "bar_ok a" and "n < length (ap_stages a)"
  shows "list_all to_route (handleStageClick t (ap_stages a) n)"
proof -
  have "length (ap_stages a) = 4"
    using assms(1) by (auto simp: bar_ok_def STAGES_def dest: arg_cong [where f = length])
  then have "ws_path (ap_stages a ! n) \<in> set (map (snd \<circ> snd) STAGES)"
    using assms unfolding bar_ok_def by (metis length_map nth_map nth_mem)
  then show ?thesis
    by (auto simp: handleStageClick_def to_route_def routes_def STAGES_def Let_def)
qed

lemma call_routes: "list_all to_route (call_effects t c)"
  by (auto simp: call_effects_def shell_routes to_route_def routes_def split: frame_request.split project_request.split)

lemma refused_ok [inv_intros]: "frame_ok a \<Longrightarrow> frame_ok (call_refused t e c a)"
  unfolding call_refused_def
  by (auto intro!: inv_intros shell_routes split: frame_request.split project_request.split option.split)

lemma press_submit_ok [inv_intros]: "frame_ok a \<Longrightarrow> frame_ok (press_submit t a)"
  unfolding press_submit_def
  by (auto intro!: inv_intros simp: panel_frame split: option.split prod.split)
    (auto simp: frame_ok_def panels_ok_def panel_number_def)

lemma run_menu_ok [inv_intros]: "frame_ok a \<Longrightarrow> frame_ok (run_menu t action a)"
  unfolding run_menu_def
  by (auto intro!: inv_intros shell_routes split: option.split menu_action.split)

lemma calculated_bar: "map ws_path (calculateProgress answers stages) = map (snd \<circ> snd) STAGES"
  if "map ws_path stages = map (snd \<circ> snd) STAGES"
  using that by (auto simp: calculateProgress_def STAGES_def Let_def split: option.splits prod.splits)

lemma answers_ok [inv_intros]:
  "frame_ok a \<Longrightarrow> frame_ok (answer_call t n answer a)" "frame_ok a \<Longrightarrow> frame_ok (state_read t n answer2 a)"
proof -
  assume ok: "frame_ok a"
  have "n < length (ap_calls a) \<Longrightarrow> frame_ok (a\<lparr>ap_calls := (ap_calls a)[n := (ap_calls a ! n)\<lparr>cl_reading := True\<rparr>]\<rparr>)"
    using ok by (auto simp: frame_defs list_all_length nth_list_update)
  then show "frame_ok (answer_call t n answer a)"
    using ok by (auto simp: answer_call_def intro!: inv_intros split: sum.split)
  show "frame_ok (state_read t n answer2 a)"
    using ok by (auto simp: state_read_def intro!: inv_intros call_routes)
qed

lemma settings_ok [inv_intros]: "frame_ok a \<Longrightarrow> frame_ok (press_language a)" "frame_ok a \<Longrightarrow> frame_ok (press_theme a)"
proof -
  assume ok: "frame_ok a"
  have "readLocale (Some (toggle_locale l)) = toggle_locale l" and "readTheme (Some (Some (toggle_theme l))) = toggle_theme l" for l
    by (simp_all add: readLocale_def toggle_locale_def readTheme_def toggle_theme_def)
  then show "frame_ok (press_language a)" and "frame_ok (press_theme a)"
    using ok by (simp_all add: frame_defs press_language_def press_theme_def writeTheme_def Let_def)
qed

lemma fixed_routes: "''/'' \<in> set (map fst routes)" "''/device'' \<in> set (map fst routes)" "''/library'' \<in> set (map fst routes)"
  by (simp_all add: routes_def)

lemmas navigate_fixed = fixed_routes [THEN navigate_ok [rotated]]

lemma app_step_ok: "frame_ok a \<Longrightarrow> frame_ok (app_step t e a)"
proof (cases e)
  case (MenuEvent m)
  assume "frame_ok a"
  then have "frame_ok (a\<lparr>ap_menu := mb\<rparr>)" for mb
    by (simp add: frame_defs)
  then show ?thesis
    using MenuEvent by (auto simp: app_step_def intro!: inv_intros split: prod.split)
next
  case TimerFires
  assume "frame_ok a"
  then have "frame_ok (a\<lparr>ap_timers := later\<rparr>)" for later
    by (simp add: frame_defs)
  then show ?thesis
    using TimerFires \<open>frame_ok a\<close> by (auto simp: app_step_def intro!: inv_intros split: list.split)
next
  case (StagesRead answers)
  assume "frame_ok a"
  then show ?thesis
    using StagesRead by (auto simp: app_step_def frame_defs calculated_bar)
next
  case ClosePanel
  assume "frame_ok a"
  then show ?thesis
    using ClosePanel by (auto simp: app_step_def on_start_def frame_defs routes_def)
next
  case (ClickStage n)
  assume "frame_ok a"
  then show ?thesis
    using ClickStage by (auto simp: app_step_def frame_ok_def intro!: effects_ok [unfolded frame_ok_def] stage_routes)
qed (simp_all add: app_step_def on_start_def inv_intros view_routes navigate_fixed)

interpretation frame: editor "app_step t" "\<lambda>e a. True" frame_ok for t
  by unfold_locales (rule app_step_ok)

section \<open>One request of a panel at a time\<close>

definition panel_busy :: "panel \<Rightarrow> bool" where
  "panel_busy p =
     (case p of NewProjectPanel f \<Rightarrow> np_busy f | OpenProjectPanel f \<Rightarrow> op_busy f | NewBlockPanel f \<Rightarrow> nb_busy f)"

text \<open>The panels that wait for an answer.\<close>

definition askers :: "app_call list \<Rightarrow> nat list" where
  "askers calls = map the (filter (\<lambda>i. i \<noteq> None) (map cl_panel calls))"

definition waits :: "nat list \<Rightarrow> (nat \<times> panel) option option \<Rightarrow> bool" where
  "waits asked home \<longleftrightarrow> (case home of Some (Some (i, p)) \<Rightarrow> i \<in> set asked \<longrightarrow> panel_busy p | _ \<Rightarrow> True)"

definition single_ok :: "app \<Rightarrow> bool" where
  "single_ok a \<longleftrightarrow> distinct (askers (ap_calls a)) \<and> waits (askers (ap_calls a)) (ap_home a)"

lemma waits_simps [simp]:
  "waits asked None" "waits asked (Some None)" "waits asked (Some (Some (i, p))) \<longleftrightarrow> (i \<in> set asked \<longrightarrow> panel_busy p)"
  by (simp_all add: waits_def)

lemma waits_less: "waits asked home \<Longrightarrow> set asked2 \<subseteq> set asked \<Longrightarrow> waits asked2 home"
  by (auto simp: waits_def split: option.splits)

lemma askers_older: "frame_ok a \<Longrightarrow> i \<in> set (askers (ap_calls a)) \<Longrightarrow> i < ap_next a"
  by (auto simp: frame_ok_def panels_ok_def askers_def list_all_iff)

lemma askers_simps [simp]:
  "askers [] = []" "askers (c # cs) = (case cl_panel c of None \<Rightarrow> askers cs | Some i \<Rightarrow> i # askers cs)"
  "askers (cs @ ds) = askers cs @ askers ds"
  by (simp_all add: askers_def split: option.split)

lemma askers_dropped:
  assumes "n < length calls" and "distinct (askers calls)"
  shows "distinct (askers (take n calls @ drop (Suc n) calls))"
    and "set (askers (take n calls @ drop (Suc n) calls)) = set (askers calls) - (case cl_panel (calls ! n) of None \<Rightarrow> {} | Some i \<Rightarrow> {i})"
proof -
  have "askers calls = askers (take n calls @ calls ! n # drop (Suc n) calls)"
    using id_take_nth_drop [OF assms(1)] by simp
  then show "distinct (askers (take n calls @ drop (Suc n) calls))"
    and "set (askers (take n calls @ drop (Suc n) calls)) = set (askers calls) - (case cl_panel (calls ! n) of None \<Rightarrow> {} | Some i \<Rightarrow> {i})"
    using assms(2) by (auto split: option.splits)
qed

lemma busy_kept: "panel_busy (edit_panel x p) = panel_busy p"
  by (auto simp: panel_busy_def edit_panel_def edit_new_project_def type_path_def edit_new_block_def suggest_type_def onTypeName_def
      pick_parent_def pick_path_def Let_def
      split: panel.splits panel_input.splits project_field.splits block_edit.splits option.splits)

lemma press_busy: "press_panel t p = (q, Some r) \<Longrightarrow> \<not> panel_busy p \<and> panel_busy q"
  "press_panel t p = (q, None) \<Longrightarrow> panel_busy q = panel_busy p"
  by (auto simp: press_panel_def panel_busy_def press_create_def press_open_def new_project_view_def open_project_view_def
      submit_project_def submit_open_def submit_block_def split: panel.splits if_splits)

named_theorems single_intros \<open>an operation of the frame keeps the requests of the panels apart\<close>

lemma navigate_single [single_intros]: "single_ok a \<Longrightarrow> single_ok (navigate path a)"
  by (simp add: single_ok_def navigate_def)

lemma effects_single [single_intros]: "single_ok a \<Longrightarrow> single_ok (fold apply_effect es a)"
proof (induction es arbitrary: a)
  case (Cons e es)
  then have "single_ok (apply_effect e a)"
    by (cases e) (simp_all add: apply_effect_def navigate_single, simp_all add: single_ok_def)
  then show ?case
    using Cons.IH by simp
qed simp

lemma show_panel_single [single_intros]: "frame_ok a \<Longrightarrow> single_ok a \<Longrightarrow> single_ok (show_panel name a)"
  using askers_older [of a "ap_next a"]
  by (cases "ap_home a"; cases "open_panel (ap_provider a) name (map_option snd (the (ap_home a)))")
    (auto simp: single_ok_def show_panel_def Let_def)

lemma on_panel_single [single_intros]:
  "single_ok a \<Longrightarrow> (\<And>p. panel_busy p \<Longrightarrow> panel_busy (g p)) \<Longrightarrow> single_ok (on_panel here g a)"
  by (auto simp: single_ok_def on_panel_def split: option.splits)

lemma send_single [single_intros]: "single_ok a \<Longrightarrow> single_ok (send r None a)"
  by (simp add: single_ok_def send_def)

lemma take_state_single [single_intros]: "single_ok a \<Longrightarrow> single_ok (take_state answer a)"
  by (simp add: single_ok_def take_state_def Let_def)

lemma drop_call_single: "single_ok a \<Longrightarrow> n < length (ap_calls a) \<Longrightarrow> single_ok (drop_call n a)"
  by (auto simp: single_ok_def drop_call_def askers_dropped simp del: askers_simps intro: waits_less)

lemma refused_single:
  assumes "single_ok a" and "n < length (ap_calls a)"
  shows "single_ok (call_refused t e (ap_calls a ! n) (drop_call n a))"
proof -
  have dropped: "single_ok (drop_call n a)"
    using assms by (rule drop_call_single)
  have "single_ok (on_panel (\<lambda>j. j = i) (refuse_panel e) (drop_call n a))" if "cl_panel (ap_calls a ! n) = Some i" for i
    using assms that dropped
    by (auto simp: single_ok_def on_panel_def drop_call_def askers_dropped simp del: askers_simps split: option.splits)
  then show ?thesis
    using dropped unfolding call_refused_def
    by (auto intro: single_intros split: frame_request.split project_request.split option.split)
qed

lemma reading_askers: "n < length calls \<Longrightarrow> askers (calls[n := (calls ! n)\<lparr>cl_reading := r\<rparr>]) = askers calls"
proof -
  have "map cl_panel (calls[n := (calls ! n)\<lparr>cl_reading := r\<rparr>]) = map cl_panel calls" if "n < length calls"
    using that by (simp add: map_update list_update_same_conv)
  then show "n < length calls \<Longrightarrow> ?thesis"
    by (simp add: askers_def)
qed

lemma answers_single [single_intros]:
  "single_ok a \<Longrightarrow> single_ok (answer_call t n answer a)" "single_ok a \<Longrightarrow> single_ok (state_read t n answer2 a)"
proof -
  assume ok: "single_ok a"
  then have "n < length (ap_calls a) \<Longrightarrow> single_ok (a\<lparr>ap_calls := (ap_calls a)[n := (ap_calls a ! n)\<lparr>cl_reading := True\<rparr>]\<rparr>)"
    by (simp add: single_ok_def reading_askers)
  then show "single_ok (answer_call t n answer a)"
    using ok by (auto simp: answer_call_def refused_single split: sum.split)
  show "single_ok (state_read t n answer2 a)"
    using ok by (simp add: state_read_def single_intros drop_call_single)
qed

lemma press_submit_single [single_intros]: "single_ok a \<Longrightarrow> single_ok (press_submit t a)"
  using press_busy
  by (fastforce simp: press_submit_def single_ok_def on_panel_def send_def split: option.splits prod.splits)

lemma run_menu_single [single_intros]: "single_ok a \<Longrightarrow> single_ok (run_menu t action a)"
  unfolding run_menu_def by (auto intro!: single_intros split: option.split menu_action.split)

lemma app_step_single: "frame_ok a \<Longrightarrow> single_ok a \<Longrightarrow> single_ok (app_step t e a)"
proof (cases e)
  case (MenuEvent m)
  assume "single_ok a"
  then have "single_ok (a\<lparr>ap_menu := mb\<rparr>)" for mb
    by (simp add: single_ok_def)
  then show ?thesis
    using MenuEvent by (auto simp: app_step_def intro!: single_intros split: prod.split)
next
  case TimerFires
  assume "frame_ok a" and "single_ok a"
  then have "frame_ok (a\<lparr>ap_timers := later\<rparr>) \<and> single_ok (a\<lparr>ap_timers := later\<rparr>)" for later
    by (simp add: frame_defs single_ok_def)
  then show ?thesis
    using TimerFires \<open>single_ok a\<close> by (auto simp: app_step_def intro!: single_intros split: list.split)
next
  case (PanelInput x)
  assume "single_ok a"
  then show ?thesis
    using PanelInput by (simp add: app_step_def on_panel_single busy_kept)
qed (simp_all add: app_step_def on_start_def single_intros, simp_all add: single_ok_def press_language_def press_theme_def
    writeTheme_def Let_def)

lemma frame_single_ok: "frame_ok a \<and> single_ok a \<Longrightarrow> frame_ok (app_step t e a) \<and> single_ok (app_step t e a)"
  by (simp add: app_step_ok app_step_single)

interpretation panels: editor "app_step t" "\<lambda>e a. True" "\<lambda>a. frame_ok a \<and> single_ok a" for t
  by unfold_locales (rule frame_single_ok)

section \<open>Properties\<close>

text \<open>
  C7: whatever is pressed and answered, in whatever order: the program stays on one of its pages, the start page
  with its panels is there exactly on its own address, a new start finds the theme and the language that are on the
  screen, and without a project the bar of the stages is at its beginning.
\<close>

theorem frame_session_ok: "frame_ok (fold (app_step t) events (open_app theme locale))"
  using frame.session_keeps_all [OF frame_open] by blast

text \<open>
  C6: a panel never has two requests under way, and it cannot be sent again while it has one, whatever is typed
  into it, however often its button is pressed, and whatever the other parts of the frame ask meanwhile.
\<close>

theorem panel_asks_once: "single_ok (fold (app_step t) events (open_app theme locale))"
proof -
  have "frame_ok (open_app theme locale) \<and> single_ok (open_app theme locale)"
    by (simp add: frame_open) (simp add: single_ok_def open_app_def)
  from panels.session_keeps_all [OF this] show ?thesis
    by blast
qed

text \<open>
  C39: closing the project says that it was closed even when its state could not be read afterwards; the old project
  is still taken to be open, its pages can be opened, and saving it is still offered.
\<close>

theorem closed_project_stays_open:
  assumes "app_current a = Some p" and "n = length (ap_calls a)"
    and "a2 = fold (app_step t)
      [MenuEvent (ClickItem (menu_command tt ''close'' ''menu.file.close'' None CloseProject)), CallAnswered n (Inr ()), StateRead n (Inl e)] a"
  shows "app_current a2 = Some p \<and> ap_path a2 = ''/''
    \<and> ap_said a2 = ap_said a @ [Say ToastOk (t (ap_locale a) ''common.projectClosed'' []) (Some (pi_name p)) None]
    \<and> screen_of (app_current a2) (ap_path (app_step t (ClickView ''graph'') a2)) = StageScreen ''graph''"
  using assms
  by (simp add: app_step_def menu_step_def menu_command_def close_menu_def run_menu_def send_def answer_call_def state_read_def
      drop_call_def take_state_def provider_refresh_def app_current_def current_project_def call_effects_def shell_close_def
      apply_effect_def navigate_def select_view_def disabled_views_def nav_items_def screen_of_def routes_def guarded_def Let_def)

definition demo_project :: project_info where
  "demo_project =
     \<lparr>pi_name = ''rps'', pi_path = ''/p/rps'', pi_safety_level = ''SIL2'', pi_svm_version = [], pi_description = [], pi_tree = []\<rparr>"

definition demo_state :: "project_info \<Rightarrow> launcher_state" where
  "demo_state p = \<lparr>la_current = Some p, la_recent_projects = [], la_recent_blocks = [], la_default_parent_dir = []\<rparr>"

definition demo_app :: app where
  "demo_app = (open_app None None)\<lparr>ap_provider := \<lparr>pv_state = Some (demo_state demo_project), pv_error = None\<rparr>\<rparr>"

definition demo_row :: recent_project where
  "demo_row =
     \<lparr>rp_path = ''/p/a'', rp_name = ''a'', rp_safety_level = ''SIL2'', rp_opened_at = [], rp_exists = True, rp_pages = 1,
       rp_stations = 1, rp_blocks = 0\<rparr>"

theorem closed_project_stays_open_witness:
  "app_current (fold (app_step (\<lambda>l k as. k))
      [MenuEvent (ClickItem (menu_command id ''close'' ''menu.file.close'' None CloseProject)), CallAnswered 0 (Inr ()),
       StateRead 0 (Inl ''timeout'')] demo_app) = Some demo_project"
proof -
  have "app_current demo_app = Some demo_project" and "0 = length (ap_calls demo_app)"
    by (simp_all add: demo_app_def demo_state_def open_app_def app_current_def current_project_def)
  from closed_project_stays_open [OF this refl, of "\<lambda>l k as. k" id "''timeout''"] show ?thesis
    by blast
qed

text \<open>
  Opening a project takes the user to the device page when the answer comes, wherever the user went meanwhile;
  and when the state of the project cannot be read, that page asks for a project instead of showing it.
\<close>

theorem opening_takes_away:
  assumes "ap_home a \<noteq> None" and "rp_exists row" and "n = length (ap_calls a)" and "i \<in> set (map fst nav_items)"
    and "a2 = fold (app_step t) [ClickProject row, ClickView i, CallAnswered n (Inr ()), StateRead n answer] a"
  shows "ap_path a2 = ''/device'' \<and> ap_home a2 = None
    \<and> (app_current a = None \<and> isl answer \<longrightarrow> screen_of (app_current a2) (ap_path a2) = ProjectWanted)"
proof -
  let ?b = "app_step t (ClickView i) (app_step t (ClickProject row) a)"
  let ?call = "\<lparr>cl_request = ProjectRequest (OpenPath (rp_path row)), cl_current = app_current a, cl_locale = ap_locale a,
    cl_panel = None, cl_reading = False\<rparr>"
  have moved: "ap_calls (fold apply_effect (select_view c i) x) = ap_calls x"
    "ap_provider (fold apply_effect (select_view c i) x) = ap_provider x" for c x
    by (auto simp: select_view_def apply_effect_def navigate_def split: option.split)
  have "app_step t (ClickProject row) a = send (ProjectRequest (OpenPath (rp_path row))) None a"
    using assms(1,2) by (auto simp: app_step_def on_start_def)
  then have b: "ap_calls ?b = ap_calls a @ [?call]" and pv: "ap_provider ?b = ap_provider a"
    by (simp_all add: app_step_def moved, simp_all add: send_def)
  have "app_step t (CallAnswered n (Inr ())) ?b = ?b\<lparr>ap_calls := ap_calls a @ [?call\<lparr>cl_reading := True\<rparr>]\<rparr>"
    using assms(3) b by (simp add: app_step_def answer_call_def)
  then have "a2 = state_read t n answer (?b\<lparr>ap_calls := ap_calls a @ [?call\<lparr>cl_reading := True\<rparr>]\<rparr>)"
    using assms(5) by (simp add: app_step_def)
  then have "a2 = navigate ''/device'' (take_state answer (?b\<lparr>ap_calls := ap_calls a\<rparr>))"
    using assms(3) by (simp add: state_read_def drop_call_def call_effects_def apply_effect_def)
  then show ?thesis
    using pv by (auto simp: navigate_def take_state_def Let_def app_current_def current_project_def screen_of_def routes_def
        guarded_def provider_refresh_def split: sum.splits)
qed

theorem opening_takes_away_witness:
  "ap_path (fold (app_step (\<lambda>l k as. k))
     [ClickProject demo_row, ClickView ''library'', CallAnswered 0 (Inr ()), StateRead 0 (Inl ''timeout'')] demo_app) = ''/device''"
proof -
  have "ap_home demo_app \<noteq> None" and "rp_exists demo_row" and "0 = length (ap_calls demo_app)" and "''library'' \<in> set (map fst nav_items)"
    by (simp_all add: demo_app_def open_app_def nav_items_def demo_row_def)
  from opening_takes_away [OF this refl, of "\<lambda>l k as. k" "Inl ''timeout''"] show ?thesis
    by blast
qed

text \<open>
  Two projects opened one after the other: both requests are under way, and the states read after them arrive in the
  reverse order. The provider takes whichever came last, so the project opened first is on the screen although the
  second was opened after it and its state was read.
\<close>

lemma click_project: "ap_home a \<noteq> None \<Longrightarrow> rp_exists row \<Longrightarrow>
    app_step t (ClickProject row) a = send (ProjectRequest (OpenPath (rp_path row))) None a"
  by (auto simp: app_step_def on_start_def)

theorem late_read_wins:
  assumes "ap_home a \<noteq> None" and "rp_exists row1" and "rp_exists row2" and "ap_calls a = []"
    and "a2 = fold (app_step t)
      [ClickProject row1, ClickProject row2, CallAnswered 0 (Inr ()), CallAnswered 1 (Inr ()), StateRead 1 (Inr s2), StateRead 0 (Inr s1)] a"
  shows "app_current a2 = la_current s1 \<and> ap_path a2 = ''/device'' \<and> ap_calls a2 = []"
proof -
  have home: "ap_home (send r None a) \<noteq> None" for r
    using assms(1) by (simp add: send_def)
  have "a2 = fold (app_step t)
      [CallAnswered 0 (Inr ()), CallAnswered 1 (Inr ()), StateRead 1 (Inr s2), StateRead 0 (Inr s1)]
      (send (ProjectRequest (OpenPath (rp_path row2))) None (send (ProjectRequest (OpenPath (rp_path row1))) None a))"
    using assms(5) by (simp add: click_project [OF assms(1,2)] click_project [OF home assms(3)])
  then show ?thesis
    using assms(4)
    by (simp add: app_step_def send_def answer_call_def state_read_def drop_call_def take_state_def provider_refresh_def app_current_def
        current_project_def call_effects_def apply_effect_def navigate_def Let_def)
qed

theorem late_read_wins_witness:
  "app_current (fold (app_step (\<lambda>l k as. k))
     [ClickProject demo_row, ClickProject (demo_row\<lparr>rp_path := ''/p/b''\<rparr>), CallAnswered 0 (Inr ()), CallAnswered 1 (Inr ()),
      StateRead 1 (Inr (demo_state (demo_project\<lparr>pi_path := ''/p/b''\<rparr>))), StateRead 0 (Inr (demo_state demo_project))] demo_app)
   = Some demo_project"
proof -
  have "ap_home demo_app \<noteq> None" and "rp_exists demo_row" and "rp_exists (demo_row\<lparr>rp_path := ''/p/b''\<rparr>)" and "ap_calls demo_app = []"
    by (simp_all add: demo_app_def open_app_def demo_row_def)
  from late_read_wins [OF this refl, of "\<lambda>l k as. k" "demo_state (demo_project\<lparr>pi_path := ''/p/b''\<rparr>)" "demo_state demo_project"]
  show ?thesis
    by (simp add: demo_state_def)
qed

lemma open_panel_shows: "\<exists>f. open_panel q ''open-project'' old = Some (OpenProjectPanel f)"
  by (auto simp: open_panel_def split: option.split panel.split)

text \<open>
  The menu reaches the panels of the start page through a timer: the panel is there when the timer fires, unless
  the user went to another page first; then nothing is told and nothing opens.
\<close>

theorem menu_opens_panel:
  assumes "ap_timers a = []" and "mi = menu_command tt ''open'' ''menu.file.open'' (Some ''Ctrl+O'') OpenProject"
    and "app_current a = Some p" and "frame_ok a"
  shows "\<exists>i f. ap_home (fold (app_step t) [MenuEvent (ClickItem mi), TimerFires] a) = Some (Some (i, OpenProjectPanel f))"
    and "ap_home (fold (app_step t) [MenuEvent (ClickItem mi), ClickView ''device'', TimerFires] a) = None"
proof -
  have menu: "app_step t (MenuEvent (ClickItem mi)) a
     = (navigate ''/'' a)\<lparr>ap_menu := close_menu (ap_menu a), ap_timers := [''open-project'']\<rparr>"
    using assms(1,2) by (simp add: app_step_def menu_step_def menu_command_def run_menu_def menu_chosen_def apply_effect_def
        navigate_def)
  show "\<exists>i f. ap_home (fold (app_step t) [MenuEvent (ClickItem mi), TimerFires] a) = Some (Some (i, OpenProjectPanel f))"
  proof -
    obtain old where "ap_home (navigate ''/'' a) = Some old"
      using assms(4) by (auto simp: frame_ok_def place_ok_def navigate_def)
    moreover obtain f where "open_panel (ap_provider (navigate ''/'' a)) ''open-project'' (map_option snd old) = Some (OpenProjectPanel f)"
      using open_panel_shows by blast
    ultimately show ?thesis
      using menu by (cases old) (auto simp: app_step_def show_panel_def Let_def)
  qed
  show "ap_home (fold (app_step t) [MenuEvent (ClickItem mi), ClickView ''device'', TimerFires] a) = None"
    using menu assms(3) by (simp add: app_step_def select_view_def disabled_views_def nav_items_def apply_effect_def
        navigate_def app_current_def show_panel_def)
qed

text \<open>
  The theme has a default for a storage that throws, but a program with such a storage never gets that far: the
  language is read first, without one, and the window stays blank whether the backend is up or not.
\<close>

theorem storage_needed: "start_window None up = BlankWindow \<and> readTheme None = ''dark''"
  by (simp add: start_window_def readTheme_def)

end
