(* ===== verification/Wiring.thy ===== *)
theory Wiring
  imports AppFrameLaws EventBus
begin

text \<open>
  The pages on the event bus (\<open>lib/eventBus.ts\<close>): which page registers which handler while it is on the screen
  (\<open>pages/HomePage.tsx\<close>, \<open>GraphEditorPage.tsx\<close>, \<open>WaveformPage.tsx\<close>), over the frame of AppFrame. The frame shows
  one page at a time, and a page that is taken off the screen withdraws its handler; so an event is heard by the
  page on the screen, or by nobody.
\<close>

section \<open>Handlers of the pages\<close>

text \<open>
  Each run of an effect makes a new function, told apart by a number; those of the two stage pages have captured
  the station that is chosen on the page.
\<close>

datatype page_handler = PanelHandler nat | GraphHandler nat string | WaveHandler nat string

definition heard_event :: "page_handler \<Rightarrow> string" where
  "heard_event h = (case h of PanelHandler n \<Rightarrow> ''menu:openPanel'' | _ \<Rightarrow> ''bindings:changed'')"

definition handler_of :: "screen \<Rightarrow> nat \<Rightarrow> string \<Rightarrow> page_handler option" where
  "handler_of screen n station =
     (case screen of
        StartScreen \<Rightarrow> Some (PanelHandler n)
      | StageScreen name \<Rightarrow>
          if name = ''graph'' then Some (GraphHandler n station)
          else if name = ''simulation'' then Some (WaveHandler n station) else None
      | _ \<Rightarrow> None)"

text \<open>The frame, the station of the page on the screen, the bus, the handler the page has on it, and the next number.\<close>

record wired =
  wd_app :: app
  wd_station :: string
  wd_bus :: "page_handler bus"
  wd_handler :: "page_handler option"
  wd_next :: nat

definition app_screen :: "app \<Rightarrow> screen" where
  "app_screen a = screen_of (app_current a) (ap_path a)"

definition withdraw :: "wired \<Rightarrow> wired" where
  "withdraw w =
     (case wd_handler w of
        None \<Rightarrow> w
      | Some h \<Rightarrow> w\<lparr>wd_bus := bus_off (heard_event h) h (wd_bus w), wd_handler := None\<rparr>)"

definition enrol :: "string \<Rightarrow> wired \<Rightarrow> wired" where
  "enrol station w =
     (case handler_of (app_screen (wd_app w)) (wd_next w) station of
        None \<Rightarrow> w\<lparr>wd_station := station\<rparr>
      | Some h \<Rightarrow>
          w\<lparr>wd_station := station, wd_bus := bus_on (heard_event h) h (wd_bus w), wd_handler := Some h, wd_next := wd_next w + 1\<rparr>)"

definition open_wired :: "string option \<Rightarrow> string option \<Rightarrow> wired" where
  "open_wired theme locale =
     enrol [] \<lparr>wd_app = open_app theme locale, wd_station = [], wd_bus = new_bus, wd_handler = None, wd_next = 0\<rparr>"

section \<open>Steps\<close>

text \<open>
  After a step of the frame, a page that is new on the screen takes the place of the one before, with no station
  chosen. The stage pages run their effect again when the station changes, the sheet also when the language
  changes, the start page never.
\<close>

datatype wired_event = FrameEvent app_event | PickStation string

definition wired_step :: "texts_of \<Rightarrow> wired_event \<Rightarrow> wired \<Rightarrow> wired" where
  "wired_step t e w =
     (case e of
        FrameEvent f \<Rightarrow>
          (let a = app_step t f (wd_app w); w1 = w\<lparr>wd_app := a\<rparr> in
           if app_screen a \<noteq> app_screen (wd_app w) then enrol [] (withdraw w1)
           else if ap_locale a \<noteq> ap_locale (wd_app w) \<and> app_screen a = StageScreen ''graph'' then enrol (wd_station w) (withdraw w1)
           else w1)
      | PickStation s \<Rightarrow>
          if s = wd_station w \<or> app_screen (wd_app w) = StartScreen then w else enrol s (withdraw w))"

section \<open>Who hears what\<close>

text \<open>The bus holds the handler of the page on the screen, if it has one, and nothing else.\<close>

definition enrolled :: "wired \<Rightarrow> bool" where
  "enrolled w \<longleftrightarrow>
     (\<exists>n. wd_handler w = handler_of (app_screen (wd_app w)) n (wd_station w))"

definition only_hears :: "page_handler option \<Rightarrow> page_handler bus \<Rightarrow> bool" where
  "only_hears h b \<longleftrightarrow>
     bus_wf b \<and> (\<forall>e. listeners e b = (case h of None \<Rightarrow> [] | Some h \<Rightarrow> if heard_event h = e then [h] else []))"

definition wired_ok :: "wired \<Rightarrow> bool" where
  "wired_ok w \<longleftrightarrow> frame_ok (wd_app w) \<and> enrolled w \<and> only_hears (wd_handler w) (wd_bus w)"

lemma handler_of_none: "handler_of screen n station = None \<longleftrightarrow> handler_of screen 0 station = None"
  by (simp add: handler_of_def split: screen.split)

text \<open>What the invariant says of an event, page by page.\<close>

lemma heard_by_page:
  assumes "wired_ok w"
  obtains n where "\<And>e. listeners e (wd_bus w) =
      (case handler_of (app_screen (wd_app w)) n (wd_station w) of None \<Rightarrow> [] | Some h \<Rightarrow> if heard_event h = e then [h] else [])"
  using assms unfolding wired_ok_def enrolled_def only_hears_def by metis

lemma withdraw_alone: "only_hears (wd_handler w) (wd_bus w) \<Longrightarrow> only_hears None (wd_bus (withdraw w)) \<and> wd_handler (withdraw w) = None"
  by (auto simp: only_hears_def withdraw_def listeners_off bus_off_wf split: option.splits)

lemma withdraw_app [simp]: "wd_app (withdraw w) = wd_app w"
  by (simp add: withdraw_def split: option.split)

lemma enrol_ok:
  assumes "frame_ok (wd_app w)" and "only_hears None (wd_bus w)" and "wd_handler w = None"
  shows "wired_ok (enrol station w)"
proof (cases "handler_of (app_screen (wd_app w)) (wd_next w) station")
  case None
  moreover have "handler_of (app_screen (wd_app w)) 0 station = None"
    using None handler_of_none by blast
  ultimately show ?thesis
    using assms by (auto simp: wired_ok_def enrolled_def enrol_def intro: exI [of _ 0])
next
  case (Some h)
  then show ?thesis
    using assms by (auto simp: wired_ok_def enrolled_def enrol_def only_hears_def listeners_on bus_on_wf intro: sym)
qed

lemma change_ok: "wired_ok w \<Longrightarrow> frame_ok a \<Longrightarrow> wired_ok (enrol station (withdraw (w\<lparr>wd_app := a\<rparr>)))"
  using withdraw_alone [of "w\<lparr>wd_app := a\<rparr>"] by (intro enrol_ok) (simp_all add: wired_ok_def)

lemma wired_step_ok: "wired_ok w \<Longrightarrow> wired_ok (wired_step t e w)"
proof (cases e)
  case (FrameEvent f)
  assume ok: "wired_ok w"
  then have "frame_ok (app_step t f (wd_app w))"
    by (simp add: wired_ok_def app_step_ok)
  then show ?thesis
    using ok change_ok [OF ok] FrameEvent by (simp add: wired_step_def Let_def) (auto simp: wired_ok_def enrolled_def)
next
  case (PickStation s)
  assume ok: "wired_ok w"
  then show ?thesis
    using PickStation change_ok [OF ok, of "wd_app w"] by (simp add: wired_step_def wired_ok_def)
qed

lemma open_wired_ok: "wired_ok (open_wired theme locale)"
proof -
  have "only_hears None (new_bus :: page_handler bus)"
    by (simp add: only_hears_def bus_wf_new) (simp add: listeners_def new_bus_def obj_get_def)
  then show ?thesis
    unfolding open_wired_def by (intro enrol_ok) (simp_all add: frame_open)
qed

interpretation wiring: editor "wired_step t" "\<lambda>e w. True" wired_ok for t
  by unfold_locales (rule wired_step_ok)

lemma wired_session_ok: "wired_ok (fold (wired_step t) es (open_wired theme locale))"
  using wiring.session_keeps_all [OF open_wired_ok] by blast

lemma nobody_hears: "listeners event (bs_bus s) = [] \<Longrightarrow> bus_wf (bs_bus s) \<Longrightarrow> emit_event run event d s = Some s"
  by (cases "obj_get (bu_table (bs_bus s)) event") (simp_all add: emit_event_def listeners_def emit_walk.simps)

section \<open>Properties\<close>

definition handler_page :: "page_handler \<Rightarrow> screen \<times> string" where
  "handler_page h =
     (case h of
        PanelHandler n \<Rightarrow> (StartScreen, []) | GraphHandler n s \<Rightarrow> (StageScreen ''graph'', s)
      | WaveHandler n s \<Rightarrow> (StageScreen ''simulation'', s))"

text \<open>
  C8: the device page tells of changed bindings, and the pages that listen for it are never there while it does:
  as long as the device page is on the screen, the event reaches no handler and nothing happens. It is heard only
  when the user has gone on to the sheet or the simulation before the answer of the service came, and then by that
  page alone, with the station that is chosen there.
\<close>

theorem bindings_heard_elsewhere:
  assumes "w = fold (wired_step t) es (open_wired theme locale)"
  shows "map handler_page (listeners ''bindings:changed'' (wd_bus w)) =
      (if app_screen (wd_app w) = StageScreen ''graph'' \<or> app_screen (wd_app w) = StageScreen ''simulation''
       then [(app_screen (wd_app w), wd_station w)] else [])
    \<and> (app_screen (wd_app w) = StageScreen ''device'' \<longrightarrow>
         emit_event run ''bindings:changed'' d \<lparr>bs_bus = wd_bus w, bs_world = x, bs_console = c\<rparr>
           = Some \<lparr>bs_bus = wd_bus w, bs_world = x, bs_console = c\<rparr>)"
proof -
  have ok: "wired_ok w"
    unfolding assms by (rule wired_session_ok)
  from heard_by_page [OF this] obtain n where n: "\<And>e. listeners e (wd_bus w) =
      (case handler_of (app_screen (wd_app w)) n (wd_station w) of None \<Rightarrow> [] | Some h \<Rightarrow> if heard_event h = e then [h] else [])"
    by blast
  have heard: "map handler_page (listeners ''bindings:changed'' (wd_bus w)) =
      (if app_screen (wd_app w) = StageScreen ''graph'' \<or> app_screen (wd_app w) = StageScreen ''simulation''
       then [(app_screen (wd_app w), wd_station w)] else [])"
    by (cases "app_screen (wd_app w)") (simp_all add: n handler_of_def heard_event_def handler_page_def)
  have "bus_wf (wd_bus w)"
    using ok by (simp add: wired_ok_def only_hears_def)
  moreover have "app_screen (wd_app w) = StageScreen ''device'' \<Longrightarrow> listeners ''bindings:changed'' (wd_bus w) = []"
    using heard by simp
  ultimately show ?thesis
    using heard nobody_hears [of "''bindings:changed''" "\<lparr>bs_bus = wd_bus w, bs_world = x, bs_console = c\<rparr>" run d] by simp
qed

theorem bindings_heard_elsewhere_witness:
  "emit_event (\<lambda>h d s. (None, s\<lparr>bs_world := bs_world s @ [h]\<rparr>)) ''bindings:changed'' ()
     \<lparr>bs_bus = wd_bus (fold (wired_step (\<lambda>l k as. k))
        [FrameEvent (FirstRead (Inr (the (pv_state (ap_provider demo_app))))), FrameEvent (ClickView ''device'')] (open_wired None None)),
      bs_world = [], bs_console = []\<rparr>
   = Some \<lparr>bs_bus = wd_bus (fold (wired_step (\<lambda>l k as. k))
        [FrameEvent (FirstRead (Inr (the (pv_state (ap_provider demo_app))))), FrameEvent (ClickView ''device'')] (open_wired None None)),
      bs_world = [], bs_console = []\<rparr>"
proof -
  let ?first = "FirstRead (Inr (the (pv_state (ap_provider demo_app))))"
  define w where "w = fold (wired_step (\<lambda>l k as. k)) [FrameEvent ?first, FrameEvent (ClickView ''device'')] (open_wired None None)"
  have frame: "wd_app (wired_step t (FrameEvent f) v) = app_step t f (wd_app v)" for t f v
    by (simp add: wired_step_def Let_def enrol_def split: option.split)
  have "wd_app (open_wired None None) = open_app None None"
    by (simp add: open_wired_def enrol_def split: option.split)
  then have "app_screen (wd_app w) = StageScreen ''device''"
    by (simp add: w_def frame app_step_def take_state_def provider_refresh_def demo_app_def demo_state_def open_app_def app_current_def
        current_project_def new_provider_def select_view_def disabled_views_def nav_items_def apply_effect_def navigate_def
        app_screen_def screen_of_def routes_def guarded_def Let_def)
  then show ?thesis
    using bindings_heard_elsewhere [OF w_def, of "\<lambda>h d s. (None, s\<lparr>bs_world := bs_world s @ [h]\<rparr>)" "()" "[]" "[]"]
    unfolding w_def by blast
qed

text \<open>
  The event of the menus is heard exactly while the start page is there, by its one handler, as the frame has it;
  the other events of the device page, of modules and saved stations, are heard by no page at all.
\<close>

theorem panel_event_heard:
  assumes "w = fold (wired_step t) es (open_wired theme locale)"
  shows "(listeners ''menu:openPanel'' (wd_bus w) = [] \<longleftrightarrow> ap_home (wd_app w) = None)
    \<and> length (listeners ''menu:openPanel'' (wd_bus w)) \<le> 1
    \<and> listeners ''module:added'' (wd_bus w) = [] \<and> listeners ''module:removed'' (wd_bus w) = []
    \<and> listeners ''station:saved'' (wd_bus w) = []"
proof -
  have ok: "wired_ok w"
    unfolding assms by (rule wired_session_ok)
  then have "ap_path (wd_app w) \<in> set (map fst routes)" and "ap_home (wd_app w) = None \<longleftrightarrow> ap_path (wd_app w) \<noteq> ''/''"
    by (simp_all add: wired_ok_def frame_ok_def place_ok_def)
  then have home: "ap_home (wd_app w) = None \<longleftrightarrow> app_screen (wd_app w) \<noteq> StartScreen"
    by (auto simp: app_screen_def screen_of_def routes_def guarded_def)
  from heard_by_page [OF ok] obtain n where "\<And>e. listeners e (wd_bus w) =
      (case handler_of (app_screen (wd_app w)) n (wd_station w) of None \<Rightarrow> [] | Some h \<Rightarrow> if heard_event h = e then [h] else [])"
    by blast
  then show ?thesis
    unfolding home by (cases "app_screen (wd_app w)") (simp_all add: handler_of_def heard_event_def)
qed

end
