(* ===== verification/Widgets.thy ===== *)
theory Widgets
  imports JsNumber
begin

text \<open>
  The shared parts of forms and notices (\<open>components/ui/FormField.tsx\<close>, \<open>ErrorBanner.tsx\<close>): what they show for
  what they are given, and the value a field hands to its owner. No page uses them yet.
\<close>

section \<open>Fields\<close>

text \<open>A text that is missing or empty is not shown.\<close>

definition given :: "string option \<Rightarrow> string option" where
  "given s = (case s of Some (c # cs) \<Rightarrow> s | _ \<Rightarrow> None)"

record field_frame =
  ff_label :: string
  ff_error :: "string option"
  ff_required :: bool
  ff_hint :: "string option"

text \<open>The label with the star of a required field, whether the frame is red, and the note below.\<close>

record field_view =
  fw_label :: string
  fw_star :: bool
  fw_red :: bool
  fw_note :: "(string \<times> string) option"

definition field_note :: "field_frame \<Rightarrow> (string \<times> string) option" where
  "field_note f =
     (case given (ff_error f) of
        Some e \<Rightarrow> Some (''text-red-400'', e)
      | None \<Rightarrow> map_option (\<lambda>h. (''text-ide-textDim'', h)) (given (ff_hint f)))"

definition field_view_of :: "field_frame \<Rightarrow> field_view" where
  "field_view_of f =
     \<lparr>fw_label = ff_label f, fw_star = ff_required f, fw_red = (given (ff_error f) \<noteq> None), fw_note = field_note f\<rparr>"

text \<open>The choices of \<open>FormSelect\<close>: value, label, and whether it can be chosen.\<close>

definition select_choices :: "string option \<Rightarrow> (string \<times> string \<times> bool) list \<Rightarrow> (string \<times> string \<times> bool) list" where
  "select_choices placeholder options =
     (case given placeholder of None \<Rightarrow> [] | Some p \<Rightarrow> [([], p, True)]) @ map (\<lambda>(v, l, off). (v, l, \<not> off)) options"

text \<open>\<open>FormCheckbox\<close> has neither a star nor a frame.\<close>

definition checkbox_view :: "field_frame \<Rightarrow> bool \<Rightarrow> bool \<times> string \<times> (string \<times> string) option" where
  "checkbox_view f checked = (checked, ff_label f, field_note f)"

text \<open>\<open>FormSpinbutton\<close> hands on what \<open>Number\<close> makes of the text; the bounds are only attributes of the input.\<close>

record spin_view =
  sv_field :: field_view
  sv_value :: string
  sv_min :: "string option"
  sv_max :: "string option"
  sv_step :: string
  sv_unit :: "string option"

definition spin_view_of ::
    "field_frame \<Rightarrow> jsnum \<Rightarrow> jsnum option \<Rightarrow> jsnum option \<Rightarrow> jsnum option \<Rightarrow> string option \<Rightarrow> spin_view" where
  "spin_view_of f v lo hi step unit =
     \<lparr>sv_field = field_view_of f, sv_value = show_num v, sv_min = map_option show_num lo, sv_max = map_option show_num hi,
      sv_step = (case step of None \<Rightarrow> show_num (Num 1) | Some s \<Rightarrow> show_num s), sv_unit = given unit\<rparr>"

definition spin_change :: "string \<Rightarrow> jsnum" where
  "spin_change typed = js_number typed"

section \<open>Notices\<close>

text \<open>The sign, the heading, the text, the label of the button that tries again, and whether it can be closed.\<close>

record banner_view =
  bv_sign :: string
  bv_heading :: "string option"
  bv_text :: string
  bv_retry :: "string option"
  bv_close :: bool

definition warning_sign :: string where
  "warning_sign = utf8 [226, 154, 160]"

text \<open>An error is a text or an object with a message; an empty text shows nothing, an empty message shows the frame.\<close>

datatype banner_error = ErrorText string | ErrorObject string

definition error_banner :: "(string \<Rightarrow> string) \<Rightarrow> banner_error option \<Rightarrow> bool \<Rightarrow> bool \<Rightarrow> banner_view option" where
  "error_banner t error can_retry can_close =
     (let shown = (\<lambda>m. \<lparr>bv_sign = warning_sign, bv_heading = Some (t ''errorBanner.error''), bv_text = m,
            bv_retry = (if can_retry then Some (t ''errorBanner.retry'') else None), bv_close = can_close\<rparr>) in
      case error of
        None \<Rightarrow> None
      | Some (ErrorText m) \<Rightarrow> if m = [] then None else Some (shown m)
      | Some (ErrorObject m) \<Rightarrow> Some (shown m))"

definition plain_banner :: "string \<Rightarrow> string \<Rightarrow> bool \<Rightarrow> banner_view" where
  "plain_banner sign message can_close =
     \<lparr>bv_sign = sign, bv_heading = None, bv_text = message, bv_retry = None, bv_close = can_close\<rparr>"

definition warning_banner :: "string \<Rightarrow> bool \<Rightarrow> banner_view" where
  "warning_banner = plain_banner warning_sign"

definition info_banner :: "string \<Rightarrow> bool \<Rightarrow> banner_view" where
  "info_banner = plain_banner (utf8 [226, 132, 185])"

section \<open>Laws\<close>

text \<open>A field shows its error or its hint, never both, and its frame is red exactly when the note is the error.\<close>

lemma note_is_error:
  "fw_red (field_view_of f) \<longleftrightarrow> (\<exists>e. fw_note (field_view_of f) = Some (''text-red-400'', e))"
  by (auto simp: field_view_of_def field_note_def split: option.splits)

text \<open>
  A number field that is cleared hands on the number 0, and a text that is no number hands on NaN, whatever the
  bounds it was given.
\<close>

lemma cleared_spin: "spin_change [] = Num 0" "spin_change ''abc'' = NaN"
  by code_simp+

end
