(* ===== verification/StEditor.thy ===== *)
theory StEditor
  imports Highlight
begin

text \<open>
  The older editor page for structured text (\<open>src/veri-ide/frontend/public/editor.js\<close>): the rules by which it
  colours a line, and its build button with the service, the check that stands in for a service that does not
  answer, and the list of diagnostics with the markers in the text. The editor component itself is a library; of
  the page that loads the script only the elements it writes are modelled.
\<close>

section \<open>Rules of the tokenizer\<close>

text \<open>
  A rule is the expression it looks for at the position, as the length of its match, and the class of the text
  it matched. Rules are tried in their order, and a line is coloured from left to right.
\<close>

type_synonym st_rule = "(string \<Rightarrow> nat option) \<times> (string \<Rightarrow> string)"

fun first_rule :: "st_rule list \<Rightarrow> string \<Rightarrow> (string \<times> string \<times> string) option" where
  "first_rule [] s = None"
| "first_rule ((look, cls) # rules) s =
     (case look s of Some n \<Rightarrow> Some (cls (take n s), take n s, drop n s) | None \<Rightarrow> first_rule rules s)"

definition st_keywords :: "string list" where
  "st_keywords =
     [''PROGRAM'', ''END_PROGRAM'', ''FUNCTION'', ''END_FUNCTION'', ''FUNCTION_BLOCK'', ''END_FUNCTION_BLOCK'',
      ''VAR'', ''VAR_INPUT'', ''VAR_OUTPUT'', ''VAR_IN_OUT'', ''VAR_TEMP'', ''END_VAR'',
      ''IF'', ''THEN'', ''ELSIF'', ''ELSE'', ''END_IF'', ''CASE'', ''OF'', ''END_CASE'', ''FOR'', ''TO'', ''BY'', ''DO'', ''END_FOR'',
      ''WHILE'', ''END_WHILE'', ''REPEAT'', ''UNTIL'', ''END_REPEAT'', ''RETURN'', ''EXIT'', ''TRUE'', ''FALSE'']"

definition st_type_keywords :: "string list" where
  "st_type_keywords =
     [''BOOL'', ''BYTE'', ''WORD'', ''DWORD'', ''LWORD'', ''SINT'', ''INT'', ''DINT'', ''LINT'', ''USINT'', ''UINT'', ''UDINT'', ''ULINT'',
      ''REAL'', ''LREAL'', ''TIME'', ''DATE'', ''TIME_OF_DAY'', ''TOD'', ''DATE_AND_TIME'', ''DT'', ''STRING'', ''WSTRING'']"

definition st_operators :: "string list" where
  "st_operators =
     ['':='', ''='', ''<>'', ''<'', ''>'', ''<='', ''>='', ''+'', ''-'', ''*'', ''/'', ''MOD'', ''AND'', ''OR'', ''XOR'', ''NOT'']"

text \<open>A run of characters of a class, at least one; text between two equal quotes; a character of a set.\<close>

definition run_of :: "(char \<Rightarrow> bool) \<Rightarrow> string \<Rightarrow> nat option" where
  "run_of P s = (let n = length (takeWhile P s) in if n = 0 then None else Some n)"

definition after_word :: "string \<Rightarrow> (string \<Rightarrow> nat option) \<Rightarrow> string \<Rightarrow> nat option" where
  "after_word w look s = (if prefix w s then map_option (\<lambda>n. length w + n) (look (drop (length w) s)) else None)"

definition between :: "char \<Rightarrow> string \<Rightarrow> nat option" where
  "between q s =
     (case s of [] \<Rightarrow> None
      | c # cs \<Rightarrow>
          (let n = length (takeWhile (\<lambda>d. d \<noteq> q) cs) in if c = q \<and> n < length cs then Some (n + 2) else None))"

definition line_rest :: "string \<Rightarrow> nat option" where
  "line_rest s = Some (length s)"

definition is_hex :: "char \<Rightarrow> bool" where
  "is_hex c \<longleftrightarrow> is_digit c \<or> js_in_range CHR ''A'' CHR ''F'' c \<or> js_in_range CHR ''a'' CHR ''f'' c"

definition name_at :: "string \<Rightarrow> nat option" where
  "name_at s = (case s of [] \<Rightarrow> None | c # cs \<Rightarrow> if is_ident_start c then Some (Suc (length (takeWhile is_ident_char cs))) else None)"

definition is_symbol :: "char \<Rightarrow> bool" where
  "is_symbol c \<longleftrightarrow> c \<in> set ''=><!~?:&|+-*/^%''"

definition one_of :: "string \<Rightarrow> string \<Rightarrow> nat option" where
  "one_of cs s = (case s of [] \<Rightarrow> None | c # r \<Rightarrow> if c \<in> set cs then Some 1 else None)"

text \<open>\<open>createMonarchTokenizer\<close>: the grammar it is given is not looked at.\<close>

definition name_class :: "string \<Rightarrow> string" where
  "name_class w =
     (if w \<in> set st_keywords then ''keyword'' else if w \<in> set st_type_keywords then ''type''
      else if w \<in> set st_operators then ''operator'' else ''identifier'')"

definition root_rules :: "st_rule list" where
  "root_rules =
     [(scan_block_comment, \<lambda>w. ''comment''),
      (after_word ''//'' line_rest, \<lambda>w. ''comment''),
      (between (CHR 0x22), \<lambda>w. ''string''),
      (between (CHR 0x27), \<lambda>w. ''string''),
      (run_of is_digit, \<lambda>w. ''number''),
      (after_word ''16#'' (run_of is_hex), \<lambda>w. ''number.hex''),
      (after_word ''2#'' (run_of (\<lambda>c. c = CHR ''0'' \<or> c = CHR ''1'')), \<lambda>w. ''number.binary''),
      (name_at, name_class),
      (run_of is_symbol, \<lambda>w. if w \<in> set st_operators then ''operator'' else []),
      (one_of '';,.'', \<lambda>w. ''delimiter''),
      (one_of ''()'', \<lambda>w. ''@brackets'')]"

text \<open>\<open>createFallbackTokenizer\<close>; a word of a list has to end at a word boundary.\<close>

definition word_of :: "string list \<Rightarrow> string \<Rightarrow> nat option" where
  "word_of ws s = map_option length (List.find (\<lambda>w. prefix w s \<and> \<not> starts_word (drop (length w) s)) ws)"

definition fallback_rules :: "st_rule list" where
  "fallback_rules =
     [(scan_block_comment, \<lambda>w. ''comment''),
      (after_word ''//'' line_rest, \<lambda>w. ''comment''),
      (between (CHR 0x22), \<lambda>w. ''string''),
      (between (CHR 0x27), \<lambda>w. ''string''),
      (run_of is_digit, \<lambda>w. ''number''),
      (word_of [''PROGRAM'', ''END_PROGRAM'', ''FUNCTION'', ''END_FUNCTION'', ''VAR'', ''END_VAR'', ''IF'', ''THEN'', ''ELSE'', ''END_IF'',
         ''FOR'', ''END_FOR'', ''WHILE'', ''END_WHILE''], \<lambda>w. ''keyword''),
      (word_of [''BOOL'', ''INT'', ''DINT'', ''REAL'', ''STRING''], \<lambda>w. ''type''),
      (after_word '':='' (\<lambda>s. Some 0), \<lambda>w. ''operator''),
      (name_at, \<lambda>w. ''identifier''),
      (one_of '';,.'', \<lambda>w. ''delimiter'')]"

section \<open>The page\<close>

record diagnostic =
  dg_severity :: "string option"
  dg_message :: "string option"
  dg_line :: int
  dg_column :: int

record marker =
  mk_level :: string
  mk_message :: "string option"
  mk_line :: int
  mk_start :: int
  mk_end :: int

text \<open>
  The text in the editor; the text that is being built, while the button is disabled; the two status lines with
  the colour of the first; the list below the editor as classes with texts, and the markers.
\<close>

record st_page =
  sp_text :: string
  sp_building :: "string option"
  sp_build_status :: "string \<times> string"
  sp_status :: string
  sp_lines :: "(string \<times> string) list"
  sp_markers :: "marker list"
  sp_current :: "diagnostic list"

definition first_program :: string where
  "first_program =
     js_join [CHR 0x0A]
       [''PROGRAM main'', ''VAR'', ''    counter : DINT;'', ''    status : BOOL;'', ''END_VAR'', [], ''counter := counter + 1;'',
        ''IF counter > 100 THEN'', ''    counter := 0;'', ''    status := TRUE;'', ''END_IF;'', [], ''END_PROGRAM'', []]"

definition open_st_page :: st_page where
  "open_st_page =
     \<lparr>sp_text = first_program, sp_building = None, sp_build_status = ([], []), sp_status = ''Ready'', sp_lines = [], sp_markers = [],
      sp_current = []\<rparr>"

definition type_st :: "string \<Rightarrow> st_page \<Rightarrow> st_page" where
  "type_st s p = p\<lparr>sp_text := s, sp_status := ''Modified''\<rparr>"

definition clearDiagnostics :: "st_page \<Rightarrow> st_page" where
  "clearDiagnostics p = p\<lparr>sp_lines := [(''#89d185'', ''No diagnostics'')], sp_markers := [], sp_current := []\<rparr>"

text \<open>The line of a diagnostic; it throws when the severity is missing.\<close>

definition diagnostic_text :: "diagnostic \<Rightarrow> string \<Rightarrow> string \<times> string" where
  "diagnostic_text d sev =
     (''diagnostic-'' @ sev,
      ''['' @ js_to_upper sev @ ''] Line '' @ show_int (dg_line d) @ '': ''
        @ (case dg_message d of None \<Rightarrow> ''undefined'' | Some m \<Rightarrow> m))"

definition marker_of :: "diagnostic \<Rightarrow> marker" where
  "marker_of d =
     (let column = (if dg_column d = 0 then 1 else dg_column d) in
      \<lparr>mk_level = (if dg_severity d = Some ''error'' then ''Error'' else if dg_severity d = Some ''warning'' then ''Warning'' else ''Info''),
       mk_message = dg_message d, mk_line = dg_line d, mk_start = column, mk_end = column + 10\<rparr>)"

fun diagnostic_lines :: "diagnostic list \<Rightarrow> (string \<times> string) list \<times> bool" where
  "diagnostic_lines [] = ([], True)"
| "diagnostic_lines (d # ds) =
     (case dg_severity d of
        None \<Rightarrow> ([], False)
      | Some sev \<Rightarrow> (let (lines, fine) = diagnostic_lines ds in (diagnostic_text d sev # lines, fine)))"

text \<open>The second component says whether it ended without an error.\<close>

definition showDiagnostics :: "diagnostic list \<Rightarrow> st_page \<Rightarrow> st_page \<times> bool" where
  "showDiagnostics ds p =
     (if ds = [] then (p\<lparr>sp_lines := [(''#89d185'', ''No diagnostics'')]\<rparr>, True)
      else case diagnostic_lines ds of
          (lines, False) \<Rightarrow> (p\<lparr>sp_lines := lines\<rparr>, False)
        | (lines, True) \<Rightarrow> (p\<lparr>sp_lines := lines, sp_markers := map marker_of ds, sp_current := ds\<rparr>, True))"

section \<open>Building\<close>

text \<open>What the service answers: nothing, a status that is no success, no JSON, or a result with its list, if it has one.\<close>

record service_diagnostic =
  sd_severity :: "string option"
  sd_message :: "string option"
  sd_line :: "int option"
  sd_column :: "int option"

datatype build_reply =
    NoReply string
  | BadStatus
  | BadBody string
  | BuildResult bool "service_diagnostic list option"

definition or_one :: "int option \<Rightarrow> int" where
  "or_one n = (case n of None \<Rightarrow> 1 | Some i \<Rightarrow> if i = 0 then 1 else i)"

definition read_diagnostic :: "service_diagnostic \<Rightarrow> diagnostic" where
  "read_diagnostic d =
     \<lparr>dg_severity = sd_severity d, dg_message = sd_message d, dg_line = or_one (sd_line d), dg_column = or_one (sd_column d)\<rparr>"

text \<open>\<open>findIndex\<close> gives -1 when no line fits.\<close>

fun find_index :: "('a \<Rightarrow> bool) \<Rightarrow> 'a list \<Rightarrow> int" where
  "find_index P [] = -1"
| "find_index P (x # xs) = (if P x then 0 else if find_index P xs = -1 then -1 else find_index P xs + 1)"

definition problem :: "string \<Rightarrow> int \<Rightarrow> diagnostic" where
  "problem message line = \<lparr>dg_severity = Some ''error'', dg_message = Some message, dg_line = line, dg_column = 1\<rparr>"

definition mock_check :: "string \<Rightarrow> diagnostic list" where
  "mock_check code =
     (if \<not> js_includes code ''PROGRAM'' \<and> \<not> js_includes code ''FUNCTION''
      then [problem ''No PROGRAM or FUNCTION declaration found'' 1] else [])
     @ (if js_includes code ''END_PROGRAM'' \<and> \<not> js_includes code ''PROGRAM''
        then [problem ''END_PROGRAM without matching PROGRAM''
                (find_index (\<lambda>l. js_includes l ''END_PROGRAM'') (js_split (CHR 0x0A) code) + 1)]
        else [])"

text \<open>Success with the diagnostics. A result without its list throws inside the \<open>try\<close> of the request.\<close>

definition mockBuild :: "build_reply \<Rightarrow> string \<Rightarrow> bool \<times> diagnostic list" where
  "mockBuild reply code =
     (case reply of
        BuildResult ok (Some ds) \<Rightarrow> (ok, map read_diagnostic ds)
      | _ \<Rightarrow> (mock_check code = [], mock_check code))"

text \<open>The press of the button, and the answer; \<open>thrown\<close> is the text of the error of a missing severity.\<close>

definition press_build :: "st_page \<Rightarrow> st_page" where
  "press_build p =
     (if sp_building p \<noteq> None then p
      else p\<lparr>sp_building := Some (sp_text p), sp_build_status := (''Building...'', ''#75beff''), sp_status := ''Building...''\<rparr>)"

definition build_answered :: "string \<Rightarrow> build_reply \<Rightarrow> st_page \<Rightarrow> st_page" where
  "build_answered thrown reply p =
     (case sp_building p of
        None \<Rightarrow> p
      | Some code \<Rightarrow>
          (case mockBuild reply code of
             (True, ds) \<Rightarrow>
               clearDiagnostics (p\<lparr>sp_building := None,
                 sp_build_status := (utf8 [226, 156, 147] @ '' Build successful'', ''#89d185''), sp_status := ''Build successful''\<rparr>)
           | (False, ds) \<Rightarrow>
               (case showDiagnostics ds (p\<lparr>sp_building := None,
                    sp_build_status := (utf8 [226, 156, 151] @ '' Build failed'', ''#f48771''), sp_status := ''Build failed''\<rparr>) of
                  (p1, True) \<Rightarrow> p1
                | (p1, False) \<Rightarrow> p1\<lparr>sp_build_status := (utf8 [226, 156, 151] @ '' Build error'', ''#f48771''),
                      sp_status := ''Build error: '' @ thrown\<rparr>)))"

datatype st_event = TypeSt string | PressBuild | PressClear | BuildAnswered build_reply

definition st_step :: "string \<Rightarrow> st_event \<Rightarrow> st_page \<Rightarrow> st_page" where
  "st_step thrown e p =
     (case e of
        TypeSt s \<Rightarrow> type_st s p
      | PressBuild \<Rightarrow> press_build p
      | PressClear \<Rightarrow> clearDiagnostics p
      | BuildAnswered reply \<Rightarrow> build_answered thrown reply p)"

section \<open>Laws of the rules\<close>

lemma run_of_none: "run_of P s = None \<longleftrightarrow> (s = [] \<or> \<not> P (hd s))"
  by (cases s) (simp_all add: run_of_def Let_def)

lemma digit_first: "prefix (c # w) s \<Longrightarrow> is_digit c \<Longrightarrow> run_of is_digit s \<noteq> None"
  by (cases s) (simp_all add: run_of_none)

text \<open>
  The rules for numbers of base 16 and 2 are never reached: the rule for digits stands before them and takes
  the base as a number of its own, whatever follows.
\<close>

theorem based_numbers_never_coloured:
  "case first_rule root_rules s of None \<Rightarrow> True
   | Some (cls, tok, rest) \<Rightarrow> cls \<noteq> ''number.hex'' \<and> cls \<noteq> ''number.binary'' \<and> tok @ rest = s"
proof -
  have digit: "is_digit CHR ''1''" "is_digit CHR ''2''"
    by code_simp+
  have hex: "after_word ''16#'' look s = None" and bin: "after_word ''2#'' look s = None"
    if "run_of is_digit s = None" for look
    using that digit_first [of "CHR ''1''" "''6#''" s] digit_first [of "CHR ''2''" "''#''" s] digit
    by (auto simp: after_word_def)
  show ?thesis
    using hex bin by (auto simp: root_rules_def name_class_def split: option.splits)
qed

section \<open>Laws of the build\<close>

lemma end_program_includes: "js_includes code ''END_PROGRAM'' \<Longrightarrow> js_includes code ''PROGRAM''"
proof -
  have "sublist ''PROGRAM'' ''END_PROGRAM''"
    by code_simp
  then show "js_includes code ''END_PROGRAM'' \<Longrightarrow> js_includes code ''PROGRAM''"
    unfolding js_includes_sublist by (rule sublist_order.order_trans)
qed

text \<open>
  C40: the check that stands in for the service finds one thing only, a text that names neither a program nor a
  function anywhere: its second test, an end without a beginning, cannot fail, because the end contains the word
  it looks for.
\<close>

theorem stand_in_check:
  "mock_check code =
     (if js_includes code ''PROGRAM'' \<or> js_includes code ''FUNCTION'' then []
      else [problem ''No PROGRAM or FUNCTION declaration found'' 1])"
  using end_program_includes [of code] by (auto simp: mock_check_def)

text \<open>
  A build that the service refuses is shown as successful when its answer has no list of diagnostics, or when
  the service fails itself, as soon as the text contains the word PROGRAM, even in a comment.
\<close>

theorem refused_build_shown_successful:
  assumes "sp_building p = None" and "js_includes (sp_text p) ''PROGRAM''"
    and "reply = BuildResult False None \<or> reply = BadStatus"
  shows "sp_status (build_answered thrown reply (press_build p)) = ''Build successful''
    \<and> sp_markers (build_answered thrown reply (press_build p)) = []"
  using assms by (auto simp: press_build_def build_answered_def mockBuild_def stand_in_check clearDiagnostics_def)

theorem refused_build_shown_successful_witness:
  "sp_status (build_answered ''thrown'' BadStatus (press_build (type_st ''(* PROGRAM *) x := ;'' open_st_page))) = ''Build successful''"
proof -
  let ?p = "type_st ''(* PROGRAM *) x := ;'' open_st_page"
  have "sp_building ?p = None" and "js_includes (sp_text ?p) ''PROGRAM''"
    by (simp add: type_st_def open_st_page_def, simp add: type_st_def prefix_def)
  from refused_build_shown_successful [OF this, of BadStatus "''thrown''"] show ?thesis
    by simp
qed

text \<open>A refusal with an empty list empties the list on the page, and leaves the markers of the build before it.\<close>

theorem empty_refusal_keeps_markers:
  assumes "sp_building p = Some code"
  shows "sp_markers (build_answered thrown (BuildResult False (Some [])) p) = sp_markers p
    \<and> sp_lines (build_answered thrown (BuildResult False (Some [])) p) = [(''#89d185'', ''No diagnostics'')]"
  using assms by (simp add: build_answered_def mockBuild_def showDiagnostics_def)

text \<open>
  The button works again after every answer, whatever the service sent, and a build that succeeds clears the list;
  what is built is the text as it was when the button was pressed.
\<close>

theorem build_ends:
  "sp_building (build_answered thrown reply p) = None"
  "sp_building p = None \<Longrightarrow> sp_building (type_st s (press_build p)) = Some (sp_text p)"
  by (auto simp: build_answered_def clearDiagnostics_def showDiagnostics_def press_build_def type_st_def
      split: option.split prod.split bool.split)

end
