(* ===== verification/Spec2Isabelle.thy ===== *)
theory Spec2Isabelle
  imports SimPanels Stimulus PageEdits SheetGesture SheetView Analysis SessionInvariant GraphNavigate GraphPalette DeviceLaws DeviceTree BlockLaws BlockSimLaws
    EventBus Launcher LibraryLaws MonitorLaws Waveform Download BlockScreenLaws BlockViews Texts GraphScreenLaws InspectorLaws
    GraphPanels LauncherView Wiring Widgets StEditor
begin

text \<open>
  The web front end of VeriIDE (\<open>src/veri-ide/web/src\<close>, and one older page outside it): the editor in which the sheets of a control program
  are drawn, checked and simulated, the device configuration with its point board, the library of algorithm
  blocks with their editor and its simulation, and the pages that watch, draw, force and download a running
  controller. Paths below are relative to that directory.

  How the program fits together. \<open>pages/GraphEditorPage.tsx\<close> keeps the page on screen; the sheet, the
  inspector, the palette and the panels hand it edits, it saves them after a pause, and it shows what the
  checker, the analyser and the simulator answer. \<open>pages/DevicePage.tsx\<close> keeps a station with its modules
  and points; the point board, the properties form and the station bar call its handlers, each of which sends
  a request and reads the station again. \<open>components/library/BlockEditor.tsx\<close> keeps one block with an undo
  history and drives a run of the block from a grid of presets; \<open>BlockLibrary.tsx\<close> lists the blocks and opens
  that editor, \<open>pages/LibraryPage.tsx\<close> lists the libraries. \<open>pages/MonitorPage.tsx\<close> keeps the watch list, the
  forces, the parameters and the batch, whose panels call it; \<open>WaveformPage.tsx\<close> samples the values the event
  bus brings, and \<open>DownloadPage.tsx\<close> steps through a deployment.

  Theories, in the order they build on each other.

  \<^item> Prelude, Containers, JsNumber, JsDouble, JsSort: the JavaScript the source calls. Strings with their operations;
    plain objects, \<open>Map\<close> and \<open>Set\<close> through the locales \<open>js_dict\<close>, \<open>js_ordered_dict\<close> and \<open>js_set\<close>; numbers
    with \<open>Number\<close>, \<open>parseInt\<close>, \<open>toFixed\<close> and \<open>toPrecision\<close>; rounding to a double, with the bound on its error,
    for the one place where the rounding matters, the zoom; stable sorting.
  \<^item> Simulation: the locale \<open>simulation\<close>, one step of a component against one step of its specification, and
    what follows for runs.
  \<^item> GraphTypes (\<open>components/graph/types.ts\<close>): the documents of the protocol, the layout of pins, the deletion
    of a selection. PageInvariant: well-formed pages, and the locale \<open>editor\<close> for operations that keep an
    invariant.
  \<^item> GraphEdit (\<open>GraphEditorPage.tsx\<close>, \<open>components/graph/Inspector.tsx\<close>, \<open>Sheet.tsx\<close>): every edit of a page.
    PageEdits: which edits the editor offers (its name fields have no guard), that each of them keeps the page
    well-formed but for certain renames, and exactly which these are; what a new wire replaces, what a deletion takes
    along, that the search for a free name ends with the first one, and what renaming does to the wires.
  \<^item> SimValues, SimPanels, Stimulus (\<open>types.ts\<close>, \<open>SimPanel.tsx\<close>, \<open>StimulusPanel.tsx\<close>): the values a run puts on
    the pins, scrubbing and replay, the lists of forces and script rows with their keys, the payload of a run.
  \<^item> SheetGesture, SheetView (\<open>components/graph/Sheet.tsx\<close>): dragging, wiring and dropping as a state machine,
    and what is drawn.
  \<^item> Analysis (\<open>AnalysisPanel.tsx\<close>): the cards of the compiler's measurements.
  \<^item> GraphSession, SessionInvariant (\<open>GraphEditorPage.tsx\<close>): editing, the debounced save, the ways to another page
    (tab, jump, new, closed and renamed page), analysis, checks and runs, with their timers, requests and answers as
    steps in any order. A page that is asked for is an entry of \<open>se_fetches\<close> (a jump that looks its target up first, of
    \<open>se_lookups\<close>) until its answer is chosen. The page on screen is sent or scheduled, the one exception being a
    change of the language at a certain moment; a page that arrives drops the edit that was not sent; and which
    results count as stale until when.
  \<^item> GraphNavigate, GraphPalette (\<open>GraphEditorPage.tsx\<close>, \<open>PageTabs.tsx\<close>, \<open>CheckerPanel.tsx\<close>): where a jump to a
    finding ends, tabs, rows of findings, the groups of the palette.
  \<^item> DeviceTypes (\<open>components/device/types.ts\<close>, \<open>BindingProperties.tsx\<close>, \<open>StationBar.tsx\<close>): labels, the form of a
    point and its payload, the drafts of a station. PointBoard (\<open>PointBoard.tsx\<close>): lanes of channel cards,
    picking, menus and the edits of many points at once.
  \<^item> DevicePage, DeviceLaws (\<open>pages/DevicePage.tsx\<close>): the service calls, the state of the page, every handler,
    and the effects that follow a render; what is sent when, what a failure leaves, what is shown.
  \<^item> BlockText, BlockHistory, BlockLaws (\<open>components/library/BlockEditor.tsx\<close>): escaping, the generated symbol
    and the frame of the source, with the text a browser reads from markup (\<open>shown_text\<close>: tags and references from left
    to right) as the measure of both the symbol and the colouring; fields, ports and the undo history, which refines
    a zipper; saving.
  \<^item> BlockSim, BlockSimLaws (the same file): symbols of ports, the stimulus made from the grid, the truth table
    with its script, runs and late answers.

  \<^item> GraphScreen, GraphScreenLaws (\<open>GraphEditorPage.tsx\<close>): the editor around its session, that is loading, the points of
    the station, saving the project, toolbar, palette and variables. A load is a chain of requests; the effect that
    starts it compares its dependencies, the identity of \<open>fail\<close> (a counter that a change of the language moves) and the
    path of the project, with those of the last time, and every load that was started goes on. What a new load drops,
    what the zoom can be, which block a drop finds. InspectorView, InspectorLaws (\<open>Inspector.tsx\<close>): the element that is shown, its forms, and the fields that
    keep the text they were mounted with. GraphPanels: what the stimulus and checker panels and the tabs show.
  \<^item> Highlight (\<open>BlockEditor.tsx\<close>): the regular expressions that colour source as scanners, and the locale
    \<open>highlighter\<close> under which a browser shows coloured source as it was typed (no colour cuts an escaped character),
    interpreted on the tokens of structured text.
    BlockScreen, BlockScreenLaws, BlockViews: the tabs and sections of the block editor, the two layers of its text
    areas, and its tables; what is shown and what is saved.
  \<^item> JsGroup, Requests: grouping rows by a key (the locale \<open>grouping\<close>, interpreted on the code's loops), what a
    page gets from the service (a reply, a refusal or nothing), the addresses and bodies of requests.
  \<^item> BlockShelf (\<open>components/library/BlockLibrary.tsx\<close>): the list of blocks with its filters, the requests it has
    under way and the editor it embeds. Libraries, LibraryLaws (\<open>pages/LibraryPage.tsx\<close>, \<open>LibraryListPanel.tsx\<close>,
    \<open>LibraryManager.tsx\<close>): libraries and their blocks, deletions that overlap, denials.
  \<^item> MonitorTypes, MonitorParts, MonitorPage, MonitorLaws (\<open>components/monitor\<close>, \<open>pages/MonitorPage.tsx\<close>): how a
    typed value becomes the number or truth value that is sent, the watch table, the inspector of a variable,
    the controls of forces, the parameter editor, and the page with its subscriptions and pending calls.
  \<^item> Waveform (\<open>pages/WaveformPage.tsx\<close>), Download (\<open>pages/DownloadPage.tsx\<close>): channels with their samples and bars
    and the subscription to the bus; the stages of a deployment with their timer.
  \<^item> ContextMenu, DeviceTree (\<open>ContextMenu.tsx\<close>, \<open>HardwareTree.tsx\<close>, \<open>ExternalVarTable.tsx\<close>): menus with inline
    forms, the tree of modules and the table of points, which send the events of DevicePage.
  \<^item> EventBus (\<open>lib/eventBus.ts\<close>): sets of handlers as objects of a store, the walk of \<open>emit\<close> over a live set, and
    the locale \<open>publish_subscribe\<close>. Toasts (\<open>components/ui/Toast.tsx\<close>): messages and their timers as a step
    relation.
  \<^item> Shell (\<open>lib\<close>, \<open>main.tsx\<close>, \<open>components/IdeShell.tsx\<close>, \<open>MenuBar.tsx\<close>, \<open>WorkflowProgress.tsx\<close>): the service
    client, shortcuts, texts, startup, menus, navigation and the work stages. Launcher
    (\<open>project/ProjectProvider.tsx\<close>, \<open>pages/HomePage.tsx\<close>): the open project, its panels, new blocks. LauncherView:
    what the start page and its panels show.
  \<^item> AppFrame, AppFrameLaws (\<open>main.tsx\<close>, \<open>App.tsx\<close>, \<open>IdeShell.tsx\<close>, \<open>HomePage.tsx\<close>, \<open>ProjectProvider.tsx\<close>): the start,
    the routes and the frame as one state machine over the parts of Shell and Launcher, with requests whose answers
    and state reads come in any order; its invariant, that a panel asks once, and that the state read last wins
    over a newer project. Wiring: the handlers the pages keep on the event bus while the frame
    shows them, and which events are heard by whom.
  \<^item> TextsZh, TextsEn, Texts (\<open>lib/i18n/translations.ts\<close>): every text in both languages, one definition per group of the
    source, and that no key is missing in either. Widgets (\<open>components/ui\<close>): fields and notices.
  \<^item> StEditor (\<open>src/veri-ide/frontend/public/editor.js\<close>): the older editor page with its tokenizer rules and its build.

  Conventions. A React component is a record of its \<open>useState\<close> and \<open>useRef\<close> values; a handler is a function
  from state to state, and returns the requests it makes. What \<open>useEffect\<close> does runs after the handler. An
  update that is a function of the previous state is applied at once, except where the source reads a variable
  of the closure after setting it: then the old value is read, as in the code. A request and its answer are two
  steps wherever something may happen between them; in DevicePage, where a handler awaits its requests one
  after the other, a handler is one step over a world of which the service, a parameter, is a function. Errors
  are the left side of a sum. The translation function \<open>t\<close> and the collation of \<open>localeCompare\<close> are
  parameters. Confirmation dialogs are boolean arguments. A call that is under way keeps the values its closure
  captured, so that answers may come in any order and find the page changed. Members of a block that the editor
  does not know are left out of the bodies of requests; of exported files only the names are modelled. What a component displays is a view record with the
  texts, marks and enabled buttons; colours that carry a meaning are kept as names.

  Representation. Strings are lists of UTF-8 bytes; white space, letter case and the characters that a symbol
  may contain are those of ASCII: a character beyond ASCII becomes several underscores in a symbol where the source
  makes one, and an upper case that is ASCII only in JavaScript is not taken; no property speaks of such names.
  Numbers are exact rationals with NaN and the infinities, without rounding to binary floating point except for the
  zoom, whose steps are computed in doubles; the shifts of the truth table are on 32-bit words. Distances are compared as squares.
  The exponential that fades the samples of a channel and the decimal digits of
  a fraction are parameters. Objects keep the order of insertion; numeric keys and \<open>__proto__\<close> are not treated apart. Sorting is stable.

  Bounds. Emitting an event may not return and is an option. The search for a free name and the search for a free
  suffix end because finitely many names are taken. Two loops of number printing carry a bound: \<open>find_scale\<close>, the
  number of decimals, and \<open>find_lead\<close>, the place of the first digit, try at most 1074 places, which is enough for
  every double (theorem \<open>find_scale_spec\<close>; \<open>decimal_num\<close> is the condition). The other loops of printing end because
  the number gets smaller. The history holds 80 states; the laws of the size of the truth table hold up to 30 boolean
  inputs, beyond which \<open>1 << n\<close> overflows.

  Not modelled: styling and the layout of the pages; the limit on the number of arguments of \<open>Math.max(...)\<close>, which makes the
  bars of the waveform page and the suggestion of a channel throw for very long arrays (\<open>Waveform.bar_height\<close>,
  \<open>DevicePage.suggestedFirstChannel\<close>); the back button of the browser, and paths that are typed by hand instead of
  navigated to. What lies under \<open>.qoder\<close> are reports that a tool has
  put beside the program, with the code that draws them; it is no part of the program. React, the router, the code editor component and the browser are libraries: what the
  source relies on is written into the definitions that call them. The Python backend, the C runtime, the Coq
  development and the desktop shell are in other languages; the services are parameters here.
\<close>

end
